(* ===== verification/Prelude.thy ===== *)
theory Prelude
  imports Main
begin

text \<open>
  Shared prelude of the development: the exceptions the Python code raises, results as a sum
  of an exception and a value, and the effect type of the stateful code (a state transformer
  that may raise), with its bind, its exception handler and a small Hoare logic over it.
  A Python exception keeps the state as it was at the raise, as in \<open>ef_bind\<close>: an effect
  performed before a \<open>raise\<close> is not rolled back.

  An exception carries the fixed text of its message; the numbers and object dumps that the
  source interpolates into the message are left out, since no code reads them back.
\<close>

section \<open>Collections of rules\<close>

named_theorems ef_rule \<open>triples of the effectful operations\<close>
named_theorems gate_simp \<open>unfolding rules of the safety gates\<close>

section \<open>Exceptions\<close>

datatype exn =
    ValueError string
  | TypeError string
  | KeyError string
  | ZeroDivisionError
  | OverflowError
  | IllegalStateTransition string
  | OrderBlockedError string
  | PersistenceError string
  | SafetyCheckError string
  | KillSwitchActiveError string
  | MarketClosedError string
  | StaleDataError string
  | DailyLossLimitError string
  | OrderSubmissionError string
  | AmbiguousOrderError string
  | AccountingInvariantError string
  | PaperBrokerError string
  | AllocationInvariantError string
  | RiskEngineError string
  | ReconciliationError string
  | KillSwitchActivationError string
  | LiveTradingBlocked string
  | PyExn string string

text \<open>The subclasses of \<open>SafetyCheckError\<close> (\<open>except SafetyCheckError\<close> catches these).\<close>

fun is_safety_error :: "exn \<Rightarrow> bool" where
  "is_safety_error (SafetyCheckError _) = True"
| "is_safety_error (KillSwitchActiveError _) = True"
| "is_safety_error (MarketClosedError _) = True"
| "is_safety_error (StaleDataError _) = True"
| "is_safety_error (DailyLossLimitError _) = True"
| "is_safety_error _ = False"

text \<open>\<open>str(exc)\<close>: the message of an exception.\<close>

fun exn_msg :: "exn \<Rightarrow> string" where
  "exn_msg (ValueError m) = m"
| "exn_msg (TypeError m) = m"
| "exn_msg (KeyError m) = m"
| "exn_msg ZeroDivisionError = ''division by zero''"
| "exn_msg OverflowError = ''overflow''"
| "exn_msg (IllegalStateTransition m) = m"
| "exn_msg (OrderBlockedError m) = m"
| "exn_msg (PersistenceError m) = m"
| "exn_msg (SafetyCheckError m) = m"
| "exn_msg (KillSwitchActiveError m) = m"
| "exn_msg (MarketClosedError m) = m"
| "exn_msg (StaleDataError m) = m"
| "exn_msg (DailyLossLimitError m) = m"
| "exn_msg (OrderSubmissionError m) = m"
| "exn_msg (AmbiguousOrderError m) = m"
| "exn_msg (AccountingInvariantError m) = m"
| "exn_msg (PaperBrokerError m) = m"
| "exn_msg (AllocationInvariantError m) = m"
| "exn_msg (RiskEngineError m) = m"
| "exn_msg (ReconciliationError m) = m"
| "exn_msg (KillSwitchActivationError m) = m"
| "exn_msg (LiveTradingBlocked m) = m"
| "exn_msg (PyExn _ m) = m"

section \<open>Results: an exception or a value\<close>

type_synonym 'a res = "exn + 'a"

definition res_bind :: "'a res \<Rightarrow> ('a \<Rightarrow> 'b res) \<Rightarrow> 'b res" where
  "res_bind r f = (case r of Inl e \<Rightarrow> Inl e | Inr x \<Rightarrow> f x)"

lemma res_bind_simps [simp]:
  "res_bind (Inl e) f = Inl e"
  "res_bind (Inr x) f = f x"
  by (simp_all add: res_bind_def)

lemma res_bind_eq_Inr [simp]:
  "res_bind r f = Inr y \<longleftrightarrow> (\<exists>x. r = Inr x \<and> f x = Inr y)"
  by (cases r) auto

text \<open>\<open>guard b e\<close> is \<open>if b: raise e\<close>.\<close>

definition raise_if :: "bool \<Rightarrow> exn \<Rightarrow> unit res" where
  "raise_if b e = (if b then Inl e else Inr ())"

lemma raise_if_Inr [simp]: "raise_if b e = Inr u \<longleftrightarrow> \<not> b"
  by (simp add: raise_if_def)

lemma raise_if_simps [simp]:
  "raise_if True e = Inl e"
  "raise_if False e = Inr ()"
  by (simp_all add: raise_if_def)

section \<open>Effects: a state transformer that may raise\<close>

type_synonym ('s, 'a) ef = "'s \<Rightarrow> 'a res \<times> 's"

definition ef_return :: "'a \<Rightarrow> ('s, 'a) ef" where
  "ef_return x = (\<lambda>s. (Inr x, s))"

definition ef_raise :: "exn \<Rightarrow> ('s, 'a) ef" where
  "ef_raise e = (\<lambda>s. (Inl e, s))"

definition ef_lift :: "'a res \<Rightarrow> ('s, 'a) ef" where
  "ef_lift r = (\<lambda>s. (r, s))"

definition ef_get :: "('s \<Rightarrow> 'a) \<Rightarrow> ('s, 'a) ef" where
  "ef_get f = (\<lambda>s. (Inr (f s), s))"

definition ef_modify :: "('s \<Rightarrow> 's) \<Rightarrow> ('s, unit) ef" where
  "ef_modify f = (\<lambda>s. (Inr (), f s))"

definition ef_bind :: "('s, 'a) ef \<Rightarrow> ('a \<Rightarrow> ('s, 'b) ef) \<Rightarrow> ('s, 'b) ef" where
  "ef_bind m f = (\<lambda>s. case m s of (Inl e, s') \<Rightarrow> (Inl e, s') | (Inr x, s') \<Rightarrow> f x s')"

definition ef_seq :: "('s, 'a) ef \<Rightarrow> ('s, 'b) ef \<Rightarrow> ('s, 'b) ef" where
  "ef_seq m n = ef_bind m (\<lambda>_. n)"

text \<open>\<open>try: m except Exception as exc: h\<close>, as the reified outcome of \<open>m\<close>.\<close>

definition ef_try :: "('s, 'a) ef \<Rightarrow> ('s, 'a res) ef" where
  "ef_try m = (\<lambda>s. case m s of (r, s') \<Rightarrow> (Inr r, s'))"

text \<open>A loop over a list whose body may raise.\<close>

fun ef_iter :: "('a \<Rightarrow> ('s, 'b) ef) \<Rightarrow> 'a list \<Rightarrow> ('s, 'b list) ef" where
  "ef_iter f [] = ef_return []"
| "ef_iter f (x # xs) = ef_bind (f x) (\<lambda>y. ef_bind (ef_iter f xs) (\<lambda>ys. ef_return (y # ys)))"

lemmas ef_defs = ef_return_def ef_raise_def ef_lift_def ef_get_def ef_modify_def
  ef_bind_def ef_seq_def ef_try_def

section \<open>A Hoare logic for effects\<close>

text \<open>
  \<open>triple P m Q E\<close>: from a state satisfying \<open>P\<close>, \<open>m\<close> ends in \<open>Q x\<close> if it returns
  \<open>x\<close> and in \<open>E e\<close> if it raises \<open>e\<close>. Effects are total functions, so this is total
  correctness.
\<close>

definition triple ::
  "('s \<Rightarrow> bool) \<Rightarrow> ('s, 'a) ef \<Rightarrow> ('a \<Rightarrow> 's \<Rightarrow> bool) \<Rightarrow> (exn \<Rightarrow> 's \<Rightarrow> bool) \<Rightarrow> bool" where
  "triple P m Q E \<longleftrightarrow>
     (\<forall>s. P s \<longrightarrow> (case m s of (Inl e, s') \<Rightarrow> E e s' | (Inr x, s') \<Rightarrow> Q x s'))"

lemma tripleI:
  assumes "\<And>s x s'. P s \<Longrightarrow> m s = (Inr x, s') \<Longrightarrow> Q x s'"
    and "\<And>s e s'. P s \<Longrightarrow> m s = (Inl e, s') \<Longrightarrow> E e s'"
  shows "triple P m Q E"
  using assms by (auto simp: triple_def split: prod.splits sum.splits)

lemma tripleD_ok: "triple P m Q E \<Longrightarrow> P s \<Longrightarrow> m s = (Inr x, s') \<Longrightarrow> Q x s'"
  by (force simp: triple_def)

lemma tripleD_exn: "triple P m Q E \<Longrightarrow> P s \<Longrightarrow> m s = (Inl e, s') \<Longrightarrow> E e s'"
  by (force simp: triple_def)

lemma triple_conseq:
  assumes "triple P' m Q' E'"
    and "\<And>s. P s \<Longrightarrow> P' s"
    and "\<And>x s. Q' x s \<Longrightarrow> Q x s"
    and "\<And>e s. E' e s \<Longrightarrow> E e s"
  shows "triple P m Q E"
  using assms by (fastforce simp: triple_def split: prod.splits sum.splits)

lemma triple_pre: "triple P' m Q E \<Longrightarrow> (\<And>s. P s \<Longrightarrow> P' s) \<Longrightarrow> triple P m Q E"
  by (auto simp: triple_def)

lemma triple_return: "triple (Q x) (ef_return x) Q E"
  by (simp add: triple_def ef_return_def)

lemma triple_raise: "triple (E e) (ef_raise e) Q E"
  by (simp add: triple_def ef_raise_def)

lemma triple_lift:
  "triple (\<lambda>s. case r of Inl e \<Rightarrow> E e s | Inr x \<Rightarrow> Q x s) (ef_lift r) Q E"
  by (auto simp: triple_def ef_lift_def split: sum.splits)

lemma triple_get: "triple (\<lambda>s. Q (f s) s) (ef_get f) Q E"
  by (simp add: triple_def ef_get_def)

lemma triple_modify: "triple (\<lambda>s. Q () (f s)) (ef_modify f) Q E"
  by (simp add: triple_def ef_modify_def)

lemma triple_bind:
  assumes "triple P m R E" and "\<And>x. triple (R x) (f x) Q E"
  shows "triple P (ef_bind m f) Q E"
  using assms by (fastforce simp: triple_def ef_bind_def split: prod.splits sum.splits)

lemma triple_seq:
  assumes "triple P m (\<lambda>_. R) E" and "triple R n Q E"
  shows "triple P (ef_seq m n) Q E"
  unfolding ef_seq_def by (rule triple_bind [OF assms(1)]) (rule assms(2))

lemma triple_try:
  assumes "triple P m (\<lambda>x. Q (Inr x)) (\<lambda>e. Q (Inl e))"
  shows "triple P (ef_try m) Q E"
  using assms unfolding triple_def ef_try_def
  by (auto split: prod.splits sum.splits) (metis sumE)

lemma triple_if:
  assumes "b \<Longrightarrow> triple P m Q E" and "\<not> b \<Longrightarrow> triple P n Q E"
  shows "triple P (if b then m else n) Q E"
  using assms by simp

lemma triple_conj:
  assumes "triple P m Q E" and "triple P' m Q' E'"
  shows "triple (\<lambda>s. P s \<and> P' s) m (\<lambda>x s. Q x s \<and> Q' x s) (\<lambda>e s. E e s \<and> E' e s)"
  using assms by (fastforce simp: triple_def split: prod.splits sum.splits)

text \<open>Binding a read or a pure result.\<close>

lemma triple_bind_get:
  assumes "\<And>x. triple (\<lambda>s. P s \<and> g s = x) (f x) Q E"
  shows "triple P (ef_bind (ef_get g) f) Q E"
  using assms by (fastforce simp: triple_def ef_bind_def ef_get_def)

lemma triple_bind_lift:
  assumes "\<And>x. r = Inr x \<Longrightarrow> triple P (f x) Q E" and "\<And>s e. P s \<Longrightarrow> E e s"
  shows "triple P (ef_bind (ef_lift r) f) Q E"
  using assms by (cases r) (auto simp: triple_def ef_bind_def ef_lift_def)

lemma triple_bind_try:
  assumes "triple P m (\<lambda>_. R) (\<lambda>_. R)" and "\<And>x. triple R (f x) Q E"
  shows "triple P (ef_bind (ef_try m) f) Q E"
  by (rule triple_bind [OF triple_try assms(2)]) (rule assms(1))

lemma triple_ret: "(\<And>s. P s \<Longrightarrow> Q x s) \<Longrightarrow> triple P (ef_return x) Q E"
  by (simp add: triple_def ef_return_def)

lemma triple_step: "(\<And>s. P s \<Longrightarrow> Q () (f s)) \<Longrightarrow> triple P (ef_modify f) Q E"
  by (simp add: triple_def ef_modify_def)

lemma triple_snd:
  assumes "triple P m (\<lambda>_. Q) (\<lambda>_. Q)" and "P s"
  shows "Q (snd (m s))"
  using assms by (cases "m s"; cases "fst (m s)") (auto simp: triple_def dest!: spec [of _ s])

lemma triple_iter:
  assumes "\<And>x. x \<in> set xs \<Longrightarrow> triple I (f x) (\<lambda>_. I) (\<lambda>_. I)"
  shows "triple I (ef_iter f xs) (\<lambda>_. I) (\<lambda>_. I)"
  using assms
proof (induction xs)
  case Nil
  show ?case by (auto simp: triple_def ef_return_def)
next
  case (Cons x xs)
  have hd: "triple I (f x) (\<lambda>_. I) (\<lambda>_. I)" using Cons.prems by simp
  have tl: "triple I (ef_iter f xs) (\<lambda>_. I) (\<lambda>_. I)" using Cons by simp
  show ?case
    unfolding ef_iter.simps
    by (rule triple_bind [OF hd], rule triple_bind [OF tl])
       (simp add: triple_def ef_return_def)
qed

text \<open>An invariant of an effect: kept whether it returns or raises.\<close>

definition keeps :: "('s \<Rightarrow> bool) \<Rightarrow> ('s, 'a) ef \<Rightarrow> bool" where
  "keeps I m \<longleftrightarrow> (\<forall>s. I s \<longrightarrow> I (snd (m s)))"

lemma keepsD: "keeps I m \<Longrightarrow> I s \<Longrightarrow> I (snd (m s))"
  by (simp add: keeps_def)

lemma keeps_triple: "keeps I m \<longleftrightarrow> triple I m (\<lambda>_. I) (\<lambda>_. I)"
  unfolding keeps_def triple_def by (simp add: case_prod_beta' split: sum.split)

lemma keeps_return [intro, simp]: "keeps I (ef_return x)"
  by (simp add: keeps_def ef_return_def)

lemma keeps_raise [intro, simp]: "keeps I (ef_raise e)"
  by (simp add: keeps_def ef_raise_def)

lemma keeps_lift [intro, simp]: "keeps I (ef_lift r)"
  by (simp add: keeps_def ef_lift_def)

lemma keeps_get [intro, simp]: "keeps I (ef_get f)"
  by (simp add: keeps_def ef_get_def)

lemma keeps_modify [intro]: "(\<And>s. I s \<Longrightarrow> I (f s)) \<Longrightarrow> keeps I (ef_modify f)"
  by (simp add: keeps_def ef_modify_def)

lemma keeps_bind [intro]:
  assumes "keeps I m" and "\<And>x. keeps I (f x)"
  shows "keeps I (ef_bind m f)"
  using assms by (fastforce simp: keeps_def ef_bind_def split: prod.splits sum.splits)

lemma keeps_seq [intro]: "keeps I m \<Longrightarrow> keeps I n \<Longrightarrow> keeps I (ef_seq m n)"
  unfolding ef_seq_def by (rule keeps_bind)

lemma keeps_try [intro]: "keeps I m \<Longrightarrow> keeps I (ef_try m)"
  by (fastforce simp: keeps_def ef_try_def split: prod.splits)

lemma keeps_if [intro]: "(b \<Longrightarrow> keeps I m) \<Longrightarrow> (\<not> b \<Longrightarrow> keeps I n) \<Longrightarrow> keeps I (if b then m else n)"
  by simp

lemma keeps_iter [intro]:
  assumes "\<And>x. x \<in> set xs \<Longrightarrow> keeps I (f x)"
  shows "keeps I (ef_iter f xs)"
  using assms by (induction xs) auto

section \<open>Strings, options and lists as the code uses them\<close>

text \<open>Python's \<open>a or b\<close> on an optional string: \<open>None\<close> and the empty string are false.\<close>

definition str_or :: "string option \<Rightarrow> string \<Rightarrow> string" where
  "str_or a b = (case a of None \<Rightarrow> b | Some s \<Rightarrow> if s = [] then b else s)"

lemma str_or_simps [simp]:
  "str_or None b = b"
  "str_or (Some []) b = b"
  "s \<noteq> [] \<Longrightarrow> str_or (Some s) b = s"
  by (simp_all add: str_or_def)

text \<open>\<open>s.upper()\<close> and \<open>s.strip()\<close> on ASCII text.\<close>

definition upper_char :: "char \<Rightarrow> char" where
  "upper_char c = (let n = (of_char c :: nat) in
     if 97 \<le> n \<and> n \<le> 122 then char_of (n - 32) else c)"

definition lower_char :: "char \<Rightarrow> char" where
  "lower_char c = (let n = (of_char c :: nat) in
     if 65 \<le> n \<and> n \<le> 90 then char_of (n + 32) else c)"

definition py_upper :: "string \<Rightarrow> string" where
  "py_upper s = map upper_char s"

definition py_lower :: "string \<Rightarrow> string" where
  "py_lower s = map lower_char s"

fun contains :: "string \<Rightarrow> string \<Rightarrow> bool" where
  "contains needle [] \<longleftrightarrow> needle = []"
| "contains needle (c # cs) \<longleftrightarrow> take (length needle) (c # cs) = needle \<or> contains needle cs"

definition is_space :: "char \<Rightarrow> bool" where
  "is_space c = (let n = (of_char c :: nat) in n = 32 \<or> (9 \<le> n \<and> n \<le> 13) \<or> (28 \<le> n \<and> n \<le> 31))"

definition py_strip :: "string \<Rightarrow> string" where
  "py_strip s = rev (dropWhile is_space (rev (dropWhile is_space s)))"

definition is_prefix :: "string \<Rightarrow> string \<Rightarrow> bool" where
  "is_prefix p s \<longleftrightarrow> take (length p) s = p"

lemma is_prefix_self [simp]: "is_prefix p p"
  by (simp add: is_prefix_def)

lemma is_prefix_append [simp]: "is_prefix p (p @ s)"
  by (simp add: is_prefix_def)


text \<open>\<open>str(n)\<close> of an integer.\<close>

definition digit_char :: "nat \<Rightarrow> char" where
  "digit_char d = char_of (48 + d)"

fun nat_str :: "nat \<Rightarrow> string" where
  "nat_str n = (if n < 10 then [digit_char n] else nat_str (n div 10) @ [digit_char (n mod 10)])"

definition int_str :: "int \<Rightarrow> string" where
  "int_str n = (if n < 0 then CHR 0x2D # nat_str (nat (- n)) else nat_str (nat n))"

end
