(* ===== verification/Py_Float.thy ===== *)
theory Py_Float
  imports Prelude Complex_Main
begin

text \<open>
  Python's \<open>float\<close>: IEEE 754 binary64. A finite value is the rational it denotes; an
  arithmetic operation rounds the exact result to the nearest double, ties to even
  (\<open>rnd64\<close>), and overflows to an infinity. Comparisons with \<open>NaN\<close> are false, as the
  code's own comments stress. The sign of zero is not represented: the code cannot observe it
  (Python raises \<open>ZeroDivisionError\<close> on a division by either zero).
\<close>

section \<open>Rounding a rational to a double\<close>

function ilog2 :: "int \<Rightarrow> int" where
  "ilog2 n = (if n < 2 then 0 else 1 + ilog2 (n div 2))"
  by pat_completeness auto
termination
  by (relation "measure nat") auto

declare ilog2.simps [simp del]

lemma ilog2_nonneg: "0 \<le> ilog2 n"
  by (induction n rule: ilog2.induct) (subst ilog2.simps, simp)

lemma ilog2_bounds: "0 < n \<Longrightarrow> 2 ^ nat (ilog2 n) \<le> n \<and> n < 2 ^ Suc (nat (ilog2 n))"
proof (induction n rule: ilog2.induct)
  case (1 n)
  show ?case
  proof (cases "n < 2")
    case True
    with 1 show ?thesis by (simp add: ilog2.simps [of n])
  next
    case False
    define t where "t = (2::int) ^ nat (ilog2 (n div 2))"
    have "t \<le> n div 2 \<and> n div 2 < 2 * t" using False 1 by (simp add: t_def)
    then have "2 * t \<le> n \<and> n < 2 * (2 * t)" by linarith
    moreover have "nat (ilog2 n) = Suc (nat (ilog2 (n div 2)))"
      using False ilog2_nonneg [of "n div 2"] by (subst ilog2.simps) (simp add: nat_add_distrib)
    ultimately show ?thesis by (simp add: t_def)
  qed
qed

text \<open>Powers of two with any exponent, computed over the integers.\<close>

definition pow2 :: "int \<Rightarrow> rat" where
  "pow2 k = (if 0 \<le> k then of_int (2 ^ nat k) else 1 / of_int (2 ^ nat (- k)))"

lemma pow2_powi: "pow2 k = 2 powi k"
  by (simp add: pow2_def power_int_def power_divide inverse_eq_divide)

text \<open>The binary exponent of a positive rational.\<close>

definition flog2 :: "rat \<Rightarrow> int" where
  "flog2 x = (case quotient_of x of (p, q) \<Rightarrow>
     let k = ilog2 p - ilog2 q
     in if x < pow2 k then k - 1 else k)"

lemma flog2_bounds:
  assumes "0 < x"
  shows "2 powi flog2 x \<le> x \<and> x < 2 powi (flog2 x + 1)"
proof -
  obtain p q where pq: "quotient_of x = (p, q)" by (cases "quotient_of x")
  have q: "0 < q" using quotient_of_denom_pos [OF pq] .
  have x: "x = of_int p / of_int q" using quotient_of_div [OF pq] .
  have p: "0 < p" using assms q x by (simp add: zero_less_divide_iff)
  define a where "a = nat (ilog2 p)"
  define b where "b = nat (ilog2 q)"
  have ab: "int a = ilog2 p" "int b = ilog2 q" by (simp_all add: a_def b_def ilog2_nonneg)
  have pa: "2 ^ a \<le> p" "p < 2 * 2 ^ a" using ilog2_bounds [OF p] by (simp_all add: a_def)
  have qb: "2 ^ b \<le> q" "q < 2 * 2 ^ b" using ilog2_bounds [OF q] by (simp_all add: b_def)
  have pa': "(2::rat) ^ a \<le> of_int p" "of_int p < (2::rat) * 2 ^ a"
    using pa [folded of_int_le_iff [where 'a = rat] of_int_less_iff [where 'a = rat]] by simp_all
  have qb': "(2::rat) ^ b \<le> of_int q" "of_int q < (2::rat) * 2 ^ b"
    using qb [folded of_int_le_iff [where 'a = rat] of_int_less_iff [where 'a = rat]] by simp_all
  have k: "(2::rat) powi (int a - int b) = 2 ^ a / 2 ^ b"
    by (simp add: power_int_diff)
  have q': "(0::rat) < of_int q" using q by simp
  have up: "x < 2 * (2 ^ a / 2 ^ b)"
  proof -
    have "of_int p * 2 ^ b < 2 * 2 ^ a * (2::rat) ^ b" using pa'(2) by simp
    also have "\<dots> \<le> 2 * 2 ^ a * of_int q" using qb'(1) by simp
    finally show ?thesis unfolding x using q' by (simp add: field_simps)
  qed
  have lo: "2 ^ a / 2 ^ b / 2 \<le> x"
  proof -
    have "(2::rat) ^ a * of_int q \<le> 2 ^ a * (2 * 2 ^ b)" using qb'(2) by simp
    also have "\<dots> \<le> of_int p * (2 * 2 ^ b)" using pa'(1) by simp
    finally show ?thesis unfolding x using q' by (simp add: field_simps)
  qed
  have fl: "flog2 x = (if x < 2 powi (int a - int b) then int a - int b - 1 else int a - int b)"
    by (simp add: flog2_def pq ab Let_def pow2_powi)
  show ?thesis
  proof (cases "x < 2 powi (int a - int b)")
    case True
    then have "flog2 x = int a - int b - 1" using fl by simp
    moreover have "(2::rat) powi (int a - int b - 1) = 2 ^ a / 2 ^ b / 2"
      by (simp add: power_int_diff)
    ultimately show ?thesis using True lo by simp
  next
    case False
    moreover have "(2::rat) powi (int a - int b + 1) = 2 * (2 ^ a / 2 ^ b)"
      by (simp add: power_int_add k [symmetric])
    ultimately show ?thesis using up fl by simp
  qed
qed

lemma flog2_ge: "0 < x \<Longrightarrow> 2 powi k \<le> x \<Longrightarrow> k \<le> flog2 x"
proof (rule ccontr)
  assume "0 < x" "2 powi k \<le> x" "\<not> k \<le> flog2 x"
  then have "(2::rat) powi (flog2 x + 1) \<le> 2 powi k" by (intro power_int_increasing) auto
  with flog2_bounds [OF \<open>0 < x\<close>] \<open>2 powi k \<le> x\<close> show False by simp
qed

lemma flog2_mono: "0 < x \<Longrightarrow> x \<le> y \<Longrightarrow> flog2 x \<le> flog2 y"
  using flog2_bounds [of x] by (intro flog2_ge) auto

text \<open>Round a rational to the nearest integer, ties to even.\<close>

definition rne :: "rat \<Rightarrow> int" where
  "rne y = (let f = \<lfloor>y\<rfloor>; d = y - of_int f in
     if d < 1/2 then f else if 1/2 < d then f + 1 else if even f then f else f + 1)"

lemma rne_of_int [simp]: "rne (of_int n) = n"
  by (simp add: rne_def Let_def)

lemma rne_0 [simp]: "rne 0 = 0"
  using rne_of_int [of 0] by simp

lemma rne_err: "\<bar>of_int (rne y) - y\<bar> \<le> 1/2"
proof -
  have "of_int \<lfloor>y\<rfloor> \<le> y" "y < of_int \<lfloor>y\<rfloor> + 1" by linarith+
  then show ?thesis unfolding rne_def Let_def abs_if by (simp add: algebra_simps) linarith?
qed

lemma rne_mono: "x \<le> y \<Longrightarrow> rne x \<le> rne y"
proof (cases "\<lfloor>x\<rfloor> = \<lfloor>y\<rfloor>")
  case True
  assume "x \<le> y"
  with True show ?thesis by (auto simp: rne_def Let_def)
next
  case False
  assume "x \<le> y"
  then have "\<lfloor>x\<rfloor> + 1 \<le> \<lfloor>y\<rfloor>" using False floor_mono [of x y] by linarith
  then show ?thesis by (auto simp: rne_def Let_def)
qed

lemma rne_le: "y \<le> of_int n \<Longrightarrow> rne y \<le> n"
  using rne_mono [of y "of_int n"] by simp

lemma rne_ge: "of_int n \<le> y \<Longrightarrow> n \<le> rne y"
  using rne_mono [of "of_int n" y] by simp

lemma rne_neg: "rne (- y) = - rne y"
proof (cases "y = of_int \<lfloor>y\<rfloor>")
  case True
  then show ?thesis by (metis of_int_minus rne_of_int)
next
  case False
  then have "\<lfloor>- y\<rfloor> = - \<lfloor>y\<rfloor> - 1"
    by (metis ceiling_altdef ceiling_def diff_minus_eq_add minus_diff_eq minus_equation_iff
        uminus_add_conv_diff)
  then show ?thesis by (auto simp: rne_def Let_def)
qed

text \<open>The exponent of the last place of the double next to \<open>x\<close>, subnormals included.\<close>

definition ulp_exp :: "rat \<Rightarrow> int" where
  "ulp_exp x = max (-1074) (flog2 \<bar>x\<bar> - 52)"

definition rnd64 :: "rat \<Rightarrow> rat" where
  "rnd64 x = (if x = 0 then 0 else
     let u = pow2 (ulp_exp x) in of_int (rne (x / u)) * u)"

lemma rnd64_powi: "x \<noteq> 0 \<Longrightarrow> rnd64 x = of_int (rne (x / 2 powi ulp_exp x)) * 2 powi ulp_exp x"
  by (simp add: rnd64_def pow2_powi Let_def)

lemma rnd64_0 [simp]: "rnd64 0 = 0"
  by (simp add: rnd64_def)

lemma rnd64_neg: "rnd64 (- x) = - rnd64 x"
  by (simp add: rnd64_def ulp_exp_def rne_neg Let_def)

text \<open>A multiple of the last place is kept.\<close>

lemma rnd64_multiple:
  assumes "x = of_int n * 2 powi ulp_exp x"
  shows "rnd64 x = x"
proof -
  have "x / 2 powi ulp_exp x = of_int n" using assms by (metis nonzero_mult_div_cancel_right
    power_int_not_zero zero_neq_numeral)
  then show ?thesis using assms by (cases "x = 0") (auto simp: rnd64_powi)
qed

lemma rnd64_mono_pos:
  assumes x: "0 < x" and xy: "x \<le> y"
  shows "rnd64 x \<le> rnd64 y"
proof -
  have y: "0 < y" using x xy by simp
  define e where "e = ulp_exp x"
  define f where "f = ulp_exp y"
  have ef: "e \<le> f" using flog2_mono [OF x xy] x y by (simp add: e_def f_def ulp_exp_def)
  have rx: "rnd64 x = of_int (rne (x / 2 powi e)) * 2 powi e"
    and ry: "rnd64 y = of_int (rne (y / 2 powi f)) * 2 powi f"
    using x y by (simp_all add: rnd64_powi e_def f_def)
  show ?thesis
  proof (cases "e = f")
    case True
    then have "rne (x / 2 powi e) \<le> rne (y / 2 powi f)"
      using xy by (intro rne_mono) (simp add: divide_right_mono)
    then show ?thesis unfolding rx ry True by (simp add: mult_right_mono)
  next
    case False
    then have lt: "e < f" using ef by simp
    have f: "f = flog2 y - 52" "-1074 < f" using lt y by (auto simp: e_def f_def ulp_exp_def)
    have lx: "flog2 x < flog2 y" using lt f x by (auto simp: e_def ulp_exp_def)
    have top: "rnd64 x \<le> 2 powi flog2 y"
    proof -
      have "x \<le> 2 powi flog2 y"
      proof -
        have "x \<le> 2 powi (flog2 x + 1)" using flog2_bounds [OF x] by simp
        also have "\<dots> \<le> 2 powi flog2 y" using lx by (intro power_int_increasing) auto
        finally show ?thesis .
      qed
      then have "x / 2 powi e \<le> 2 powi flog2 y / 2 powi e" by (simp add: divide_right_mono)
      also have "\<dots> = 2 powi (flog2 y - e)" by (simp add: power_int_diff)
      also have "\<dots> = of_int (2 ^ nat (flog2 y - e))" using lt f by (simp add: power_int_def)
      finally have "rne (x / 2 powi e) \<le> 2 ^ nat (flog2 y - e)" by (rule rne_le)
      then have "rnd64 x \<le> of_int (2 ^ nat (flog2 y - e)) * 2 powi e"
        unfolding rx by (intro mult_right_mono) (simp_all only: of_int_le_iff zero_le_power_int
            zero_le_numeral)
      also have "\<dots> = 2 powi (flog2 y - e) * 2 powi e" using lt f by (simp add: power_int_def)
      also have "\<dots> = 2 powi flog2 y" by (simp flip: power_int_add)
      finally show ?thesis .
    qed
    have bot: "2 powi flog2 y \<le> rnd64 y"
    proof -
      have "of_int (2 ^ 52) = (2::rat) powi (flog2 y - f)" using f by (simp add: power_int_def)
      also have "\<dots> = 2 powi flog2 y / 2 powi f" by (simp add: power_int_diff)
      also have "\<dots> \<le> y / 2 powi f" using flog2_bounds [OF y] by (simp add: divide_right_mono)
      finally have "2 ^ 52 \<le> rne (y / 2 powi f)" by (rule rne_ge)
      then have "of_int (2 ^ 52) * 2 powi f \<le> rnd64 y"
        unfolding ry by (intro mult_right_mono) (simp_all only: of_int_le_iff zero_le_power_int
            zero_le_numeral)
      moreover have "of_int (2 ^ 52) * (2::rat) powi f = 2 powi flog2 y"
      proof -
        have "of_int (2 ^ 52) * (2::rat) powi f = 2 powi 52 * 2 powi f" by simp
        also have "\<dots> = 2 powi (52 + f)" by (subst power_int_add) simp_all
        finally show ?thesis using f(1) by simp
      qed
      ultimately show ?thesis by simp
    qed
    show ?thesis using top bot by simp
  qed
qed

lemma rnd64_nonneg: "0 \<le> x \<Longrightarrow> 0 \<le> rnd64 x"
proof (cases "x = 0")
  case False
  assume "0 \<le> x"
  then have "0 \<le> rne (x / 2 powi ulp_exp x)" by (intro rne_ge) simp
  then show ?thesis using False by (simp add: rnd64_powi)
qed simp

lemma rnd64_mono: "x \<le> y \<Longrightarrow> rnd64 x \<le> rnd64 y"
proof (cases "0 < x")
  case True
  assume "x \<le> y"
  with True show ?thesis by (rule rnd64_mono_pos)
next
  case False
  assume xy: "x \<le> y"
  show ?thesis
  proof (cases "y < 0")
    case True
    then have "rnd64 (- y) \<le> rnd64 (- x)" using xy by (intro rnd64_mono_pos) auto
    then show ?thesis by (simp add: rnd64_neg)
  next
    case y: False
    have "rnd64 x \<le> 0" using False rnd64_nonneg [of "- x"] by (simp add: rnd64_neg)
    also have "0 \<le> rnd64 y" using y by (intro rnd64_nonneg) simp
    finally show ?thesis .
  qed
qed

lemma rnd64_of_int:
  assumes "\<bar>n\<bar> \<le> 2 ^ 53"
  shows "rnd64 (of_int n) = of_int n"
proof -
  have pos: "rnd64 (of_int m) = of_int m" if m: "0 < m" "m \<le> 2 ^ 53" for m
  proof -
    let ?e = "ulp_exp (of_int m)"
    have m0: "(0::rat) < of_int m" using m by simp
    show ?thesis
    proof (cases "?e \<le> 0")
      case True
      have "(of_int m :: rat) = of_int (m * 2 ^ nat (- ?e)) * 2 powi ?e"
        using True by (auto simp: power_int_def power_divide inverse_eq_divide)
      then show ?thesis by (rule rnd64_multiple)
    next
      case False
      then have "53 \<le> flog2 (of_int m)" using m0 by (simp add: ulp_exp_def)
      then have "(2::rat) powi 53 \<le> 2 powi flog2 (of_int m)" by (intro power_int_increasing) auto
      also have "\<dots> \<le> of_int m" using flog2_bounds [OF m0] by simp
      finally have "(of_int (2 ^ 53) :: rat) \<le> of_int m" by simp
      then have m53: "m = 2 ^ 53" using m by (simp only: of_int_le_iff)
      have "rne (of_int m / 2 powi 1) = m div 2" unfolding m53 by (simp add: rne_def Let_def)
      moreover have "?e = 1"
      proof -
        have "flog2 (of_int m) < 54"
        proof (rule ccontr)
          assume "\<not> flog2 (of_int m) < 54"
          then have "(2::rat) powi 54 \<le> 2 powi flog2 (of_int m)"
            by (intro power_int_increasing) auto
          also have "\<dots> \<le> of_int m" using flog2_bounds [OF m0] by simp
          finally show False unfolding m53 by simp
        qed
        then show ?thesis using \<open>53 \<le> flog2 (of_int m)\<close> m0 by (simp add: ulp_exp_def)
      qed
      ultimately show ?thesis unfolding m53 by (simp add: rnd64_powi)
    qed
  qed
  show ?thesis
  proof (cases "n < 0")
    case True
    then show ?thesis using pos [of "- n"] assms rnd64_neg [of "of_int n"] by simp
  next
    case False
    then show ?thesis using pos [of n] assms by (cases "n = 0") auto
  qed
qed

lemma flog2_less: "0 < y \<Longrightarrow> flog2 y < k \<longleftrightarrow> y < 2 powi k"
proof
  assume y: "0 < y" and "flog2 y < k"
  then have "(2::rat) powi (flog2 y + 1) \<le> 2 powi k" by (intro power_int_increasing) auto
  then show "y < 2 powi k" using flog2_bounds [OF y] by simp
next
  assume y: "0 < y" and "y < 2 powi k"
  then show "flog2 y < k" using flog2_ge [OF y, of k] flog2_bounds [OF y]
    by (meson linorder_not_less order_trans power_int_increasing one_le_numeral)
qed

lemma flog2_powi [simp]: "flog2 (2 powi k) = k"
proof -
  have "flog2 (2 powi k) < k + 1" by (subst flog2_less) (simp_all add: power_int_strict_increasing)
  moreover have "k \<le> flog2 (2 powi k)" by (intro flog2_ge) simp_all
  ultimately show ?thesis by simp
qed

text \<open>Rounding is idempotent: a result of rounding is a double.\<close>

lemma rnd64_powi_of_two: "-1022 \<le> k \<Longrightarrow> rnd64 (2 powi k) = 2 powi k"
proof (rule rnd64_multiple)
  assume k: "-1022 \<le> k"
  have e: "ulp_exp (2 powi k) = k - 52" using k by (simp add: ulp_exp_def)
  have "(2::rat) powi k = 2 powi 52 * 2 powi (k - 52)" by (subst power_int_add [symmetric]) simp_all
  then show "(2::rat) powi k = of_int (2 ^ 52) * 2 powi ulp_exp (2 powi k)" unfolding e by simp
qed

lemma rnd64_idem_pos: "0 < x \<Longrightarrow> rnd64 (rnd64 x) = rnd64 x"
proof -
  assume x: "0 < x"
  define y where "y = rnd64 x"
  define e where "e = ulp_exp x"
  define m where "m = rne (x / 2 powi e)"
  have ym: "y = of_int m * 2 powi e" using x by (simp add: y_def m_def e_def rnd64_powi)
  show ?thesis
  proof (cases "y = 0 \<or> ulp_exp y \<le> e")
    case True
    show ?thesis
    proof (cases "y = 0")
      case False
      with True have le: "ulp_exp y \<le> e" by simp
      have "(2::rat) powi e = 2 powi (e - ulp_exp y) * 2 powi ulp_exp y"
        by (subst power_int_add [symmetric]) simp_all
      also have "(2::rat) powi (e - ulp_exp y) = of_int (2 ^ nat (e - ulp_exp y))"
        using le by (simp add: power_int_def)
      finally have "y = of_int (m * 2 ^ nat (e - ulp_exp y)) * 2 powi ulp_exp y" using ym by simp
      then show ?thesis unfolding y_def [symmetric] by (rule rnd64_multiple)
    qed (simp add: y_def)
  next
    case False
    have y: "0 < y" using False rnd64_nonneg [of x] x by (auto simp: y_def)
    have big: "e < ulp_exp y" using False by simp
    define j where "j = max (flog2 x + 1) (-1022)"
    have "x \<le> 2 powi (flog2 x + 1)" using flog2_bounds [OF x] by simp
    also have "\<dots> \<le> 2 powi j" by (intro power_int_increasing) (simp_all add: j_def)
    finally have "y \<le> rnd64 (2 powi j)" unfolding y_def by (rule rnd64_mono)
    then have yj: "y \<le> 2 powi j" by (simp add: rnd64_powi_of_two j_def)
    have u: "ulp_exp y = flog2 y - 52" "j \<le> flog2 y"
      using big x y by (auto simp: e_def ulp_exp_def j_def)
    have "(2::rat) powi j \<le> 2 powi flog2 y" using u by (intro power_int_increasing) auto
    with yj flog2_bounds [OF y] have "y = 2 powi flog2 y" by simp
    also have "(2::rat) powi flog2 y = 2 powi 52 * 2 powi (flog2 y - 52)"
      by (subst power_int_add [symmetric]) simp_all
    finally have "y = of_int (2 ^ 52) * 2 powi ulp_exp y" using u by simp
    then show ?thesis unfolding y_def [symmetric] by (rule rnd64_multiple)
  qed
qed

lemma rnd64_idem [simp]: "rnd64 (rnd64 x) = rnd64 x"
proof (cases "x < 0")
  case True
  then show ?thesis using rnd64_idem_pos [of "- x"] by (simp add: rnd64_neg)
next
  case False
  then show ?thesis using rnd64_idem_pos [of x] by (cases "x = 0") auto
qed

section \<open>The type of floats and its operations\<close>

datatype pyfloat = Fin rat | PInf | NInf | NaN

text \<open>The double nearest to an exact value: every literal and every result goes through it.\<close>

definition fl :: "rat \<Rightarrow> pyfloat" where
  "fl x = (let y = rnd64 x in
     if y = 0 \<or> flog2 \<bar>y\<bar> < 1024 then Fin y else if 0 < y then PInf else NInf)"

lemma fl_powi: "fl x = (let y = rnd64 x in
  if 2 ^ 1024 \<le> y then PInf else if y \<le> - (2 ^ 1024) then NInf else Fin y)"
proof -
  have "flog2 y < 1024 \<longleftrightarrow> y < 2 ^ 1024" if "0 < y" for y :: rat
    using flog2_less [OF that, of 1024] by (simp add: power_int_def)
  moreover have "(0::rat) < 2 ^ 1024" by simp
  ultimately show ?thesis by (auto simp: fl_def Let_def abs_if)
qed

fun isfinite :: "pyfloat \<Rightarrow> bool" where
  "isfinite (Fin _) = True"
| "isfinite _ = False"

fun the_fin :: "pyfloat \<Rightarrow> rat" where
  "the_fin (Fin x) = x"
| "the_fin _ = 0"

instantiation pyfloat :: "{zero, one, uminus, abs, plus, minus, times, ord}"
begin

definition "0 = Fin 0"

definition "1 = Fin 1"

fun uminus_pyfloat :: "pyfloat \<Rightarrow> pyfloat" where
  "uminus_pyfloat (Fin x) = Fin (- x)"
| "uminus_pyfloat PInf = NInf"
| "uminus_pyfloat NInf = PInf"
| "uminus_pyfloat NaN = NaN"

fun abs_pyfloat :: "pyfloat \<Rightarrow> pyfloat" where
  "abs_pyfloat (Fin x) = Fin \<bar>x\<bar>"
| "abs_pyfloat PInf = PInf"
| "abs_pyfloat NInf = PInf"
| "abs_pyfloat NaN = NaN"

fun plus_pyfloat :: "pyfloat \<Rightarrow> pyfloat \<Rightarrow> pyfloat" where
  "plus_pyfloat (Fin x) (Fin y) = fl (x + y)"
| "plus_pyfloat NaN _ = NaN"
| "plus_pyfloat _ NaN = NaN"
| "plus_pyfloat PInf NInf = NaN"
| "plus_pyfloat NInf PInf = NaN"
| "plus_pyfloat PInf _ = PInf"
| "plus_pyfloat _ PInf = PInf"
| "plus_pyfloat NInf _ = NInf"
| "plus_pyfloat _ NInf = NInf"

definition minus_pyfloat :: "pyfloat \<Rightarrow> pyfloat \<Rightarrow> pyfloat" where
  "minus_pyfloat x y = x + (- y)"

fun times_pyfloat :: "pyfloat \<Rightarrow> pyfloat \<Rightarrow> pyfloat" where
  "times_pyfloat (Fin x) (Fin y) = fl (x * y)"
| "times_pyfloat NaN _ = NaN"
| "times_pyfloat _ NaN = NaN"
| "times_pyfloat (Fin x) PInf = (if x = 0 then NaN else if 0 < x then PInf else NInf)"
| "times_pyfloat (Fin x) NInf = (if x = 0 then NaN else if 0 < x then NInf else PInf)"
| "times_pyfloat PInf (Fin y) = (if y = 0 then NaN else if 0 < y then PInf else NInf)"
| "times_pyfloat NInf (Fin y) = (if y = 0 then NaN else if 0 < y then NInf else PInf)"
| "times_pyfloat PInf PInf = PInf"
| "times_pyfloat NInf NInf = PInf"
| "times_pyfloat PInf NInf = NInf"
| "times_pyfloat NInf PInf = NInf"

fun less_eq_pyfloat :: "pyfloat \<Rightarrow> pyfloat \<Rightarrow> bool" where
  "less_eq_pyfloat NaN _ = False"
| "less_eq_pyfloat _ NaN = False"
| "less_eq_pyfloat (Fin x) (Fin y) = (x \<le> y)"
| "less_eq_pyfloat NInf _ = True"
| "less_eq_pyfloat _ PInf = True"
| "less_eq_pyfloat _ _ = False"

fun less_pyfloat :: "pyfloat \<Rightarrow> pyfloat \<Rightarrow> bool" where
  "less_pyfloat NaN _ = False"
| "less_pyfloat _ NaN = False"
| "less_pyfloat (Fin x) (Fin y) = (x < y)"
| "less_pyfloat NInf y = (y \<noteq> NInf)"
| "less_pyfloat x PInf = (x \<noteq> PInf)"
| "less_pyfloat _ _ = False"

instance ..

end

section \<open>Division, conversions, rounding\<close>

fun fdiv :: "pyfloat \<Rightarrow> pyfloat \<Rightarrow> pyfloat res" where
  "fdiv NaN (Fin y) = (if y = 0 then Inl ZeroDivisionError else Inr NaN)"
| "fdiv NaN _ = Inr NaN"
| "fdiv _ NaN = Inr NaN"
| "fdiv (Fin x) (Fin y) = (if y = 0 then Inl ZeroDivisionError else Inr (fl (x / y)))"
| "fdiv (Fin x) _ = Inr (Fin 0)"
| "fdiv PInf (Fin y) =
     (if y = 0 then Inl ZeroDivisionError else if 0 < y then Inr PInf else Inr NInf)"
| "fdiv NInf (Fin y) =
     (if y = 0 then Inl ZeroDivisionError else if 0 < y then Inr NInf else Inr PInf)"
| "fdiv _ _ = Inr NaN"

text \<open>The quotient where the code has already excluded a zero divisor.\<close>

definition fquot :: "pyfloat \<Rightarrow> pyfloat \<Rightarrow> pyfloat" where
  "fquot x y = (case fdiv x y of Inl _ \<Rightarrow> NaN | Inr z \<Rightarrow> z)"

lemma fquot_Fin [simp]: "y \<noteq> 0 \<Longrightarrow> fquot (Fin x) (Fin y) = fl (x / y)"
  by (simp add: fquot_def)

text \<open>An \<open>int\<close> in a float context (\<open>float(n)\<close>, \<open>n * x\<close>). Beyond \<open>2 ^ 1024\<close>,
  where Python raises \<open>OverflowError\<close>, the model gives the infinity.\<close>

definition fint :: "int \<Rightarrow> pyfloat" where
  "fint n = fl (of_int n)"

text \<open>\<open>int(x)\<close> truncates towards zero; \<open>math.floor\<close> rounds down.\<close>

definition rat_trunc :: "rat \<Rightarrow> int" where
  "rat_trunc x = (if x < 0 then - \<lfloor>- x\<rfloor> else \<lfloor>x\<rfloor>)"

fun to_int :: "pyfloat \<Rightarrow> int res" where
  "to_int (Fin x) = Inr (rat_trunc x)"
| "to_int NaN = Inl (ValueError ''cannot convert float NaN to integer'')"
| "to_int _ = Inl OverflowError"

fun ffloor :: "pyfloat \<Rightarrow> int res" where
  "ffloor (Fin x) = Inr \<lfloor>x\<rfloor>"
| "ffloor NaN = Inl (ValueError ''cannot convert float NaN to integer'')"
| "ffloor _ = Inl OverflowError"

fun fceil :: "pyfloat \<Rightarrow> int res" where
  "fceil (Fin x) = Inr \<lceil>x\<rceil>"
| "fceil NaN = Inl (ValueError ''cannot convert float NaN to integer'')"
| "fceil _ = Inl OverflowError"

text \<open>\<open>round(x, n)\<close>: the exact value to \<open>n\<close> decimals, ties to even, then the nearest
  double, as CPython's correctly rounded conversion does.\<close>

fun fround :: "nat \<Rightarrow> pyfloat \<Rightarrow> pyfloat" where
  "fround n (Fin x) = fl (of_int (rne (x * 10 ^ n)) / 10 ^ n)"
| "fround n x = x"

text \<open>\<open>min(a, b)\<close> and \<open>max(a, b)\<close> keep the first argument unless the second is
  strictly better: a \<open>NaN\<close> in first place stays.\<close>

definition fmin :: "pyfloat \<Rightarrow> pyfloat \<Rightarrow> pyfloat" where
  "fmin a b = (if b < a then b else a)"

definition fmax :: "pyfloat \<Rightarrow> pyfloat \<Rightarrow> pyfloat" where
  "fmax a b = (if a < b then b else a)"

text \<open>Truth value of a float: everything but zero, \<open>NaN\<close> included.\<close>

definition ftruthy :: "pyfloat \<Rightarrow> bool" where
  "ftruthy x \<longleftrightarrow> x \<noteq> Fin 0"

section \<open>Facts about floats\<close>

lemma fl_0 [simp]: "fl 0 = Fin 0"
  by (simp add: fl_powi)

lemma fl_of_int: "\<bar>n\<bar> \<le> 2 ^ 53 \<Longrightarrow> fl (of_int n) = Fin (of_int n)"
proof -
  assume n: "\<bar>n\<bar> \<le> 2 ^ 53"
  then have "\<bar>of_int n :: rat\<bar> \<le> 2 ^ 53"
    by (metis of_int_abs of_int_le_iff of_int_numeral of_int_power)
  moreover have "(2::rat) ^ 53 < 2 ^ 1024" by (rule power_strict_increasing) auto
  ultimately have "\<not> 2 ^ 1024 \<le> (of_int n :: rat)" "\<not> (of_int n :: rat) \<le> - (2 ^ 1024)" by linarith+
  then show ?thesis using n by (simp add: fl_powi rnd64_of_int)
qed

lemma fl_numeral: "numeral k \<le> (2::int) ^ 53 \<Longrightarrow> fl (numeral k) = Fin (numeral k)"
  using fl_of_int [of "numeral k"] by simp

lemma fint_small: "\<bar>n\<bar> \<le> 2 ^ 53 \<Longrightarrow> fint n = Fin (of_int n)"
  by (simp add: fint_def fl_of_int)

lemma fl_cases: "fl x = PInf \<or> fl x = NInf \<or> fl x = Fin (rnd64 x)"
  by (simp add: fl_powi Let_def)

lemma fl_not_NaN [simp]: "fl x \<noteq> NaN"
  by (simp add: fl_powi Let_def)

lemma fl_idem: "fl x = Fin y \<Longrightarrow> fl y = Fin y"
  by (auto simp: fl_powi Let_def split: if_splits)

lemma fplus_0_result: "(x + y) + Fin 0 = x + (y::pyfloat)"
  by (cases x; cases y; cases "x + y") (auto intro: fl_idem)

lemma ftimes_commute: "x * y = y * (x::pyfloat)"
  by (cases x; cases y) (auto simp: mult.commute)

lemma fl_mono: "x \<le> y \<Longrightarrow> fl x \<le> fl y"
  using rnd64_mono [of x y] by (auto simp: fl_powi Let_def)

lemma fl_nonneg: "0 \<le> x \<Longrightarrow> Fin 0 \<le> fl x"
  using fl_mono [of 0 x] by simp

lemma fl_nonpos: "x \<le> 0 \<Longrightarrow> fl x \<le> Fin 0"
  using fl_mono [of x 0] by simp

lemma fle_refl [simp]: "x \<noteq> NaN \<Longrightarrow> x \<le> (x::pyfloat)"
  by (cases x) auto

lemma fle_trans: "x \<le> y \<Longrightarrow> y \<le> z \<Longrightarrow> x \<le> (z::pyfloat)"
  by (cases x; cases y; cases z) auto

lemma fless_imp_le: "x < y \<Longrightarrow> x \<le> (y::pyfloat)"
  by (cases x; cases y) auto

lemma fless_le_trans: "x < y \<Longrightarrow> y \<le> z \<Longrightarrow> x < (z::pyfloat)"
  by (cases x; cases y; cases z) auto

lemma fle_less_trans: "x \<le> y \<Longrightarrow> y < z \<Longrightarrow> x < (z::pyfloat)"
  by (cases x; cases y; cases z) auto

lemma fnot_less: "x \<noteq> NaN \<Longrightarrow> y \<noteq> NaN \<Longrightarrow> \<not> x < y \<longleftrightarrow> y \<le> (x::pyfloat)"
  by (cases x; cases y) auto

lemma fnot_le: "x \<noteq> NaN \<Longrightarrow> y \<noteq> NaN \<Longrightarrow> \<not> x \<le> y \<longleftrightarrow> y < (x::pyfloat)"
  by (cases x; cases y) auto

lemma NaN_compare [simp]:
  "\<not> NaN \<le> x" "\<not> x \<le> NaN" "\<not> NaN < x" "\<not> x < NaN"
  by (cases x; simp)+

lemma isfinite_not_NaN: "isfinite x \<Longrightarrow> x \<noteq> NaN"
  by auto

lemma isfinite_iff: "isfinite x \<longleftrightarrow> (\<exists>r. x = Fin r)"
  by (cases x) auto

lemma fle_finite: "Fin a \<le> x \<Longrightarrow> x \<le> Fin b \<Longrightarrow> isfinite x"
  by (cases x) auto

lemma fmin_le2: "a \<noteq> NaN \<Longrightarrow> b \<noteq> NaN \<Longrightarrow> fmin a b \<le> b"
  by (auto simp: fmin_def fnot_less)

lemma fmin_le1: "a \<noteq> NaN \<Longrightarrow> fmin a b \<le> a"
  by (auto simp: fmin_def fless_imp_le)

lemma fmax_ge1: "a \<noteq> NaN \<Longrightarrow> a \<le> fmax a b"
  by (auto simp: fmax_def fless_imp_le)

lemma fmax_ge2: "a \<noteq> NaN \<Longrightarrow> b \<noteq> NaN \<Longrightarrow> b \<le> fmax a b"
  by (auto simp: fmax_def fnot_less)

lemma fmax_NaN: "fmax a b = NaN \<longleftrightarrow> a = NaN"
  by (auto simp: fmax_def)

lemma fmin_NaN: "fmin a b = NaN \<longleftrightarrow> a = NaN"
  by (auto simp: fmin_def)

text \<open>Rounding keeps the sign, so products and quotients of non-negative floats, and sums,
  stay non-negative: the facts the cost and the risk arithmetic needs.\<close>

lemma ftimes_nonneg: "Fin 0 \<le> x \<Longrightarrow> Fin 0 \<le> y \<Longrightarrow> isfinite x \<Longrightarrow> isfinite y \<Longrightarrow> Fin 0 \<le> x * y"
  by (auto simp: isfinite_iff fl_nonneg)

lemma fplus_nonneg: "Fin 0 \<le> x \<Longrightarrow> Fin 0 \<le> y \<Longrightarrow> Fin 0 \<le> x + y"
  by (cases x; cases y) (auto simp: fl_nonneg)

lemma fabs_nonneg: "x \<noteq> NaN \<Longrightarrow> Fin 0 \<le> \<bar>x\<bar>"
  by (cases x) auto

lemma fround_nonneg: "Fin 0 \<le> x \<Longrightarrow> Fin 0 \<le> fround n x"
proof (cases x)
  case (Fin r)
  assume "Fin 0 \<le> x"
  then have "0 \<le> rne (r * 10 ^ n)" using Fin by (intro rne_ge) simp
  then show ?thesis using Fin by (simp add: fl_nonneg)
qed auto

lemma fround_mono: "x \<le> y \<Longrightarrow> fround n x \<le> fround n y"
proof (cases x; cases y)
  fix a b
  assume "x \<le> y" "x = Fin a" "y = Fin b"
  then have "rne (a * 10 ^ n) \<le> rne (b * 10 ^ n)" by (intro rne_mono) simp
  then have "of_int (rne (a * 10 ^ n)) / 10 ^ n \<le> (of_int (rne (b * 10 ^ n)) / 10 ^ n :: rat)"
    by (simp add: divide_right_mono)
  then show ?thesis using \<open>x = Fin a\<close> \<open>y = Fin b\<close> by (simp add: fl_mono)
next
  fix b assume "x = NInf" "y = Fin b"
  then show ?thesis by (cases "fround n y") (use fl_not_NaN in \<open>auto\<close>)
next
  fix a assume "x = Fin a" "y = PInf"
  then show ?thesis by (cases "fround n x") (use fl_not_NaN in \<open>auto\<close>)
qed auto

end
