(* ===== verification/Lifecycle.thy ===== *)
theory Lifecycle
  imports Py_Float "HOL-Library.AList"
begin

text \<open>
  \<open>app/execution/lifecycle.py\<close>: the order states and their legal transitions, the mapping of
  broker statuses, client order ids, and the durable order record with its fills and its
  serialisation. The stores of the same file are in theory \<open>Order_Store\<close>.
  A time stamp (\<open>_utcnow()\<close>) is an argument of the operation that takes it.
\<close>

section \<open>States and transitions\<close>

datatype order_state =
    INTENT_CREATED | RISK_CHECK_PENDING | RISK_APPROVED | RISK_REJECTED | SUBMITTED
  | ACKNOWLEDGED | PARTIALLY_FILLED | FILLED | CANCEL_PENDING | CANCELLED | REJECTED
  | EXPIRED | UNKNOWN

definition all_states :: "order_state list" where
  "all_states = [INTENT_CREATED, RISK_CHECK_PENDING, RISK_APPROVED, RISK_REJECTED, SUBMITTED,
     ACKNOWLEDGED, PARTIALLY_FILLED, FILLED, CANCEL_PENDING, CANCELLED, REJECTED, EXPIRED,
     UNKNOWN]"

fun state_value :: "order_state \<Rightarrow> string" where
  "state_value INTENT_CREATED = ''INTENT_CREATED''"
| "state_value RISK_CHECK_PENDING = ''RISK_CHECK_PENDING''"
| "state_value RISK_APPROVED = ''RISK_APPROVED''"
| "state_value RISK_REJECTED = ''RISK_REJECTED''"
| "state_value SUBMITTED = ''SUBMITTED''"
| "state_value ACKNOWLEDGED = ''ACKNOWLEDGED''"
| "state_value PARTIALLY_FILLED = ''PARTIALLY_FILLED''"
| "state_value FILLED = ''FILLED''"
| "state_value CANCEL_PENDING = ''CANCEL_PENDING''"
| "state_value CANCELLED = ''CANCELLED''"
| "state_value REJECTED = ''REJECTED''"
| "state_value EXPIRED = ''EXPIRED''"
| "state_value UNKNOWN = ''UNKNOWN''"

text \<open>\<open>OrderState(s)\<close>: the member with that value, or \<open>ValueError\<close>.\<close>

definition order_state_of :: "string \<Rightarrow> order_state res" where
  "order_state_of s = (case List.find (\<lambda>st. state_value st = s) all_states of
     None \<Rightarrow> Inl (ValueError ''not a valid OrderState'') | Some st \<Rightarrow> Inr st)"

definition terminal_states :: "order_state list" where
  "terminal_states = [RISK_REJECTED, FILLED, CANCELLED, REJECTED, EXPIRED]"

definition open_states :: "order_state list" where
  "open_states = [INTENT_CREATED, RISK_CHECK_PENDING, RISK_APPROVED, SUBMITTED, ACKNOWLEDGED,
     PARTIALLY_FILLED, CANCEL_PENDING, UNKNOWN]"

definition blocked_states :: "order_state list" where
  "blocked_states = [UNKNOWN]"

fun legal_transitions :: "order_state \<Rightarrow> order_state list" where
  "legal_transitions INTENT_CREATED = [RISK_CHECK_PENDING, RISK_REJECTED]"
| "legal_transitions RISK_CHECK_PENDING = [RISK_APPROVED, RISK_REJECTED]"
| "legal_transitions RISK_APPROVED = [SUBMITTED, RISK_REJECTED, CANCELLED]"
| "legal_transitions SUBMITTED =
     [ACKNOWLEDGED, PARTIALLY_FILLED, FILLED, REJECTED, CANCELLED, EXPIRED, UNKNOWN]"
| "legal_transitions ACKNOWLEDGED =
     [PARTIALLY_FILLED, FILLED, CANCEL_PENDING, CANCELLED, REJECTED, EXPIRED, UNKNOWN]"
| "legal_transitions PARTIALLY_FILLED =
     [PARTIALLY_FILLED, FILLED, CANCEL_PENDING, CANCELLED, EXPIRED, UNKNOWN]"
| "legal_transitions CANCEL_PENDING = [CANCELLED, FILLED, PARTIALLY_FILLED, REJECTED, UNKNOWN]"
| "legal_transitions UNKNOWN =
     [ACKNOWLEDGED, PARTIALLY_FILLED, FILLED, CANCELLED, REJECTED, EXPIRED]"
| "legal_transitions RISK_REJECTED = []"
| "legal_transitions FILLED = []"
| "legal_transitions CANCELLED = []"
| "legal_transitions REJECTED = []"
| "legal_transitions EXPIRED = []"

definition assert_transition :: "order_state \<Rightarrow> order_state \<Rightarrow> bool \<Rightarrow> unit res" where
  "assert_transition current new reconciled =
     (if current \<in> set terminal_states
      then Inl (IllegalStateTransition (state_value current @ '' is terminal''))
      else if new \<notin> set (legal_transitions current)
      then Inl (IllegalStateTransition
             (''Illegal transition '' @ state_value current @ '' -> '' @ state_value new))
      else if current = UNKNOWN \<and> \<not> reconciled
      then Inl (IllegalStateTransition ''UNKNOWN may only be resolved by broker reconciliation'')
      else Inr ())"

lemma all_states_complete [simp]: "st \<in> set all_states"
  by (cases st) (simp_all add: all_states_def)

lemma state_value_inj [simp]: "state_value a = state_value b \<longleftrightarrow> a = b"
  by (cases a; cases b) simp_all

lemma order_state_of_value [simp]: "order_state_of (state_value st) = Inr st"
proof -
  have "List.find (\<lambda>s. state_value s = state_value st) all_states = Some st"
    by (cases st) (simp_all add: all_states_def)
  then show ?thesis by (simp add: order_state_of_def)
qed

lemma terminal_no_transition: "current \<in> set terminal_states \<Longrightarrow> legal_transitions current = []"
  by (auto simp: terminal_states_def)

text \<open>A transition is accepted exactly when it is declared, and \<open>UNKNOWN\<close> is left only by
  reconciliation. The check for a terminal state is subsumed by the empty successor sets.\<close>

definition may_go :: "order_state \<Rightarrow> order_state \<Rightarrow> bool \<Rightarrow> bool" where
  "may_go a b reconciled \<longleftrightarrow> b \<in> set (legal_transitions a) \<and> (a = UNKNOWN \<longrightarrow> reconciled)"

lemma assert_transition_Inr: "assert_transition a b r = Inr u \<longleftrightarrow> may_go a b r"
  using terminal_no_transition [of a] by (auto simp: assert_transition_def may_go_def)

lemma assert_transition_ok: "may_go a b r \<Longrightarrow> assert_transition a b r = Inr ()"
  by (simp add: assert_transition_Inr)

lemma assert_transition_bad: "\<not> may_go a b r \<Longrightarrow> \<exists>m. assert_transition a b r = Inl (IllegalStateTransition m)"
  using terminal_no_transition [of a] by (auto simp: assert_transition_def may_go_def)

section \<open>Broker statuses\<close>

text \<open>A status is \<open>None\<close> where the broker's field is missing or not a string.\<close>

definition broker_status_map :: "(string \<times> order_state) list" where
  "broker_status_map =
     [(''COMPLETE'', FILLED), (''CANCELLED'', CANCELLED), (''REJECTED'', REJECTED),
      (''OPEN'', ACKNOWLEDGED), (''TRIGGER PENDING'', ACKNOWLEDGED),
      (''AMO REQ RECEIVED'', ACKNOWLEDGED), (''VALIDATION PENDING'', SUBMITTED),
      (''PUT ORDER REQ RECEIVED'', SUBMITTED), (''OPEN PENDING'', SUBMITTED),
      (''MODIFY PENDING'', ACKNOWLEDGED), (''CANCEL PENDING'', CANCEL_PENDING),
      (''EXPIRED'', EXPIRED), (''PARTIAL'', PARTIALLY_FILLED),
      (''PARTIALLY FILLED'', PARTIALLY_FILLED), (''PARTIALLY_FILLED'', PARTIALLY_FILLED)]"

definition map_broker_status :: "string option \<Rightarrow> int \<Rightarrow> int \<Rightarrow> order_state" where
  "map_broker_status status filled_qty order_qty =
     (case status of
        None \<Rightarrow> UNKNOWN
      | Some s \<Rightarrow>
          if py_strip s = [] then UNKNOWN
          else (case map_of broker_status_map (py_upper (py_strip s)) of
              None \<Rightarrow> UNKNOWN
            | Some st \<Rightarrow>
                if st = ACKNOWLEDGED \<and> 0 < filled_qty then PARTIALLY_FILLED
                else if st = FILLED \<and> 0 < order_qty \<and> 0 < filled_qty \<and> filled_qty < order_qty
                then PARTIALLY_FILLED
                else st))"

text \<open>The statuses a broker may report are never a pre-submission state.\<close>

definition broker_side :: "order_state list" where
  "broker_side = [SUBMITTED, ACKNOWLEDGED, PARTIALLY_FILLED, FILLED, CANCEL_PENDING, CANCELLED,
     REJECTED, EXPIRED, UNKNOWN]"

lemma broker_status_map_range: "map_of broker_status_map s = Some st \<Longrightarrow> st \<in> set broker_side"
  by (drule map_of_SomeD) (auto simp: broker_status_map_def broker_side_def)

lemma map_broker_status_side: "map_broker_status s f q \<in> set broker_side"
  by (auto simp: map_broker_status_def split: option.splits dest: broker_status_map_range)
     (auto simp: broker_side_def)

section \<open>Client order ids\<close>

definition TAG_MAX_LEN :: nat where "TAG_MAX_LEN = 20"
definition STRATEGY_PREFIX_LEN :: nat where "STRATEGY_PREFIX_LEN = 8"

definition strategy_tag_prefix :: "string \<Rightarrow> string" where
  "strategy_tag_prefix strategy =
     take STRATEGY_PREFIX_LEN (if strategy = [] then ''unknown'' else strategy)"

text \<open>\<open>nonce\<close> is \<open>uuid4().hex\<close>, 32 hexadecimal digits; \<open>sha256\<close> the hex digest.\<close>

definition make_client_order_id :: "string \<Rightarrow> string \<Rightarrow> string" where
  "make_client_order_id strategy nonce = take TAG_MAX_LEN (strategy_tag_prefix strategy @ nonce)"

definition deterministic_client_order_id ::
  "(string \<Rightarrow> string) \<Rightarrow> string list \<Rightarrow> string \<Rightarrow> string" where
  "deterministic_client_order_id sha256 parts prefix =
     take TAG_MAX_LEN (prefix @ sha256 (concat (case parts of [] \<Rightarrow> []
        | p # ps \<Rightarrow> p # map (\<lambda>x. CHR 0x7C # x) ps)))"

lemma length_strategy_tag_prefix: "length (strategy_tag_prefix s) \<le> STRATEGY_PREFIX_LEN"
  by (simp add: strategy_tag_prefix_def)

lemma strategy_tag_prefix_nonempty: "strategy_tag_prefix s \<noteq> []"
  by (simp add: strategy_tag_prefix_def STRATEGY_PREFIX_LEN_def)

lemma make_client_order_id_prefix:
  "is_prefix (strategy_tag_prefix strategy)
     (take STRATEGY_PREFIX_LEN (make_client_order_id strategy nonce))"
  using length_strategy_tag_prefix [of strategy]
  by (auto simp: make_client_order_id_def is_prefix_def TAG_MAX_LEN_def STRATEGY_PREFIX_LEN_def min_def)

section \<open>JSON values\<close>

text \<open>What \<open>json.dumps\<close>/\<open>json.loads\<close> carry; the library's text encoding is the identity
  on these values.\<close>

datatype json =
    JNull | JBool bool | JInt int | JFloat pyfloat | JStr string
  | JList "json list" | JObj "(string \<times> json) list"

section \<open>The order record\<close>

record order_record =
  r_client_order_id :: string
  r_symbol :: string
  r_exchange :: string
  r_side :: string
  r_qty :: int
  r_order_type :: string
  r_product :: string
  r_strategy :: string
  r_limit_price :: pyfloat
  r_trigger_price :: pyfloat
  r_reference_price :: pyfloat
  r_state :: order_state
  r_broker_order_id :: "string option"
  r_filled_qty :: int
  r_avg_fill_price :: pyfloat
  r_reason :: string
  r_intent_kind :: string
  r_created_at :: string
  r_updated_at :: string
  r_history :: "json list"
  r_applied_fill_ids :: "string list"

text \<open>\<open>OrderRecord(...)\<close> with the dataclass defaults, created at \<open>now\<close>.\<close>

definition new_order_record ::
  "string \<Rightarrow> string \<Rightarrow> string \<Rightarrow> string \<Rightarrow> string \<Rightarrow> int \<Rightarrow> string \<Rightarrow> string \<Rightarrow> order_record" where
  "new_order_record now cid symbol exchange side qty order_type product =
     \<lparr>r_client_order_id = cid, r_symbol = symbol, r_exchange = exchange, r_side = side,
      r_qty = qty, r_order_type = order_type, r_product = product, r_strategy = [],
      r_limit_price = Fin 0, r_trigger_price = Fin 0, r_reference_price = Fin 0,
      r_state = INTENT_CREATED, r_broker_order_id = None, r_filled_qty = 0,
      r_avg_fill_price = Fin 0, r_reason = [], r_intent_kind = ''entry'',
      r_created_at = now, r_updated_at = now, r_history = [], r_applied_fill_ids = []\<rparr>"

definition is_terminal :: "order_record \<Rightarrow> bool" where
  "is_terminal r \<longleftrightarrow> r_state r \<in> set terminal_states"

definition is_blocked :: "order_record \<Rightarrow> bool" where
  "is_blocked r \<longleftrightarrow> r_state r \<in> set blocked_states"

definition history_entry :: "string \<Rightarrow> order_state \<Rightarrow> order_state \<Rightarrow> string \<Rightarrow> bool \<Rightarrow> json" where
  "history_entry now a b reason reconciled =
     JObj [(''from'', JStr (state_value a)), (''to'', JStr (state_value b)),
           (''reason'', JStr reason), (''at'', JStr now), (''reconciled'', JBool reconciled)]"

text \<open>The effect of an accepted transition, and \<open>OrderRecord.transition\<close> itself.\<close>

definition set_state ::
  "string \<Rightarrow> order_state \<Rightarrow> string \<Rightarrow> bool \<Rightarrow> order_record \<Rightarrow> order_record" where
  "set_state now new reason reconciled r =
     r\<lparr>r_history := r_history r @ [history_entry now (r_state r) new reason reconciled],
       r_state := new,
       r_reason := (if reason = [] then r_reason r else reason),
       r_updated_at := now\<rparr>"

definition transition ::
  "string \<Rightarrow> order_state \<Rightarrow> string \<Rightarrow> bool \<Rightarrow> order_record \<Rightarrow> order_record res" where
  "transition now new reason reconciled r =
     res_bind (assert_transition (r_state r) new reconciled)
       (\<lambda>_. Inr (set_state now new reason reconciled r))"

text \<open>\<open>OrderRecord.apply_fill\<close>: the flag says whether the fill was new. An exception leaves
  the record as it was: both checks precede every assignment.\<close>

definition apply_fill ::
  "string \<Rightarrow> int \<Rightarrow> pyfloat \<Rightarrow> string \<Rightarrow> order_record \<Rightarrow> (bool \<times> order_record) res" where
  "apply_fill now qty price fill_id r =
     (if fill_id \<in> set (r_applied_fill_ids r) then Inr (False, r)
      else if qty \<le> 0 \<or> \<not> isfinite price then Inl (ValueError ''Invalid fill'')
      else let new_total = r_filled_qty r + qty in
        if r_qty r < new_total then Inl (ValueError ''Fill would over-fill order'')
        else let notional = r_avg_fill_price r * fint (r_filled_qty r) + price * fint qty in
          Inr (True, r\<lparr>r_filled_qty := new_total,
            r_avg_fill_price := (if new_total = 0 then Fin 0 else fquot notional (fint new_total)),
            r_applied_fill_ids := r_applied_fill_ids r @ [fill_id],
            r_updated_at := now\<rparr>))"

definition remaining_qty :: "order_record \<Rightarrow> int" where
  "remaining_qty r = max 0 (r_qty r - r_filled_qty r)"

subsection \<open>Serialisation\<close>

definition to_dict :: "order_record \<Rightarrow> json" where
  "to_dict r = JObj
     [(''client_order_id'', JStr (r_client_order_id r)), (''symbol'', JStr (r_symbol r)),
      (''exchange'', JStr (r_exchange r)), (''side'', JStr (r_side r)),
      (''qty'', JInt (r_qty r)), (''order_type'', JStr (r_order_type r)),
      (''product'', JStr (r_product r)), (''strategy'', JStr (r_strategy r)),
      (''limit_price'', JFloat (r_limit_price r)), (''trigger_price'', JFloat (r_trigger_price r)),
      (''reference_price'', JFloat (r_reference_price r)),
      (''state'', JStr (state_value (r_state r))),
      (''broker_order_id'', (case r_broker_order_id r of None \<Rightarrow> JNull | Some b \<Rightarrow> JStr b)),
      (''filled_qty'', JInt (r_filled_qty r)), (''avg_fill_price'', JFloat (r_avg_fill_price r)),
      (''reason'', JStr (r_reason r)), (''intent_kind'', JStr (r_intent_kind r)),
      (''created_at'', JStr (r_created_at r)), (''updated_at'', JStr (r_updated_at r)),
      (''history'', JList (r_history r)),
      (''applied_fill_ids'', JList (map JStr (r_applied_fill_ids r)))]"

text \<open>The readers of one keyword argument: \<open>d\<close> is the dataclass default, \<open>None\<close> for a
  required field. The untyped code would carry a value of another JSON type along; the model
  refuses it as it refuses a missing one.\<close>

fun as_str :: "json \<Rightarrow> string option" where
  "as_str (JStr s) = Some s" | "as_str _ = None"
fun as_int :: "json \<Rightarrow> int option" where
  "as_int (JInt n) = Some n" | "as_int _ = None"
fun as_float :: "json \<Rightarrow> pyfloat option" where
  "as_float (JFloat x) = Some x" | "as_float _ = None"
fun as_list :: "json \<Rightarrow> json list option" where
  "as_list (JList xs) = Some xs" | "as_list _ = None"
fun as_opt_str :: "json \<Rightarrow> string option option" where
  "as_opt_str JNull = Some None" | "as_opt_str (JStr s) = Some (Some s)" | "as_opt_str _ = None"

fun as_strs :: "json list \<Rightarrow> string list option" where
  "as_strs [] = Some []"
| "as_strs (x # xs) = (case as_str x of None \<Rightarrow> None
     | Some s \<Rightarrow> (case as_strs xs of None \<Rightarrow> None | Some ss \<Rightarrow> Some (s # ss)))"

definition kwarg :: "(string \<times> json) list \<Rightarrow> string \<Rightarrow> 'a option \<Rightarrow> (json \<Rightarrow> 'a option) \<Rightarrow> 'a res" where
  "kwarg kvs k d rd = (case map_of kvs k of
     None \<Rightarrow> (case d of None \<Rightarrow> Inl (TypeError (''missing argument: '' @ k)) | Some v \<Rightarrow> Inr v)
   | Some j \<Rightarrow> (case rd j of None \<Rightarrow> Inl (TypeError k) | Some v \<Rightarrow> Inr v))"

definition record_fields :: "string list" where
  "record_fields = [''client_order_id'', ''symbol'', ''exchange'', ''side'', ''qty'',
     ''order_type'', ''product'', ''strategy'', ''limit_price'', ''trigger_price'',
     ''reference_price'', ''state'', ''broker_order_id'', ''filled_qty'', ''avg_fill_price'',
     ''reason'', ''intent_kind'', ''created_at'', ''updated_at'', ''history'',
     ''applied_fill_ids'']"

definition from_dict :: "string \<Rightarrow> json \<Rightarrow> order_record res" where
  "from_dict now j = (case j of JObj kvs \<Rightarrow>
     res_bind (kwarg kvs ''state'' (Some (state_value UNKNOWN)) as_str) (\<lambda>sv.
     res_bind (order_state_of sv) (\<lambda>st.
     if \<not> list_all (\<lambda>kv. fst kv \<in> set record_fields) kvs then Inl (TypeError ''unexpected argument'')
     else
     res_bind (kwarg kvs ''client_order_id'' None as_str) (\<lambda>cid.
     res_bind (kwarg kvs ''symbol'' None as_str) (\<lambda>sym.
     res_bind (kwarg kvs ''exchange'' None as_str) (\<lambda>exch.
     res_bind (kwarg kvs ''side'' None as_str) (\<lambda>side.
     res_bind (kwarg kvs ''qty'' None as_int) (\<lambda>qty.
     res_bind (kwarg kvs ''order_type'' None as_str) (\<lambda>otype.
     res_bind (kwarg kvs ''product'' None as_str) (\<lambda>prod.
     res_bind (kwarg kvs ''strategy'' (Some []) as_str) (\<lambda>strat.
     res_bind (kwarg kvs ''limit_price'' (Some (Fin 0)) as_float) (\<lambda>lp.
     res_bind (kwarg kvs ''trigger_price'' (Some (Fin 0)) as_float) (\<lambda>tp.
     res_bind (kwarg kvs ''reference_price'' (Some (Fin 0)) as_float) (\<lambda>rp.
     res_bind (kwarg kvs ''broker_order_id'' (Some None) as_opt_str) (\<lambda>boid.
     res_bind (kwarg kvs ''filled_qty'' (Some 0) as_int) (\<lambda>fq.
     res_bind (kwarg kvs ''avg_fill_price'' (Some (Fin 0)) as_float) (\<lambda>afp.
     res_bind (kwarg kvs ''reason'' (Some []) as_str) (\<lambda>reason.
     res_bind (kwarg kvs ''intent_kind'' (Some ''entry'') as_str) (\<lambda>ik.
     res_bind (kwarg kvs ''created_at'' (Some now) as_str) (\<lambda>ca.
     res_bind (kwarg kvs ''updated_at'' (Some now) as_str) (\<lambda>ua.
     res_bind (kwarg kvs ''history'' (Some []) as_list) (\<lambda>hist.
     res_bind (kwarg kvs ''applied_fill_ids'' (Some []) (\<lambda>x. Option.bind (as_list x) as_strs)) (\<lambda>afi.
     Inr \<lparr>r_client_order_id = cid, r_symbol = sym, r_exchange = exch, r_side = side,
      r_qty = qty, r_order_type = otype, r_product = prod, r_strategy = strat,
      r_limit_price = lp, r_trigger_price = tp, r_reference_price = rp, r_state = st,
      r_broker_order_id = boid, r_filled_qty = fq, r_avg_fill_price = afp, r_reason = reason,
      r_intent_kind = ik, r_created_at = ca, r_updated_at = ua, r_history = hist,
      r_applied_fill_ids = afi\<rparr>))))))))))))))))))))))
   | _ \<Rightarrow> Inl (TypeError ''record''))"

lemma as_strs_map [simp]: "as_strs (map JStr xs) = Some xs"
  by (induction xs) auto

lemma from_dict_to_dict: "from_dict now (to_dict r) = Inr r"
  by (simp add: from_dict_def to_dict_def kwarg_def record_fields_def split: option.split)

section \<open>Transitions and histories\<close>

lemma transition_Inr:
  "transition now new reason rc r = Inr r' \<longleftrightarrow>
     may_go (r_state r) new rc \<and> r' = set_state now new reason rc r"
  by (auto simp: transition_def assert_transition_Inr)

lemma transition_ok [simp]:
  "may_go (r_state r) new rc \<Longrightarrow> transition now new reason rc r = Inr (set_state now new reason rc r)"
  by (simp add: transition_Inr)

lemma transition_bad:
  "\<not> may_go (r_state r) new rc \<Longrightarrow>
     \<exists>m. transition now new reason rc r = Inl (IllegalStateTransition m)"
  using assert_transition_bad [of "r_state r" new rc] by (auto simp: transition_def)

lemma set_state_fields [simp]:
  "r_state (set_state now new reason rc r) = new"
  "r_client_order_id (set_state now new reason rc r) = r_client_order_id r"
  "r_qty (set_state now new reason rc r) = r_qty r"
  "r_filled_qty (set_state now new reason rc r) = r_filled_qty r"
  "r_broker_order_id (set_state now new reason rc r) = r_broker_order_id r"
  "r_symbol (set_state now new reason rc r) = r_symbol r"
  "r_strategy (set_state now new reason rc r) = r_strategy r"
  "r_side (set_state now new reason rc r) = r_side r"
  "r_exchange (set_state now new reason rc r) = r_exchange r"
  "r_product (set_state now new reason rc r) = r_product r"
  "r_applied_fill_ids (set_state now new reason rc r) = r_applied_fill_ids r"
  "r_history (set_state now new reason rc r) =
     r_history r @ [history_entry now (r_state r) new reason rc]"
  by (simp_all add: set_state_def)

text \<open>Reading a transition back out of the durable history; the entries with costs or
  rejection reasons are not transitions.\<close>

definition entry_states :: "json \<Rightarrow> (order_state \<times> order_state \<times> bool) option" where
  "entry_states j = (case j of
     JObj [(f, JStr a), (t, JStr b), _, _, (_, JBool rc)] \<Rightarrow>
       (case (order_state_of a, order_state_of b) of
          (Inr x, Inr y) \<Rightarrow> if f = ''from'' \<and> t = ''to'' then Some (x, y, rc) else None
        | _ \<Rightarrow> None)
   | _ \<Rightarrow> None)"

lemma entry_states_history_entry [simp]:
  "entry_states (history_entry now a b reason rc) = Some (a, b, rc)"
  by (simp add: entry_states_def history_entry_def)

fun legal_path :: "order_state \<Rightarrow> (order_state \<times> order_state \<times> bool) list \<Rightarrow> order_state \<Rightarrow> bool" where
  "legal_path a [] b \<longleftrightarrow> a = b"
| "legal_path a ((x, y, rc) # ts) b \<longleftrightarrow> a = x \<and> may_go x y rc \<and> legal_path y ts b"

lemma legal_path_append:
  "legal_path a (ts @ us) c \<longleftrightarrow> (\<exists>b. legal_path a ts b \<and> legal_path b us c)"
  by (induction ts arbitrary: a) auto

definition path_of :: "order_record \<Rightarrow> (order_state \<times> order_state \<times> bool) list" where
  "path_of r = List.map_filter entry_states (r_history r)"

text \<open>The record invariant: the stored history is a legal path of the state machine from the
  creation of the intent to the stored state, and no more is filled than was ordered.\<close>

definition record_ok :: "order_record \<Rightarrow> bool" where
  "record_ok r \<longleftrightarrow> legal_path INTENT_CREATED (path_of r) (r_state r) \<and> r_filled_qty r \<le> r_qty r
     \<and> distinct (r_applied_fill_ids r)"

lemma path_of_set_state: "path_of (set_state now new reason rc r) = path_of r @ [(r_state r, new, rc)]"
  by (simp add: path_of_def map_filter_def)

lemma record_ok_new: "0 \<le> qty \<Longrightarrow> record_ok (new_order_record now cid sm exch side qty ot pr)"
  by (simp add: record_ok_def new_order_record_def path_of_def map_filter_def)

lemma record_ok_set_state:
  "record_ok r \<Longrightarrow> may_go (r_state r) new rc \<Longrightarrow> record_ok (set_state now new reason rc r)"
  by (auto simp: record_ok_def path_of_set_state legal_path_append)

lemma record_ok_transition: "record_ok r \<Longrightarrow> transition now new reason rc r = Inr r' \<Longrightarrow> record_ok r'"
  by (auto simp: transition_Inr record_ok_set_state)

lemma record_ok_fields [simp]:
  "record_ok (r\<lparr>r_broker_order_id := b\<rparr>) = record_ok r"
  "record_ok (r\<lparr>r_reference_price := x\<rparr>) = record_ok r"
  "record_ok (r\<lparr>r_strategy := s\<rparr>) = record_ok r"
  "record_ok (r\<lparr>r_intent_kind := s\<rparr>) = record_ok r"
  "record_ok (r\<lparr>r_limit_price := x\<rparr>) = record_ok r"
  "record_ok (r\<lparr>r_trigger_price := x\<rparr>) = record_ok r"
  by (simp_all add: record_ok_def path_of_def)

lemma record_ok_observed_fill: "record_ok r \<Longrightarrow> record_ok (r\<lparr>r_filled_qty := min n (r_qty r)\<rparr>)"
  by (simp add: record_ok_def path_of_def)

lemma record_ok_note:
  "record_ok r \<Longrightarrow> entry_states j = None \<Longrightarrow> record_ok (r\<lparr>r_history := r_history r @ [j]\<rparr>)"
  by (simp add: record_ok_def path_of_def map_filter_def)

lemma record_ok_apply_fill:
  "record_ok r \<Longrightarrow> apply_fill now q p fid r = Inr (b, r') \<Longrightarrow> record_ok r'"
  by (auto simp: apply_fill_def record_ok_def path_of_def Let_def split: if_splits)

lemma apply_fill_new:
  "apply_fill now q p fid r = Inr (True, r') \<longleftrightarrow>
     fid \<notin> set (r_applied_fill_ids r) \<and> 0 < q \<and> isfinite p \<and> r_filled_qty r + q \<le> r_qty r \<and>
     r' = r\<lparr>r_filled_qty := r_filled_qty r + q,
       r_avg_fill_price := (if r_filled_qty r + q = 0 then Fin 0 else
          fquot (r_avg_fill_price r * fint (r_filled_qty r) + p * fint q) (fint (r_filled_qty r + q))),
       r_applied_fill_ids := r_applied_fill_ids r @ [fid], r_updated_at := now\<rparr>"
  by (auto simp: apply_fill_def Let_def)

section \<open>Properties of the order record\<close>

text \<open>The life of a record: it is created, it makes transitions, fills are applied to it, and
  the order manager annotates it.\<close>

inductive record_life :: "order_record \<Rightarrow> bool" where
  born: "0 \<le> qty \<Longrightarrow> record_life (new_order_record now cid sm exch side qty ot pr)"
| move: "record_life r \<Longrightarrow> transition now new reason rc r = Inr r' \<Longrightarrow> record_life r'"
| fill: "record_life r \<Longrightarrow> apply_fill now q p fid r = Inr (b, r') \<Longrightarrow> record_life r'"
| set_broker_id: "record_life r \<Longrightarrow> record_life (r\<lparr>r_broker_order_id := b\<rparr>)"
| set_reference: "record_life r \<Longrightarrow> record_life (r\<lparr>r_reference_price := x\<rparr>)"
| observe: "record_life r \<Longrightarrow> record_life (r\<lparr>r_filled_qty := min n (r_qty r)\<rparr>)"

lemma record_life_ok: "record_life r \<Longrightarrow> record_ok r"
  by (induction rule: record_life.induct)
     (auto simp: record_ok_new record_ok_observed_fill intro: record_ok_transition record_ok_apply_fill)

text \<open>On a legal path from the creation of an intent, every state the broker can see is
  entered through the submission.\<close>

definition pre_submit :: "order_state list" where
  "pre_submit = [INTENT_CREATED, RISK_CHECK_PENDING, RISK_APPROVED]"

lemma legal_path_submitted:
  "legal_path a ts b \<Longrightarrow> a \<in> set pre_submit \<Longrightarrow> b \<notin> set pre_submit \<Longrightarrow> b \<noteq> RISK_REJECTED \<Longrightarrow>
     b \<noteq> CANCELLED \<Longrightarrow> (RISK_APPROVED, SUBMITTED, False) \<in> set ts \<or> (RISK_APPROVED, SUBMITTED, True) \<in> set ts"
proof (induction a ts b rule: legal_path.induct)
  case (1 a b)
  then show ?case by auto
next
  case (2 a x y rc ts b)
  from 2 have x: "x \<in> set pre_submit" "may_go x y rc" "legal_path y ts b" by auto
  show ?case
  proof (cases "y \<in> set pre_submit")
    case True
    with 2 x show ?thesis by auto
  next
    case False
    show ?thesis
    proof (cases "y = SUBMITTED")
      case True
      then show ?thesis using x by (cases rc) (auto simp: pre_submit_def may_go_def)
    next
      case no: False
      then have "y \<in> {RISK_REJECTED, CANCELLED}" using x False by (auto simp: pre_submit_def may_go_def)
      then have "ts = [] \<and> b = y" using x(3) by (cases ts) (auto simp: may_go_def)
      with 2 \<open>y \<in> _\<close> show ?thesis by auto
    qed
  qed
qed

definition demo_record :: order_record where
  "demo_record = new_order_record ''t0'' ''swing1'' ''INFY'' ''NSE'' ''BUY'' 10 ''MARKET'' ''CNC''"

lemma demo_record_life: "record_life demo_record"
  unfolding demo_record_def by (rule record_life.born) simp

text \<open>C32. Whatever is done to a record, its durable history is a legal path of the declared
  state machine ending in its state; a record seen live or finished at the broker has an entry
  for the submission after the risk approval; and it never fills more than was ordered.\<close>

theorem record_history_is_legal_path:
  assumes "record_life r"
  shows "legal_path INTENT_CREATED (path_of r) (r_state r) \<and> r_filled_qty r \<le> r_qty r \<and>
    (r_state r \<notin> set pre_submit \<union> {RISK_REJECTED, CANCELLED} \<longrightarrow>
       (\<exists>rc. (RISK_APPROVED, SUBMITTED, rc) \<in> set (path_of r)))"
proof -
  have ok: "record_ok r" using assms by (rule record_life_ok)
  then have path: "legal_path INTENT_CREATED (path_of r) (r_state r)" by (simp add: record_ok_def)
  show ?thesis
    using ok path legal_path_submitted [OF path] by (auto simp: record_ok_def pre_submit_def)
qed

theorem record_history_is_legal_path_witness:
  "legal_path INTENT_CREATED (path_of demo_record) (r_state demo_record)
   \<and> r_filled_qty demo_record \<le> r_qty demo_record"
  using record_history_is_legal_path [OF demo_record_life] by blast

fun apply_fills :: "string \<Rightarrow> (int \<times> pyfloat \<times> string) list \<Rightarrow> order_record \<Rightarrow> order_record res" where
  "apply_fills now [] r = Inr r"
| "apply_fills now ((q, p, fid) # fs) r =
     res_bind (apply_fill now q p fid r) (\<lambda>(_, r'). apply_fills now fs r')"

text \<open>The first message of each fill id.\<close>

fun first_of_each :: "string list \<Rightarrow> (int \<times> pyfloat \<times> string) list \<Rightarrow> (int \<times> pyfloat \<times> string) list" where
  "first_of_each seen [] = []"
| "first_of_each seen ((q, p, fid) # fs) =
     (if fid \<in> set seen then first_of_each seen fs
      else (q, p, fid) # first_of_each (fid # seen) fs)"

lemma first_of_each_cong: "set seen = set seen' \<Longrightarrow> first_of_each seen fs = first_of_each seen' fs"
proof (induction fs arbitrary: seen seen')
  case (Cons f fs)
  obtain q p fid where f: "f = (q, p, fid)" by (cases f)
  have "set (fid # seen) = set (fid # seen')" using Cons.prems by simp
  from Cons.IH [OF this] Cons.IH [OF Cons.prems] Cons.prems show ?case by (simp add: f)
qed simp

lemma apply_fill_ids:
  "apply_fill now q p fid r = Inr (b, r') \<Longrightarrow> set (r_applied_fill_ids r') = insert fid (set (r_applied_fill_ids r))"
  by (auto simp: apply_fill_def Let_def split: if_splits)

lemma apply_fills_first_of_each:
  "apply_fills now (first_of_each (r_applied_fill_ids r) fs) r = apply_fills now fs r"
proof (induction fs arbitrary: r)
  case (Cons f fs)
  obtain q p fid where f: "f = (q, p, fid)" by (cases f)
  show ?case
  proof (cases "fid \<in> set (r_applied_fill_ids r)")
    case True
    then show ?thesis using Cons.IH [of r] by (simp add: f apply_fill_def)
  next
    case False
    show ?thesis
    proof (cases "apply_fill now q p fid r")
      case (Inr x)
      obtain b r' where x: "x = (b, r')" by (cases x)
      have "set (fid # r_applied_fill_ids r) = set (r_applied_fill_ids r')"
        using apply_fill_ids [of now q p fid r b r'] Inr x by simp
      from first_of_each_cong [OF this, of fs] Cons.IH [of r'] show ?thesis
        using False Inr x by (simp add: f)
    qed (use False f in simp)
  qed
qed simp

text \<open>A fill message is applied exactly once: a list of fill messages and the same list
  without its repeated fill ids leave the same record, or raise the same error.\<close>

theorem fills_apply_exactly_once:
  "apply_fills now (first_of_each (r_applied_fill_ids r) fs) r = apply_fills now fs r"
  by (rule apply_fills_first_of_each)

text \<open>Partial fills add up: when a list of fill messages with fresh, distinct ids is
  accepted, the filled quantity grows by exactly their sum, it stays within the order, every
  message had a positive quantity, and the number of applied fills is bounded by the order.\<close>

theorem fills_add_up:
  assumes "apply_fills now fs r = Inr r'"
    and "distinct (map (snd \<circ> snd) fs)"
    and "set (map (snd \<circ> snd) fs) \<inter> set (r_applied_fill_ids r) = {}"
    and "r_filled_qty r \<le> r_qty r"
  shows "r_filled_qty r' = r_filled_qty r + sum_list (map fst fs) \<and> r_filled_qty r' \<le> r_qty r \<and>
    (\<forall>f \<in> set fs. 0 < fst f) \<and> int (length fs) \<le> r_qty r - r_filled_qty r \<and> r_state r' = r_state r"
  using assms
proof (induction fs arbitrary: r)
  case (Cons f fs)
  obtain q p fid where f: "f = (q, p, fid)" by (cases f)
  from Cons.prems(1,3) f obtain r1 where r1: "apply_fill now q p fid r = Inr (True, r1)"
    and rest: "apply_fills now fs r1 = Inr r'"
    by (auto simp: apply_fill_def Let_def split: if_splits)
  have new: "0 < q" "r_filled_qty r1 = r_filled_qty r + q" "r_qty r1 = r_qty r"
      "r_filled_qty r1 \<le> r_qty r1" "r_state r1 = r_state r"
      "set (r_applied_fill_ids r1) = insert fid (set (r_applied_fill_ids r))"
    using r1 by (auto simp: apply_fill_new)
  have "set (map (snd \<circ> snd) fs) \<inter> set (r_applied_fill_ids r1) = {}"
    using Cons.prems(2,3) new(6) f by auto
  from Cons.IH [OF rest _ this new(4)] Cons.prems(2) new show ?case by (auto simp: f)
qed simp

theorem fills_add_up_witness:
  "\<exists>r'. apply_fills ''t1'' [(4, Fin 100, ''f1''), (6, Fin 100, ''f2'')] demo_record = Inr r' \<and>
     r_filled_qty r' = 10"
proof -
  let ?fs = "[(4, Fin 100, ''f1''), (6, Fin 100, ''f2'')] :: (int \<times> pyfloat \<times> string) list"
  obtain r' where r': "apply_fills ''t1'' ?fs demo_record = Inr r'"
    by (simp add: demo_record_def new_order_record_def apply_fill_def)
  have "r_filled_qty r' = r_filled_qty demo_record + sum_list (map fst ?fs)"
    using fills_add_up [OF r'] by (simp add: demo_record_def new_order_record_def)
  then have "r_filled_qty r' = 10" by (simp add: demo_record_def new_order_record_def)
  with r' show ?thesis by blast
qed

text \<open>The durable form loses nothing: reading back what \<open>to_dict\<close> wrote gives the record,
  its state, its fills and its history included.\<close>

theorem record_roundtrip: "from_dict now (to_dict r) = Inr r"
  by (rule from_dict_to_dict)

text \<open>A broker status reads as \<open>FILLED\<close> only if its text, stripped and in upper case, is
  \<open>COMPLETE\<close> and the reported quantity does not contradict it; a missing, blank or
  unrecognised status is \<open>UNKNOWN\<close>; and no status maps back to a state before submission.\<close>

theorem broker_status_never_optimistic:
  "(map_broker_status s f q = FILLED \<longleftrightarrow>
      (\<exists>t. s = Some t \<and> py_upper (py_strip t) = ''COMPLETE'' \<and> \<not> (0 < q \<and> 0 < f \<and> f < q))) \<and>
   (map_broker_status s f q = UNKNOWN \<longleftrightarrow>
      s = None \<or> (\<exists>t. s = Some t \<and> py_upper (py_strip t) \<notin> fst ` set broker_status_map)) \<and>
   map_broker_status s f q \<notin> set pre_submit \<union> {RISK_REJECTED}"
proof -
  have "py_upper [] \<notin> fst ` set broker_status_map"
    by (simp add: py_upper_def broker_status_map_def)
  then show ?thesis
    by (auto simp: map_broker_status_def broker_status_map_def pre_submit_def py_upper_def
        split: option.splits if_splits)
qed

text \<open>A generated client order id fits the broker's tag without truncation, and it starts
  with the prefix the duplicate-order gate looks for, as long as the gate is asked about the
  strategy name the id was made from.\<close>

theorem client_order_id_fits_tag:
  "length (make_client_order_id strategy nonce) \<le> TAG_MAX_LEN \<and>
   is_prefix (strategy_tag_prefix strategy)
     (take STRATEGY_PREFIX_LEN (make_client_order_id strategy nonce)) \<and>
   (12 \<le> length nonce \<longrightarrow> make_client_order_id strategy nonce \<noteq> [] \<and>
      drop (length (strategy_tag_prefix strategy)) (make_client_order_id strategy nonce)
        = take (TAG_MAX_LEN - length (strategy_tag_prefix strategy)) nonce)"
proof -
  have "length (strategy_tag_prefix strategy) \<le> 8"
    using length_strategy_tag_prefix by (simp add: STRATEGY_PREFIX_LEN_def)
  then show ?thesis
    using strategy_tag_prefix_nonempty [of strategy]
    by (auto simp: make_client_order_id_def is_prefix_def TAG_MAX_LEN_def STRATEGY_PREFIX_LEN_def
        min_def drop_take)
qed

theorem client_order_id_fits_tag_witness:
  "drop (length ''swing'') (make_client_order_id ''swing'' ''0123456789abcdef'') = ''0123456789abcde''"
  using client_order_id_fits_tag [of "''swing''" "''0123456789abcdef''"]
  by (simp add: strategy_tag_prefix_def STRATEGY_PREFIX_LEN_def TAG_MAX_LEN_def)

end
