(* ===== verification/Order_Store.thy ===== *)
theory Order_Store
  imports Lifecycle "HOL-Library.Char_ord" "HOL-Library.List_Lexorder"
begin

text \<open>
  The order stores: \<open>InMemoryOrderStore\<close> and \<open>RedisOrderStore\<close> of
  \<open>app/execution/lifecycle.py\<close>, \<open>FileOrderStore\<close> of \<open>app/execution/file_stores.py\<close>, and
  the contract all three give their client (locale \<open>claim_store\<close>): \<open>reserve\<close> is an atomic
  set-if-not-exists. A Python dictionary is an association list in insertion order
  (\<open>AList.update\<close> overwrites in place or appends, as a dictionary does).
\<close>

section \<open>The in-memory store\<close>

record position =
  pos_symbol :: string
  pos_exchange :: string
  pos_product :: string
  pos_quantity :: int
  pos_average_price :: pyfloat

record order_store =
  st_records :: "(string \<times> order_record) list"
  st_trades :: "(string \<times> json list) list"
  st_trade_ids :: "string set"
  st_positions :: "(string \<times> position) list"

definition empty_store :: order_store where
  "empty_store = \<lparr>st_records = [], st_trades = [], st_trade_ids = {}, st_positions = []\<rparr>"

definition mem_reserve :: "order_record \<Rightarrow> order_store \<Rightarrow> bool res \<times> order_store" where
  "mem_reserve r s =
     (if map_of (st_records s) (r_client_order_id r) \<noteq> None then (Inr False, s)
      else (Inr True, s\<lparr>st_records := AList.update (r_client_order_id r) r (st_records s)\<rparr>))"

definition mem_get :: "string \<Rightarrow> order_store \<Rightarrow> order_record option" where
  "mem_get cid s = map_of (st_records s) cid"

definition mem_save :: "order_record \<Rightarrow> order_store \<Rightarrow> unit res \<times> order_store" where
  "mem_save r s =
     (if map_of (st_records s) (r_client_order_id r) = None
      then (Inl (PersistenceError (''save() before reserve() for '' @ r_client_order_id r)), s)
      else (Inr (), s\<lparr>st_records := AList.update (r_client_order_id r) r (st_records s)\<rparr>))"

definition mem_list_all :: "order_store \<Rightarrow> order_record list" where
  "mem_list_all s = map snd (st_records s)"

definition mem_list_open :: "order_store \<Rightarrow> order_record list" where
  "mem_list_open s = filter (\<lambda>r. \<not> is_terminal r) (mem_list_all s)"

text \<open>\<open>str(fill.get("fill_id") or "")\<close>: a missing, null, empty or zero id counts as none; the
  ids the code writes are strings.\<close>

definition fill_id_of :: "(string \<times> json) list \<Rightarrow> string" where
  "fill_id_of fill = (case map_of fill ''fill_id'' of Some (JStr s) \<Rightarrow> s | _ \<Rightarrow> [])"

definition mem_record_trade ::
  "string \<Rightarrow> (string \<times> json) list \<Rightarrow> order_store \<Rightarrow> bool res \<times> order_store" where
  "mem_record_trade cid fill s =
     (let fid = fill_id_of fill in
      if fid = [] then (Inl (ValueError ''fill must carry a fill_id''), s)
      else if fid \<in> st_trade_ids s then (Inr False, s)
      else (Inr True, s\<lparr>st_trade_ids := insert fid (st_trade_ids s),
        st_trades := AList.update cid
          ((case map_of (st_trades s) cid of None \<Rightarrow> [] | Some ts \<Rightarrow> ts) @ [JObj fill])
          (st_trades s)\<rparr>))"

definition mem_list_trades :: "string \<Rightarrow> order_store \<Rightarrow> json list" where
  "mem_list_trades cid s = (case map_of (st_trades s) cid of None \<Rightarrow> [] | Some ts \<Rightarrow> ts)"

definition pos_key :: "string \<Rightarrow> string \<Rightarrow> string \<Rightarrow> string" where
  "pos_key symbol exchange prdct = exchange @ '':'' @ symbol @ '':'' @ prdct"

definition flat_position :: "string \<Rightarrow> string \<Rightarrow> string \<Rightarrow> position" where
  "flat_position symbol exchange prdct =
     \<lparr>pos_symbol = symbol, pos_exchange = exchange, pos_product = prdct, pos_quantity = 0,
      pos_average_price = Fin 0\<rparr>"

text \<open>The position arithmetic, the same lines in all three stores.\<close>

definition position_delta :: "int \<Rightarrow> pyfloat \<Rightarrow> position \<Rightarrow> position" where
  "position_delta qty_delta price p =
     (let old_qty = pos_quantity p; new_qty = old_qty + qty_delta in
      (if 0 \<le> old_qty \<and> 0 < qty_delta then
         let notional = pos_average_price p * fint old_qty + price * fint qty_delta in
         p\<lparr>pos_average_price := (if new_qty = 0 then Fin 0 else fquot notional (fint new_qty))\<rparr>
       else if new_qty = 0 then p\<lparr>pos_average_price := Fin 0\<rparr>
       else p)\<lparr>pos_quantity := new_qty\<rparr>)"

definition mem_get_position :: "string \<Rightarrow> string \<Rightarrow> string \<Rightarrow> order_store \<Rightarrow> position" where
  "mem_get_position symbol exchange prdct s =
     (case map_of (st_positions s) (pos_key symbol exchange prdct) of
        None \<Rightarrow> flat_position symbol exchange prdct | Some p \<Rightarrow> p)"

definition mem_apply_position_delta ::
  "string \<Rightarrow> string \<Rightarrow> string \<Rightarrow> int \<Rightarrow> pyfloat \<Rightarrow> order_store \<Rightarrow> position res \<times> order_store" where
  "mem_apply_position_delta symbol exchange prdct qty_delta price s =
     (let p = position_delta qty_delta price (mem_get_position symbol exchange prdct s) in
      (Inr p, s\<lparr>st_positions := AList.update (pos_key symbol exchange prdct) p (st_positions s)\<rparr>))"

section \<open>The Redis store\<close>

text \<open>
  The three key families of the namespace (records, fill ids, positions). \<open>down\<close> says that the
  client raises on the call: every failure becomes a \<open>PersistenceError\<close>, before any effect.
  Keys expire after the store's TTL (\<open>redis_expire\<close>).
\<close>

record redis_store =
  rd_records :: "(string \<times> order_record) list"
  rd_fills :: "(string \<times> json) list"
  rd_positions :: "(string \<times> position) list"

definition redis_reserve :: "bool \<Rightarrow> order_record \<Rightarrow> redis_store \<Rightarrow> bool res \<times> redis_store" where
  "redis_reserve down r s =
     (if down then (Inl (PersistenceError ''order reservation failed''), s)
      else if map_of (rd_records s) (r_client_order_id r) \<noteq> None then (Inr False, s)
      else (Inr True, s\<lparr>rd_records := AList.update (r_client_order_id r) r (rd_records s)\<rparr>))"

definition redis_get :: "bool \<Rightarrow> string \<Rightarrow> redis_store \<Rightarrow> order_record option res" where
  "redis_get down cid s =
     (if down then Inl (PersistenceError ''order read failed'') else Inr (map_of (rd_records s) cid))"

definition redis_save :: "bool \<Rightarrow> order_record \<Rightarrow> redis_store \<Rightarrow> unit res \<times> redis_store" where
  "redis_save down r s =
     (if down then (Inl (PersistenceError ''order write failed''), s)
      else (Inr (), s\<lparr>rd_records := AList.update (r_client_order_id r) r (rd_records s)\<rparr>))"

definition redis_list_open :: "bool \<Rightarrow> redis_store \<Rightarrow> order_record list res" where
  "redis_list_open down s =
     (if down then Inl (PersistenceError ''order scan failed'')
      else Inr (filter (\<lambda>r. \<not> is_terminal r) (map snd (rd_records s))))"

definition redis_record_trade ::
  "bool \<Rightarrow> string \<Rightarrow> (string \<times> json) list \<Rightarrow> redis_store \<Rightarrow> bool res \<times> redis_store" where
  "redis_record_trade down cid fill s =
     (let fid = fill_id_of fill in
      if fid = [] then (Inl (ValueError ''fill must carry a fill_id''), s)
      else if down then (Inl (PersistenceError ''trade write failed''), s)
      else if map_of (rd_fills s) fid \<noteq> None then (Inr False, s)
      else (Inr True, s\<lparr>rd_fills := AList.update fid
             (JObj (AList.update ''client_order_id'' (JStr cid) fill)) (rd_fills s)\<rparr>))"

definition redis_apply_position_delta ::
  "bool \<Rightarrow> string \<Rightarrow> string \<Rightarrow> string \<Rightarrow> int \<Rightarrow> pyfloat \<Rightarrow> redis_store \<Rightarrow> position res \<times> redis_store" where
  "redis_apply_position_delta down symbol exchange prdct qty_delta price s =
     (if down then (Inl (PersistenceError ''position write failed''), s)
      else let k = pos_key symbol exchange prdct;
               p = position_delta qty_delta price
                     (case map_of (rd_positions s) k of
                        None \<Rightarrow> flat_position symbol exchange prdct | Some p \<Rightarrow> p)
           in (Inr p, s\<lparr>rd_positions := AList.update k p (rd_positions s)\<rparr>))"

definition redis_expire :: "string \<Rightarrow> redis_store \<Rightarrow> redis_store" where
  "redis_expire cid s = s\<lparr>rd_records := AList.delete cid (rd_records s)\<rparr>"

section \<open>The file store\<close>

text \<open>The document \<open>_flush\<close> writes, and its reading back in \<open>__init__\<close>. The code keeps a record as the text of
  its dictionary and decodes it when it is asked for; the model keeps the dictionary, so that a document with a
  malformed record is refused when the file is opened, where the code raises at the first reading of the record.\<close>

definition position_json :: "position \<Rightarrow> json" where
  "position_json p = JObj [(''symbol'', JStr (pos_symbol p)), (''exchange'', JStr (pos_exchange p)),
     (''product'', JStr (pos_product p)), (''quantity'', JInt (pos_quantity p)),
     (''average_price'', JFloat (pos_average_price p))]"

definition store_json :: "order_store \<Rightarrow> json" where
  "store_json s = JObj
     [(''version'', JInt 1),
      (''records'', JObj (map (\<lambda>(k, r). (k, to_dict r)) (st_records s))),
      (''trades'', JObj (map (\<lambda>(k, ts). (k, JList ts)) (st_trades s))),
      (''trade_ids'', JList (map JStr (sorted_list_of_set (st_trade_ids s)))),
      (''positions'', JObj (map (\<lambda>(k, p). (k, position_json p)) (st_positions s)))]"

fun as_obj :: "json \<Rightarrow> (string \<times> json) list option" where
  "as_obj (JObj kvs) = Some kvs" | "as_obj _ = None"

text \<open>A malformed document raises; the code raises its own error for a file that is not JSON
  and the error of the failing access otherwise, both before the store exists.\<close>

definition or_corrupt :: "'a option \<Rightarrow> 'a res" where
  "or_corrupt x = (case x of None \<Rightarrow> Inl (PersistenceError ''store is corrupt or unreadable'') | Some v \<Rightarrow> Inr v)"

fun decode_all :: "('a \<Rightarrow> 'b res) \<Rightarrow> (string \<times> 'a) list \<Rightarrow> (string \<times> 'b) list res" where
  "decode_all f [] = Inr []"
| "decode_all f ((k, j) # kvs) =
     res_bind (f j) (\<lambda>v. res_bind (decode_all f kvs) (\<lambda>rest. Inr ((k, v) # rest)))"

definition position_of_json :: "json \<Rightarrow> position res" where
  "position_of_json j =
     res_bind (or_corrupt (as_obj j)) (\<lambda>kvs.
     res_bind (kwarg kvs ''symbol'' None as_str) (\<lambda>sm.
     res_bind (kwarg kvs ''exchange'' None as_str) (\<lambda>ex.
     res_bind (kwarg kvs ''product'' None as_str) (\<lambda>pr.
     res_bind (kwarg kvs ''quantity'' None as_int) (\<lambda>q.
     res_bind (kwarg kvs ''average_price'' None as_float) (\<lambda>a.
     Inr \<lparr>pos_symbol = sm, pos_exchange = ex, pos_product = pr, pos_quantity = q,
          pos_average_price = a\<rparr>))))))"

definition file_load :: "string \<Rightarrow> json option \<Rightarrow> order_store res" where
  "file_load now disk = (case disk of
     None \<Rightarrow> Inr empty_store
   | Some j \<Rightarrow>
     res_bind (or_corrupt (as_obj j)) (\<lambda>kvs.
     res_bind (kwarg kvs ''records'' (Some []) as_obj) (\<lambda>recs.
     res_bind (decode_all (from_dict now) recs) (\<lambda>records.
     res_bind (kwarg kvs ''trades'' (Some []) as_obj) (\<lambda>trs.
     res_bind (decode_all (\<lambda>t. or_corrupt (as_list t)) trs) (\<lambda>trades.
     res_bind (kwarg kvs ''trade_ids'' (Some []) (\<lambda>x. Option.bind (as_list x) as_strs)) (\<lambda>ids.
     res_bind (kwarg kvs ''positions'' (Some []) as_obj) (\<lambda>poss.
     res_bind (decode_all position_of_json poss) (\<lambda>positions.
     Inr \<lparr>st_records = records, st_trades = trades, st_trade_ids = set ids,
          st_positions = positions\<rparr>)))))))))"

text \<open>The running store and the file. \<open>io_ok\<close> is false where \<open>atomic_write\<close> raises: the file
  then still holds the previous document, since the temporary file is moved over it last.\<close>

record file_store =
  fs_mem :: order_store
  fs_disk :: "json option"

definition file_open :: "string \<Rightarrow> json option \<Rightarrow> file_store res" where
  "file_open now disk = res_bind (file_load now disk) (\<lambda>m. Inr \<lparr>fs_mem = m, fs_disk = disk\<rparr>)"

definition file_flush :: "bool \<Rightarrow> 'a \<Rightarrow> order_store \<Rightarrow> file_store \<Rightarrow> 'a res \<times> file_store" where
  "file_flush io_ok x m fs =
     (if io_ok then (Inr x, fs\<lparr>fs_mem := m, fs_disk := Some (store_json m)\<rparr>)
      else (Inl (PyExn ''OSError'' ''write failed''), fs\<lparr>fs_mem := m\<rparr>))"

definition file_reserve :: "bool \<Rightarrow> order_record \<Rightarrow> file_store \<Rightarrow> bool res \<times> file_store" where
  "file_reserve io_ok r fs = (case mem_reserve r (fs_mem fs) of
     (Inr True, m) \<Rightarrow> file_flush io_ok True m fs | (res, m) \<Rightarrow> (res, fs))"

definition file_get :: "string \<Rightarrow> file_store \<Rightarrow> order_record option" where
  "file_get cid fs = mem_get cid (fs_mem fs)"

definition file_save :: "bool \<Rightarrow> order_record \<Rightarrow> file_store \<Rightarrow> unit res \<times> file_store" where
  "file_save io_ok r fs = (case mem_save r (fs_mem fs) of
     (Inr u, m) \<Rightarrow> file_flush io_ok () m fs | (Inl e, m) \<Rightarrow> (Inl e, fs))"

definition file_list_open :: "file_store \<Rightarrow> order_record list" where
  "file_list_open fs = mem_list_open (fs_mem fs)"

definition file_record_trade ::
  "bool \<Rightarrow> string \<Rightarrow> (string \<times> json) list \<Rightarrow> file_store \<Rightarrow> bool res \<times> file_store" where
  "file_record_trade io_ok cid fill fs = (case mem_record_trade cid fill (fs_mem fs) of
     (Inr True, m) \<Rightarrow> file_flush io_ok True m fs | (res, m) \<Rightarrow> (res, fs))"

definition file_apply_position_delta ::
  "bool \<Rightarrow> string \<Rightarrow> string \<Rightarrow> string \<Rightarrow> int \<Rightarrow> pyfloat \<Rightarrow> file_store \<Rightarrow> position res \<times> file_store" where
  "file_apply_position_delta io_ok symbol exchange prdct d price fs =
     (case mem_apply_position_delta symbol exchange prdct d price (fs_mem fs) of
        (Inr p, m) \<Rightarrow> file_flush io_ok p m fs | (Inl e, m) \<Rightarrow> (Inl e, fs))"

section \<open>The contract: an id is claimed once\<close>

text \<open>
  \<open>lookup\<close> is the client's view. \<open>ok\<close> is false on a call whose backend fails; a call that
  raises has either changed nothing or taken its full effect.
\<close>

locale claim_store =
  fixes lookup :: "'s \<Rightarrow> string \<Rightarrow> order_record option"
    and reserve :: "bool \<Rightarrow> order_record \<Rightarrow> 's \<Rightarrow> bool res \<times> 's"
    and save :: "bool \<Rightarrow> order_record \<Rightarrow> 's \<Rightarrow> unit res \<times> 's"
  assumes reserve_ret: "reserve ok r s = (Inr b, s') \<Longrightarrow>
      b = (lookup s (r_client_order_id r) = None) \<and>
      lookup s' = (if b then (lookup s)(r_client_order_id r \<mapsto> r) else lookup s)"
    and reserve_exn: "reserve ok r s = (Inl e, s') \<Longrightarrow>
      lookup s' = lookup s \<or>
      lookup s (r_client_order_id r) = None \<and> lookup s' = (lookup s)(r_client_order_id r \<mapsto> r)"
    and save_ret: "save ok r s = (Inr u, s') \<Longrightarrow> lookup s' = (lookup s)(r_client_order_id r \<mapsto> r)"
    and save_exn: "save ok r s = (Inl e, s') \<Longrightarrow>
      lookup s' = lookup s \<or> lookup s' = (lookup s)(r_client_order_id r \<mapsto> r)"
begin

lemma reserve_dom: "dom (lookup s) \<subseteq> dom (lookup (snd (reserve ok r s)))"
proof (cases "reserve ok r s")
  case (Pair res s')
  then show ?thesis
    using reserve_ret [of ok r s _ s'] reserve_exn [of ok r s _ s']
    by (cases res) (auto split: if_splits)
qed

lemma save_dom: "dom (lookup s) \<subseteq> dom (lookup (snd (save ok r s)))"
proof (cases "save ok r s")
  case (Pair res s')
  then show ?thesis
    using save_ret [of ok r s _ s'] save_exn [of ok r s _ s'] by (cases res) auto
qed

lemma reserve_idem:
  assumes "reserve ok r s = (Inr True, s')" and "r_client_order_id r2 = r_client_order_id r"
  shows "fst (reserve ok2 r2 s') \<noteq> Inr True"
proof -
  have "lookup s' (r_client_order_id r2) \<noteq> None" using reserve_ret [OF assms(1)] assms(2) by auto
  then show ?thesis using reserve_ret [of ok2 r2 s'] by (metis prod.collapse)
qed

end

text \<open>
  A durable store also survives \<open>restart\<close>: \<open>claimed\<close> are the ids whose claim is on disk.
\<close>

locale durable_claim_store = claim_store lookup reserve save
  for lookup :: "'s \<Rightarrow> string \<Rightarrow> order_record option"
    and reserve :: "bool \<Rightarrow> order_record \<Rightarrow> 's \<Rightarrow> bool res \<times> 's"
    and save :: "bool \<Rightarrow> order_record \<Rightarrow> 's \<Rightarrow> unit res \<times> 's" +
  fixes inv :: "'s \<Rightarrow> bool"
    and claimed :: "'s \<Rightarrow> string set"
    and restart :: "'s \<Rightarrow> 's"
  assumes claimed_lookup: "inv s \<Longrightarrow> claimed s \<subseteq> dom (lookup s)"
    and inv_reserve: "inv s \<Longrightarrow> inv (snd (reserve ok r s))"
    and inv_save: "inv s \<Longrightarrow> inv (snd (save ok r s))"
    and inv_restart: "inv s \<Longrightarrow> inv (restart s)"
    and granted_claimed: "inv s \<Longrightarrow> reserve ok r s = (Inr True, s') \<Longrightarrow> r_client_order_id r \<in> claimed s'"
    and reserve_claimed: "inv s \<Longrightarrow> claimed s \<subseteq> claimed (snd (reserve ok r s))"
    and save_claimed: "inv s \<Longrightarrow> claimed s \<subseteq> claimed (snd (save ok r s))"
    and restart_claimed: "inv s \<Longrightarrow> claimed s \<subseteq> claimed (restart s)"

text \<open>A client's run: calls that may fail, and restarts in between. \<open>grants\<close> lists the ids
  whose \<open>reserve\<close> returned \<open>True\<close>, in order.\<close>

datatype store_call = CReserve bool order_record | CSave bool order_record | CRestart

fun grants ::
  "(bool \<Rightarrow> order_record \<Rightarrow> 's \<Rightarrow> bool res \<times> 's) \<Rightarrow> (bool \<Rightarrow> order_record \<Rightarrow> 's \<Rightarrow> unit res \<times> 's) \<Rightarrow>
   ('s \<Rightarrow> 's) \<Rightarrow> store_call list \<Rightarrow> 's \<Rightarrow> string list" where
  "grants reserve save restart [] s = []"
| "grants reserve save restart (CReserve ok r # cs) s =
     (case reserve ok r s of (res, s') \<Rightarrow>
        (if res = Inr True then [r_client_order_id r] else []) @ grants reserve save restart cs s')"
| "grants reserve save restart (CSave ok r # cs) s = grants reserve save restart cs (snd (save ok r s))"
| "grants reserve save restart (CRestart # cs) s = grants reserve save restart cs (restart s)"

context durable_claim_store
begin

lemma grants_fresh: "inv s \<Longrightarrow> cid \<in> claimed s \<Longrightarrow> cid \<notin> set (grants reserve save restart cs s)"
proof (induction cs arbitrary: s)
  case (Cons c cs)
  show ?case
  proof (cases c)
    case (CReserve ok r)
    obtain res s' where rs: "reserve ok r s = (res, s')" by (cases "reserve ok r s")
    have "inv s'" "cid \<in> claimed s'"
      using inv_reserve [OF Cons.prems(1), of ok r] reserve_claimed [OF Cons.prems(1), of ok r]
        Cons.prems(2) rs by auto
    then have rest: "cid \<notin> set (grants reserve save restart cs s')" by (rule Cons.IH)
    have "res = Inr True \<Longrightarrow> r_client_order_id r \<noteq> cid"
      using reserve_ret [of ok r s True s'] rs claimed_lookup [OF Cons.prems(1)] Cons.prems(2) by auto
    with rest rs CReserve show ?thesis by auto
  next
    case (CSave ok r)
    with Cons show ?thesis using inv_save [of s ok r] save_claimed [of s ok r] by auto
  next
    case CRestart
    with Cons show ?thesis using inv_restart [of s] restart_claimed [of s] by auto
  qed
qed simp

lemma grants_distinct: "inv s \<Longrightarrow> distinct (grants reserve save restart cs s)"
proof (induction cs arbitrary: s)
  case (Cons c cs)
  show ?case
  proof (cases c)
    case (CReserve ok r)
    obtain res s' where rs: "reserve ok r s = (res, s')" by (cases "reserve ok r s")
    have inv': "inv s'" using inv_reserve [OF Cons.prems, of ok r] rs by simp
    moreover have "res = Inr True \<Longrightarrow> r_client_order_id r \<in> claimed s'"
      using granted_claimed [OF Cons.prems, of ok r s'] rs by simp
    ultimately show ?thesis using Cons.IH [OF inv'] grants_fresh [OF inv'] rs CReserve by auto
  next
    case (CSave ok r)
    with Cons show ?thesis using inv_save by simp
  next
    case CRestart
    with Cons show ?thesis using inv_restart by simp
  qed
qed simp

end

section \<open>The three stores keep the contract\<close>

definition mem_lookup :: "order_store \<Rightarrow> string \<Rightarrow> order_record option" where
  "mem_lookup s = map_of (st_records s)"

definition redis_lookup :: "redis_store \<Rightarrow> string \<Rightarrow> order_record option" where
  "redis_lookup s = map_of (rd_records s)"

definition file_lookup :: "file_store \<Rightarrow> string \<Rightarrow> order_record option" where
  "file_lookup fs = mem_lookup (fs_mem fs)"

lemma mem_lookup_reserve:
  "mem_reserve r s = (res, s') \<Longrightarrow>
     (res = Inr True \<and> mem_lookup s (r_client_order_id r) = None \<and>
        mem_lookup s' = (mem_lookup s)(r_client_order_id r \<mapsto> r)) \<or>
     (res = Inr False \<and> mem_lookup s (r_client_order_id r) \<noteq> None \<and> s' = s)"
  by (auto simp: mem_reserve_def mem_lookup_def update_conv' split: if_splits)

lemma mem_lookup_save:
  "mem_save r s = (res, s') \<Longrightarrow>
     (res = Inr () \<and> mem_lookup s (r_client_order_id r) \<noteq> None \<and>
        mem_lookup s' = (mem_lookup s)(r_client_order_id r \<mapsto> r)) \<or>
     ((\<exists>m. res = Inl (PersistenceError m)) \<and> mem_lookup s (r_client_order_id r) = None \<and> s' = s)"
  by (auto simp: mem_save_def mem_lookup_def update_conv' split: if_splits)

interpretation mem_st: claim_store mem_lookup "\<lambda>_. mem_reserve" "\<lambda>_. mem_save"
  by unfold_locales (auto dest!: mem_lookup_reserve mem_lookup_save)

interpretation redis_st: claim_store redis_lookup "\<lambda>ok. redis_reserve (\<not> ok)" "\<lambda>ok. redis_save (\<not> ok)"
  by unfold_locales
     (auto simp: redis_reserve_def redis_save_def redis_lookup_def update_conv' split: if_splits)

lemma file_lookup_reserve:
  "file_reserve ok r fs = (res, fs') \<Longrightarrow>
     (file_lookup fs (r_client_order_id r) = None \<and> (res = Inr True) = ok \<and> (\<not> ok \<longrightarrow> (\<exists>e. res = Inl e)) \<and>
        file_lookup fs' = (file_lookup fs)(r_client_order_id r \<mapsto> r)) \<or>
     (res = Inr False \<and> file_lookup fs (r_client_order_id r) \<noteq> None \<and> fs' = fs)"
  by (cases "mem_reserve r (fs_mem fs)", frule mem_lookup_reserve)
     (auto simp: file_reserve_def file_flush_def file_lookup_def split: if_splits)

lemma file_lookup_save:
  "file_save ok r fs = (res, fs') \<Longrightarrow>
     (((\<exists>u. res = Inr u) \<longrightarrow> ok) \<and> file_lookup fs' = (file_lookup fs)(r_client_order_id r \<mapsto> r)) \<or>
     ((\<exists>e. res = Inl e) \<and> fs' = fs)"
  by (cases "mem_save r (fs_mem fs)", frule mem_lookup_save)
     (auto simp: file_save_def file_flush_def file_lookup_def split: if_splits)

interpretation file_st: claim_store file_lookup file_reserve file_save
  by unfold_locales (auto dest!: file_lookup_reserve file_lookup_save)

section \<open>The file store across restarts\<close>

lemma decode_all_map:
  "(\<And>v. f (g v) = Inr v) \<Longrightarrow> decode_all f (map (\<lambda>(k, v). (k, g v)) kvs) = Inr kvs"
  by (induction kvs) auto

lemma position_roundtrip: "position_of_json (position_json p) = Inr p"
  by (simp add: position_of_json_def position_json_def or_corrupt_def kwarg_def)

lemma file_load_store_json:
  assumes "finite (st_trade_ids s)"
  shows "file_load now (Some (store_json s)) = Inr s"
proof -
  have recs: "decode_all (from_dict now) (map (\<lambda>(k, r). (k, to_dict r)) (st_records s)) = Inr (st_records s)"
    by (rule decode_all_map) (rule from_dict_to_dict)
  have trs: "decode_all (\<lambda>t. or_corrupt (as_list t)) (map (\<lambda>(k, ts). (k, JList ts)) (st_trades s)) = Inr (st_trades s)"
    by (rule decode_all_map) (simp add: or_corrupt_def)
  have poss: "decode_all position_of_json (map (\<lambda>(k, p). (k, position_json p)) (st_positions s)) = Inr (st_positions s)"
    by (rule decode_all_map) (rule position_roundtrip)
  show ?thesis
    using assms by (simp add: file_load_def store_json_def or_corrupt_def kwarg_def recs [unfolded or_corrupt_def]
        trs [unfolded or_corrupt_def] poss [unfolded or_corrupt_def])
qed

text \<open>What the file holds: nothing yet, or the document of an earlier store whose claims the
  running store still has.\<close>

definition file_inv :: "file_store \<Rightarrow> bool" where
  "file_inv fs \<longleftrightarrow> finite (st_trade_ids (fs_mem fs)) \<and>
     (fs_disk fs = None \<or>
      (\<exists>m. finite (st_trade_ids m) \<and> fs_disk fs = Some (store_json m) \<and>
           dom (mem_lookup m) \<subseteq> dom (file_lookup fs)))"

definition file_claimed :: "file_store \<Rightarrow> string set" where
  "file_claimed fs = (case file_load [] (fs_disk fs) of Inl _ \<Rightarrow> {} | Inr m \<Rightarrow> dom (mem_lookup m))"

text \<open>A process start on the same path: \<open>FileOrderStore.__init__\<close>.\<close>

definition file_restart :: "file_store \<Rightarrow> file_store" where
  "file_restart fs = (case file_open [] (fs_disk fs) of Inl _ \<Rightarrow> fs | Inr fs' \<Rightarrow> fs')"

lemma mem_lookup_empty [simp]: "mem_lookup empty_store = Map.empty"
  by (simp add: mem_lookup_def empty_store_def)

lemma file_load_None [simp]: "file_load now None = Inr empty_store"
  by (simp add: file_load_def)

lemma file_claimed_cases:
  "fs_disk fs = None \<Longrightarrow> file_claimed fs = {}"
  "fs_disk fs = Some (store_json m) \<Longrightarrow> finite (st_trade_ids m) \<Longrightarrow> file_claimed fs = dom (mem_lookup m)"
  by (simp_all add: file_claimed_def file_load_store_json)

lemma file_claimed_lookup: "file_inv fs \<Longrightarrow> file_claimed fs \<subseteq> dom (file_lookup fs)"
  unfolding file_inv_def by (elim conjE disjE exE) (simp_all add: file_claimed_cases)

lemma file_flush_inv:
  assumes "file_inv fs" and "finite (st_trade_ids m)"
    and "dom (file_lookup fs) \<subseteq> dom (mem_lookup m)"
  shows "file_inv (snd (file_flush ok x m fs))"
    and "file_claimed fs \<subseteq> file_claimed (snd (file_flush ok x m fs))"
    and "ok \<Longrightarrow> file_claimed (snd (file_flush ok x m fs)) = dom (mem_lookup m)"
proof -
  show "file_inv (snd (file_flush ok x m fs))"
  proof (cases ok)
    case True
    then show ?thesis using assms(2) by (auto simp: file_inv_def file_flush_def file_lookup_def)
  next
    case False
    from assms(1) have "fs_disk fs = None \<or> (\<exists>m'. finite (st_trade_ids m') \<and>
        fs_disk fs = Some (store_json m') \<and> dom (mem_lookup m') \<subseteq> dom (mem_lookup m))"
      using assms(3) unfolding file_inv_def by (meson subset_trans)
    with False assms(2) show ?thesis by (simp add: file_inv_def file_flush_def file_lookup_def)
  qed
  show claimed: "file_claimed (snd (file_flush ok x m fs)) = dom (mem_lookup m)" if ok
    using that assms(2) by (simp add: file_flush_def file_claimed_cases)
  have "file_claimed fs \<subseteq> dom (file_lookup fs)"
    using assms(1) by (rule file_claimed_lookup)
  then show "file_claimed fs \<subseteq> file_claimed (snd (file_flush ok x m fs))"
    using claimed assms(3) by (cases ok) (auto simp: file_flush_def file_claimed_def)
qed

lemma mem_ids:
  "mem_reserve r s = (res, s') \<Longrightarrow> st_trade_ids s' = st_trade_ids s"
  "mem_save r s = (res', s') \<Longrightarrow> st_trade_ids s' = st_trade_ids s"
  by (auto simp: mem_reserve_def mem_save_def split: if_splits)

lemma file_reserve_inv:
  assumes "file_inv fs"
  shows "file_inv (snd (file_reserve ok r fs)) \<and> file_claimed fs \<subseteq> file_claimed (snd (file_reserve ok r fs)) \<and>
    (fst (file_reserve ok r fs) = Inr True \<longrightarrow> r_client_order_id r \<in> file_claimed (snd (file_reserve ok r fs)))"
proof (cases "mem_reserve r (fs_mem fs)")
  case (Pair res m)
  have fin: "finite (st_trade_ids m)" using assms Pair by (simp add: file_inv_def mem_ids)
  show ?thesis
    using mem_lookup_reserve [OF Pair]
  proof
    assume new: "res = Inr True \<and> mem_lookup (fs_mem fs) (r_client_order_id r) = None \<and>
      mem_lookup m = (mem_lookup (fs_mem fs))(r_client_order_id r \<mapsto> r)"
    then have "dom (file_lookup fs) \<subseteq> dom (mem_lookup m)" by (auto simp: file_lookup_def)
    from file_flush_inv [OF assms fin this, of ok True] new Pair show ?thesis
      by (auto simp: file_reserve_def) (auto simp: file_flush_def split: if_splits)
  qed (use assms Pair in \<open>auto simp: file_reserve_def\<close>)
qed

lemma file_save_inv:
  assumes "file_inv fs"
  shows "file_inv (snd (file_save ok r fs)) \<and> file_claimed fs \<subseteq> file_claimed (snd (file_save ok r fs))"
proof (cases "mem_save r (fs_mem fs)")
  case (Pair res m)
  have fin: "finite (st_trade_ids m)" using assms Pair by (simp add: file_inv_def mem_ids)
  show ?thesis
    using mem_lookup_save [OF Pair]
  proof
    assume new: "res = Inr () \<and> mem_lookup (fs_mem fs) (r_client_order_id r) \<noteq> None \<and>
      mem_lookup m = (mem_lookup (fs_mem fs))(r_client_order_id r \<mapsto> r)"
    then have "dom (file_lookup fs) \<subseteq> dom (mem_lookup m)" by (auto simp: file_lookup_def)
    from file_flush_inv [OF assms fin this, of ok "()"] new Pair show ?thesis
      by (auto simp: file_save_def)
  qed (use assms Pair in \<open>auto simp: file_save_def\<close>)
qed

lemma file_restart_inv:
  assumes "file_inv fs"
  shows "file_inv (file_restart fs) \<and> file_claimed fs \<subseteq> file_claimed (file_restart fs)"
proof (cases "fs_disk fs")
  case None
  then show ?thesis
    by (simp add: file_restart_def file_open_def file_inv_def file_claimed_def) (simp add: empty_store_def)
next
  case (Some j)
  then obtain m where m: "finite (st_trade_ids m)" "j = store_json m"
    using assms by (auto simp: file_inv_def)
  have "file_restart fs = \<lparr>fs_mem = m, fs_disk = fs_disk fs\<rparr>"
    using Some m by (simp add: file_restart_def file_open_def file_load_store_json)
  then show ?thesis using Some m by (auto simp: file_inv_def file_lookup_def file_claimed_def)
qed

interpretation file_dur: durable_claim_store file_lookup file_reserve file_save file_inv file_claimed file_restart
proof unfold_locales
  fix s ok r s'
  assume inv: "file_inv s"
  then show "file_claimed s \<subseteq> dom (file_lookup s)"
    by (rule file_claimed_lookup)
  show "file_inv (snd (file_reserve ok r s))" "file_claimed s \<subseteq> file_claimed (snd (file_reserve ok r s))"
    using file_reserve_inv [OF inv] by blast+
  show "file_inv (snd (file_save ok r s))" "file_claimed s \<subseteq> file_claimed (snd (file_save ok r s))"
    using file_save_inv [OF inv] by blast+
  show "file_inv (file_restart s)" "file_claimed s \<subseteq> file_claimed (file_restart s)"
    using file_restart_inv [OF inv] by blast+
  show "r_client_order_id r \<in> file_claimed s'" if "file_reserve ok r s = (Inr True, s')"
    using file_reserve_inv [OF inv, of ok r] that by simp
qed

interpretation redis_dur: durable_claim_store redis_lookup "\<lambda>ok. redis_reserve (\<not> ok)"
    "\<lambda>ok. redis_save (\<not> ok)" "\<lambda>_. True" "\<lambda>s. dom (redis_lookup s)" id
  by unfold_locales
     (auto simp: redis_reserve_def redis_save_def redis_lookup_def update_conv' split: if_splits)

lemma file_inv_fresh: "file_inv \<lparr>fs_mem = empty_store, fs_disk = None\<rparr>"
  by (simp add: file_inv_def empty_store_def)

text \<open>A client order id is granted at most once by the file store, over any sequence of
  reservations and saves, with any of the writes failing and the process restarting at any
  point in between.\<close>

theorem file_claims_granted_once:
  "distinct (grants file_reserve file_save file_restart calls \<lparr>fs_mem = empty_store, fs_disk = None\<rparr>)"
  by (rule file_dur.grants_distinct [OF file_inv_fresh])

text \<open>The same for the Redis store, whose \<open>SET NX\<close> may fail on any call, as long as no
  claimed key has expired.\<close>

theorem redis_claims_granted_once:
  "distinct (grants (\<lambda>ok. redis_reserve (\<not> ok)) (\<lambda>ok. redis_save (\<not> ok)) id calls s)"
  by (rule redis_dur.grants_distinct) simp

text \<open>The time to live of the Redis claim is the limit of that promise: once the key has
  expired, the same client order id is granted again.\<close>

theorem redis_claim_expires:
  assumes "fst (redis_reserve False r s) = Inr True"
  shows "fst (redis_reserve False r (redis_expire (r_client_order_id r) (snd (redis_reserve False r s)))) = Inr True"
  using assms by (auto simp: redis_reserve_def redis_expire_def delete_conv' split: if_splits)

theorem redis_claim_expires_witness:
  "fst (redis_reserve False demo_record (redis_expire ''swing1''
     (snd (redis_reserve False demo_record \<lparr>rd_records = [], rd_fills = [], rd_positions = []\<rparr>)))) = Inr True"
  using redis_claim_expires [of demo_record "\<lparr>rd_records = [], rd_fills = [], rd_positions = []\<rparr>"]
  by (simp add: redis_reserve_def demo_record_def new_order_record_def)

section \<open>The file store refines the in-memory store\<close>

datatype store_op =
    OpReserve order_record
  | OpSave order_record
  | OpTrade string "(string \<times> json) list"
  | OpPosition string string string int pyfloat

datatype op_result = RBool "bool res" | RUnit "unit res" | RPos "position res"

fun mem_op :: "store_op \<Rightarrow> order_store \<Rightarrow> op_result \<times> order_store" where
  "mem_op (OpReserve r) s = map_prod RBool id (mem_reserve r s)"
| "mem_op (OpSave r) s = map_prod RUnit id (mem_save r s)"
| "mem_op (OpTrade cid fill) s = map_prod RBool id (mem_record_trade cid fill s)"
| "mem_op (OpPosition sm ex pr d p) s = map_prod RPos id (mem_apply_position_delta sm ex pr d p s)"

fun file_op :: "store_op \<Rightarrow> file_store \<Rightarrow> op_result \<times> file_store" where
  "file_op (OpReserve r) s = map_prod RBool id (file_reserve True r s)"
| "file_op (OpSave r) s = map_prod RUnit id (file_save True r s)"
| "file_op (OpTrade cid fill) s = map_prod RBool id (file_record_trade True cid fill s)"
| "file_op (OpPosition sm ex pr d p) s = map_prod RPos id (file_apply_position_delta True sm ex pr d p s)"

fun mem_run :: "store_op list \<Rightarrow> order_store \<Rightarrow> op_result list \<times> order_store" where
  "mem_run [] s = ([], s)"
| "mem_run (c # cs) s = (case mem_op c s of (r, s') \<Rightarrow> map_prod ((#) r) id (mem_run cs s'))"

text \<open>A run of the file store; \<open>None\<close> is a restart of the process.\<close>

fun file_run :: "store_op option list \<Rightarrow> file_store \<Rightarrow> op_result list \<times> file_store" where
  "file_run [] s = ([], s)"
| "file_run (None # cs) s = file_run cs (file_restart s)"
| "file_run (Some c # cs) s = (case file_op c s of (r, s') \<Rightarrow> map_prod ((#) r) id (file_run cs s'))"

definition synced :: "file_store \<Rightarrow> bool" where
  "synced fs \<longleftrightarrow> finite (st_trade_ids (fs_mem fs)) \<and>
     (fs_disk fs = Some (store_json (fs_mem fs)) \<or> fs_disk fs = None \<and> fs_mem fs = empty_store)"

lemma synced_restart: "synced fs \<Longrightarrow> file_restart fs = fs"
  by (auto simp: synced_def file_restart_def file_open_def file_load_store_json)

lemma synced_flush:
  "synced fs \<Longrightarrow> finite (st_trade_ids m) \<Longrightarrow>
     fst (file_flush True x m fs) = Inr x \<and> fs_mem (snd (file_flush True x m fs)) = m \<and>
     synced (snd (file_flush True x m fs))"
  by (simp add: synced_def file_flush_def)

lemma file_op_refines:
  assumes "synced fs"
  shows "fst (file_op c fs) = fst (mem_op c (fs_mem fs)) \<and>
    fs_mem (snd (file_op c fs)) = snd (mem_op c (fs_mem fs)) \<and> synced (snd (file_op c fs))"
proof -
  have fin: "finite (st_trade_ids (fs_mem fs))" using assms by (simp add: synced_def)
  show ?thesis
  proof (cases c)
    case (OpReserve r)
    show ?thesis
      by (cases "map_of (st_records (fs_mem fs)) (r_client_order_id r)")
         (simp_all add: OpReserve file_reserve_def mem_reserve_def synced_flush [OF assms] fin assms)
  next
    case (OpSave r)
    show ?thesis
      by (cases "map_of (st_records (fs_mem fs)) (r_client_order_id r)")
         (simp_all add: OpSave file_save_def mem_save_def synced_flush [OF assms] fin assms)
  next
    case (OpTrade cid fill)
    then show ?thesis
      by (simp add: file_record_trade_def mem_record_trade_def Let_def synced_flush [OF assms] fin assms)
  next
    case (OpPosition sm ex pr d p)
    then show ?thesis
      by (simp add: file_apply_position_delta_def mem_apply_position_delta_def Let_def
          synced_flush [OF assms] fin assms)
  qed
qed

lemma file_run_refines:
  "synced fs \<Longrightarrow> fst (file_run cs fs) = fst (mem_run (List.map_filter id cs) (fs_mem fs)) \<and>
     fs_mem (snd (file_run cs fs)) = snd (mem_run (List.map_filter id cs) (fs_mem fs)) \<and>
     synced (snd (file_run cs fs))"
proof (induction cs arbitrary: fs)
  case Nil
  then show ?case by (simp add: map_filter_def)
next
  case (Cons c cs)
  show ?case
  proof (cases c)
    case None
    with Cons show ?thesis by (simp add: synced_restart map_filter_def)
  next
    case (Some x)
    obtain r fs' where fs': "file_op x fs = (r, fs')" by (cases "file_op x fs")
    with file_op_refines [OF Cons.prems, of x]
    have "mem_op x (fs_mem fs) = (r, fs_mem fs')" "synced fs'" by (auto intro: prod_eqI)
    with Cons.IH [of fs'] Some fs' show ?thesis by (simp add: map_filter_def)
  qed
qed

text \<open>C33. The file store is the in-memory store that survives restarts: as long as the writes
  succeed, a run with the process restarted anywhere returns the same results and ends in the
  same records, trades and positions as the in-memory reference run without a restart.\<close>

theorem file_store_refines_memory:
  "fst (file_run cs \<lparr>fs_mem = empty_store, fs_disk = None\<rparr>) = fst (mem_run (List.map_filter id cs) empty_store) \<and>
   fs_mem (snd (file_run (cs @ [None]) \<lparr>fs_mem = empty_store, fs_disk = None\<rparr>))
     = snd (mem_run (List.map_filter id cs) empty_store)"
proof -
  let ?s = "\<lparr>fs_mem = empty_store, fs_disk = None\<rparr>"
  have "synced ?s" by (simp add: synced_def) (simp add: empty_store_def)
  from file_run_refines [OF this, of cs] file_run_refines [OF this, of "cs @ [None]"]
  show ?thesis by (simp add: map_filter_def)
qed

section \<open>Positions\<close>

lemma position_delta_quantity [simp]: "pos_quantity (position_delta d p x) = pos_quantity x + d"
  by (simp add: position_delta_def Let_def)

lemma position_delta_flat:
  "pos_quantity (position_delta d p x) = 0 \<Longrightarrow> pos_average_price (position_delta d p x) = Fin 0"
  by (auto simp: position_delta_def Let_def)

lemma position_delta_reduce:
  "d \<le> 0 \<Longrightarrow> pos_quantity x + d \<noteq> 0 \<Longrightarrow> pos_average_price (position_delta d p x) = pos_average_price x"
  by (simp add: position_delta_def Let_def)

lemma position_fold_quantity:
  "pos_quantity (fold (\<lambda>(d, p). position_delta d p) ds x) = pos_quantity x + sum_list (map fst ds)"
  by (induction ds arbitrary: x) (auto split: prod.splits)

text \<open>A position is the sum of the deltas applied to it, in whatever order they come; a
  flat position carries no average price, and selling part of a holding leaves the average
  price of the rest alone.\<close>

theorem position_is_sum_of_deltas:
  "pos_quantity (fold (\<lambda>(d, p). position_delta d p) ds x) = pos_quantity x + sum_list (map fst ds) \<and>
   (pos_quantity (position_delta d p x) = 0 \<longrightarrow> pos_average_price (position_delta d p x) = Fin 0) \<and>
   (d \<le> 0 \<and> pos_quantity x + d \<noteq> 0 \<longrightarrow> pos_average_price (position_delta d p x) = pos_average_price x)"
  by (simp add: position_fold_quantity position_delta_flat position_delta_reduce)

theorem position_is_sum_of_deltas_witness:
  "pos_average_price (position_delta (-3) (Fin 9) ((flat_position ''INFY'' ''NSE'' ''CNC'')\<lparr>pos_quantity := 5, pos_average_price := Fin 7\<rparr>)) = Fin 7"
  using position_is_sum_of_deltas [of "[]" _ "-3" "Fin 9"] by (simp add: flat_position_def)

text \<open>A buy that turns a short position into a long one leaves it with average price zero:
  the branch that books a cost basis only runs when the old quantity is not negative.\<close>

theorem flip_to_long_has_no_cost_basis:
  assumes "pos_quantity x < 0" and "0 < pos_quantity x + d"
  shows "pos_quantity (position_delta d p x) > 0 \<and>
    pos_average_price (position_delta d p x) = pos_average_price x"
  using assms by (simp add: position_delta_def Let_def)

theorem flip_to_long_has_no_cost_basis_witness:
  "pos_average_price (position_delta 15 (Fin 100) ((flat_position ''INFY'' ''NSE'' ''MIS'')\<lparr>pos_quantity := -10\<rparr>)) = Fin 0"
  using flip_to_long_has_no_cost_basis [of "(flat_position ''INFY'' ''NSE'' ''MIS'')\<lparr>pos_quantity := -10\<rparr>" 15 "Fin 100"]
  by (simp add: flat_position_def)

end
