(* ===== verification/Broker_Iface.thy ===== *)
theory Broker_Iface
  imports Lifecycle
begin

text \<open>
  \<open>app/broker/base.py\<close>: the enumerations of the broker interface and the interface itself, as
  a record of the operations the execution code calls on a broker. \<open>'b\<close> is the state behind
  the interface (the exchange, the network); each call may raise and may change it. The payload
  dictionaries are records whose optional fields are \<open>None\<close> where the key is missing.
\<close>

section \<open>Enumerations\<close>

datatype order_type = MARKET | LIMIT | SL | SL_M
datatype txn_type = BUY | SELL
datatype prdct = CNC | MIS | NRML | CO | BO

fun order_type_value :: "order_type \<Rightarrow> string" where
  "order_type_value MARKET = ''MARKET''"
| "order_type_value LIMIT = ''LIMIT''"
| "order_type_value SL = ''SL''"
| "order_type_value SL_M = ''SL-M''"

fun txn_value :: "txn_type \<Rightarrow> string" where
  "txn_value BUY = ''BUY''"
| "txn_value SELL = ''SELL''"

fun product_value :: "prdct \<Rightarrow> string" where
  "product_value CNC = ''CNC''"
| "product_value MIS = ''MIS''"
| "product_value NRML = ''NRML''"
| "product_value CO = ''CO''"
| "product_value BO = ''BO''"

text \<open>\<open>TransactionType(s)\<close>, \<open>Product(s)\<close> and \<open>OrderType(s)\<close>.\<close>

definition txn_of :: "string \<Rightarrow> txn_type res" where
  "txn_of s = (if s = ''BUY'' then Inr BUY else if s = ''SELL'' then Inr SELL
     else Inl (ValueError ''not a valid TransactionType''))"

definition product_of :: "string \<Rightarrow> prdct res" where
  "product_of s = (case List.find (\<lambda>p. product_value p = s) [CNC, MIS, NRML, CO, BO] of
     None \<Rightarrow> Inl (ValueError ''not a valid Product'') | Some p \<Rightarrow> Inr p)"

definition order_type_of :: "string \<Rightarrow> order_type res" where
  "order_type_of s = (case List.find (\<lambda>p. order_type_value p = s) [MARKET, LIMIT, SL, SL_M] of
     None \<Rightarrow> Inl (ValueError ''not a valid OrderType'') | Some p \<Rightarrow> Inr p)"

lemma txn_of_value [simp]: "txn_of (txn_value t) = Inr t"
  by (cases t) (simp_all add: txn_of_def)

lemma product_of_value [simp]: "product_of (product_value p) = Inr p"
  by (cases p) (simp_all add: product_of_def)

lemma order_type_of_value [simp]: "order_type_of (order_type_value ot) = Inr ot"
  by (cases ot) (simp_all add: order_type_of_def)

lemma product_value_inj [simp]: "product_value p = product_value q \<longleftrightarrow> p = q"
  by (cases p; cases q) simp_all

lemma txn_value_inj [simp]: "txn_value p = txn_value q \<longleftrightarrow> p = q"
  by (cases p; cases q) simp_all

section \<open>Payloads\<close>

text \<open>A value of a payload the code tests with \<open>isinstance\<close> before it uses it as a number.\<close>

datatype pynum = NInt int | NFloat pyfloat | NBool bool | NOther

text \<open>An entry of the broker's order book.\<close>

record border =
  bo_order_id :: "string option"
  bo_tag :: "string option"
  bo_symbol :: "string option"
  bo_status :: "string option"
  bo_filled_quantity :: "int option"

text \<open>An order status as \<open>get_order_status\<close> returns it, with both spellings of its keys.\<close>

record bstatus =
  bs_status :: "string option"
  bs_filled_quantity :: "int option"
  bs_filled_qty :: "int option"
  bs_quantity :: "int option"
  bs_qty :: "int option"
  bs_average_price :: "pyfloat option"
  bs_avg_fill_price :: "pyfloat option"

record bposition =
  bp_tradingsymbol :: "string option"
  bp_symbol :: "string option"
  bp_exchange :: "string option"
  bp_product :: "string option"
  bp_quantity :: int

record place_request =
  pl_symbol :: string
  pl_exchange :: string
  pl_txn :: txn_type
  pl_qty :: int
  pl_price :: pyfloat
  pl_order_type :: order_type
  pl_product :: prdct
  pl_tag :: string
  pl_trigger :: "pyfloat option"

type_synonym quote = "(string \<times> pynum) list"

text \<open>\<open>a or b\<close> on optional integers and floats, where \<open>None\<close> and zero are false.\<close>

definition int_or :: "int option \<Rightarrow> int \<Rightarrow> int" where
  "int_or a b = (case a of None \<Rightarrow> b | Some n \<Rightarrow> if n = 0 then b else n)"

definition float_or :: "pyfloat option \<Rightarrow> pyfloat \<Rightarrow> pyfloat" where
  "float_or a b = (case a of None \<Rightarrow> b | Some x \<Rightarrow> if ftruthy x then x else b)"

section \<open>The interface\<close>

text \<open>
  \<open>br_paper_class\<close> is \<open>isinstance(broker, PaperBroker)\<close>; \<open>br_is_market_open\<close> and
  \<open>br_is_stale_tick\<close> are \<open>None\<close> where \<open>hasattr\<close> is false; \<open>br_supports_trigger\<close> says whether
  \<open>place_order\<close> takes \<open>trigger_price\<close>. An empty order id stands for any false one. A
  payload that is not a dictionary is \<open>None\<close>, and so is an order book that is not a list.
\<close>

record 'b broker =
  br_paper_class :: bool
  br_trading_mode :: "'b \<Rightarrow> string res"
  br_is_connected :: "'b \<Rightarrow> bool res"
  br_is_market_open :: "('b \<Rightarrow> bool res) option"
  br_is_stale_tick :: "(string \<Rightarrow> pyfloat \<Rightarrow> 'b \<Rightarrow> bool res) option"
  br_supports_trigger :: bool
  br_get_quote :: "string \<Rightarrow> ('b, (string \<times> quote) list) ef"
  br_get_orders :: "('b, border option list option) ef"
  br_get_positions :: "('b, bposition list) ef"
  br_place_order :: "place_request \<Rightarrow> ('b, string) ef"
  br_cancel_order :: "string \<Rightarrow> ('b, bool) ef"
  br_get_order_status :: "string \<Rightarrow> ('b, bstatus option) ef"

end
