(* ===== verification/Kill_Switch.thy ===== *)
theory Kill_Switch
  imports Prelude "HOL-Library.AList"
begin

text \<open>
  The kill switch: \<open>ExecutionSafety.check_kill_switch\<close>, \<open>is_kill_switch_active\<close> and
  \<open>engage_kill_switch\<close> (\<open>app/execution/safety.py\<close>), \<open>ReconciliationEngine._activate_kill_switch\<close>
  (\<open>app/execution/reconciliation.py\<close>) and \<open>FileKillSwitchStore\<close>
  (\<open>app/execution/file_stores.py\<close>). The key-value store behind the first two is an argument:
  a getter and a setter on its state that may raise.
\<close>

section \<open>Values of the store\<close>

datatype kv = KNone | KStr string | KBytes string | KInt int | KBool bool

fun kv_truthy :: "kv \<Rightarrow> bool" where
  "kv_truthy KNone = False"
| "kv_truthy (KStr s) = (s \<noteq> [])"
| "kv_truthy (KBytes s) = (s \<noteq> [])"
| "kv_truthy (KInt n) = (n \<noteq> 0)"
| "kv_truthy (KBool b) = b"

definition FALSEY :: "kv list" where
  "FALSEY = [KBytes ''0'', KStr ''0'', KBytes ''false'', KStr ''false'', KBytes ''False'',
     KStr ''False'', KBytes '''', KStr '''']"

definition switch_on :: "kv \<Rightarrow> bool" where
  "switch_on v \<longleftrightarrow> v \<noteq> KNone \<and> v \<notin> set FALSEY \<and> kv_truthy v"

definition KILL_SWITCH_KEY :: string where
  "KILL_SWITCH_KEY = ''kill_switch''"

section \<open>The gate\<close>

definition check_kill_switch :: "(string \<Rightarrow> kv res) \<Rightarrow> unit res" where
  "check_kill_switch get = (case get KILL_SWITCH_KEY of
     Inl e \<Rightarrow> Inl (KillSwitchActiveError ''Kill-switch store unreadable; failing closed.'')
   | Inr v \<Rightarrow> if switch_on v then Inl (KillSwitchActiveError ''Global kill switch is active.'')
             else Inr ())"

definition is_kill_switch_active :: "(string \<Rightarrow> kv res) \<Rightarrow> bool" where
  "is_kill_switch_active get = (case check_kill_switch get of
     Inl (KillSwitchActiveError _) \<Rightarrow> True | _ \<Rightarrow> False)"

text \<open>\<open>engage_kill_switch\<close>: set, then verify by reading back. \<open>set\<close> is \<open>None\<close> where the store
  has no such method.\<close>

definition engage_kill_switch ::
  "(string \<Rightarrow> 's \<Rightarrow> kv res) \<Rightarrow> (string \<Rightarrow> kv \<Rightarrow> ('s, unit) ef) option \<Rightarrow> ('s, unit) ef" where
  "engage_kill_switch get set_op s = (case set_op of
     None \<Rightarrow> (Inl (SafetyCheckError ''kill-switch store cannot be written (.set missing)''), s)
   | Some put \<Rightarrow> (case put KILL_SWITCH_KEY (KStr ''1'') s of
        (Inl e, s') \<Rightarrow> (Inl (SafetyCheckError ''failed to engage kill switch''), s')
      | (Inr _, s') \<Rightarrow> (case get KILL_SWITCH_KEY s' of
           Inl e \<Rightarrow> (Inl (SafetyCheckError ''kill switch write could not be verified''), s')
         | Inr v \<Rightarrow> if v = KNone \<or> v \<in> set FALSEY
                   then (Inl (SafetyCheckError ''kill switch write did not persist''), s')
                   else (Inr (), s'))))"

text \<open>\<open>_activate_kill_switch\<close> under the key the engine was built with: \<open>store\<close> is \<open>None\<close> where the engine has none, and the getter is
  \<open>None\<close> where the store is write-only, which skips the verification.\<close>

definition ACTIVATE_REFUSED :: "kv list" where
  "ACTIVATE_REFUSED = [KNone, KStr '''', KBytes '''', KStr ''0'', KBytes ''0'', KInt 0, KBool False]"

definition activate_kill_switch ::
  "string \<Rightarrow> ((string \<Rightarrow> 's \<Rightarrow> kv res) option \<times> (string \<Rightarrow> kv \<Rightarrow> ('s, unit) ef)) option \<Rightarrow> ('s, unit) ef" where
  "activate_kill_switch key store s = (case store of
     None \<Rightarrow> (Inl (KillSwitchActivationError ''KILL SWITCH NOT ACTIVATED: no kill_switch_store''), s)
   | Some (getter, put) \<Rightarrow> (case put key (KStr ''1'') s of
        (Inl e, s') \<Rightarrow> (Inl (KillSwitchActivationError ''KILL SWITCH NOT ACTIVATED: store write failed''), s')
      | (Inr _, s') \<Rightarrow> (case getter of
           None \<Rightarrow> (Inr (), s')
         | Some get \<Rightarrow> (case get key s' of
              Inl e \<Rightarrow> (Inl (KillSwitchActivationError ''KILL SWITCH UNVERIFIED''), s')
            | Inr v \<Rightarrow> if v \<in> set ACTIVATE_REFUSED
                      then (Inl (KillSwitchActivationError ''KILL SWITCH NOT ACTIVATED''), s')
                      else (Inr (), s')))))"

section \<open>The file-backed store\<close>

text \<open>\<open>kf_disk\<close> is the content of the file, \<open>None\<close> before the first write. The document is
  written with \<open>default=str\<close>, so bytes come back as their printed form.\<close>

record kill_file =
  kf_data :: "(string \<times> kv) list"
  kf_disk :: "(string \<times> kv) list option"

fun kv_dump :: "kv \<Rightarrow> kv" where
  "kv_dump (KBytes s) = KStr (''b'' @ [CHR 0x27] @ s @ [CHR 0x27])"
| "kv_dump v = v"

definition kf_flush :: "bool \<Rightarrow> (string \<times> kv) list \<Rightarrow> (kill_file, unit) ef" where
  "kf_flush io_ok d s =
     (if io_ok then (Inr (), s\<lparr>kf_data := d, kf_disk := Some (map (\<lambda>(k, v). (k, kv_dump v)) d)\<rparr>)
      else (Inl (PyExn ''OSError'' ''write failed''), s\<lparr>kf_data := d\<rparr>))"

definition kf_open :: "(string \<times> kv) list option \<Rightarrow> kill_file" where
  "kf_open disk = \<lparr>kf_data = (case disk of None \<Rightarrow> [] | Some d \<Rightarrow> d), kf_disk = disk\<rparr>"

definition kf_get :: "string \<Rightarrow> kill_file \<Rightarrow> kv res" where
  "kf_get k s = Inr (case map_of (kf_data s) k of None \<Rightarrow> KNone | Some v \<Rightarrow> v)"

definition kf_set :: "bool \<Rightarrow> string \<Rightarrow> kv \<Rightarrow> (kill_file, unit) ef" where
  "kf_set io_ok k v s = kf_flush io_ok (AList.update k v (kf_data s)) s"

definition kf_delete :: "bool \<Rightarrow> string \<Rightarrow> (kill_file, unit) ef" where
  "kf_delete io_ok k s = kf_flush io_ok (AList.delete k (kf_data s)) s"

definition kf_engage :: "bool \<Rightarrow> string \<Rightarrow> (kill_file, unit) ef" where
  "kf_engage io_ok reason s = kf_flush io_ok
     (AList.update ''kill_switch_reason'' (KStr reason)
        (AList.update ''kill_switch'' (KStr ''1'') (kf_data s))) s"

definition kf_release :: "bool \<Rightarrow> (kill_file, unit) ef" where
  "kf_release io_ok s = kf_flush io_ok (AList.delete ''kill_switch'' (kf_data s)) s"

definition kf_active :: "kill_file \<Rightarrow> bool" where
  "kf_active s = (case map_of (kf_data s) ''kill_switch'' of None \<Rightarrow> False | Some v \<Rightarrow> kv_truthy v)"

section \<open>The contract of a switch store\<close>

text \<open>What an engaged switch needs of its store: a write that returned is read back.\<close>

locale switch_store =
  fixes get :: "string \<Rightarrow> 's \<Rightarrow> kv res"
    and put :: "string \<Rightarrow> kv \<Rightarrow> ('s, unit) ef"
  assumes put_get: "put k (KStr v) s = (Inr u, s') \<Longrightarrow> get k s' = Inr (KStr v)"
begin

lemma engaged_blocks:
  "engage_kill_switch get (Some put) s = (Inr u, s') \<Longrightarrow> is_kill_switch_active (\<lambda>k. get k s')"
  using put_get [of KILL_SWITCH_KEY "''1''" s _ s']
  by (auto simp: engage_kill_switch_def is_kill_switch_active_def check_kill_switch_def switch_on_def
      FALSEY_def split: prod.splits sum.splits if_splits)

lemma activated_blocks:
  "activate_kill_switch KILL_SWITCH_KEY (Some (g, put)) s = (Inr u, s') \<Longrightarrow> is_kill_switch_active (\<lambda>k. get k s')"
  using put_get [of KILL_SWITCH_KEY "''1''" s _ s']
  by (auto simp: activate_kill_switch_def is_kill_switch_active_def check_kill_switch_def switch_on_def
      FALSEY_def split: prod.splits sum.splits if_splits option.splits)

end

lemma kf_get_flush: "kf_get k (snd (kf_flush ok d s)) = Inr (case map_of d k of None \<Rightarrow> KNone | Some v \<Rightarrow> v)"
  by (simp add: kf_flush_def kf_get_def)

interpretation kf: switch_store kf_get "kf_set ok" for ok
proof
  fix k v s u s'
  assume "kf_set ok k (KStr v) s = (Inr u, s')"
  then have "s' = snd (kf_flush ok (AList.update k (KStr v) (kf_data s)) s)"
    by (simp add: kf_set_def)
  then show "kf_get k s' = Inr (KStr v)" by (simp add: kf_get_flush update_conv')
qed

lemma map_of_kv_dump: "map_of (map (\<lambda>(k, v). (k, kv_dump v)) d) k = map_option kv_dump (map_of d k)"
  by (induction d) auto

text \<open>An engaged kill switch blocks, and keeps blocking: engaging it through the safety
  layer, or activating it from reconciliation, only returns normally when the order gate then
  refuses, and a switch engaged in the file store still blocks after a restart of the process.\<close>

theorem engaged_kill_switch_blocks:
  "(engage_kill_switch kf_get (Some (kf_set ok)) s = (Inr (), s') \<longrightarrow>
      is_kill_switch_active (\<lambda>k. kf_get k s') \<and> is_kill_switch_active (\<lambda>k. kf_get k (kf_open (kf_disk s')))) \<and>
   (activate_kill_switch KILL_SWITCH_KEY (Some (g, kf_set ok)) s = (Inr (), s') \<longrightarrow>
      is_kill_switch_active (\<lambda>k. kf_get k s')) \<and>
   (kf_engage ok reason s = (Inr (), s') \<longrightarrow>
      is_kill_switch_active (\<lambda>k. kf_get k (kf_open (kf_disk s'))))"
proof (intro conjI impI)
  assume e: "engage_kill_switch kf_get (Some (kf_set ok)) s = (Inr (), s')"
  then show "is_kill_switch_active (\<lambda>k. kf_get k s')" by (rule kf.engaged_blocks)
  from e have "kf_set ok KILL_SWITCH_KEY (KStr ''1'') s = (Inr (), s')"
    by (auto simp: engage_kill_switch_def split: prod.splits sum.splits if_splits)
  then show "is_kill_switch_active (\<lambda>k. kf_get k (kf_open (kf_disk s')))"
    by (auto simp: kf_set_def kf_flush_def kf_open_def kf_get_def map_of_kv_dump update_conv'
        is_kill_switch_active_def check_kill_switch_def switch_on_def FALSEY_def split: if_splits)
next
  assume "activate_kill_switch KILL_SWITCH_KEY (Some (g, kf_set ok)) s = (Inr (), s')"
  then show "is_kill_switch_active (\<lambda>k. kf_get k s')" by (rule kf.activated_blocks)
next
  assume "kf_engage ok reason s = (Inr (), s')"
  then show "is_kill_switch_active (\<lambda>k. kf_get k (kf_open (kf_disk s')))"
    by (auto simp: kf_engage_def kf_flush_def kf_open_def kf_get_def map_of_kv_dump update_conv'
        is_kill_switch_active_def check_kill_switch_def switch_on_def FALSEY_def KILL_SWITCH_KEY_def
        split: if_splits)
qed

theorem engaged_kill_switch_blocks_witness:
  "is_kill_switch_active (\<lambda>k. kf_get k (kf_open (kf_disk (snd (kf_engage True ''manual'' (kf_open None))))))"
proof -
  have "kf_engage True ''manual'' (kf_open None) = (Inr (), snd (kf_engage True ''manual'' (kf_open None)))"
    by (simp add: kf_engage_def kf_flush_def)
  then show ?thesis using engaged_kill_switch_blocks [of True] by blast
qed

text \<open>The kill-switch gate fails closed: it passes only when the store could be read and
  the value read is absent or false, and a store that raises blocks like an engaged switch.\<close>

theorem kill_switch_fails_closed:
  "(check_kill_switch get = Inr () \<longleftrightarrow> (\<exists>v. get KILL_SWITCH_KEY = Inr v \<and> \<not> switch_on v)) \<and>
   (is_kill_switch_active get \<longleftrightarrow> check_kill_switch get \<noteq> Inr ())"
  by (auto simp: check_kill_switch_def is_kill_switch_active_def split: sum.splits)

text \<open>The two verifications of a write disagree with the gate on values a store could
  give back: \<open>engage_kill_switch\<close> accepts a read-back of integer zero or \<open>False\<close>, and
  \<open>_activate_kill_switch\<close> accepts the string \<open>false\<close>, all of which the gate reads as off.\<close>

theorem engage_accepts_values_read_as_off:
  "engage_kill_switch (\<lambda>_ _. Inr (KInt 0)) (Some (\<lambda>_ _ s. (Inr (), s))) s = (Inr (), s) \<and>
   engage_kill_switch (\<lambda>_ _. Inr (KBool False)) (Some (\<lambda>_ _ s. (Inr (), s))) s = (Inr (), s) \<and>
   activate_kill_switch KILL_SWITCH_KEY (Some (Some (\<lambda>_ _. Inr (KStr ''false'')), (\<lambda>_ _ s. (Inr (), s)))) s = (Inr (), s) \<and>
   \<not> is_kill_switch_active (\<lambda>_. Inr (KInt 0)) \<and> \<not> is_kill_switch_active (\<lambda>_. Inr (KBool False)) \<and>
   \<not> is_kill_switch_active (\<lambda>_. Inr (KStr ''false''))"
  by (simp add: engage_kill_switch_def activate_kill_switch_def is_kill_switch_active_def
      check_kill_switch_def switch_on_def FALSEY_def ACTIVATE_REFUSED_def)

end
