(* ===== verification/Safety.thy ===== *)
theory Safety
  imports Broker_Iface Kill_Switch
begin

text \<open>
  \<open>app/execution/safety.py\<close>: the individual gates of \<open>ExecutionSafety\<close> and the master
  validator \<open>validate_order\<close>. A gate is a result: \<open>Inr ()\<close> where it returns, the exception
  where it raises. The numeric arguments the order manager passes are floats; quantity and price
  of \<open>check_order_validity\<close>, which tests their type, are payload values.
\<close>

section \<open>Gates\<close>

definition require_finite :: "pyfloat list \<Rightarrow> unit res" where
  "require_finite xs =
     (if list_all isfinite xs then Inr () else Inl (SafetyCheckError ''not finite (NaN/inf)''))"

definition check_broker_connectivity :: "'b broker \<Rightarrow> 'b \<Rightarrow> unit res" where
  "check_broker_connectivity br b =
     res_bind (br_is_connected br b) (\<lambda>c.
       if c then Inr () else Inl (SafetyCheckError ''Broker is not connected.''))"

definition check_market_status :: "bool \<Rightarrow> 'b broker \<Rightarrow> 'b \<Rightarrow> unit res" where
  "check_market_status require_support br b = (case br_is_market_open br of
     Some f \<Rightarrow> res_bind (f b) (\<lambda>op.
       if op then Inr () else Inl (MarketClosedError ''Market is currently closed.''))
   | None \<Rightarrow> if require_support then Inl (MarketClosedError ''cannot report market hours'') else Inr ())"

definition check_data_freshness :: "bool \<Rightarrow> 'b broker \<Rightarrow> string \<Rightarrow> pyfloat \<Rightarrow> 'b \<Rightarrow> unit res" where
  "check_data_freshness require_support br symbol max_age b = (case br_is_stale_tick br of
     Some f \<Rightarrow> res_bind (f symbol max_age b) (\<lambda>st.
       if st then Inl (StaleDataError ''Market data is too old'') else Inr ())
   | None \<Rightarrow> if require_support then Inl (StaleDataError ''cannot report tick freshness'') else Inr ())"

definition isascii :: "string \<Rightarrow> bool" where
  "isascii s = list_all (\<lambda>c. (of_char c :: nat) < 128) s"

definition valid_exchanges :: "string list" where
  "valid_exchanges = [''NSE'', ''BSE'', ''NFO'', ''BFO'', ''MCX'', ''CDS'']"

definition check_instrument_validity :: "string \<Rightarrow> string \<Rightarrow> unit res" where
  "check_instrument_validity symbol exchange =
     (if symbol = [] \<or> \<not> isascii symbol then Inl (SafetyCheckError ''Invalid symbol'')
      else if exchange = [] then Inl (SafetyCheckError ''Invalid exchange'')
      else if py_upper exchange \<notin> set valid_exchanges then Inl (SafetyCheckError ''Unknown exchange'')
      else Inr ())"

text \<open>\<open>p.get("symbol", "")\<close> of a position, as a string.\<close>

definition position_symbol :: "bposition \<Rightarrow> string" where
  "position_symbol p = (case bp_symbol p of None \<Rightarrow> [] | Some s \<Rightarrow> s)"

definition check_position_limit :: "bposition list \<Rightarrow> int \<Rightarrow> string option \<Rightarrow> unit res" where
  "check_position_limit positions max_positions closing_symbol =
     (let count = int (length (filter (\<lambda>p. bp_quantity p \<noteq> 0 \<and>
            (case closing_symbol of None \<Rightarrow> True
             | Some c \<Rightarrow> py_upper (position_symbol p) \<noteq> py_upper c)) positions))
      in if max_positions \<le> count then Inl (SafetyCheckError ''Position limit reached'') else Inr ())"

definition check_single_stock_exposure ::
  "pyfloat \<Rightarrow> pyfloat \<Rightarrow> pyfloat \<Rightarrow> pyfloat option \<Rightarrow> unit res" where
  "check_single_stock_exposure trade_value total_portfolio max_pct net_trade_value =
     res_bind (require_finite [trade_value, total_portfolio]) (\<lambda>_.
     if total_portfolio \<le> Fin 0 then Inl (SafetyCheckError ''Portfolio value unknown'')
     else let pct_value = (case net_trade_value of
                 Some n \<Rightarrow> if Fin 0 \<le> n then n else trade_value | None \<Rightarrow> trade_value);
              pct = fquot pct_value total_portfolio
       in if max_pct < pct then Inl (SafetyCheckError ''Single-stock exposure'') else Inr ())"

definition check_sector_exposure :: "pyfloat \<Rightarrow> pyfloat \<Rightarrow> pyfloat \<Rightarrow> unit res" where
  "check_sector_exposure sector_value total_portfolio max_pct =
     res_bind (require_finite [sector_value, total_portfolio]) (\<lambda>_.
     if total_portfolio \<le> Fin 0 then Inl (SafetyCheckError ''Portfolio value unknown'')
     else if max_pct < fquot sector_value total_portfolio
     then Inl (SafetyCheckError ''Sector exposure'') else Inr ())"

definition check_risk_limit :: "pyfloat \<Rightarrow> pyfloat \<Rightarrow> pyfloat \<Rightarrow> unit res" where
  "check_risk_limit trade_risk daily_risk_used max_daily_risk =
     res_bind (require_finite [trade_risk, daily_risk_used, max_daily_risk]) (\<lambda>_.
     if trade_risk < Fin 0 then Inl (SafetyCheckError ''Negative trade risk'')
     else if max_daily_risk < daily_risk_used + trade_risk
     then Inl (SafetyCheckError ''Daily risk limit would be breached'') else Inr ())"

definition check_daily_loss_limit :: "pyfloat \<Rightarrow> pyfloat \<Rightarrow> unit res" where
  "check_daily_loss_limit realised_pnl_today max_daily_loss =
     res_bind (require_finite [realised_pnl_today, max_daily_loss]) (\<lambda>_.
     if max_daily_loss \<le> Fin 0 then Inl (DailyLossLimitError ''max_daily_loss must be positive'')
     else if realised_pnl_today \<le> - \<bar>max_daily_loss\<bar>
     then Inl (DailyLossLimitError ''Daily loss limit breached'') else Inr ())"

definition check_capital_availability :: "pyfloat \<Rightarrow> pyfloat \<Rightarrow> unit res" where
  "check_capital_availability required_capital available_cash =
     res_bind (require_finite [required_capital, available_cash]) (\<lambda>_.
     if required_capital \<le> Fin 0 then Inl (SafetyCheckError ''Required capital is not positive'')
     else if available_cash < required_capital then Inl (SafetyCheckError ''Insufficient capital'')
     else Inr ())"

text \<open>An entry of \<open>open_orders\<close> that is not a dictionary is \<open>None\<close>.\<close>

definition live_statuses :: "string list" where
  "live_statuses = [''OPEN'', ''TRIGGER PENDING'', ''AMO REQ RECEIVED'', ''OPEN PENDING'',
     ''VALIDATION PENDING'', ''MODIFY PENDING'']"

definition blocks_duplicate :: "string \<Rightarrow> string \<Rightarrow> border \<Rightarrow> bool" where
  "blocks_duplicate symbol strategy ord \<longleftrightarrow>
     bo_symbol ord = Some symbol \<and>
     is_prefix (strategy_tag_prefix strategy) (take STRATEGY_PREFIX_LEN (str_or (bo_tag ord) [])) \<and>
     str_or (bo_status ord) [] \<in> set live_statuses"

fun check_duplicate_order ::
  "string \<Rightarrow> string \<Rightarrow> border option list \<Rightarrow> string option \<Rightarrow> unit res" where
  "check_duplicate_order symbol strategy [] cid = Inr ()"
| "check_duplicate_order symbol strategy (None # os) cid =
     Inl (SafetyCheckError ''Malformed open order entry'')"
| "check_duplicate_order symbol strategy (Some ord # os) cid =
     (if cid \<noteq> None \<and> cid \<noteq> Some [] \<and> Some (str_or (bo_tag ord) []) = cid
      then Inl (SafetyCheckError ''Order is already live at the broker.'')
      else if blocks_duplicate symbol strategy ord
      then Inl (SafetyCheckError ''Duplicate order detected'')
      else check_duplicate_order symbol strategy os cid)"

definition numeric :: "pynum \<Rightarrow> pyfloat option" where
  "numeric v = (case v of NInt n \<Rightarrow> Some (fint n) | NFloat x \<Rightarrow> Some x | _ \<Rightarrow> None)"

text \<open>\<open>int(qty)\<close> of a numeric payload whose float is finite.\<close>

definition int_of_num :: "pynum \<Rightarrow> int" where
  "int_of_num v = (case v of NInt n \<Rightarrow> n | NFloat (Fin x) \<Rightarrow> rat_trunc x | _ \<Rightarrow> 0)"

definition is_whole :: "pynum \<Rightarrow> bool" where
  "is_whole v \<longleftrightarrow> (case v of NInt n \<Rightarrow> fint n = Fin (of_int n)
     | NFloat (Fin x) \<Rightarrow> x = of_int (rat_trunc x) | _ \<Rightarrow> False)"

definition opt_above :: "pyfloat option \<Rightarrow> pyfloat \<Rightarrow> bool" where
  "opt_above bound x = (case bound of None \<Rightarrow> False | Some m \<Rightarrow> m < x)"

definition check_order_validity ::
  "pynum \<Rightarrow> pynum \<Rightarrow> int \<Rightarrow> int option \<Rightarrow> pyfloat option \<Rightarrow> pyfloat option \<Rightarrow> unit res" where
  "check_order_validity qty price min_qty max_qty max_price max_notional =
     (case (numeric qty, numeric price) of
        (None, _) \<Rightarrow> Inl (SafetyCheckError ''Order qty is not numeric.'')
      | (_, None) \<Rightarrow> Inl (SafetyCheckError ''Order price is not numeric.'')
      | (Some fq, Some p) \<Rightarrow>
          if \<not> isfinite fq then Inl (SafetyCheckError ''Order qty is not finite.'')
          else if \<not> isfinite p then Inl (SafetyCheckError ''Order price is not finite.'')
          else if \<not> is_whole qty then Inl (SafetyCheckError ''Order qty is not a whole number.'')
          else let q = int_of_num qty in
            if q < min_qty then Inl (SafetyCheckError ''Order qty < minimum'')
            else if p \<le> Fin 0 then Inl (SafetyCheckError ''Order price is not positive'')
            else if (case max_qty of None \<Rightarrow> False | Some m \<Rightarrow> m < q)
            then Inl (SafetyCheckError ''Fat-finger: qty'')
            else if opt_above max_price p then Inl (SafetyCheckError ''Fat-finger: price'')
            else if opt_above max_notional (fint q * p)
            then Inl (SafetyCheckError ''Fat-finger: notional'')
            else Inr ())"

section \<open>The master validator\<close>

text \<open>The keyword arguments of \<open>validate_order\<close>.\<close>

record order_check =
  oc_symbol :: string
  oc_exchange :: string
  oc_qty :: int
  oc_price :: pyfloat
  oc_trade_value :: pyfloat
  oc_trade_risk :: pyfloat
  oc_strategy :: string
  oc_positions :: "bposition list"
  oc_open_orders :: "border option list"
  oc_daily_risk_used :: pyfloat
  oc_max_daily_risk :: pyfloat
  oc_available_cash :: pyfloat
  oc_total_portfolio :: pyfloat
  oc_max_positions :: int
  oc_max_single_stock_pct :: pyfloat
  oc_sector :: "string option"
  oc_sector_value :: pyfloat
  oc_max_sector_pct :: pyfloat
  oc_realised_pnl_today :: pyfloat
  oc_max_daily_loss :: pyfloat
  oc_client_order_id :: "string option"
  oc_max_qty :: "int option"
  oc_max_price :: "pyfloat option"
  oc_max_notional :: "pyfloat option"
  oc_net_trade_value :: "pyfloat option"
  oc_closing_removes_position :: bool

definition checks ::
  "bool \<Rightarrow> (string \<Rightarrow> kv res) \<Rightarrow> 'b broker \<Rightarrow> 'b \<Rightarrow> order_check \<Rightarrow> (string \<times> unit res) list" where
  "checks require_support kill_get br b c =
     [(''kill_switch'', check_kill_switch kill_get),
      (''broker_connectivity'', check_broker_connectivity br b),
      (''market_status'', check_market_status require_support br b),
      (''data_freshness'', check_data_freshness require_support br (oc_symbol c) (fl 30) b),
      (''instrument_validity'', check_instrument_validity (oc_symbol c) (oc_exchange c)),
      (''order_validity'', check_order_validity (NInt (oc_qty c)) (NFloat (oc_price c)) 1
         (oc_max_qty c) (oc_max_price c) (oc_max_notional c)),
      (''capital_availability'', check_capital_availability (oc_trade_value c) (oc_available_cash c)),
      (''position_limit'', check_position_limit (oc_positions c) (oc_max_positions c)
         (if oc_closing_removes_position c then Some (oc_symbol c) else None)),
      (''single_stock_exposure'', check_single_stock_exposure (oc_trade_value c)
         (oc_total_portfolio c) (oc_max_single_stock_pct c) (oc_net_trade_value c)),
      (''risk_limit'', check_risk_limit (oc_trade_risk c) (oc_daily_risk_used c) (oc_max_daily_risk c)),
      (''daily_loss_limit'', check_daily_loss_limit (oc_realised_pnl_today c) (oc_max_daily_loss c)),
      (''duplicate_order'', check_duplicate_order (oc_symbol c) (oc_strategy c) (oc_open_orders c)
         (oc_client_order_id c))]
     @ (case oc_sector c of None \<Rightarrow> [] | Some sec \<Rightarrow> if sec = [] then [] else
         [(''sector_exposure'', check_sector_exposure (oc_sector_value c) (oc_total_portfolio c)
            (oc_max_sector_pct c))])"

record validation =
  passed :: bool
  failed_checks :: "string list"

text \<open>The loop over the checks: an expected and an unexpected exception both fail the order.\<close>

fun run_checks :: "(string \<times> unit res) list \<Rightarrow> validation \<Rightarrow> validation" where
  "run_checks [] v = v"
| "run_checks ((name, r) # cs) v = run_checks cs (case r of
     Inr _ \<Rightarrow> v
   | Inl e \<Rightarrow> v\<lparr>passed := False, failed_checks := failed_checks v @
       [name @ (if is_safety_error e then '': '' @ exn_msg e
                else '': unexpected error, failing closed ('' @ exn_msg e @ '')'')]\<rparr>)"

definition validate_order ::
  "bool \<Rightarrow> (string \<Rightarrow> kv res) \<Rightarrow> 'b broker \<Rightarrow> 'b \<Rightarrow> order_check \<Rightarrow> validation" where
  "validate_order require_support kill_get br b c =
     run_checks (checks require_support kill_get br b c) \<lparr>passed = True, failed_checks = []\<rparr>"

section \<open>Facts about the gates\<close>

lemma require_finite_ok [simp]: "require_finite xs = Inr u \<longleftrightarrow> list_all isfinite xs"
  by (simp add: require_finite_def)

lemma run_checks_passed:
  "passed (run_checks cs v) \<longleftrightarrow> passed v \<and> (\<forall>(name, r) \<in> set cs. r = Inr ())"
  by (induction cs v rule: run_checks.induct) (auto split: sum.splits)

lemma run_checks_failed:
  "failed_checks (run_checks cs v) = [] \<longleftrightarrow> failed_checks v = [] \<and> (\<forall>(name, r) \<in> set cs. r = Inr ())"
  by (induction cs v rule: run_checks.induct) (auto split: sum.splits)

lemma validate_order_passed:
  "passed (validate_order rq kg br b c) \<longleftrightarrow> (\<forall>(name, r) \<in> set (checks rq kg br b c). r = Inr ())"
  by (simp add: validate_order_def run_checks_passed)

lemma check_capital_ok:
  "check_capital_availability need cash = Inr u \<longleftrightarrow>
     isfinite need \<and> isfinite cash \<and> Fin 0 < need \<and> need \<le> cash"
  by (cases need; cases cash) (auto simp: check_capital_availability_def)

lemma check_risk_ok:
  "check_risk_limit risk used mx = Inr u \<longleftrightarrow>
     isfinite risk \<and> isfinite used \<and> isfinite mx \<and> Fin 0 \<le> risk \<and> used + risk \<le> mx"
proof (cases "isfinite risk \<and> isfinite used \<and> isfinite mx")
  case True
  then obtain a b c where "risk = Fin a" "used = Fin b" "mx = Fin c"
    by (auto simp: isfinite_iff)
  moreover have "fl (b + a) \<noteq> NaN" by (rule fl_not_NaN)
  ultimately show ?thesis
    by (auto simp: check_risk_limit_def fnot_less dest: fless_le_trans)
qed (auto simp: check_risk_limit_def)

lemma check_daily_loss_ok:
  "check_daily_loss_limit pnl mx = Inr u \<longleftrightarrow>
     isfinite pnl \<and> isfinite mx \<and> Fin 0 < mx \<and> - mx < pnl"
  by (cases pnl; cases mx) (auto simp: check_daily_loss_limit_def)

lemma check_order_validity_int_ok:
  "check_order_validity (NInt q) (NFloat p) mn mxq mxp mxn = Inr u \<longleftrightarrow>
     fint q = Fin (of_int q) \<and> isfinite p \<and> mn \<le> q \<and> Fin 0 < p \<and>
     (\<forall>m. mxq = Some m \<longrightarrow> q \<le> m) \<and> \<not> opt_above mxp p \<and> \<not> opt_above mxn (fint q * p)"
  by (cases p) (auto simp: check_order_validity_def numeric_def is_whole_def int_of_num_def Let_def
      split: option.splits)

lemma check_duplicate_ok:
  "check_duplicate_order sm strat os cid = Inr u \<longleftrightarrow>
     (\<forall>x \<in> set os. \<exists>ord. x = Some ord \<and> \<not> blocks_duplicate sm strat ord \<and>
        \<not> (cid \<noteq> None \<and> cid \<noteq> Some [] \<and> Some (str_or (bo_tag ord) []) = cid))"
  by (induction sm strat os cid rule: check_duplicate_order.induct) auto

lemma check_exposure_ok:
  "check_single_stock_exposure tv tp mp net = Inr u \<Longrightarrow>
     isfinite tv \<and> isfinite tp \<and> Fin 0 < tp \<and>
     \<not> mp < fquot (case net of Some n \<Rightarrow> if Fin 0 \<le> n then n else tv | None \<Rightarrow> tv) tp"
  by (cases tv; cases tp) (auto simp: check_single_stock_exposure_def Let_def split: if_splits)


definition failing :: "(string \<times> unit res) list \<Rightarrow> string list" where
  "failing cs = map (\<lambda>(name, r). name @ (case r of
       Inr _ \<Rightarrow> []
     | Inl e \<Rightarrow> if is_safety_error e then '': '' @ exn_msg e
               else '': unexpected error, failing closed ('' @ exn_msg e @ '')''))
     (filter (\<lambda>(name, r). r \<noteq> Inr ()) cs)"

lemma run_checks_failed_list: "failed_checks (run_checks cs v) = failed_checks v @ failing cs"
  by (induction cs v rule: run_checks.induct) (auto simp: failing_def split: sum.splits)

section \<open>What a passed validation means\<close>

text \<open>The validator fails closed: it runs every gate, in the order of the list, it
  passes only when every gate returned normally, and it reports exactly the gates that
  raised, an unexpected exception included.\<close>

theorem validate_order_fails_closed:
  "(passed (validate_order rq kg br b c) \<longleftrightarrow> list_all (\<lambda>(name, r). r = Inr ()) (checks rq kg br b c)) \<and>
   (passed (validate_order rq kg br b c) \<longleftrightarrow> failed_checks (validate_order rq kg br b c) = []) \<and>
   failed_checks (validate_order rq kg br b c) = failing (checks rq kg br b c)"
  by (auto simp: validate_order_def run_checks_passed run_checks_failed_list failing_def filter_empty_conv
      list_all_iff)

text \<open>An error in a gate that reads the environment is not a pass.\<close>

lemma check_market_ok:
  "check_market_status rq br b = Inr u \<longleftrightarrow>
     (case br_is_market_open br of Some f \<Rightarrow> f b = Inr True | None \<Rightarrow> \<not> rq)"
  by (auto simp: check_market_status_def res_bind_def split: option.split sum.split)

lemma check_freshness_ok:
  "check_data_freshness rq br sm age b = Inr u \<longleftrightarrow>
     (case br_is_stale_tick br of Some f \<Rightarrow> f sm age b = Inr False | None \<Rightarrow> \<not> rq)"
  by (auto simp: check_data_freshness_def res_bind_def split: option.split sum.split)

lemma check_connectivity_ok: "check_broker_connectivity br b = Inr u \<longleftrightarrow> br_is_connected br b = Inr True"
  by (auto simp: check_broker_connectivity_def res_bind_def split: sum.split)

lemma check_instrument_ok:
  "check_instrument_validity sm ex = Inr u \<longleftrightarrow>
     sm \<noteq> [] \<and> isascii sm \<and> py_upper ex \<in> set valid_exchanges"
  by (auto simp: check_instrument_validity_def py_upper_def valid_exchanges_def)

lemma check_position_limit_ok:
  "check_position_limit ps mx c = Inr u \<longleftrightarrow>
     int (length (filter (\<lambda>p. bp_quantity p \<noteq> 0 \<and> (case c of None \<Rightarrow> True
        | Some sm \<Rightarrow> py_upper (position_symbol p) \<noteq> py_upper sm)) ps)) < mx"
  by (auto simp: check_position_limit_def Let_def)

lemma check_stock_exposure_ok:
  "check_single_stock_exposure tv tp mp net = Inr u \<longleftrightarrow>
     isfinite tv \<and> isfinite tp \<and> Fin 0 < tp \<and>
     \<not> mp < fquot (case net of Some n \<Rightarrow> if Fin 0 \<le> n then n else tv | None \<Rightarrow> tv) tp"
  by (cases tv; cases tp) (auto simp: check_single_stock_exposure_def Let_def)

lemma check_sector_ok:
  "check_sector_exposure sv tp mp = Inr u \<longleftrightarrow>
     isfinite sv \<and> isfinite tp \<and> Fin 0 < tp \<and> \<not> mp < fquot sv tp"
  by (cases sv; cases tp) (auto simp: check_sector_exposure_def)

lemma check_duplicate_all:
  "check_duplicate_order sm strat os cid = Inr u \<longleftrightarrow>
     list_all (\<lambda>x. \<exists>ord. x = Some ord \<and> \<not> blocks_duplicate sm strat ord \<and>
        (cid = None \<or> cid = Some [] \<or> Some (str_or (bo_tag ord) []) \<noteq> cid)) os"
  by (auto simp: check_duplicate_ok list_all_iff)

lemma check_validity_all:
  "check_order_validity (NInt q) (NFloat p) mn mxq mxp mxn = Inr u \<longleftrightarrow>
     fint q = Fin (of_int q) \<and> isfinite p \<and> mn \<le> q \<and> Fin 0 < p \<and>
     (case mxq of None \<Rightarrow> True | Some m \<Rightarrow> q \<le> m) \<and> \<not> opt_above mxp p \<and> \<not> opt_above mxn (fint q * p)"
  by (auto simp: check_order_validity_int_ok split: option.split)

lemma checks_passed:
  "passed (validate_order rq kg br b c) \<longleftrightarrow>
     check_kill_switch kg = Inr () \<and> check_broker_connectivity br b = Inr () \<and>
     check_market_status rq br b = Inr () \<and> check_data_freshness rq br (oc_symbol c) (fl 30) b = Inr () \<and>
     check_instrument_validity (oc_symbol c) (oc_exchange c) = Inr () \<and>
     check_order_validity (NInt (oc_qty c)) (NFloat (oc_price c)) 1 (oc_max_qty c) (oc_max_price c)
       (oc_max_notional c) = Inr () \<and>
     check_capital_availability (oc_trade_value c) (oc_available_cash c) = Inr () \<and>
     check_position_limit (oc_positions c) (oc_max_positions c)
       (if oc_closing_removes_position c then Some (oc_symbol c) else None) = Inr () \<and>
     check_single_stock_exposure (oc_trade_value c) (oc_total_portfolio c) (oc_max_single_stock_pct c)
       (oc_net_trade_value c) = Inr () \<and>
     check_risk_limit (oc_trade_risk c) (oc_daily_risk_used c) (oc_max_daily_risk c) = Inr () \<and>
     check_daily_loss_limit (oc_realised_pnl_today c) (oc_max_daily_loss c) = Inr () \<and>
     check_duplicate_order (oc_symbol c) (oc_strategy c) (oc_open_orders c) (oc_client_order_id c) = Inr () \<and>
     (case oc_sector c of None \<Rightarrow> True | Some sec \<Rightarrow> sec = [] \<or>
        check_sector_exposure (oc_sector_value c) (oc_total_portfolio c) (oc_max_sector_pct c) = Inr ())"
  by (auto simp: validate_order_passed checks_def split: option.splits if_splits)

text \<open>C34. The validator passes an order exactly when every one of its thirteen gates is met: the
  switch is off and readable; the broker is connected; the market is open and the tick not stale, or the
  broker cannot tell and need not; the symbol is a non-empty ASCII string on a known exchange; the
  quantity is an exact whole number between one and its cap, the price finite, positive and below its cap, and
  their product below its cap; the value is finite, positive and fits the finite cash; fewer positions
  than the limit are open, not counting the one the order closes; the share of the portfolio the
  order adds is within the cap; the finite risk of the trade fits what is left of the day's budget; the day's
  loss is above its limit; no entry of the order book is malformed, carries the id of this order, or is a live order of the
  same symbol and strategy; and where the sector is known its share is within the cap.
  A NaN in any of these amounts therefore never passes.\<close>

theorem order_passes_exactly_when_sound:
  "passed (validate_order rq kg br b c) \<longleftrightarrow>
    \<not> is_kill_switch_active kg \<and> br_is_connected br b = Inr True \<and>
    (case br_is_market_open br of Some f \<Rightarrow> f b = Inr True | None \<Rightarrow> \<not> rq) \<and>
    (case br_is_stale_tick br of Some f \<Rightarrow> f (oc_symbol c) (fl 30) b = Inr False | None \<Rightarrow> \<not> rq) \<and>
    oc_symbol c \<noteq> [] \<and> isascii (oc_symbol c) \<and> py_upper (oc_exchange c) \<in> set valid_exchanges \<and>
    fint (oc_qty c) = Fin (of_int (oc_qty c)) \<and> isfinite (oc_price c) \<and> 1 \<le> oc_qty c \<and> Fin 0 < oc_price c \<and>
    (case oc_max_qty c of None \<Rightarrow> True | Some m \<Rightarrow> oc_qty c \<le> m) \<and>
    \<not> opt_above (oc_max_price c) (oc_price c) \<and>
    \<not> opt_above (oc_max_notional c) (fint (oc_qty c) * oc_price c) \<and>
    isfinite (oc_trade_value c) \<and> isfinite (oc_available_cash c) \<and>
    Fin 0 < oc_trade_value c \<and> oc_trade_value c \<le> oc_available_cash c \<and>
    int (length (filter (\<lambda>p. bp_quantity p \<noteq> 0 \<and> \<not> (oc_closing_removes_position c \<and>
       py_upper (position_symbol p) = py_upper (oc_symbol c))) (oc_positions c))) < oc_max_positions c \<and>
    isfinite (oc_total_portfolio c) \<and> Fin 0 < oc_total_portfolio c \<and>
    \<not> oc_max_single_stock_pct c < fquot (case oc_net_trade_value c of
        Some n \<Rightarrow> if Fin 0 \<le> n then n else oc_trade_value c | None \<Rightarrow> oc_trade_value c)
      (oc_total_portfolio c) \<and>
    list_all isfinite [oc_trade_risk c, oc_daily_risk_used c, oc_max_daily_risk c] \<and>
    Fin 0 \<le> oc_trade_risk c \<and> oc_daily_risk_used c + oc_trade_risk c \<le> oc_max_daily_risk c \<and>
    isfinite (oc_realised_pnl_today c) \<and> isfinite (oc_max_daily_loss c) \<and>
    Fin 0 < oc_max_daily_loss c \<and> - oc_max_daily_loss c < oc_realised_pnl_today c \<and>
    list_all (\<lambda>x. \<exists>ord. x = Some ord \<and> \<not> blocks_duplicate (oc_symbol c) (oc_strategy c) ord \<and>
        (oc_client_order_id c = None \<or> oc_client_order_id c = Some [] \<or>
         Some (str_or (bo_tag ord) []) \<noteq> oc_client_order_id c)) (oc_open_orders c) \<and>
    (case oc_sector c of None \<Rightarrow> True | Some sec \<Rightarrow> sec = [] \<or> isfinite (oc_sector_value c) \<and>
       \<not> oc_max_sector_pct c < fquot (oc_sector_value c) (oc_total_portfolio c))"
proof -
  have k: "check_kill_switch kg = Inr () \<longleftrightarrow> \<not> is_kill_switch_active kg"
    by (auto simp: is_kill_switch_active_def check_kill_switch_def split: sum.split)
  show ?thesis
    unfolding checks_passed k check_connectivity_ok check_market_ok check_freshness_ok check_instrument_ok
      check_validity_all check_capital_ok check_position_limit_ok check_stock_exposure_ok check_risk_ok
      check_daily_loss_ok check_duplicate_all check_sector_ok
    by (cases "oc_closing_removes_position c"; cases "oc_sector c") (simp_all, blast+)
qed

definition open_broker :: "unit broker" where
  "open_broker = \<lparr>br_paper_class = False, br_trading_mode = (\<lambda>_. Inr ''live''),
     br_is_connected = (\<lambda>_. Inr True), br_is_market_open = Some (\<lambda>_. Inr True),
     br_is_stale_tick = Some (\<lambda>_ _ _. Inr False), br_supports_trigger = True,
     br_get_quote = (\<lambda>_. ef_return []), br_get_orders = ef_return (Some []),
     br_get_positions = ef_return [], br_place_order = (\<lambda>_. ef_return ''B1''),
     br_cancel_order = (\<lambda>_. ef_return True), br_get_order_status = (\<lambda>_. ef_return None)\<rparr>"

definition sane_check :: order_check where
  "sane_check = \<lparr>oc_symbol = ''INFY'', oc_exchange = ''NSE'', oc_qty = 10, oc_price = Fin 1500,
     oc_trade_value = Fin 15000, oc_trade_risk = Fin 300, oc_strategy = ''swing'', oc_positions = [],
     oc_open_orders = [], oc_daily_risk_used = Fin 0, oc_max_daily_risk = Fin 10000,
     oc_available_cash = Fin 500000, oc_total_portfolio = Fin 500000, oc_max_positions = 20,
     oc_max_single_stock_pct = Fin (1/10), oc_sector = None, oc_sector_value = Fin 0,
     oc_max_sector_pct = Fin (3/10), oc_realised_pnl_today = Fin 0, oc_max_daily_loss = Fin 50000,
     oc_client_order_id = Some ''swing0123'', oc_max_qty = Some 1000, oc_max_price = None,
     oc_max_notional = None, oc_net_trade_value = None, oc_closing_removes_position = False\<rparr>"

theorem order_passes_exactly_when_sound_witness:
  "passed (validate_order True (\<lambda>_. Inr (KStr ''0'')) open_broker () sane_check) \<and>
   \<not> passed (validate_order True (\<lambda>_. Inr (KStr ''0'')) open_broker () (sane_check\<lparr>oc_price := NaN\<rparr>)) \<and>
   \<not> passed (validate_order True (\<lambda>_. Inr (KStr ''0'')) open_broker () (sane_check\<lparr>oc_exchange := ''NYSE''\<rparr>)) \<and>
   \<not> passed (validate_order True (\<lambda>_. Inr (KStr ''0'')) open_broker () (sane_check\<lparr>oc_max_positions := 0\<rparr>))"
proof -
  have "passed (validate_order True (\<lambda>_. Inr (KStr ''0'')) open_broker () sane_check)" by code_simp
  moreover have "\<not> passed (validate_order rq kg br b (sane_check\<lparr>oc_price := NaN\<rparr>))" for rq kg b and br :: "unit broker"
    unfolding order_passes_exactly_when_sound by simp
  moreover have "py_upper ''NYSE'' \<notin> set valid_exchanges" by code_simp
  then have "\<not> passed (validate_order rq kg br b (sane_check\<lparr>oc_exchange := ''NYSE''\<rparr>))" for rq kg b and br :: "unit broker"
    unfolding order_passes_exactly_when_sound by simp
  moreover have "\<not> passed (validate_order rq kg br b (sane_check\<lparr>oc_max_positions := 0\<rparr>))" for rq kg b and br :: "unit broker"
    unfolding order_passes_exactly_when_sound by simp
  ultimately show ?thesis by blast
qed

text \<open>The duplicate gate recognises the orders the system itself sent: a live order of the
  symbol whose tag is a client order id made for the same strategy blocks any further order, and
  so does any open order that carries the id of the order itself, whatever its state.\<close>

theorem own_live_order_blocks:
  assumes "Some ord \<in> set os"
    and "bo_symbol ord = Some sm \<and> bo_status ord = Some st \<and> st \<in> set live_statuses \<and>
         bo_tag ord = Some (make_client_order_id strategy nonce) \<or>
         (\<exists>cid'. cid = Some cid' \<and> cid' \<noteq> [] \<and> bo_tag ord = Some cid')"
  shows "check_duplicate_order sm strategy os cid \<noteq> Inr ()"
proof
  assume "check_duplicate_order sm strategy os cid = Inr ()"
  with assms(1) have n: "\<not> blocks_duplicate sm strategy ord"
    "\<not> (cid \<noteq> None \<and> cid \<noteq> Some [] \<and> Some (str_or (bo_tag ord) []) = cid)"
    by (auto simp: check_duplicate_ok)
  have p: "is_prefix (strategy_tag_prefix strategy)
      (take STRATEGY_PREFIX_LEN (make_client_order_id strategy nonce))"
    by (rule make_client_order_id_prefix)
  have "make_client_order_id strategy nonce \<noteq> []"
    using strategy_tag_prefix_nonempty [of strategy]
    by (simp add: make_client_order_id_def TAG_MAX_LEN_def)
  moreover have "st \<noteq> []" if "st \<in> set live_statuses" for st
    using that by (auto simp: live_statuses_def)
  ultimately show False using assms(2) n p
    by (auto simp: blocks_duplicate_def str_or_def)
qed

theorem own_live_order_blocks_witness:
  "check_duplicate_order ''INFY'' ''swing''
     [Some \<lparr>bo_order_id = Some ''B1'', bo_tag = Some (make_client_order_id ''swing'' ''0123456789abcdef''),
        bo_symbol = Some ''INFY'', bo_status = Some ''OPEN'', bo_filled_quantity = None\<rparr>] None \<noteq> Inr ()"
  by (rule own_live_order_blocks [where st = "''OPEN''" and nonce = "''0123456789abcdef''"])
     (auto simp: live_statuses_def)

end
