(* ===== verification/Costs.thy ===== *)
theory Costs
  imports Broker_Iface
begin

text \<open>
  Transaction costs: \<open>calculate_costs\<close> of the order path (\<open>app/execution/order_manager.py\<close>) and
  \<open>ZerodhaCostModel\<close> of the backtester (\<open>app/backtesting/costs.py\<close>). Rates are the doubles nearest
  to the decimal literals of the code.
\<close>

definition BROKERAGE_INTRADAY_RATE :: pyfloat where "BROKERAGE_INTRADAY_RATE = fl (3 / 10000)"
definition BROKERAGE_INTRADAY_MAX :: pyfloat where "BROKERAGE_INTRADAY_MAX = fl 20"
definition BROKERAGE_DELIVERY :: pyfloat where "BROKERAGE_DELIVERY = Fin 0"
definition STT_INTRADAY_SELL :: pyfloat where "STT_INTRADAY_SELL = fl (25 / 100000)"
definition STT_DELIVERY :: pyfloat where "STT_DELIVERY = fl (1 / 1000)"
definition NSE_EXCHANGE_CHARGE :: pyfloat where "NSE_EXCHANGE_CHARGE = fl (322 / 10000000)"
definition BSE_EXCHANGE_CHARGE :: pyfloat where "BSE_EXCHANGE_CHARGE = fl (375 / 10000000)"
definition GST_RATE :: pyfloat where "GST_RATE = fl (18 / 100)"
definition STAMP_DUTY_BUY :: pyfloat where "STAMP_DUTY_BUY = fl (3 / 100000)"
definition SEBI_CHARGE :: pyfloat where "SEBI_CHARGE = fl (1 / 1000000)"

lemmas cost_rates = BROKERAGE_INTRADAY_RATE_def BROKERAGE_INTRADAY_MAX_def BROKERAGE_DELIVERY_def
  STT_INTRADAY_SELL_def STT_DELIVERY_def NSE_EXCHANGE_CHARGE_def BSE_EXCHANGE_CHARGE_def
  GST_RATE_def STAMP_DUTY_BUY_def SEBI_CHARGE_def

record cost_breakdown =
  co_brokerage :: pyfloat
  co_stt :: pyfloat
  co_exchange :: pyfloat
  co_sebi :: pyfloat
  co_gst :: pyfloat
  co_stamp :: pyfloat
  co_total :: pyfloat

definition calculate_costs ::
  "int \<Rightarrow> pyfloat \<Rightarrow> txn_type \<Rightarrow> prdct \<Rightarrow> string \<Rightarrow> cost_breakdown" where
  "calculate_costs qty price txn pr exchange =
     (let turnover = fint qty * price;
          intraday = (pr = MIS);
          brokerage = (if intraday then fmin (BROKERAGE_INTRADAY_RATE * turnover) BROKERAGE_INTRADAY_MAX
                       else BROKERAGE_DELIVERY);
          stt = (if intraday then (if txn = SELL then STT_INTRADAY_SELL * turnover else Fin 0)
                 else STT_DELIVERY * turnover);
          rate = (if py_upper exchange = ''NSE'' then NSE_EXCHANGE_CHARGE else BSE_EXCHANGE_CHARGE);
          charges = rate * turnover;
          sebi = SEBI_CHARGE * turnover;
          gst = GST_RATE * (brokerage + charges + sebi);
          stamp = (if txn = BUY then STAMP_DUTY_BUY * turnover else Fin 0);
          total = brokerage + stt + charges + sebi + gst + stamp
      in \<lparr>co_brokerage = fround 4 brokerage, co_stt = fround 4 stt, co_exchange = fround 4 charges,
          co_sebi = fround 4 sebi, co_gst = fround 4 gst, co_stamp = fround 4 stamp,
          co_total = fround 4 total\<rparr>)"

definition costs_json :: "cost_breakdown \<Rightarrow> json" where
  "costs_json c = JObj [(''brokerage'', JFloat (co_brokerage c)), (''stt'', JFloat (co_stt c)),
     (''exchange_charges'', JFloat (co_exchange c)), (''sebi'', JFloat (co_sebi c)),
     (''gst'', JFloat (co_gst c)), (''stamp_duty'', JFloat (co_stamp c)), (''total'', JFloat (co_total c))]"


section \<open>The backtest cost model\<close>

text \<open>\<open>CONFIG\<close>, one field per key.\<close>

record cost_config =
  cc_intraday_brokerage_pct :: pyfloat
  cc_intraday_brokerage_max :: pyfloat
  cc_delivery_brokerage_pct :: pyfloat
  cc_intraday_stt_sell :: pyfloat
  cc_delivery_stt_buy :: pyfloat
  cc_delivery_stt_sell :: pyfloat
  cc_nse_exchange_charge :: pyfloat
  cc_sebi_charge :: pyfloat
  cc_gst :: pyfloat
  cc_intraday_stamp :: pyfloat
  cc_delivery_stamp :: pyfloat
  cc_dp_charge :: pyfloat

definition CONFIG :: cost_config where
  "CONFIG = \<lparr>cc_intraday_brokerage_pct = fl (3 / 10000), cc_intraday_brokerage_max = fl 20,
     cc_delivery_brokerage_pct = Fin 0, cc_intraday_stt_sell = fl (25 / 100000),
     cc_delivery_stt_buy = fl (1 / 1000), cc_delivery_stt_sell = fl (1 / 1000),
     cc_nse_exchange_charge = fl (322 / 10000000), cc_sebi_charge = fl (1 / 1000000),
     cc_gst = fl (18 / 100), cc_intraday_stamp = fl (3 / 100000), cc_delivery_stamp = fl (15 / 100000),
     cc_dp_charge = fl (1593 / 100)\<rparr>"

record bt_cost =
  bc_brokerage :: pyfloat
  bc_stt :: pyfloat
  bc_exchange :: pyfloat
  bc_sebi :: pyfloat
  bc_gst :: pyfloat
  bc_stamp :: pyfloat
  bc_dp :: pyfloat
  bc_total :: pyfloat
  bc_total_pct :: pyfloat

definition bt_product_of :: "string \<Rightarrow> prdct res" where
  "bt_product_of s = (if s = ''MIS'' then Inr MIS else if s = ''CNC'' then Inr CNC
     else if s = ''NRML'' then Inr NRML else Inl (ValueError ''not a valid ProductType''))"

text \<open>\<open>ZerodhaCostModel.calculate_costs\<close> on textual arguments. (An enumeration member is not
  accepted by the code: its \<open>str()\<close> is not the value.) The exchange is unused.\<close>

definition bt_zero :: bt_cost where
  "bt_zero = \<lparr>bc_brokerage = Fin 0, bc_stt = Fin 0, bc_exchange = Fin 0, bc_sebi = Fin 0, bc_gst = Fin 0,
     bc_stamp = Fin 0, bc_dp = Fin 0, bc_total = Fin 0, bc_total_pct = Fin 0\<rparr>"

definition bt_breakdown :: "cost_config \<Rightarrow> txn_type \<Rightarrow> prdct \<Rightarrow> pyfloat \<Rightarrow> bt_cost" where
  "bt_breakdown cfg tx pr trade_value =
     (let intraday = (pr = MIS);
          brokerage = (if intraday
             then fmin (trade_value * cc_intraday_brokerage_pct cfg) (cc_intraday_brokerage_max cfg)
             else trade_value * cc_delivery_brokerage_pct cfg);
          stt = (if intraday then (if tx = SELL then trade_value * cc_intraday_stt_sell cfg else Fin 0)
             else if tx = BUY then trade_value * cc_delivery_stt_buy cfg
             else trade_value * cc_delivery_stt_sell cfg);
          exchange_charge = trade_value * cc_nse_exchange_charge cfg;
          sebi_charge = trade_value * cc_sebi_charge cfg;
          gst = (brokerage + exchange_charge + sebi_charge) * cc_gst cfg;
          stamp = (if tx = BUY
             then trade_value * (if intraday then cc_intraday_stamp cfg else cc_delivery_stamp cfg)
             else Fin 0);
          dp = (if \<not> intraday \<and> tx = SELL then cc_dp_charge cfg else Fin 0);
          total = brokerage + stt + exchange_charge + sebi_charge + gst + stamp + dp;
          total_pct = (if Fin 0 < trade_value then fquot total trade_value else Fin 0)
      in \<lparr>bc_brokerage = fround 4 brokerage, bc_stt = fround 4 stt,
          bc_exchange = fround 4 exchange_charge, bc_sebi = fround 6 sebi_charge, bc_gst = fround 4 gst,
          bc_stamp = fround 4 stamp, bc_dp = fround 4 dp, bc_total = fround 4 total,
          bc_total_pct = fround 8 total_pct\<rparr>)"

definition bt_costs ::
  "cost_config \<Rightarrow> string \<Rightarrow> pyfloat \<Rightarrow> pyfloat \<Rightarrow> string \<Rightarrow> bt_cost res" where
  "bt_costs cfg transaction_type qty price pr =
     res_bind (txn_of (py_upper transaction_type)) (\<lambda>tx.
     res_bind (bt_product_of (py_upper pr)) (\<lambda>p.
     let trade_value = qty * price in
     Inr (if trade_value \<le> Fin 0 then bt_zero else bt_breakdown cfg tx p trade_value)))"

definition round_trip_cost ::
  "cost_config \<Rightarrow> pyfloat \<Rightarrow> pyfloat \<Rightarrow> pyfloat \<Rightarrow> string \<Rightarrow> bt_cost res" where
  "round_trip_cost cfg qty buy_price sell_price pr =
     res_bind (bt_costs cfg ''BUY'' qty buy_price pr) (\<lambda>b.
     res_bind (bt_costs cfg ''SELL'' qty sell_price pr) (\<lambda>s.
     let trade_value = qty * buy_price; total = bc_total b + bc_total s in
     Inr \<lparr>bc_brokerage = bc_brokerage b + bc_brokerage s, bc_stt = bc_stt b + bc_stt s,
       bc_exchange = bc_exchange b + bc_exchange s, bc_sebi = bc_sebi b + bc_sebi s,
       bc_gst = bc_gst b + bc_gst s, bc_stamp = bc_stamp b + bc_stamp s, bc_dp = bc_dp b + bc_dp s,
       bc_total = fround 4 total,
       bc_total_pct = (if Fin 0 < trade_value then fround 8 (fquot total trade_value) else Fin 0)\<rparr>))"

definition breakeven_return :: "cost_config \<Rightarrow> pyfloat \<Rightarrow> pyfloat \<Rightarrow> string \<Rightarrow> pyfloat res" where
  "breakeven_return cfg qty price pr =
     res_bind (round_trip_cost cfg qty price price pr) (\<lambda>rt. Inr (bc_total_pct rt))"

section \<open>Facts and properties\<close>

lemma rate_times_nonneg: "Fin 0 < r \<Longrightarrow> isfinite r \<Longrightarrow> Fin 0 \<le> x \<Longrightarrow> Fin 0 \<le> r * x"
  by (cases r; cases x) (auto simp: fl_nonneg)

lemma fmin_nonneg: "Fin 0 \<le> a \<Longrightarrow> Fin 0 \<le> b \<Longrightarrow> Fin 0 \<le> fmin a b"
  by (simp add: fmin_def)

lemma rates_positive:
  "Fin 0 < BROKERAGE_INTRADAY_RATE \<and> isfinite BROKERAGE_INTRADAY_RATE \<and>
   Fin 0 < STT_INTRADAY_SELL \<and> isfinite STT_INTRADAY_SELL \<and>
   Fin 0 < STT_DELIVERY \<and> isfinite STT_DELIVERY \<and>
   Fin 0 < NSE_EXCHANGE_CHARGE \<and> isfinite NSE_EXCHANGE_CHARGE \<and>
   Fin 0 < BSE_EXCHANGE_CHARGE \<and> isfinite BSE_EXCHANGE_CHARGE \<and>
   Fin 0 < GST_RATE \<and> isfinite GST_RATE \<and> Fin 0 < STAMP_DUTY_BUY \<and> isfinite STAMP_DUTY_BUY \<and>
   Fin 0 < SEBI_CHARGE \<and> isfinite SEBI_CHARGE \<and> BROKERAGE_INTRADAY_MAX = Fin 20"
  by code_simp

text \<open>The charges of a leg with a non-negative turnover are non-negative, the total
  included, and the brokerage of an intraday leg never exceeds its cap of 20 rupees, while a
  delivery leg pays none.\<close>

theorem costs_nonneg_and_capped:
  assumes "Fin 0 \<le> fint qty * price"
  shows "list_all (\<lambda>x. Fin 0 \<le> x)
      [co_brokerage (calculate_costs qty price txn pr ex'), co_stt (calculate_costs qty price txn pr ex'),
       co_exchange (calculate_costs qty price txn pr ex'), co_sebi (calculate_costs qty price txn pr ex'),
       co_gst (calculate_costs qty price txn pr ex'), co_stamp (calculate_costs qty price txn pr ex'),
       co_total (calculate_costs qty price txn pr ex')] \<and>
    co_brokerage (calculate_costs qty price txn pr ex') \<le> (if pr = MIS then Fin 20 else Fin 0)"
proof -
  note r = rates_positive
  define t where "t = fint qty * price"
  have t: "Fin 0 \<le> t" using assms by (simp add: t_def)
  define b where "b = (if pr = MIS then fmin (BROKERAGE_INTRADAY_RATE * t) BROKERAGE_INTRADAY_MAX
    else BROKERAGE_DELIVERY)"
  define st where "st = (if pr = MIS then (if txn = SELL then STT_INTRADAY_SELL * t else Fin 0)
    else STT_DELIVERY * t)"
  define ec where "ec = (if py_upper ex' = ''NSE'' then NSE_EXCHANGE_CHARGE else BSE_EXCHANGE_CHARGE) * t"
  have mx: "Fin 0 \<le> BROKERAGE_INTRADAY_MAX" by code_simp
  have b: "Fin 0 \<le> b" using r t mx by (auto simp: b_def BROKERAGE_DELIVERY_def intro!: fmin_nonneg rate_times_nonneg)
  have st: "Fin 0 \<le> st" using r t by (auto simp: st_def intro!: rate_times_nonneg)
  have ec: "Fin 0 \<le> ec" using r t by (auto simp: ec_def intro!: rate_times_nonneg)
  have sb: "Fin 0 \<le> SEBI_CHARGE * t" using r t by (auto intro!: rate_times_nonneg)
  have g: "Fin 0 \<le> GST_RATE * (b + ec + SEBI_CHARGE * t)"
    using r b ec sb by (auto intro!: rate_times_nonneg fplus_nonneg)
  have sp: "Fin 0 \<le> (if txn = BUY then STAMP_DUTY_BUY * t else Fin 0)"
    using r t by (auto intro!: rate_times_nonneg)
  have cap: "b \<le> (if pr = MIS then Fin 20 else Fin 0)"
    using r t rate_times_nonneg [of BROKERAGE_INTRADAY_RATE t]
    by (auto simp: b_def BROKERAGE_DELIVERY_def intro!: fmin_le2)
  have "fround 4 b \<le> fround 4 (if pr = MIS then Fin 20 else Fin 0)" by (rule fround_mono [OF cap])
  moreover have "fround 4 (Fin 20) = Fin 20" by code_simp
  ultimately have "fround 4 b \<le> (if pr = MIS then Fin 20 else Fin 0)" by (auto split: if_splits)
  then show ?thesis
    using b st ec sb g sp
    by (simp add: calculate_costs_def Let_def t_def [symmetric] b_def [symmetric] st_def [symmetric]
        ec_def [symmetric] fround_nonneg fplus_nonneg)
qed

theorem costs_nonneg_and_capped_witness:
  "co_brokerage (calculate_costs 100 (Fin 1500) BUY MIS ''NSE'') \<le> Fin 20"
proof -
  have "Fin 0 \<le> fint 100 * Fin 1500" by code_simp
  from costs_nonneg_and_capped [OF this, of BUY MIS "''NSE''"] show ?thesis by simp
qed

lemma config_rates:
  "cc_intraday_brokerage_pct CONFIG = BROKERAGE_INTRADAY_RATE"
  "cc_intraday_brokerage_max CONFIG = BROKERAGE_INTRADAY_MAX"
  "cc_intraday_stt_sell CONFIG = STT_INTRADAY_SELL"
  "cc_nse_exchange_charge CONFIG = NSE_EXCHANGE_CHARGE"
  "cc_sebi_charge CONFIG = SEBI_CHARGE"
  "cc_gst CONFIG = GST_RATE"
  "cc_intraday_stamp CONFIG = STAMP_DUTY_BUY"
  by (simp_all only: CONFIG_def cost_config.select_convs cost_rates)

lemma upper_buy: "py_upper ''BUY'' = ''BUY''" by code_simp
lemma upper_sell: "py_upper ''SELL'' = ''SELL''" by code_simp
lemma upper_mis: "py_upper ''MIS'' = ''MIS''" by code_simp
lemma upper_nse: "py_upper ''NSE'' = ''NSE''" by code_simp

lemma upper_names:
  "py_upper (txn_value txn) = txn_value txn" "py_upper ''MIS'' = ''MIS''" "py_upper ''NSE'' = ''NSE''"
  by (cases txn) (simp_all only: txn_value.simps upper_buy upper_sell upper_mis upper_nse)

text \<open>For an intraday leg on the NSE the two cost models of the program agree to the last
  digit on the brokerage, the taxes, the charges and the total.\<close>

theorem intraday_cost_models_agree:
  assumes "Fin 0 < fint qty * price"
    and "bt_costs CONFIG (txn_value txn) (fint qty) price ''MIS'' = Inr b"
  shows "bc_total b = co_total (calculate_costs qty price txn MIS ''NSE'') \<and>
    bc_brokerage b = co_brokerage (calculate_costs qty price txn MIS ''NSE'') \<and>
    bc_stt b = co_stt (calculate_costs qty price txn MIS ''NSE'') \<and>
    bc_exchange b = co_exchange (calculate_costs qty price txn MIS ''NSE'') \<and>
    bc_gst b = co_gst (calculate_costs qty price txn MIS ''NSE'') \<and>
    bc_stamp b = co_stamp (calculate_costs qty price txn MIS ''NSE'') \<and> bc_dp b = Fin 0"
proof -
  note u = upper_names
  have "\<not> fint qty * price \<le> Fin 0" using assms(1) by (cases "fint qty * price") auto
  then have b: "b = bt_breakdown CONFIG txn MIS (fint qty * price)"
    using assms(2) by (simp add: bt_costs_def u bt_product_of_def Let_def)
  have z: "fround 4 (Fin 0) = Fin 0" by simp
  show ?thesis
    unfolding b bt_breakdown_def calculate_costs_def Let_def config_rates u
      bt_cost.select_convs cost_breakdown.select_convs
    by (cases txn) (simp_all only: z fplus_0_result ftimes_commute simp_thms if_True if_False
        txn_type.distinct refl)
qed

theorem intraday_cost_models_agree_witness:
  "\<exists>b. bt_costs CONFIG ''SELL'' (fint 100) (Fin 1500) ''MIS'' = Inr b \<and>
     bc_total b = co_total (calculate_costs 100 (Fin 1500) SELL MIS ''NSE'')"
proof -
  have p: "Fin 0 < fint 100 * Fin 1500" by code_simp
  note u = upper_names(1) [of SELL, simplified] upper_names(2)
  obtain b where "bt_costs CONFIG (txn_value SELL) (fint 100) (Fin 1500) ''MIS'' = Inr b"
    by (simp add: bt_costs_def u txn_of_def bt_product_of_def Let_def)
  with intraday_cost_models_agree [OF p this] show ?thesis by auto
qed

lemma order_path_delivery:
  "co_total (calculate_costs 100 (Fin 1500) BUY CNC ''NSE'') = fl (1603764 / 10000)"
  "co_total (calculate_costs 100 (Fin 1500) SELL CNC ''NSE'') = fl (1558764 / 10000)"
  unfolding calculate_costs_def Let_def cost_breakdown.select_convs cost_rates by code_simp+

lemma backtest_delivery:
  "bc_total (bt_breakdown CONFIG BUY CNC (Fin 150000)) = fl (1783764 / 10000)"
  "bc_total (bt_breakdown CONFIG SELL CNC (Fin 150000)) = fl (1718064 / 10000)"
  unfolding bt_breakdown_def Let_def bt_cost.select_convs CONFIG_def cost_config.select_convs
  by code_simp+

text \<open>For a delivery trade they do not: buying 100 shares at 1500 costs 160.38 on the order
  path and 178.38 in the backtest (stamp duty at 0.003 and 0.015 percent), and selling them 155.88
  against 171.81 (the order path omits the depository charge).\<close>

theorem delivery_cost_models_differ:
  "co_total (calculate_costs 100 (Fin 1500) BUY CNC ''NSE'') = fl (1603764 / 10000) \<and>
   bc_total (bt_breakdown CONFIG BUY CNC (Fin 150000)) = fl (1783764 / 10000) \<and>
   co_total (calculate_costs 100 (Fin 1500) SELL CNC ''NSE'') = fl (1558764 / 10000) \<and>
   bc_total (bt_breakdown CONFIG SELL CNC (Fin 150000)) = fl (1718064 / 10000)"
  by (simp only: order_path_delivery backtest_delivery simp_thms)

end
