(* ===== verification/Order_Manager.thy ===== *)
theory Order_Manager
  imports Order_Store Safety Costs
begin

text \<open>
  \<open>app/execution/order_manager.py\<close>: the operations of \<open>OrderManager\<close> as effects on a world: the
  durable order store, a script of the outcomes of its coming calls, and the environment (the
  broker, the market, the kill-switch store). \<open>w_sent\<close> is a ghost log: every call that reaches
  the broker's \<open>place_order\<close>, with the record the store held for the order's tag at that moment.
  One operation runs to its end before the next starts. The store of a run does not expire records: with the Redis store this
  is a run within the time to live of its keys (\<open>Order_Store.redis_expire\<close> is what happens after it).
\<close>

section \<open>The world\<close>

text \<open>The outcome of a store call: it works, it raises without effect, or it takes effect and
  the answer is lost.\<close>

datatype outcome = Works | Fails | Lost

datatype sent = Placed place_request "order_record option"

record 'b world =
  w_store :: order_store
  w_outcomes :: "outcome list"
  w_env :: 'b
  w_sent :: "sent list"

definition store_call ::
  "(order_store \<Rightarrow> 'a res \<times> order_store) \<Rightarrow> ('b world, 'a) ef" where
  "store_call f w = (case w_outcomes w of
     Fails # os \<Rightarrow> (Inl (PersistenceError ''store unavailable''), w\<lparr>w_outcomes := os\<rparr>)
   | Lost # os \<Rightarrow> (Inl (PersistenceError ''store unavailable''),
        w\<lparr>w_outcomes := os, w_store := snd (f (w_store w))\<rparr>)
   | os \<Rightarrow> (fst (f (w_store w)), w\<lparr>w_outcomes := tl os, w_store := snd (f (w_store w))\<rparr>))"

definition st_reserve :: "order_record \<Rightarrow> ('b world, bool) ef" where
  "st_reserve r = store_call (mem_reserve r)"

definition st_save :: "order_record \<Rightarrow> ('b world, unit) ef" where
  "st_save r = store_call (mem_save r)"

definition st_get :: "string \<Rightarrow> ('b world, order_record option) ef" where
  "st_get cid = store_call (\<lambda>s. (Inr (mem_get cid s), s))"

definition st_list_open :: "('b world, order_record list) ef" where
  "st_list_open = store_call (\<lambda>s. (Inr (mem_list_open s), s))"

definition st_record_trade :: "string \<Rightarrow> (string \<times> json) list \<Rightarrow> ('b world, bool) ef" where
  "st_record_trade cid fill = store_call (mem_record_trade cid fill)"

definition st_position :: "string \<Rightarrow> string \<Rightarrow> string \<Rightarrow> int \<Rightarrow> pyfloat \<Rightarrow> ('b world, position) ef" where
  "st_position symbol exchange pr d price = store_call (mem_apply_position_delta symbol exchange pr d price)"

definition on_env :: "('b, 'a) ef \<Rightarrow> ('b world, 'a) ef" where
  "on_env m w = (case m (w_env w) of (r, b) \<Rightarrow> (r, w\<lparr>w_env := b\<rparr>))"

definition env_read :: "('b \<Rightarrow> 'a res) \<Rightarrow> ('b world, 'a) ef" where
  "env_read f w = (f (w_env w), w)"

section \<open>The manager\<close>

text \<open>
  The constructor's settings, the broker of the call, the switch store behind the safety layer,
  the eligibility verdict of \<open>app.governance.eligibility\<close> (\<open>om_eligible\<close>), the clock reading of
  the call and the library's SHA-256 hex digest.
\<close>

record 'b manager =
  om_broker :: "'b broker"
  om_kv_get :: "string \<Rightarrow> 'b \<Rightarrow> kv res"
  om_kv_set :: "(string \<Rightarrow> kv \<Rightarrow> ('b, unit) ef) option"
  om_require_support :: bool
  om_eligible :: "'b \<Rightarrow> unit res"
  om_max_qty :: "int option"
  om_max_price :: "pyfloat option"
  om_max_notional :: "pyfloat option"
  om_require_stop :: bool
  om_max_tick_age :: pyfloat
  om_now :: string
  om_sha256 :: "string \<Rightarrow> string"

record signal =
  sg_symbol :: string
  sg_exchange :: string
  sg_txn :: txn_type
  sg_order_type :: order_type
  sg_product :: prdct
  sg_price :: pyfloat
  sg_stop_price :: pyfloat
  sg_strategy :: string
  sg_tag :: string
  sg_client_order_id :: string
  sg_intent_kind :: string

text \<open>\<open>Signal.__post_init__\<close>.\<close>

definition signal_post_init :: "string \<Rightarrow> signal \<Rightarrow> signal" where
  "signal_post_init nonce sg = (if sg_client_order_id sg = []
     then sg\<lparr>sg_client_order_id := make_client_order_id
       (if sg_strategy sg = [] then sg_tag sg else sg_strategy sg) nonce\<rparr> else sg)"

definition market_priced :: "order_type \<Rightarrow> bool" where
  "market_priced ot \<longleftrightarrow> ot \<in> set [MARKET, SL_M]"

definition triggered :: "order_type \<Rightarrow> bool" where
  "triggered ot \<longleftrightarrow> ot \<in> set [SL, SL_M]"

definition is_paper_broker :: "'b broker \<Rightarrow> 'b \<Rightarrow> bool" where
  "is_paper_broker br b \<longleftrightarrow> br_paper_class br \<or>
     (case br_trading_mode br b of Inl e \<Rightarrow> False | Inr mode \<Rightarrow> py_lower mode = ''paper'')"

definition require_eligible_for_live :: "'b manager \<Rightarrow> 'b \<Rightarrow> unit res" where
  "require_eligible_for_live om b =
     (if is_paper_broker (om_broker om) b then Inr () else om_eligible om b)"

definition move :: "'b manager \<Rightarrow> order_state \<Rightarrow> string \<Rightarrow> bool \<Rightarrow> order_record \<Rightarrow> ('b world, order_record) ef" where
  "move om new reason reconciled r = ef_lift (transition (om_now om) new reason reconciled r)"

definition get_record :: "string \<Rightarrow> ('b world, order_record option) ef" where
  "get_record ref = ef_bind (st_get ref) (\<lambda>r. case r of
     Some r \<Rightarrow> ef_return (Some r)
   | None \<Rightarrow> ef_bind st_list_open (\<lambda>rs.
       ef_return (List.find (\<lambda>c. r_broker_order_id c = Some ref) rs)))"

definition blocked_orders :: "('b world, order_record list) ef" where
  "blocked_orders = ef_bind st_list_open (\<lambda>rs. ef_return (filter is_blocked rs))"

section \<open>Pricing and risk\<close>

definition no_price :: "string \<Rightarrow> exn" where
  "no_price symbol = StaleDataError (''Refusing MARKET order in '' @ symbol)"

text \<open>\<open>(quotes or {}).get(key) or (quotes or {}).get(symbol)\<close>, where an empty quote is false.\<close>

definition pick_quote :: "(string \<times> quote) list \<Rightarrow> string \<Rightarrow> string \<Rightarrow> quote" where
  "pick_quote quotes key symbol =
     (let get = (\<lambda>k. case map_of quotes k of None \<Rightarrow> [] | Some q \<Rightarrow> q)
      in if get key \<noteq> [] then get key else get symbol)"

definition resolve_reference_price :: "'b manager \<Rightarrow> signal \<Rightarrow> ('b, pyfloat) ef" where
  "resolve_reference_price om sg =
     (if \<not> market_priced (sg_order_type sg) then
        (if \<not> isfinite (sg_price sg) \<or> sg_price sg \<le> Fin 0
         then ef_raise (SafetyCheckError (order_type_value (sg_order_type sg) @ '' order needs a positive limit price''))
         else ef_return (sg_price sg))
      else ef_bind (ef_try (br_get_quote (om_broker om) (sg_exchange sg @ '':'' @ sg_symbol sg))) (\<lambda>r. case r of
        Inl e \<Rightarrow> ef_raise (no_price (sg_symbol sg))
      | Inr quotes \<Rightarrow>
          ef_bind (case br_is_stale_tick (om_broker om) of
              None \<Rightarrow> ef_return False
            | Some f \<Rightarrow> (\<lambda>b. (f (sg_symbol sg) (om_max_tick_age om) b, b))) (\<lambda>stale.
          if stale then ef_raise (no_price (sg_symbol sg))
          else case map_of (pick_quote quotes (sg_exchange sg @ '':'' @ sg_symbol sg) (sg_symbol sg)) ''last_price'' of
            None \<Rightarrow> ef_raise (no_price (sg_symbol sg))
          | Some v \<Rightarrow> (case numeric v of
              None \<Rightarrow> ef_raise (no_price (sg_symbol sg))
            | Some px \<Rightarrow> if \<not> isfinite px \<or> px \<le> Fin 0 then ef_raise (no_price (sg_symbol sg))
                else ef_return px))))"

definition compute_trade_risk :: "bool \<Rightarrow> int \<Rightarrow> pyfloat \<Rightarrow> pyfloat \<Rightarrow> pyfloat res" where
  "compute_trade_risk require_stop qty entry stop =
     (let notional = fint qty * entry in
      if ftruthy stop \<and> isfinite stop \<and> Fin 0 < stop then
        let risk = fint qty * \<bar>entry - stop\<bar> in
        if risk \<le> Fin 0 then Inl (SafetyCheckError ''degenerate risk'') else Inr (fmin risk notional)
      else if require_stop then Inl (SafetyCheckError ''No stop price defined and require_stop=True'')
      else Inr notional)"

section \<open>Asking the broker about an order\<close>

datatype tag_query = Unreadable | Absent | Found border

fun scan_book :: "order_record \<Rightarrow> border option list \<Rightarrow> tag_query" where
  "scan_book r [] = Absent"
| "scan_book r (None # os) = scan_book r os"
| "scan_book r (Some ord # os) =
     (if str_or (bo_tag ord) [] = r_client_order_id r then Found ord
      else if str_or (r_broker_order_id r) [] \<noteq> [] \<and>
              str_or (bo_order_id ord) [] = str_or (r_broker_order_id r) [] then Found ord
      else scan_book r os)"

definition query_broker_for_tag :: "'b manager \<Rightarrow> order_record \<Rightarrow> ('b world, tag_query) ef" where
  "query_broker_for_tag om r =
     ef_bind (ef_try (on_env (br_get_orders (om_broker om)))) (\<lambda>res. ef_return (case res of
        Inl e \<Rightarrow> Unreadable
      | Inr None \<Rightarrow> Unreadable
      | Inr (Some os) \<Rightarrow> scan_book r os))"

definition update_order_status :: "order_record \<Rightarrow> ('b world, unit) ef" where
  "update_order_status r = st_save r"

definition resolve_unknown :: "'b manager \<Rightarrow> order_record \<Rightarrow> ('b world, string option) ef" where
  "resolve_unknown om r = ef_bind (query_broker_for_tag om r) (\<lambda>found. case found of
     Unreadable \<Rightarrow> ef_seq (st_save r)
       (ef_raise (AmbiguousOrderError (''Order '' @ r_client_order_id r @ '' is in UNKNOWN'')))
   | Absent \<Rightarrow>
       ef_bind (move om REJECTED ''not present in broker order book after ambiguous submit'' True r) (\<lambda>r'.
       ef_seq (update_order_status r') (ef_return None))
   | Found ord \<Rightarrow>
       let bid = str_or (bo_order_id ord) (str_or (r_broker_order_id r) []);
           filled = int_or (bo_filled_quantity ord) 0;
           new = map_broker_status (bo_status ord) filled (r_qty r);
           r1 = r\<lparr>r_broker_order_id := Some bid\<rparr>
       in if new = UNKNOWN then ef_seq (st_save r1)
            (ef_raise (AmbiguousOrderError (''Order '' @ r_client_order_id r @ '' has an uninterpretable status'')))
          else ef_bind (move om new ''resolved from broker order book'' True
                 (r1\<lparr>r_filled_qty := min filled (r_qty r)\<rparr>)) (\<lambda>r2.
               ef_seq (update_order_status r2) (ef_return (if bid = [] then None else Some bid))))"

definition handle_existing_intent :: "'b manager \<Rightarrow> string \<Rightarrow> ('b world, string option) ef" where
  "handle_existing_intent om cid = ef_bind (st_get cid) (\<lambda>x. case x of
     None \<Rightarrow> ef_raise (AmbiguousOrderError (''Client order id '' @ cid @ '' is reserved but unreadable''))
   | Some r \<Rightarrow>
       if is_blocked r then resolve_unknown om r
       else if str_or (r_broker_order_id r) [] \<noteq> [] then ef_return (r_broker_order_id r)
       else ef_return None)"

definition blocking_record_for :: "signal \<Rightarrow> ('b world, order_record option) ef" where
  "blocking_record_for sg = ef_bind st_list_open (\<lambda>rs. ef_return
     (List.find (\<lambda>r. is_blocked r \<and> r_symbol r = sg_symbol sg \<and> r_strategy r = sg_strategy sg) rs))"

section \<open>Fills\<close>

text \<open>
  The fill message, with \<open>None\<close> where the key is missing. \<open>fm_text\<close> is \<open>str(fill_data.get(k, ""))\<close>
  of the keys of the derived fill id, and \<open>fm_rest\<close> the entries no operation reads.
\<close>

record fill_msg =
  fm_qty :: "int option"
  fm_price :: "pyfloat option"
  fm_txn_type :: "string option"
  fm_product :: "string option"
  fm_exchange :: "string option"
  fm_symbol :: "string option"
  fm_fill_id :: "string option"
  fm_text :: "string \<Rightarrow> string"
  fm_rest :: "(string \<times> json) list"

definition opt_entry :: "string \<Rightarrow> ('a \<Rightarrow> json) \<Rightarrow> 'a option \<Rightarrow> (string \<times> json) list" where
  "opt_entry k f x = (case x of None \<Rightarrow> [] | Some v \<Rightarrow> [(k, f v)])"

definition fill_dict :: "fill_msg \<Rightarrow> string \<Rightarrow> cost_breakdown \<Rightarrow> (string \<times> json) list" where
  "fill_dict fm fid costs =
     (''fill_id'', JStr fid) # (''costs'', costs_json costs) #
     opt_entry ''symbol'' JStr (fm_symbol fm) @ opt_entry ''exchange'' JStr (fm_exchange fm) @
     opt_entry ''qty'' JInt (fm_qty fm) @ opt_entry ''price'' JFloat (fm_price fm) @
     opt_entry ''txn_type'' JStr (fm_txn_type fm) @ opt_entry ''product'' JStr (fm_product fm) @
     fm_rest fm"

fun join :: "string \<Rightarrow> string list \<Rightarrow> string" where
  "join sep [] = []"
| "join sep [x] = x"
| "join sep (x # xs) = x @ sep @ join sep xs"

definition derive_fill_id :: "(string \<Rightarrow> string) \<Rightarrow> string \<Rightarrow> fill_msg \<Rightarrow> string" where
  "derive_fill_id sha256 cid fm = take 24 (sha256 (cid @ ''|'' @
     join ''|'' (map (fm_text fm) [''trade_id'', ''qty'', ''price'', ''timestamp'', ''fill_time''])))"

record fill_result =
  fr_fill_id :: string
  fr_duplicate :: bool
  fr_state :: order_state
  fr_filled_qty :: int
  fr_remaining_qty :: int

definition update_position :: "order_record \<Rightarrow> fill_msg \<Rightarrow> ('b world, position) ef" where
  "update_position r fm =
     (let qty = case_option 0 id (fm_qty fm);
          price = case_option (Fin 0) id (fm_price fm);
          side = py_upper (case_option (r_side r) id (fm_txn_type fm));
          d = (if side = ''BUY'' then qty else - qty)
      in st_position (r_symbol r) (r_exchange r) (r_product r) d price)"

text \<open>The part of \<open>handle_fill\<close> after a fill was applied to the record: trade log, state, order
  record, position, each durable. (The reason text of the code also prints the price.)\<close>

definition book_fill ::
  "'b manager \<Rightarrow> order_record \<Rightarrow> fill_msg \<Rightarrow> string \<Rightarrow> cost_breakdown \<Rightarrow> ('b world, fill_result) ef" where
  "book_fill om r fm fid costs =
     ef_seq (st_record_trade (r_client_order_id r) (fill_dict fm fid costs))
     (ef_bind (move om (if remaining_qty r = 0 then FILLED else PARTIALLY_FILLED)
         (''fill '' @ int_str (r_filled_qty r) @ ''/'' @ int_str (r_qty r)) False r) (\<lambda>r'.
      ef_seq (update_order_status r')
      (ef_seq (update_position r' fm)
      (ef_return \<lparr>fr_fill_id = fid, fr_duplicate = False, fr_state = r_state r',
         fr_filled_qty = r_filled_qty r', fr_remaining_qty = remaining_qty r'\<rparr>))))"

definition handle_fill :: "'b manager \<Rightarrow> string \<Rightarrow> fill_msg \<Rightarrow> ('b world, fill_result) ef" where
  "handle_fill om ref fm = ef_bind (get_record ref) (\<lambda>x. case x of
     None \<Rightarrow> ef_raise (OrderSubmissionError (''Fill for unknown order '' @ ref))
   | Some r \<Rightarrow>
     if is_blocked r
     then ef_raise (OrderBlockedError (''Fill for '' @ r_client_order_id r @ '' while its state is UNKNOWN''))
     else
       let qty = case_option 0 id (fm_qty fm);
           price = case_option (Fin 0) id (fm_price fm) in
       ef_bind (ef_lift (txn_of (case_option (r_side r) id (fm_txn_type fm)))) (\<lambda>txn.
       ef_bind (ef_lift (product_of (case_option (r_product r) id (fm_product fm)))) (\<lambda>pr.
       let exchange = case_option (r_exchange r) id (fm_exchange fm);
           fid = str_or (fm_fill_id fm) (derive_fill_id (om_sha256 om) (r_client_order_id r) fm);
           costs = calculate_costs qty price txn pr exchange in
       ef_bind (ef_lift (apply_fill (om_now om) qty price fid r)) (\<lambda>(applied, r').
       if \<not> applied then ef_return \<lparr>fr_fill_id = fid, fr_duplicate = True, fr_state = r_state r',
           fr_filled_qty = r_filled_qty r', fr_remaining_qty = remaining_qty r'\<rparr>
       else book_fill om r' fm fid costs))))"

definition apply_any_immediate_fill :: "'b manager \<Rightarrow> order_record \<Rightarrow> ('b world, unit) ef" where
  "apply_any_immediate_fill om r = (case r_broker_order_id r of
     None \<Rightarrow> ef_return ()
   | Some bid \<Rightarrow> if bid = [] then ef_return () else
     ef_bind (ef_try (on_env (br_get_order_status (om_broker om) bid))) (\<lambda>res. case res of
       Inl e \<Rightarrow> ef_return ()
     | Inr None \<Rightarrow> ef_return ()
     | Inr (Some st) \<Rightarrow>
         let filled = int_or (bs_filled_qty st) (int_or (bs_filled_quantity st) 0);
             price = float_or (bs_average_price st) (float_or (bs_avg_fill_price st)
                       (float_or (Some (r_reference_price r)) (Fin 0)))
         in if filled \<le> 0 \<or> filled \<le> r_filled_qty r then ef_return ()
            else if price \<le> Fin 0 then ef_return ()
            else ef_seq (ef_try (handle_fill om (r_client_order_id r)
                   \<lparr>fm_qty = Some (filled - r_filled_qty r), fm_price = Some price,
                    fm_txn_type = Some (r_side r), fm_product = Some (r_product r),
                    fm_exchange = Some (r_exchange r), fm_symbol = Some (r_symbol r),
                    fm_fill_id = Some (bid @ '':immediate:'' @ int_str filled),
                    fm_text = (\<lambda>_. []), fm_rest = []\<rparr>)) (ef_return ())))"

section \<open>Submission\<close>

text \<open>The keyword arguments of \<open>submit_order\<close>.\<close>

record submit_args =
  sa_daily_risk_used :: pyfloat
  sa_max_daily_risk :: pyfloat
  sa_available_cash :: pyfloat
  sa_total_portfolio :: pyfloat
  sa_positions :: "bposition list"
  sa_open_orders :: "border option list"
  sa_max_positions :: int
  sa_sector :: "string option"
  sa_sector_value :: pyfloat
  sa_realised_pnl_today :: pyfloat
  sa_max_daily_loss :: pyfloat

definition intent_record :: "string \<Rightarrow> signal \<Rightarrow> int \<Rightarrow> order_record" where
  "intent_record now sg psize =
     (new_order_record now (sg_client_order_id sg) (sg_symbol sg) (sg_exchange sg)
        (txn_value (sg_txn sg)) psize (order_type_value (sg_order_type sg)) (product_value (sg_product sg)))
     \<lparr>r_strategy := sg_strategy sg,
      r_limit_price := (if ftruthy (sg_price sg) then sg_price sg else Fin 0),
      r_trigger_price := (if ftruthy (sg_stop_price sg) then sg_stop_price sg else Fin 0),
      r_intent_kind := sg_intent_kind sg\<rparr>"

definition log_rejected_order :: "order_record \<Rightarrow> string list \<Rightarrow> ('b world, unit) ef" where
  "log_rejected_order r reasons = st_save (r\<lparr>r_history := r_history r @
     [JObj [(''rejected'', JList (map JStr reasons)), (''at'', JStr (r_updated_at r))]]\<rparr>)"

text \<open>The repeated pair \<open>record.transition(RISK_REJECTED, reason)\<close>, \<open>_log_rejected_order\<close>.\<close>

definition reject :: "'b manager \<Rightarrow> order_record \<Rightarrow> string \<Rightarrow> string list \<Rightarrow> ('b world, unit) ef" where
  "reject om r reason reasons =
     ef_bind (move om RISK_REJECTED reason False r) (\<lambda>r'. log_rejected_order r' reasons)"

text \<open>The quantity of a sell that only closes what is held: the first position of the symbol.\<close>

definition closing_quantity :: "signal \<Rightarrow> int \<Rightarrow> bposition list \<Rightarrow> int" where
  "closing_quantity sg psize positions =
     (if sg_txn sg = SELL then
        (case List.find (\<lambda>p. py_upper (position_symbol p) = py_upper (sg_symbol sg)) positions of
           None \<Rightarrow> 0
         | Some p \<Rightarrow> if 0 < bp_quantity p then min psize (bp_quantity p) else 0)
      else 0)"

definition order_check_of ::
  "'b manager \<Rightarrow> signal \<Rightarrow> int \<Rightarrow> submit_args \<Rightarrow> pyfloat \<Rightarrow> pyfloat \<Rightarrow> order_check" where
  "order_check_of om sg psize a ref_price trade_risk =
     (let closing = closing_quantity sg psize (sa_positions a);
          trade_value = fint psize * ref_price;
          closing_value = fint closing * ref_price
      in \<lparr>oc_symbol = sg_symbol sg, oc_exchange = sg_exchange sg, oc_qty = psize, oc_price = ref_price,
          oc_trade_value = trade_value, oc_trade_risk = trade_risk, oc_strategy = sg_strategy sg,
          oc_positions = sa_positions a, oc_open_orders = sa_open_orders a,
          oc_daily_risk_used = sa_daily_risk_used a, oc_max_daily_risk = sa_max_daily_risk a,
          oc_available_cash = sa_available_cash a, oc_total_portfolio = sa_total_portfolio a,
          oc_max_positions = sa_max_positions a, oc_max_single_stock_pct = fl (1 / 10),
          oc_sector = sa_sector a, oc_sector_value = sa_sector_value a, oc_max_sector_pct = fl (3 / 10),
          oc_realised_pnl_today = sa_realised_pnl_today a, oc_max_daily_loss = sa_max_daily_loss a,
          oc_client_order_id = Some (sg_client_order_id sg), oc_max_qty = om_max_qty om,
          oc_max_price = om_max_price om, oc_max_notional = om_max_notional om,
          oc_net_trade_value = Some (fmax (Fin 0) (trade_value - closing_value)),
          oc_closing_removes_position = (0 < closing)\<rparr>)"

text \<open>The one place that calls \<open>place_order\<close>, with its ghost entry.\<close>

definition place :: "'b manager \<Rightarrow> place_request \<Rightarrow> ('b world, string) ef" where
  "place om req = ef_seq
     (ef_modify (\<lambda>w. w\<lparr>w_sent := w_sent w @ [Placed req (mem_get (pl_tag req) (w_store w))]\<rparr>))
     (on_env (br_place_order (om_broker om) req))"

definition place_request_of :: "signal \<Rightarrow> int \<Rightarrow> pyfloat option \<Rightarrow> place_request" where
  "place_request_of sg psize trigger =
     \<lparr>pl_symbol = sg_symbol sg, pl_exchange = sg_exchange sg, pl_txn = sg_txn sg, pl_qty = psize,
      pl_price = (if market_priced (sg_order_type sg) then Fin 0
                  else if ftruthy (sg_price sg) then sg_price sg else Fin 0),
      pl_order_type = sg_order_type sg, pl_product = sg_product sg,
      pl_tag = sg_client_order_id sg, pl_trigger = trigger\<rparr>"

text \<open>Step 5: the durable \<open>SUBMITTED\<close>, then the one broker call and its three outcomes.\<close>

definition persist_order :: "order_record \<Rightarrow> cost_breakdown \<Rightarrow> ('b world, order_record) ef" where
  "persist_order r costs =
     (let r' = r\<lparr>r_history := r_history r @
        [JObj [(''costs'', costs_json costs), (''at'', JStr (r_updated_at r))]]\<rparr>
      in ef_seq (st_save r') (ef_return r'))"

definition settle_submission ::
  "'b manager \<Rightarrow> order_record \<Rightarrow> string res \<Rightarrow> ('b world, string option) ef" where
  "settle_submission om r res = (case res of
     Inl e \<Rightarrow> ef_bind (move om UNKNOWN (exn_msg e) False r) (\<lambda>r2.
              ef_seq (st_save r2) (resolve_unknown om r2))
   | Inr oid \<Rightarrow>
       if oid = [] then ef_bind (move om UNKNOWN ''empty broker order id'' False r) (\<lambda>r2.
              ef_seq (st_save r2) (resolve_unknown om r2))
       else ef_bind (move om ACKNOWLEDGED ''broker accepted'' False (r\<lparr>r_broker_order_id := Some oid\<rparr>)) (\<lambda>r2.
            ef_seq (update_order_status r2)
            (ef_seq (apply_any_immediate_fill om r2) (ef_return (Some oid)))))"

definition send_order ::
  "'b manager \<Rightarrow> signal \<Rightarrow> int \<Rightarrow> order_record \<Rightarrow> cost_breakdown \<Rightarrow> pyfloat option \<Rightarrow> ('b world, string option) ef" where
  "send_order om sg psize r0 costs trigger =
     ef_bind (move om SUBMITTED ''sending to broker'' False r0) (\<lambda>r1.
     ef_bind (persist_order r1 costs) (\<lambda>r.
     ef_bind (ef_try (place om (place_request_of sg psize trigger))) (settle_submission om r)))"

text \<open>Step 4: the durable approval and the trigger price.\<close>

definition approve_order ::
  "'b manager \<Rightarrow> signal \<Rightarrow> int \<Rightarrow> order_record \<Rightarrow> cost_breakdown \<Rightarrow> ('b world, string option) ef" where
  "approve_order om sg psize r costs =
     ef_bind (move om RISK_APPROVED ''all gates passed'' False r) (\<lambda>r1.
     ef_seq (st_save r1)
     (if \<not> triggered (sg_order_type sg) then send_order om sg psize r1 costs None
      else if \<not> isfinite (sg_stop_price sg) \<or> sg_stop_price sg \<le> Fin 0 then
        ef_seq (reject om r1 ''needs a positive stop_price'' [''trigger_price: missing'']) (ef_return None)
      else if \<not> br_supports_trigger (om_broker om) then
        ef_seq (reject om r1 ''place_order does not accept trigger_price'' [''trigger_price'']) (ef_return None)
      else send_order om sg psize r1 costs (Some (sg_stop_price sg))))"

text \<open>Steps 2b and 3: the amounts and the gates.\<close>

definition gate_order ::
  "'b manager \<Rightarrow> signal \<Rightarrow> int \<Rightarrow> submit_args \<Rightarrow> order_record \<Rightarrow> pyfloat \<Rightarrow> ('b world, string option) ef" where
  "gate_order om sg psize a r ref_price =
     (let costs = calculate_costs psize ref_price (sg_txn sg) (sg_product sg) (sg_exchange sg) in
      case compute_trade_risk (om_require_stop om) psize ref_price (sg_stop_price sg) of
        Inl e \<Rightarrow> ef_seq (reject om r (exn_msg e) [''trade_risk: '' @ exn_msg e]) (ef_return None)
      | Inr trade_risk \<Rightarrow>
        ef_bind (ef_get (\<lambda>w. validate_order (om_require_support om) (\<lambda>k. om_kv_get om k (w_env w))
            (om_broker om) (w_env w) (order_check_of om sg psize a ref_price trade_risk))) (\<lambda>v.
        if \<not> passed v then
          ef_seq (reject om r (join ''; '' (failed_checks v)) (failed_checks v)) (ef_return None)
        else approve_order om sg psize r costs))"

text \<open>Step 2, and the whole of the submission once the id is reserved.\<close>

definition price_order ::
  "'b manager \<Rightarrow> signal \<Rightarrow> int \<Rightarrow> submit_args \<Rightarrow> order_record \<Rightarrow> ('b world, string option) ef" where
  "price_order om sg psize a r =
     ef_bind (ef_try (on_env (resolve_reference_price om sg))) (\<lambda>p. case p of
       Inl e \<Rightarrow> if is_safety_error e
         then ef_seq (reject om r (exn_msg e) [''reference_price: '' @ exn_msg e]) (ef_return None)
         else ef_raise e
     | Inr ref_price \<Rightarrow> gate_order om sg psize a (r\<lparr>r_reference_price := ref_price\<rparr>) ref_price)"

definition submit_reserved ::
  "'b manager \<Rightarrow> signal \<Rightarrow> int \<Rightarrow> submit_args \<Rightarrow> order_record \<Rightarrow> ('b world, string option) ef" where
  "submit_reserved om sg psize a r0 =
     ef_bind (blocking_record_for sg) (\<lambda>blocked. case blocked of
       Some b \<Rightarrow>
         let reason = ''blocked by unresolved order '' @ r_client_order_id b in
         ef_seq (reject om r0 reason [reason])
         (ef_raise (OrderBlockedError (''Order '' @ r_client_order_id b @ '' is in UNKNOWN'')))
     | None \<Rightarrow>
         ef_bind (move om RISK_CHECK_PENDING ''running gates'' False r0) (\<lambda>r1.
         ef_seq (st_save r1) (price_order om sg psize a r1)))"

definition submit_order ::
  "'b manager \<Rightarrow> signal \<Rightarrow> int \<Rightarrow> submit_args \<Rightarrow> ('b world, string option) ef" where
  "submit_order om sg psize a =
     ef_seq (env_read (require_eligible_for_live om))
     (let r0 = intent_record (om_now om) sg psize in
      ef_bind (st_reserve r0) (\<lambda>reserved.
      if reserved then submit_reserved om sg psize a r0
      else handle_existing_intent om (sg_client_order_id sg)))"

section \<open>Recovery\<close>

fun walk_chain :: "string \<Rightarrow> order_state list \<Rightarrow> order_record \<Rightarrow> order_record res" where
  "walk_chain now [] r = Inr r"
| "walk_chain now (st # sts) r =
     (if r_state r = st then walk_chain now sts r
      else if st \<in> set (legal_transitions (r_state r))
      then res_bind (transition now st ''found at broker during recovery'' False r) (walk_chain now sts)
      else walk_chain now sts r)"

definition walk_to_submitted :: "string \<Rightarrow> order_record \<Rightarrow> order_record res" where
  "walk_to_submitted now r = walk_chain now [RISK_CHECK_PENDING, RISK_APPROVED, SUBMITTED] r"

text \<open>The second half of the loop body: a record the broker may know. \<open>None\<close> is a record that
  is not appended to the result.\<close>

definition recover_sent :: "'b manager \<Rightarrow> order_record \<Rightarrow> ('b world, order_record option) ef" where
  "recover_sent om r =
     (if r_state r \<notin> set [SUBMITTED, ACKNOWLEDGED, PARTIALLY_FILLED, CANCEL_PENDING, UNKNOWN] then ef_return None
      else ef_bind (query_broker_for_tag om r) (\<lambda>found. case found of
        Unreadable \<Rightarrow>
          if r_state r \<noteq> UNKNOWN then
            ef_bind (move om UNKNOWN ''broker unreachable at recovery'' False r) (\<lambda>r'.
            ef_seq (st_save r') (ef_return (Some r')))
          else ef_return (Some r)
      | Absent \<Rightarrow>
          ef_bind (move om REJECTED ''absent from broker order book at recovery'' (r_state r = UNKNOWN) r) (\<lambda>r'.
          ef_seq (update_order_status r') (ef_return (Some r')))
      | Found ord \<Rightarrow>
          let filled = int_or (bo_filled_quantity ord) 0;
              new = map_broker_status (bo_status ord) filled (r_qty r);
              bid = str_or (bo_order_id ord) (str_or (r_broker_order_id r) []);
              r1 = r\<lparr>r_broker_order_id := (if bid = [] then None else Some bid),
                     r_filled_qty := min filled (r_qty r)\<rparr>
          in if new = UNKNOWN then
               ef_bind (if r_state r \<noteq> UNKNOWN then move om UNKNOWN ''uninterpretable broker status'' False r1
                        else ef_return r1) (\<lambda>r2.
               ef_seq (st_save r2) (ef_return (Some r2)))
             else if new = r_state r then ef_seq (st_save r1) (ef_return (Some r1))
             else ef_bind (move om new ''recovered from broker'' True r1) (\<lambda>r2.
               ef_seq (update_order_status r2) (ef_return (Some r2)))))"

definition recover_one :: "'b manager \<Rightarrow> order_record \<Rightarrow> ('b world, order_record option) ef" where
  "recover_one om r =
     (if r_state r \<in> set [INTENT_CREATED, RISK_CHECK_PENDING, RISK_APPROVED] then
        ef_bind (query_broker_for_tag om r) (\<lambda>found. case found of
          Found ord \<Rightarrow> ef_bind (ef_lift (walk_to_submitted (om_now om) r)) (recover_sent om)
        | _ \<Rightarrow> ef_bind (move om RISK_REJECTED ''abandoned intent recovered at startup'' False r) (\<lambda>r'.
              ef_seq (update_order_status r') (ef_return (Some r'))))
      else recover_sent om r)"

definition recover :: "'b manager \<Rightarrow> ('b world, order_record list) ef" where
  "recover om = ef_bind st_list_open (\<lambda>rs.
     ef_bind (ef_iter (recover_one om) rs) (\<lambda>xs. ef_return (List.map_filter id xs)))"

section \<open>Cancellation\<close>

definition send_cancel :: "'b manager \<Rightarrow> string \<Rightarrow> order_record option \<Rightarrow> ('b world, bool) ef" where
  "send_cancel om ref rec =
     (let bid = (case rec of None \<Rightarrow> ref | Some r \<Rightarrow> str_or (r_broker_order_id r) ref) in
      ef_bind (ef_try (on_env (br_cancel_order (om_broker om) bid))) (\<lambda>res. case (res, rec) of
        (Inl e, None) \<Rightarrow> ef_return False
      | (Inl e, Some r) \<Rightarrow> ef_bind (move om UNKNOWN (''cancel error: '' @ exn_msg e) False r) (\<lambda>r'.
          ef_seq (st_save r') (ef_return False))
      | (Inr ok, None) \<Rightarrow> ef_return ok
      | (Inr ok, Some r) \<Rightarrow>
          if ok then ef_bind (move om CANCELLED ''broker confirmed cancel'' False r) (\<lambda>r'.
            ef_seq (update_order_status r') (ef_return True))
          else ef_return False))"

definition cancel_order :: "'b manager \<Rightarrow> string \<Rightarrow> ('b world, bool) ef" where
  "cancel_order om ref = ef_bind (get_record ref) (\<lambda>x. case x of
     None \<Rightarrow> send_cancel om ref None
   | Some r \<Rightarrow>
       if is_blocked r then ef_raise (OrderBlockedError (''Cannot cancel '' @ r_client_order_id r))
       else if is_terminal r then ef_return False
       else if r_state r \<noteq> CANCEL_PENDING then
         ef_bind (move om CANCEL_PENDING ''cancel requested'' False r) (\<lambda>r'.
         ef_seq (update_order_status r') (send_cancel om ref (Some r')))
       else send_cancel om ref (Some r))"

section \<open>Monitoring\<close>

record monitor_result =
  mr_last :: "bstatus option"
  mr_state :: order_state
  mr_timed_out :: bool
  mr_poll_errors :: "string list"
  mr_is_terminal :: bool

definition end_states :: "order_state list" where
  "end_states = [FILLED, CANCELLED, REJECTED, EXPIRED]"

definition make_monitor_result ::
  "bstatus option \<Rightarrow> order_state \<Rightarrow> bool \<Rightarrow> string list \<Rightarrow> monitor_result" where
  "make_monitor_result la st timed_out errs = \<lparr>mr_last = la, mr_state = st, mr_timed_out = timed_out,
     mr_poll_errors = errs, mr_is_terminal = (st \<in> set end_states)\<rparr>"

text \<open>The local variables of the polling loop.\<close>

record monitor_vars =
  mv_record :: "order_record option"
  mv_last :: "bstatus option"
  mv_errors :: "string list"
  mv_state :: order_state

text \<open>What one answered poll does to the local record: the fill is copied, and the state
  follows if the transition is legal; a refused transition or a failing save is only logged.\<close>

definition observe :: "'b manager \<Rightarrow> order_state \<Rightarrow> int \<Rightarrow> order_record \<Rightarrow> ('b world, order_record) ef" where
  "observe om st filled r =
     (let r1 = r\<lparr>r_filled_qty := min filled (r_qty r)\<rparr> in
      if st \<noteq> r_state r1 \<and> \<not> is_terminal r1 then
        (case transition (om_now om) st ''observed by monitor'' (is_blocked r1) r1 of
           Inl e \<Rightarrow> ef_return r1
         | Inr r2 \<Rightarrow> ef_seq (ef_try (update_order_status r2)) (ef_return r2))
      else ef_return r1)"

text \<open>One round of the loop, up to the test of the deadline; the flag says that the order was
  seen in a terminal state.\<close>

definition monitor_poll ::
  "'b manager \<Rightarrow> string \<Rightarrow> monitor_vars \<Rightarrow> ('b world, bool \<times> monitor_vars) ef" where
  "monitor_poll om bid v =
     ef_bind (ef_try (on_env (br_get_order_status (om_broker om) bid))) (\<lambda>res. case res of
       Inl e \<Rightarrow> ef_return (False, v\<lparr>mv_errors := mv_errors v @ [exn_msg e]\<rparr>)
     | Inr None \<Rightarrow> ef_return (False, v)
     | Inr (Some fresh) \<Rightarrow>
         let filled = int_or (bs_filled_quantity fresh) (int_or (bs_filled_qty fresh) 0);
             qty = int_or (bs_quantity fresh) (int_or (bs_qty fresh)
                     (case mv_record v of None \<Rightarrow> 0 | Some r \<Rightarrow> r_qty r));
             st = map_broker_status (bs_status fresh) filled qty
         in ef_bind (case mv_record v of
              None \<Rightarrow> ef_return None
            | Some r \<Rightarrow> ef_bind (observe om st filled r) (\<lambda>r'. ef_return (Some r'))) (\<lambda>rec'.
            ef_return (st \<in> set end_states,
              v\<lparr>mv_record := rec', mv_last := Some fresh, mv_state := st\<rparr>)))"

definition monitor_expired :: "'b manager \<Rightarrow> monitor_vars \<Rightarrow> ('b world, monitor_result) ef" where
  "monitor_expired om v = (case mv_last v of
     Some la \<Rightarrow> ef_return (make_monitor_result (Some la) (mv_state v) True (mv_errors v))
   | None \<Rightarrow> ef_seq (case mv_record v of
         None \<Rightarrow> ef_return ()
       | Some r \<Rightarrow> if \<not> is_terminal r \<and> \<not> is_blocked r then
             ef_bind (move om UNKNOWN ''no successful status poll'' False r) st_save
           else ef_return ())
       (ef_return (make_monitor_result None UNKNOWN True (mv_errors v))))"

text \<open>The loop; \<open>n\<close> is the number of further polls the deadline leaves time for.\<close>

primrec monitor_loop :: "nat \<Rightarrow> 'b manager \<Rightarrow> string \<Rightarrow> monitor_vars \<Rightarrow> ('b world, monitor_result) ef" where
  "monitor_loop 0 om bid v = ef_bind (monitor_poll om bid v) (\<lambda>(ended, v').
     if ended then ef_return (make_monitor_result (mv_last v') (mv_state v') False (mv_errors v'))
     else monitor_expired om v')"
| "monitor_loop (Suc n) om bid v = ef_bind (monitor_poll om bid v) (\<lambda>(ended, v').
     if ended then ef_return (make_monitor_result (mv_last v') (mv_state v') False (mv_errors v'))
     else monitor_loop n om bid v')"

definition monitor_order :: "nat \<Rightarrow> 'b manager \<Rightarrow> string \<Rightarrow> ('b world, monitor_result) ef" where
  "monitor_order n om ref = ef_bind (get_record ref) (\<lambda>x.
     monitor_loop n om (case x of None \<Rightarrow> ref | Some r \<Rightarrow> str_or (r_broker_order_id r) ref)
       \<lparr>mv_record = x, mv_last = None, mv_errors = [],
        mv_state = (case x of None \<Rightarrow> UNKNOWN | Some r \<Rightarrow> r_state r)\<rparr>)"

section \<open>Emergency flatten\<close>

record flatten_report =
  fp_cancelled :: "string list"
  fp_flattened :: "(string \<times> string) list"
  fp_skipped :: "string list"
  fp_errors :: "string list"

datatype flatten_item = Flattened string string | Skipped string | Error string

definition flatten_id :: "'b manager \<Rightarrow> string \<Rightarrow> string \<Rightarrow> string \<Rightarrow> prdct \<Rightarrow> int \<Rightarrow> string" where
  "flatten_id om session exchange symbol pr qty =
     deterministic_client_order_id (om_sha256 om)
       [session, exchange, symbol, product_value pr, int_str qty] ''FLAT''"

definition flatten_record ::
  "'b manager \<Rightarrow> string \<Rightarrow> string \<Rightarrow> string \<Rightarrow> prdct \<Rightarrow> int \<Rightarrow> order_record" where
  "flatten_record om session exchange symbol pr qty =
     (new_order_record (om_now om) (flatten_id om session exchange symbol pr qty) symbol exchange
        (txn_value (if 0 < qty then SELL else BUY)) \<bar>qty\<bar> (order_type_value MARKET) (product_value pr))
     \<lparr>r_strategy := ''EMERGENCY_FLATTEN'', r_intent_kind := ''flatten''\<rparr>"

definition flatten_request :: "order_record \<Rightarrow> prdct \<Rightarrow> int \<Rightarrow> place_request" where
  "flatten_request r pr qty =
     \<lparr>pl_symbol = r_symbol r, pl_exchange = r_exchange r, pl_txn = (if 0 < qty then SELL else BUY),
      pl_qty = \<bar>qty\<bar>, pl_price = Fin 0, pl_order_type = MARKET, pl_product = pr,
      pl_tag = r_client_order_id r, pl_trigger = None\<rparr>"

text \<open>A reserved flatten intent: its states, the one broker call and its outcomes.\<close>

definition flatten_send ::
  "'b manager \<Rightarrow> string \<Rightarrow> prdct \<Rightarrow> int \<Rightarrow> order_record \<Rightarrow> ('b world, flatten_item) ef" where
  "flatten_send om symbol pr qty r =
     ef_seq (st_save r)
     (ef_bind (ef_try (place om (flatten_request r pr qty))) (\<lambda>res. case res of
        Inl e \<Rightarrow>
          ef_bind (move om UNKNOWN (exn_msg e) False r) (\<lambda>r1.
          ef_seq (st_save r1)
          (ef_bind (query_broker_for_tag om r1) (\<lambda>found.
           if found = Absent then
             ef_bind (move om REJECTED (exn_msg e) True r1) (\<lambda>r2.
             ef_seq (st_save r2)
             (ef_return (Error (''flatten '' @ symbol @ '': rejected''))))
           else ef_return (Error (''flatten '' @ symbol @ '': UNKNOWN'')))))
      | Inr oid \<Rightarrow>
          ef_bind (move om ACKNOWLEDGED ''flatten accepted'' False
              (r\<lparr>r_broker_order_id := Some oid\<rparr>)) (\<lambda>r1.
          ef_seq (st_save r1) (ef_return (Flattened symbol oid)))))"

definition flatten_reserved ::
  "'b manager \<Rightarrow> string \<Rightarrow> prdct \<Rightarrow> int \<Rightarrow> order_record \<Rightarrow> ('b world, flatten_item) ef" where
  "flatten_reserved om symbol pr qty r0 =
     ef_bind (move om RISK_CHECK_PENDING ''flatten'' False r0) (\<lambda>r1.
     ef_bind (move om RISK_APPROVED ''flatten override'' False r1) (\<lambda>r2.
     ef_bind (move om SUBMITTED ''flatten'' False r2) (flatten_send om symbol pr qty)))"

definition flatten_position :: "'b manager \<Rightarrow> string \<Rightarrow> bposition \<Rightarrow> ('b world, flatten_item) ef" where
  "flatten_position om session pos =
     (let qty = bp_quantity pos;
          symbol = str_or (bp_tradingsymbol pos) (case_option [] id (bp_symbol pos));
          exchange = case_option ''NSE'' id (bp_exchange pos);
          pr = (case product_of (case_option ''MIS'' id (bp_product pos)) of Inl _ \<Rightarrow> MIS | Inr p \<Rightarrow> p);
          r0 = flatten_record om session exchange symbol pr qty
      in ef_bind (st_reserve r0) (\<lambda>reserved.
         if reserved then flatten_reserved om symbol pr qty r0 else ef_return (Skipped symbol)))"

definition pending_statuses :: "string list" where
  "pending_statuses = [''OPEN'', ''TRIGGER PENDING'', ''AMO REQ RECEIVED'']"

text \<open>The cancellations of \<open>asyncio.gather\<close>, in their order; each outcome is kept.\<close>

definition cancel_all :: "'b manager \<Rightarrow> border list \<Rightarrow> ('b world, (string \<times> bool res) list) ef" where
  "cancel_all om os = ef_iter (\<lambda>ord.
     let oid = case_option ''None'' id (bo_order_id ord) in
     ef_bind (ef_try (cancel_order om oid)) (\<lambda>res. ef_return (oid, res))) os"

definition flatten_pending :: "'b manager \<Rightarrow> ('b world, (string \<times> bool res) list) ef" where
  "flatten_pending om =
     ef_bind (ef_try (on_env (br_get_orders (om_broker om)))) (\<lambda>res. case res of
       Inl e \<Rightarrow> ef_return [(''get_orders'', Inl e)]
     | Inr None \<Rightarrow> ef_raise (TypeError ''NoneType object is not iterable'')
     | Inr (Some os) \<Rightarrow>
         if None \<in> set os then ef_raise (PyExn ''AttributeError'' ''get'')
         else cancel_all om (filter (\<lambda>ord. str_or (bo_status ord) [] \<in> set pending_statuses)
                (List.map_filter id os)))"

definition flatten_positions :: "'b manager \<Rightarrow> string \<Rightarrow> ('b world, flatten_item list) ef" where
  "flatten_positions om session =
     ef_bind (ef_try (on_env (br_get_positions (om_broker om)))) (\<lambda>res. case res of
       Inl e \<Rightarrow> ef_return [Error (''get_positions: '' @ exn_msg e)]
     | Inr ps \<Rightarrow> ef_iter (flatten_position om session) (filter (\<lambda>p. bp_quantity p \<noteq> 0) ps))"

definition flatten_report_of :: "(string \<times> bool res) list \<Rightarrow> flatten_item list \<Rightarrow> flatten_report" where
  "flatten_report_of cs fs = \<lparr>
     fp_cancelled = map fst (filter (\<lambda>(oid, r). r = Inr True) cs),
     fp_flattened = List.map_filter (\<lambda>f. case f of Flattened s oid \<Rightarrow> Some (s, oid) | _ \<Rightarrow> None) fs,
     fp_skipped = List.map_filter (\<lambda>f. case f of Skipped s \<Rightarrow> Some s | _ \<Rightarrow> None) fs,
     fp_errors = map fst (filter (\<lambda>(oid, r). r \<noteq> Inr True) cs) @
       List.map_filter (\<lambda>f. case f of Error m \<Rightarrow> Some m | _ \<Rightarrow> None) fs\<rparr>"

definition halt_first :: "'b manager \<Rightarrow> bool \<Rightarrow> ('b, unit) ef" where
  "halt_first om override b =
     (if is_kill_switch_active (\<lambda>k. om_kv_get om k b) then
        (if override then (Inr (), b)
         else (Inl (KillSwitchActiveError ''Kill switch is active; emergency flatten blocked.''), b))
      else engage_kill_switch (om_kv_get om) (om_kv_set om) b)"

definition emergency_flatten_all ::
  "'b manager \<Rightarrow> bool \<Rightarrow> string \<Rightarrow> ('b world, flatten_report) ef" where
  "emergency_flatten_all om override session =
     ef_seq (on_env (halt_first om override))
     (ef_bind (flatten_pending om) (\<lambda>cs.
      ef_bind (flatten_positions om session) (\<lambda>fs.
      ef_return (flatten_report_of cs fs))))"

end
