(* ===== verification/Order_Safety.thy ===== *)
theory Order_Safety
  imports Order_Manager
begin

text \<open>
  Safety of the order manager over every sequence of its operations: which effects send an order,
  and what the durable store holds when one is sent; the stored records stay well-formed.
\<close>

section \<open>Effects that send nothing\<close>

definition placed_tags :: "'b world \<Rightarrow> string list" where
  "placed_tags w = map (\<lambda>s. case s of Placed req _ \<Rightarrow> pl_tag req) (w_sent w)"

definition known :: "'b world \<Rightarrow> string set" where
  "known w = dom (mem_lookup (w_store w))"

text \<open>\<open>calm m\<close>: \<open>m\<close> sends no order and forgets no id.\<close>

definition calm :: "('b world, 'a) ef \<Rightarrow> bool" where
  "calm m \<longleftrightarrow> (\<forall>w. w_sent (snd (m w)) = w_sent w \<and> known w \<subseteq> known (snd (m w)))"

named_theorems calm_rule

lemma calmD: "calm m \<Longrightarrow> m w = (x, w') \<Longrightarrow> w_sent w' = w_sent w \<and> known w \<subseteq> known w'"
  by (metis calm_def snd_conv)

lemma calm_return [calm_rule]: "calm (ef_return x)"
  by (simp add: calm_def ef_return_def)

lemma calm_raise [calm_rule]: "calm (ef_raise e)"
  by (simp add: calm_def ef_raise_def)

lemma calm_lift [calm_rule]: "calm (ef_lift r)"
  by (simp add: calm_def ef_lift_def)

lemma calm_get [calm_rule]: "calm (ef_get f)"
  by (simp add: calm_def ef_get_def)

lemma calm_bind [calm_rule]: "calm m \<Longrightarrow> (\<And>x. calm (f x)) \<Longrightarrow> calm (ef_bind m f)"
  unfolding calm_def ef_bind_def by (simp add: split: prod.split sum.split) (metis dual_order.trans snd_conv)

lemma calm_seq [calm_rule]: "calm m \<Longrightarrow> calm n \<Longrightarrow> calm (ef_seq m n)"
  unfolding ef_seq_def by (rule calm_bind)

lemma calm_try [calm_rule]: "calm m \<Longrightarrow> calm (ef_try m)"
  by (simp add: calm_def ef_try_def split: prod.split) (metis snd_conv)

lemma calm_iter [calm_rule]: "(\<And>x. calm (f x)) \<Longrightarrow> calm (ef_iter f xs)"
  by (induction xs) (auto intro!: calm_rule)

lemma calm_on_env [calm_rule]: "calm (on_env m)"
  by (simp add: calm_def on_env_def known_def split: prod.split)

lemma calm_env_read [calm_rule]: "calm (env_read f)"
  by (simp add: calm_def env_read_def)

lemma calm_if [calm_rule]: "(b \<Longrightarrow> calm m) \<Longrightarrow> (\<not> b \<Longrightarrow> calm n) \<Longrightarrow> calm (if b then m else n)"
  by simp

lemma calm_let [calm_rule]: "calm (f x) \<Longrightarrow> calm (Let x f)"
  by simp

lemma calm_sum [calm_rule]:
  "(\<And>e. calm (f e)) \<Longrightarrow> (\<And>x. calm (g x)) \<Longrightarrow> calm (case r of Inl e \<Rightarrow> f e | Inr x \<Rightarrow> g x)"
  by (cases r) auto

lemma calm_option [calm_rule]:
  "calm m \<Longrightarrow> (\<And>x. calm (g x)) \<Longrightarrow> calm (case x of None \<Rightarrow> m | Some y \<Rightarrow> g y)"
  by (cases x) auto

lemma calm_query [calm_rule]:
  "calm m \<Longrightarrow> calm n \<Longrightarrow> (\<And>x. calm (g x)) \<Longrightarrow> calm (case q of Unreadable \<Rightarrow> m | Absent \<Rightarrow> n | Found y \<Rightarrow> g y)"
  by (cases q) auto

lemma calm_prod [calm_rule]: "(\<And>x y. calm (f x y)) \<Longrightarrow> calm (case p of (x, y) \<Rightarrow> f x y)"
  by (cases p) auto

lemma store_call_cases:
  obtains (works) "store_call f w = (fst (f (w_store w)), w\<lparr>w_outcomes := tl (w_outcomes w), w_store := snd (f (w_store w))\<rparr>)"
  | (fails) "store_call f w = (Inl (PersistenceError ''store unavailable''), w\<lparr>w_outcomes := tl (w_outcomes w)\<rparr>)"
  | (lost) "store_call f w = (Inl (PersistenceError ''store unavailable''),
      w\<lparr>w_outcomes := tl (w_outcomes w), w_store := snd (f (w_store w))\<rparr>)"
proof (cases "w_outcomes w")
  case Nil
  then show ?thesis by (intro works) (simp add: store_call_def)
next
  case (Cons c os)
  show ?thesis
  proof (cases c)
    case Works
    with Cons show ?thesis by (intro works) (simp add: store_call_def)
  next
    case Fails
    with Cons show ?thesis by (intro fails) (simp add: store_call_def)
  next
    case Lost
    with Cons show ?thesis by (intro lost) (simp add: store_call_def)
  qed
qed

lemma calm_store_call:
  assumes "\<And>s. dom (mem_lookup s) \<subseteq> dom (mem_lookup (snd (f s)))"
  shows "calm (store_call f)"
  unfolding calm_def
proof
  fix w :: "'b world"
  show "w_sent (snd (store_call f w)) = w_sent w \<and> known w \<subseteq> known (snd (store_call f w))"
    by (cases rule: store_call_cases [of f w]) (use assms in \<open>auto simp: known_def\<close>)
qed

lemma calm_reserve [calm_rule]: "calm (st_reserve r)"
  unfolding st_reserve_def by (rule calm_store_call) (rule mem_st.reserve_dom)

lemma calm_save [calm_rule]: "calm (st_save r)"
  unfolding st_save_def by (rule calm_store_call) (rule mem_st.save_dom)

lemma calm_st_get [calm_rule]: "calm (st_get cid)"
  unfolding st_get_def by (rule calm_store_call) simp

lemma calm_list_open [calm_rule]: "calm st_list_open"
  unfolding st_list_open_def by (rule calm_store_call) simp

lemma calm_record_trade [calm_rule]: "calm (st_record_trade cid fill)"
  unfolding st_record_trade_def
  by (rule calm_store_call) (simp add: mem_record_trade_def mem_lookup_def mem_get_def Let_def)

lemma calm_position [calm_rule]: "calm (st_position a b c d e)"
  unfolding st_position_def
  by (rule calm_store_call) (simp add: mem_apply_position_delta_def mem_lookup_def mem_get_def Let_def)

lemma calm_move [calm_rule]: "calm (move om st reason rc r)"
  unfolding move_def by (rule calm_lift)

lemma calm_query_broker [calm_rule]: "calm (query_broker_for_tag om r)"
  unfolding query_broker_for_tag_def by (intro calm_rule)

lemma calm_update_status [calm_rule]: "calm (update_order_status r)"
  unfolding update_order_status_def by (intro calm_rule)

lemma calm_resolve_unknown [calm_rule]: "calm (resolve_unknown om r)"
  unfolding resolve_unknown_def by (intro calm_rule)

lemma calm_handle_existing [calm_rule]: "calm (handle_existing_intent om cid)"
  unfolding handle_existing_intent_def by (intro calm_rule)

lemma calm_blocking [calm_rule]: "calm (blocking_record_for sg)"
  unfolding blocking_record_for_def by (intro calm_rule)

lemma calm_get_record [calm_rule]: "calm (get_record ref)"
  unfolding get_record_def by (intro calm_rule)

lemma calm_update_position [calm_rule]: "calm (update_position r fm)"
  unfolding update_position_def by (intro calm_rule)

lemma calm_book_fill [calm_rule]: "calm (book_fill om r fm fid costs)"
  unfolding book_fill_def by (intro calm_rule)

lemma calm_handle_fill [calm_rule]: "calm (handle_fill om ref fm)"
  unfolding handle_fill_def by (intro calm_rule)

lemma calm_immediate_fill [calm_rule]: "calm (apply_any_immediate_fill om r)"
  unfolding apply_any_immediate_fill_def by (intro calm_rule)

lemma calm_reject [calm_rule]: "calm (reject om r reason reasons)"
  unfolding reject_def log_rejected_order_def by (intro calm_rule)

lemma calm_persist [calm_rule]: "calm (persist_order r costs)"
  unfolding persist_order_def by (intro calm_rule)

lemma calm_settle [calm_rule]: "calm (settle_submission om r res)"
  unfolding settle_submission_def by (intro calm_rule)

lemma calm_recover_sent [calm_rule]: "calm (recover_sent om r)"
  unfolding recover_sent_def by (intro calm_rule)

lemma calm_recover_one [calm_rule]: "calm (recover_one om r)"
  unfolding recover_one_def by (intro calm_rule)

lemma calm_recover [calm_rule]: "calm (recover om)"
  unfolding recover_def by (intro calm_rule)

lemma calm_send_cancel [calm_rule]: "calm (send_cancel om ref rec)"
  unfolding send_cancel_def by (intro calm_rule)

lemma calm_cancel [calm_rule]: "calm (cancel_order om ref)"
  unfolding cancel_order_def by (intro calm_rule)

lemma calm_monitor_poll [calm_rule]: "calm (monitor_poll om bid v)"
  unfolding monitor_poll_def observe_def by (intro calm_rule)

lemma calm_monitor_expired [calm_rule]: "calm (monitor_expired om v)"
  unfolding monitor_expired_def by (intro calm_rule)

lemma calm_monitor_loop [calm_rule]: "calm (monitor_loop n om bid v)"
  by (induction n arbitrary: v) (auto intro!: calm_rule)

lemma calm_monitor [calm_rule]: "calm (monitor_order n om ref)"
  unfolding monitor_order_def by (intro calm_rule)

lemma calm_cancel_all [calm_rule]: "calm (cancel_all om os)"
  unfolding cancel_all_def by (intro calm_rule)

lemma calm_flatten_pending [calm_rule]: "calm (flatten_pending om)"
  unfolding flatten_pending_def by (intro calm_rule)


section \<open>Effects that send\<close>

text \<open>An order that reached the broker was, at that moment, in the store under its own tag, in
  \<open>SUBMITTED\<close>, with the instrument, side, quantity, order type and product that were sent.\<close>

fun sent_ok :: "sent \<Rightarrow> bool" where
  "sent_ok (Placed req rec) \<longleftrightarrow> (case rec of None \<Rightarrow> False | Some r \<Rightarrow>
     r_state r = SUBMITTED \<and> r_client_order_id r = pl_tag req \<and> r_symbol r = pl_symbol req \<and>
     r_exchange r = pl_exchange req \<and> r_side r = txn_value (pl_txn req) \<and> r_qty r = pl_qty req \<and>
     r_order_type r = order_type_value (pl_order_type req) \<and> r_product r = product_value (pl_product req))"

definition sends_ok :: "'b world \<Rightarrow> bool" where
  "sends_ok w \<longleftrightarrow> distinct (placed_tags w) \<and> set (placed_tags w) \<subseteq> known w \<and> list_all sent_ok (w_sent w)"

definition owns :: "string \<Rightarrow> 'b world \<Rightarrow> bool" where
  "owns cid w \<longleftrightarrow> sends_ok w \<and> cid \<in> known w \<and> cid \<notin> set (placed_tags w)"

lemma owns_sends_ok: "owns cid w \<Longrightarrow> sends_ok w"
  by (simp add: owns_def)

lemma calm_sends_ok: "calm m \<Longrightarrow> triple sends_ok m (\<lambda>_. sends_ok) (\<lambda>_. sends_ok)"
  by (rule tripleI) (use calmD in \<open>fastforce simp: sends_ok_def placed_tags_def\<close>)+

lemma calm_owns: "calm m \<Longrightarrow> triple (owns cid) m (\<lambda>_. owns cid) (\<lambda>_. sends_ok)"
  by (rule tripleI) (use calmD in \<open>fastforce simp: owns_def sends_ok_def placed_tags_def\<close>)+

lemma owns_calm_end: "calm m \<Longrightarrow> triple (owns cid) m (\<lambda>_. sends_ok) (\<lambda>_. sends_ok)"
  by (rule triple_pre [OF calm_sends_ok]) (auto dest: owns_sends_ok)

lemma owns_bind:
  assumes "calm m" and "\<And>x. triple (owns cid) (f x) (\<lambda>_. sends_ok) (\<lambda>_. sends_ok)"
  shows "triple (owns cid) (ef_bind m f) (\<lambda>_. sends_ok) (\<lambda>_. sends_ok)"
  by (rule triple_bind [OF calm_owns [OF assms(1)] assms(2)])

lemma owns_seq:
  assumes "calm m" and "triple (owns cid) n (\<lambda>_. sends_ok) (\<lambda>_. sends_ok)"
  shows "triple (owns cid) (ef_seq m n) (\<lambda>_. sends_ok) (\<lambda>_. sends_ok)"
  unfolding ef_seq_def by (rule owns_bind [OF assms(1)]) (rule assms(2))

lemma triple_reserve:
  "triple sends_ok (st_reserve r) (\<lambda>b w. if b then owns (r_client_order_id r) w else sends_ok w) (\<lambda>_. sends_ok)"
proof (rule tripleI)
  fix w b and w' :: "'b world"
  assume w: "sends_ok w" and r: "st_reserve r w = (Inr b, w')"
  have c: "sends_ok w'" using tripleD_ok [OF calm_sends_ok [OF calm_reserve] w r] .
  show "if b then owns (r_client_order_id r) w' else sends_ok w'"
  proof (cases b)
    case True
    have f: "fst (mem_reserve r (w_store w)) = Inr True \<and> w_store w' = snd (mem_reserve r (w_store w)) \<and> w_sent w' = w_sent w"
      using r True by (cases rule: store_call_cases [of "mem_reserve r" w]) (auto simp: st_reserve_def)
    then have "r_client_order_id r \<notin> known w" "r_client_order_id r \<in> known w'"
      by (auto simp: mem_reserve_def known_def mem_lookup_def mem_get_def update_conv' split: if_splits)
    then show ?thesis using c w f True by (auto simp: owns_def sends_ok_def placed_tags_def)
  qed (use c in simp)
next
  fix w e and w' :: "'b world"
  assume "sends_ok w" "st_reserve r w = (Inl e, w')"
  then show "sends_ok w'" by (rule tripleD_exn [OF calm_sends_ok [OF calm_reserve]])
qed

text \<open>After a save that returned, the store holds the record saved.\<close>

lemma triple_save_owns:
  "triple (owns cid) (st_save r) (\<lambda>_ w. owns cid w \<and> mem_get (r_client_order_id r) (w_store w) = Some r) (\<lambda>_. sends_ok)"
proof (rule tripleI)
  fix w u and w' :: "'b world"
  assume w: "owns cid w" and r: "st_save r w = (Inr u, w')"
  have c: "owns cid w'" using tripleD_ok [OF calm_owns [OF calm_save] w r] .
  have "fst (mem_save r (w_store w)) = Inr u \<and> w_store w' = snd (mem_save r (w_store w))"
    using r by (cases rule: store_call_cases [of "mem_save r" w]) (auto simp: st_save_def)
  then have "mem_get (r_client_order_id r) (w_store w') = Some r"
    by (auto simp: mem_save_def mem_get_def update_conv' split: if_splits)
  with c show "owns cid w' \<and> mem_get (r_client_order_id r) (w_store w') = Some r" by simp
next
  fix w e and w' :: "'b world"
  assume w: "owns cid w" and r: "st_save r w = (Inl e, w')"
  show "sends_ok w'" using tripleD_exn [OF calm_owns [OF calm_save] w r] .
qed

lemma triple_place:
  assumes "sent_ok (Placed req (Some r))" and "pl_tag req = cid"
  shows "triple (\<lambda>w. owns cid w \<and> mem_get cid (w_store w) = Some r) (place om req) (\<lambda>_. sends_ok) (\<lambda>_. sends_ok)"
proof -
  have s: "sends_ok (snd (place om req w))" if "owns cid w" "mem_get cid (w_store w) = Some r" for w
    using that assms
    by (auto simp: place_def ef_seq_def ef_bind_def ef_modify_def on_env_def owns_def sends_ok_def
        placed_tags_def known_def split: prod.splits)
  show ?thesis by (rule tripleI) (metis s snd_conv)+
qed


definition records :: "signal \<Rightarrow> int \<Rightarrow> order_record \<Rightarrow> bool" where
  "records sg n r \<longleftrightarrow> r_client_order_id r = sg_client_order_id sg \<and> r_symbol r = sg_symbol sg \<and>
     r_exchange r = sg_exchange sg \<and> r_side r = txn_value (sg_txn sg) \<and> r_qty r = n \<and>
     r_order_type r = order_type_value (sg_order_type sg) \<and> r_product r = product_value (sg_product sg)"

lemma records_intent [simp]: "records sg n (intent_record now sg n)"
  by (simp add: records_def intent_record_def new_order_record_def)

lemma set_state_more [simp]:
  "r_order_type (set_state now new reason rc r) = r_order_type r"
  "r_updated_at (set_state now new reason rc r) = now"
  "r_strategy (set_state now new reason rc r) = r_strategy r"
  "r_reference_price (set_state now new reason rc r) = r_reference_price r"
  by (simp_all add: set_state_def)

lemma records_set_state [simp]: "records sg n (set_state now st reason rc r) = records sg n r"
  by (simp add: records_def)

lemma triple_move_bind:
  assumes "\<And>r'. transition (om_now om) st reason rc r = Inr r' \<Longrightarrow> triple P (f r') Q E"
    and "\<And>w e. P w \<Longrightarrow> E e w"
  shows "triple P (ef_bind (move om st reason rc r) f) Q E"
  using assms
  by (cases "transition (om_now om) st reason rc r")
     (auto simp: triple_def ef_bind_def move_def ef_lift_def)

lemma triple_send_order:
  assumes "records sg n r0"
  shows "triple (owns (sg_client_order_id sg)) (send_order om sg n r0 costs trigger)
           (\<lambda>_. sends_ok) (\<lambda>_. sends_ok)"
proof -
  let ?cid = "sg_client_order_id sg"
  show ?thesis
    unfolding send_order_def
  proof (rule triple_move_bind)
    fix r1
    assume "transition (om_now om) SUBMITTED ''sending to broker'' False r0 = Inr r1"
    then have r1: "r1 = set_state (om_now om) SUBMITTED ''sending to broker'' False r0"
      by (simp add: transition_Inr)
    define r where "r = r1\<lparr>r_history := r_history r1 @
      [JObj [(''costs'', costs_json costs), (''at'', JStr (r_updated_at r1))]]\<rparr>"
    have ok: "sent_ok (Placed (place_request_of sg n trigger) (Some r))" and c: "r_client_order_id r = ?cid"
      using assms by (simp_all add: records_def r_def r1 place_request_of_def)
    have p: "triple (owns ?cid) (persist_order r1 costs)
        (\<lambda>r' w. r' = r \<and> owns ?cid w \<and> mem_get ?cid (w_store w) = Some r) (\<lambda>_. sends_ok)"
      unfolding persist_order_def Let_def r_def [symmetric]
      by (rule triple_seq [OF triple_save_owns [of ?cid r]])
         (auto simp: triple_def ef_return_def c)
    show "triple (owns ?cid) (ef_bind (persist_order r1 costs) (\<lambda>r.
        ef_bind (ef_try (place om (place_request_of sg n trigger))) (settle_submission om r)))
       (\<lambda>_. sends_ok) (\<lambda>_. sends_ok)"
    proof (rule triple_bind [OF p], rule triple_bind [OF triple_try])
      fix x
      show "triple (\<lambda>w. x = r \<and> owns ?cid w \<and> mem_get ?cid (w_store w) = Some r)
          (place om (place_request_of sg n trigger)) (\<lambda>_. sends_ok) (\<lambda>_. sends_ok)"
        by (rule triple_pre [OF triple_place [OF ok]]) (auto simp: place_request_of_def)
    qed (intro calm_sends_ok calm_rule)
  qed (auto dest: owns_sends_ok)
qed

lemma triple_approve_order:
  assumes "records sg n r"
  shows "triple (owns (sg_client_order_id sg)) (approve_order om sg n r costs) (\<lambda>_. sends_ok) (\<lambda>_. sends_ok)"
proof -
  have s: "triple (owns (sg_client_order_id sg)) (send_order om sg n r' costs trigger)
      (\<lambda>_. sends_ok) (\<lambda>_. sends_ok)"
    if "transition (om_now om) RISK_APPROVED ''all gates passed'' False r = Inr r'" for r' trigger
    using that assms by (intro triple_send_order) (auto simp: transition_Inr)
  show ?thesis
    unfolding approve_order_def
    by (intro triple_if triple_move_bind owns_seq s)
       (auto intro: calm_rule owns_calm_end dest: owns_sends_ok)
qed

lemma triple_gate_order:
  assumes "records sg n r"
  shows "triple (owns (sg_client_order_id sg)) (gate_order om sg n a r px) (\<lambda>_. sends_ok) (\<lambda>_. sends_ok)"
proof (cases "compute_trade_risk (om_require_stop om) n px (sg_stop_price sg)")
  case (Inl e)
  show ?thesis unfolding gate_order_def Let_def Inl sum.case by (intro owns_calm_end calm_rule)
next
  case (Inr risk)
  show ?thesis
    unfolding gate_order_def Let_def Inr sum.case
    by (rule owns_bind [OF calm_get], rule triple_if, intro owns_calm_end calm_rule)
       (rule triple_approve_order [OF assms])
qed

lemma triple_price_order:
  assumes "records sg n r"
  shows "triple (owns (sg_client_order_id sg)) (price_order om sg n a r) (\<lambda>_. sends_ok) (\<lambda>_. sends_ok)"
  unfolding price_order_def
proof (rule owns_bind [OF calm_try [OF calm_on_env]], split sum.split, intro conjI allI impI)
  fix px
  show "triple (owns (sg_client_order_id sg)) (gate_order om sg n a (r\<lparr>r_reference_price := px\<rparr>) px)
      (\<lambda>_. sends_ok) (\<lambda>_. sends_ok)"
    using assms by (intro triple_gate_order) (simp add: records_def)
qed (intro owns_calm_end calm_rule)

lemma triple_submit_reserved:
  assumes "records sg n r0"
  shows "triple (owns (sg_client_order_id sg)) (submit_reserved om sg n a r0) (\<lambda>_. sends_ok) (\<lambda>_. sends_ok)"
  unfolding submit_reserved_def Let_def
proof (rule owns_bind [OF calm_blocking], split option.split, intro conjI allI impI)
  show "triple (owns (sg_client_order_id sg)) (ef_bind (move om RISK_CHECK_PENDING ''running gates'' False r0) (\<lambda>r1.
         ef_seq (st_save r1) (price_order om sg n a r1))) (\<lambda>_. sends_ok) (\<lambda>_. sends_ok)"
    using assms by (intro triple_move_bind owns_seq calm_rule triple_price_order)
      (auto simp: transition_Inr dest: owns_sends_ok)
qed (intro owns_calm_end calm_rule)

lemma triple_submit_order: "triple sends_ok (submit_order om sg n a) (\<lambda>_. sends_ok) (\<lambda>_. sends_ok)"
  unfolding submit_order_def Let_def
proof (rule triple_seq [OF calm_sends_ok [OF calm_env_read]], rule triple_bind [OF triple_reserve])
  fix reserved
  have "r_client_order_id (intent_record (om_now om) sg n) = sg_client_order_id sg"
    by (simp add: intent_record_def new_order_record_def)
  then show "triple (\<lambda>w. if reserved then owns (r_client_order_id (intent_record (om_now om) sg n)) w else sends_ok w)
     (if reserved then submit_reserved om sg n a (intent_record (om_now om) sg n)
      else handle_existing_intent om (sg_client_order_id sg))
     (\<lambda>_. sends_ok) (\<lambda>_. sends_ok)"
    using triple_submit_reserved [OF records_intent, of sg om n a "om_now om"] calm_sends_ok [OF calm_handle_existing]
    by (cases reserved) simp_all
qed

lemma triple_flatten_send:
  assumes "sent_ok (Placed (flatten_request r pr q) (Some r))"
  shows "triple (owns (r_client_order_id r)) (flatten_send om sm pr q r) (\<lambda>_. sends_ok) (\<lambda>_. sends_ok)"
proof -
  have t: "pl_tag (flatten_request r pr q) = r_client_order_id r" by (simp add: flatten_request_def)
  show ?thesis
    unfolding flatten_send_def
  proof (rule triple_seq [OF triple_save_owns], rule triple_bind [OF triple_try [OF triple_place [OF assms t]]])
  qed (intro calm_sends_ok calm_rule)
qed

lemma triple_flatten_position:
  "triple sends_ok (flatten_position om session pos) (\<lambda>_. sends_ok) (\<lambda>_. sends_ok)"
proof -
  have r: "triple (owns (r_client_order_id (flatten_record om session ec sm pr q)))
      (flatten_reserved om sm pr q (flatten_record om session ec sm pr q)) (\<lambda>_. sends_ok) (\<lambda>_. sends_ok)"
    for ec sm pr q
    unfolding flatten_reserved_def
  proof (intro triple_move_bind)
    fix r1 r2 r3
    assume m: "transition (om_now om) RISK_CHECK_PENDING ''flatten'' False (flatten_record om session ec sm pr q) = Inr r1"
      "transition (om_now om) RISK_APPROVED ''flatten override'' False r1 = Inr r2"
      "transition (om_now om) SUBMITTED ''flatten'' False r2 = Inr r3"
    then have c: "r_client_order_id r3 = r_client_order_id (flatten_record om session ec sm pr q)"
      by (auto simp: transition_Inr)
    show "triple (owns (r_client_order_id (flatten_record om session ec sm pr q)))
        (flatten_send om sm pr q r3) (\<lambda>_. sends_ok) (\<lambda>_. sends_ok)"
      unfolding c [symmetric]
      by (rule triple_flatten_send)
         (use m in \<open>auto simp: transition_Inr flatten_request_def flatten_record_def new_order_record_def\<close>)
  qed (auto dest: owns_sends_ok)
  show ?thesis
    unfolding flatten_position_def Let_def
  proof (rule triple_bind [OF triple_reserve])
    fix reserved ec sm pr q
    show "triple (\<lambda>w. if reserved then owns (r_client_order_id (flatten_record om session ec sm pr q)) w
        else sends_ok w) (if reserved then flatten_reserved om sm pr q (flatten_record om session ec sm pr q)
        else ef_return (Skipped sm)) (\<lambda>_. sends_ok) (\<lambda>_. sends_ok)"
      using r calm_sends_ok [OF calm_return] by (cases reserved) simp_all
  qed
qed

lemma triple_flatten_all:
  "triple sends_ok (emergency_flatten_all om override session) (\<lambda>_. sends_ok) (\<lambda>_. sends_ok)"
  unfolding emergency_flatten_all_def
proof (rule triple_seq [OF calm_sends_ok [OF calm_on_env]], rule triple_bind [OF calm_sends_ok [OF calm_flatten_pending]])
  have "triple sends_ok (flatten_positions om session) (\<lambda>_. sends_ok) (\<lambda>_. sends_ok)"
    unfolding flatten_positions_def
  proof (rule triple_bind [OF calm_sends_ok [OF calm_try [OF calm_on_env]]], split sum.split,
      intro conjI allI impI)
    fix ps
    show "triple sends_ok (ef_iter (flatten_position om session) (filter (\<lambda>p. bp_quantity p \<noteq> 0) ps))
      (\<lambda>_. sends_ok) (\<lambda>_. sends_ok)"
      by (rule triple_iter) (rule triple_flatten_position)
  qed (intro calm_sends_ok calm_rule)
  then show "triple sends_ok (ef_bind (flatten_positions om session) (\<lambda>fs.
      ef_return (flatten_report_of cs fs))) (\<lambda>_. sends_ok) (\<lambda>_. sends_ok)" for cs
    by (rule triple_bind) (rule triple_return)
qed


section \<open>The life of a manager\<close>

text \<open>Any sequence of operations, of any managers on the same store (a restart creates a new
  manager), while the environment moves by itself in between.\<close>

datatype 'b op =
    Submit "'b manager" signal int submit_args
  | Recover "'b manager"
  | Cancel "'b manager" string
  | Monitor nat "'b manager" string
  | Fill "'b manager" string fill_msg
  | Flatten "'b manager" bool string
  | Elapse "'b \<Rightarrow> 'b"

fun exec :: "'b op \<Rightarrow> 'b world \<Rightarrow> 'b world" where
  "exec (Submit om sg n a) w = snd (submit_order om sg n a w)"
| "exec (Recover om) w = snd (recover om w)"
| "exec (Cancel om ref) w = snd (cancel_order om ref w)"
| "exec (Monitor n om ref) w = snd (monitor_order n om ref w)"
| "exec (Fill om ref fm) w = snd (handle_fill om ref fm w)"
| "exec (Flatten om override session) w = snd (emergency_flatten_all om override session w)"
| "exec (Elapse f) w = w\<lparr>w_env := f (w_env w)\<rparr>"

fun run :: "'b op list \<Rightarrow> 'b world \<Rightarrow> 'b world" where
  "run [] w = w"
| "run (x # xs) w = run xs (exec x w)"

definition fresh_world :: "order_store \<Rightarrow> outcome list \<Rightarrow> 'b \<Rightarrow> 'b world" where
  "fresh_world st os b = \<lparr>w_store = st, w_outcomes = os, w_env = b, w_sent = []\<rparr>"

lemma exec_sends_ok: "sends_ok w \<Longrightarrow> sends_ok (exec x w)"
proof (induction x w rule: exec.induct)
  case (7 f w)
  then show ?case by (simp add: sends_ok_def placed_tags_def known_def)
qed (auto intro: triple_snd triple_submit_order triple_flatten_all calm_sends_ok calm_rule)

lemma run_sends_ok: "sends_ok w \<Longrightarrow> sends_ok (run xs w)"
  by (induction xs w rule: run.induct) (auto intro: exec_sends_ok)

lemma fresh_sends_ok: "sends_ok (fresh_world st os b)"
  by (simp add: sends_ok_def placed_tags_def fresh_world_def)

text \<open>The ids a world starts with stay known, and what was sent stays in the log.\<close>

text \<open>C1. Whatever sequence of operations runs, with whatever failures of the store, lost
  answers, exceptions of the broker, retries and restarts: no two calls of the broker's
  \<open>place_order\<close> ever carry the same client order id, and every id sent is reserved in the
  durable store.\<close>

theorem each_id_is_sent_once:
  "distinct (placed_tags (run ops (fresh_world st os b))) \<and>
   set (placed_tags (run ops (fresh_world st os b))) \<subseteq> known (run ops (fresh_world st os b))"
  using run_sends_ok [OF fresh_sends_ok, of ops st os b] by (simp add: sends_ok_def)

text \<open>C2. Nothing reaches the broker that the durable store did not already hold, under its tag
  and in the state \<open>SUBMITTED\<close>, with exactly the instrument, side, quantity, order type and
  product that are sent; a store that fails before that point therefore stops the order.\<close>

theorem nothing_is_sent_unrecorded:
  "list_all sent_ok (w_sent (run ops (fresh_world st os b)))"
  using run_sends_ok [OF fresh_sends_ok, of ops st os b] by (simp add: sends_ok_def)

section \<open>A concrete run\<close>

definition demo_manager :: "unit manager" where
  "demo_manager = \<lparr>om_broker = open_broker, om_kv_get = (\<lambda>_ _. Inr KNone), om_kv_set = None,
     om_require_support = True, om_eligible = (\<lambda>_. Inr ()), om_max_qty = None, om_max_price = None,
     om_max_notional = None, om_require_stop = False, om_max_tick_age = Fin 30, om_now = ''t1'',
     om_sha256 = (\<lambda>s. s)\<rparr>"

definition demo_signal :: signal where
  "demo_signal = \<lparr>sg_symbol = ''INFY'', sg_exchange = ''NSE'', sg_txn = BUY, sg_order_type = LIMIT,
     sg_product = CNC, sg_price = Fin 1500, sg_stop_price = Fin 1470, sg_strategy = [], sg_tag = [],
     sg_client_order_id = ''swing1'', sg_intent_kind = ''entry''\<rparr>"

definition demo_args :: submit_args where
  "demo_args = \<lparr>sa_daily_risk_used = Fin 0, sa_max_daily_risk = Fin 10000,
     sa_available_cash = Fin 500000, sa_total_portfolio = Fin 500000, sa_positions = [],
     sa_open_orders = [], sa_max_positions = 20, sa_sector = None, sa_sector_value = Fin 0,
     sa_realised_pnl_today = Fin 0, sa_max_daily_loss = Fin 50000\<rparr>"

definition demo_run :: "unit world" where
  "demo_run = run [Submit demo_manager demo_signal 10 demo_args] (fresh_world empty_store [] ())"

lemma demo_run_result:
  "map_option r_state (mem_get ''swing1'' (w_store demo_run)) = Some ACKNOWLEDGED \<and>
   placed_tags demo_run = [''swing1'']"
proof -
  have "case (demo_run, ()) of (w, _) \<Rightarrow>
      map_option r_state (mem_get ''swing1'' (w_store w)) = Some ACKNOWLEDGED \<and> placed_tags w = [''swing1'']"
    unfolding demo_run_def by code_simp
  then show ?thesis by (simp only: prod.case)
qed

section \<open>Stored records stay well-formed\<close>

text \<open>\<open>rec_ok lo\<close> bounds the filled quantity also from below when \<open>lo\<close> holds: what the code copies from
  the broker it only caps at the quantity of the order, so the lower bound rests on a broker that is
  \<open>honest\<close>, one that never reports a negative filled quantity.\<close>

definition rec_ok :: "bool \<Rightarrow> order_record \<Rightarrow> bool" where
  "rec_ok lo r \<longleftrightarrow> record_ok r \<and> (lo \<longrightarrow> 0 \<le> r_filled_qty r)"

definition honest :: "'b broker \<Rightarrow> bool" where
  "honest br \<longleftrightarrow>
     (\<forall>b os ord. fst (br_get_orders br b) = Inr (Some os) \<longrightarrow> Some ord \<in> set os \<longrightarrow>
        0 \<le> int_or (bo_filled_quantity ord) 0) \<and>
     (\<forall>b bid st. fst (br_get_order_status br bid b) = Inr (Some st) \<longrightarrow>
        0 \<le> int_or (bs_filled_quantity st) 0 \<and> 0 \<le> int_or (bs_filled_qty st) 0)"

lemma record_ok_filled: "record_ok r \<Longrightarrow> r_filled_qty r \<le> r_qty r"
  by (simp add: record_ok_def)

lemma rec_ok_new: "0 \<le> qty \<Longrightarrow> rec_ok lo (new_order_record now cid sm exch side qty ot pr)"
  by (simp add: rec_ok_def record_ok_new) (simp add: new_order_record_def)

lemma rec_ok_transition: "rec_ok lo r \<Longrightarrow> transition now new reason rc r = Inr r' \<Longrightarrow> rec_ok lo r'"
  by (auto simp: rec_ok_def transition_Inr record_ok_set_state)

lemma rec_ok_fields [simp]:
  "rec_ok lo (r\<lparr>r_broker_order_id := b\<rparr>) = rec_ok lo r"
  "rec_ok lo (r\<lparr>r_reference_price := x\<rparr>) = rec_ok lo r"
  "rec_ok lo (r\<lparr>r_strategy := s\<rparr>) = rec_ok lo r"
  "rec_ok lo (r\<lparr>r_intent_kind := s\<rparr>) = rec_ok lo r"
  "rec_ok lo (r\<lparr>r_limit_price := x\<rparr>) = rec_ok lo r"
  "rec_ok lo (r\<lparr>r_trigger_price := x\<rparr>) = rec_ok lo r"
  by (simp_all add: rec_ok_def)

lemma rec_ok_apply_fill: "rec_ok lo r \<Longrightarrow> apply_fill now q p fid r = Inr (b, r') \<Longrightarrow> rec_ok lo r'"
  unfolding rec_ok_def
  by (auto simp: record_ok_apply_fill) (auto simp: apply_fill_def Let_def split: if_splits)

definition records_ok :: "bool \<Rightarrow> order_store \<Rightarrow> bool" where
  "records_ok lo s \<longleftrightarrow> (\<forall>(cid, r) \<in> set (st_records s). rec_ok lo r)"

definition store_ok :: "bool \<Rightarrow> 'b world \<Rightarrow> bool" where
  "store_ok lo w \<longleftrightarrow> records_ok lo (w_store w)"

lemma records_ok_update:
  "rec_ok lo r \<Longrightarrow> records_ok lo s \<Longrightarrow> records_ok lo (s\<lparr>st_records := AList.update k r (st_records s)\<rparr>)"
proof -
  assume r: "rec_ok lo r" and s: "records_ok lo s"
  have "set (AList.update k r xs) \<subseteq> insert (k, r) (set xs)" for xs :: "(string \<times> order_record) list"
    by (induction xs) auto
  then show ?thesis using r s by (fastforce simp: records_ok_def)
qed

text \<open>\<open>yields lo Q m\<close>: \<open>m\<close> keeps the stored records well-formed and returns a value in \<open>Q\<close>.\<close>

definition yields :: "bool \<Rightarrow> ('a \<Rightarrow> bool) \<Rightarrow> ('b world, 'a) ef \<Rightarrow> bool" where
  "yields lo Q m \<longleftrightarrow> triple (store_ok lo) m (\<lambda>x w. store_ok lo w \<and> Q x) (\<lambda>_. store_ok lo)"

named_theorems yields_rule

lemma yields_return: "Q x \<Longrightarrow> yields lo Q (ef_return x)"
  by (simp add: yields_def triple_def ef_return_def)

lemma yields_raise [yields_rule]: "yields lo Q (ef_raise e)"
  by (simp add: yields_def triple_def ef_raise_def)

lemma yields_lift: "(\<And>x. r = Inr x \<Longrightarrow> Q x) \<Longrightarrow> yields lo Q (ef_lift r)"
  by (simp add: yields_def triple_def ef_lift_def split: sum.split)

lemma yields_bind: "yields lo P m \<Longrightarrow> (\<And>x. P x \<Longrightarrow> yields lo Q (f x)) \<Longrightarrow> yields lo Q (ef_bind m f)"
  unfolding yields_def
  by (rule triple_bind, assumption) (auto simp: triple_def)

lemma yields_seq: "yields lo (\<lambda>_. True) m \<Longrightarrow> yields lo Q n \<Longrightarrow> yields lo Q (ef_seq m n)"
  unfolding ef_seq_def by (rule yields_bind)

lemma yields_weaken: "yields lo P m \<Longrightarrow> (\<And>x. P x \<Longrightarrow> Q x) \<Longrightarrow> yields lo Q m"
  unfolding yields_def by (erule triple_conseq) auto

lemma yields_try: "yields lo P m \<Longrightarrow> yields lo (\<lambda>r. \<forall>x. r = Inr x \<longrightarrow> P x) (ef_try m)"
  unfolding yields_def by (rule triple_try, erule triple_conseq) auto

lemma yields_iter:
  assumes "\<And>x. x \<in> set xs \<Longrightarrow> yields lo (\<lambda>_. True) (f x)"
  shows "yields lo (\<lambda>_. True) (ef_iter f xs)"
  using assms by (induction xs) (auto intro!: yields_return yields_bind)

lemma yields_on_env: "yields lo (\<lambda>_. True) (on_env m)"
  by (simp add: yields_def triple_def on_env_def store_ok_def split: prod.split sum.split)

lemma yields_env_read: "yields lo (\<lambda>_. True) (env_read f)"
  by (simp add: yields_def triple_def env_read_def split: sum.split)

lemma yields_get: "yields lo (\<lambda>_. True) (ef_get f)"
  by (simp add: yields_def triple_def ef_get_def)

lemma yields_store_call:
  assumes "\<And>s. records_ok lo s \<Longrightarrow> records_ok lo (snd (f s))"
    and "\<And>s x. records_ok lo s \<Longrightarrow> fst (f s) = Inr x \<Longrightarrow> Q x"
  shows "yields lo Q (store_call f)"
  unfolding yields_def
proof (rule tripleI)
  fix w x and w' :: "'b world"
  assume "store_ok lo w" "store_call f w = (Inr x, w')"
  then show "store_ok lo w' \<and> Q x"
    by (cases rule: store_call_cases [of f w]) (use assms in \<open>auto simp: store_ok_def\<close>)
next
  fix w e and w' :: "'b world"
  assume "store_ok lo w" "store_call f w = (Inl e, w')"
  then show "store_ok lo w'"
    by (cases rule: store_call_cases [of f w]) (use assms in \<open>auto simp: store_ok_def\<close>)
qed

lemma yields_save: "rec_ok lo r \<Longrightarrow> yields lo (\<lambda>_. True) (st_save r)"
  unfolding st_save_def
  by (rule yields_store_call) (auto simp: mem_save_def records_ok_update)

lemma yields_reserve: "rec_ok lo r \<Longrightarrow> yields lo (\<lambda>_. True) (st_reserve r)"
  unfolding st_reserve_def
  by (rule yields_store_call) (auto simp: mem_reserve_def records_ok_update)

lemma yields_st_get: "yields lo (\<lambda>x. \<forall>r. x = Some r \<longrightarrow> rec_ok lo r) (st_get cid)"
  unfolding st_get_def
  by (rule yields_store_call) (auto simp: mem_get_def records_ok_def dest!: map_of_SomeD)

lemma yields_list_open: "yields lo (\<lambda>rs. \<forall>r \<in> set rs. rec_ok lo r) st_list_open"
  unfolding st_list_open_def
  by (rule yields_store_call) (fastforce simp: mem_list_open_def mem_list_all_def records_ok_def)+

lemma yields_record_trade: "yields lo (\<lambda>_. True) (st_record_trade cid fill)"
  unfolding st_record_trade_def
  by (rule yields_store_call) (simp_all add: mem_record_trade_def records_ok_def Let_def)

lemma yields_position: "yields lo (\<lambda>_. True) (st_position a b c d e)"
  unfolding st_position_def
  by (rule yields_store_call) (simp_all add: mem_apply_position_delta_def records_ok_def Let_def)

lemma yields_move: "rec_ok lo r \<Longrightarrow> yields lo (rec_ok lo) (move om st reason rc r)"
  unfolding move_def by (rule yields_lift) (rule rec_ok_transition)


lemma yields_if: "(b \<Longrightarrow> yields lo Q m) \<Longrightarrow> (\<not> b \<Longrightarrow> yields lo Q n) \<Longrightarrow> yields lo Q (if b then m else n)"
  by simp

lemma yields_let: "yields lo Q (f x) \<Longrightarrow> yields lo Q (Let x f)"
  by simp

lemma yields_sum:
  "(\<And>e. r = Inl e \<Longrightarrow> yields lo Q (f e)) \<Longrightarrow> (\<And>x. r = Inr x \<Longrightarrow> yields lo Q (g x)) \<Longrightarrow>
     yields lo Q (case r of Inl e \<Rightarrow> f e | Inr x \<Rightarrow> g x)"
  by (cases r) auto

lemma yields_option:
  "(x = None \<Longrightarrow> yields lo Q m) \<Longrightarrow> (\<And>y. x = Some y \<Longrightarrow> yields lo Q (g y)) \<Longrightarrow>
     yields lo Q (case x of None \<Rightarrow> m | Some y \<Rightarrow> g y)"
  by (cases x) auto

lemma yields_tag_query:
  "yields lo Q m \<Longrightarrow> yields lo Q n \<Longrightarrow> (\<And>x. yields lo Q (g x)) \<Longrightarrow>
     yields lo Q (case q of Unreadable \<Rightarrow> m | Absent \<Rightarrow> n | Found y \<Rightarrow> g y)"
  by (cases q) auto

lemma yields_prod: "(\<And>x y. p = (x, y) \<Longrightarrow> yields lo Q (f x y)) \<Longrightarrow> yields lo Q (case p of (x, y) \<Rightarrow> f x y)"
  by (cases p) auto

lemma yields_any: "yields lo Q m \<Longrightarrow> yields lo (\<lambda>_. True) m"
  by (erule yields_weaken) simp

lemma yields_lift_any: "yields lo (\<lambda>x. r = Inr x) (ef_lift r)"
  by (rule yields_lift)

lemma record_ok_seen [simp]:
  "record_ok r \<Longrightarrow> record_ok (r\<lparr>r_filled_qty := min n (r_qty r)\<rparr>)"
  "record_ok r \<Longrightarrow> record_ok (r\<lparr>r_broker_order_id := b, r_filled_qty := min n (r_qty r)\<rparr>)"
  by (simp_all add: record_ok_def path_of_def)

lemma record_ok_logged [simp]:
  "record_ok r \<Longrightarrow> record_ok (r\<lparr>r_history := r_history r @ [JObj [(k, v), (k', v')]]\<rparr>)"
  by (rule record_ok_note) (cases v; cases v'; simp add: entry_states_def)+

lemma rec_ok_seen [simp]:
  "rec_ok lo r \<Longrightarrow> (lo \<Longrightarrow> 0 \<le> n) \<Longrightarrow> rec_ok lo (r\<lparr>r_filled_qty := min n (r_qty r)\<rparr>)"
  "rec_ok lo r \<Longrightarrow> (lo \<Longrightarrow> 0 \<le> n) \<Longrightarrow>
     rec_ok lo (r\<lparr>r_broker_order_id := b, r_filled_qty := min n (r_qty r)\<rparr>)"
  by (auto simp: rec_ok_def dest: record_ok_filled)

lemma rec_ok_logged [simp]:
  "rec_ok lo r \<Longrightarrow> rec_ok lo (r\<lparr>r_history := r_history r @ [JObj [(k, v), (k', v')]]\<rparr>)"
  by (simp add: rec_ok_def)

text \<open>The sequencing rules, by what the first step is known to return.\<close>

lemma yields_bind_any: "yields lo (\<lambda>_. True) m \<Longrightarrow> (\<And>x. yields lo Q (f x)) \<Longrightarrow> yields lo Q (ef_bind m f)"
  by (rule yields_bind)

lemma yields_bind_move:
  "rec_ok lo r \<Longrightarrow> (\<And>r'. rec_ok lo r' \<Longrightarrow> yields lo Q (f r')) \<Longrightarrow> yields lo Q (ef_bind (move om st reason rc r) f)"
  by (rule yields_bind [OF yields_move])

lemma yields_bind_get:
  "(\<And>x. (\<And>r. x = Some r \<Longrightarrow> rec_ok lo r) \<Longrightarrow> yields lo Q (f x)) \<Longrightarrow> yields lo Q (ef_bind (st_get cid) f)"
  by (rule yields_bind [OF yields_st_get]) simp

lemma yields_bind_list:
  "(\<And>rs. (\<And>r. r \<in> set rs \<Longrightarrow> rec_ok lo r) \<Longrightarrow> yields lo Q (f rs)) \<Longrightarrow> yields lo Q (ef_bind st_list_open f)"
  by (rule yields_bind [OF yields_list_open]) simp

lemma yields_bind_lift: "(\<And>x. r = Inr x \<Longrightarrow> yields lo Q (f x)) \<Longrightarrow> yields lo Q (ef_bind (ef_lift r) f)"
  by (rule yields_bind [OF yields_lift_any])

lemma yields_try_any: "yields lo (\<lambda>_. True) m \<Longrightarrow> yields lo (\<lambda>_. True) (ef_try m)"
  by (rule yields_any [OF yields_try])

lemmas yields_rules = yields_bind_move yields_bind_get yields_bind_list yields_bind_lift
  yields_raise yields_seq yields_if yields_let yields_sum yields_option yields_tag_query yields_prod
  yields_save yields_record_trade yields_position yields_env_read yields_get yields_on_env
  yields_try_any yields_return

lemma yields_query [yields_rule]: "yields lo (\<lambda>_. True) (query_broker_for_tag om r)"
  unfolding query_broker_for_tag_def by (intro yields_rules yields_bind_any) simp

text \<open>The values read from an honest broker.\<close>

lemma yields_from_env: "yields lo (\<lambda>x. \<exists>b. fst (m b) = Inr x) (on_env m)"
  by (auto simp: yields_def triple_def on_env_def store_ok_def split: prod.splits sum.splits)
     (metis fst_conv)+

definition found_honest :: "bool \<Rightarrow> tag_query \<Rightarrow> bool" where
  "found_honest lo q \<longleftrightarrow> (case q of Found ord \<Rightarrow> lo \<longrightarrow> 0 \<le> int_or (bo_filled_quantity ord) 0 | _ \<Rightarrow> True)"

lemma found_honest_simps [simp]:
  "found_honest lo Unreadable" "found_honest lo Absent"
  "found_honest lo (Found ord) \<longleftrightarrow> (lo \<longrightarrow> 0 \<le> int_or (bo_filled_quantity ord) 0)"
  by (simp_all add: found_honest_def)

lemma found_honest_scan:
  "(\<And>ord. Some ord \<in> set os \<Longrightarrow> lo \<Longrightarrow> 0 \<le> int_or (bo_filled_quantity ord) 0) \<Longrightarrow> found_honest lo (scan_book r os)"
  by (induction r os rule: scan_book.induct) (auto simp: found_honest_def)

lemma yields_found:
  assumes "lo \<longrightarrow> honest (om_broker om)"
  shows "yields lo (found_honest lo) (query_broker_for_tag om r)"
  unfolding query_broker_for_tag_def
  by (rule yields_bind [OF yields_try [OF yields_from_env]], rule yields_return)
     (use assms in \<open>auto simp: honest_def intro!: found_honest_scan split: sum.split option.split\<close>)

lemma yields_bind_found:
  assumes "lo \<longrightarrow> honest (om_broker om)"
    and "yields lo Q (f Unreadable)" "yields lo Q (f Absent)"
    and "\<And>ord. (lo \<Longrightarrow> 0 \<le> int_or (bo_filled_quantity ord) 0) \<Longrightarrow> yields lo Q (f (Found ord))"
  shows "yields lo Q (ef_bind (query_broker_for_tag om r) f)"
proof (rule yields_bind [OF yields_found [OF assms(1)]])
  show "yields lo Q (f q)" if "found_honest lo q" for q
    using that assms(2-) by (cases q) (auto simp: found_honest_def)
qed

lemma yields_update_status [yields_rule]: "rec_ok lo r \<Longrightarrow> yields lo (\<lambda>_. True) (update_order_status r)"
  unfolding update_order_status_def by (rule yields_save)

lemma yields_get_record: "yields lo (\<lambda>x. \<forall>r. x = Some r \<longrightarrow> rec_ok lo r) (get_record ref)"
  unfolding get_record_def by (intro yields_rules) (auto simp: find_Some_iff)

lemma yields_bind_record:
  "(\<And>x. (\<And>r. x = Some r \<Longrightarrow> rec_ok lo r) \<Longrightarrow> yields lo Q (f x)) \<Longrightarrow> yields lo Q (ef_bind (get_record ref) f)"
  by (rule yields_bind [OF yields_get_record]) simp

lemma yields_resolve_unknown [yields_rule]:
  "lo \<longrightarrow> honest (om_broker om) \<Longrightarrow> rec_ok lo r \<Longrightarrow> yields lo (\<lambda>_. True) (resolve_unknown om r)"
  unfolding resolve_unknown_def
  by (rule yields_bind_found, assumption; simp only: tag_query.case; intro yields_rules yields_rule yields_bind_any; simp)

lemma yields_handle_existing [yields_rule]:
  "lo \<longrightarrow> honest (om_broker om) \<Longrightarrow> yields lo (\<lambda>_. True) (handle_existing_intent om cid)"
  unfolding handle_existing_intent_def by (intro yields_rules yields_rule; simp)

lemma yields_blocking [yields_rule]: "yields lo (\<lambda>_. True) (blocking_record_for sg)"
  unfolding blocking_record_for_def by (intro yields_rules; simp)

lemma yields_update_position [yields_rule]: "yields lo (\<lambda>_. True) (update_position r fm)"
  unfolding update_position_def by (intro yields_rules)

lemma yields_book_fill [yields_rule]: "rec_ok lo r \<Longrightarrow> yields lo (\<lambda>_. True) (book_fill om r fm fid costs)"
  unfolding book_fill_def by (intro yields_bind_move yields_seq yields_return yields_record_trade yields_rule; simp)

lemma yields_handle_fill [yields_rule]: "yields lo (\<lambda>_. True) (handle_fill om ref fm)"
  unfolding handle_fill_def
  by (rule yields_bind_record) (intro yields_rules yields_rule; auto intro: rec_ok_apply_fill)

lemma yields_immediate_fill [yields_rule]: "yields lo (\<lambda>_. True) (apply_any_immediate_fill om r)"
  unfolding apply_any_immediate_fill_def by (intro yields_rules yields_rule yields_bind_any; simp)

lemma yields_reject [yields_rule]: "rec_ok lo r \<Longrightarrow> yields lo (\<lambda>_. True) (reject om r reason reasons)"
  unfolding reject_def log_rejected_order_def by (intro yields_rules; simp)

lemma yields_place [yields_rule]: "yields lo (\<lambda>_. True) (place om req)"
  unfolding place_def
  by (intro yields_rules) (simp add: yields_def triple_def ef_modify_def store_ok_def)

lemma yields_persist: "rec_ok lo r \<Longrightarrow> yields lo (rec_ok lo) (persist_order r costs)"
  unfolding persist_order_def by (intro yields_rules; simp)

lemma yields_send_order [yields_rule]:
  "lo \<longrightarrow> honest (om_broker om) \<Longrightarrow> rec_ok lo r \<Longrightarrow> yields lo (\<lambda>_. True) (send_order om sg n r costs trigger)"
  unfolding send_order_def settle_submission_def
  by (intro yields_bind_move yields_bind [OF yields_persist] yields_bind_any yields_rules yields_rule; simp)

lemma yields_approve_order [yields_rule]:
  "lo \<longrightarrow> honest (om_broker om) \<Longrightarrow> rec_ok lo r \<Longrightarrow> yields lo (\<lambda>_. True) (approve_order om sg n r costs)"
  unfolding approve_order_def by (intro yields_rules yields_rule; simp)

lemma yields_gate_order [yields_rule]:
  "lo \<longrightarrow> honest (om_broker om) \<Longrightarrow> rec_ok lo r \<Longrightarrow> yields lo (\<lambda>_. True) (gate_order om sg n a r px)"
  unfolding gate_order_def by (intro yields_rules yields_rule yields_bind_any; simp)

lemma yields_price_order [yields_rule]:
  "lo \<longrightarrow> honest (om_broker om) \<Longrightarrow> rec_ok lo r \<Longrightarrow> yields lo (\<lambda>_. True) (price_order om sg n a r)"
  unfolding price_order_def by (intro yields_rules yields_rule yields_bind_any; simp)

lemma yields_submit [yields_rule]:
  "lo \<longrightarrow> honest (om_broker om) \<Longrightarrow> 0 \<le> n \<Longrightarrow> yields lo (\<lambda>_. True) (submit_order om sg n a)"
proof -
  assume h: "lo \<longrightarrow> honest (om_broker om)" and "0 \<le> n"
  then have "rec_ok lo (intent_record (om_now om) sg n)" by (simp add: intent_record_def rec_ok_new)
  then show ?thesis
    unfolding submit_order_def submit_reserved_def
    using h by (intro yields_rules yields_reserve yields_rule yields_bind_any; simp)
qed


lemma walk_chain_ok: "rec_ok lo r \<Longrightarrow> walk_chain now sts r = Inr r' \<Longrightarrow> rec_ok lo r'"
  by (induction now sts r rule: walk_chain.induct) (auto split: if_splits intro: rec_ok_transition)

lemma walk_ok: "rec_ok lo r \<Longrightarrow> walk_to_submitted now r = Inr r' \<Longrightarrow> rec_ok lo r'"
  unfolding walk_to_submitted_def by (rule walk_chain_ok)

lemma yields_recover_sent [yields_rule]:
  "lo \<longrightarrow> honest (om_broker om) \<Longrightarrow> rec_ok lo r \<Longrightarrow> yields lo (\<lambda>_. True) (recover_sent om r)"
proof -
  assume h: "lo \<longrightarrow> honest (om_broker om)" and r: "rec_ok lo r"
  have s: "yields lo (rec_ok lo) (if r_state r \<noteq> UNKNOWN then move om UNKNOWN reason False
      (r\<lparr>r_broker_order_id := b, r_filled_qty := min n (r_qty r)\<rparr>)
      else ef_return (r\<lparr>r_broker_order_id := b, r_filled_qty := min n (r_qty r)\<rparr>))"
    if "lo \<Longrightarrow> 0 \<le> n" for b n reason
    using r that by (intro yields_if yields_move yields_return; simp)
  show ?thesis
    unfolding recover_sent_def Let_def
    using r by (intro yields_if yields_bind_found [OF h]; simp only: tag_query.case;
        intro yields_rules yields_rule yields_bind [OF s] yields_bind_any; simp)
qed

lemma yields_recover_one [yields_rule]:
  "lo \<longrightarrow> honest (om_broker om) \<Longrightarrow> rec_ok lo r \<Longrightarrow> yields lo (\<lambda>_. True) (recover_one om r)"
  unfolding recover_one_def
  by (intro yields_rules yields_rule yields_bind_any; auto intro: walk_ok)

lemma yields_recover [yields_rule]:
  "lo \<longrightarrow> honest (om_broker om) \<Longrightarrow> yields lo (\<lambda>_. True) (recover om)"
  unfolding recover_def
  by (intro yields_bind_list yields_bind_any yields_iter yields_return yields_rule; simp)

lemma yields_send_cancel [yields_rule]:
  "(\<And>r. rec = Some r \<Longrightarrow> rec_ok lo r) \<Longrightarrow> yields lo (\<lambda>_. True) (send_cancel om ref rec)"
  unfolding send_cancel_def Let_def
  by (cases rec) (auto intro!: yields_bind_any yields_rules yields_rule split: sum.split)

lemma yields_cancel [yields_rule]: "yields lo (\<lambda>_. True) (cancel_order om ref)"
  unfolding cancel_order_def
  by (rule yields_bind_record) (intro yields_rules yields_rule; simp)

lemma yields_observe:
  "lo \<longrightarrow> 0 \<le> n \<Longrightarrow> rec_ok lo r \<Longrightarrow> yields lo (rec_ok lo) (observe om st n r)"
  unfolding observe_def Let_def
  by (intro yields_rules yields_rule; auto intro: rec_ok_transition [OF rec_ok_seen(1)])

definition watched_ok :: "bool \<Rightarrow> monitor_vars \<Rightarrow> bool" where
  "watched_ok lo v \<longleftrightarrow> (case mv_record v of None \<Rightarrow> True | Some r \<Rightarrow> rec_ok lo r)"

definition status_honest :: "bool \<Rightarrow> bstatus option \<Rightarrow> bool" where
  "status_honest lo x \<longleftrightarrow> (case x of None \<Rightarrow> True | Some st \<Rightarrow> lo \<longrightarrow>
     0 \<le> int_or (bs_filled_quantity st) (int_or (bs_filled_qty st) 0))"

lemma int_or_nonneg: "0 \<le> int_or a 0 \<Longrightarrow> 0 \<le> b \<Longrightarrow> 0 \<le> int_or a b"
  by (auto simp: int_or_def split: option.splits if_splits)

lemma yields_status:
  assumes "lo \<longrightarrow> honest (om_broker om)"
  shows "yields lo (\<lambda>x. \<forall>y. x = Inr y \<longrightarrow> status_honest lo y)
    (ef_try (on_env (br_get_order_status (om_broker om) bid)))"
  by (rule yields_try [OF yields_weaken [OF yields_from_env]])
     (use assms in \<open>auto simp: status_honest_def honest_def int_or_nonneg split: option.split\<close>)

lemma yields_watched:
  assumes "watched_ok lo v" and "lo \<longrightarrow> 0 \<le> n"
  shows "yields lo (\<lambda>x. case x of None \<Rightarrow> True | Some r \<Rightarrow> rec_ok lo r) (case mv_record v of
      None \<Rightarrow> ef_return None | Some r \<Rightarrow> ef_bind (observe om st n r) (\<lambda>r'. ef_return (Some r')))"
  using assms by (auto simp: watched_ok_def intro!: yields_return yields_bind [OF yields_observe]
      split: option.split)

lemma yields_monitor_poll:
  assumes h: "lo \<longrightarrow> honest (om_broker om)" and v: "watched_ok lo v"
  shows "yields lo (\<lambda>(e, v'). watched_ok lo v') (monitor_poll om bid v)"
  unfolding monitor_poll_def Let_def
  by (rule yields_bind [OF yields_status [OF h]],
      intro yields_sum yields_option yields_bind [OF yields_watched [OF v]] yields_return)
     (use v in \<open>auto simp: watched_ok_def status_honest_def\<close>)

lemma yields_monitor_expired:
  "watched_ok lo v \<Longrightarrow> yields lo (\<lambda>_. True) (monitor_expired om v)"
  unfolding monitor_expired_def
  by (intro yields_rules; simp add: watched_ok_def)

lemma yields_monitor_loop:
  "lo \<longrightarrow> honest (om_broker om) \<Longrightarrow> watched_ok lo v \<Longrightarrow> yields lo (\<lambda>_. True) (monitor_loop n om bid v)"
proof (induction n arbitrary: v)
  case 0
  show ?case unfolding monitor_loop.simps
    by (rule yields_bind [OF yields_monitor_poll [OF 0]])
       (auto intro!: yields_return yields_monitor_expired)
next
  case (Suc n)
  show ?case unfolding monitor_loop.simps
    by (rule yields_bind [OF yields_monitor_poll [OF Suc.prems]])
       (auto intro!: yields_return Suc.IH [OF Suc.prems(1)])
qed

lemma yields_monitor [yields_rule]:
  "lo \<longrightarrow> honest (om_broker om) \<Longrightarrow> yields lo (\<lambda>_. True) (monitor_order n om ref)"
  unfolding monitor_order_def
  by (rule yields_bind_record) (rule yields_monitor_loop, assumption, simp add: watched_ok_def split: option.split)

lemma yields_flatten_position [yields_rule]: "yields lo (\<lambda>_. True) (flatten_position om session pos)"
proof -
  have "rec_ok lo (flatten_record om session ec sm pr q)" for ec sm pr q
    by (simp add: flatten_record_def rec_ok_new)
  then show ?thesis
    unfolding flatten_position_def flatten_reserved_def flatten_send_def Let_def
    by (intro yields_rules yields_reserve yields_rule yields_bind_any; simp)
qed

lemma yields_flatten [yields_rule]: "yields lo (\<lambda>_. True) (emergency_flatten_all om override session)"
  unfolding emergency_flatten_all_def flatten_pending_def flatten_positions_def cancel_all_def
  by (intro yields_rules yields_iter yields_rule yields_bind_any; simp)

lemma yields_snd: "yields lo Q m \<Longrightarrow> store_ok lo w \<Longrightarrow> store_ok lo (snd (m w))"
  unfolding yields_def
  by (rule triple_snd [of "store_ok lo" m "store_ok lo" w]) (auto elim: triple_conseq)

text \<open>A submission asks for a quantity of at least zero; the brokers the operations talk to are honest.\<close>

definition op_sized :: "'b op \<Rightarrow> bool" where
  "op_sized x = (case x of Submit om sg n a \<Rightarrow> 0 \<le> n | _ \<Rightarrow> True)"

definition op_honest :: "'b op \<Rightarrow> bool" where
  "op_honest x = (case x of Submit om sg n a \<Rightarrow> honest (om_broker om) | Recover om \<Rightarrow> honest (om_broker om)
     | Monitor n om ref \<Rightarrow> honest (om_broker om) | _ \<Rightarrow> True)"

lemma exec_store_ok: "op_sized x \<Longrightarrow> lo \<longrightarrow> op_honest x \<Longrightarrow> store_ok lo w \<Longrightarrow> store_ok lo (exec x w)"
proof (induction x w rule: exec.induct)
  case (7 f w)
  then show ?case by (simp add: store_ok_def)
qed (auto simp: op_sized_def op_honest_def intro: yields_snd yields_rule)

lemma run_store_ok:
  "list_all op_sized xs \<Longrightarrow> lo \<longrightarrow> list_all op_honest xs \<Longrightarrow> store_ok lo w \<Longrightarrow> store_ok lo (run xs w)"
  by (induction xs w rule: run.induct) (auto intro: exec_store_ok)

lemma stored_rec_ok:
  assumes "list_all op_sized ops" and "lo \<longrightarrow> list_all op_honest ops"
    and "mem_get cid (w_store (run ops (fresh_world empty_store os b))) = Some r"
  shows "rec_ok lo r"
proof -
  have "store_ok lo (fresh_world empty_store os b)"
    by (simp add: store_ok_def records_ok_def fresh_world_def empty_store_def)
  then have "store_ok lo (run ops (fresh_world empty_store os b))"
    by (rule run_store_ok [OF assms(1,2)])
  then show ?thesis
    using assms(3) by (auto simp: store_ok_def records_ok_def mem_get_def dest!: map_of_SomeD)
qed

text \<open>C3. Every record the manager ever stores is well-formed, whatever happens around it: its
  durable history is a legal path of the order state machine from the creation of the intent to
  the stored state, it is never filled beyond its quantity, and no fill is applied twice. As long as the
  brokers never report a negative filled quantity, which the code copies as it is, the stored filled
  quantity is never negative either. (A submission of a negative quantity is left out: its record
  would be filled beyond its quantity from the start.)\<close>

theorem stored_orders_stay_legal:
  assumes "list_all op_sized ops" and "mem_get cid (w_store (run ops (fresh_world empty_store os b))) = Some r"
  shows "legal_path INTENT_CREATED (path_of r) (r_state r) \<and> r_filled_qty r \<le> r_qty r \<and>
    distinct (r_applied_fill_ids r) \<and> (list_all op_honest ops \<longrightarrow> 0 \<le> r_filled_qty r)"
proof -
  have "record_ok r" using stored_rec_ok [of ops False] assms by (simp add: rec_ok_def)
  moreover have "0 \<le> r_filled_qty r" if "list_all op_honest ops"
    using stored_rec_ok [of ops True] that assms by (simp add: rec_ok_def)
  ultimately show ?thesis by (simp add: record_ok_def)
qed

theorem stored_orders_stay_legal_witness:
  "\<exists>r. mem_get ''swing1'' (w_store demo_run) = Some r \<and> r_state r = ACKNOWLEDGED \<and>
     legal_path INTENT_CREATED (path_of r) ACKNOWLEDGED \<and> 0 \<le> r_filled_qty r"
proof -
  obtain r where r: "mem_get ''swing1'' (w_store demo_run) = Some r" "r_state r = ACKNOWLEDGED"
    using demo_run_result by auto
  have "honest (om_broker demo_manager)"
    by (simp add: honest_def demo_manager_def open_broker_def ef_return_def)
  then show ?thesis
    using r stored_orders_stay_legal [of "[Submit demo_manager demo_signal 10 demo_args]" "''swing1''" "[]" "()" r]
    by (simp add: demo_run_def op_sized_def op_honest_def)
qed

end
