(* ===== verification/Order_Paths.thy ===== *)
theory Order_Paths
  imports Order_Safety
begin

text \<open>
  What the single operations of the order manager do: which gates an order has passed when it is
  sent, what a retry, a duplicate or late fill, an unreadable broker and the emergency flatten
  lead to.
\<close>

section \<open>A stored order\<close>

text \<open>The world of the concrete instances: one stored order in a given state.\<close>

definition demo_order :: "order_state \<Rightarrow> order_record" where
  "demo_order st = demo_record\<lparr>r_state := st, r_broker_order_id := Some ''B1'', r_filled_qty := 4,
     r_applied_fill_ids := [''F1'']\<rparr>"

definition demo_world :: "order_state \<Rightarrow> unit world" where
  "demo_world st = \<lparr>w_store = empty_store\<lparr>st_records := [(''swing1'', demo_order st)], st_trade_ids := {''F1''}\<rparr>,
     w_outcomes = [], w_env = (), w_sent = []\<rparr>"

lemma demo_order_simps [simp]:
  "r_state (demo_order st) = st" "r_client_order_id (demo_order st) = ''swing1''"
  "r_broker_order_id (demo_order st) = Some ''B1''" "r_filled_qty (demo_order st) = 4"
  "r_qty (demo_order st) = 10" "r_applied_fill_ids (demo_order st) = [''F1'']"
  "r_symbol (demo_order st) = ''INFY''" "r_strategy (demo_order st) = []"
  "r_exchange (demo_order st) = ''NSE''" "r_product (demo_order st) = ''CNC''"
  by (simp_all add: demo_order_def demo_record_def new_order_record_def)

lemma demo_world_simps [simp]:
  "w_outcomes (demo_world st) = []" "mem_get ''swing1'' (w_store (demo_world st)) = Some (demo_order st)"
  "st_trade_ids (w_store (demo_world st)) = {''F1''}" "w_sent (demo_world st) = []"
  "st_records (w_store (demo_world st)) = [(''swing1'', demo_order st)]"
  "st_positions (w_store (demo_world st)) = []"
  by (simp_all add: demo_world_def mem_get_def empty_store_def)

lemma demo_list_open:
  "st \<notin> set terminal_states \<Longrightarrow> mem_list_open (w_store (demo_world st)) = [demo_order st]"
  by (simp add: mem_list_open_def mem_list_all_def is_terminal_def)

lemma demo_signal_simps [simp]:
  "sg_client_order_id demo_signal = ''swing1''" "sg_symbol demo_signal = ''INFY''"
  "sg_strategy demo_signal = []"
  by (simp_all add: demo_signal_def)

lemma demo_eligible [simp]: "require_eligible_for_live demo_manager b = Inr ()"
  by (simp add: require_eligible_for_live_def demo_manager_def)

section \<open>The gates before the broker call\<close>

text \<open>\<open>idle e l\<close>: the environment is still \<open>e\<close> and the log still \<open>l\<close>. Store calls keep it.\<close>

definition idle :: "'b \<Rightarrow> sent list \<Rightarrow> 'b world \<Rightarrow> bool" where
  "idle e l w \<longleftrightarrow> w_env w = e \<and> w_sent w = l"

lemma triple_idle_store: "triple (idle e l) (store_call f) (\<lambda>_. idle e l) (\<lambda>_. idle e l)"
proof (rule tripleI)
  fix w x and w' :: "'a world"
  assume "idle e l w" "store_call f w = (Inr x, w')"
  then show "idle e l w'" by (cases rule: store_call_cases [of f w]) (auto simp: idle_def)
next
  fix w x and w' :: "'a world"
  assume "idle e l w" "store_call f w = (Inl x, w')"
  then show "idle e l w'" by (cases rule: store_call_cases [of f w]) (auto simp: idle_def)
qed

text \<open>What must have happened before \<open>submit_order\<close> sends: eligibility, a usable reference price,
  a computable risk and the validator's approval of exactly this order at this price.\<close>

definition gates_passed :: "'b manager \<Rightarrow> signal \<Rightarrow> int \<Rightarrow> submit_args \<Rightarrow> 'b \<Rightarrow> bool" where
  "gates_passed om sg n a e \<longleftrightarrow> require_eligible_for_live om e = Inr () \<and>
     (\<exists>px e' risk. resolve_reference_price om sg e = (Inr px, e') \<and>
        compute_trade_risk (om_require_stop om) n px (sg_stop_price sg) = Inr risk \<and>
        passed (validate_order (om_require_support om) (\<lambda>k. om_kv_get om k e') (om_broker om) e'
          (order_check_of om sg n a px risk))) \<and>
     (triggered (sg_order_type sg) \<longrightarrow> isfinite (sg_stop_price sg) \<and> \<not> sg_stop_price sg \<le> Fin 0 \<and>
        br_supports_trigger (om_broker om))"

lemma gates_passed_run [code]:
  "gates_passed om sg n a e \<longleftrightarrow> require_eligible_for_live om e = Inr () \<and>
     (case resolve_reference_price om sg e of
        (Inl _, _) \<Rightarrow> False
      | (Inr px, e') \<Rightarrow> (case compute_trade_risk (om_require_stop om) n px (sg_stop_price sg) of
           Inl _ \<Rightarrow> False
         | Inr risk \<Rightarrow> passed (validate_order (om_require_support om) (\<lambda>k. om_kv_get om k e') (om_broker om) e'
             (order_check_of om sg n a px risk)))) \<and>
     (triggered (sg_order_type sg) \<longrightarrow> isfinite (sg_stop_price sg) \<and> \<not> sg_stop_price sg \<le> Fin 0 \<and>
        br_supports_trigger (om_broker om))"
  by (auto simp: gates_passed_def split: prod.split sum.split)

text \<open>At most one order is appended to the log, with the record the store held at that moment: the
  intent's own, durably \<open>SUBMITTED\<close> (\<open>sent_ok\<close>).\<close>

definition one_send :: "'b manager \<Rightarrow> signal \<Rightarrow> int \<Rightarrow> submit_args \<Rightarrow> 'b \<Rightarrow> sent list \<Rightarrow> sent list \<Rightarrow> bool" where
  "one_send om sg n a e l l' \<longleftrightarrow> l' = l \<or> gates_passed om sg n a e \<and>
     (\<exists>entry. l' = l @ [entry] \<and> sent_ok entry \<and> (\<exists>rec. entry = Placed (place_request_of sg n
        (if triggered (sg_order_type sg) then Some (sg_stop_price sg) else None)) rec))"

text \<open>\<open>sends_by P m X\<close>: from \<open>P\<close>, \<open>m\<close> leaves a log in \<open>X\<close> whether it returns or raises.\<close>

definition sends_by :: "('b world \<Rightarrow> bool) \<Rightarrow> ('b world, 'a) ef \<Rightarrow> (sent list \<Rightarrow> bool) \<Rightarrow> bool" where
  "sends_by P m X \<longleftrightarrow> triple P m (\<lambda>_ w. X (w_sent w)) (\<lambda>_ w. X (w_sent w))"

lemma sends_by_iff: "sends_by P m X \<longleftrightarrow> (\<forall>w. P w \<longrightarrow> X (w_sent (snd (m w))))"
  unfolding sends_by_def triple_def by (simp add: case_prod_beta' split: sum.split)

lemma calm_sent: "calm m \<Longrightarrow> sends_by (\<lambda>w. X (w_sent w)) m X"
  unfolding sends_by_def by (rule tripleI) (use calmD in \<open>fastforce\<close>)+

lemma sends_by_pre: "sends_by P' m X \<Longrightarrow> (\<And>w. P w \<Longrightarrow> P' w) \<Longrightarrow> sends_by P m X"
  unfolding sends_by_def by (erule triple_pre)

lemma sends_by_calm: "calm m \<Longrightarrow> (\<And>w. P w \<Longrightarrow> X (w_sent w)) \<Longrightarrow> sends_by P m X"
  by (rule sends_by_pre [OF calm_sent])

lemma sends_by_store:
  assumes "X l" and "\<And>x. sends_by (idle e l) (f x) X"
  shows "sends_by (idle e l) (ef_bind (store_call g) f) X"
proof -
  have "triple (idle e l) (store_call g) (\<lambda>_. idle e l) (\<lambda>_ w. X (w_sent w))"
    by (rule triple_conseq [OF triple_idle_store]) (use assms(1) in \<open>auto simp: idle_def\<close>)
  then show ?thesis
    unfolding sends_by_def by (rule triple_bind) (rule assms(2) [unfolded sends_by_def])
qed

lemma sends_by_store_seq:
  assumes "X l" and "sends_by (idle e l) m X"
  shows "sends_by (idle e l) (ef_seq (store_call g) m) X"
  unfolding ef_seq_def by (rule sends_by_store) (rule assms)+

lemma sends_by_save:
  assumes "X l" and "sends_by (\<lambda>w. idle e l w \<and> mem_get (r_client_order_id r) (w_store w) = Some r) m X"
  shows "sends_by (idle e l) (ef_seq (st_save r) m) X"
proof -
  have "triple (idle e l) (st_save r)
      (\<lambda>_ w. idle e l w \<and> mem_get (r_client_order_id r) (w_store w) = Some r) (\<lambda>_ w. X (w_sent w))"
    unfolding st_save_def
  proof (rule tripleI)
    fix w u and w' :: "'a world"
    assume "idle e l w" "store_call (mem_save r) w = (Inr u, w')"
    then show "idle e l w' \<and> mem_get (r_client_order_id r) (w_store w') = Some r"
      by (cases rule: store_call_cases [of "mem_save r" w])
         (auto simp: idle_def mem_save_def mem_get_def update_conv' split: if_splits)
  next
    fix w x and w' :: "'a world"
    assume "idle e l w" "store_call (mem_save r) w = (Inl x, w')"
    then show "X (w_sent w')"
      by (cases rule: store_call_cases [of "mem_save r" w]) (use assms(1) in \<open>auto simp: idle_def\<close>)
  qed
  then show ?thesis
    unfolding sends_by_def ef_seq_def by (rule triple_bind) (rule assms(2) [unfolded sends_by_def])
qed

lemma sends_by_move:
  assumes "\<And>r'. transition (om_now om) st reason rc r = Inr r' \<Longrightarrow> sends_by P (f r') X" and "\<And>w. P w \<Longrightarrow> X (w_sent w)"
  shows "sends_by P (ef_bind (move om st reason rc r) f) X"
  using assms unfolding sends_by_def by (intro triple_move_bind) auto

lemma sends_by_if: "(b \<Longrightarrow> sends_by P m X) \<Longrightarrow> (\<not> b \<Longrightarrow> sends_by P n X) \<Longrightarrow> sends_by P (if b then m else n) X"
  by simp

lemma sends_once:
  assumes g: "gates_passed om sg n a e" and r: "records sg n r"
    and t: "trigger = (if triggered (sg_order_type sg) then Some (sg_stop_price sg) else None)"
  shows "sends_by (idle b l) (send_order om' sg n r costs trigger) (one_send om sg n a e l)"
  unfolding send_order_def persist_order_def Let_def
proof (intro sends_by_move)
  fix r1
  assume r1: "transition (om_now om') SUBMITTED ''sending to broker'' False r = Inr r1"
  define r2 where "r2 = r1\<lparr>r_history := r_history r1 @
    [JObj [(''costs'', costs_json costs), (''at'', JStr (r_updated_at r1))]]\<rparr>"
  have ok: "sent_ok (Placed (place_request_of sg n trigger) (Some r2))"
    and c: "r_client_order_id r2 = sg_client_order_id sg"
    using r r1 by (auto simp: records_def r2_def transition_Inr place_request_of_def)
  have p: "sends_by (\<lambda>w. idle b l w \<and> mem_get (r_client_order_id r2) (w_store w) = Some r2)
      (place om' (place_request_of sg n trigger)) (one_send om sg n a e l)"
    using g ok t c
    by (auto simp: triple_def place_def ef_seq_def ef_bind_def ef_modify_def on_env_def one_send_def
        sends_by_def idle_def place_request_of_def split: prod.splits sum.splits)
  have s: "sends_by (\<lambda>w. idle b l w \<and> mem_get (r_client_order_id r2) (w_store w) = Some r2)
      (ef_bind (ef_try (place om' (place_request_of sg n trigger))) (settle_submission om' r2)) (one_send om sg n a e l)"
    unfolding sends_by_def
    by (rule triple_bind [OF triple_try [OF p [unfolded sends_by_def]]])
       (rule calm_sent [OF calm_settle, unfolded sends_by_def])
  have a: "ef_bind (ef_seq (store_call g) (ef_return x)) f = ef_seq (store_call g) (f x)"
    for g :: "order_store \<Rightarrow> unit res \<times> order_store" and x and f :: "'c \<Rightarrow> ('b world, 'd) ef"
    by (auto simp: ef_seq_def ef_bind_def ef_return_def fun_eq_iff split: prod.split sum.split)
  show "sends_by (idle b l) (ef_bind (ef_seq (st_save (r1\<lparr>r_history := r_history r1 @
        [JObj [(''costs'', costs_json costs), (''at'', JStr (r_updated_at r1))]]\<rparr>))
      (ef_return (r1\<lparr>r_history := r_history r1 @ [JObj [(''costs'', costs_json costs), (''at'', JStr (r_updated_at r1))]]\<rparr>)))
      (\<lambda>r. ef_bind (ef_try (place om' (place_request_of sg n trigger))) (settle_submission om' r))) (one_send om sg n a e l)"
    unfolding r2_def [symmetric] st_save_def a
    by (rule sends_by_save [unfolded st_save_def, OF _ s]) (simp add: one_send_def)
qed (simp add: idle_def one_send_def)

lemma gate_sends_once:
  assumes el: "require_eligible_for_live om e = Inr ()" and r: "records sg n r" and px: "resolve_reference_price om sg e = (Inr px, b)"
  shows "sends_by (idle b l) (gate_order om sg n a r px) (one_send om sg n a e l)"
proof (cases "compute_trade_risk (om_require_stop om) n px (sg_stop_price sg)")
  case (Inl x)
  show ?thesis unfolding gate_order_def Let_def Inl sum.case
    by (rule sends_by_calm) (auto intro: calm_rule simp: idle_def one_send_def)
next
  case (Inr risk)
  let ?v = "validate_order (om_require_support om) (\<lambda>k. om_kv_get om k b) (om_broker om) b
    (order_check_of om sg n a px risk)"
  have a: "sends_by (idle b l) (approve_order om sg n r costs) (one_send om sg n a e l)" if "passed ?v" for costs
    unfolding approve_order_def st_save_def
    by (intro sends_by_move sends_by_if sends_by_store_seq sends_once)
       (use that el px r Inr in \<open>auto simp: gates_passed_def idle_def one_send_def transition_Inr
         intro!: sends_by_calm intro: calm_rule\<close>)
  have "sends_by (idle b l) (if \<not> passed ?v
      then ef_seq (reject om r (join ''; '' (failed_checks ?v)) (failed_checks ?v)) (ef_return None)
      else approve_order om sg n r costs) (one_send om sg n a e l)" for costs
    by (rule sends_by_if [OF sends_by_calm a]) (auto intro: calm_rule simp: idle_def one_send_def)
  then show ?thesis
    unfolding gate_order_def Let_def Inr sum.case
    by (auto simp: sends_by_iff ef_bind_def ef_get_def idle_def)
qed

lemma price_sends_once:
  assumes "require_eligible_for_live om e = Inr ()" and "records sg n r"
  shows "sends_by (idle e l) (price_order om sg n a r) (one_send om sg n a e l)"
proof (cases "resolve_reference_price om sg e")
  case (Pair p b)
  let ?next = "case p of
       Inl e \<Rightarrow> if is_safety_error e
         then ef_seq (reject om r (exn_msg e) [''reference_price: '' @ exn_msg e]) (ef_return None)
         else ef_raise e
     | Inr px \<Rightarrow> gate_order om sg n a (r\<lparr>r_reference_price := px\<rparr>) px"
  have "sends_by (idle b l) ?next (one_send om sg n a e l)"
  proof (cases p)
    case (Inl x)
    show ?thesis unfolding Inl sum.case
      by (rule sends_by_calm) (auto intro: calm_rule simp: idle_def one_send_def)
  next
    case (Inr px)
    have "records sg n (r\<lparr>r_reference_price := px\<rparr>)" using assms(2) by (simp add: records_def)
    then show ?thesis using gate_sends_once [OF assms(1)] Pair Inr by simp
  qed
  then show ?thesis using Pair
    by (auto simp: price_order_def sends_by_iff ef_bind_def ef_try_def on_env_def idle_def)
qed

lemma submit_sends_once:
  "sends_by (idle e l) (submit_order om sg n a) (one_send om sg n a e l)"
proof (cases "require_eligible_for_live om e")
  case (Inl x)
  then show ?thesis
    by (auto simp: sends_by_iff submit_order_def ef_seq_def ef_bind_def env_read_def idle_def one_send_def)
next
  case (Inr u)
  then have el: "require_eligible_for_live om e = Inr ()" by simp
  have r: "sends_by (idle e l) (submit_reserved om sg n a r0) (one_send om sg n a e l)"
    if r0: "records sg n r0" for r0
  proof -
    have f: "ef_bind (blocking_record_for sg) f = ef_bind st_list_open (\<lambda>rs. f
       (List.find (\<lambda>r. is_blocked r \<and> r_symbol r = sg_symbol sg \<and> r_strategy r = sg_strategy sg) rs))"
      for f :: "order_record option \<Rightarrow> ('a world, 'c) ef"
      by (auto simp: blocking_record_for_def ef_bind_def ef_return_def fun_eq_iff split: prod.split sum.split)
    show ?thesis
      unfolding submit_reserved_def f st_list_open_def Let_def
    proof (rule sends_by_store, simp add: one_send_def, split option.split, intro conjI allI impI)
      show "sends_by (idle e l) (ef_bind (move om RISK_CHECK_PENDING ''running gates'' False r0) (\<lambda>r1.
         ef_seq (st_save r1) (price_order om sg n a r1))) (one_send om sg n a e l)"
        unfolding st_save_def
        by (intro sends_by_move sends_by_store_seq price_sends_once el) (auto simp: one_send_def idle_def transition_Inr r0)
    qed (rule sends_by_calm, intro calm_rule, simp add: idle_def one_send_def)
  qed
  have "sends_by (idle e l) (ef_bind (st_reserve (intent_record (om_now om) sg n)) (\<lambda>reserved.
      if reserved then submit_reserved om sg n a (intent_record (om_now om) sg n)
      else handle_existing_intent om (sg_client_order_id sg))) (one_send om sg n a e l)"
    unfolding st_reserve_def
    by (intro sends_by_store sends_by_if r records_intent) (auto simp: one_send_def idle_def intro!: sends_by_calm calm_rule)
  then show ?thesis using el
    by (auto simp: submit_order_def sends_by_iff ef_seq_def ef_bind_def env_read_def idle_def Let_def)
qed

text \<open>A submission of an id the store already holds sends nothing: the id cannot be reserved.\<close>

lemma sends_only_reserved:
  assumes "mem_get (sg_client_order_id sg) (w_store w) \<noteq> None"
  shows "w_sent (snd (submit_order om sg n a w)) = w_sent w"
proof -
  let ?r0 = "intent_record (om_now om) sg n"
  have "triple (\<lambda>v. v = w) (st_reserve ?r0) (\<lambda>x v. \<not> x \<and> w_sent v = w_sent w) (\<lambda>_ v. w_sent v = w_sent w)"
    unfolding st_reserve_def
  proof (rule tripleI)
    fix v x v'
    assume "v = w" "store_call (mem_reserve ?r0) v = (Inr x, v')"
    then show "\<not> x \<and> w_sent v' = w_sent w" using assms
      by (cases rule: store_call_cases [of "mem_reserve ?r0" v])
         (auto simp: mem_reserve_def mem_get_def intent_record_def new_order_record_def)
  next
    fix v x v'
    assume "v = w" "store_call (mem_reserve ?r0) v = (Inl x, v')"
    then show "w_sent v' = w_sent w" by (cases rule: store_call_cases [of "mem_reserve ?r0" v]) auto
  qed
  then have "sends_by (\<lambda>v. v = w) (ef_bind (st_reserve ?r0) (\<lambda>reserved.
      if reserved then submit_reserved om sg n a ?r0
      else handle_existing_intent om (sg_client_order_id sg))) (\<lambda>l. l = w_sent w)"
    unfolding sends_by_def
  proof (rule triple_bind)
    fix x
    show "triple (\<lambda>v. \<not> x \<and> w_sent v = w_sent w) (if x then submit_reserved om sg n a ?r0
        else handle_existing_intent om (sg_client_order_id sg)) (\<lambda>_ v. w_sent v = w_sent w) (\<lambda>_ v. w_sent v = w_sent w)"
      using calm_sent [OF calm_handle_existing, of "\<lambda>l. l = w_sent w" om "sg_client_order_id sg"]
      by (cases x) (auto simp: sends_by_def triple_def)
  qed
  then show ?thesis
    by (cases "require_eligible_for_live om (w_env w)")
       (auto simp: submit_order_def sends_by_iff ef_seq_def ef_bind_def env_read_def Let_def)
qed

text \<open>C4. \<open>submit_order\<close> sends at most one order, and only one that passed every gate. The broker is a
  paper broker or the system is eligible for live trading, a finite positive reference
  price was found, and the safety validator approved this very order at that price in the
  environment as it then was. What is sent is the signal's instrument, side, size, type and id,
  with the stop as trigger price exactly for the stop orders. Before the broker was called, the id was
  reserved by this very call (the store held no record of it) and the record of the order was
  written: at the moment of the call the store holds, under the id, a record of this instrument, side, size
  and type in the state \<open>SUBMITTED\<close> (\<open>sent_ok\<close>).\<close>

theorem sent_orders_passed_every_gate:
  "one_send om sg n a (w_env w) (w_sent w) (w_sent (snd (submit_order om sg n a w))) \<and>
   (w_sent (snd (submit_order om sg n a w)) = w_sent w \<or>
    mem_get (sg_client_order_id sg) (w_store w) = None)"
proof -
  have "idle (w_env w) (w_sent w) w" by (simp add: idle_def)
  then show ?thesis using submit_sends_once [of "w_env w" "w_sent w" om sg n a] sends_only_reserved
    by (fastforce simp: sends_by_iff)
qed


section \<open>Retries and unresolved orders\<close>

text \<open>A store that works.\<close>

lemma store_works:
  "w_outcomes w = [] \<Longrightarrow> store_call f w = (fst (f (w_store w)), w\<lparr>w_store := snd (f (w_store w))\<rparr>)"
  by (cases w) (simp add: store_call_def)

lemmas run_defs = ef_seq_def ef_bind_def ef_return_def ef_raise_def ef_lift_def ef_get_def env_read_def
  st_reserve_def st_save_def st_get_def st_list_open_def st_record_trade_def st_position_def store_works

lemma update_new: "map_of xs k = None \<Longrightarrow> AList.update k v xs = xs @ [(k, v)]"
  by (induction xs) (auto split: if_splits)

text \<open>Submitting an intent again whose order is not ambiguous changes nothing and sends
  nothing: the answer is the broker id of the order the first submission placed, or none.\<close>

theorem retry_is_idempotent:
  assumes "w_outcomes w = []" and "require_eligible_for_live om (w_env w) = Inr ()"
    and "mem_get (sg_client_order_id sg) (w_store w) = Some r" and "\<not> is_blocked r"
  shows "submit_order om sg n a w =
    (Inr (if str_or (r_broker_order_id r) [] = [] then None else r_broker_order_id r), w)"
proof -
  have c: "r_client_order_id (intent_record (om_now om) sg n) = sg_client_order_id sg"
    by (simp add: intent_record_def new_order_record_def)
  show ?thesis
    using assms by (simp add: submit_order_def handle_existing_intent_def Let_def run_defs mem_reserve_def c
        mem_get_def)
qed

theorem retry_is_idempotent_witness:
  "submit_order demo_manager demo_signal 10 demo_args (demo_world ACKNOWLEDGED) =
     (Inr (Some ''B1''), demo_world ACKNOWLEDGED)"
  using retry_is_idempotent [of "demo_world ACKNOWLEDGED" demo_manager demo_signal "demo_order ACKNOWLEDGED"
      10 demo_args] by (simp add: is_blocked_def blocked_states_def)

text \<open>While an order of the same instrument and strategy is in \<open>UNKNOWN\<close>, a new intent
  is refused with \<open>OrderBlockedError\<close>, nothing is sent, and the refusal is durable.\<close>

theorem unresolved_order_blocks_new_work:
  assumes "w_outcomes w = []" and "require_eligible_for_live om (w_env w) = Inr ()"
    and "mem_get (sg_client_order_id sg) (w_store w) = None"
    and "r \<in> set (mem_list_open (w_store w))" and "r_state r = UNKNOWN"
    and "r_symbol r = sg_symbol sg" and "r_strategy r = sg_strategy sg"
  shows "\<exists>m w' r'. submit_order om sg n a w = (Inl (OrderBlockedError m), w') \<and> w_sent w' = w_sent w \<and>
    mem_get (sg_client_order_id sg) (w_store w') = Some r' \<and> r_state r' = RISK_REJECTED"
proof -
  let ?r0 = "intent_record (om_now om) sg n"
  let ?cid = "sg_client_order_id sg"
  let ?P = "\<lambda>r. is_blocked r \<and> r_symbol r = sg_symbol sg \<and> r_strategy r = sg_strategy sg"
  let ?s1 = "(w_store w)\<lparr>st_records := AList.update ?cid ?r0 (st_records (w_store w))\<rparr>"
  have c: "r_client_order_id ?r0 = ?cid" "r_state ?r0 = INTENT_CREATED"
    by (simp_all add: intent_record_def new_order_record_def)
  have u: "AList.update ?cid ?r0 (st_records (w_store w)) = st_records (w_store w) @ [(?cid, ?r0)]"
    using assms(3) by (intro update_new) (simp add: mem_get_def)
  have "r \<in> set (mem_list_open ?s1)" using assms(4) by (simp add: mem_list_open_def mem_list_all_def u)
  moreover have "?P r" using assms by (simp add: is_blocked_def blocked_states_def)
  ultimately obtain b where b: "List.find ?P (mem_list_open ?s1) = Some b"
    by (cases "List.find ?P (mem_list_open ?s1)") (auto simp: find_None_iff)
  have res: "mem_reserve ?r0 (w_store w) = (Inr True, ?s1)"
    using assms(3) by (simp add: mem_reserve_def c mem_get_def)
  show ?thesis
    using assms
    by (auto simp: submit_order_def submit_reserved_def blocking_record_for_def reject_def move_def
        log_rejected_order_def Let_def run_defs res b c mem_save_def mem_get_def update_conv'
        transition_ok may_go_def)
qed

theorem unresolved_order_blocks_new_work_witness:
  "\<exists>m. fst (submit_order demo_manager (demo_signal\<lparr>sg_client_order_id := ''swing2''\<rparr>) 10 demo_args
     (demo_world UNKNOWN)) = Inl (OrderBlockedError m)"
proof -
  have "mem_get ''swing2'' (w_store (demo_world UNKNOWN)) = None" by (simp add: mem_get_def)
  then have "\<exists>m w' r'. submit_order demo_manager (demo_signal\<lparr>sg_client_order_id := ''swing2''\<rparr>) 10 demo_args
      (demo_world UNKNOWN) = (Inl (OrderBlockedError m), w') \<and> w_sent w' = w_sent (demo_world UNKNOWN) \<and>
      mem_get ''swing2'' (w_store w') = Some r' \<and> r_state r' = RISK_REJECTED"
    using unresolved_order_blocks_new_work [of "demo_world UNKNOWN" demo_manager
      "demo_signal\<lparr>sg_client_order_id := ''swing2''\<rparr>" "demo_order UNKNOWN" 10 demo_args]
    by (simp add: demo_list_open terminal_states_def demo_signal_def)
  then show ?thesis by auto
qed

section \<open>Fills\<close>

text \<open>A message that names its side, product and fill id.\<close>

definition fill_of :: "int \<Rightarrow> pyfloat \<Rightarrow> txn_type \<Rightarrow> prdct \<Rightarrow> string \<Rightarrow> fill_msg \<Rightarrow> bool" where
  "fill_of q p t pr fid fm \<longleftrightarrow> fm_qty fm = Some q \<and> fm_price fm = Some p \<and>
     fm_txn_type fm = Some (txn_value t) \<and> fm_product fm = Some (product_value pr) \<and>
     fm_fill_id fm = Some fid \<and> fid \<noteq> []"

lemma fill_id_of_fill_dict [simp]: "fill_id_of (fill_dict fm fid costs) = fid"
  by (simp add: fill_id_of_def fill_dict_def)

lemma upper_txn: "py_upper (txn_value t) = txn_value t"
  by (rule upper_names)

lemma txn_is_buy: "txn_value t = ''BUY'' \<longleftrightarrow> t = BUY"
  by (cases t) simp_all

text \<open>A fill whose id the order has already applied changes nothing at all, neither the order
  nor the trade log nor the position, and is answered as a duplicate with the current figures.\<close>

theorem duplicate_fill_changes_nothing:
  assumes "w_outcomes w = []" and "mem_get ref (w_store w) = Some r" and "\<not> is_blocked r"
    and "fill_of q p t pr fid fm" and "fid \<in> set (r_applied_fill_ids r)"
  shows "handle_fill om ref fm w = (Inr \<lparr>fr_fill_id = fid, fr_duplicate = True, fr_state = r_state r,
    fr_filled_qty = r_filled_qty r, fr_remaining_qty = remaining_qty r\<rparr>, w)"
  using assms
  by (simp add: handle_fill_def get_record_def run_defs fill_of_def apply_fill_def Let_def)

definition demo_fill :: "string \<Rightarrow> fill_msg" where
  "demo_fill fid = \<lparr>fm_qty = Some 6, fm_price = Some (Fin 1500), fm_txn_type = Some ''BUY'',
     fm_product = Some ''CNC'', fm_exchange = None, fm_symbol = None, fm_fill_id = Some fid,
     fm_text = (\<lambda>_. []), fm_rest = []\<rparr>"

lemma demo_fill_of: "fid \<noteq> [] \<Longrightarrow> fill_of 6 (Fin 1500) BUY CNC fid (demo_fill fid)"
  by (simp add: fill_of_def demo_fill_def)

theorem duplicate_fill_changes_nothing_witness:
  "snd (handle_fill demo_manager ''swing1'' (demo_fill ''F1'') (demo_world PARTIALLY_FILLED)) =
     demo_world PARTIALLY_FILLED"
  using duplicate_fill_changes_nothing [of "demo_world PARTIALLY_FILLED" "''swing1''"
      "demo_order PARTIALLY_FILLED" 6 "Fin 1500" BUY CNC "''F1''" "demo_fill ''F1''" demo_manager]
  by (simp add: is_blocked_def blocked_states_def demo_fill_of)

text \<open>A new, valid fill of a live order is booked once and everywhere: the order's filled
  quantity grows by the fill, the order is \<open>FILLED\<close> exactly when nothing remains, the trade id is
  recorded, and the position of the instrument moves by the signed quantity.\<close>

theorem fill_is_booked_everywhere:
  assumes "w_outcomes w = []" and "mem_get ref (w_store w) = Some r" and "r_client_order_id r = ref"
    and "r_state r \<in> {SUBMITTED, ACKNOWLEDGED, PARTIALLY_FILLED}"
    and "fill_of q p t pr fid fm" and "0 < q" and "isfinite p" and "r_filled_qty r + q \<le> r_qty r"
    and "fid \<notin> set (r_applied_fill_ids r)" and "fid \<notin> st_trade_ids (w_store w)"
  shows "\<exists>res w' r'. handle_fill om ref fm w = (Inr res, w') \<and> \<not> fr_duplicate res \<and>
    mem_get ref (w_store w') = Some r' \<and> r_filled_qty r' = r_filled_qty r + q \<and>
    r_state r' = (if r_filled_qty r + q = r_qty r then FILLED else PARTIALLY_FILLED) \<and>
    st_trade_ids (w_store w') = insert fid (st_trade_ids (w_store w)) \<and>
    pos_quantity (mem_get_position (r_symbol r) (r_exchange r) (r_product r) (w_store w')) =
      pos_quantity (mem_get_position (r_symbol r) (r_exchange r) (r_product r) (w_store w)) +
        (if t = BUY then q else - q) \<and> w_sent w' = w_sent w"
proof -
  obtain r1 where a: "apply_fill (om_now om) q p fid r = Inr (True, r1)"
    and r1: "r_filled_qty r1 = r_filled_qty r + q" "r_state r1 = r_state r" "r_qty r1 = r_qty r"
      "r_client_order_id r1 = ref" "r_symbol r1 = r_symbol r" "r_exchange r1 = r_exchange r"
      "r_product r1 = r_product r" "r_side r1 = r_side r"
    using assms by (auto simp: apply_fill_def Let_def)
  have b: "\<not> is_blocked r" using assms(4) by (auto simp: is_blocked_def blocked_states_def)
  have rem: "remaining_qty r1 = 0 \<longleftrightarrow> r_filled_qty r + q = r_qty r"
    using assms(8) by (auto simp: remaining_qty_def r1)
  have g: "may_go (r_state r1) (if remaining_qty r1 = 0 then FILLED else PARTIALLY_FILLED) False"
    using assms(4) by (auto simp: may_go_def r1)
  have c: "case_option 0 id (Some q) = q" for q :: int by simp
  show ?thesis
    using assms b a r1 rem g
    by (auto simp: handle_fill_def get_record_def run_defs fill_of_def book_fill_def move_def Let_def
        mem_record_trade_def update_order_status_def mem_save_def mem_get_def update_position_def
        mem_apply_position_delta_def mem_get_position_def update_conv' upper_txn txn_is_buy
        transition_ok)
qed

theorem fill_is_booked_everywhere_witness:
  "\<exists>r'. mem_get ''swing1'' (w_store (snd (handle_fill demo_manager ''swing1'' (demo_fill ''F2'')
     (demo_world PARTIALLY_FILLED)))) = Some r' \<and> r_state r' = FILLED \<and> r_filled_qty r' = 10"
proof -
  have f: "fill_of 6 (Fin 1500) BUY CNC ''F2'' (demo_fill ''F2'')" by (rule demo_fill_of) simp
  show ?thesis
    using fill_is_booked_everywhere [of "demo_world PARTIALLY_FILLED" "''swing1''" "demo_order PARTIALLY_FILLED",
      OF _ _ _ _ f, of demo_manager] by force
qed

text \<open>A valid fill that arrives after the order became terminal is half booked: the trade
  log takes it, the state change is refused, and neither the order nor any position moves.\<close>

theorem late_fill_is_half_booked:
  assumes "w_outcomes w = []" and "mem_get ref (w_store w) = Some r" and "r_client_order_id r = ref"
    and "is_terminal r"
    and "fill_of q p t pr fid fm" and "0 < q" and "isfinite p" and "r_filled_qty r + q \<le> r_qty r"
    and "fid \<notin> set (r_applied_fill_ids r)" and "fid \<notin> st_trade_ids (w_store w)"
  shows "\<exists>m w'. handle_fill om ref fm w = (Inl (IllegalStateTransition m), w') \<and>
    st_trade_ids (w_store w') = insert fid (st_trade_ids (w_store w)) \<and>
    st_records (w_store w') = st_records (w_store w) \<and> st_positions (w_store w') = st_positions (w_store w)"
proof -
  obtain r1 where a: "apply_fill (om_now om) q p fid r = Inr (True, r1)"
    and r1: "r_state r1 = r_state r" "r_client_order_id r1 = ref"
    using assms by (auto simp: apply_fill_def Let_def)
  have b: "\<not> is_blocked r" using assms(4) by (auto simp: is_blocked_def blocked_states_def is_terminal_def terminal_states_def)
  have "\<not> may_go (r_state r1) st False" for st
    using assms(4) terminal_no_transition [of "r_state r"] by (simp add: may_go_def r1 is_terminal_def)
  then obtain m where m: "transition (om_now om) (if remaining_qty r1 = 0 then FILLED else PARTIALLY_FILLED)
      (''fill '' @ int_str (r_filled_qty r1) @ ''/'' @ int_str (r_qty r1)) False r1 = Inl (IllegalStateTransition m)"
    using transition_bad by blast
  show ?thesis
    using assms b a r1 m
    by (auto simp: handle_fill_def get_record_def run_defs fill_of_def book_fill_def move_def Let_def
        mem_record_trade_def)
qed

theorem late_fill_is_half_booked_witness:
  "''F2'' \<in> st_trade_ids (w_store (snd (handle_fill demo_manager ''swing1'' (demo_fill ''F2'') (demo_world CANCELLED))))"
proof -
  have f: "fill_of 6 (Fin 1500) BUY CNC ''F2'' (demo_fill ''F2'')" by (rule demo_fill_of) simp
  have t: "is_terminal (demo_order CANCELLED)" by (simp add: is_terminal_def terminal_states_def)
  show ?thesis
    using late_fill_is_half_booked [of "demo_world CANCELLED" "''swing1''" "demo_order CANCELLED",
      OF _ _ _ t f, of demo_manager] by force
qed

section \<open>Recovery\<close>

lemma iter_list_all2:
  assumes "ef_iter f xs s = (Inr ys, s')"
    and "\<And>x s y s'. x \<in> set xs \<Longrightarrow> f x s = (Inr y, s') \<Longrightarrow> P x y"
  shows "list_all2 P xs ys"
  using assms
proof (induction xs arbitrary: s ys s')
  case (Cons x xs)
  from Cons.prems(1) obtain y ys' s1 where "f x s = (Inr y, s1)" "ef_iter f xs s1 = (Inr ys', s')" "ys = y # ys'"
    by (auto simp: ef_bind_def ef_return_def split: prod.splits sum.splits)
  then show ?case using Cons.IH [of s1 ys' s'] Cons.prems(2) by auto
qed (auto simp: ef_return_def)

lemma move_Inr: "move om st reason rc r w = (Inr r', w') \<longleftrightarrow>
    may_go (r_state r) st rc \<and> r' = set_state (om_now om) st reason rc r \<and> w' = w"
  by (auto simp: move_def ef_lift_def transition_Inr)

text \<open>Destructing the return of a composed effect.\<close>

lemma ef_bind_Inr: "ef_bind m f s = (Inr y, s') \<longleftrightarrow> (\<exists>x s1. m s = (Inr x, s1) \<and> f x s1 = (Inr y, s'))"
  by (auto simp: ef_bind_def split: prod.splits sum.splits)

lemma ef_seq_Inr: "ef_seq m n s = (Inr y, s') \<longleftrightarrow> (\<exists>x s1. m s = (Inr x, s1) \<and> n s1 = (Inr y, s'))"
  by (simp add: ef_seq_def ef_bind_Inr)

lemma ef_return_eq: "ef_return x s = (r, s') \<longleftrightarrow> r = Inr x \<and> s' = s"
  by (auto simp: ef_return_def)

lemma ef_raise_eq: "ef_raise e s = (r, s') \<longleftrightarrow> r = Inl e \<and> s' = s"
  by (auto simp: ef_raise_def)

lemmas ef_inv = ef_bind_Inr ef_seq_Inr ef_return_eq ef_raise_eq move_Inr

definition deaf :: "'b broker \<Rightarrow> bool" where
  "deaf br \<longleftrightarrow> (\<forall>b. case fst (br_get_orders br b) of Inl e \<Rightarrow> True | Inr x \<Rightarrow> x = None)"

lemma deaf_query:
  "deaf (om_broker om) \<Longrightarrow> \<exists>w'. query_broker_for_tag om r w = (Inr Unreadable, w')"
proof -
  assume "deaf (om_broker om)"
  then have "case fst (br_get_orders (om_broker om) (w_env w)) of Inl e \<Rightarrow> True | Inr x \<Rightarrow> x = None"
    by (simp add: deaf_def)
  then show ?thesis
    by (auto simp: query_broker_for_tag_def ef_bind_def ef_return_def ef_try_def on_env_def
        split: prod.splits sum.splits)
qed

lemma recover_one_deaf:
  assumes "deaf (om_broker om)" and "\<not> is_terminal r" and "recover_one om r w = (Inr x, w')"
  shows "\<exists>r'. x = Some r' \<and> r_client_order_id r' = r_client_order_id r \<and>
    r_state r' = (if r_state r \<in> set pre_submit then RISK_REJECTED else UNKNOWN)"
proof -
  obtain w1 where q: "query_broker_for_tag om r w = (Inr Unreadable, w1)"
    using deaf_query [OF assms(1)] by blast
  show ?thesis
    using assms(2,3)
    by (cases "r_state r")
       (auto simp: recover_one_def recover_sent_def ef_inv q pre_submit_def is_terminal_def terminal_states_def)
qed

text \<open>Recovery fails closed: when the broker's order book cannot be read, every open order of
  the store is accounted for, an intent that never reached the broker call becomes
  \<open>RISK_REJECTED\<close>, every other order becomes \<open>UNKNOWN\<close>, which blocks its instrument and
  strategy, and nothing is sent.\<close>

theorem recovery_fails_closed:
  assumes "deaf (om_broker om)" and "recover om w = (Inr rs, w')"
  shows "list_all2 (\<lambda>r r'. r_client_order_id r' = r_client_order_id r \<and>
      r_state r' = (if r_state r \<in> set pre_submit then RISK_REJECTED else UNKNOWN))
    (mem_list_open (w_store w)) rs \<and> w_sent w' = w_sent w"
proof -
  from assms(2) obtain os w1 xs where l: "st_list_open w = (Inr os, w1)"
    and i: "ef_iter (recover_one om) os w1 = (Inr xs, w')" and rs: "rs = List.map_filter id xs"
    by (auto simp: recover_def ef_inv)
  have os: "os = mem_list_open (w_store w)"
    using l by (cases rule: store_call_cases [of "\<lambda>s. (Inr (mem_list_open s), s)" w]) (auto simp: st_list_open_def)
  have "list_all2 (\<lambda>r x. \<exists>r'. x = Some r' \<and> r_client_order_id r' = r_client_order_id r \<and>
      r_state r' = (if r_state r \<in> set pre_submit then RISK_REJECTED else UNKNOWN)) os xs"
    by (rule iter_list_all2 [OF i], rule recover_one_deaf [OF assms(1)])
       (auto simp: os mem_list_open_def)
  then have "list_all2 (\<lambda>r r'. r_client_order_id r' = r_client_order_id r \<and>
      r_state r' = (if r_state r \<in> set pre_submit then RISK_REJECTED else UNKNOWN)) os rs"
    unfolding rs by (induction rule: list_all2_induct) (auto simp: map_filter_def)
  then show ?thesis using calmD [OF calm_recover assms(2)] by (simp add: os)
qed

definition deaf_manager :: "unit manager" where
  "deaf_manager = demo_manager\<lparr>om_broker := open_broker\<lparr>br_get_orders := ef_raise (PyExn ''TimeoutError'' ''no answer'')\<rparr>\<rparr>"

theorem recovery_fails_closed_witness:
  "\<exists>r. fst (recover deaf_manager (demo_world ACKNOWLEDGED)) = Inr [r] \<and> r_state r = UNKNOWN"
proof -
  have d: "deaf (om_broker deaf_manager)"
    by (simp add: deaf_def deaf_manager_def demo_manager_def ef_raise_def)
  have "\<exists>rs w'. recover deaf_manager (demo_world ACKNOWLEDGED) = (Inr rs, w')"
    by (simp add: recover_def recover_one_def recover_sent_def query_broker_for_tag_def run_defs ef_try_def
        on_env_def move_def deaf_manager_def demo_manager_def demo_list_open terminal_states_def mem_save_def
        transition_ok may_go_def)
  then obtain rs w' where r: "recover deaf_manager (demo_world ACKNOWLEDGED) = (Inr rs, w')" by blast
  from recovery_fails_closed [OF d r] show ?thesis
    by (auto simp: r demo_list_open terminal_states_def pre_submit_def list_all2_Cons1)
qed

lemma walk_chain_step:
  "st \<in> set (legal_transitions (r_state r)) \<Longrightarrow> r_state r \<noteq> st \<Longrightarrow> r_state r \<noteq> UNKNOWN \<Longrightarrow>
     walk_chain now (st # sts) r =
       walk_chain now sts (set_state now st ''found at broker during recovery'' False r)"
  by (simp add: transition_ok may_go_def)

lemma walk_chain_skip:
  "r_state r = st \<or> st \<notin> set (legal_transitions (r_state r)) \<Longrightarrow>
     walk_chain now (st # sts) r = walk_chain now sts r"
  by auto

text \<open>A record found at the broker in a state before its submission is walked to
  \<open>SUBMITTED\<close>, always, through declared transitions, and stays the same order.\<close>

theorem walk_reaches_submitted:
  assumes "r_state r \<in> set pre_submit" and "record_ok r"
  shows "\<exists>r'. walk_to_submitted now r = Inr r' \<and> r_state r' = SUBMITTED \<and> record_ok r' \<and>
    r_client_order_id r' = r_client_order_id r \<and> r_qty r' = r_qty r"
proof -
  have "\<exists>r'. walk_to_submitted now r = Inr r' \<and> r_state r' = SUBMITTED \<and>
    r_client_order_id r' = r_client_order_id r \<and> r_qty r' = r_qty r"
    using assms(1)
    by (auto simp: pre_submit_def walk_to_submitted_def walk_chain_step walk_chain_skip simp del: walk_chain.simps(2))
  moreover have "rec_ok False r" using assms(2) by (simp add: rec_ok_def)
  ultimately show ?thesis using walk_ok [of False r] by (auto simp: rec_ok_def)
qed

theorem walk_reaches_submitted_witness:
  "\<exists>r'. walk_to_submitted ''t2'' demo_record = Inr r' \<and> r_state r' = SUBMITTED"
  using walk_reaches_submitted [of demo_record "''t2''"] record_life_ok [OF demo_record_life]
  by (auto simp: demo_record_def new_order_record_def pre_submit_def)

text \<open>A partially filled order that has left the broker's book aborts the whole recovery: its
  move to \<open>REJECTED\<close> is not a declared transition, the exception escapes the loop, and the
  open orders after it are not reconciled.\<close>

theorem vanished_partial_fill_aborts_recovery:
  assumes "w_outcomes w = []" and "mem_list_open (w_store w) = r # rs" and "r_state r = PARTIALLY_FILLED"
    and "br_get_orders (om_broker om) (w_env w) = (Inr (Some os), b)" and "scan_book r os = Absent"
  shows "\<exists>m w'. recover om w = (Inl (IllegalStateTransition m), w') \<and> w_store w' = w_store w"
proof -
  obtain m where "transition (om_now om) REJECTED ''absent from broker order book at recovery'' False r =
      Inl (IllegalStateTransition m)"
    using transition_bad [of r REJECTED False] assms(3) by (auto simp: may_go_def)
  then show ?thesis
    using assms
    by (simp add: recover_def recover_one_def recover_sent_def query_broker_for_tag_def run_defs ef_try_def
        on_env_def move_def)
qed

theorem vanished_partial_fill_aborts_recovery_witness:
  "\<exists>m. fst (recover demo_manager (demo_world PARTIALLY_FILLED)) = Inl (IllegalStateTransition m)"
  using vanished_partial_fill_aborts_recovery [of "demo_world PARTIALLY_FILLED" "demo_order PARTIALLY_FILLED"
      "[]" demo_manager "[]" "()"]
  by (auto simp: demo_list_open terminal_states_def demo_manager_def open_broker_def ef_return_def)

section \<open>The emergency flatten\<close>

text \<open>The flatten halts trading before it sends anything. With the switch already engaged and
  no override it raises and changes nothing; and whenever it has sent an order, either a human
  overrode an engaged switch or the switch was written and read back as set in the environment in
  which the first broker call was made.\<close>

theorem flatten_halts_first:
  "(if is_kill_switch_active (\<lambda>k. om_kv_get om k (w_env w)) \<and> \<not> override
    then \<exists>m. emergency_flatten_all om override session w = (Inl (KillSwitchActiveError m), w)
    else w_sent (snd (emergency_flatten_all om override session w)) = w_sent w \<or>
      is_kill_switch_active (\<lambda>k. om_kv_get om k (w_env w)) \<and> override \<or>
      (\<exists>e' v. halt_first om override (w_env w) = (Inr (), e') \<and> om_kv_get om KILL_SWITCH_KEY e' = Inr v \<and>
         v \<noteq> KNone \<and> v \<notin> set FALSEY))"
proof (cases "halt_first om override (w_env w)")
  case (Pair r e')
  show ?thesis
  proof (cases "is_kill_switch_active (\<lambda>k. om_kv_get om k (w_env w))")
    case True
    then show ?thesis
      by (auto simp: emergency_flatten_all_def halt_first_def ef_seq_def ef_bind_def on_env_def)
  next
    case False
    then have e: "engage_kill_switch (om_kv_get om) (om_kv_set om) (w_env w) = (r, e')"
      using Pair by (simp add: halt_first_def)
    show ?thesis
    proof (cases r)
      case (Inl x)
      then show ?thesis using False Pair
        by (simp add: emergency_flatten_all_def ef_seq_def ef_bind_def on_env_def)
    next
      case (Inr u)
      then have "\<exists>v. om_kv_get om KILL_SWITCH_KEY e' = Inr v \<and> v \<noteq> KNone \<and> v \<notin> set FALSEY"
        using e by (auto simp: engage_kill_switch_def split: option.splits prod.splits sum.splits if_splits)
      then show ?thesis using False Pair Inr by auto
    qed
  qed
qed

section \<open>Prices, risk, monitoring, cancellation\<close>

lemma triple_any: "triple P m (\<lambda>_ _. True) (\<lambda>_ _. True)"
  by (simp add: triple_def split: prod.split sum.split)

lemma triple_sum_case:
  "(\<And>e. triple P (f e) Q E) \<Longrightarrow> (\<And>x. triple P (g x) Q E) \<Longrightarrow>
     triple P (case r of Inl e \<Rightarrow> f e | Inr x \<Rightarrow> g x) Q E"
  by (cases r) auto

lemma triple_option_case:
  "triple P m Q E \<Longrightarrow> (\<And>x. triple P (g x) Q E) \<Longrightarrow>
     triple P (case x of None \<Rightarrow> m | Some y \<Rightarrow> g y) Q E"
  by (cases x) auto

text \<open>The price an order is sized against is a finite positive number, for every order type:
  a missing, stale, non-numeric, \<open>NaN\<close>, infinite or non-positive price raises instead.\<close>

theorem reference_price_is_positive:
  assumes "resolve_reference_price om sg b = (Inr px, b')"
  shows "isfinite px \<and> Fin 0 < px"
proof -
  have p: "Fin 0 < x" if "isfinite x" "\<not> x \<le> Fin 0" for x using that by (cases x) auto
  have "triple (\<lambda>_. True) (resolve_reference_price om sg) (\<lambda>x _. isfinite x \<and> \<not> x \<le> Fin 0) (\<lambda>_ _. True)"
    unfolding resolve_reference_price_def
    by (intro triple_if triple_bind [where R = "\<lambda>_ _. True"] triple_sum_case triple_option_case triple_any)
       (auto simp: triple_def ef_return_def ef_raise_def)
  from tripleD_ok [OF this _ assms] show ?thesis by (auto intro: p)
qed

theorem reference_price_is_positive_witness:
  "resolve_reference_price demo_manager demo_signal () = (Inr (Fin 1500), ()) \<and> Fin 0 < Fin 1500"
proof -
  have r: "resolve_reference_price demo_manager demo_signal () = (Inr (Fin 1500), ())"
    by (simp add: resolve_reference_price_def demo_signal_def market_priced_def ef_return_def)
  with reference_price_is_positive [OF r] show ?thesis by simp
qed

text \<open>The capital at risk is never negative and never more than the notional; without a
  usable stop it is the whole notional, and a required stop that is missing raises.\<close>

theorem trade_risk_is_bounded:
  assumes "compute_trade_risk require_stop n px stop = Inr risk"
    and "1 \<le> n" and "n \<le> 2 ^ 53" and "isfinite px" and "Fin 0 < px"
  shows "Fin 0 \<le> risk \<and> risk \<le> fint n * px \<and>
    (\<not> (isfinite stop \<and> Fin 0 < stop) \<longrightarrow> \<not> require_stop \<and> risk = fint n * px)"
proof -
  obtain x where x: "px = Fin x" "0 < x" using assms by (auto simp: isfinite_iff)
  have n: "fint n = Fin (of_int n)" using assms by (intro fint_small) auto
  have nn: "fint n * px \<noteq> NaN" "Fin 0 \<le> fint n * px"
    using x assms(2) by (auto simp: n intro!: fl_nonneg mult_nonneg_nonneg)
  have r: "fint n * \<bar>px - stop\<bar> \<noteq> NaN" if "isfinite stop"
  proof -
    obtain y where "stop = Fin y" using \<open>isfinite stop\<close> by (auto simp: isfinite_iff)
    then have "px - stop = fl (x - y)" by (simp add: x minus_pyfloat_def)
    then show ?thesis using assms(2) by (cases "fl (x - y)") (auto simp: n)
  qed
  have z: "ftruthy stop" if "Fin 0 < stop" using that by (auto simp: ftruthy_def)
  show ?thesis
    using assms(1) nn r z
    by (auto simp: compute_trade_risk_def Let_def fnot_le fmin_le2 fmin_def fnot_less
        split: if_splits intro: fless_imp_le)
qed

theorem trade_risk_is_bounded_witness:
  "compute_trade_risk True 10 (Fin 1500) (Fin 1470) = Inr (Fin 300) \<and> Fin 300 \<le> fint 10 * Fin 1500"
proof -
  have r: "compute_trade_risk True 10 (Fin 1500) (Fin 1470) = Inr (Fin 300)" by code_simp
  with trade_risk_is_bounded [OF r] show ?thesis by simp
qed

text \<open>The monitor never mistakes a timeout for an outcome: a result that is not a timeout
  carries a terminal state that a successful poll reported; with no successful poll at all the
  result is a timeout in state \<open>UNKNOWN\<close>; and no order is sent.\<close>

theorem monitor_reports_honestly:
  assumes "monitor_order n om ref w = (Inr res, w')"
  shows "(mr_timed_out res \<or> mr_is_terminal res \<and> mr_state res \<in> set end_states \<and> mr_last res \<noteq> None) \<and>
    (mr_last res \<noteq> None \<or> mr_timed_out res \<and> mr_state res = UNKNOWN) \<and> w_sent w' = w_sent w"
proof -
  let ?honest = "\<lambda>res. (mr_timed_out res \<or> mr_is_terminal res \<and> mr_state res \<in> set end_states \<and> mr_last res \<noteq> None) \<and>
    (mr_last res \<noteq> None \<or> mr_timed_out res \<and> mr_state res = UNKNOWN)"
  have t: "triple (\<lambda>_. True) (monitor_poll om bid v)
      (\<lambda>x _. fst x \<longrightarrow> mv_last (snd x) \<noteq> None \<and> mv_state (snd x) \<in> set end_states) (\<lambda>_ _. True)" for bid v
    unfolding monitor_poll_def Let_def
    by (intro triple_bind [where R = "\<lambda>_ _. True"] triple_sum_case triple_option_case triple_any)
       (auto simp: triple_def ef_return_def)
  have poll: "mv_last v' \<noteq> None \<and> mv_state v' \<in> set end_states"
    if "monitor_poll om bid v w = (Inr (True, v'), w')" for bid v v' and w w' :: "'a world"
    using tripleD_ok [OF t _ that] by simp
  have loop: "?honest res" if "monitor_loop n om bid v w = (Inr res, w')" for n bid v res and w w' :: "'a world"
    using that
  proof (induction n arbitrary: v w)
    case 0
    then show ?case
      by (auto simp: ef_inv make_monitor_result_def monitor_expired_def end_states_def
          split: if_splits option.splits dest!: poll)
  next
    case (Suc n)
    then obtain e v1 w1 where p: "monitor_poll om bid v w = (Inr (e, v1), w1)"
      and r: "(if e then ef_return (make_monitor_result (mv_last v1) (mv_state v1) False (mv_errors v1))
        else monitor_loop n om bid v1) w1 = (Inr res, w')"
      by (auto simp: ef_inv)
    then show ?case using Suc.IH poll [of bid v w v1 w1]
      by (cases e) (auto simp: ef_inv make_monitor_result_def)
  qed
  from assms obtain bid v w1 where "monitor_loop n om bid v w1 = (Inr res, w')"
    by (auto simp: monitor_order_def ef_bind_Inr)
  from loop [OF this] calmD [OF calm_monitor assms] show ?thesis by simp
qed

theorem monitor_reports_honestly_witness:
  "\<exists>res. fst (monitor_order 3 demo_manager ''swing1'' (demo_world ACKNOWLEDGED)) = Inr res \<and>
     mr_timed_out res \<and> mr_state res = UNKNOWN"
proof -
  have "\<exists>res w'. monitor_order 3 demo_manager ''swing1'' (demo_world ACKNOWLEDGED) = (Inr res, w') \<and> mr_last res = None"
    by (simp add: monitor_order_def get_record_def run_defs numeral_3_eq_3 monitor_poll_def ef_try_def on_env_def
        demo_manager_def open_broker_def monitor_expired_def is_terminal_def terminal_states_def is_blocked_def
        blocked_states_def move_def transition_ok may_go_def mem_save_def make_monitor_result_def)
  then obtain res w' where "monitor_order 3 demo_manager ''swing1'' (demo_world ACKNOWLEDGED) = (Inr res, w')"
    "mr_last res = None" by blast
  with monitor_reports_honestly [OF this(1)] show ?thesis by simp
qed

text \<open>An order that is \<open>SUBMITTED\<close> but not yet acknowledged cannot be cancelled: the
  request raises before the broker is asked, and nothing changes.\<close>

theorem submitted_order_cannot_be_cancelled:
  assumes "w_outcomes w = []" and "mem_get ref (w_store w) = Some r" and "r_state r = SUBMITTED"
  shows "\<exists>m. cancel_order om ref w = (Inl (IllegalStateTransition m), w)"
proof -
  obtain m where "transition (om_now om) CANCEL_PENDING ''cancel requested'' False r = Inl (IllegalStateTransition m)"
    using transition_bad [of r CANCEL_PENDING False] assms(3) by (auto simp: may_go_def)
  then show ?thesis
    using assms by (simp add: cancel_order_def get_record_def run_defs move_def is_blocked_def
        blocked_states_def is_terminal_def terminal_states_def)
qed

theorem submitted_order_cannot_be_cancelled_witness:
  "snd (cancel_order demo_manager ''swing1'' (demo_world SUBMITTED)) = demo_world SUBMITTED"
  using submitted_order_cannot_be_cancelled [of "demo_world SUBMITTED" "''swing1''" "demo_order SUBMITTED"
      demo_manager] by auto

section \<open>A submission that goes through\<close>

text \<open>\<open>works k w\<close>: the next \<open>k\<close> calls of the store work. Fewer outcomes than that stand for a store that works on.\<close>

definition works :: "nat \<Rightarrow> 'b world \<Rightarrow> bool" where
  "works k w \<longleftrightarrow> list_all (\<lambda>x. x = Works) (take k (w_outcomes w))"

definition stored :: "(order_store \<Rightarrow> 'a res \<times> order_store) \<Rightarrow> 'b world \<Rightarrow> 'b world" where
  "stored f w = w\<lparr>w_outcomes := tl (w_outcomes w), w_store := snd (f (w_store w))\<rparr>"

lemma store_call_stored: "works (Suc k) w \<Longrightarrow> store_call f w = (fst (f (w_store w)), stored f w)"
  by (cases "w_outcomes w") (auto simp: works_def store_call_def stored_def split: outcome.split)

lemma works_stored: "works (Suc k) w \<Longrightarrow> works k (stored f w)"
  by (cases "w_outcomes w") (auto simp: works_def stored_def)

lemma works_less: "works k w \<Longrightarrow> j \<le> k \<Longrightarrow> works j w"
  unfolding works_def by (metis list.pred_set min.absorb_iff1 set_take_subset subsetD take_take)

lemma stored_simps [simp]:
  "w_env (stored f w) = w_env w" "w_sent (stored f w) = w_sent w" "w_store (stored f w) = snd (f (w_store w))"
  "w_outcomes (stored f w) = tl (w_outcomes w)"
  by (simp_all add: stored_def)

text \<open>A save of a record whose id is reserved, as a step of a longer operation.\<close>

lemma save_step:
  assumes "works (Suc k) w" and "mem_get (r_client_order_id r) (w_store w) \<noteq> None"
  shows "ef_seq (st_save r) m w = m (stored (mem_save r) w)"
    and "works k (stored (mem_save r) w)" and "mem_get (r_client_order_id r) (w_store (stored (mem_save r) w)) = Some r"
  using assms works_stored [OF assms(1)]
  by (auto simp: ef_seq_def ef_bind_def st_save_def store_call_stored mem_save_def mem_get_def update_conv')

lemma move_step:
  "transition (om_now om) st reason rc r = Inr r' \<Longrightarrow> ef_bind (move om st reason rc r) f w = f r' w"
  by (simp add: move_def ef_lift_def ef_bind_def)

definition unblocked :: "signal \<Rightarrow> 'b world \<Rightarrow> bool" where
  "unblocked sg w \<longleftrightarrow> mem_get (sg_client_order_id sg) (w_store w) = None \<and>
     (\<forall>r \<in> set (mem_list_open (w_store w)). \<not> (is_blocked r \<and> r_symbol r = sg_symbol sg \<and> r_strategy r = sg_strategy sg))"

definition trigger_of :: "signal \<Rightarrow> pyfloat option" where
  "trigger_of sg = (if triggered (sg_order_type sg) then Some (sg_stop_price sg) else None)"

text \<open>The submission up to the call of the broker, when nothing stands in its way: three more saves, and the
  order is sent, recorded as \<open>SUBMITTED\<close>.\<close>

lemma submit_reaches_broker:
  assumes g: "gates_passed om sg n a (w_env w)" and u: "unblocked sg w" and k: "works 5 w"
  obtains r w1 where "submit_order om sg n a w =
      ef_bind (ef_try (place om (place_request_of sg n (trigger_of sg)))) (settle_submission om r) w1"
    and "records sg n r" and "r_state r = SUBMITTED" and "mem_get (sg_client_order_id sg) (w_store w1) = Some r"
    and "w_sent w1 = w_sent w" and "w_outcomes w1 = drop 5 (w_outcomes w)"
    and "w_env w1 = snd (resolve_reference_price om sg (w_env w))"
proof -
  let ?cid = "sg_client_order_id sg" and ?r0 = "intent_record (om_now om) sg n"
  let ?t = "om_now om"
  obtain px e' risk where el: "require_eligible_for_live om (w_env w) = Inr ()"
    and px: "resolve_reference_price om sg (w_env w) = (Inr px, e')"
    and risk: "compute_trade_risk (om_require_stop om) n px (sg_stop_price sg) = Inr risk"
    and ok: "passed (validate_order (om_require_support om) (\<lambda>k. om_kv_get om k e') (om_broker om) e'
      (order_check_of om sg n a px risk))"
    and trig: "triggered (sg_order_type sg) \<Longrightarrow> isfinite (sg_stop_price sg) \<and> \<not> sg_stop_price sg \<le> Fin 0 \<and>
      br_supports_trigger (om_broker om)"
    using g by (auto simp: gates_passed_def)
  define r1 where "r1 = set_state ?t RISK_CHECK_PENDING ''running gates'' False ?r0"
  define r2 where "r2 = r1\<lparr>r_reference_price := px\<rparr>"
  define r3 where "r3 = set_state ?t RISK_APPROVED ''all gates passed'' False r2"
  define r4 where "r4 = set_state ?t SUBMITTED ''sending to broker'' False r3"
  have c: "r_client_order_id ?r0 = ?cid" "r_state ?r0 = INTENT_CREATED"
    by (simp_all add: intent_record_def new_order_record_def)
  have cs: "r_client_order_id r1 = ?cid" "r_client_order_id r2 = ?cid" "r_client_order_id r3 = ?cid" "r_client_order_id r4 = ?cid"
    by (simp_all add: r1_def r2_def r3_def r4_def c)
  have t1: "transition ?t RISK_CHECK_PENDING ''running gates'' False ?r0 = Inr r1"
    by (simp add: transition_Inr r1_def may_go_def c)
  have t3: "transition ?t RISK_APPROVED ''all gates passed'' False r2 = Inr r3"
    by (simp add: transition_Inr r3_def r2_def r1_def may_go_def)
  have t4: "transition ?t SUBMITTED ''sending to broker'' False r3 = Inr r4"
    by (simp add: transition_Inr r4_def r3_def may_go_def)
  define wa where "wa = stored (mem_reserve ?r0) w"
  have new: "map_of (st_records (w_store w)) ?cid = None" using u by (simp add: unblocked_def mem_get_def)
  have wa: "works 4 wa" "w_store wa = (w_store w)\<lparr>st_records := st_records (w_store w) @ [(?cid, ?r0)]\<rparr>"
    using works_stored [of 4 w] k new by (simp_all add: wa_def mem_reserve_def c update_new)
  have "st_reserve ?r0 w = (Inr True, wa)"
    using store_call_stored [of 4 w "mem_reserve ?r0"] k new by (simp add: st_reserve_def wa_def mem_reserve_def c)
  then have s1: "submit_order om sg n a w = submit_reserved om sg n a ?r0 wa"
    by (simp add: submit_order_def ef_seq_def ef_bind_def env_read_def el Let_def)
  define lo where "lo = (\<lambda>s. (Inr (mem_list_open s) :: order_record list res, s))"
  define wb where "wb = stored lo wa"
  have "List.find (\<lambda>r. is_blocked r \<and> r_symbol r = sg_symbol sg \<and> r_strategy r = sg_strategy sg) (mem_list_open (w_store wa)) = None"
    using u c(2) by (auto simp: find_None_iff unblocked_def wa(2) mem_list_open_def mem_list_all_def is_blocked_def blocked_states_def)
  then have "blocking_record_for sg wa = (Inr None, wb)"
    using store_call_stored [of 3 wa lo] wa(1)
    by (simp add: blocking_record_for_def ef_bind_def ef_return_def st_list_open_def lo_def wb_def)
  moreover have wb: "works 3 wb" "mem_get ?cid (w_store wb) = Some ?r0"
    using works_stored [of 3 wa lo] wa new by (simp_all add: wb_def lo_def mem_get_def map_add_def)
  moreover define wc where "wc = stored (mem_save r1) wb"
  ultimately have s2: "submit_reserved om sg n a ?r0 wa = price_order om sg n a r1 wc"
    using save_step(1) [of 2 wb r1 "price_order om sg n a r1"]
    by (simp add: submit_reserved_def ef_bind_def [of "blocking_record_for sg"] move_step [OF t1] cs)
  have wc: "works 2 wc" "mem_get ?cid (w_store wc) = Some r1"
    using save_step(2,3) [of 2 wb r1] wb by (simp_all add: wc_def cs)
  define wd where "wd = wc\<lparr>w_env := e'\<rparr>"
  have en: "w_env wc = w_env w" by (simp add: wc_def wb_def wa_def)
  have s3: "price_order om sg n a r1 wc = gate_order om sg n a r2 px wd"
    by (simp add: price_order_def ef_bind_def ef_try_def on_env_def en px wd_def r2_def)
  have s4: "gate_order om sg n a r2 px wd = approve_order om sg n r2 (calculate_costs n px (sg_txn sg) (sg_product sg) (sg_exchange sg)) wd"
    using ok by (simp add: gate_order_def risk Let_def ef_bind_def ef_get_def wd_def)
  define we where "we = stored (mem_save r3) wd"
  have wd: "works 2 wd" "mem_get ?cid (w_store wd) = Some r1" using wc by (simp_all add: wd_def works_def)
  have s5: "approve_order om sg n r2 costs wd = send_order om sg n r3 costs (trigger_of sg) we" for costs
    using save_step(1) [of 1 wd r3] wd trig
    by (auto simp: approve_order_def move_step [OF t3] cs we_def trigger_of_def numeral_2_eq_2)
  have we: "works 1 we" "mem_get ?cid (w_store we) = Some r3"
    using save_step(2,3) [of 1 wd r3] wd by (simp_all add: we_def cs numeral_2_eq_2)
  define costs where "costs = calculate_costs n px (sg_txn sg) (sg_product sg) (sg_exchange sg)"
  define r where "r = r4\<lparr>r_history := r_history r4 @ [JObj [(''costs'', costs_json costs), (''at'', JStr (r_updated_at r4))]]\<rparr>"
  define wf where "wf = stored (mem_save r) we"
  have cr: "r_client_order_id r = ?cid" by (simp add: r_def cs)
  have s6: "send_order om sg n r3 costs (trigger_of sg) we =
      ef_bind (ef_try (place om (place_request_of sg n (trigger_of sg)))) (settle_submission om r) wf"
  proof -
    have "persist_order r4 costs we = (Inr r, wf)"
      using save_step(1) [of 0 we r "ef_return r"] we
      by (simp add: persist_order_def Let_def r_def [symmetric] cr wf_def ef_return_def)
    then show ?thesis by (simp add: send_order_def move_step [OF t4] ef_bind_def [of "persist_order r4 costs"])
  qed
  show ?thesis
  proof (rule that)
    show "submit_order om sg n a w =
        ef_bind (ef_try (place om (place_request_of sg n (trigger_of sg)))) (settle_submission om r) wf"
      using s1 s2 s3 s4 s5 s6 by (simp add: costs_def)
    show "records sg n r" by (simp add: records_def r_def r4_def r3_def r2_def r1_def)
         (simp add: intent_record_def new_order_record_def)
    show "r_state r = SUBMITTED" by (simp add: r_def r4_def)
    show "mem_get ?cid (w_store wf) = Some r" using save_step(3) [of 0 we r] we by (simp add: wf_def cr)
    show "w_sent wf = w_sent w" by (simp add: wf_def we_def wd_def wc_def wb_def wa_def)
    show "w_env wf = snd (resolve_reference_price om sg (w_env w))" by (simp add: wf_def we_def wd_def px)
    show "w_outcomes wf = drop 5 (w_outcomes w)"
      by (simp add: wf_def we_def wd_def wc_def wb_def wa_def drop_Suc eval_nat_numeral)
  qed
qed

lemma place_step:
  assumes "br_place_order (om_broker om) req (w_env w) = (ans, e)"
  shows "ef_try (place om req) w = (Inr ans, w\<lparr>w_env := e,
     w_sent := w_sent w @ [Placed req (mem_get (pl_tag req) (w_store w))]\<rparr>)"
  using assms by (simp add: ef_try_def place_def ef_seq_def ef_bind_def ef_modify_def on_env_def)

lemma placed_tag [simp]: "pl_tag (place_request_of sg n t) = sg_client_order_id sg"
  by (simp add: place_request_of_def)

text \<open>So the order is sent, whatever happens after the call.\<close>

lemma submit_sends:
  assumes "gates_passed om sg n a (w_env w)" and "unblocked sg w" and "works 5 w"
  shows "\<exists>r. w_sent (snd (submit_order om sg n a w)) =
     w_sent w @ [Placed (place_request_of sg n (trigger_of sg)) (Some r)] \<and> records sg n r \<and> r_state r = SUBMITTED"
proof -
  let ?req = "place_request_of sg n (trigger_of sg)"
  obtain r w1 where r: "submit_order om sg n a w = ef_bind (ef_try (place om ?req)) (settle_submission om r) w1"
    "records sg n r" "r_state r = SUBMITTED" "mem_get (sg_client_order_id sg) (w_store w1) = Some r" "w_sent w1 = w_sent w"
    using submit_reaches_broker [OF assms] by metis
  obtain ans e where p: "br_place_order (om_broker om) ?req (w_env w1) = (ans, e)" by fastforce
  let ?w2 = "w1\<lparr>w_env := e, w_sent := w_sent w @ [Placed ?req (Some r)]\<rparr>"
  have "submit_order om sg n a w = settle_submission om r ans ?w2"
    using r place_step [OF p] by (simp add: ef_bind_def)
  moreover have "w_sent (snd (settle_submission om r ans ?w2)) = w_sent ?w2"
    using calm_sent [OF calm_settle, of "\<lambda>l. l = w_sent ?w2" om r ans] by (simp add: sends_by_iff)
  ultimately show ?thesis using r by simp
qed

text \<open>When the store fails on the write that follows the call, the exception leaves \<open>submit_order\<close>, whatever the broker
  answered: the order is sent, and the record stays \<open>SUBMITTED\<close>.\<close>

lemma submit_fails_late:
  assumes "gates_passed om sg n a (w_env w)" and "unblocked sg w" and "w_outcomes w = replicate 5 Works @ Fails # os"
    and p: "br_place_order (om_broker om) (place_request_of sg n (trigger_of sg))
      (snd (resolve_reference_price om sg (w_env w))) = (ans, e)"
  shows "\<exists>r w' m. submit_order om sg n a w = (Inl (PersistenceError m), w') \<and> w_env w' = e \<and>
     w_sent w' = w_sent w @ [Placed (place_request_of sg n (trigger_of sg)) (Some r)] \<and> records sg n r \<and>
     mem_get (sg_client_order_id sg) (w_store w') = Some r \<and> r_state r = SUBMITTED"
proof -
  let ?req = "place_request_of sg n (trigger_of sg)"
  have "works 5 w" by (simp add: works_def assms(3) list_all_iff)
  then obtain r w1 where r: "submit_order om sg n a w = ef_bind (ef_try (place om ?req)) (settle_submission om r) w1"
    "records sg n r" "r_state r = SUBMITTED" "mem_get (sg_client_order_id sg) (w_store w1) = Some r" "w_sent w1 = w_sent w"
    "w_outcomes w1 = Fails # os" "w_env w1 = snd (resolve_reference_price om sg (w_env w))"
    using submit_reaches_broker [OF assms(1,2)] assms(3)
    by (metis append_eq_conv_conj length_replicate)
  let ?w2 = "w1\<lparr>w_env := e, w_sent := w_sent w @ [Placed ?req (Some r)]\<rparr>"
  have 2: "submit_order om sg n a w = settle_submission om r ans ?w2"
    using r place_step [of om ?req w1 ans e] p by (simp add: ef_bind_def)
  have f: "store_call g ?w2 = (Inl (PersistenceError ''store unavailable''), ?w2\<lparr>w_outcomes := os\<rparr>)" for g :: "order_store \<Rightarrow> unit res \<times> order_store"
    using r(6) by (simp add: store_call_def)
  have "settle_submission om r ans ?w2 = (Inl (PersistenceError ''store unavailable''), ?w2\<lparr>w_outcomes := os\<rparr>)"
    using r(3) f by (auto simp: settle_submission_def move_def ef_lift_def ef_bind_def ef_seq_def update_order_status_def
        st_save_def may_go_def split: sum.split)
  then show ?thesis using 2 r by (intro exI [of _ r]) simp
qed

end
