(* ===== verification/Py_Time.thy ===== *)
theory Py_Time
  imports Prelude
begin

text \<open>
  Python's \<open>datetime\<close> as \<open>app/broker/paper.py\<close> uses it: an instant in microseconds since
  1970-01-01 UTC with a flag for a missing time zone, the proleptic Gregorian calendar, and the
  IST trading session computed from it.
\<close>

section \<open>Instants and calendar dates\<close>

datatype datetime = Naive int | Aware int

text \<open>An IST wall clock reading: the day number (1970-01-01 is day 0) and the microsecond of the day.\<close>

record moment =
  mo_day :: int
  mo_micros :: int

definition micros_per_day :: int where "micros_per_day = 86400000000"

text \<open>\<open>Asia/Kolkata\<close> is UTC+5:30 without daylight saving.\<close>

definition ist_of :: "int \<Rightarrow> moment" where
  "ist_of t = (let u = t + 19800000000 in
     \<lparr>mo_day = u div micros_per_day, mo_micros = u mod micros_per_day\<rparr>)"

definition ensure_aware :: "datetime \<Rightarrow> int res" where
  "ensure_aware d = (case d of
     Naive _ \<Rightarrow> Inl (ValueError ''timestamp is timezone-naive'') | Aware t \<Rightarrow> Inr t)"

text \<open>\<open>moment.weekday()\<close>: Monday is 0; day 0 was a Thursday.\<close>

definition weekday :: "int \<Rightarrow> int" where
  "weekday day = (day + 3) mod 7"

text \<open>The day number of a date, and the year of a day number.\<close>

definition date_day :: "int \<Rightarrow> int \<Rightarrow> int \<Rightarrow> int" where
  "date_day y m d =
     (let y' = (if m \<le> 2 then y - 1 else y); era = y' div 400; yoe = y' - era * 400;
          doy = (153 * (if 2 < m then m - 3 else m + 9) + 2) div 5 + d - 1;
          doe = yoe * 365 + yoe div 4 - yoe div 100 + doy
      in era * 146097 + doe - 719468)"

definition year_of_day :: "int \<Rightarrow> int" where
  "year_of_day day =
     (let z = day + 719468; era = z div 146097; doe = z mod 146097;
          yoe = (doe - doe div 1460 + doe div 36524 - doe div 146096) div 365;
          doy = doe - (365 * yoe + yoe div 4 - yoe div 100)
      in yoe + era * 400 + (if 10 \<le> (5 * doy + 2) div 153 then 1 else 0))"

text \<open>The date of a day number, and \<open>isoformat()\<close> of an instant in IST: the microseconds are written when there are any.\<close>

definition date_of_day :: "int \<Rightarrow> int \<times> int \<times> int" where
  "date_of_day day =
     (let z = day + 719468; era = z div 146097; doe = z mod 146097;
          yoe = (doe - doe div 1460 + doe div 36524 - doe div 146096) div 365;
          doy = doe - (365 * yoe + yoe div 4 - yoe div 100); mp = (5 * doy + 2) div 153;
          m = (if mp < 10 then mp + 3 else mp - 9)
      in (yoe + era * 400 + (if m \<le> 2 then 1 else 0), m, doy - (153 * mp + 2) div 5 + 1))"

definition zeros :: "nat \<Rightarrow> int \<Rightarrow> string" where
  "zeros k n = (let s = int_str n in replicate (k - length s) CHR ''0'' @ s)"

definition iso_text :: "moment \<Rightarrow> string" where
  "iso_text m = (case date_of_day (mo_day m) of (y, mo, d) \<Rightarrow>
     let t = mo_micros m div 1000000; us = mo_micros m mod 1000000 in
     zeros 4 y @ ''-'' @ zeros 2 mo @ ''-'' @ zeros 2 d @ ''T'' @ zeros 2 (t div 3600) @ '':'' @ zeros 2 (t div 60 mod 60) @
       '':'' @ zeros 2 (t mod 60) @ (if us = 0 then [] else CHR ''.'' # zeros 6 us) @ ''+05:30'')"

section \<open>The trading session\<close>

definition clock_micros :: "int \<Rightarrow> int \<Rightarrow> int" where
  "clock_micros h m = (h * 60 + m) * 60000000"

definition MARKET_OPEN_IST :: int where "MARKET_OPEN_IST = clock_micros 9 15"
definition MARKET_CLOSE_IST :: int where "MARKET_CLOSE_IST = clock_micros 15 30"
definition MIS_SQUAREOFF_IST :: int where "MIS_SQUAREOFF_IST = clock_micros 15 20"

lemmas session_times = MARKET_OPEN_IST_def MARKET_CLOSE_IST_def MIS_SQUAREOFF_IST_def clock_micros_def

definition NSE_TRADING_HOLIDAYS :: "int \<Rightarrow> int list option" where
  "NSE_TRADING_HOLIDAYS year =
     (if year = 2024 then Some
        [date_day 2024 1 22, date_day 2024 1 26, date_day 2024 3 8, date_day 2024 3 25,
         date_day 2024 3 29, date_day 2024 4 11, date_day 2024 4 17, date_day 2024 5 1,
         date_day 2024 5 20, date_day 2024 6 17, date_day 2024 7 17, date_day 2024 8 15,
         date_day 2024 10 2, date_day 2024 11 1, date_day 2024 11 15, date_day 2024 12 25]
      else if year = 2025 then Some
        [date_day 2025 2 26, date_day 2025 3 14, date_day 2025 3 31, date_day 2025 4 10,
         date_day 2025 4 14, date_day 2025 4 18, date_day 2025 5 1, date_day 2025 8 15,
         date_day 2025 8 27, date_day 2025 10 2, date_day 2025 10 21, date_day 2025 10 22,
         date_day 2025 11 5, date_day 2025 12 25]
      else None)"

definition holidays_for :: "int list option \<Rightarrow> int \<Rightarrow> int list option" where
  "holidays_for own year = (case own of Some days \<Rightarrow> Some days | None \<Rightarrow> NSE_TRADING_HOLIDAYS year)"

definition is_trading_holiday :: "int list option \<Rightarrow> moment \<Rightarrow> bool" where
  "is_trading_holiday own now = (case holidays_for own (year_of_day (mo_day now)) of
     None \<Rightarrow> False | Some days \<Rightarrow> mo_day now \<in> set days)"

definition is_market_open :: "int list option \<Rightarrow> moment \<Rightarrow> bool" where
  "is_market_open own now =
     (if 5 \<le> weekday (mo_day now) then False
      else if is_trading_holiday own now then False
      else MARKET_OPEN_IST \<le> mo_micros now \<and> mo_micros now < MARKET_CLOSE_IST)"

definition is_squareoff_time :: "moment \<Rightarrow> bool" where
  "is_squareoff_time now \<longleftrightarrow> MIS_SQUAREOFF_IST \<le> mo_micros now"

section \<open>Checks of the calendar\<close>

lemma ist_of_range: "0 \<le> mo_micros (ist_of t) \<and> mo_micros (ist_of t) < micros_per_day"
  by (simp add: ist_of_def Let_def micros_per_day_def)

lemma iso_text_examples:
  "iso_text (ist_of 0) = ''1970-01-01T05:30:00+05:30''"
  "iso_text (ist_of ((date_day 2024 2 29 * 86400 + 23 * 3600) * 1000000 + 7)) = ''2024-03-01T04:30:00.000007+05:30''"
  by code_simp+

text \<open>Known dates: the epoch was a Thursday, 2025-10-21 a Tuesday.\<close>

lemma calendar_examples:
  "date_day 1970 1 1 = 0" "weekday (date_day 1970 1 1) = 3"
  "date_day 2025 10 21 = 20382" "weekday (date_day 2025 10 21) = 1"
  "year_of_day (date_day 2024 12 31) = 2024" "year_of_day (date_day 2025 1 1) = 2025"
  by code_simp+

end
