(* ===== verification/Py_Value.thy ===== *)
theory Py_Value
  imports Prelude Py_Float "HOL-Library.AList" "HOL-Library.List_Lexorder" "HOL-Library.Char_ord"
begin

text \<open>
  Python values as the dictionaries of the broker and of the local store hold them: their truth
  value, \<open>str\<close> and \<open>float\<close> of them (with the shortest representation of a float that reads back
  and the grammar of float literals), dictionaries as rows, and lists of results.
\<close>

section \<open>Lists of results\<close>

fun res_map :: "('a \<Rightarrow> 'b res) \<Rightarrow> 'a list \<Rightarrow> 'b list res" where
  "res_map f [] = Inr []"
| "res_map f (x # xs) = res_bind (f x) (\<lambda>y. res_bind (res_map f xs) (\<lambda>ys. Inr (y # ys)))"

fun res_filter :: "('a \<Rightarrow> bool res) \<Rightarrow> 'a list \<Rightarrow> 'a list res" where
  "res_filter f [] = Inr []"
| "res_filter f (x # xs) = res_bind (f x) (\<lambda>b. res_bind (res_filter f xs) (\<lambda>ys. Inr (if b then x # ys else ys)))"

text \<open>The findings of a loop whose body may raise.\<close>

definition res_concat :: "('a \<Rightarrow> 'b list res) \<Rightarrow> 'a list \<Rightarrow> 'b list res" where
  "res_concat f xs = res_bind (res_map f xs) (\<lambda>ys. Inr (concat ys))"

lemma res_map_Inr: "res_map f xs = Inr ys \<longleftrightarrow> list_all2 (\<lambda>x y. f x = Inr y) xs ys"
  by (induction xs arbitrary: ys) (auto simp: list_all2_Cons1)

lemma res_concat_Nil: "res_concat f xs = Inr [] \<longleftrightarrow> (\<forall>x \<in> set xs. f x = Inr [])"
proof (induction xs)
  case (Cons x xs)
  then show ?case
    by (cases "f x"; cases "res_map f xs") (auto simp: res_concat_def)
qed (simp add: res_concat_def)

lemma res_filter_Inr:
  "res_filter f xs = Inr ys \<longleftrightarrow> (\<forall>x \<in> set xs. \<exists>b. f x = Inr b) \<and> ys = filter (\<lambda>x. f x = Inr True) xs"
proof (induction xs arbitrary: ys)
  case (Cons x xs)
  then show ?case by (cases "f x"; cases "res_filter f xs") auto
qed auto

section \<open>Dictionaries in insertion order\<close>

text \<open>\<open>{k: v for ...}\<close>: a later pair replaces the value and keeps the place of the first.\<close>

definition dict_of :: "('k \<times> 'v) list \<Rightarrow> ('k \<times> 'v) list" where
  "dict_of kvs = foldl (\<lambda>m (k, v). AList.update k v m) [] kvs"

lemma map_of_dict_fold: "map_of (foldl (\<lambda>m (k, v). AList.update k v m) m kvs) = map_of (rev kvs @ m)"
  by (induction kvs arbitrary: m) (auto simp: update_conv' map_of_append fun_eq_iff map_add_def split: option.split)

lemma map_of_dict: "map_of (dict_of kvs) = map_of (rev kvs)"
  by (simp add: dict_of_def map_of_dict_fold)

lemma distinct_dict_fold:
  "distinct (map fst m) \<Longrightarrow> distinct (map fst (foldl (\<lambda>m (k, v). AList.update k v m) m kvs))"
  by (induction kvs arbitrary: m) (auto simp: distinct_update)

lemma distinct_dict: "distinct (map fst (dict_of kvs))"
  by (simp add: dict_of_def distinct_dict_fold)

section \<open>Values\<close>

datatype pyval = PNone | PBool bool | PInt int | PFloat pyfloat | PStr string

type_synonym row = "(string \<times> pyval) list"

text \<open>\<open>row.get(k)\<close>.\<close>

definition row_get :: "row \<Rightarrow> string \<Rightarrow> pyval" where
  "row_get r k = (case map_of r k of None \<Rightarrow> PNone | Some v \<Rightarrow> v)"

fun truthy :: "pyval \<Rightarrow> bool" where
  "truthy PNone = False"
| "truthy (PBool b) = b"
| "truthy (PInt n) = (n \<noteq> 0)"
| "truthy (PFloat x) = ftruthy x"
| "truthy (PStr s) = (s \<noteq> [])"

definition py_or :: "pyval \<Rightarrow> pyval \<Rightarrow> pyval" where
  "py_or a b = (if truthy a then a else b)"

section \<open>\<open>str\<close> of a value\<close>

text \<open>\<open>repr\<close> of a float: the shortest decimal that reads back to it, the nearest such one.
  \<open>dec_exp x\<close> is the decimal exponent of \<open>x > 0\<close>, \<open>dec_digits n x\<close> the candidates of \<open>n\<close> digits.\<close>

definition pow10 :: "int \<Rightarrow> rat" where
  "pow10 k = (if 0 \<le> k then 10 ^ nat k else 1 / 10 ^ nat (- k))"

definition dec_exp :: "rat \<Rightarrow> int" where
  "dec_exp x = (let k = (flog2 x * 30103) div 100000 in
     if x < pow10 k then k - 1 else if pow10 (k + 1) \<le> x then k + 1 else k)"

definition dec_digits :: "nat \<Rightarrow> rat \<Rightarrow> (int \<times> int) list" where
  "dec_digits n x =
     (let e = dec_exp x - int n + 1; lo = \<lfloor>x / pow10 e\<rfloor>;
          below = x / pow10 e - of_int lo
      in filter (\<lambda>(d, e). fl (of_int d * pow10 e) = Fin x)
           (if below < 1 / 2 \<or> below = 1 / 2 \<and> even lo then [(lo, e), (lo + 1, e)] else [(lo + 1, e), (lo, e)]))"

fun shortest :: "nat list \<Rightarrow> rat \<Rightarrow> int \<times> int" where
  "shortest [] x = (0, 0)"
| "shortest (n # ns) x = (case dec_digits n x of [] \<Rightarrow> shortest ns x | de # _ \<Rightarrow> de)"

definition short_digits :: "rat \<Rightarrow> string \<times> int" where
  "short_digits x = (let (d, e) = shortest [1..<18] x; s = int_str d in
     (rev (dropWhile (\<lambda>c. c = CHR ''0'') (rev s)), int (length s) + e))"

definition exp_str :: "int \<Rightarrow> string" where
  "exp_str e = (if e < 0 then ''e-'' else ''e+'') @ (if \<bar>e\<bar> < 10 then ''0'' else []) @ int_str \<bar>e\<bar>"

definition pos_float_str :: "rat \<Rightarrow> string" where
  "pos_float_str x = (let (ds, p) = short_digits x; n = int (length ds) in
     if p < -3 \<or> 16 < p then take 1 ds @ (if 1 < n then CHR ''.'' # drop 1 ds else []) @ exp_str (p - 1)
     else if p \<le> 0 then ''0.'' @ replicate (nat (- p)) CHR ''0'' @ ds
     else if n \<le> p then ds @ replicate (nat (p - n)) CHR ''0'' @ ''.0''
     else take (nat p) ds @ ''.'' @ drop (nat p) ds)"

fun float_str :: "pyfloat \<Rightarrow> string" where
  "float_str (Fin x) = (if x = 0 then ''0.0'' else if x < 0 then CHR ''-'' # pos_float_str (- x) else pos_float_str x)"
| "float_str PInf = ''inf''"
| "float_str NInf = ''-inf''"
| "float_str NaN = ''nan''"

fun py_str :: "pyval \<Rightarrow> string" where
  "py_str PNone = ''None''"
| "py_str (PBool b) = (if b then ''True'' else ''False'')"
| "py_str (PInt n) = int_str n"
| "py_str (PFloat x) = float_str x"
| "py_str (PStr s) = s"

section \<open>\<open>float\<close> of a string\<close>

text \<open>Digits with single underscores between them: their value and their number.\<close>

fun digit_run :: "bool \<Rightarrow> int \<Rightarrow> nat \<Rightarrow> string \<Rightarrow> (int \<times> nat) option" where
  "digit_run after_digit v n [] = (if after_digit then Some (v, n) else None)"
| "digit_run after_digit v n (c # cs) =
     (let k = (of_char c :: nat) in
      if 48 \<le> k \<and> k \<le> 57 then digit_run True (10 * v + int (k - 48)) (Suc n) cs
      else if c = CHR ''_'' \<and> after_digit then digit_run False v n cs
      else None)"

definition digit_part :: "string \<Rightarrow> (int \<times> nat) option" where
  "digit_part s = digit_run False 0 0 s"

fun split_sign :: "string \<Rightarrow> bool \<times> string" where
  "split_sign (c # cs) = (if c = CHR ''-'' then (True, cs) else if c = CHR ''+'' then (False, cs) else (False, c # cs))"
| "split_sign [] = (False, [])"

definition mantissa :: "string \<Rightarrow> rat option" where
  "mantissa s =
     (let whole = takeWhile (\<lambda>c. c \<noteq> CHR ''.'') s; rest = dropWhile (\<lambda>c. c \<noteq> CHR ''.'') s in
      case rest of
        [] \<Rightarrow> map_option (\<lambda>(v, _). of_int v) (digit_part whole)
      | _ # fraction \<Rightarrow>
          if whole = [] \<and> fraction = [] then None
          else (case (if whole = [] then Some (0, 0) else digit_part whole,
                      if fraction = [] then Some (0, 0) else digit_part fraction) of
            (Some (v, _), Some (w, n)) \<Rightarrow> Some (of_int v + of_int w / 10 ^ n)
          | _ \<Rightarrow> None))"

definition decimal :: "string \<Rightarrow> rat option" where
  "decimal s =
     (let m = takeWhile (\<lambda>c. c \<noteq> CHR ''e'') s; rest = dropWhile (\<lambda>c. c \<noteq> CHR ''e'') s in
      case mantissa m of None \<Rightarrow> None
      | Some v \<Rightarrow> (case rest of [] \<Rightarrow> Some v
          | _ # ex \<Rightarrow> (let (neg, ds) = split_sign ex in
              map_option (\<lambda>(k, _). v * pow10 (if neg then - k else k)) (digit_part ds))))"

definition parse_float :: "string \<Rightarrow> pyfloat option" where
  "parse_float text =
     (let (neg, s) = split_sign (py_lower (py_strip text)) in
      if s = ''inf'' \<or> s = ''infinity'' then Some (if neg then NInf else PInf)
      else if s = ''nan'' then Some NaN
      else map_option (\<lambda>v. fl (if neg then - v else v)) (decimal s))"

section \<open>Numbers in rows\<close>

text \<open>\<open>float(n)\<close> of an integer beyond the largest double raises.\<close>

definition int_to_float :: "int \<Rightarrow> pyfloat res" where
  "int_to_float n = (if isfinite (fint n) then Inr (fint n) else Inl OverflowError)"

lemma int_to_float_small: "\<bar>n\<bar> \<le> 2 ^ 53 \<Longrightarrow> int_to_float n = Inr (Fin (of_int n))"
  by (simp add: int_to_float_def fint_small)

text \<open>\<open>float(v)\<close> of a value.\<close>

definition py_float :: "pyval \<Rightarrow> pyfloat res" where
  "py_float v = (case v of PNone \<Rightarrow> Inl (TypeError ''float() argument'') | PBool b \<Rightarrow> Inr (Fin (if b then 1 else 0))
     | PInt n \<Rightarrow> int_to_float n | PFloat x \<Rightarrow> Inr x
     | PStr s \<Rightarrow> (case parse_float s of None \<Rightarrow> Inl (ValueError ''could not convert string to float'') | Some x \<Rightarrow> Inr x))"

text \<open>\<open>sum\<close> of floats adds from the left, as in Python 3.11.\<close>

definition py_sum :: "pyfloat list \<Rightarrow> pyfloat" where
  "py_sum = foldl (+) (Fin 0)"

section \<open>Roots and squares\<close>

text \<open>\<open>math.sqrt\<close>, correctly rounded: the integer root of the scaled argument, one sticky bit below it.\<close>

function isqrt :: "int \<Rightarrow> int" where
  "isqrt n = (if n < 1 then 0 else
     let s = 2 * isqrt (n div 4) in if (s + 1) * (s + 1) \<le> n then s + 1 else s)"
  by pat_completeness auto
termination
  by (relation "measure nat") auto

declare isqrt.simps [simp del]

lemma isqrt_bounds: "0 \<le> n \<Longrightarrow> 0 \<le> isqrt n \<and> isqrt n * isqrt n \<le> n \<and> n < (isqrt n + 1) * (isqrt n + 1)"
proof (induction n rule: isqrt.induct)
  case (1 n)
  show ?case
  proof (cases "n < 1")
    case True
    with 1 show ?thesis by (simp add: isqrt.simps [of n])
  next
    case False
    define r where "r = isqrt (n div 4)"
    have IH: "0 \<le> r" "r * r \<le> n div 4" "n div 4 < (r + 1) * (r + 1)"
      using 1 False by (simp_all add: r_def)
    have a: "4 * (r * r) \<le> n" using IH(2) by linarith
    have "n div 4 + 1 \<le> (r + 1) * (r + 1)" using IH(3) by linarith
    then have b: "n < 4 * ((r + 1) * (r + 1))" by linarith
    have "isqrt n = (if (2 * r + 1) * (2 * r + 1) \<le> n then 2 * r + 1 else 2 * r)"
      using False by (subst isqrt.simps) (simp add: r_def Let_def)
    then show ?thesis using a b IH(1) by (auto simp: algebra_simps)
  qed
qed

definition fsqrt :: "pyfloat \<Rightarrow> pyfloat res" where
  "fsqrt x = (case x of
     NaN \<Rightarrow> Inr NaN | PInf \<Rightarrow> Inr PInf | NInf \<Rightarrow> Inl (ValueError ''math domain error'')
   | Fin r \<Rightarrow>
       if r < 0 then Inl (ValueError ''math domain error'')
       else if r = 0 then Inr (Fin 0)
       else let k = 60 - flog2 r div 2; n = r * pow2 (2 * k); s = isqrt \<lfloor>n\<rfloor>
            in Inr (fl ((of_int (2 * s) + (if of_int (s * s) = n then 0 else 1)) / (2 * pow2 k))))"

text \<open>\<open>x ** 2\<close> of a float.\<close>

definition fsquare :: "pyfloat \<Rightarrow> pyfloat res" where
  "fsquare x = (let y = x * x in if isfinite x \<and> \<not> isfinite y then Inl OverflowError else Inr y)"

section \<open>Integer division of floats, slices\<close>

text \<open>\<open>int(x // y)\<close> of floats, as CPython computes the quotient from the exact remainder; the
  divisor is not zero.\<close>

definition rat_fmod :: "rat \<Rightarrow> rat \<Rightarrow> rat" where
  "rat_fmod a b = a - b * of_int (rat_trunc (a / b))"

definition floor_quotient :: "pyfloat \<Rightarrow> pyfloat \<Rightarrow> int res" where
  "floor_quotient x y = (case (x, y) of
     (Fin a, Fin b) \<Rightarrow>
       (let m = rat_fmod a b; d = fquot (Fin a - Fin m) (Fin b);
            d' = (if m \<noteq> 0 \<and> (b < 0) \<noteq> (m < 0) then d - Fin 1 else d) in
        (case d' of Fin q \<Rightarrow> to_int (if q - of_int \<lfloor>q\<rfloor> > 1 / 2 then fint \<lfloor>q\<rfloor> + Fin 1 else fint \<lfloor>q\<rfloor>) | z \<Rightarrow> to_int z))
   | (Fin a, PInf) \<Rightarrow> Inr (if a < 0 then - 1 else 0)
   | (Fin a, NInf) \<Rightarrow> Inr (if a > 0 then - 1 else 0)
   | _ \<Rightarrow> to_int NaN)"

text \<open>\<open>xs[:n]\<close>.\<close>

definition slice_to :: "int \<Rightarrow> 'a list \<Rightarrow> 'a list" where
  "slice_to n xs = take (nat (if 0 \<le> n then n else int (length xs) + n)) xs"

end
