(* ===== verification/Paper_Book.thy ===== *)
theory Paper_Book
  imports Costs Py_Time Py_Value
begin

text \<open>
  The data and the pure part of \<open>app/broker/paper.py\<close>: money in integer paise, tick rounding,
  orders, positions and trades, the market snapshot with its modelled spread, the square-root
  impact law, the fill planner and the cost estimates. Strings that name an enumeration member in
  the code are the enumeration here. Log texts are left out.
\<close>

section \<open>Arithmetic of the standard library\<close>

text \<open>\<open>a / b\<close> of two integers and \<open>round(x)\<close> to an integer.\<close>

definition int_truediv :: "int \<Rightarrow> int \<Rightarrow> pyfloat res" where
  "int_truediv a b = (if b = 0 then Inl ZeroDivisionError
     else let q = fl (of_int a / of_int b) in if isfinite q then Inr q else Inl OverflowError)"

fun round_int :: "pyfloat \<Rightarrow> int res" where
  "round_int (Fin x) = Inr (rne x)"
| "round_int NaN = Inl (ValueError ''cannot convert float NaN to integer'')"
| "round_int _ = Inl OverflowError"

section \<open>Money and ticks\<close>

definition to_paise :: "pyfloat \<Rightarrow> int res" where
  "to_paise x = (if Fin 0 \<le> x then ffloor (x * Fin 100 + fl (1 / 2))
     else res_bind (ffloor (- x * Fin 100 + fl (1 / 2))) (\<lambda>n. Inr (- n)))"

text \<open>An integer of paise above the float range, where \<open>paise / 100.0\<close> raises \<open>OverflowError\<close>, gives
  an infinite amount here: the model speaks of amounts below \<open>2 ^ 1024\<close> paise.\<close>

definition to_rupees :: "int \<Rightarrow> pyfloat" where
  "to_rupees paise = fround 2 (fquot (fint paise) (Fin 100))"

definition floor_tick :: "pyfloat \<Rightarrow> pyfloat \<Rightarrow> pyfloat res" where
  "floor_tick price tick = res_bind (fdiv price tick) (\<lambda>q.
     res_bind (ffloor (fround 9 q)) (\<lambda>n. Inr (fround 2 (fint n * tick))))"

definition ceil_tick :: "pyfloat \<Rightarrow> pyfloat \<Rightarrow> pyfloat res" where
  "ceil_tick price tick = res_bind (fdiv price tick) (\<lambda>q.
     res_bind (fceil (fround 9 q)) (\<lambda>n. Inr (fround 2 (fint n * tick))))"

section \<open>Orders, positions, trades\<close>

datatype pstatus = P_OPEN | P_PARTIAL | P_COMPLETE | P_CANCELLED | P_REJECTED

definition P_TERMINAL :: "pstatus set" where
  "P_TERMINAL = {P_PARTIAL, P_COMPLETE, P_CANCELLED, P_REJECTED}"

datatype reject_reason =
    NOT_CONNECTED | INVALID_QUANTITY | INVALID_PRICE | MARKET_CLOSED | SQUARE_OFF_WINDOW | NO_PRICE
  | STALE_PRICE | NO_LIQUIDITY_DATA | NO_LIQUIDITY | INSUFFICIENT_CASH | INSUFFICIENT_HOLDINGS
  | SHORT_SELL_NOT_SUPPORTED | PERSISTENCE_DEGRADED | UNSUPPORTED_PRODUCT

text \<open>\<open>po_costs\<close> is \<open>None\<close> while the dictionary of charges is empty.\<close>

record paper_order =
  po_id :: string
  po_symbol :: string
  po_exchange :: string
  po_txn :: txn_type
  po_qty :: int
  po_price :: pyfloat
  po_type :: order_type
  po_product :: prdct
  po_tag :: string
  po_status :: pstatus
  po_filled :: int
  po_average :: pyfloat
  po_placed_at :: string
  po_filled_at :: "string option"
  po_reject :: "reject_reason option"
  po_message :: string
  po_costs :: "bt_cost option"
  po_reserved_cash :: int
  po_reserved_qty :: int

record paper_position =
  pp_symbol :: string
  pp_exchange :: string
  pp_product :: prdct
  pp_quantity :: int
  pp_average :: pyfloat
  pp_basis :: int
  pp_last :: pyfloat
  pp_realised :: pyfloat
  pp_unrealised :: pyfloat
  pp_pnl :: pyfloat

record trade =
  tr_order_id :: string
  tr_symbol :: string
  tr_exchange :: string
  tr_txn :: txn_type
  tr_qty :: int
  tr_price :: pyfloat
  tr_notional :: int
  tr_costs_paise :: int
  tr_product :: prdct
  tr_costs :: bt_cost
  tr_at :: string
  tr_tag :: string

definition position_key :: "string \<Rightarrow> string \<Rightarrow> prdct \<Rightarrow> string" where
  "position_key symbol exchange pr =
     py_upper exchange @ '':'' @ py_upper symbol @ '':'' @ product_value pr"

section \<open>Configuration and the cost model\<close>

record paper_config =
  pc_slippage :: pyfloat
  pc_impact :: pyfloat
  pc_participation :: pyfloat
  pc_tick :: pyfloat
  pc_max_age :: pyfloat
  pc_strict :: bool
  pc_hours :: bool
  pc_squareoff :: bool
  pc_cost_config :: cost_config
  pc_holidays :: "int list option"
  pc_stored :: bool
  pc_allow_reset :: bool

text \<open>The checks and defaults of the constructor.\<close>

definition default_paper_config :: paper_config where
  "default_paper_config = \<lparr>pc_slippage = fl (5 / 10000), pc_impact = fl (2 / 100),
     pc_participation = fl (1 / 10), pc_tick = fl (5 / 100), pc_max_age = Fin 30, pc_strict = False,
     pc_hours = True, pc_squareoff = True, pc_cost_config = CONFIG, pc_holidays = None,
     pc_stored = False, pc_allow_reset = False\<rparr>"

definition check_paper_config :: "pyfloat \<Rightarrow> paper_config \<Rightarrow> unit res" where
  "check_paper_config initial_cash cfg =
     (if initial_cash < Fin 0 then Inl (ValueError ''initial_cash must be >= 0'')
      else if \<not> (Fin 0 < pc_participation cfg \<and> pc_participation cfg \<le> Fin 1)
        then Inl (ValueError ''max_participation must be in (0, 1]'')
      else if pc_tick cfg \<le> Fin 0 then Inl (ValueError ''tick_size must be > 0'')
      else Inr ())"

fun cost_product :: "prdct \<Rightarrow> string" where
  "cost_product MIS = ''MIS''"
| "cost_product CNC = ''CNC''"
| "cost_product NRML = ''NRML''"
| "cost_product CO = ''MIS''"
| "cost_product BO = ''MIS''"

definition intraday_product :: "prdct \<Rightarrow> bool" where
  "intraday_product p \<longleftrightarrow> p \<in> {MIS, CO, BO}"

definition costs_paise ::
  "paper_config \<Rightarrow> int \<Rightarrow> pyfloat \<Rightarrow> txn_type \<Rightarrow> prdct \<Rightarrow> (int \<times> bt_cost) res" where
  "costs_paise cfg qty price txn pr =
     res_bind (bt_costs (pc_cost_config cfg) (txn_value txn) (fint qty) price (cost_product pr)) (\<lambda>b.
     res_bind (to_paise (bc_total b)) (\<lambda>p. Inr (p, b)))"

section \<open>The market snapshot\<close>

datatype stamp = BadStamp | Stamp datetime

text \<open>A quote of the data feed: the keys the broker reads, \<open>None\<close> where missing.\<close>

record raw_quote =
  rq_last :: "pyfloat option"
  rq_volume :: "int option"
  rq_open :: "pyfloat option"
  rq_high :: "pyfloat option"
  rq_low :: "pyfloat option"
  rq_close :: "pyfloat option"
  rq_bid :: "pyfloat option"
  rq_ask :: "pyfloat option"
  rq_timestamp :: "stamp option"
  rq_last_trade_time :: "stamp option"

definition empty_quote :: raw_quote where
  "empty_quote = \<lparr>rq_last = None, rq_volume = None, rq_open = None, rq_high = None, rq_low = None,
     rq_close = None, rq_bid = None, rq_ask = None, rq_timestamp = None, rq_last_trade_time = None\<rparr>"

record market_snapshot =
  sn_symbol :: string
  sn_exchange :: string
  sn_last :: pyfloat
  sn_bid :: pyfloat
  sn_ask :: pyfloat
  sn_volume :: int
  sn_open :: pyfloat
  sn_high :: pyfloat
  sn_low :: pyfloat
  sn_prev_close :: pyfloat
  sn_half_spread :: pyfloat
  sn_age :: "pyfloat option"

definition liquidity_known :: "market_snapshot \<Rightarrow> bool" where
  "liquidity_known s \<longleftrightarrow> 0 < sn_volume s"

text \<open>The age of a quote in seconds; a missing, unparseable or naive stamp, like a naive clock,
  gives none.\<close>

definition quote_age :: "datetime \<Rightarrow> raw_quote \<Rightarrow> pyfloat option" where
  "quote_age clock q =
     (case (case rq_timestamp q of Some s \<Rightarrow> Some s | None \<Rightarrow> rq_last_trade_time q) of
        Some (Stamp d) \<Rightarrow> (case ensure_aware d of Inl _ \<Rightarrow> None
          | Inr t \<Rightarrow> (case ensure_aware clock of Inl _ \<Rightarrow> None
              | Inr now \<Rightarrow> (case int_truediv (now - t) 1000000 of Inl _ \<Rightarrow> None | Inr a \<Rightarrow> Some a)))
      | _ \<Rightarrow> None)"

definition model_half_spread_bps :: "paper_config \<Rightarrow> pyfloat \<Rightarrow> int \<Rightarrow> pyfloat" where
  "model_half_spread_bps cfg price volume =
     (let turnover = price * fint (max volume 0);
          bps = (if Fin 1000000000 \<le> turnover then Fin 2
                 else if Fin 100000000 \<le> turnover then Fin 5
                 else if Fin 10000000 \<le> turnover then Fin 15 else Fin 40);
          half_tick_bps = fquot (fquot (pc_tick cfg) (Fin 2)) (fmax price (fl (1 / 1000000000))) * Fin 10000
      in fmax bps half_tick_bps)"

definition half_spread_bps :: "paper_config \<Rightarrow> raw_quote \<Rightarrow> pyfloat \<Rightarrow> int \<Rightarrow> pyfloat" where
  "half_spread_bps cfg q last_price volume =
     (let model = model_half_spread_bps cfg last_price volume in
      case (rq_bid q, rq_ask q) of
        (Some b, Some a) \<Rightarrow>
          if ftruthy b \<and> ftruthy a \<and> b < a \<and> Fin 0 < b
          then fmax (fquot (fquot (a - b) (Fin 2)) last_price * Fin 10000) model
          else model
      | _ \<Rightarrow> model)"

text \<open>The snapshot built from a quote whose last price is usable, dated \<open>age\<close>.\<close>

definition make_snapshot ::
  "paper_config \<Rightarrow> string \<Rightarrow> string \<Rightarrow> raw_quote \<Rightarrow> pyfloat \<Rightarrow> pyfloat option \<Rightarrow> market_snapshot res" where
  "make_snapshot cfg symbol exchange q last_price age =
     (let volume = int_or (rq_volume q) 0;
          half_bps = half_spread_bps cfg q last_price volume;
          half = fquot (last_price * half_bps) (Fin 10000) in
      res_bind (floor_tick (last_price - half) (pc_tick cfg)) (\<lambda>bid.
      res_bind (ceil_tick (last_price + half) (pc_tick cfg)) (\<lambda>ask.
      Inr \<lparr>sn_symbol = symbol, sn_exchange = exchange, sn_last = last_price,
        sn_bid = fmax bid (pc_tick cfg), sn_ask = ask, sn_volume = volume,
        sn_open = float_or (rq_open q) last_price, sn_high = float_or (rq_high q) last_price,
        sn_low = float_or (rq_low q) last_price, sn_prev_close = float_or (rq_close q) last_price,
        sn_half_spread = half_bps, sn_age = age\<rparr>)))"

section \<open>The execution model\<close>

definition impact_frac :: "paper_config \<Rightarrow> int \<Rightarrow> int \<Rightarrow> pyfloat res" where
  "impact_frac cfg qty volume =
     (if volume \<le> 0 then Inr (Fin 1)
      else res_bind (int_truediv qty volume) (\<lambda>participation.
           res_bind (fsqrt participation) (\<lambda>r. Inr (fmax (pc_slippage cfg) (pc_impact cfg * r)))))"

definition max_qty_within_limit ::
  "paper_config \<Rightarrow> pyfloat \<Rightarrow> pyfloat \<Rightarrow> int \<Rightarrow> txn_type \<Rightarrow> int res" where
  "max_qty_within_limit cfg limit touch volume txn =
     res_bind (fdiv limit touch) (\<lambda>q.
     let allowed = (if txn = BUY then q - Fin 1 else Fin 1 - q) in
     if allowed < pc_slippage cfg then Inr 0
     else if pc_impact cfg \<le> Fin 0 then Inr 1000000000000
     else res_bind (fdiv allowed (pc_impact cfg)) (\<lambda>a.
          res_bind (fsquare a) (\<lambda>participation. to_int (participation * fint volume))))"

definition snap_limit :: "paper_config \<Rightarrow> pyfloat \<Rightarrow> txn_type \<Rightarrow> pyfloat res" where
  "snap_limit cfg price txn =
     (if txn = BUY then floor_tick price (pc_tick cfg) else ceil_tick price (pc_tick cfg))"

text \<open>The touch moved by the impact of \<open>qty\<close> and rounded to the tick grid against the trader.\<close>

definition impacted_price ::
  "paper_config \<Rightarrow> pyfloat \<Rightarrow> int \<Rightarrow> int \<Rightarrow> txn_type \<Rightarrow> pyfloat res" where
  "impacted_price cfg touch qty volume txn =
     res_bind (impact_frac cfg qty volume) (\<lambda>impact.
     if txn = BUY then ceil_tick (touch * (Fin 1 + impact)) (pc_tick cfg)
     else floor_tick (touch * (Fin 1 - impact)) (pc_tick cfg))"

definition plan_market ::
  "paper_config \<Rightarrow> int \<Rightarrow> pyfloat \<Rightarrow> int \<Rightarrow> txn_type \<Rightarrow> (int \<times> pyfloat \<times> reject_reason option) res" where
  "plan_market cfg qty touch volume txn =
     res_bind (impacted_price cfg touch qty volume txn) (\<lambda>price. Inr (qty, price, None))"

definition plan_limit ::
  "paper_config \<Rightarrow> pyfloat \<Rightarrow> int \<Rightarrow> pyfloat \<Rightarrow> int \<Rightarrow> txn_type \<Rightarrow>
     (int \<times> pyfloat \<times> reject_reason option) res" where
  "plan_limit cfg price most touch volume txn =
     res_bind (snap_limit cfg price txn) (\<lambda>limit.
     if txn = BUY \<and> limit < touch then Inr (0, Fin 0, None)
     else if txn = SELL \<and> touch < limit then Inr (0, Fin 0, None)
     else res_bind (max_qty_within_limit cfg limit touch volume txn) (\<lambda>fits.
       let qty = min most fits in
       if qty < 1 then Inr (0, Fin 0, None)
       else res_bind (impacted_price cfg touch qty volume txn) (\<lambda>p.
         Inr (qty, if txn = BUY then fmin limit p else fmax limit p, None))))"

definition plan_stop ::
  "paper_config \<Rightarrow> pyfloat \<Rightarrow> int \<Rightarrow> pyfloat \<Rightarrow> int \<Rightarrow> txn_type \<Rightarrow>
     (int \<times> pyfloat \<times> reject_reason option) res" where
  "plan_stop cfg trigger qty touch volume txn =
     (if \<not> (if txn = BUY then trigger \<le> touch else touch \<le> trigger) then Inr (0, Fin 0, None)
      else res_bind (impacted_price cfg touch qty volume txn) (\<lambda>p.
        Inr (qty, if txn = BUY then fmax trigger p else fmin trigger p, None)))"

definition plan_fill ::
  "paper_config \<Rightarrow> paper_order \<Rightarrow> market_snapshot \<Rightarrow> (int \<times> pyfloat \<times> reject_reason option) res" where
  "plan_fill cfg ord snap =
     (let txn = po_txn ord; remaining = po_qty ord - po_filled ord in
      if remaining \<le> 0 then Inr (0, Fin 0, None)
      else if \<not> liquidity_known snap then Inr (0, Fin 0, Some NO_LIQUIDITY_DATA)
      else res_bind (to_int (fint (sn_volume snap) * pc_participation cfg)) (\<lambda>capacity.
        if capacity < 1 then Inr (0, Fin 0, Some NO_LIQUIDITY)
        else let touch = (if txn = BUY then sn_ask snap else sn_bid snap);
                 most = min remaining capacity in
          (case po_type ord of
             MARKET \<Rightarrow> plan_market cfg most touch (sn_volume snap) txn
           | LIMIT \<Rightarrow> plan_limit cfg (po_price ord) most touch (sn_volume snap) txn
           | _ \<Rightarrow> plan_stop cfg (po_price ord) most touch (sn_volume snap) txn)))"

definition worst_case_outflow ::
  "paper_config \<Rightarrow> int \<Rightarrow> pyfloat \<Rightarrow> order_type \<Rightarrow> prdct \<Rightarrow> market_snapshot \<Rightarrow> int res" where
  "worst_case_outflow cfg qty price ot pr snap =
     res_bind
       (if ot = LIMIT then snap_limit cfg price BUY
        else let base = (if ot = MARKET then sn_ask snap else fmax price (sn_ask snap)) in
          res_bind (impact_frac cfg qty (max (sn_volume snap) 1)) (\<lambda>impact.
            ceil_tick (base * (Fin 1 + impact)) (pc_tick cfg)))
     (\<lambda>ref. res_bind (costs_paise cfg qty ref BUY pr) (\<lambda>(est, _).
            res_bind (to_paise ref) (\<lambda>px. Inr (qty * px + est))))"

text \<open>\<open>_affordable_qty\<close>: the loop shrinks \<open>qty\<close> by at least one each time round. A budget or
  unit price that is not positive is handled before the loop.\<close>

function affordable_loop ::
  "paper_config \<Rightarrow> int \<Rightarrow> int \<Rightarrow> pyfloat \<Rightarrow> prdct \<Rightarrow> int \<Rightarrow> int res" where
  "affordable_loop cfg budget px price pr qty =
     (if qty \<le> 0 then Inr 0
      else case costs_paise cfg qty price BUY pr of
        Inl e \<Rightarrow> Inl e
      | Inr (costs, _) \<Rightarrow>
          (let need = qty * px + costs in
           if need \<le> budget then Inr qty
           else if need = 0 then Inl ZeroDivisionError
           else affordable_loop cfg budget px price pr (min (budget * qty div need) (qty - 1))))"
  by pat_completeness auto
termination
  by (relation "measure (\<lambda>(_, _, _, _, _, qty). nat qty)") auto

declare affordable_loop.simps [simp del]

definition affordable_qty ::
  "paper_config \<Rightarrow> int \<Rightarrow> int \<Rightarrow> pyfloat \<Rightarrow> prdct \<Rightarrow> int res" where
  "affordable_qty cfg budget qty price pr =
     res_bind (to_paise price) (\<lambda>px.
     if budget \<le> 0 \<or> px \<le> 0 then Inr 0 else affordable_loop cfg budget px price pr qty)"

end
