(* ===== verification/Paper_State.thy ===== *)
theory Paper_State
  imports Paper_Book
begin

text \<open>
  The persisted form of the paper book, of \<open>app/broker/paper.py\<close>: \<open>asdict\<close> of orders and positions,
  \<open>sort_keys=True\<close>, and the way back through the dataclass constructors, as JSON values. The text
  of a JSON value is the library's. Readers take a value of the declared type (an integer where a
  float is declared too); the untyped constructors would carry another one along, here it is refused.
\<close>

section \<open>Names of the enumeration members\<close>

fun pstatus_value :: "pstatus \<Rightarrow> string" where
  "pstatus_value P_OPEN = ''OPEN''"
| "pstatus_value P_PARTIAL = ''PARTIAL''"
| "pstatus_value P_COMPLETE = ''COMPLETE''"
| "pstatus_value P_CANCELLED = ''CANCELLED''"
| "pstatus_value P_REJECTED = ''REJECTED''"

fun reject_value :: "reject_reason \<Rightarrow> string" where
  "reject_value NOT_CONNECTED = ''NOT_CONNECTED''"
| "reject_value INVALID_QUANTITY = ''INVALID_QUANTITY''"
| "reject_value INVALID_PRICE = ''INVALID_PRICE''"
| "reject_value MARKET_CLOSED = ''MARKET_CLOSED''"
| "reject_value SQUARE_OFF_WINDOW = ''SQUARE_OFF_WINDOW''"
| "reject_value NO_PRICE = ''NO_PRICE''"
| "reject_value STALE_PRICE = ''STALE_PRICE''"
| "reject_value NO_LIQUIDITY_DATA = ''NO_LIQUIDITY_DATA''"
| "reject_value NO_LIQUIDITY = ''NO_LIQUIDITY''"
| "reject_value INSUFFICIENT_CASH = ''INSUFFICIENT_CASH''"
| "reject_value INSUFFICIENT_HOLDINGS = ''INSUFFICIENT_HOLDINGS''"
| "reject_value SHORT_SELL_NOT_SUPPORTED = ''SHORT_SELL_NOT_SUPPORTED''"
| "reject_value PERSISTENCE_DEGRADED = ''PERSISTENCE_DEGRADED''"
| "reject_value UNSUPPORTED_PRODUCT = ''UNSUPPORTED_PRODUCT''"

definition pstatus_of :: "string \<Rightarrow> pstatus option" where
  "pstatus_of s = List.find (\<lambda>p. pstatus_value p = s) [P_OPEN, P_PARTIAL, P_COMPLETE, P_CANCELLED, P_REJECTED]"

definition reject_of :: "string \<Rightarrow> reject_reason option" where
  "reject_of s = List.find (\<lambda>r. reject_value r = s)
     [NOT_CONNECTED, INVALID_QUANTITY, INVALID_PRICE, MARKET_CLOSED, SQUARE_OFF_WINDOW, NO_PRICE, STALE_PRICE,
      NO_LIQUIDITY_DATA, NO_LIQUIDITY, INSUFFICIENT_CASH, INSUFFICIENT_HOLDINGS, SHORT_SELL_NOT_SUPPORTED,
      PERSISTENCE_DEGRADED, UNSUPPORTED_PRODUCT]"

lemma pstatus_of_value [simp]: "pstatus_of (pstatus_value p) = Some p"
  by (cases p) (simp_all add: pstatus_of_def)

lemma reject_of_value [simp]: "reject_of (reject_value r) = Some r"
  by (cases r) (simp_all add: reject_of_def)

section \<open>Reading one field\<close>

definition named :: "(string \<Rightarrow> 'a option) \<Rightarrow> json \<Rightarrow> 'a option" where
  "named f j = Option.bind (as_str j) f"

definition res_option :: "'a res \<Rightarrow> 'a option" where
  "res_option r = (case r of Inl _ \<Rightarrow> None | Inr x \<Rightarrow> Some x)"

fun as_number :: "json \<Rightarrow> pyfloat option" where
  "as_number (JFloat x) = Some x"
| "as_number (JInt n) = Some (fint n)"
| "as_number _ = None"

fun as_opt :: "(json \<Rightarrow> 'a option) \<Rightarrow> json \<Rightarrow> 'a option option" where
  "as_opt f JNull = Some None"
| "as_opt f j = map_option Some (f j)"

definition opt_json :: "('a \<Rightarrow> json) \<Rightarrow> 'a option \<Rightarrow> json" where
  "opt_json f x = (case x of None \<Rightarrow> JNull | Some y \<Rightarrow> f y)"

text \<open>\<open>data[k]\<close>, \<open>int(...)\<close> of a number, and the two cash fields, which \<open>isinstance(x, int)\<close> guards (a
  boolean is an integer).\<close>

fun field_of :: "json \<Rightarrow> string \<Rightarrow> json res" where
  "field_of (JObj kvs) k = (case map_of kvs k of None \<Rightarrow> Inl (KeyError k) | Some j \<Rightarrow> Inr j)"
| "field_of _ k = Inl (TypeError k)"

fun saved_int :: "json \<Rightarrow> int option" where
  "saved_int (JInt n) = Some n"
| "saved_int (JBool b) = Some (if b then 1 else 0)"
| "saved_int _ = None"

definition int_field :: "json \<Rightarrow> string \<Rightarrow> int res" where
  "int_field data k = res_bind (field_of data k) (\<lambda>j. case j of
     JFloat x \<Rightarrow> to_int x
   | _ \<Rightarrow> (case saved_int j of None \<Rightarrow> Inl (TypeError k) | Some n \<Rightarrow> Inr n))"

text \<open>\<open>{k: f(v) for k, v in d.items()}\<close>.\<close>

definition read_items :: "(json \<Rightarrow> 'a res) \<Rightarrow> json \<Rightarrow> (string \<times> 'a) list res" where
  "read_items f j = (case j of
     JObj kvs \<Rightarrow> res_map (\<lambda>(k, v). res_bind (f v) (\<lambda>x. Inr (k, x))) kvs
   | _ \<Rightarrow> Inl (PyExn ''AttributeError'' ''items''))"

definition STATE_SCHEMA_VERSION :: int where "STATE_SCHEMA_VERSION = 2"

text \<open>\<open>schema != 2\<close> compares numbers by value.\<close>

fun schema_matches :: "json option \<Rightarrow> bool" where
  "schema_matches (Some (JInt n)) = (n = STATE_SCHEMA_VERSION)"
| "schema_matches (Some (JFloat x)) = (x = fint STATE_SCHEMA_VERSION)"
| "schema_matches _ = False"

section \<open>\<open>sort_keys\<close>\<close>

primrec sorted_json :: "json \<Rightarrow> json" where
  "sorted_json JNull = JNull"
| "sorted_json (JBool b) = JBool b"
| "sorted_json (JInt n) = JInt n"
| "sorted_json (JFloat x) = JFloat x"
| "sorted_json (JStr s) = JStr s"
| "sorted_json (JList xs) = JList (map sorted_json xs)"
| "sorted_json (JObj kvs) = JObj (sort_key fst (map (map_prod id sorted_json) kvs))"

text \<open>A value whose objects have no key twice, as every Python dictionary.\<close>

primrec unique_keys :: "json \<Rightarrow> bool" where
  "unique_keys JNull = True"
| "unique_keys (JBool b) = True"
| "unique_keys (JInt n) = True"
| "unique_keys (JFloat x) = True"
| "unique_keys (JStr s) = True"
| "unique_keys (JList xs) = list_all id (map unique_keys xs)"
| "unique_keys (JObj kvs) = (distinct (map fst kvs) \<and> list_all snd (map (map_prod id unique_keys) kvs))"

lemma map_of_filter: "map_of kvs k = map_of (filter (\<lambda>kv. fst kv = k) kvs) k"
  by (induction kvs) auto

lemma map_of_sort_key [simp]: "map_of (sort_key fst kvs) k = map_of kvs k"
  using map_of_filter [of kvs k] map_of_filter [of "sort_key fst kvs" k] by (simp add: sort_key_stable)

lemma sort_key_once [simp]: "sort_key f (sort_key f xs) = sort_key f xs"
  by (simp add: sort_key_id_if_sorted)

lemma insort_map_prod:
  "insort_key fst (map_prod id f x) (map (map_prod id f) kvs) = map (map_prod id f) (insort_key fst x kvs)"
  by (induction kvs) auto

lemma sort_key_map_prod: "sort_key fst (map (map_prod id f) kvs) = map (map_prod id f) (sort_key fst kvs)"
  by (induction kvs) (simp_all only: list.map sort_key_simps insort_map_prod)

lemma sorted_json_obj: "sorted_json (JObj kvs) = JObj (map (map_prod id sorted_json) (sort_key fst kvs))"
  by (simp add: sort_key_map_prod)

lemma map_fst_prod [simp]: "map (fst \<circ> map_prod id f) kvs = map fst kvs"
  by simp

lemma unique_sorted: "unique_keys j \<Longrightarrow> unique_keys (sorted_json j)"
proof (induction j)
  case (JObj kvs)
  have "distinct (map fst (sort_key fst kvs))"
    using JObj.prems by (simp add: distinct_map inj_on_def)
  then show ?case
    using JObj by (force simp: sorted_json_obj list_all_iff simp del: sorted_json.simps)
qed (auto simp: list_all_iff)

lemma sorted_json_twice [simp]: "sorted_json (sorted_json j) = sorted_json j"
proof (induction j)
  case (JObj kvs)
  have "map (map_prod id sorted_json) (map (map_prod id sorted_json) (sort_key fst kvs)) =
      map (map_prod id sorted_json) (sort_key fst kvs)"
    using JObj by (auto simp: fsts.simps)
  then show ?case by (simp only: sorted_json_obj sort_key_map_prod sort_key_once)
qed auto

lemma kwarg_sorted: "kwarg (sort_key fst kvs) k d rd = kwarg kvs k d rd"
  by (simp add: kwarg_def)

section \<open>\<open>asdict\<close> and the constructors\<close>

definition charges_json :: "bt_cost option \<Rightarrow> json" where
  "charges_json c = JObj (case c of None \<Rightarrow> [] | Some b \<Rightarrow>
     [(''brokerage'', JFloat (bc_brokerage b)), (''stt'', JFloat (bc_stt b)),
      (''exchange_charge'', JFloat (bc_exchange b)), (''sebi_charge'', JFloat (bc_sebi b)),
      (''gst'', JFloat (bc_gst b)), (''stamp_duty'', JFloat (bc_stamp b)), (''dp_charges'', JFloat (bc_dp b)),
      (''total'', JFloat (bc_total b)), (''total_pct'', JFloat (bc_total_pct b))])"

definition order_json :: "paper_order \<Rightarrow> json" where
  "order_json r = JObj
     [(''order_id'', JStr (po_id r)), (''symbol'', JStr (po_symbol r)), (''exchange'', JStr (po_exchange r)),
      (''txn_type'', JStr (txn_value (po_txn r))), (''qty'', JInt (po_qty r)), (''price'', JFloat (po_price r)),
      (''order_type'', JStr (order_type_value (po_type r))), (''product'', JStr (product_value (po_product r))),
      (''tag'', JStr (po_tag r)), (''status'', JStr (pstatus_value (po_status r))),
      (''filled_qty'', JInt (po_filled r)), (''average_price'', JFloat (po_average r)),
      (''placed_at'', JStr (po_placed_at r)), (''filled_at'', opt_json JStr (po_filled_at r)),
      (''reject_reason'', opt_json (JStr \<circ> reject_value) (po_reject r)), (''message'', JStr (po_message r)),
      (''costs'', charges_json (po_costs r)), (''reserved_cash_paise'', JInt (po_reserved_cash r)),
      (''reserved_qty'', JInt (po_reserved_qty r))]"

definition holding_json :: "paper_position \<Rightarrow> json" where
  "holding_json p = JObj
     [(''symbol'', JStr (pp_symbol p)), (''exchange'', JStr (pp_exchange p)),
      (''product'', JStr (product_value (pp_product p))), (''quantity'', JInt (pp_quantity p)),
      (''average_price'', JFloat (pp_average p)), (''cost_basis_paise'', JInt (pp_basis p)),
      (''last_price'', JFloat (pp_last p)), (''realised'', JFloat (pp_realised p)),
      (''unrealised'', JFloat (pp_unrealised p)), (''pnl'', JFloat (pp_pnl p))]"

definition trade_json :: "trade \<Rightarrow> json" where
  "trade_json t = JObj
     [(''order_id'', JStr (tr_order_id t)), (''symbol'', JStr (tr_symbol t)), (''exchange'', JStr (tr_exchange t)),
      (''txn_type'', JStr (txn_value (tr_txn t))), (''qty'', JInt (tr_qty t)), (''price'', JFloat (tr_price t)),
      (''notional_paise'', JInt (tr_notional t)), (''costs_paise'', JInt (tr_costs_paise t)),
      (''product'', JStr (product_value (tr_product t))), (''costs'', charges_json (Some (tr_costs t))),
      (''timestamp'', JStr (tr_at t)), (''tag'', JStr (tr_tag t))]"

text \<open>A dictionary of charges is empty or has the names of a breakdown.\<close>

definition cost_fields :: "(string \<times> json) list \<Rightarrow> bt_cost res" where
  "cost_fields kvs = (let f = (\<lambda>k. kwarg kvs k None as_number) in
     res_bind (f ''brokerage'') (\<lambda>b. res_bind (f ''stt'') (\<lambda>s. res_bind (f ''exchange_charge'') (\<lambda>e.
     res_bind (f ''sebi_charge'') (\<lambda>se. res_bind (f ''gst'') (\<lambda>g. res_bind (f ''stamp_duty'') (\<lambda>st.
     res_bind (f ''dp_charges'') (\<lambda>d. res_bind (f ''total'') (\<lambda>t. res_bind (f ''total_pct'') (\<lambda>p.
     Inr \<lparr>bc_brokerage = b, bc_stt = s, bc_exchange = e, bc_sebi = se, bc_gst = g, bc_stamp = st, bc_dp = d,
       bc_total = t, bc_total_pct = p\<rparr>))))))))))"

fun charges_of :: "json \<Rightarrow> bt_cost option option" where
  "charges_of (JObj []) = Some None"
| "charges_of (JObj kvs) = map_option Some (res_option (cost_fields kvs))"
| "charges_of _ = None"

definition known_fields :: "string list \<Rightarrow> (string \<times> json) list \<Rightarrow> unit res" where
  "known_fields ks kvs = (if \<forall>kv \<in> set kvs. fst kv \<in> set ks then Inr () else Inl (TypeError ''unexpected keyword argument''))"

text \<open>\<open>PaperOrder(**v)\<close> and \<open>PaperPosition(**v)\<close>.\<close>

definition order_fields :: "string list" where
  "order_fields = [''order_id'', ''symbol'', ''exchange'', ''txn_type'', ''qty'', ''price'', ''order_type'',
     ''product'', ''tag'', ''status'', ''filled_qty'', ''average_price'', ''placed_at'', ''filled_at'',
     ''reject_reason'', ''message'', ''costs'', ''reserved_cash_paise'', ''reserved_qty'']"

definition order_of_json :: "json \<Rightarrow> paper_order res" where
  "order_of_json j = (case j of JObj kvs \<Rightarrow>
     res_bind (known_fields order_fields kvs) (\<lambda>_.
     res_bind (kwarg kvs ''order_id'' None as_str) (\<lambda>i. res_bind (kwarg kvs ''symbol'' None as_str) (\<lambda>sy.
     res_bind (kwarg kvs ''exchange'' None as_str) (\<lambda>ex.
     res_bind (kwarg kvs ''txn_type'' None (named (res_option \<circ> txn_of))) (\<lambda>tx.
     res_bind (kwarg kvs ''qty'' None as_int) (\<lambda>q. res_bind (kwarg kvs ''price'' None as_number) (\<lambda>px.
     res_bind (kwarg kvs ''order_type'' None (named (res_option \<circ> order_type_of))) (\<lambda>ot.
     res_bind (kwarg kvs ''product'' None (named (res_option \<circ> product_of))) (\<lambda>pr.
     res_bind (kwarg kvs ''tag'' None as_str) (\<lambda>tg.
     res_bind (kwarg kvs ''status'' (Some P_OPEN) (named pstatus_of)) (\<lambda>st.
     res_bind (kwarg kvs ''filled_qty'' (Some 0) as_int) (\<lambda>fq.
     res_bind (kwarg kvs ''average_price'' (Some (Fin 0)) as_number) (\<lambda>av.
     res_bind (kwarg kvs ''placed_at'' (Some []) as_str) (\<lambda>pa.
     res_bind (kwarg kvs ''filled_at'' (Some None) (as_opt as_str)) (\<lambda>fa.
     res_bind (kwarg kvs ''reject_reason'' (Some None) (as_opt (named reject_of))) (\<lambda>rr.
     res_bind (kwarg kvs ''message'' (Some []) as_str) (\<lambda>ms.
     res_bind (kwarg kvs ''costs'' (Some None) charges_of) (\<lambda>cs.
     res_bind (kwarg kvs ''reserved_cash_paise'' (Some 0) as_int) (\<lambda>rc.
     res_bind (kwarg kvs ''reserved_qty'' (Some 0) as_int) (\<lambda>rq.
     Inr \<lparr>po_id = i, po_symbol = sy, po_exchange = ex, po_txn = tx, po_qty = q, po_price = px, po_type = ot,
       po_product = pr, po_tag = tg, po_status = st, po_filled = fq, po_average = av, po_placed_at = pa,
       po_filled_at = fa, po_reject = rr, po_message = ms, po_costs = cs, po_reserved_cash = rc,
       po_reserved_qty = rq\<rparr>))))))))))))))))))))
   | _ \<Rightarrow> Inl (TypeError ''argument after ** must be a mapping''))"

definition holding_fields :: "string list" where
  "holding_fields = [''symbol'', ''exchange'', ''product'', ''quantity'', ''average_price'', ''cost_basis_paise'',
     ''last_price'', ''realised'', ''unrealised'', ''pnl'']"

definition holding_of_json :: "json \<Rightarrow> paper_position res" where
  "holding_of_json j = (case j of JObj kvs \<Rightarrow>
     res_bind (known_fields holding_fields kvs) (\<lambda>_.
     res_bind (kwarg kvs ''symbol'' None as_str) (\<lambda>sy. res_bind (kwarg kvs ''exchange'' None as_str) (\<lambda>ex.
     res_bind (kwarg kvs ''product'' None (named (res_option \<circ> product_of))) (\<lambda>pr.
     res_bind (kwarg kvs ''quantity'' None as_int) (\<lambda>q.
     res_bind (kwarg kvs ''average_price'' None as_number) (\<lambda>av.
     res_bind (kwarg kvs ''cost_basis_paise'' (Some 0) as_int) (\<lambda>cb.
     res_bind (kwarg kvs ''last_price'' (Some (Fin 0)) as_number) (\<lambda>lp.
     res_bind (kwarg kvs ''realised'' (Some (Fin 0)) as_number) (\<lambda>re.
     res_bind (kwarg kvs ''unrealised'' (Some (Fin 0)) as_number) (\<lambda>un.
     res_bind (kwarg kvs ''pnl'' (Some (Fin 0)) as_number) (\<lambda>pn.
     Inr \<lparr>pp_symbol = sy, pp_exchange = ex, pp_product = pr, pp_quantity = q, pp_average = av, pp_basis = cb,
       pp_last = lp, pp_realised = re, pp_unrealised = un, pp_pnl = pn\<rparr>)))))))))))
   | _ \<Rightarrow> Inl (TypeError ''argument after ** must be a mapping''))"

text \<open>The trades are kept as they are read, here in the form the broker writes.\<close>

definition trade_of_json :: "json \<Rightarrow> trade res" where
  "trade_of_json j = (case j of JObj kvs \<Rightarrow>
     res_bind (kwarg kvs ''order_id'' None as_str) (\<lambda>i. res_bind (kwarg kvs ''symbol'' None as_str) (\<lambda>sy.
     res_bind (kwarg kvs ''exchange'' None as_str) (\<lambda>ex.
     res_bind (kwarg kvs ''txn_type'' None (named (res_option \<circ> txn_of))) (\<lambda>tx.
     res_bind (kwarg kvs ''qty'' None as_int) (\<lambda>q. res_bind (kwarg kvs ''price'' None as_number) (\<lambda>px.
     res_bind (kwarg kvs ''notional_paise'' None as_int) (\<lambda>no.
     res_bind (kwarg kvs ''costs_paise'' None as_int) (\<lambda>cp.
     res_bind (kwarg kvs ''product'' None (named (res_option \<circ> product_of))) (\<lambda>pr.
     res_bind (kwarg kvs ''costs'' None (\<lambda>c. Option.bind (charges_of c) id)) (\<lambda>cs.
     res_bind (kwarg kvs ''timestamp'' None as_str) (\<lambda>ti. res_bind (kwarg kvs ''tag'' None as_str) (\<lambda>tg.
     Inr \<lparr>tr_order_id = i, tr_symbol = sy, tr_exchange = ex, tr_txn = tx, tr_qty = q, tr_price = px,
       tr_notional = no, tr_costs_paise = cp, tr_product = pr, tr_costs = cs, tr_at = ti, tr_tag = tg\<rparr>))))))))))))
   | _ \<Rightarrow> Inl (TypeError ''trade''))"

definition read_trades :: "json \<Rightarrow> trade list res" where
  "read_trades data = res_bind (field_of data ''trades'') (\<lambda>j. case j of
     JList ts \<Rightarrow> res_map trade_of_json ts
   | _ \<Rightarrow> Inl (TypeError ''trades''))"

section \<open>What is written is read back\<close>

lemma res_option_simps [simp]: "res_option (Inr x) = Some x" "res_option (Inl e) = None"
  by (simp_all add: res_option_def)

lemma named_JStr [simp]: "named f (JStr s) = f s"
  by (simp add: named_def)

lemma as_opt_json:
  "as_opt as_str (sorted_json (opt_json JStr x)) = Some x"
  "as_opt (named reject_of) (sorted_json (opt_json (JStr \<circ> reject_value) y)) = Some y"
  by (cases x; cases y; simp add: opt_json_def)+

lemma known_sorted: "known_fields ks (sort_key fst kvs) = known_fields ks kvs"
  by (simp add: known_fields_def)

text \<open>A reader by key does not see the order of the keys.\<close>

lemma order_of_sorted: "order_of_json (JObj (sort_key fst kvs)) = order_of_json (JObj kvs)"
  by (simp only: order_of_json_def json.case kwarg_sorted known_sorted)

lemma holding_of_sorted: "holding_of_json (JObj (sort_key fst kvs)) = holding_of_json (JObj kvs)"
  by (simp only: holding_of_json_def json.case kwarg_sorted known_sorted)

lemma trade_of_sorted: "trade_of_json (JObj (sort_key fst kvs)) = trade_of_json (JObj kvs)"
  by (simp only: trade_of_json_def json.case kwarg_sorted)

lemma charges_of_JObj: "kvs \<noteq> [] \<Longrightarrow> charges_of (JObj kvs) = map_option Some (res_option (cost_fields kvs))"
  by (cases kvs) auto

lemma charges_of_sorted [simp]: "charges_of (sorted_json (charges_json c)) = Some c"
proof (cases c)
  case (Some b)
  let ?kvs = "case charges_json (Some b) of JObj kvs \<Rightarrow> map (map_prod id sorted_json) kvs"
  have "cost_fields (sort_key fst ?kvs) = cost_fields ?kvs"
    by (simp only: cost_fields_def kwarg_sorted)
  also have "\<dots> = Inr b"
    by (simp add: cost_fields_def kwarg_def charges_json_def)
  finally have f: "cost_fields (sort_key fst ?kvs) = Inr b" .
  have "sort_key fst ?kvs \<noteq> []"
    using length_sort [of fst ?kvs] by (auto simp: charges_json_def simp del: length_sort)
  note e = charges_of_JObj [OF this]
  have "sorted_json (charges_json (Some b)) = JObj (sort_key fst ?kvs)"
    by (simp only: charges_json_def json.case sorted_json.simps)
  then show ?thesis by (simp only: Some e f res_option_simps option.map)
qed (simp add: charges_json_def)

lemmas read_defs = kwarg_def known_fields_def as_opt_json

lemma order_restored: "order_of_json (sorted_json (order_json r)) = Inr r"
  unfolding order_json_def sorted_json.simps order_of_sorted
  by (simp add: order_of_json_def order_fields_def read_defs del: sorted_json.simps(7))

lemma holding_restored: "holding_of_json (sorted_json (holding_json p)) = Inr p"
  unfolding holding_json_def sorted_json.simps holding_of_sorted
  by (simp add: holding_of_json_def holding_fields_def read_defs)

lemma trade_restored: "trade_of_json (sorted_json (trade_json t)) = Inr t"
  unfolding trade_json_def sorted_json.simps trade_of_sorted
  by (simp add: trade_of_json_def read_defs)

lemma items_restored:
  assumes "\<And>v. f (sorted_json (g v)) = Inr v"
  shows "read_items f (sorted_json (JObj (map (map_prod id g) kvs))) = Inr (sort_key fst kvs)"
proof -
  have "res_map (\<lambda>(k, v). res_bind (f v) (\<lambda>x. Inr (k, x))) (map (map_prod id sorted_json) (map (map_prod id g) xs)) = Inr xs" for xs
    by (induction xs) (auto simp: assms map_prod_def split: prod.split)
  then show ?thesis by (simp add: read_items_def sorted_json_obj sort_key_map_prod del: sorted_json.simps map_map)
qed

lemma trades_restored: "res_map trade_of_json (map sorted_json (map trade_json ts)) = Inr ts"
  by (induction ts) (simp_all add: trade_restored)

text \<open>Every record is written with each key once.\<close>

lemma written_unique:
  "unique_keys (order_json r)" "unique_keys (holding_json p)" "unique_keys (trade_json t)"
proof -
  have c: "unique_keys (charges_json c)" for c by (cases c) (simp_all add: charges_json_def)
  have o: "unique_keys (opt_json JStr x)" "unique_keys (opt_json (JStr \<circ> reject_value) y)" for x y
    by (cases x; cases y; simp add: opt_json_def)+
  show "unique_keys (order_json r)" "unique_keys (holding_json p)" "unique_keys (trade_json t)"
    by (simp_all add: order_json_def holding_json_def trade_json_def c o)
qed

lemma items_unique:
  "distinct (map fst kvs) \<Longrightarrow> (\<And>v. unique_keys (g v)) \<Longrightarrow> unique_keys (JObj (map (map_prod id g) kvs))"
  by (auto simp: list_all_iff)

end
