(* ===== verification/Paper_Broker.thy ===== *)
theory Paper_Broker
  imports Paper_State
begin

text \<open>
  \<open>PaperBroker\<close> of \<open>app/broker/paper.py\<close>: the book (cash in paise, reservations, orders,
  positions, trades) and every operation on it. The data broker, the clock, the state store and
  the two library codecs (JSON and SHA-256) are the \<open>feed\<close>, a parameter. An order is an object
  that the code shares between the book and its callers: here it is reached through its id. The
  id that \<open>uuid4()\<close> draws is an argument.
\<close>

section \<open>The book and its environment\<close>

text \<open>\<open>fd_dumps\<close> and \<open>fd_loads\<close> are \<open>json.dumps\<close> and \<open>json.loads\<close> between a JSON value and its text,
  \<open>fd_digest\<close> the hexadecimal SHA-256.\<close>

record 'd feed =
  fd_clock :: "'d \<Rightarrow> datetime"
  fd_quote :: "string \<Rightarrow> ('d, (string \<times> raw_quote) list) ef"
  fd_read :: "('d, string option) ef"
  fd_write :: "string \<Rightarrow> ('d, unit) ef"
  fd_dumps :: "json \<Rightarrow> string"
  fd_loads :: "string \<Rightarrow> json res"
  fd_digest :: "string \<Rightarrow> string"

record 'd book =
  pb_initial :: int
  pb_cash :: int
  pb_reserved :: int
  pb_total_costs :: int
  pb_orders :: "(string \<times> paper_order) list"
  pb_positions :: "(string \<times> paper_position) list"
  pb_trades :: "trade list"
  pb_ages :: "(string \<times> pyfloat option) list"
  pb_connected :: bool
  pb_degraded :: bool
  pb_env :: 'd

definition paper_book :: "int \<Rightarrow> 'd \<Rightarrow> 'd book" where
  "paper_book initial d = \<lparr>pb_initial = initial, pb_cash = initial, pb_reserved = 0, pb_total_costs = 0,
     pb_orders = [], pb_positions = [], pb_trades = [], pb_ages = [], pb_connected = False,
     pb_degraded = False, pb_env = d\<rparr>"

definition on_feed :: "('d, 'a) ef \<Rightarrow> ('d book, 'a) ef" where
  "on_feed m = (\<lambda>s. case m (pb_env s) of (r, d) \<Rightarrow> (r, s\<lparr>pb_env := d\<rparr>))"

definition now_ist :: "'d feed \<Rightarrow> ('d book, int) ef" where
  "now_ist fd = ef_bind (ef_get (\<lambda>s. fd_clock fd (pb_env s))) (\<lambda>d. ef_lift (ensure_aware d))"

definition with_order :: "string \<Rightarrow> (paper_order \<Rightarrow> ('d book, 'a) ef) \<Rightarrow> ('d book, 'a) ef" where
  "with_order oid k = ef_bind (ef_get (\<lambda>s. map_of (pb_orders s) oid)) (\<lambda>ord.
     case ord of None \<Rightarrow> ef_raise (KeyError oid) | Some ord' \<Rightarrow> k ord')"

definition set_order :: "string \<Rightarrow> paper_order \<Rightarrow> 'd book \<Rightarrow> 'd book" where
  "set_order oid ord s = s\<lparr>pb_orders := AList.update oid ord (pb_orders s)\<rparr>"

section \<open>The invariants, the ledger and the reservations\<close>

definition trade_cash :: "trade \<Rightarrow> int" where
  "trade_cash t = (if tr_txn t = BUY then - tr_notional t else tr_notional t) - tr_costs_paise t"

definition ledger_cash :: "'d book \<Rightarrow> int" where
  "ledger_cash s = foldl (\<lambda>cash t. cash + trade_cash t) (pb_initial s) (pb_trades s)"

definition book_check :: "'d book \<Rightarrow> unit res" where
  "book_check s =
     (if pb_cash s < 0 then Inl (AccountingInvariantError ''cash went negative'')
      else if pb_reserved s < 0 then Inl (AccountingInvariantError ''reserved cash went negative'')
      else if pb_cash s < pb_reserved s then Inl (AccountingInvariantError ''reserved exceeds cash'')
      else if \<exists>(_, p) \<in> set (pb_positions s). pp_quantity p < 0 \<or> pp_basis p < 0
        then Inl (AccountingInvariantError ''position went short or has negative basis'')
      else if ledger_cash s \<noteq> pb_cash s
        then Inl (AccountingInvariantError ''cash disagrees with the trade ledger'')
      else Inr ())"

definition assert_invariants :: "('d book, unit) ef" where
  "assert_invariants = ef_bind (ef_get book_check) ef_lift"

definition available_cash :: "'d book \<Rightarrow> int" where
  "available_cash s = pb_cash s - pb_reserved s"

definition reserved_qty :: "string \<Rightarrow> 'd book \<Rightarrow> int" where
  "reserved_qty key s = sum_list (map (\<lambda>(_, ord). po_reserved_qty ord)
     (filter (\<lambda>(_, ord). po_status ord = P_OPEN \<and>
        position_key (po_symbol ord) (po_exchange ord) (po_product ord) = key) (pb_orders s)))"

definition held_qty :: "string \<Rightarrow> 'd book \<Rightarrow> int" where
  "held_qty key s = (case map_of (pb_positions s) key of None \<Rightarrow> 0 | Some p \<Rightarrow> pp_quantity p)"

definition free_qty :: "string \<Rightarrow> string \<Rightarrow> prdct \<Rightarrow> 'd book \<Rightarrow> int" where
  "free_qty symbol exchange pr s =
     (let key = position_key symbol exchange pr in held_qty key s - reserved_qty key s)"

section \<open>Persistence\<close>

definition book_json :: "'d book \<Rightarrow> json" where
  "book_json s = JObj
     [(''initial_cash_paise'', JInt (pb_initial s)), (''cash_paise'', JInt (pb_cash s)),
      (''reserved_cash_paise'', JInt (pb_reserved s)), (''total_costs_paise'', JInt (pb_total_costs s)),
      (''orders'', JObj (map (map_prod id order_json) (pb_orders s))),
      (''positions'', JObj (map (map_prod id holding_json) (pb_positions s))),
      (''trades'', JList (map trade_json (pb_trades s)))]"

definition serialise :: "'d feed \<Rightarrow> 'd book \<Rightarrow> string" where
  "serialise fd s = (let body = fd_dumps fd (sorted_json (book_json s)) in
     fd_dumps fd (JObj [(''schema'', JInt STATE_SCHEMA_VERSION), (''checksum'', JStr (fd_digest fd body)),
       (''body'', JStr body)]))"

definition open_envelope :: "'d feed \<Rightarrow> string \<Rightarrow> json res" where
  "open_envelope fd raw =
     res_bind (fd_loads fd raw) (\<lambda>envelope. case envelope of
       JObj ev \<Rightarrow>
         if \<not> schema_matches (map_of ev ''schema'') then Inl (ValueError ''state schema'')
         else (case map_of ev ''body'' of
           Some (JStr body) \<Rightarrow>
             if map_of ev ''checksum'' \<noteq> Some (JStr (fd_digest fd body))
             then Inl (ValueError ''state checksum mismatch'')
             else fd_loads fd body
         | _ \<Rightarrow> Inl (ValueError ''state body missing or not a string''))
     | _ \<Rightarrow> Inl (ValueError ''state envelope is not an object''))"

text \<open>What is read before the book changes, and then the assignments in their order: an exception on the way leaves those
  that were made.\<close>

definition read_book ::
  "json \<Rightarrow> (int \<times> int \<times> (string \<times> paper_order) list \<times> (string \<times> paper_position) list) res" where
  "read_book data =
     res_bind (field_of data ''cash_paise'') (\<lambda>c.
     res_bind (field_of data ''reserved_cash_paise'') (\<lambda>r.
     case (saved_int c, saved_int r) of
       (Some cash, Some reserved) \<Rightarrow>
         res_bind (res_bind (field_of data ''orders'') (read_items order_of_json)) (\<lambda>orders.
         res_bind (res_bind (field_of data ''positions'') (read_items holding_of_json)) (\<lambda>positions.
         Inr (cash, reserved, orders, positions)))
     | _ \<Rightarrow> Inl (ValueError ''cash fields must be integer paise'')))"

definition deserialise :: "'d feed \<Rightarrow> string \<Rightarrow> ('d book, unit) ef" where
  "deserialise fd raw =
     ef_bind (ef_lift (open_envelope fd raw)) (\<lambda>data.
     ef_bind (ef_lift (read_book data)) (\<lambda>(cash, reserved, orders, positions).
     ef_bind (ef_lift (int_field data ''initial_cash_paise'')) (\<lambda>initial.
     ef_seq (ef_modify (\<lambda>s. s\<lparr>pb_initial := initial, pb_cash := cash, pb_reserved := reserved\<rparr>))
     (ef_bind (ef_lift (int_field data ''total_costs_paise'')) (\<lambda>costs.
     ef_seq (ef_modify (\<lambda>s. s\<lparr>pb_total_costs := costs, pb_orders := orders, pb_positions := positions\<rparr>))
     (ef_bind (ef_lift (read_trades data)) (\<lambda>trades.
     ef_seq (ef_modify (\<lambda>s. s\<lparr>pb_trades := trades\<rparr>)) assert_invariants)))))))"

definition reset_book :: "'d book \<Rightarrow> 'd book" where
  "reset_book s = s\<lparr>pb_cash := pb_initial s, pb_reserved := 0, pb_total_costs := 0, pb_orders := [],
     pb_positions := [], pb_trades := []\<rparr>"

definition state_error :: exn where
  "state_error = PyExn ''PaperBrokerStateError'' ''persisted state is unreadable or corrupt''"

definition load_state :: "paper_config \<Rightarrow> 'd feed \<Rightarrow> ('d book, unit) ef" where
  "load_state cfg fd =
     (if \<not> pc_stored cfg then ef_return ()
      else ef_bind (ef_try (on_feed (fd_read fd))) (\<lambda>r. case r of
        Inl _ \<Rightarrow> ef_raise state_error
      | Inr None \<Rightarrow> ef_return ()
      | Inr (Some raw) \<Rightarrow> ef_bind (ef_try (deserialise fd raw)) (\<lambda>r'. case r' of
          Inl _ \<Rightarrow> if pc_allow_reset cfg then ef_modify reset_book else ef_raise state_error
        | Inr _ \<Rightarrow> ef_return ())))"

definition save_state :: "paper_config \<Rightarrow> 'd feed \<Rightarrow> ('d book, unit) ef" where
  "save_state cfg fd =
     (if \<not> pc_stored cfg then ef_return ()
      else ef_bind (ef_get (serialise fd)) (\<lambda>blob.
        ef_bind (ef_try (on_feed (fd_write fd blob))) (\<lambda>r.
          ef_modify (\<lambda>s. s\<lparr>pb_degraded := (case r of Inl _ \<Rightarrow> True | Inr _ \<Rightarrow> False)\<rparr>))))"

definition connect :: "paper_config \<Rightarrow> 'd feed \<Rightarrow> ('d book, unit) ef" where
  "connect cfg fd = ef_seq (load_state cfg fd) (ef_seq assert_invariants
     (ef_modify (\<lambda>s. s\<lparr>pb_connected := True\<rparr>)))"

definition disconnect :: "paper_config \<Rightarrow> 'd feed \<Rightarrow> ('d book, unit) ef" where
  "disconnect cfg fd = ef_seq (save_state cfg fd) (ef_modify (\<lambda>s. s\<lparr>pb_connected := False\<rparr>))"

section \<open>Market data\<close>

definition is_stale_tick :: "paper_config \<Rightarrow> string \<Rightarrow> pyfloat \<Rightarrow> 'd book \<Rightarrow> bool" where
  "is_stale_tick cfg symbol max_age s = (case map_of (pb_ages s) symbol of
     None \<Rightarrow> True | Some None \<Rightarrow> pc_strict cfg | Some (Some age) \<Rightarrow> max_age < age)"

definition set_age :: "string \<Rightarrow> pyfloat option \<Rightarrow> 'd book \<Rightarrow> 'd book" where
  "set_age symbol age s = s\<lparr>pb_ages := AList.update symbol age (pb_ages s)\<rparr>"

definition record_quote_age :: "'d feed \<Rightarrow> string \<Rightarrow> raw_quote \<Rightarrow> ('d book, pyfloat option) ef" where
  "record_quote_age fd symbol q =
     ef_bind (ef_get (\<lambda>s. quote_age (fd_clock fd (pb_env s)) q)) (\<lambda>age.
     ef_seq (ef_modify (set_age symbol age)) (ef_return age))"

definition bare_symbol :: "string \<Rightarrow> string" where
  "bare_symbol key = rev (takeWhile (\<lambda>c. c \<noteq> CHR '':'') (rev key))"

definition get_quote :: "'d feed \<Rightarrow> string \<Rightarrow> ('d book, (string \<times> raw_quote) list) ef" where
  "get_quote fd symbols =
     ef_bind (on_feed (fd_quote fd symbols)) (\<lambda>quotes.
     ef_seq (ef_iter (\<lambda>(key, q). record_quote_age fd (bare_symbol key) q) quotes) (ef_return quotes))"

definition snapshot ::
  "paper_config \<Rightarrow> 'd feed \<Rightarrow> string \<Rightarrow> string \<Rightarrow> ('d book, market_snapshot) ef" where
  "snapshot cfg fd symbol exchange =
     (let key = exchange @ '':'' @ symbol in
      ef_bind (on_feed (fd_quote fd key)) (\<lambda>quotes.
      let q = (case map_of quotes key of None \<Rightarrow> empty_quote | Some q \<Rightarrow> q);
          no_price = ef_seq (ef_modify (set_age symbol None))
            (ef_raise (PaperBrokerError ''no usable price'')) in
      case rq_last q of
        None \<Rightarrow> no_price
      | Some last_price \<Rightarrow>
          if last_price \<le> Fin 0 then no_price
          else ef_bind (record_quote_age fd symbol q) (\<lambda>age.
            ef_lift (make_snapshot cfg symbol exchange q last_price age))))"

section \<open>Fills: the single place where cash and positions change\<close>

definition bought :: "paper_order \<Rightarrow> int \<Rightarrow> pyfloat \<Rightarrow> int \<Rightarrow> pyfloat \<Rightarrow> paper_position option \<Rightarrow> paper_position"
  where
  "bought ord qty price outflow last_price pos = (case pos of
     None \<Rightarrow> \<lparr>pp_symbol = po_symbol ord, pp_exchange = po_exchange ord, pp_product = po_product ord,
       pp_quantity = qty, pp_average = price, pp_basis = outflow, pp_last = last_price,
       pp_realised = Fin 0, pp_unrealised = Fin 0, pp_pnl = Fin 0\<rparr>
   | Some p \<Rightarrow> p\<lparr>pp_average := fround 4 (fquot (pp_average p * fint (pp_quantity p) + price * fint qty)
         (fint (pp_quantity p + qty))),
       pp_quantity := pp_quantity p + qty, pp_basis := pp_basis p + outflow, pp_last := last_price\<rparr>)"

definition sold :: "int \<Rightarrow> int \<Rightarrow> int \<Rightarrow> pyfloat \<Rightarrow> paper_position \<Rightarrow> paper_position" where
  "sold qty proceeds basis_out last_price p =
     (let left = pp_quantity p - qty in
      p\<lparr>pp_quantity := left,
        pp_basis := (if left = 0 then 0 else pp_basis p - basis_out),
        pp_realised := fround 2 (pp_realised p + to_rupees (proceeds - basis_out)),
        pp_last := last_price,
        pp_average := (if left = 0 then Fin 0 else pp_average p)\<rparr>)"

definition fill_buy :: "string \<Rightarrow> string \<Rightarrow> int \<Rightarrow> pyfloat \<Rightarrow> int \<Rightarrow> pyfloat \<Rightarrow> ('d book, unit) ef" where
  "fill_buy oid key qty price outflow last_price =
     with_order oid (\<lambda>ord.
     ef_seq (if po_reserved_cash ord = 0 then ef_return ()
       else let take = min (po_reserved_cash ord) outflow in
         ef_modify (\<lambda>s. set_order oid (ord\<lparr>po_reserved_cash := po_reserved_cash ord - take\<rparr>)
           (s\<lparr>pb_reserved := pb_reserved s - take\<rparr>)))
     (ef_bind (ef_get pb_cash) (\<lambda>cash.
      if cash < outflow then ef_raise (AccountingInvariantError ''BUY would overdraw'')
      else ef_modify (\<lambda>s. s\<lparr>pb_cash := pb_cash s - outflow,
        pb_positions := AList.update key
          (bought ord qty price outflow last_price (map_of (pb_positions s) key)) (pb_positions s)\<rparr>))))"

definition fill_sell :: "string \<Rightarrow> string \<Rightarrow> int \<Rightarrow> int \<Rightarrow> pyfloat \<Rightarrow> ('d book, unit) ef" where
  "fill_sell oid key qty proceeds last_price =
     ef_bind (ef_get (\<lambda>s. map_of (pb_positions s) key)) (\<lambda>pos. case pos of
       None \<Rightarrow> ef_raise (AccountingInvariantError ''SELL without the shares'')
     | Some p \<Rightarrow>
         if pp_quantity p < qty then ef_raise (AccountingInvariantError ''SELL without the shares'')
         else ef_bind (ef_lift (res_bind (int_truediv (pp_basis p * qty) (pp_quantity p)) round_int)) (\<lambda>basis_out.
           with_order oid (\<lambda>ord. ef_modify (\<lambda>s. set_order oid
             (ord\<lparr>po_reserved_qty := (if po_reserved_qty ord = 0 then 0 else max 0 (po_reserved_qty ord - qty))\<rparr>)
             (s\<lparr>pb_cash := pb_cash s + proceeds,
                pb_positions := AList.update key (sold qty proceeds basis_out last_price p) (pb_positions s)\<rparr>)))))"

text \<open>The charges of an order accumulate over its fills.\<close>

definition merge_costs :: "bt_cost \<Rightarrow> bt_cost \<Rightarrow> pyfloat \<Rightarrow> bt_cost" where
  "merge_costs a b traded =
     (let add = (\<lambda>f. fround 4 (f a + f b)) in
      \<lparr>bc_brokerage = add bc_brokerage, bc_stt = add bc_stt, bc_exchange = add bc_exchange,
       bc_sebi = add bc_sebi, bc_gst = add bc_gst, bc_stamp = add bc_stamp, bc_dp = add bc_dp,
       bc_total = add bc_total,
       bc_total_pct = (if ftruthy traded then fround 8 (fquot (add bc_total) traded) else Fin 0)\<rparr>)"

definition book_order_fill :: "int \<Rightarrow> pyfloat \<Rightarrow> string \<Rightarrow> bt_cost \<Rightarrow> paper_order \<Rightarrow> paper_order" where
  "book_order_fill qty price ts costs ord =
     (let filled = po_filled ord + qty;
          average = fround 4 (fquot (po_average ord * fint (po_filled ord) + price * fint qty) (fint filled))
      in ord\<lparr>po_filled := filled, po_average := average, po_filled_at := Some ts,
             po_costs := Some (merge_costs (case po_costs ord of None \<Rightarrow> bt_zero | Some c \<Rightarrow> c) costs (average * fint filled))\<rparr>)"

definition trade_of ::
  "string \<Rightarrow> paper_order \<Rightarrow> int \<Rightarrow> pyfloat \<Rightarrow> int \<Rightarrow> int \<Rightarrow> bt_cost \<Rightarrow> string \<Rightarrow> trade" where
  "trade_of oid ord qty price notional costs breakdown ts =
     \<lparr>tr_order_id = oid, tr_symbol = po_symbol ord, tr_exchange = po_exchange ord, tr_txn = po_txn ord,
      tr_qty = qty, tr_price = price, tr_notional = notional, tr_costs_paise = costs,
      tr_product = po_product ord, tr_costs = breakdown, tr_at = ts, tr_tag = po_tag ord\<rparr>"

definition order_key :: "paper_order \<Rightarrow> string" where
  "order_key ord = position_key (po_symbol ord) (po_exchange ord) (po_product ord)"

definition move_cash ::
  "string \<Rightarrow> paper_order \<Rightarrow> int \<Rightarrow> pyfloat \<Rightarrow> int \<Rightarrow> int \<Rightarrow> pyfloat \<Rightarrow> ('d book, unit) ef" where
  "move_cash oid ord qty price notional costs last_price =
     (if po_txn ord = BUY then fill_buy oid (order_key ord) qty price (notional + costs) last_price
      else fill_sell oid (order_key ord) qty (notional - costs) last_price)"

definition record_fill ::
  "'d feed \<Rightarrow> string \<Rightarrow> paper_order \<Rightarrow> int \<Rightarrow> pyfloat \<Rightarrow> int \<Rightarrow> int \<Rightarrow> bt_cost \<Rightarrow> ('d book, unit) ef" where
  "record_fill fd oid ord qty price notional costs breakdown =
     ef_seq (ef_modify (\<lambda>s. s\<lparr>pb_total_costs := pb_total_costs s + costs\<rparr>))
    (ef_bind (now_ist fd) (\<lambda>now. let ts = iso_text (ist_of now) in
     with_order oid (\<lambda>ord'.
     ef_seq (ef_modify (set_order oid (book_order_fill qty price ts breakdown ord')))
       (ef_modify (\<lambda>s. s\<lparr>pb_trades := pb_trades s @ [trade_of oid ord qty price notional costs breakdown ts]\<rparr>)))))"

definition apply_paper_fill ::
  "paper_config \<Rightarrow> 'd feed \<Rightarrow> string \<Rightarrow> int \<Rightarrow> pyfloat \<Rightarrow> market_snapshot \<Rightarrow> ('d book, unit) ef" where
  "apply_paper_fill cfg fd oid qty price snap =
     with_order oid (\<lambda>ord.
     ef_bind (ef_lift (to_paise price)) (\<lambda>px.
     ef_bind (ef_lift (costs_paise cfg qty price (po_txn ord) (po_product ord))) (\<lambda>(costs, breakdown).
     ef_seq (move_cash oid ord qty price (qty * px) costs (sn_last snap))
       (record_fill fd oid ord qty price (qty * px) costs breakdown))))"

definition execute_against ::
  "paper_config \<Rightarrow> 'd feed \<Rightarrow> string \<Rightarrow> market_snapshot \<Rightarrow> ('d book, reject_reason option) ef" where
  "execute_against cfg fd oid snap =
     with_order oid (\<lambda>ord.
     ef_bind (ef_lift (plan_fill cfg ord snap)) (\<lambda>(qty, price, reason).
     if reason \<noteq> None then ef_return reason
     else if qty \<le> 0 then ef_return None
     else if po_txn ord = BUY then
       ef_bind (ef_get (\<lambda>s. pb_cash s - pb_reserved s + po_reserved_cash ord)) (\<lambda>budget.
       ef_bind (ef_lift (affordable_qty cfg budget qty price (po_product ord))) (\<lambda>q.
       if q \<le> 0 then ef_return (Some INSUFFICIENT_CASH)
       else ef_seq (apply_paper_fill cfg fd oid q price snap) (ef_return None)))
     else
       ef_bind (ef_get (held_qty (order_key ord))) (\<lambda>held.
       let q = min qty held in
       if q \<le> 0 then ef_return (Some INSUFFICIENT_HOLDINGS)
       else ef_seq (apply_paper_fill cfg fd oid q price snap) (ef_return None))))"

section \<open>Order placement\<close>

definition reject_order :: "string \<Rightarrow> reject_reason \<Rightarrow> string \<Rightarrow> paper_order \<Rightarrow> ('d book, string) ef" where
  "reject_order oid reason msg ord =
     ef_seq (ef_modify (set_order oid (ord\<lparr>po_status := P_REJECTED, po_reject := Some reason, po_message := msg,
       po_reserved_cash := 0, po_reserved_qty := 0\<rparr>))) (ef_return oid)"

definition release_order :: "string \<Rightarrow> ('d book, unit) ef" where
  "release_order oid = with_order oid (\<lambda>ord.
     ef_modify (\<lambda>s. set_order oid (ord\<lparr>po_reserved_cash := 0, po_reserved_qty := 0\<rparr>)
       (s\<lparr>pb_reserved := pb_reserved s - po_reserved_cash ord\<rparr>)))"

definition set_status :: "string \<Rightarrow> pstatus \<Rightarrow> ('d book, unit) ef" where
  "set_status oid st = with_order oid (\<lambda>ord. ef_modify (set_order oid (ord\<lparr>po_status := st\<rparr>)))"

definition partial_text :: "paper_order \<Rightarrow> string" where
  "partial_text ord = ''filled '' @ int_str (po_filled ord) @ ''/'' @ int_str (po_qty ord) @
     ''; remainder cancelled (insufficient displayed liquidity)''"

definition finalise :: "string \<Rightarrow> ('d book, unit) ef" where
  "finalise oid = with_order oid (\<lambda>ord.
     if po_qty ord \<le> po_filled ord then ef_seq (set_status oid P_COMPLETE) (release_order oid)
     else if 0 < po_filled ord then ef_seq (ef_modify (set_order oid (ord\<lparr>po_status := P_PARTIAL,
         po_message := partial_text ord\<rparr>))) (release_order oid)
     else ef_modify (set_order oid (ord\<lparr>po_status := P_OPEN,
       po_reserved_qty := (if po_reserved_qty ord = 0 then 0 else po_qty ord)\<rparr>)))"

definition effective_price :: "place_request \<Rightarrow> pyfloat" where
  "effective_price req = (case pl_trigger req of
     Some t \<Rightarrow> if pl_order_type req \<in> {SL, SL_M} then t else pl_price req
   | None \<Rightarrow> pl_price req)"

definition new_order :: "string \<Rightarrow> place_request \<Rightarrow> int \<Rightarrow> paper_order" where
  "new_order oid req now = \<lparr>po_id = oid, po_symbol = pl_symbol req, po_exchange = pl_exchange req, po_txn = pl_txn req,
     po_qty = pl_qty req, po_price = effective_price req, po_type = pl_order_type req,
     po_product = pl_product req, po_tag = pl_tag req, po_status = P_OPEN, po_filled = 0,
     po_average = Fin 0, po_placed_at = iso_text (ist_of now), po_filled_at = None, po_reject = None, po_message = [],
     po_costs = None,
     po_reserved_cash = 0, po_reserved_qty = 0\<rparr>"

text \<open>The checks made before a quote is asked for, in the code's order.\<close>

definition static_reject :: "paper_config \<Rightarrow> place_request \<Rightarrow> moment \<Rightarrow> 'd book \<Rightarrow> reject_reason option" where
  "static_reject cfg req now s =
     (if pb_degraded s then Some PERSISTENCE_DEGRADED
      else if pl_qty req \<le> 0 then Some INVALID_QUANTITY
      else if pl_order_type req \<in> {LIMIT, SL, SL_M} \<and>
          (\<not> isfinite (effective_price req) \<or> effective_price req \<le> Fin 0) then Some INVALID_PRICE
      else if pc_hours cfg \<and> \<not> is_market_open (pc_holidays cfg) now then Some MARKET_CLOSED
      else if pc_squareoff cfg \<and> intraday_product (pl_product req) \<and> is_squareoff_time now \<and> pl_txn req = BUY
        then Some SQUARE_OFF_WINDOW
      else if pl_txn req = SELL \<and> free_qty (pl_symbol req) (pl_exchange req) (pl_product req) s < pl_qty req
        then Some (if free_qty (pl_symbol req) (pl_exchange req) (pl_product req) s \<le> 0
          then SHORT_SELL_NOT_SUPPORTED else INSUFFICIENT_HOLDINGS)
      else None)"

text \<open>The messages of the rejections. \<open>repr\<close> of an exception is its message here.\<close>

definition static_text :: "place_request \<Rightarrow> moment \<Rightarrow> 'd book \<Rightarrow> reject_reason \<Rightarrow> string" where
  "static_text req now s why =
     (if why = PERSISTENCE_DEGRADED then ''state store is unavailable; refusing new orders''
      else if why = INVALID_QUANTITY then ''quantity must be a positive int, got '' @ int_str (pl_qty req)
      else if why = INVALID_PRICE
        then order_type_value (pl_order_type req) @ '' needs a positive price, got '' @ float_str (effective_price req)
      else if why = MARKET_CLOSED then ''NSE session closed at '' @ iso_text now @ '' (IST)''
      else if why = SQUARE_OFF_WINDOW
        then ''cannot open a new '' @ product_value (pl_product req) @ '' position after 15:20:00 IST (auto square-off)''
      else ''sell '' @ int_str (pl_qty req) @ '' but only '' @
        int_str (free_qty (pl_symbol req) (pl_exchange req) (pl_product req) s) @ '' free '' @ pl_symbol req @
        '' held; short selling is not supported by this broker'')"

fun quote_text :: "exn \<Rightarrow> string" where
  "quote_text (PaperBrokerError m) = m"
| "quote_text e = ''quote failed: '' @ exn_msg e"

definition stale_text :: "paper_config \<Rightarrow> market_snapshot \<Rightarrow> string" where
  "stale_text cfg snap = ''quote age '' @ (case sn_age snap of None \<Rightarrow> ''None'' | Some age \<Rightarrow> float_str age) @
     ''s exceeds '' @ float_str (pc_max_age cfg) @ ''s''"

definition stale_snapshot :: "paper_config \<Rightarrow> market_snapshot \<Rightarrow> bool" where
  "stale_snapshot cfg snap \<longleftrightarrow> (case sn_age snap of
     Some age \<Rightarrow> pc_max_age cfg < age | None \<Rightarrow> pc_strict cfg)"

text \<open>Reserve cash or stock and enter the order into the book, or say why not.\<close>

definition reserve_order ::
  "paper_config \<Rightarrow> string \<Rightarrow> place_request \<Rightarrow> paper_order \<Rightarrow> market_snapshot \<Rightarrow> ('d book, string option) ef" where
  "reserve_order cfg oid req ord snap =
     (if pl_txn req = BUY then
        ef_bind (ef_lift (worst_case_outflow cfg (pl_qty req) (pl_price req) (pl_order_type req)
          (pl_product req) snap)) (\<lambda>need.
        ef_bind (ef_get available_cash) (\<lambda>free.
        if free < need then ef_return (Some (''need Rs '' @ float_str (to_rupees need) @ '', available Rs '' @
          float_str (to_rupees free)))
        else ef_seq (ef_modify (\<lambda>s. set_order oid (ord\<lparr>po_reserved_cash := need\<rparr>)
            (s\<lparr>pb_reserved := pb_reserved s + need\<rparr>))) (ef_return None)))
      else ef_seq (ef_modify (set_order oid (ord\<lparr>po_reserved_qty := pl_qty req\<rparr>))) (ef_return None))"

definition execute_new ::
  "paper_config \<Rightarrow> 'd feed \<Rightarrow> string \<Rightarrow> market_snapshot \<Rightarrow> ('d book, string) ef" where
  "execute_new cfg fd oid snap =
     ef_bind (execute_against cfg fd oid snap) (\<lambda>reason.
     with_order oid (\<lambda>ord. case reason of
       Some why \<Rightarrow>
         if po_filled ord = 0 then ef_seq (release_order oid) (with_order oid (reject_order oid why
           (reject_value why @ '' for '' @ po_symbol ord)))
         else ef_seq (finalise oid) (ef_seq assert_invariants (ef_seq (save_state cfg fd) (ef_return oid)))
     | None \<Rightarrow> ef_seq (finalise oid) (ef_seq assert_invariants (ef_seq (save_state cfg fd) (ef_return oid)))))"

definition place_order ::
  "paper_config \<Rightarrow> 'd feed \<Rightarrow> string \<Rightarrow> place_request \<Rightarrow> ('d book, string) ef" where
  "place_order cfg fd oid req =
     ef_bind (now_ist fd) (\<lambda>now.
     let ord = new_order oid req now in
     ef_bind (ef_get (static_reject cfg req (ist_of now))) (\<lambda>bad. case bad of
       Some why \<Rightarrow> ef_bind (ef_get (\<lambda>s. static_text req (ist_of now) s why)) (\<lambda>msg. reject_order oid why msg ord)
     | None \<Rightarrow>
        ef_bind (ef_try (snapshot cfg fd (pl_symbol req) (pl_exchange req))) (\<lambda>r. case r of
          Inl e \<Rightarrow> reject_order oid NO_PRICE (quote_text e) ord
        | Inr snap \<Rightarrow>
            if stale_snapshot cfg snap then reject_order oid STALE_PRICE (stale_text cfg snap) ord
            else if \<not> liquidity_known snap then reject_order oid NO_LIQUIDITY_DATA
              (''feed reported no traded volume for '' @ pl_symbol req) ord
            else ef_bind (reserve_order cfg oid req ord snap) (\<lambda>refused. case refused of
              None \<Rightarrow> execute_new cfg fd oid snap
            | Some msg \<Rightarrow> reject_order oid INSUFFICIENT_CASH msg ord))))"

section \<open>Resting orders, cancelling, modifying\<close>

definition cancel_paper_order :: "paper_config \<Rightarrow> 'd feed \<Rightarrow> string \<Rightarrow> ('d book, bool) ef" where
  "cancel_paper_order cfg fd oid =
     ef_bind (ef_get (\<lambda>s. map_of (pb_orders s) oid)) (\<lambda>ord. case ord of
       None \<Rightarrow> ef_return False
     | Some ord' \<Rightarrow>
         if po_status ord' \<noteq> P_OPEN then ef_return False
         else ef_seq (release_order oid) (ef_seq (set_status oid P_CANCELLED)
           (ef_seq assert_invariants (ef_seq (save_state cfg fd) (ef_return True)))))"

text \<open>A refused quantity has already been written to the order when the holdings are compared.\<close>

definition modify_qty :: "string \<Rightarrow> int option \<Rightarrow> ('d book, bool) ef" where
  "modify_qty oid qty = (case qty of
     None \<Rightarrow> ef_return True
   | Some q \<Rightarrow> with_order oid (\<lambda>ord.
       if q \<le> po_filled ord then ef_return False
       else ef_seq (ef_modify (set_order oid (ord\<lparr>po_qty := q\<rparr>)))
         (if po_reserved_qty ord = 0 then ef_return True
          else ef_bind (ef_get (free_qty (po_symbol ord) (po_exchange ord) (po_product ord))) (\<lambda>free.
            if free + po_reserved_qty ord < q - po_filled ord then ef_return False
            else ef_seq (ef_modify (set_order oid (ord\<lparr>po_qty := q, po_reserved_qty := q - po_filled ord\<rparr>)))
              (ef_return True)))))"

definition modify_price :: "string \<Rightarrow> pyfloat option \<Rightarrow> ('d book, bool) ef" where
  "modify_price oid price = (case price of
     None \<Rightarrow> ef_return True
   | Some p \<Rightarrow>
       if \<not> isfinite p \<or> p \<le> Fin 0 then ef_return False
       else with_order oid (\<lambda>ord. ef_seq (ef_modify (set_order oid (ord\<lparr>po_price := p\<rparr>))) (ef_return True)))"

definition modify_order ::
  "paper_config \<Rightarrow> 'd feed \<Rightarrow> string \<Rightarrow> int option \<Rightarrow> pyfloat option \<Rightarrow> ('d book, bool) ef" where
  "modify_order cfg fd oid qty price =
     ef_bind (ef_get (\<lambda>s. map_of (pb_orders s) oid)) (\<lambda>ord. case ord of
       None \<Rightarrow> ef_return False
     | Some ord' \<Rightarrow>
         if po_status ord' \<noteq> P_OPEN then ef_return False
         else ef_bind (modify_qty oid qty) (\<lambda>ok.
           if \<not> ok then ef_return False
           else ef_bind (modify_price oid price) (\<lambda>ok'.
             if \<not> ok' then ef_return False
             else ef_seq assert_invariants (ef_seq (save_state cfg fd) (ef_return True)))))"

definition poll_one :: "paper_config \<Rightarrow> 'd feed \<Rightarrow> string \<Rightarrow> ('d book, nat) ef" where
  "poll_one cfg fd oid = with_order oid (\<lambda>ord.
     if po_status ord \<noteq> P_OPEN then ef_return 0
     else ef_bind (ef_try (snapshot cfg fd (po_symbol ord) (po_exchange ord))) (\<lambda>r. case r of
       Inl _ \<Rightarrow> ef_return 0
     | Inr snap \<Rightarrow> ef_bind (execute_against cfg fd oid snap) (\<lambda>reason. with_order oid (\<lambda>ord'.
         if reason \<noteq> None \<and> po_filled ord' = 0 then ef_return 0
         else if po_filled ord < po_filled ord' then ef_seq (finalise oid) (ef_return 1)
         else ef_return 0))))"

definition poll_open_orders :: "paper_config \<Rightarrow> 'd feed \<Rightarrow> ('d book, nat) ef" where
  "poll_open_orders cfg fd =
     ef_bind (ef_get (\<lambda>s. map fst (pb_orders s))) (\<lambda>oids.
     ef_bind (ef_iter (poll_one cfg fd) oids) (\<lambda>counts.
     if sum_list counts = 0 then ef_return 0
     else ef_seq assert_invariants (ef_seq (save_state cfg fd) (ef_return (sum_list counts)))))"

text \<open>\<open>square_off_intraday\<close>: \<open>uuid i\<close> is the id drawn for the closing order of the \<open>i\<close>-th
  position. Each position first has every open order of its symbol cancelled.\<close>

definition square_off_request :: "string \<Rightarrow> paper_position \<Rightarrow> place_request" where
  "square_off_request tag p = \<lparr>pl_symbol = pp_symbol p, pl_exchange = pp_exchange p, pl_txn = SELL,
     pl_qty = pp_quantity p, pl_price = Fin 0, pl_order_type = MARKET, pl_product = pp_product p,
     pl_tag = tag, pl_trigger = None\<rparr>"

definition cancel_symbol :: "paper_config \<Rightarrow> 'd feed \<Rightarrow> string \<Rightarrow> string \<Rightarrow> ('d book, unit) ef" where
  "cancel_symbol cfg fd symbol oid = with_order oid (\<lambda>ord.
     if po_status ord = P_OPEN \<and> po_symbol ord = symbol
     then ef_bind (cancel_paper_order cfg fd oid) (\<lambda>_. ef_return ()) else ef_return ())"

definition square_off_one ::
  "paper_config \<Rightarrow> 'd feed \<Rightarrow> string \<Rightarrow> string \<times> string \<Rightarrow> ('d book, string list) ef" where
  "square_off_one cfg fd tag = (\<lambda>(new_id, key).
     ef_bind (ef_get (\<lambda>s. map_of (pb_positions s) key)) (\<lambda>pos. case pos of
       None \<Rightarrow> ef_return []
     | Some p \<Rightarrow>
         if \<not> intraday_product (pp_product p) \<or> pp_quantity p \<le> 0 then ef_return []
         else ef_bind (ef_get (\<lambda>s. map fst (pb_orders s))) (\<lambda>oids.
           ef_seq (ef_iter (cancel_symbol cfg fd (pp_symbol p)) oids)
           (ef_bind (place_order cfg fd new_id (square_off_request tag p)) (\<lambda>oid. ef_return [oid])))))"

definition square_off_intraday ::
  "paper_config \<Rightarrow> 'd feed \<Rightarrow> string \<Rightarrow> (nat \<Rightarrow> string) \<Rightarrow> ('d book, string list) ef" where
  "square_off_intraday cfg fd tag uuid =
     ef_bind (ef_get (\<lambda>s. map fst (pb_positions s))) (\<lambda>keys.
     ef_bind (ef_iter (square_off_one cfg fd tag) (zip (map uuid [0..<length keys]) keys)) (\<lambda>ids.
     ef_return (concat ids)))"

section \<open>Account views\<close>

definition get_order_status :: "string \<Rightarrow> 'd book \<Rightarrow> paper_order option" where
  "get_order_status oid s = map_of (pb_orders s) oid"

definition mark_values :: "paper_position \<Rightarrow> paper_position" where
  "mark_values p =
     (let per_share = (if pp_quantity p = 0 then Fin 0
            else fquot (to_rupees (pp_basis p)) (fint (pp_quantity p)));
          unrealised = fround 2 ((pp_last p - per_share) * fint (pp_quantity p))
      in p\<lparr>pp_unrealised := unrealised, pp_pnl := fround 2 (unrealised + pp_realised p)\<rparr>)"

definition mark :: "paper_config \<Rightarrow> 'd feed \<Rightarrow> string \<Rightarrow> paper_position \<Rightarrow> ('d book, paper_position) ef" where
  "mark cfg fd key p =
     ef_bind (ef_try (snapshot cfg fd (pp_symbol p) (pp_exchange p))) (\<lambda>r.
     let p' = mark_values (case r of Inl _ \<Rightarrow> p | Inr snap \<Rightarrow> p\<lparr>pp_last := sn_last snap\<rparr>) in
     ef_seq (ef_modify (\<lambda>s. s\<lparr>pb_positions := AList.update key p' (pb_positions s)\<rparr>)) (ef_return p'))"

definition marked_where ::
  "paper_config \<Rightarrow> 'd feed \<Rightarrow> (paper_position \<Rightarrow> bool) \<Rightarrow> ('d book, paper_position list) ef" where
  "marked_where cfg fd want =
     ef_bind (ef_get pb_positions) (\<lambda>ps.
     ef_iter (\<lambda>(key, p). mark cfg fd key p) (filter (\<lambda>(_, p). want p) ps))"

definition get_positions :: "paper_config \<Rightarrow> 'd feed \<Rightarrow> ('d book, paper_position list) ef" where
  "get_positions cfg fd = marked_where cfg fd (\<lambda>p. pp_quantity p \<noteq> 0)"

definition get_holdings :: "paper_config \<Rightarrow> 'd feed \<Rightarrow> ('d book, paper_position list) ef" where
  "get_holdings cfg fd = marked_where cfg fd (\<lambda>p. pp_product p = CNC \<and> 0 < pp_quantity p)"

record funds =
  fu_cash :: pyfloat
  fu_total :: pyfloat
  fu_available :: pyfloat
  fu_used :: pyfloat

definition get_funds :: "'d book \<Rightarrow> funds" where
  "get_funds s = \<lparr>fu_cash = to_rupees (available_cash s), fu_total = to_rupees (pb_cash s),
     fu_available = to_rupees (available_cash s), fu_used = to_rupees (pb_reserved s)\<rparr>"

record performance =
  pf_market_value :: int
  pf_portfolio :: int
  pf_trades :: nat
  pf_realised :: pyfloat
  pf_unrealised :: pyfloat
  pf_return_pct :: pyfloat

definition paper_performance :: "paper_config \<Rightarrow> 'd feed \<Rightarrow> ('d book, performance) ef" where
  "paper_performance cfg fd =
     ef_bind (ef_get (\<lambda>s. foldl (\<lambda>r (_, p). r + pp_realised p) (Fin 0) (pb_positions s))) (\<lambda>realised.
     ef_bind (ef_get (\<lambda>s. filter (\<lambda>(_, p). pp_quantity p \<noteq> 0) (pb_positions s))) (\<lambda>ps.
     ef_bind (ef_iter (\<lambda>(key, p). ef_bind (mark cfg fd key p) (\<lambda>p'.
       ef_bind (ef_lift (to_paise (pp_last p'))) (\<lambda>px. ef_return (p', pp_quantity p' * px)))) ps) (\<lambda>marked.
     let values = map snd marked in
     ef_bind (ef_get (\<lambda>s. (pb_cash s + sum_list values, pb_initial s, length (pb_trades s)))) (\<lambda>(total, initial, n).
     ef_bind (ef_lift (if initial = 0 then Inr (Fin 0)
       else res_bind (int_truediv (total - initial) initial) (\<lambda>q. Inr (fround 4 (q * Fin 100))))) (\<lambda>pct.
     ef_return \<lparr>pf_market_value = sum_list values, pf_portfolio = total, pf_trades = n,
       pf_realised = fround 2 realised,
       pf_unrealised = fround 2 (foldl (\<lambda>u (p, _). u + pp_unrealised p) (Fin 0) marked),
       pf_return_pct = pct\<rparr>)))))"

end
