(* ===== verification/Paper_Proofs.thy ===== *)
theory Paper_Proofs
  imports Paper_Broker
begin

text \<open>
  Correctness of the paper broker. An effect that leaves the accounts alone is \<open>quiet\<close>; the
  accounts themselves satisfy \<open>owed\<close>, an invariant that names the order being filled and the
  amount by which the cash is ahead of the trade ledger in the middle of a fill.
\<close>

section \<open>Effects that leave the accounts alone\<close>

definition core :: "'d book \<Rightarrow> int \<times> int \<times> int \<times> (string \<times> paper_order) list \<times>
    (string \<times> paper_position) list \<times> trade list" where
  "core s = (pb_initial s, pb_cash s, pb_reserved s, pb_orders s, pb_positions s, pb_trades s)"

definition quiet :: "('d book, 'a) ef \<Rightarrow> bool" where
  "quiet m \<longleftrightarrow> (\<forall>s. core (snd (m s)) = core s)"

named_theorems quiet_rule

lemma quietD: "quiet m \<Longrightarrow> m s = (r, s') \<Longrightarrow> core s' = core s"
  by (metis quiet_def snd_conv)

lemma quiet_return [quiet_rule]: "quiet (ef_return x)"
  by (simp add: quiet_def ef_return_def)

lemma quiet_raise [quiet_rule]: "quiet (ef_raise e)"
  by (simp add: quiet_def ef_raise_def)

lemma quiet_lift [quiet_rule]: "quiet (ef_lift r)"
  by (simp add: quiet_def ef_lift_def)

lemma quiet_get [quiet_rule]: "quiet (ef_get f)"
  by (simp add: quiet_def ef_get_def)

lemma quiet_modify: "(\<And>s. core (f s) = core s) \<Longrightarrow> quiet (ef_modify f)"
  by (simp add: quiet_def ef_modify_def)

lemma quiet_bind [quiet_rule]: "quiet m \<Longrightarrow> (\<And>x. quiet (f x)) \<Longrightarrow> quiet (ef_bind m f)"
  unfolding quiet_def ef_bind_def by (simp add: split: prod.split sum.split) (metis snd_conv)

lemma quiet_seq [quiet_rule]: "quiet m \<Longrightarrow> quiet n \<Longrightarrow> quiet (ef_seq m n)"
  unfolding ef_seq_def by (rule quiet_bind)

lemma quiet_try [quiet_rule]: "quiet m \<Longrightarrow> quiet (ef_try m)"
  by (simp add: quiet_def ef_try_def split: prod.split) (metis snd_conv)

lemma quiet_iter [quiet_rule]: "(\<And>x. quiet (f x)) \<Longrightarrow> quiet (ef_iter f xs)"
  by (induction xs) (auto intro!: quiet_rule)

lemma quiet_if [quiet_rule]: "(b \<Longrightarrow> quiet m) \<Longrightarrow> (\<not> b \<Longrightarrow> quiet n) \<Longrightarrow> quiet (if b then m else n)"
  by simp

lemma quiet_let [quiet_rule]: "quiet (f x) \<Longrightarrow> quiet (Let x f)"
  by simp

lemma quiet_sum [quiet_rule]:
  "(\<And>e. quiet (f e)) \<Longrightarrow> (\<And>x. quiet (g x)) \<Longrightarrow> quiet (case r of Inl e \<Rightarrow> f e | Inr x \<Rightarrow> g x)"
  by (cases r) auto

lemma quiet_option [quiet_rule]:
  "quiet m \<Longrightarrow> (\<And>x. quiet (g x)) \<Longrightarrow> quiet (case x of None \<Rightarrow> m | Some y \<Rightarrow> g y)"
  by (cases x) auto

lemma quiet_prod [quiet_rule]: "(\<And>x y. quiet (f x y)) \<Longrightarrow> quiet (case p of (x, y) \<Rightarrow> f x y)"
  by (cases p) auto

lemma quiet_on_feed [quiet_rule]: "quiet (on_feed m)"
  by (simp add: quiet_def on_feed_def core_def split: prod.split)

lemma quiet_now [quiet_rule]: "quiet (now_ist fd)"
  unfolding now_ist_def by (intro quiet_rule)

lemma quiet_assert [quiet_rule]: "quiet assert_invariants"
  unfolding assert_invariants_def by (intro quiet_rule)

lemma quiet_save [quiet_rule]: "quiet (save_state cfg fd)"
  unfolding save_state_def by (intro quiet_rule quiet_modify) (simp add: core_def)

lemma quiet_age [quiet_rule]: "quiet (record_quote_age fd symbol q)"
  unfolding record_quote_age_def by (intro quiet_rule quiet_modify) (simp add: core_def set_age_def)

lemma quiet_get_quote [quiet_rule]: "quiet (get_quote fd symbols)"
  unfolding get_quote_def by (intro quiet_rule)

lemma quiet_snapshot [quiet_rule]: "quiet (snapshot cfg fd symbol exchange)"
  unfolding snapshot_def Let_def by (intro quiet_rule quiet_modify) (simp_all add: core_def set_age_def)

text \<open>A predicate of the accounts survives a quiet effect.\<close>

lemma quiet_triple:
  assumes "quiet m" and "\<And>s s'. core s' = core s \<Longrightarrow> P s \<Longrightarrow> P s'"
  shows "triple P m (\<lambda>_. P) (\<lambda>_. P)"
  by (rule tripleI) (blast intro: assms(2) quietD [OF assms(1)])+

section \<open>Maps kept as association lists\<close>

definition reserved_sum :: "(string \<times> paper_order) list \<Rightarrow> int" where
  "reserved_sum os = sum_list (map (\<lambda>(_, ord). po_reserved_cash ord) os)"

lemma reserved_sum_update:
  "reserved_sum (AList.update k v os) = reserved_sum os + po_reserved_cash v -
     (case map_of os k of None \<Rightarrow> 0 | Some ord \<Rightarrow> po_reserved_cash ord)"
  by (induction os) (auto simp: reserved_sum_def split: option.split)

lemma set_update_subset: "set (AList.update k v al) \<subseteq> insert (k, v) (set al)"
  by (induction al) auto

lemma fst_set_update: "fst ` set (AList.update k v al) = insert k (fst ` set al)"
  using AList.dom_update [of k v al] by simp

lemma map_of_update_iff: "map_of (AList.update k v al) k' = (if k' = k then Some v else map_of al k')"
  by (simp add: AList.update_conv)

lemma map_of_fst: "map_of al k = Some v \<Longrightarrow> k \<in> fst ` set al"
  by (force dest: map_of_SomeD)

section \<open>The invariant\<close>

definition order_ok :: "paper_order \<Rightarrow> bool" where
  "order_ok ord \<longleftrightarrow> (case po_status ord of
     P_OPEN \<Rightarrow> po_filled ord = 0 \<and> 0 < po_qty ord
   | P_PARTIAL \<Rightarrow> 0 < po_filled ord \<and> po_filled ord < po_qty ord \<and>
       po_reserved_cash ord = 0 \<and> po_reserved_qty ord = 0
   | P_COMPLETE \<Rightarrow> 0 < po_qty ord \<and> po_filled ord = po_qty ord \<and>
       po_reserved_cash ord = 0 \<and> po_reserved_qty ord = 0
   | _ \<Rightarrow> po_filled ord = 0 \<and> po_reserved_cash ord = 0 \<and> po_reserved_qty ord = 0)"

definition longs :: "'d book \<Rightarrow> bool" where
  "longs s \<longleftrightarrow> (\<forall>(_, p) \<in> set (pb_positions s). 0 \<le> pp_quantity p)"

definition book_inv :: "string set \<Rightarrow> string set \<Rightarrow> int \<Rightarrow> 'd book \<Rightarrow> bool" where
  "book_inv D X ahead s \<longleftrightarrow>
     ledger_cash s + ahead = pb_cash s \<and> longs s \<and> pb_reserved s = reserved_sum (pb_orders s) \<and>
     fst ` set (pb_orders s) \<subseteq> D \<and>
     (\<forall>oid ord. map_of (pb_orders s) oid = Some ord \<longrightarrow> oid \<notin> X \<longrightarrow> order_ok ord)"

definition book_ok :: "'d book \<Rightarrow> bool" where
  "book_ok s \<longleftrightarrow> ledger_cash s = pb_cash s \<and>
     (\<forall>(_, p) \<in> set (pb_positions s). 0 \<le> pp_quantity p) \<and>
     pb_reserved s = reserved_sum (pb_orders s) \<and>
     (\<forall>oid ord. map_of (pb_orders s) oid = Some ord \<longrightarrow> order_ok ord)"

definition filling :: "string set \<Rightarrow> string \<Rightarrow> int \<Rightarrow> int \<Rightarrow> int \<Rightarrow> 'd book \<Rightarrow> bool" where
  "filling D oid n Q ahead s \<longleftrightarrow> book_inv D {oid} ahead s \<and> 0 \<le> n \<and> n \<le> Q \<and> 0 < Q \<and>
     (\<exists>ord. map_of (pb_orders s) oid = Some ord \<and> po_status ord = P_OPEN \<and> po_filled ord = n \<and>
        po_qty ord = Q)"

lemma book_ok_inv: "book_ok s \<longleftrightarrow> book_inv (fst ` set (pb_orders s)) {} 0 s"
  by (simp add: book_ok_def book_inv_def longs_def)

lemma inv_book_ok: "book_inv D {} 0 s \<Longrightarrow> book_ok s"
  by (simp add: book_ok_def book_inv_def longs_def)

lemma ledger_core: "core s' = core s \<Longrightarrow> ledger_cash s' = ledger_cash s"
  by (simp add: core_def ledger_cash_def)

lemma book_inv_core:
  assumes c: "core s' = core s" and i: "book_inv D X a s"
  shows "book_inv D X a s'"
  using i c unfolding book_inv_def longs_def ledger_core [OF c] by (simp add: core_def)

lemma orders_core: "core s' = core s \<Longrightarrow> pb_orders s' = pb_orders s"
  by (simp add: core_def)

lemma filling_core:
  assumes c: "core s' = core s" and f: "filling D oid n Q a s"
  shows "filling D oid n Q a s'"
  using f book_inv_core [OF c, of D "{oid}" a] by (simp add: filling_def orders_core [OF c])

lemma open_order_ok:
  "po_status ord = P_OPEN \<Longrightarrow> po_filled ord = 0 \<Longrightarrow> 0 < po_qty ord \<Longrightarrow> order_ok ord"
  by (simp add: order_ok_def)

lemma filling_0:
  assumes "filling D oid 0 Q 0 s"
  shows "book_inv D {} 0 s"
proof -
  obtain ord where o: "map_of (pb_orders s) oid = Some ord" "order_ok ord"
    using assms by (auto simp: filling_def intro: open_order_ok)
  have "order_ok ord'" if "map_of (pb_orders s) k = Some ord'" for k ord'
    using assms o that by (cases "k = oid") (auto simp: filling_def book_inv_def)
  then show ?thesis using assms by (simp add: filling_def book_inv_def)
qed

lemmas inv_quiet = quiet_triple [OF _ book_inv_core]
lemmas filling_quiet = quiet_triple [OF _ filling_core]

text \<open>What a change of one order does to the invariant.\<close>

lemma ledger_set_order [simp]: "ledger_cash (set_order oid ord s) = ledger_cash s"
  by (simp add: ledger_cash_def set_order_def)

lemma ledger_updates [simp]:
  "ledger_cash (s\<lparr>pb_cash := c\<rparr>) = ledger_cash s"
  "ledger_cash (s\<lparr>pb_reserved := c\<rparr>) = ledger_cash s"
  "ledger_cash (s\<lparr>pb_positions := ps\<rparr>) = ledger_cash s"
  "ledger_cash (s\<lparr>pb_orders := os\<rparr>) = ledger_cash s"
  "ledger_cash (s\<lparr>pb_total_costs := c\<rparr>) = ledger_cash s"
  "ledger_cash (s\<lparr>pb_trades := pb_trades s @ [t]\<rparr>) = ledger_cash s + trade_cash t"
  by (simp_all add: ledger_cash_def)

lemma set_order_inv:
  assumes inv: "book_inv D X a s" and ord: "map_of (pb_orders s) oid = Some ord"
    and new: "oid \<in> X' \<or> order_ok ord'" and X: "X \<subseteq> insert oid X'"
    and r: "r = po_reserved_cash ord' - po_reserved_cash ord"
  shows "book_inv D X' a (set_order oid ord' (s\<lparr>pb_reserved := pb_reserved s + r\<rparr>))"
proof -
  have "order_ok o'" if "map_of (AList.update oid ord' (pb_orders s)) k = Some o'" "k \<notin> X'" for k o'
  proof (cases "k = oid")
    case True
    with that new show ?thesis by (simp add: map_of_update_iff)
  next
    case False
    with that X have "k \<notin> X" "map_of (pb_orders s) k = Some o'" by (auto simp: map_of_update_iff)
    then show ?thesis using inv by (simp add: book_inv_def)
  qed
  moreover have "oid \<in> D" using inv map_of_fst [OF ord] by (auto simp: book_inv_def)
  ultimately show ?thesis
    using inv ord r
    by (simp add: book_inv_def longs_def fst_set_update reserved_sum_update set_order_def ledger_cash_def)
qed

lemma set_order_filling:
  assumes inv: "filling D oid n Q a s" and ord: "map_of (pb_orders s) oid = Some ord"
    and new: "po_status ord' = P_OPEN" "po_filled ord' = m" "po_qty ord' = Q" "0 \<le> m" "m \<le> Q"
    and r: "r = po_reserved_cash ord' - po_reserved_cash ord"
  shows "filling D oid m Q a (set_order oid ord' (s\<lparr>pb_reserved := pb_reserved s + r\<rparr>))"
proof -
  have "book_inv D {oid} a (set_order oid ord' (s\<lparr>pb_reserved := pb_reserved s + r\<rparr>))"
    using inv by (intro set_order_inv [OF _ ord _ _ r]) (auto simp: filling_def)
  then show ?thesis using inv new by (simp add: filling_def set_order_def map_of_update_iff)
qed

lemma set_order_filling_same:
  assumes "filling D oid n Q a s" and "map_of (pb_orders s) oid = Some ord"
    and "po_status ord' = P_OPEN" "po_filled ord' = m" "po_qty ord' = Q" "0 \<le> m" "m \<le> Q"
    and "po_reserved_cash ord' = po_reserved_cash ord"
  shows "filling D oid m Q a (set_order oid ord' s)"
  using set_order_filling [OF assms(1-7), of 0] assms(8) by simp

text \<open>What a movement of cash, a position of at least zero shares and a trade do to it.\<close>

lemma money_filling:
  assumes "filling D oid n Q a s" and "0 \<le> pp_quantity p"
  shows "filling D oid n Q (a + c)
    (s\<lparr>pb_cash := pb_cash s + c, pb_positions := AList.update key p (pb_positions s)\<rparr>)"
proof -
  have "longs (s\<lparr>pb_positions := AList.update key p (pb_positions s)\<rparr>)"
    using assms set_update_subset [of key p "pb_positions s"]
    by (auto simp: longs_def filling_def book_inv_def dest!: subsetD)
  then show ?thesis using assms(1) by (simp add: filling_def book_inv_def longs_def ledger_cash_def)
qed

lemma trade_filling:
  "filling D oid n Q (trade_cash t) s \<Longrightarrow> filling D oid n Q 0 (s\<lparr>pb_trades := pb_trades s @ [t]\<rparr>)"
  by (simp add: filling_def book_inv_def longs_def)

lemma costs_filling:
  "filling D oid n Q a s \<Longrightarrow> filling D oid n Q a (s\<lparr>pb_total_costs := c\<rparr>)"
  by (simp add: filling_def book_inv_def longs_def)

lemma held_nonneg: "filling D oid n Q a s \<Longrightarrow> map_of (pb_positions s) key = Some p \<Longrightarrow> 0 \<le> pp_quantity p"
  by (auto simp: filling_def book_inv_def longs_def dest!: map_of_SomeD)

section \<open>Fills keep the accounts\<close>

lemma triple_with_order:
  assumes "\<And>ord. triple (\<lambda>s. P s \<and> map_of (pb_orders s) oid = Some ord) (k ord) Q E"
    and "\<And>s. P s \<Longrightarrow> map_of (pb_orders s) oid \<noteq> None"
  shows "triple P (with_order oid k) Q E"
proof (rule tripleI)
  fix s x s' assume P: "P s" and m: "with_order oid k s = (Inr x, s')"
  obtain ord where "map_of (pb_orders s) oid = Some ord" using assms(2) [OF P] by blast
  with P m tripleD_ok [OF assms(1) [of ord]] show "Q x s'"
    by (auto simp: with_order_def ef_bind_def ef_get_def)
next
  fix s e s' assume P: "P s" and m: "with_order oid k s = (Inl e, s')"
  obtain ord where "map_of (pb_orders s) oid = Some ord" using assms(2) [OF P] by blast
  with P m tripleD_exn [OF assms(1) [of ord]] show "E e s'"
    by (auto simp: with_order_def ef_bind_def ef_get_def)
qed

lemma filling_order: "filling D oid n Q a s \<Longrightarrow> map_of (pb_orders s) oid \<noteq> None"
  by (auto simp: filling_def)

lemma filling_fields:
  "filling D oid n Q a s \<Longrightarrow> map_of (pb_orders s) oid = Some ord \<Longrightarrow>
     po_status ord = P_OPEN \<and> po_filled ord = n \<and> po_qty ord = Q \<and> 0 \<le> n \<and> n \<le> Q \<and> 0 < Q"
  by (auto simp: filling_def)

lemma fill_buy_keeps:
  assumes "0 < q"
  shows "triple (filling D oid n Q a) (fill_buy oid key q price outflow lp :: ('d book, unit) ef)
    (\<lambda>_. filling D oid n Q (a - outflow)) (\<lambda>_. filling D oid n Q a)"
  unfolding fill_buy_def
proof (rule triple_with_order [OF _ filling_order], rule triple_seq [where R = "filling D oid n Q a"],
    goal_cases take pay some)
  case (take ord)
  show ?case
    unfolding triple_def ef_defs Let_def
    by (auto dest: filling_fields intro!: set_order_filling [where r = "- min (po_reserved_cash ord) outflow", simplified])
next
  case (pay ord)
  have "0 \<le> pp_quantity (bought ord q price outflow lp (map_of (pb_positions s) key))"
    if "filling D oid n Q a s" for s :: "'d book"
    using assms held_nonneg [OF that] by (auto simp: bought_def split: option.split)
  then show ?case
    unfolding triple_def ef_defs
    by (auto intro!: money_filling [where c = "- outflow", simplified])
qed

lemma fill_sell_keeps:
  assumes "0 < q"
  shows "triple (filling D oid n Q a) (fill_sell oid key q proceeds lp :: ('d book, unit) ef)
    (\<lambda>_. filling D oid n Q (a + proceeds)) (\<lambda>_. filling D oid n Q a)"
proof -
  have "filling D oid n Q (a + proceeds) (set_order oid
      (ord\<lparr>po_reserved_qty := r\<rparr>)
      (s\<lparr>pb_cash := pb_cash s + proceeds,
         pb_positions := AList.update key (sold q proceeds b lp p) (pb_positions s)\<rparr>))"
    if f: "filling D oid n Q a s" and o: "map_of (pb_orders s) oid = Some ord"
      and p: "q \<le> pp_quantity p" for s :: "'d book" and ord r b p
  proof -
    have "0 \<le> pp_quantity (sold q proceeds b lp p)" using p by (simp add: sold_def Let_def)
    from money_filling [OF f this, of proceeds key] show ?thesis
      by (rule set_order_filling_same) (use o filling_fields [OF f o] in auto)
  qed
  then show ?thesis
    unfolding fill_sell_def triple_def ef_defs with_order_def
    by (auto split: option.split sum.split dest: filling_order)
qed

definition aware :: "'d feed \<Rightarrow> bool" where
  "aware fd \<longleftrightarrow> (\<forall>d. \<exists>t. fd_clock fd d = Aware t)"

lemma now_ist_aware: "aware fd \<Longrightarrow> \<exists>t. now_ist fd s = (Inr t, s)"
  by (auto simp: aware_def now_ist_def ef_defs ensure_aware_def dest: spec [of _ "pb_env s"])

lemma now_ist_triple:
  assumes "aware fd"
  shows "triple P (now_ist fd) (\<lambda>_. P) E"
proof (rule tripleI)
  fix s x s' assume "P s" "now_ist fd s = (Inr x, s')"
  with now_ist_aware [OF assms, of s] show "P s'" by auto
next
  fix s e s' assume "now_ist fd s = (Inl e, s')"
  with now_ist_aware [OF assms, of s] show "E e s'" by auto
qed

lemma trade_cash_of:
  "trade_cash (trade_of oid ord q price notional costs b ts) =
     (if po_txn ord = BUY then - (notional + costs) else notional - costs)"
  by (simp add: trade_cash_def trade_of_def)

lemma move_cash_keeps:
  assumes "0 < q"
  shows "triple (filling D oid n Q 0) (move_cash oid ord q price notional costs lp :: ('d book, unit) ef)
    (\<lambda>_. filling D oid n Q (if po_txn ord = BUY then - (notional + costs) else notional - costs))
    (\<lambda>_. filling D oid n Q 0)"
  using fill_buy_keeps [where 'd = 'd, OF assms, of D oid n Q 0 "order_key ord" price "notional + costs" lp]
    fill_sell_keeps [where 'd = 'd, OF assms, of D oid n Q 0 "order_key ord" "notional - costs" lp]
  by (cases "po_txn ord = BUY") (simp_all add: move_cash_def)

lemma record_fill_keeps:
  assumes "aware fd" and "0 < q" and "n + q \<le> Q"
  shows "triple (filling D oid n Q (if po_txn ord = BUY then - (notional + costs) else notional - costs))
    (record_fill fd oid ord q price notional costs b) (\<lambda>_. filling D oid (n + q) Q 0) E"
proof -
  have finish: "filling D oid (n + q) Q 0 (set_order oid (book_order_fill q price ts b ord') s
      \<lparr>pb_trades := pb_trades (set_order oid (book_order_fill q price ts b ord') s) @
         [trade_of oid ord q price notional costs b ts]\<rparr>)"
    if f: "filling D oid n Q (if po_txn ord = BUY then - (notional + costs) else notional - costs) s"
      and o: "map_of (pb_orders s) oid = Some ord'" for s :: "'a book" and ord' ts
    using filling_fields [OF f o] assms(2,3) f o
    by (intro trade_filling set_order_filling_same [where n = n])
       (auto simp: book_order_fill_def Let_def trade_cash_of)
  show ?thesis
    unfolding record_fill_def Let_def
    apply (rule triple_seq [where R = "filling D oid n Q (if po_txn ord = BUY then - (notional + costs) else notional - costs)"])
     apply (rule triple_pre [OF triple_modify], erule costs_filling)
    apply (rule triple_bind [where R = "\<lambda>_. filling D oid n Q (if po_txn ord = BUY then - (notional + costs) else notional - costs)"])
     apply (rule now_ist_triple [OF assms(1)])
    apply (rule triple_with_order [OF _ filling_order], unfold triple_def ef_defs)
     apply (use finish in auto)
    done
qed

lemma apply_fill_keeps:
  assumes "aware fd" and "0 < q" and "n + q \<le> Q"
  shows "triple (filling D oid n Q 0) (apply_paper_fill cfg fd oid q price snap)
    (\<lambda>_. filling D oid (n + q) Q 0) (\<lambda>_. filling D oid n Q 0)"
  unfolding apply_paper_fill_def
  apply (rule triple_with_order [OF _ filling_order])
   apply (rule triple_bind [where R = "\<lambda>_. filling D oid n Q 0"])
    apply (rule triple_pre [OF triple_lift], simp split: sum.split)
   apply (rule triple_bind [where R = "\<lambda>_. filling D oid n Q 0"])
    apply (rule triple_pre [OF triple_lift], simp split: sum.split)
   apply (simp only: split_paired_all prod.case)
   apply (rule triple_seq [OF move_cash_keeps [OF assms(2)] record_fill_keeps [OF assms]])
  apply assumption
  done

section \<open>The planner and the affordability loop\<close>

lemma plan_limit_cases:
  assumes "plan_limit cfg price most touch vol txn = Inr (q, p, r)"
  shows "r = None \<and> (q = 0 \<or> (1 \<le> q \<and> q \<le> most \<and> (\<exists>limit p'. snap_limit cfg price txn = Inr limit \<and>
    p = (if txn = BUY then fmin limit p' else fmax limit p') \<and>
    (if txn = BUY then \<not> limit < touch else \<not> touch < limit))))"
  using assms unfolding plan_limit_def Let_def
  by (cases txn) (auto split: if_splits simp: res_bind_def split: sum.splits)

lemma plan_stop_cases:
  assumes "plan_stop cfg trigger most touch vol txn = Inr (q, p, r)"
  shows "r = None \<and> (q = 0 \<or> (q = most \<and> (\<exists>p'. p = (if txn = BUY then fmax trigger p' else fmin trigger p') \<and>
    (if txn = BUY then trigger \<le> touch else touch \<le> trigger))))"
  using assms unfolding plan_stop_def
  by (cases txn) (auto split: if_splits)

lemma plan_market_cases:
  "plan_market cfg most touch vol txn = Inr (q, p, r) \<Longrightarrow> r = None \<and> q = most"
  by (auto simp: plan_market_def)

lemma plan_fill_qty:
  assumes "plan_fill cfg ord snap = Inr (q, p, r)" and "0 < q"
  shows "r = None \<and> q \<le> po_qty ord - po_filled ord \<and>
    (\<exists>cap. to_int (fint (sn_volume snap) * pc_participation cfg) = Inr cap \<and> q \<le> cap)"
proof (cases "po_type ord")
  case LIMIT
  then show ?thesis using assms unfolding plan_fill_def Let_def
    by (force split: if_splits dest: plan_limit_cases)
next
  case MARKET
  then show ?thesis using assms unfolding plan_fill_def Let_def
    by (force split: if_splits dest: plan_market_cases)
next
  case SL
  then show ?thesis using assms unfolding plan_fill_def Let_def
    by (force split: if_splits dest: plan_stop_cases)
next
  case SL_M
  then show ?thesis using assms unfolding plan_fill_def Let_def
    by (force split: if_splits dest: plan_stop_cases)
qed

lemma affordable_loop_fits:
  assumes "affordable_loop cfg budget px price pr q = Inr r"
  shows "0 \<le> r \<and> r \<le> max 0 q \<and> (0 < r \<longrightarrow> (\<exists>costs b. costs_paise cfg r price BUY pr = Inr (costs, b) \<and>
    r * px + costs \<le> budget))"
  using assms
proof (induction cfg budget px price pr q rule: affordable_loop.induct)
  case (1 cfg budget px price pr q)
  show ?case
  proof (cases "q \<le> 0")
    case True
    with 1(2) show ?thesis by (simp add: affordable_loop.simps [of cfg budget])
  next
    case False
    then obtain costs b where c: "costs_paise cfg q price BUY pr = Inr (costs, b)"
      using 1(2) by (auto simp: affordable_loop.simps [of cfg budget] split: sum.splits)
    show ?thesis
    proof (cases "q * px + costs \<le> budget")
      case True
      with 1(2) False c show ?thesis by (simp add: affordable_loop.simps [of cfg budget])
    next
      case over: False
      let ?q' = "min (budget * q div (q * px + costs)) (q - 1)"
      have "affordable_loop cfg budget px price pr ?q' = Inr r" and nz: "q * px + costs \<noteq> 0"
        using 1(2) False c over
        by (simp_all add: affordable_loop.simps [of cfg budget px price pr q] Let_def split: if_splits)
      from 1(1) [OF False c refl refl over nz this(1)] show ?thesis by auto
    qed
  qed
qed

lemma affordable_qty_fits:
  assumes "affordable_qty cfg budget q price pr = Inr r"
  shows "0 \<le> r \<and> r \<le> max 0 q"
  using assms by (auto simp: affordable_qty_def split: if_splits dest: affordable_loop_fits)

section \<open>Execution, settlement and placement keep the accounts\<close>

definition filled_some :: "string set \<Rightarrow> string \<Rightarrow> int \<Rightarrow> reject_reason option \<Rightarrow> 'd book \<Rightarrow> bool" where
  "filled_some D oid Q r s \<longleftrightarrow> (\<exists>n. filling D oid n Q 0 s \<and> (r \<noteq> None \<longrightarrow> n = 0))"

lemma execute_fill:
  assumes "aware fd" and "0 < q" and "q \<le> Q"
  shows "triple (filling D oid 0 Q 0) (ef_seq (apply_paper_fill cfg fd oid q price snap) (ef_return None))
    (filled_some D oid Q) (\<lambda>_. filling D oid 0 Q 0)"
  by (rule triple_seq [OF apply_fill_keeps [OF assms(1,2), of 0 Q]])
     (use assms(3) in \<open>auto simp: triple_def ef_return_def filled_some_def\<close>)

lemma execute_keeps:
  assumes "aware fd"
  shows "triple (filling D oid 0 Q 0) (execute_against cfg fd oid snap)
    (filled_some D oid Q) (\<lambda>_. filling D oid 0 Q 0)"
proof -
  let ?F = "filling D oid 0 Q 0"
  have none: "triple ?F (ef_return r) (filled_some D oid Q) (\<lambda>_. ?F)" for r
    by (rule triple_ret) (auto simp: filled_some_def)
  show ?thesis
    unfolding execute_against_def
  proof (rule triple_with_order [OF _ filling_order], rule triple_bind_lift, clarify, goal_cases plan exn some)
    case (plan ord q p why)
    show ?case
    proof (cases "0 < q \<and> po_qty ord = Q \<and> po_filled ord = 0")
      case True
      with plan_fill_qty [OF plan] have q: "why = None" "q \<le> Q" "0 < q" by auto
      have buy: "triple ?F (ef_bind (ef_lift (affordable_qty cfg budget q p (po_product ord))) (\<lambda>q.
         if q \<le> 0 then ef_return (Some INSUFFICIENT_CASH)
         else ef_seq (apply_paper_fill cfg fd oid q p snap) (ef_return None))) (filled_some D oid Q) (\<lambda>_. ?F)" for budget
        by (rule triple_bind_lift) (use q affordable_qty_fits in
          \<open>force intro: none execute_fill [OF assms] simp: not_le\<close>)+
      have sell: "triple ?F (if min q x \<le> 0 then ef_return (Some INSUFFICIENT_HOLDINGS)
         else ef_seq (apply_paper_fill cfg fd oid (min q x) p snap) (ef_return None)) (filled_some D oid Q) (\<lambda>_. ?F)" for x
        by (rule triple_if [OF none execute_fill [OF assms]]) (use q in auto)
      show ?thesis
      proof (cases "po_txn ord = BUY")
        case True
        show ?thesis using q
          by (simp add: True) (rule triple_bind_get, rule triple_pre [OF buy], simp)
      next
        case False
        show ?thesis using q
          by (simp add: False Let_def) (rule triple_bind_get, rule triple_pre [OF sell], simp)
      qed
    next
      case False
      then show ?thesis
        by (cases "0 < q")
          (auto simp: triple_def ef_return_def filled_some_def dest: filling_fields)
    qed
  qed auto
qed

lemma set_status_keeps:
  "triple (\<lambda>s. book_inv D {oid} a s \<and> map_of (pb_orders s) oid = Some ord) (set_status oid st)
     (\<lambda>_ s. book_inv D {oid} a s \<and> map_of (pb_orders s) oid = Some (ord\<lparr>po_status := st\<rparr>)) E"
proof -
  have "book_inv D {oid} a (set_order oid (ord\<lparr>po_status := st\<rparr>) s)"
    if "book_inv D {oid} a s" "map_of (pb_orders s) oid = Some ord" for s :: "'a book"
    using set_order_inv [OF that, of "{oid}" "ord\<lparr>po_status := st\<rparr>" 0] by simp
  then show ?thesis
    by (simp add: triple_def set_status_def with_order_def ef_defs set_order_def map_of_update_iff)
qed

definition released :: "paper_order \<Rightarrow> paper_order" where
  "released ord = ord\<lparr>po_reserved_cash := 0, po_reserved_qty := 0\<rparr>"

lemma released_simps [simp]:
  "po_status (released ord) = po_status ord" "po_filled (released ord) = po_filled ord"
  "po_qty (released ord) = po_qty ord" "po_reserved_cash (released ord) = 0"
  "po_reserved_qty (released ord) = 0"
  by (simp_all add: released_def)

lemma release_keeps:
  "triple (\<lambda>s. book_inv D X a s \<and> map_of (pb_orders s) oid = Some ord \<and> X \<subseteq> insert oid X' \<and>
       (oid \<in> X' \<or> order_ok (released ord))) (release_order oid)
     (\<lambda>_ s. book_inv D X' a s \<and> map_of (pb_orders s) oid = Some (released ord)) E"
proof -
  have "book_inv D X' a (set_order oid (released ord) (s\<lparr>pb_reserved := pb_reserved s - po_reserved_cash ord\<rparr>))"
    if "book_inv D X a s" "map_of (pb_orders s) oid = Some ord" "X \<subseteq> insert oid X'"
      "oid \<in> X' \<or> order_ok (released ord)" for s :: "'a book"
    using set_order_inv [OF that(1,2) that(4,3), of "- po_reserved_cash ord"] by simp
  then show ?thesis
    by (simp add: triple_def release_order_def with_order_def ef_defs released_def set_order_def map_of_update_iff)
qed

text \<open>A final status with the reservations released.\<close>

lemma settle_keeps:
  assumes "order_ok (released (ord\<lparr>po_status := st\<rparr>))"
  shows "triple (\<lambda>s. book_inv D {oid} a s \<and> map_of (pb_orders s) oid = Some ord)
     (ef_seq (set_status oid st) (release_order oid)) (\<lambda>_. book_inv D {} a) E"
  by (rule triple_seq [OF set_status_keeps], rule triple_conseq [OF release_keeps [of D "{oid}" a oid _ "{}"]])
     (use assms in auto)

lemma partial_keeps:
  assumes "order_ok (released (ord\<lparr>po_status := P_PARTIAL, po_message := msg\<rparr>))"
  shows "triple (\<lambda>s. book_inv D {oid} a s \<and> map_of (pb_orders s) oid = Some ord)
     (ef_seq (ef_modify (set_order oid (ord\<lparr>po_status := P_PARTIAL, po_message := msg\<rparr>))) (release_order oid))
     (\<lambda>_. book_inv D {} a) E"
proof (rule triple_seq)
  let ?ord = "ord\<lparr>po_status := P_PARTIAL, po_message := msg\<rparr>"
  have "book_inv D {oid} a (set_order oid ?ord s)"
    if "book_inv D {oid} a s" "map_of (pb_orders s) oid = Some ord" for s :: "'a book"
    using set_order_inv [OF that, of "{oid}" ?ord 0] by simp
  then show "triple (\<lambda>s. book_inv D {oid} a s \<and> map_of (pb_orders s) oid = Some ord) (ef_modify (set_order oid ?ord))
      (\<lambda>_ s. book_inv D {oid} a s \<and> map_of (pb_orders s) oid = Some ?ord) E"
    by (simp add: triple_def ef_defs set_order_def map_of_update_iff)
  show "triple (\<lambda>s. book_inv D {oid} a s \<and> map_of (pb_orders s) oid = Some ?ord) (release_order oid) (\<lambda>_. book_inv D {} a) E"
    by (rule triple_conseq [OF release_keeps [of D "{oid}" a oid _ "{}"]]) (use assms in auto)
qed

lemma finalise_keeps:
  "triple (\<lambda>s. \<exists>n. filling D oid n Q 0 s) (finalise oid) (\<lambda>_. book_inv D {} 0) E"
  unfolding finalise_def
proof (rule triple_with_order, goal_cases settle some)
  case (settle ord)
  let ?P = "\<lambda>s. (\<exists>n. filling D oid n Q 0 s) \<and> map_of (pb_orders s) oid = Some ord"
  show ?case
  proof (cases "\<exists>s :: 'a book. ?P s")
    case True
    then have q: "0 < po_qty ord" "0 \<le> po_filled ord" "po_filled ord \<le> po_qty ord" "po_status ord = P_OPEN"
      by (auto dest: filling_fields)
    have weak: "book_inv D {oid} 0 s \<and> map_of (pb_orders s) oid = Some ord" if "?P s" for s :: "'a book"
      using that by (auto simp: filling_def)
    have rest: "book_inv D {} 0 (set_order oid (ord\<lparr>po_status := P_OPEN, po_reserved_qty := r\<rparr>) s)"
      if "?P s" "po_filled ord = 0" for s :: "'a book" and r
      using weak [OF that(1)] that(2) q
        set_order_inv [of D "{oid}" 0 s oid ord "{}" "ord\<lparr>po_status := P_OPEN, po_reserved_qty := r\<rparr>" 0]
      by (simp add: order_ok_def)
    show ?thesis
      by (intro triple_if triple_pre [OF settle_keeps weak] triple_pre [OF partial_keeps weak] triple_step rest)
         (use q in \<open>auto simp: order_ok_def\<close>)
  next
    case False
    then show ?thesis by (auto simp: triple_def)
  qed
next
  case (some s)
  then show ?case by (auto dest: filling_order)
qed

text \<open>A new order: \<open>fresh\<close> is the invariant with an id that names no order yet.\<close>

definition fresh :: "string set \<Rightarrow> string \<Rightarrow> 'd book \<Rightarrow> bool" where
  "fresh D oid s \<longleftrightarrow> book_inv D {} 0 s \<and> oid \<notin> fst ` set (pb_orders s)"

lemma fresh_core: "core s' = core s \<Longrightarrow> fresh D oid s \<Longrightarrow> fresh D oid s'"
  unfolding fresh_def using book_inv_core orders_core by metis

lemmas fresh_quiet = quiet_triple [OF _ fresh_core]

lemma fresh_order_inv:
  assumes "fresh D oid s" and "oid \<in> X \<or> order_ok ord" and "r = po_reserved_cash ord"
  shows "book_inv (insert oid D) X 0 (set_order oid ord (s\<lparr>pb_reserved := pb_reserved s + r\<rparr>))"
proof -
  have none: "map_of (pb_orders s) oid = None" using assms(1) by (simp add: fresh_def map_of_eq_None_iff)
  have "order_ok o'" if "map_of (AList.update oid ord (pb_orders s)) k = Some o'" "k \<notin> X" for k o'
    using that assms(1,2) by (cases "k = oid") (auto simp: map_of_update_iff fresh_def book_inv_def)
  then show ?thesis using assms(1,3) none
    by (auto simp: fresh_def book_inv_def longs_def fst_set_update reserved_sum_update set_order_def ledger_cash_def)
qed

lemma inv_mono: "book_inv D X a s \<Longrightarrow> D \<subseteq> D' \<Longrightarrow> book_inv D' X a s"
  by (auto simp: book_inv_def)

lemma new_order_fields [simp]:
  "po_status (new_order oid req now) = P_OPEN" "po_filled (new_order oid req now) = 0"
  "po_qty (new_order oid req now) = pl_qty req" "po_reserved_cash (new_order oid req now) = 0"
  "po_reserved_qty (new_order oid req now) = 0" "po_txn (new_order oid req now) = pl_txn req"
  by (simp_all add: new_order_def)

lemma reject_new:
  "triple (fresh D oid) (reject_order oid why msg (new_order oid req now)) (\<lambda>_. book_inv (insert oid D) {} 0) E"
proof -
  have "book_inv (insert oid D) {} 0 (set_order oid (new_order oid req now\<lparr>po_status := P_REJECTED,
      po_reject := Some why, po_message := msg, po_reserved_cash := 0, po_reserved_qty := 0\<rparr>) s)"
    if "fresh D oid s" for s :: "'a book"
    using fresh_order_inv [OF that, of "{}" "new_order oid req now\<lparr>po_status := P_REJECTED,
      po_reject := Some why, po_message := msg, po_reserved_cash := 0, po_reserved_qty := 0\<rparr>" 0]
    by (simp add: order_ok_def)
  then show ?thesis by (simp add: triple_def reject_order_def ef_defs)
qed

lemma reserve_keeps:
  assumes "0 < pl_qty req"
  shows "triple (fresh D oid) (reserve_order cfg oid req (new_order oid req now) snap)
    (\<lambda>refused. if refused = None then filling (insert oid D) oid 0 (pl_qty req) 0 else fresh D oid) (\<lambda>_. fresh D oid)"
proof -
  have new: "filling (insert oid D) oid 0 (pl_qty req) 0
      (set_order oid ord (s\<lparr>pb_reserved := pb_reserved s + po_reserved_cash ord\<rparr>))"
    if "fresh D oid s" "po_status ord = P_OPEN" "po_filled ord = 0" "po_qty ord = pl_qty req"
    for s :: "'a book" and ord
    using fresh_order_inv [OF that(1), of "{oid}" ord] that assms
    by (simp add: filling_def set_order_def map_of_update_iff)
  have buy: "filling (insert oid D) oid 0 (pl_qty req) 0
      (set_order oid (new_order oid req now\<lparr>po_reserved_cash := need\<rparr>) (s\<lparr>pb_reserved := pb_reserved s + need\<rparr>))"
    if "fresh D oid s" for s :: "'a book" and need
    using new [OF that, of "new_order oid req now\<lparr>po_reserved_cash := need\<rparr>"] by simp
  have sell: "filling (insert oid D) oid 0 (pl_qty req) 0
      (set_order oid (new_order oid req now\<lparr>po_reserved_qty := q\<rparr>) s)" if "fresh D oid s" for s :: "'a book" and q
    using new [OF that, of "new_order oid req now\<lparr>po_reserved_qty := q\<rparr>"] by simp
  show ?thesis
    unfolding reserve_order_def triple_def ef_defs
    by (auto split: sum.split if_splits intro: buy sell)
qed

lemma reject_open_keeps:
  "triple (\<lambda>s. book_inv D {oid} 0 s \<and> map_of (pb_orders s) oid = Some ord \<and> po_filled ord = 0 \<and>
      po_reserved_cash ord = 0) (reject_order oid why msg ord) (\<lambda>_. book_inv D {} 0) E"
proof -
  have "book_inv D {} 0 (set_order oid (ord\<lparr>po_status := P_REJECTED, po_reject := Some why, po_message := msg,
      po_reserved_cash := 0, po_reserved_qty := 0\<rparr>) s)"
    if "book_inv D {oid} 0 s" "map_of (pb_orders s) oid = Some ord" "po_filled ord = 0" "po_reserved_cash ord = 0"
    for s :: "'a book"
    using set_order_inv [OF that(1,2), of "{}" "ord\<lparr>po_status := P_REJECTED, po_reject := Some why, po_message := msg,
      po_reserved_cash := 0, po_reserved_qty := 0\<rparr>" 0] that
    by (simp add: order_ok_def)
  then show ?thesis by (simp add: triple_def reject_order_def ef_defs)
qed

text \<open>The common tail of a placement: settle, check, save.\<close>

lemma tail_keeps:
  "triple (\<lambda>s. \<exists>n. filling D oid n Q 0 s)
     (ef_seq (finalise oid) (ef_seq assert_invariants (ef_seq (save_state cfg fd) (ef_return oid))))
     (\<lambda>_. book_inv D {} 0) (\<lambda>_. book_inv D {} 0)"
  by (rule triple_seq [OF finalise_keeps]) (intro inv_quiet quiet_rule)

lemma execute_new_keeps:
  assumes "aware fd"
  shows "triple (filling D oid 0 Q 0) (execute_new cfg fd oid snap) (\<lambda>_. book_inv D {} 0) (\<lambda>_. book_inv D {} 0)"
  unfolding execute_new_def
proof (rule triple_bind [OF triple_conseq [OF execute_keeps [OF assms] _ _ filling_0]], assumption, assumption, assumption,
    rule triple_with_order, goal_cases settle some)
  case (settle reason ord)
  have tail: "triple (\<lambda>s. filled_some D oid Q reason s \<and> map_of (pb_orders s) oid = Some ord)
     (ef_seq (finalise oid) (ef_seq assert_invariants (ef_seq (save_state cfg fd) (ef_return oid))))
     (\<lambda>_. book_inv D {} 0) (\<lambda>_. book_inv D {} 0)"
    by (rule triple_pre [OF tail_keeps]) (auto simp: filled_some_def)
  have undo: "triple (\<lambda>s. filled_some D oid Q reason s \<and> map_of (pb_orders s) oid = Some ord)
     (ef_seq (release_order oid) (with_order oid (reject_order oid why msg)))
     (\<lambda>_. book_inv D {} 0) (\<lambda>_. book_inv D {} 0)" if "po_filled ord = 0" for why msg
  proof (rule triple_seq)
    show "triple (\<lambda>s. filled_some D oid Q reason s \<and> map_of (pb_orders s) oid = Some ord) (release_order oid)
      (\<lambda>_ s. book_inv D {oid} 0 s \<and> map_of (pb_orders s) oid = Some (released ord)) (\<lambda>_. book_inv D {} 0)"
      by (rule triple_pre [OF release_keeps [of D "{oid}" 0 oid ord "{oid}"]])
         (auto simp: filled_some_def filling_def)
    show "triple (\<lambda>s. book_inv D {oid} 0 s \<and> map_of (pb_orders s) oid = Some (released ord))
      (with_order oid (reject_order oid why msg)) (\<lambda>_. book_inv D {} 0) (\<lambda>_. book_inv D {} 0)"
    proof (rule triple_with_order)
      show "triple (\<lambda>s. (book_inv D {oid} 0 s \<and> map_of (pb_orders s) oid = Some (released ord)) \<and>
          map_of (pb_orders s) oid = Some ord') (reject_order oid why msg ord')
          (\<lambda>_. book_inv D {} 0) (\<lambda>_. book_inv D {} 0)" for ord'
        by (rule triple_pre [OF reject_open_keeps]) (use that in auto)
    qed auto
  qed
  show ?case
    using tail undo by (cases reason; cases "po_filled ord = 0") simp_all
next
  case (some r s)
  then show ?case by (auto simp: filled_some_def dest: filling_order)
qed

lemma static_reject_qty: "static_reject cfg req now s = None \<Longrightarrow> 0 < pl_qty req"
  by (auto simp: static_reject_def split: if_splits)

lemma place_keeps:
  assumes "aware fd"
  shows "triple (fresh D oid) (place_order cfg fd oid req)
    (\<lambda>_. book_inv (insert oid D) {} 0) (\<lambda>_. book_inv (insert oid D) {} 0)"
proof -
  let ?I = "book_inv (insert oid D) {} 0"
  have weak: "fresh D oid s \<Longrightarrow> ?I s" for s :: "'a book"
    unfolding fresh_def by (blast intro: inv_mono)
  show ?thesis
    unfolding place_order_def
  proof (rule triple_bind [OF now_ist_triple [OF assms]], unfold Let_def, rule triple_bind_get, goal_cases after)
    case (after now bad)
    show ?case
    proof (cases bad)
      case (Some why)
      show ?thesis unfolding Some option.case by (intro triple_bind_get triple_pre [OF reject_new]) simp
    next
      case None
      show ?thesis
      proof (cases "0 < pl_qty req")
        case pos: True
        have go: "triple (fresh D oid) (ef_bind (reserve_order cfg oid req (new_order oid req now) snap) (\<lambda>refused.
            case refused of None \<Rightarrow> execute_new cfg fd oid snap
            | Some msg \<Rightarrow> reject_order oid INSUFFICIENT_CASH msg (new_order oid req now)))
            (\<lambda>_. ?I) (\<lambda>_. ?I)" for snap
        proof (rule triple_bind [OF triple_conseq [OF reserve_keeps [OF pos] _ _ weak]], assumption, assumption, assumption)
          show "triple (if refused = None then filling (insert oid D) oid 0 (pl_qty req) 0 else fresh D oid)
            (case refused of None \<Rightarrow> execute_new cfg fd oid snap
              | Some msg \<Rightarrow> reject_order oid INSUFFICIENT_CASH msg (new_order oid req now))
            (\<lambda>_. ?I) (\<lambda>_. ?I)" for refused
            by (cases refused) (simp_all add: reject_new execute_new_keeps [OF assms])
        qed
        have snap: "triple (fresh D oid) (snapshot cfg fd (pl_symbol req) (pl_exchange req))
            (\<lambda>_. fresh D oid) (\<lambda>_. fresh D oid)"
          by (intro fresh_quiet quiet_rule)
        show ?thesis
          unfolding None option.case
          by (rule triple_pre [OF triple_bind_try [OF snap]])
             (auto intro!: reject_new go split: sum.split)
      next
        case False
        then show ?thesis using None static_reject_qty by (auto simp: triple_def)
      qed
    qed
  qed
qed

section \<open>Cancelling, modifying, polling, squaring off, marking\<close>

lemma triple_with_order_err:
  assumes "\<And>ord. triple (\<lambda>s. P s \<and> map_of (pb_orders s) oid = Some ord) (k ord) Q E"
    and "\<And>s. P s \<Longrightarrow> E (KeyError oid) s"
  shows "triple P (with_order oid k) Q E"
proof -
  have "triple P (ef_bind (ef_get (\<lambda>s. map_of (pb_orders s) oid)) (\<lambda>ord.
     case ord of None \<Rightarrow> ef_raise (KeyError oid) | Some ord' \<Rightarrow> k ord')) Q E"
  proof (rule triple_bind_get)
    show "triple (\<lambda>s. P s \<and> map_of (pb_orders s) oid = ord)
      (case ord of None \<Rightarrow> ef_raise (KeyError oid) | Some ord' \<Rightarrow> k ord') Q E" for ord
      using assms by (cases ord) (auto simp: triple_def ef_raise_def)
  qed
  then show ?thesis by (simp add: with_order_def)
qed

lemma open_filling:
  assumes "book_inv D {} 0 s" and "map_of (pb_orders s) oid = Some ord" and "po_status ord = P_OPEN"
  shows "filling D oid 0 (po_qty ord) 0 s"
proof -
  have "order_ok ord" using assms(1,2) by (simp add: book_inv_def)
  then show ?thesis using assms by (simp add: filling_def book_inv_def order_ok_def)
qed

lemma filling_resize:
  assumes "filling D oid 0 Q 0 s" and "map_of (pb_orders s) oid = Some ord"
    and "po_status ord' = P_OPEN" "po_filled ord' = 0" "0 < po_qty ord'"
    and "po_reserved_cash ord' = po_reserved_cash ord"
  shows "filling D oid 0 (po_qty ord') 0 (set_order oid ord' s)"
proof -
  have "book_inv D {oid} 0 (set_order oid ord' s)"
    using set_order_inv [OF _ assms(2), of D "{oid}" 0 "{oid}" ord' 0] assms by (simp add: filling_def)
  then show ?thesis using assms by (simp add: filling_def set_order_def map_of_update_iff)
qed

definition resting :: "string set \<Rightarrow> string \<Rightarrow> 'd book \<Rightarrow> bool" where
  "resting D oid s \<longleftrightarrow> (\<exists>Q. filling D oid 0 Q 0 s)"

lemma resting_inv: "resting D oid s \<Longrightarrow> book_inv D {} 0 s"
  unfolding resting_def by (blast intro: filling_0)

lemma resting_core: "core s' = core s \<Longrightarrow> resting D oid s \<Longrightarrow> resting D oid s'"
  unfolding resting_def by (blast intro: filling_core)

lemmas resting_quiet = quiet_triple [OF _ resting_core]

lemma resting_fields:
  "resting D oid s \<Longrightarrow> map_of (pb_orders s) oid = Some ord \<Longrightarrow> po_status ord = P_OPEN \<and> po_filled ord = 0 \<and> 0 < po_qty ord"
  by (auto simp: resting_def dest: filling_fields)

lemma resting_set:
  "resting D oid s \<Longrightarrow> map_of (pb_orders s) oid = Some ord \<Longrightarrow> po_status ord' = P_OPEN \<Longrightarrow>
     po_filled ord' = 0 \<Longrightarrow> 0 < po_qty ord' \<Longrightarrow> po_reserved_cash ord' = po_reserved_cash ord \<Longrightarrow>
     resting D oid (set_order oid ord' s)"
  unfolding resting_def by (blast intro: filling_resize)

lemma orders_set_order: "pb_orders (set_order oid ord s) = AList.update oid ord (pb_orders s)"
  by (simp add: set_order_def)

lemma cancel_keeps:
  fixes fd :: "'d feed"
  shows "triple (book_inv D {} 0) (cancel_paper_order cfg fd oid) (\<lambda>_. book_inv D {} 0) (\<lambda>_. book_inv D {} 0)"
  unfolding cancel_paper_order_def
proof (rule triple_bind_get)
  fix found
  let ?P = "\<lambda>s. book_inv D {} 0 s \<and> map_of (pb_orders s) oid = found"
  show "triple ?P (case found of None \<Rightarrow> ef_return False
     | Some ord' \<Rightarrow>
         if po_status ord' \<noteq> P_OPEN then ef_return False
         else ef_seq (release_order oid) (ef_seq (set_status oid P_CANCELLED)
           (ef_seq assert_invariants (ef_seq (save_state cfg fd) (ef_return True)))))
     (\<lambda>_. book_inv D {} 0) (\<lambda>_. book_inv D {} 0)"
  proof (cases "\<exists>ord. found = Some ord \<and> po_status ord = P_OPEN")
    case False
    then show ?thesis by (auto simp: triple_def ef_return_def split: option.split)
  next
    case True
    then obtain ord where o: "found = Some ord" "po_status ord = P_OPEN" by blast
    have status: "triple (\<lambda>s. book_inv D {oid} 0 s \<and> map_of (pb_orders s) oid = Some (released ord) \<and> po_filled ord = 0)
      (set_status oid P_CANCELLED :: ('d book, unit) ef) (\<lambda>_. book_inv D {} 0) (\<lambda>_. book_inv D {} 0)"
    proof -
      have "book_inv D {} 0 (set_order oid (released ord\<lparr>po_status := P_CANCELLED\<rparr>) s)"
        if "book_inv D {oid} 0 s" "map_of (pb_orders s) oid = Some (released ord)" "po_filled ord = 0" for s :: "'d book"
        using set_order_inv [OF that(1,2), of "{}" "released ord\<lparr>po_status := P_CANCELLED\<rparr>" 0] that(3)
        by (simp add: order_ok_def)
      then show ?thesis by (simp add: triple_def set_status_def with_order_def ef_defs)
    qed
    have rel: "triple ?P (release_order oid)
      (\<lambda>_ s. book_inv D {oid} 0 s \<and> map_of (pb_orders s) oid = Some (released ord) \<and> po_filled ord = 0)
      (\<lambda>_. book_inv D {} 0)"
    proof (cases "po_filled ord = 0")
      case True
      then show ?thesis
        by (auto intro: triple_conseq [OF release_keeps [of D "{}" 0 oid ord "{oid}"]] simp: o)
    next
      case False
      then show ?thesis using o by (auto simp: triple_def dest: open_filling filling_fields)
    qed
    show ?thesis
      unfolding o option.case
      by (simp add: o(2)) (rule triple_seq [OF rel [unfolded o] triple_seq [OF status]], intro inv_quiet quiet_rule)
  qed
qed

lemma modify_qty_keeps: "triple (resting D oid) (modify_qty oid qty) (\<lambda>_. resting D oid) (\<lambda>_. resting D oid)"
proof (cases qty)
  case None
  then show ?thesis by (simp add: modify_qty_def triple_ret)
next
  case (Some q)
  have one: "resting D oid (set_order oid (ord\<lparr>po_qty := q\<rparr>) s)"
    if "resting D oid s" "map_of (pb_orders s) oid = Some ord" "\<not> q \<le> po_filled ord" for s ord
    using that resting_fields [OF that(1,2)] by (auto intro!: resting_set)
  have two: "resting D oid (set_order oid (ord\<lparr>po_qty := q, po_reserved_qty := r\<rparr>)
      (set_order oid (ord\<lparr>po_qty := q\<rparr>) s))"
    if "resting D oid s" "map_of (pb_orders s) oid = Some ord" "\<not> q \<le> po_filled ord" for s ord r
    using that resting_fields [OF that(1,2)]
    by (intro resting_set [OF one [OF that], of "ord\<lparr>po_qty := q\<rparr>"]) (auto simp: orders_set_order map_of_update_iff)
  show ?thesis
    unfolding modify_qty_def Some option.case
    by (rule triple_with_order_err) (auto simp: triple_def ef_defs intro: one two)
qed

lemma modify_price_keeps: "triple (resting D oid) (modify_price oid price) (\<lambda>_. resting D oid) (\<lambda>_. resting D oid)"
proof -
  have "resting D oid (set_order oid (ord\<lparr>po_price := p\<rparr>) s)"
    if "resting D oid s" "map_of (pb_orders s) oid = Some ord" for s ord p
    using that resting_fields [OF that] by (auto intro!: resting_set)
  then have "triple (resting D oid) (with_order oid (\<lambda>ord.
      ef_seq (ef_modify (set_order oid (ord\<lparr>po_price := p\<rparr>))) (ef_return True))) (\<lambda>_. resting D oid) (\<lambda>_. resting D oid)" for p
    by (intro triple_with_order_err) (auto simp: triple_def ef_defs)
  then show ?thesis
    unfolding modify_price_def by (cases price) (auto intro!: triple_if triple_ret)
qed

lemma modify_keeps:
  "triple (book_inv D {} 0) (modify_order cfg fd oid qty price) (\<lambda>_. book_inv D {} 0) (\<lambda>_. book_inv D {} 0)"
  unfolding modify_order_def
proof (rule triple_bind_get)
  fix found
  have rest: "triple (resting D oid) (ef_bind (modify_qty oid qty) (\<lambda>ok.
           if \<not> ok then ef_return False
           else ef_bind (modify_price oid price) (\<lambda>ok'.
             if \<not> ok' then ef_return False
             else ef_seq assert_invariants (ef_seq (save_state cfg fd) (ef_return True)))))
      (\<lambda>_. resting D oid) (\<lambda>_. resting D oid)"
    by (intro triple_bind [OF modify_qty_keeps] triple_bind [OF modify_price_keeps] triple_if triple_ret
        resting_quiet quiet_rule)
  show "triple (\<lambda>s. book_inv D {} 0 s \<and> map_of (pb_orders s) oid = found) (case found of None \<Rightarrow> ef_return False
     | Some ord' \<Rightarrow>
         if po_status ord' \<noteq> P_OPEN then ef_return False
         else ef_bind (modify_qty oid qty) (\<lambda>ok.
           if \<not> ok then ef_return False
           else ef_bind (modify_price oid price) (\<lambda>ok'.
             if \<not> ok' then ef_return False
             else ef_seq assert_invariants (ef_seq (save_state cfg fd) (ef_return True)))))
     (\<lambda>_. book_inv D {} 0) (\<lambda>_. book_inv D {} 0)"
    by (auto simp del: not_not split: option.split intro!: triple_if triple_ret
        triple_conseq [OF rest _ resting_inv resting_inv])
       (auto simp: resting_def intro: open_filling)
qed

lemma poll_one_keeps:
  fixes fd :: "'d feed"
  assumes "aware fd"
  shows "triple (book_inv D {} 0) (poll_one cfg fd oid) (\<lambda>_. book_inv D {} 0) (\<lambda>_. book_inv D {} 0)"
  unfolding poll_one_def
proof (rule triple_with_order_err, goal_cases some)
  case (some ord)
  let ?I = "book_inv D {} 0"
  let ?F = "filling D oid 0 (po_qty ord) 0"
  have after: "triple (filled_some D oid (po_qty ord) reason) (with_order oid (\<lambda>ord'.
         if reason \<noteq> None \<and> po_filled ord' = 0 then ef_return 0
         else if po_filled ord < po_filled ord' then ef_seq (finalise oid) (ef_return 1)
         else ef_return 0) :: ('d book, nat) ef) (\<lambda>_. ?I) (\<lambda>_. ?I)" if "po_filled ord = 0" for reason
  proof (rule triple_with_order, goal_cases after known)
    case (after ord')
    have zero: "?I s" if f: "filled_some D oid (po_qty ord) reason s"
      and o: "map_of (pb_orders s) oid = Some ord'" and z: "po_filled ord' \<le> 0" for s :: "'d book"
    proof -
      obtain n where n: "filling D oid n (po_qty ord) 0 s" using f unfolding filled_some_def by blast
      moreover have "n = 0" using filling_fields [OF n o] z by simp
      ultimately show ?thesis by (blast intro: filling_0)
    qed
    have done': "triple (\<lambda>s. filled_some D oid (po_qty ord) reason s \<and> map_of (pb_orders s) oid = Some ord')
      (ef_seq (finalise oid) (ef_return 1) :: ('d book, nat) ef) (\<lambda>_. ?I) (\<lambda>_. ?I)"
      by (rule triple_seq [OF triple_pre [OF finalise_keeps]]) (auto simp: filled_some_def intro: triple_ret)
    show ?case
      by (intro triple_if done' triple_ret) (use zero that in auto)
  next
    case (known s)
    then show ?case by (auto simp: filled_some_def dest: filling_order)
  qed
  show ?case
  proof (cases "po_status ord = P_OPEN \<and> po_filled ord = 0")
    case True
    have snap: "triple ?F (snapshot cfg fd (po_symbol ord) (po_exchange ord) :: ('d book, market_snapshot) ef) (\<lambda>_. ?F) (\<lambda>_. ?F)"
      by (intro filling_quiet quiet_rule)
    have run: "triple ?F (ef_bind (execute_against cfg fd oid sn) (\<lambda>reason. with_order oid (\<lambda>ord'.
         if reason \<noteq> None \<and> po_filled ord' = 0 then ef_return 0
         else if po_filled ord < po_filled ord' then ef_seq (finalise oid) (ef_return 1)
         else ef_return 0)) :: ('d book, nat) ef) (\<lambda>_. ?I) (\<lambda>_. ?I)" for sn
    proof (rule triple_bind)
      show "triple ?F (execute_against cfg fd oid sn) (filled_some D oid (po_qty ord)) (\<lambda>_. ?I)"
        by (rule triple_conseq [OF execute_keeps [OF assms] _ _ filling_0])
    qed (use True after in blast)
    show ?thesis
      apply (simp only: conjunct1 [OF True] simp_thms if_False)
      apply (rule triple_pre [OF triple_bind_try [OF snap]])
       apply (rename_tac r, case_tac r; simp only: sum.case)
        apply (rule triple_ret, erule filling_0)
       apply (rule run)
      apply (use True in \<open>auto intro: open_filling\<close>)
      done
  next
    case False
    then show ?thesis by (auto simp: triple_def ef_return_def dest: open_filling filling_fields)
  qed
qed auto

lemma checked_save_keeps:
  "triple (book_inv D {} 0) (ef_seq assert_invariants (ef_seq (save_state cfg fd) (ef_return x)))
     (\<lambda>_. book_inv D {} 0) (\<lambda>_. book_inv D {} 0)"
  by (intro inv_quiet quiet_rule)

lemma poll_keeps:
  assumes "aware fd"
  shows "triple (book_inv D {} 0) (poll_open_orders cfg fd) (\<lambda>_. book_inv D {} 0) (\<lambda>_. book_inv D {} 0)"
  unfolding poll_open_orders_def
  by (rule triple_bind_get, rule triple_bind [OF triple_pre [OF triple_iter [OF poll_one_keeps [OF assms]]]])
     (auto intro!: triple_if triple_ret checked_save_keeps)

lemma cancel_symbol_keeps:
  "triple (book_inv D {} 0) (cancel_symbol cfg fd symbol oid) (\<lambda>_. book_inv D {} 0) (\<lambda>_. book_inv D {} 0)"
  unfolding cancel_symbol_def
  by (rule triple_with_order_err, rule triple_pre [where P' = "book_inv D {} 0"])
     (auto intro!: triple_if triple_ret triple_bind [OF cancel_keeps])

lemma square_off_one_keeps:
  assumes "aware fd" and "oid \<notin> D"
  shows "triple (book_inv D {} 0) (square_off_one cfg fd tag (oid, key))
    (\<lambda>_. book_inv (insert oid D) {} 0) (\<lambda>_. book_inv (insert oid D) {} 0)"
proof -
  have fr: "book_inv D {} 0 s \<Longrightarrow> fresh D oid s" for s :: "'a book"
    using assms(2) by (auto simp: fresh_def book_inv_def)
  have up: "book_inv D {} 0 s \<Longrightarrow> book_inv (insert oid D) {} 0 s" for s :: "'a book"
    by (blast intro: inv_mono)
  have close: "triple (book_inv D {} 0) (ef_seq (ef_iter (cancel_symbol cfg fd symbol) oids)
      (ef_bind (place_order cfg fd oid req) (\<lambda>oid. ef_return [oid])))
      (\<lambda>_. book_inv (insert oid D) {} 0) (\<lambda>_. book_inv (insert oid D) {} 0)" for symbol oids req
  proof (rule triple_seq)
    show "triple (book_inv D {} 0) (ef_iter (cancel_symbol cfg fd symbol) oids)
      (\<lambda>_. book_inv D {} 0) (\<lambda>_. book_inv (insert oid D) {} 0)"
      by (rule triple_conseq [OF triple_iter [OF cancel_symbol_keeps] _ _ up])
    show "triple (book_inv D {} 0) (ef_bind (place_order cfg fd oid req) (\<lambda>oid. ef_return [oid]))
      (\<lambda>_. book_inv (insert oid D) {} 0) (\<lambda>_. book_inv (insert oid D) {} 0)"
      by (rule triple_pre [OF triple_bind [OF place_keeps [OF assms(1)]] fr]) (rule triple_ret)
  qed
  show ?thesis
    unfolding square_off_one_def prod.case
    apply (rule triple_bind_get)
    apply (rename_tac pos, case_tac pos; simp)
     apply (rule triple_ret, auto intro: up)[1]
    apply (intro conjI impI)
      apply (rule triple_ret, auto intro: up)[1]
    apply (rule triple_bind_get, rule triple_pre [OF close], simp)
    done
qed

lemma square_off_all_keep:
  assumes "aware fd" and "distinct (map fst zs)" and "D \<inter> fst ` set zs = {}"
  shows "triple (book_inv D {} 0) (ef_iter (square_off_one cfg fd tag) zs)
    (\<lambda>_. book_inv (D \<union> fst ` set zs) {} 0) (\<lambda>_. book_inv (D \<union> fst ` set zs) {} 0)"
  using assms(2,3)
proof (induction zs arbitrary: D)
  case Nil
  then show ?case by (auto intro: triple_ret)
next
  case (Cons z zs)
  obtain oid key where z: "z = (oid, key)" by (cases z)
  have step: "triple (book_inv D {} 0) (square_off_one cfg fd tag z)
    (\<lambda>_. book_inv (insert oid D) {} 0) (\<lambda>_. book_inv (D \<union> fst ` set (z # zs)) {} 0)"
    unfolding z by (rule triple_conseq [OF square_off_one_keeps [OF assms(1), of oid D]])
      (use Cons.prems in \<open>auto simp: z intro: inv_mono\<close>)
  have rest: "triple (book_inv (insert oid D) {} 0) (ef_iter (square_off_one cfg fd tag) zs)
    (\<lambda>_. book_inv (D \<union> fst ` set (z # zs)) {} 0) (\<lambda>_. book_inv (D \<union> fst ` set (z # zs)) {} 0)"
    using Cons.IH [of "insert oid D"] Cons.prems by (auto simp: z)
  show ?case
    unfolding ef_iter.simps by (intro triple_bind [OF step] triple_bind [OF rest] triple_ret)
qed

lemma square_off_keeps:
  assumes "aware fd" and "inj uuid" and "D \<inter> range uuid = {}"
  shows "triple (book_inv D {} 0) (square_off_intraday cfg fd tag uuid)
    (\<lambda>_. book_inv (D \<union> range uuid) {} 0) (\<lambda>_. book_inv (D \<union> range uuid) {} 0)"
proof -
  have go: "triple (book_inv D {} 0) (ef_iter (square_off_one cfg fd tag) (zip (map uuid [0..<length keys]) keys))
    (\<lambda>_. book_inv (D \<union> range uuid) {} 0) (\<lambda>_. book_inv (D \<union> range uuid) {} 0)" for keys
  proof -
    let ?zs = "zip (map uuid [0..<length keys]) keys"
    have ids: "map fst ?zs = map uuid [0..<length keys]" by (simp add: map_fst_zip)
    have "distinct (map fst ?zs)"
      unfolding ids using assms(2) by (simp add: distinct_map inj_on_subset [of _ UNIV])
    moreover have sub: "fst ` set ?zs \<subseteq> range uuid" 
    proof -
      have "fst ` set ?zs = uuid ` set [0..<length keys]"
        using arg_cong [OF ids, of set] unfolding set_map .
      then show ?thesis by blast
    qed
    ultimately show ?thesis
      by (intro triple_conseq [OF square_off_all_keep [OF assms(1), of ?zs D]])
         (use assms(3) in \<open>blast intro: inv_mono\<close>)+
  qed
  show ?thesis
    unfolding square_off_intraday_def
    by (rule triple_bind_get, rule triple_pre [OF triple_bind [OF go]]) (auto intro: triple_ret)
qed

lemma mark_keeps:
  assumes "0 \<le> pp_quantity p"
  shows "triple (book_inv D {} 0) (mark cfg fd key p) (\<lambda>_. book_inv D {} 0) (\<lambda>_. book_inv D {} 0)"
proof -
  have up: "book_inv D {} 0 (s\<lparr>pb_positions := AList.update key p' (pb_positions s)\<rparr>)"
    if "book_inv D {} 0 s" "0 \<le> pp_quantity p'" for s p'
  proof -
    have "longs (s\<lparr>pb_positions := AList.update key p' (pb_positions s)\<rparr>)"
      using that set_update_subset [of key p' "pb_positions s"]
      by (auto simp: longs_def book_inv_def dest!: subsetD)
    then show ?thesis using that by (simp add: book_inv_def longs_def ledger_cash_def)
  qed
  have "triple (book_inv D {} 0) (snapshot cfg fd (pp_symbol p) (pp_exchange p))
      (\<lambda>_. book_inv D {} 0) (\<lambda>_. book_inv D {} 0)"
    by (intro inv_quiet quiet_rule)
  then show ?thesis
    unfolding mark_def Let_def
    by (rule triple_bind_try, intro triple_seq [OF triple_step] triple_ret)
       (auto intro!: up simp: assms mark_values_def Let_def split: sum.split)
qed

lemma marks_keep:
  assumes "\<And>key p. (key, p) \<in> set ps \<Longrightarrow> 0 \<le> pp_quantity p"
  shows "triple (book_inv D {} 0) (ef_iter (\<lambda>(key, p). mark cfg fd key p) ps)
    (\<lambda>_. book_inv D {} 0) (\<lambda>_. book_inv D {} 0)"
  by (rule triple_iter) (auto intro!: mark_keeps assms)

lemma marked_where_keeps:
  "triple (book_inv D {} 0) (marked_where cfg fd want) (\<lambda>_. book_inv D {} 0) (\<lambda>_. book_inv D {} 0)"
  unfolding marked_where_def
proof (rule triple_bind_get)
  fix ps
  show "triple (\<lambda>s. book_inv D {} 0 s \<and> pb_positions s = ps)
    (ef_iter (\<lambda>(key, p). mark cfg fd key p) (filter (\<lambda>(_, p). want p) ps))
    (\<lambda>_. book_inv D {} 0) (\<lambda>_. book_inv D {} 0)"
  proof (cases "\<forall>(_, p) \<in> set ps. 0 \<le> pp_quantity p")
    case True
    show ?thesis by (rule triple_pre [OF marks_keep]) (use True in auto)
  next
    case False
    then show ?thesis by (auto simp: triple_def book_inv_def longs_def)
  qed
qed

section \<open>Every operation, in every order\<close>

datatype paper_op =
    Place string place_request
  | Cancel string
  | Modify string "int option" "pyfloat option"
  | Poll
  | Square_Off string "nat \<Rightarrow> string"
  | Positions
  | Holdings
  | Quote string

text \<open>The state after an operation, whether it returned or raised.\<close>

fun paper_exec :: "paper_config \<Rightarrow> 'd feed \<Rightarrow> paper_op \<Rightarrow> 'd book \<Rightarrow> 'd book" where
  "paper_exec cfg fd (Place oid req) s = snd (place_order cfg fd oid req s)"
| "paper_exec cfg fd (Cancel oid) s = snd (cancel_paper_order cfg fd oid s)"
| "paper_exec cfg fd (Modify oid qty price) s = snd (modify_order cfg fd oid qty price s)"
| "paper_exec cfg fd Poll s = snd (poll_open_orders cfg fd s)"
| "paper_exec cfg fd (Square_Off tag uuid) s = snd (square_off_intraday cfg fd tag uuid s)"
| "paper_exec cfg fd Positions s = snd (get_positions cfg fd s)"
| "paper_exec cfg fd Holdings s = snd (get_holdings cfg fd s)"
| "paper_exec cfg fd (Quote symbols) s = snd (get_quote fd symbols s)"

definition paper_run :: "paper_config \<Rightarrow> 'd feed \<Rightarrow> paper_op list \<Rightarrow> 'd book \<Rightarrow> 'd book" where
  "paper_run cfg fd ops s = fold (paper_exec cfg fd) ops s"

text \<open>\<open>uuid4\<close> never draws an id twice.\<close>

fun drawn :: "paper_op \<Rightarrow> string set" where
  "drawn (Place oid _) = {oid}"
| "drawn (Square_Off _ uuid) = range uuid"
| "drawn _ = {}"

fun unique_ids :: "string set \<Rightarrow> paper_op list \<Rightarrow> bool" where
  "unique_ids D [] \<longleftrightarrow> True"
| "unique_ids D (p # ops) \<longleftrightarrow> D \<inter> drawn p = {} \<and>
     (case p of Square_Off _ uuid \<Rightarrow> inj uuid | _ \<Rightarrow> True) \<and> unique_ids (D \<union> drawn p) ops"

lemma quote_keeps: "triple (book_inv D {} 0) (get_quote fd symbols) (\<lambda>_. book_inv D {} 0) (\<lambda>_. book_inv D {} 0)"
  by (intro inv_quiet quiet_rule)

lemma exec_keeps:
  assumes "aware fd" and "D \<inter> drawn p = {}" and "case p of Square_Off _ uuid \<Rightarrow> inj uuid | _ \<Rightarrow> True"
    and inv: "book_inv D {} 0 s"
  shows "book_inv (D \<union> drawn p) {} 0 (paper_exec cfg fd p s)"
proof (cases p)
  case (Place oid req)
  then have "fresh D oid s" using inv assms(2) by (auto simp: fresh_def book_inv_def)
  from triple_snd [OF place_keeps [OF assms(1)] this] show ?thesis by (simp add: Place)
next
  case (Square_Off tag uuid)
  with assms triple_snd [OF square_off_keeps [OF assms(1), of uuid D cfg tag] inv] show ?thesis by simp
qed (use triple_snd [OF cancel_keeps inv] triple_snd [OF modify_keeps inv]
      triple_snd [OF poll_keeps [OF assms(1)] inv] triple_snd [OF marked_where_keeps inv]
      triple_snd [OF quote_keeps inv] in \<open>auto simp: get_positions_def get_holdings_def\<close>)

lemma run_keeps:
  assumes "aware fd"
  shows "unique_ids D ops \<Longrightarrow> book_inv D {} 0 s \<Longrightarrow> \<exists>D'. book_inv D' {} 0 (paper_run cfg fd ops s)"
proof (induction ops arbitrary: D s)
  case Nil
  then show ?case by (auto simp: paper_run_def)
next
  case (Cons p ops)
  from Cons.prems have "book_inv (D \<union> drawn p) {} 0 (paper_exec cfg fd p s)"
    by (intro exec_keeps [OF assms]) auto
  from Cons.IH [OF _ this] Cons.prems(1) show ?case by (simp add: paper_run_def)
qed

end
