(* ===== verification/Paper_Claims.thy ===== *)
theory Paper_Claims
  imports Paper_Proofs "HOL-Library.Countable"
begin

text \<open>
  The promises of single operations of the paper broker: what a normal return guarantees, what a
  rejected sale leaves untouched, what a planned fill respects, what the affordability loop finds,
  and what loading a persisted book can and cannot do.
\<close>

section \<open>A normal return leaves a coherent book\<close>

definition money :: "'d book \<Rightarrow> int \<times> int \<times> int \<times> (string \<times> paper_position) list \<times> trade list" where
  "money s = (pb_initial s, pb_cash s, pb_reserved s, pb_positions s, pb_trades s)"

lemma check_money: "money s' = money s \<Longrightarrow> book_check s' = book_check s"
  by (simp add: money_def book_check_def ledger_cash_def)

lemma money_core: "core s' = core s \<Longrightarrow> money s' = money s"
  by (simp add: money_def core_def)

lemma money_set_order [simp]: "money (set_order oid ord s) = money s"
  by (simp add: money_def set_order_def)

lemma bind_ok: "ef_bind m f s = (Inr y, s') \<longleftrightarrow> (\<exists>x t. m s = (Inr x, t) \<and> f x t = (Inr y, s'))"
  by (auto simp: ef_bind_def split: prod.split sum.split)

lemma seq_ok: "ef_seq m n s = (Inr y, s') \<longleftrightarrow> (\<exists>x t. m s = (Inr x, t) \<and> n t = (Inr y, s'))"
  by (simp add: ef_seq_def bind_ok)

text \<open>An execution that reports a reason did nothing; one that reports none did nothing or filled.\<close>

lemma execute_cases:
  assumes "execute_against cfg fd oid snap s = (Inr r, s')"
  shows "s' = s \<or> (r = None \<and> (\<exists>q p. 0 < q \<and> apply_paper_fill cfg fd oid q p snap s = (Inr (), s')))"
proof -
  obtain ord where o: "map_of (pb_orders s) oid = Some ord"
    using assms by (auto simp: execute_against_def with_order_def ef_defs split: option.splits)
  obtain q p why where plan: "plan_fill cfg ord snap = Inr (q, p, why)"
    using assms o by (cases "plan_fill cfg ord snap") (auto simp: execute_against_def with_order_def ef_defs)
  show ?thesis
  proof (cases "why \<noteq> None \<or> q \<le> 0")
    case True
    then show ?thesis using assms o plan
      by (auto simp: execute_against_def with_order_def ef_defs split: if_splits)
  next
    case False
    show ?thesis
    proof (cases "po_txn ord = BUY")
      case True
      then show ?thesis using assms o plan False
        by (auto simp: execute_against_def with_order_def bind_ok seq_ok ef_get_def ef_return_def ef_lift_def
            not_le split: if_splits)
    next
      case sell: False
      then show ?thesis using assms o plan False
        by (auto simp: execute_against_def with_order_def bind_ok seq_ok ef_get_def ef_return_def ef_lift_def
            not_le Let_def split: if_splits)
    qed
  qed
qed

definition coherent :: "'d book \<Rightarrow> bool" where
  "coherent s \<longleftrightarrow> book_check s = Inr ()"

lemma coherent_money:
  assumes "money s' = money s" and "coherent s"
  shows "coherent s'"
  using assms(2) unfolding coherent_def check_money [OF assms(1)] .

lemma coherent_set_order [simp]: "coherent (set_order oid ord s) = coherent s"
  unfolding coherent_def by (simp only: check_money [OF money_set_order])

abbreviation ends :: "('d book \<Rightarrow> bool) \<Rightarrow> ('d book, 'a) ef \<Rightarrow> ('a \<Rightarrow> 'd book \<Rightarrow> bool) \<Rightarrow> bool" where
  "ends P m Q \<equiv> triple P m Q (\<lambda>_ _. True)"

lemma triple_true: "ends P m (\<lambda>_ _. True)"
  by (simp add: triple_def split: prod.split sum.split)

lemma coherent_quiet:
  assumes "quiet m"
  shows "ends coherent m (\<lambda>_. coherent)"
  by (rule triple_conseq [OF quiet_triple [OF assms]]) (auto intro: coherent_money money_core)

lemma checked_save_ends:
  "ends (\<lambda>_. True) (ef_seq assert_invariants (ef_seq (save_state cfg fd) (ef_return x))) (\<lambda>_. coherent)"
proof (rule triple_seq)
  show "ends (\<lambda>_. True) assert_invariants (\<lambda>_. coherent)"
    by (auto simp: triple_def assert_invariants_def ef_defs coherent_def split: sum.split)
  show "ends coherent (ef_seq (save_state cfg fd) (ef_return x)) (\<lambda>_. coherent)"
    by (intro coherent_quiet quiet_rule)
qed

lemma reject_ends: "ends coherent (reject_order oid why msg ord) (\<lambda>_. coherent)"
  by (simp add: triple_def reject_order_def ef_defs)

text \<open>Coherent once the earmark of the order is given back.\<close>

definition earmarked :: "string \<Rightarrow> 'd book \<Rightarrow> bool" where
  "earmarked oid s \<longleftrightarrow> (\<exists>ord. map_of (pb_orders s) oid = Some ord \<and>
     coherent (s\<lparr>pb_reserved := pb_reserved s - po_reserved_cash ord\<rparr>))"

lemma reserve_ends:
  "ends coherent (reserve_order cfg oid req (new_order oid req now) snap)
     (\<lambda>refused. if refused = None then earmarked oid else coherent)"
proof -
  have "earmarked oid (set_order oid ord (s\<lparr>pb_reserved := pb_reserved s + po_reserved_cash ord\<rparr>))"
    if "coherent s" for s ord
  proof -
    have "money (set_order oid ord (s\<lparr>pb_reserved := pb_reserved s + po_reserved_cash ord\<rparr>)
        \<lparr>pb_reserved := pb_reserved s\<rparr>) = money s"
      by (simp add: money_def set_order_def)
    from coherent_money [OF this that] show ?thesis
      by (simp add: earmarked_def set_order_def map_of_update_iff)
  qed
  note new = this
  have buy: "earmarked oid (set_order oid (new_order oid req now\<lparr>po_reserved_cash := need\<rparr>)
      (s\<lparr>pb_reserved := pb_reserved s + need\<rparr>))" if "coherent s" for s need
    using new [OF that, of "new_order oid req now\<lparr>po_reserved_cash := need\<rparr>"] by simp
  have sell: "earmarked oid (set_order oid (new_order oid req now\<lparr>po_reserved_qty := q\<rparr>) s)"
    if "coherent s" for s q
    using new [OF that, of "new_order oid req now\<lparr>po_reserved_qty := q\<rparr>"] by simp
  show ?thesis
    unfolding reserve_order_def triple_def ef_defs
    by (auto split: sum.split if_splits intro: buy sell)
qed

lemma execute_ends:
  "ends (earmarked oid) (execute_against cfg fd oid snap) (\<lambda>r s. r \<noteq> None \<longrightarrow> earmarked oid s)"
  by (rule tripleI) (auto dest!: execute_cases)

lemma undo_ends:
  "ends (earmarked oid) (ef_seq (release_order oid) (with_order oid (reject_order oid why msg))) (\<lambda>_. coherent)"
proof (rule triple_seq)
  show "ends (earmarked oid) (release_order oid) (\<lambda>_. coherent)"
    by (auto simp: triple_def release_order_def with_order_def ef_defs earmarked_def)
  show "ends coherent (with_order oid (reject_order oid why msg)) (\<lambda>_. coherent)"
    by (rule triple_with_order_err) (auto intro: triple_pre [OF reject_ends])
qed

lemma tail_ends:
  "ends (\<lambda>_. True) (ef_seq (finalise oid) (ef_seq assert_invariants (ef_seq (save_state cfg fd) (ef_return oid))))
     (\<lambda>_. coherent)"
  by (rule triple_seq [OF _ checked_save_ends]) (rule triple_true)

lemma execute_new_ends: "ends (earmarked oid) (execute_new cfg fd oid snap) (\<lambda>_. coherent)"
  unfolding execute_new_def
proof (rule triple_bind [OF execute_ends triple_with_order_err], goal_cases settle err)
  case (settle reason ord)
  show ?case
    by (cases reason) (auto intro!: triple_if triple_pre [OF tail_ends] triple_pre [OF undo_ends])
qed simp

lemma place_ends: "ends coherent (place_order cfg fd oid req) (\<lambda>_. coherent)"
  unfolding place_order_def
proof (rule triple_bind [OF coherent_quiet [OF quiet_now]], unfold Let_def, rule triple_bind_get, goal_cases after)
  case (after now bad)
  have go: "ends coherent (ef_bind (reserve_order cfg oid req (new_order oid req now) snap) (\<lambda>refused.
      case refused of None \<Rightarrow> execute_new cfg fd oid snap
      | Some msg \<Rightarrow> reject_order oid INSUFFICIENT_CASH msg (new_order oid req now)))
      (\<lambda>_. coherent)" for snap
  proof (rule triple_bind [OF reserve_ends])
    show "ends (if refused = None then earmarked oid else coherent)
      (case refused of None \<Rightarrow> execute_new cfg fd oid snap
        | Some msg \<Rightarrow> reject_order oid INSUFFICIENT_CASH msg (new_order oid req now))
      (\<lambda>_. coherent)" for refused
      by (cases refused) (simp_all add: execute_new_ends reject_ends)
  qed
  have snap: "triple coherent (snapshot cfg fd (pl_symbol req) (pl_exchange req))
      (\<lambda>_. coherent) (\<lambda>_. coherent)"
    by (rule quiet_triple [OF quiet_snapshot coherent_money [OF money_core]])
  show ?case
  proof (cases bad)
    case (Some why)
    show ?thesis unfolding Some option.case by (intro triple_bind_get triple_pre [OF reject_ends]) simp
  next
    case None
    show ?thesis unfolding None option.case
      by (rule triple_pre [OF triple_bind_try [OF snap]]) (auto intro!: reject_ends go split: sum.split)
  qed
qed

lemma cancel_ends: "ends coherent (cancel_paper_order cfg fd oid) (\<lambda>_. coherent)"
  unfolding cancel_paper_order_def
proof (rule triple_bind_get, goal_cases found)
  case (found ord)
  have "ends (\<lambda>_. True) (ef_seq (release_order oid) (ef_seq (set_status oid P_CANCELLED)
           (ef_seq assert_invariants (ef_seq (save_state cfg fd) (ef_return True))))) (\<lambda>_. coherent)"
    by (rule triple_seq [OF triple_true triple_seq [OF triple_true checked_save_ends]])
  then show ?case
    by (auto split: option.split intro!: triple_if triple_ret elim: triple_pre)
qed

lemma modify_parts_end:
  "ends coherent (modify_qty oid qty) (\<lambda>_. coherent)" "ends coherent (modify_price oid price) (\<lambda>_. coherent)"
  by (cases qty; auto simp: modify_qty_def triple_def ef_defs with_order_def split: option.split)
     (cases price; auto simp: modify_price_def triple_def ef_defs with_order_def split: option.split)

lemma modify_ends: "ends coherent (modify_order cfg fd oid qty price) (\<lambda>_. coherent)"
  unfolding modify_order_def
proof (rule triple_bind_get, goal_cases found)
  case (found ord)
  have "ends coherent (ef_bind (modify_qty oid qty) (\<lambda>ok.
           if \<not> ok then ef_return False
           else ef_bind (modify_price oid price) (\<lambda>ok'.
             if \<not> ok' then ef_return False
             else ef_seq assert_invariants (ef_seq (save_state cfg fd) (ef_return True))))) (\<lambda>_. coherent)"
    by (intro triple_bind [OF modify_parts_end(1)] triple_bind [OF modify_parts_end(2)] triple_if triple_ret
        triple_pre [OF checked_save_ends]) auto
  then show ?case
    by (auto split: option.split intro!: triple_if triple_ret elim: triple_pre)
qed

text \<open>A fill increases the filled quantity of its order.\<close>

definition has_filled :: "string \<Rightarrow> int \<Rightarrow> 'd book \<Rightarrow> bool" where
  "has_filled oid n s \<longleftrightarrow> (\<exists>ord. map_of (pb_orders s) oid = Some ord \<and> po_filled ord = n)"

lemma move_cash_filled: "ends (has_filled oid n) (move_cash oid ord q price notional costs lp) (\<lambda>_. has_filled oid n)"
  by (auto simp: move_cash_def fill_buy_def fill_sell_def triple_def ef_defs with_order_def has_filled_def
      set_order_def map_of_update_iff Let_def split: option.split sum.split)

lemma record_fill_filled:
  "ends (has_filled oid n) (record_fill fd oid ord q price notional costs b) (\<lambda>_. has_filled oid (n + q))"
  by (auto simp: record_fill_def now_ist_def triple_def ef_defs with_order_def has_filled_def
      set_order_def map_of_update_iff book_order_fill_def Let_def split: option.split sum.split)

lemma apply_fill_filled: "ends (has_filled oid n) (apply_paper_fill cfg fd oid q price snap) (\<lambda>_. has_filled oid (n + q))"
proof -
  have both: "ends (has_filled oid n) (ef_seq (move_cash oid ord q price notional costs lp)
      (record_fill fd oid ord q price notional costs b)) (\<lambda>_. has_filled oid (n + q))" for ord notional costs lp b
    by (rule triple_seq [OF move_cash_filled record_fill_filled])
  show ?thesis
    unfolding apply_paper_fill_def
    by (rule triple_with_order_err, rule triple_pre [where P' = "has_filled oid n"])
       (auto intro!: triple_bind_lift both split: prod.split)
qed

lemma execute_coherent:
  assumes "execute_against cfg fd oid snap s = (Inr r, s')" and "coherent s" and "has_filled oid n s"
  shows "coherent s' \<or> (\<exists>q. 0 < q \<and> has_filled oid (n + q) s')"
  using execute_cases [OF assms(1)] assms(2,3) tripleD_ok [OF apply_fill_filled] by metis

lemma poll_one_ends:
  assumes "aware fd"
  shows "ends (\<lambda>s. book_inv D {} 0 s \<and> (b \<longrightarrow> coherent s)) (poll_one cfg fd oid)
    (\<lambda>c s. book_inv D {} 0 s \<and> (b \<and> c = 0 \<longrightarrow> coherent s))"
proof (rule tripleI)
  fix s c s' assume pre: "book_inv D {} 0 s \<and> (b \<longrightarrow> coherent s)" and run: "poll_one cfg fd oid s = (Inr c, s')"
  have inv: "book_inv D {} 0 s'" using tripleD_ok [OF poll_one_keeps [OF assms] _ run] pre by blast
  have "coherent s'" if b: "b" and c: "c = 0"
  proof -
    obtain ord where o: "map_of (pb_orders s) oid = Some ord"
      using run by (auto simp: poll_one_def with_order_def ef_defs split: option.splits)
    show ?thesis
    proof (cases "po_status ord = P_OPEN")
      case False
      with run o pre b show ?thesis by (auto simp: poll_one_def with_order_def ef_defs)
    next
      case True
      obtain r t where snap: "ef_try (snapshot cfg fd (po_symbol ord) (po_exchange ord)) s = (Inr r, t)"
        by (cases "snapshot cfg fd (po_symbol ord) (po_exchange ord) s") (simp add: ef_try_def)
      have core: "core t = core s" by (rule quietD [OF quiet_try [OF quiet_snapshot] snap])
      have coh: "coherent t" by (rule coherent_money [OF money_core [OF core]]) (use pre b in simp)
      show ?thesis
      proof (cases r)
        case (Inl e)
        with run o True snap coh show ?thesis
          by (auto simp: poll_one_def with_order_def bind_ok ef_get_def ef_return_def)
      next
        case (Inr sn)
        then obtain reason u ord' where ex: "execute_against cfg fd oid sn t = (Inr reason, u)"
          and o': "map_of (pb_orders u) oid = Some ord'"
          and fin: "(if reason \<noteq> None \<and> po_filled ord' = 0 then ef_return 0
             else if po_filled ord < po_filled ord' then ef_seq (finalise oid) (ef_return 1)
             else ef_return 0) u = (Inr c, s')"
          using run o True snap
          by (auto simp: poll_one_def with_order_def bind_ok ef_get_def ef_raise_def split: option.splits)
        have "has_filled oid (po_filled ord) t" using o orders_core [OF core] by (simp add: has_filled_def)
        from execute_coherent [OF ex coh this] o'
        have "coherent u \<or> po_filled ord < po_filled ord'" by (auto simp: has_filled_def)
        moreover have "0 \<le> po_filled ord" using open_filling [OF conjunct1 [OF pre] o True] o
          by (auto dest: filling_fields)
        ultimately show ?thesis using fin c by (auto simp: seq_ok ef_return_def split: if_splits)
      qed
    qed
  qed
  with inv show "book_inv D {} 0 s' \<and> (b \<and> c = 0 \<longrightarrow> coherent s')" by blast
qed simp

lemma poll_all_end:
  assumes "aware fd"
  shows "ends (\<lambda>s. book_inv D {} 0 s \<and> (b \<longrightarrow> coherent s)) (ef_iter (poll_one cfg fd) oids)
    (\<lambda>cs s. book_inv D {} 0 s \<and> (b \<and> sum_list cs = 0 \<longrightarrow> coherent s))"
proof (induction oids arbitrary: b)
  case Nil
  show ?case by (auto intro: triple_ret)
next
  case (Cons oid oids)
  show ?case
    unfolding ef_iter.simps
  proof (rule triple_bind [OF poll_one_ends [OF assms]], goal_cases rest)
    case (rest c)
    show ?case by (rule triple_bind [OF Cons.IH]) (auto intro: triple_ret)
  qed
qed

lemma poll_ends:
  assumes "aware fd"
  shows "ends (\<lambda>s. book_inv D {} 0 s \<and> coherent s) (poll_open_orders cfg fd) (\<lambda>_. coherent)"
  unfolding poll_open_orders_def
  by (rule triple_bind_get, rule triple_bind [OF triple_pre [OF poll_all_end [OF assms, where b = True and D = D]]])
     (auto intro!: triple_if triple_ret triple_pre [OF checked_save_ends])

text \<open>C31. Over any sequence of operations, each of which may return or raise, the books of the paper
  broker stay sound: the cash is the balance re-derived from the trade ledger, no position is short,
  the earmarked cash is the sum of what the orders reserved, and every order has the fill and the
  reservations that its status says.\<close>

theorem paper_book_stays_sound:
  assumes "aware fd" and "unique_ids (fst ` set (pb_orders s)) ops" and "book_ok s"
  shows "book_ok (paper_run cfg fd ops s)"
  using run_keeps [OF assms(1,2)] assms(3) by (auto simp: book_ok_inv [of s] intro: inv_book_ok)

text \<open>When an operation of the paper broker returns, the book passes every check of
  \<open>_assert_invariants\<close>: cash and earmarked cash are not negative, the earmarks are covered, no
  position is short or has a negative basis, and the cash agrees with the trade ledger.\<close>

theorem returned_book_is_coherent:
  assumes "aware fd" and "book_ok s" and "book_check s = Inr ()"
    and "place_order cfg fd oid req s = (Inr a, s') \<or> cancel_paper_order cfg fd oid s = (Inr b, s') \<or>
      modify_order cfg fd oid qty price s = (Inr c, s') \<or> poll_open_orders cfg fd s = (Inr n, s')"
  shows "book_check s' = Inr ()"
  using assms(2-4) tripleD_ok [OF place_ends, of s] tripleD_ok [OF cancel_ends, of s]
    tripleD_ok [OF modify_ends, of s] tripleD_ok [OF poll_ends [OF assms(1)], of "fst ` set (pb_orders s)" s]
  unfolding book_ok_inv coherent_def by metis

section \<open>Rejected sales, planned fills, affordable quantities\<close>

text \<open>A sale of more than the free holding is rejected before anything is priced or booked: the
  only change of the book is the rejected order.\<close>

theorem oversell_is_rejected:
  assumes "fd_clock fd (pb_env s) = Aware t" and "pl_txn req = SELL"
    and "free_qty (pl_symbol req) (pl_exchange req) (pl_product req) s < pl_qty req"
  shows "\<exists>ord. place_order cfg fd oid req s = (Inr oid, set_order oid ord s) \<and> po_status ord = P_REJECTED \<and>
    po_filled ord = 0 \<and> po_reserved_qty ord = 0 \<and> po_reserved_cash ord = 0"
proof -
  obtain why where "static_reject cfg req (ist_of t) s = Some why"
    using assms(2,3) by (cases "static_reject cfg req (ist_of t) s") (auto simp: static_reject_def split: if_splits)
  then have "place_order cfg fd oid req s = reject_order oid why (static_text req (ist_of t) s why) (new_order oid req t) s"
    using assms(1) by (simp add: place_order_def now_ist_def ef_defs ensure_aware_def Let_def)
  then show ?thesis by (auto simp: reject_order_def ef_defs)
qed

text \<open>A planned fill is never larger than what remains of the order or than the liquidity cap; a
  limit order never trades beyond its limit (snapped against the trader to the tick grid), and a stop
  trades only once triggered and never better than its trigger.\<close>

theorem fill_plan_respects_order:
  assumes "plan_fill cfg ord snap = Inr (q, p, why)" and "0 < q"
  shows "why = None \<and> q \<le> po_qty ord - po_filled ord \<and>
    (\<exists>cap. to_int (fint (sn_volume snap) * pc_participation cfg) = Inr cap \<and> q \<le> cap) \<and>
    (po_type ord = LIMIT \<longrightarrow> (\<exists>limit. snap_limit cfg (po_price ord) (po_txn ord) = Inr limit \<and>
       (p = limit \<or> (if po_txn ord = BUY then p < limit else limit < p)))) \<and>
    (po_type ord \<in> {SL, SL_M} \<longrightarrow>
       (if po_txn ord = BUY then po_price ord \<le> sn_ask snap else sn_bid snap \<le> po_price ord) \<and>
       (p = po_price ord \<or> (if po_txn ord = BUY then po_price ord < p else p < po_price ord)))"
proof -
  let ?touch = "if po_txn ord = BUY then sn_ask snap else sn_bid snap"
  have lim: "\<exists>limit. snap_limit cfg (po_price ord) (po_txn ord) = Inr limit \<and>
       (p = limit \<or> (if po_txn ord = BUY then p < limit else limit < p))" if ty: "po_type ord = LIMIT"
  proof -
    obtain most where "plan_limit cfg (po_price ord) most ?touch (sn_volume snap) (po_txn ord) = Inr (q, p, why)"
      using assms ty by (auto simp: plan_fill_def Let_def split: if_splits)
    from plan_limit_cases [OF this] assms(2) show ?thesis
      by (cases "po_txn ord = BUY") (auto simp: fmin_def fmax_def)
  qed
  have stop: "(if po_txn ord = BUY then po_price ord \<le> sn_ask snap else sn_bid snap \<le> po_price ord) \<and>
       (p = po_price ord \<or> (if po_txn ord = BUY then po_price ord < p else p < po_price ord))"
    if ty: "po_type ord \<in> {SL, SL_M}"
  proof -
    obtain most where "plan_stop cfg (po_price ord) most ?touch (sn_volume snap) (po_txn ord) = Inr (q, p, why)"
      using assms ty by (auto simp: plan_fill_def Let_def split: if_splits)
    from plan_stop_cases [OF this] assms(2) show ?thesis
      by (cases "po_txn ord = BUY") (auto simp: fmin_def fmax_def)
  qed
  from plan_fill_qty [OF assms] lim stop show ?thesis by blast
qed

text \<open>C39. The loop that shrinks a purchase to the cash at hand ends with a quantity between zero and
  the one asked for, and a positive result fits the budget with its charges.\<close>

theorem affordable_fill_fits_budget:
  assumes "affordable_qty cfg budget q price pr = Inr r"
  shows "0 \<le> r \<and> r \<le> max 0 q \<and>
    (0 < r \<longrightarrow> (\<exists>px costs b. to_paise price = Inr px \<and> costs_paise cfg r price BUY pr = Inr (costs, b) \<and>
       r * px + costs \<le> budget))"
  using assms by (auto simp: affordable_qty_def split: if_splits dest: affordable_loop_fits)

section \<open>Persisted books\<close>

lemma assert_quiet_state: "assert_invariants s = (case book_check s of Inl e \<Rightarrow> (Inl e, s) | Inr _ \<Rightarrow> (Inr (), s))"
  by (simp add: assert_invariants_def ef_defs split: sum.split)

text \<open>Connecting fails closed: it returns only when the store held nothing or a text whose
  envelope, schema and checksum are right, and then with a book that passes every check; otherwise it
  raises and the broker is not connected.\<close>

theorem corrupt_book_never_connects:
  assumes "pc_stored cfg" and "\<not> pc_allow_reset cfg" and "fd_read fd (pb_env s) = (r, d)"
  shows "case connect cfg fd s of
      (Inr _, s') \<Rightarrow> pb_connected s' \<and> book_check s' = Inr () \<and>
        (r = Inr None \<or> (\<exists>raw sv. r = Inr (Some raw) \<and> open_envelope fd raw = Inr sv))
    | (Inl _, s') \<Rightarrow> pb_connected s' = pb_connected s"
proof -
  have con: "book_check (t\<lparr>pb_connected := b\<rparr>) = book_check t" for t :: "'a book" and b
    by (simp add: book_check_def ledger_cash_def)
  have des: "case deserialise fd raw t of
      (Inr _, t') \<Rightarrow> (\<exists>sv. open_envelope fd raw = Inr sv) \<and> pb_connected t' = pb_connected t
    | (Inl _, t') \<Rightarrow> pb_connected t' = pb_connected t" for raw t
    by (cases "open_envelope fd raw")
       (auto simp: deserialise_def ef_defs assert_quiet_state split: sum.split)
  show ?thesis
  proof (cases r)
    case (Inl e)
    then show ?thesis using assms by (simp add: connect_def load_state_def ef_defs on_feed_def)
  next
    case (Inr raw)
    show ?thesis
    proof (cases raw)
      case None
      then show ?thesis using assms Inr
        by (auto simp: connect_def load_state_def ef_defs on_feed_def assert_quiet_state con split: sum.split)
    next
      case (Some blob)
      then show ?thesis using assms Inr des [where raw = blob and t = "s\<lparr>pb_env := d\<rparr>"]
        by (auto simp: connect_def load_state_def ef_defs on_feed_def assert_quiet_state con
            split: sum.splits prod.splits)
    qed
  qed
qed

text \<open>The text of a JSON value reads back to it.\<close>

definition text_codec :: "'d feed \<Rightarrow> bool" where
  "text_codec fd \<longleftrightarrow> (\<forall>j. unique_keys j \<longrightarrow> fd_loads fd (fd_dumps fd j) = Inr j)"

lemma book_json_unique:
  "distinct (map fst (pb_orders s)) \<Longrightarrow> distinct (map fst (pb_positions s)) \<Longrightarrow> unique_keys (book_json s)"
  using items_unique [of "pb_orders s" order_json] items_unique [of "pb_positions s" holding_json]
  by (simp add: book_json_def written_unique list_all_iff)

lemma envelope_opens:
  assumes "text_codec fd" and "unique_keys (book_json s)"
  shows "open_envelope fd (serialise fd s) = Inr (sorted_json (book_json s))"
  using assms unique_sorted [OF assms(2)]
  by (simp add: open_envelope_def serialise_def text_codec_def Let_def del: schema_matches.simps) (simp add: STATE_SCHEMA_VERSION_def)

text \<open>The fields of the sorted body.\<close>

lemma body_field: "field_of (sorted_json (JObj kvs)) k =
    (case map_of (map (map_prod id sorted_json) kvs) k of None \<Rightarrow> Inl (KeyError k) | Some j \<Rightarrow> Inr j)"
  by simp

lemma book_fields:
  "read_book (sorted_json (book_json s)) =
     Inr (pb_cash s, pb_reserved s, sort_key fst (pb_orders s), sort_key fst (pb_positions s))"
  "int_field (sorted_json (book_json s)) ''initial_cash_paise'' = Inr (pb_initial s)"
  "int_field (sorted_json (book_json s)) ''total_costs_paise'' = Inr (pb_total_costs s)"
  "read_trades (sorted_json (book_json s)) = Inr (pb_trades s)"
  unfolding read_book_def int_field_def read_trades_def book_json_def body_field
  using items_restored [of order_of_json order_json "pb_orders s", OF order_restored]
    items_restored [of holding_of_json holding_json "pb_positions s", OF holding_restored]
    trades_restored [of "pb_trades s"]
  by (simp_all del: sorted_json.simps(7) map_map)

definition restored :: "'d book \<Rightarrow> 'd book \<Rightarrow> 'd book" where
  "restored s t = t\<lparr>pb_initial := pb_initial s, pb_cash := pb_cash s, pb_reserved := pb_reserved s,
     pb_total_costs := pb_total_costs s, pb_orders := sort_key fst (pb_orders s),
     pb_positions := sort_key fst (pb_positions s), pb_trades := pb_trades s\<rparr>"

lemma restored_check: "book_check (restored s t) = book_check s"
  by (simp add: book_check_def ledger_cash_def restored_def)

lemma sorted_obj_once:
  "sorted_json (JObj (map (map_prod id g) (sort_key fst kvs))) = sorted_json (JObj (map (map_prod id g) kvs))"
  by (simp only: sorted_json_obj sort_key_map_prod sort_key_once)

lemma restored_json: "sorted_json (book_json (restored s t)) = sorted_json (book_json s)"
proof -
  have "pb_orders (restored s t) = sort_key fst (pb_orders s)" "pb_positions (restored s t) = sort_key fst (pb_positions s)"
    by (simp_all add: restored_def)
  then show ?thesis
    unfolding book_json_def sorted_json.simps(7) [of "_ # _"] list.map map_prod_simp
    by (simp only: sorted_obj_once) (simp add: restored_def)
qed

lemma deserialise_restores:
  assumes "text_codec fd" and "unique_keys (book_json s)" and "book_check s = Inr ()"
  shows "deserialise fd (serialise fd s) t = (Inr (), restored s t)"
proof -
  have "restored s t = t\<lparr>pb_initial := pb_initial s, pb_cash := pb_cash s, pb_reserved := pb_reserved s\<rparr>
      \<lparr>pb_total_costs := pb_total_costs s, pb_orders := sort_key fst (pb_orders s), pb_positions := sort_key fst (pb_positions s)\<rparr>
      \<lparr>pb_trades := pb_trades s\<rparr>"
    by (simp add: restored_def)
  then show ?thesis
    using restored_check [of s t] assms(3)
    by (simp add: deserialise_def ef_defs envelope_opens [OF assms(1,2)] book_fields assert_quiet_state)
qed

text \<open>C40. The book survives a restart. A broker with a coherent book disconnects, which writes the book to the store, and a
  broker connects on what the store then holds: the connection succeeds, and cash, earmarks, charges, initial cash and
  trades are those of the saved book, while orders and positions are the same entries, now in the order of their keys (the text
  is written with sorted keys). Saving again would write the same text. Orders and positions are dictionaries: no key
  occurs twice. Of the library it is used that the text of a JSON value reads back to it, of the store that it took the text and
  returns it.\<close>

theorem saved_book_is_restored:
  assumes "pc_stored cfg" and "book_check s = Inr ()"
    and "distinct (map fst (pb_orders s))" and "distinct (map fst (pb_positions s))" and "text_codec fd"
    and "fd_write fd (serialise fd s) (pb_env s) = (Inr (), d)" and "fd_read fd d = (Inr (Some (serialise fd s)), d')"
  shows "\<exists>s' t'. disconnect cfg fd s = (Inr (), s') \<and> \<not> pb_degraded s' \<and>
    connect cfg fd (t\<lparr>pb_env := pb_env s'\<rparr>) = (Inr (), t') \<and> pb_connected t' \<and>
    pb_cash t' = pb_cash s \<and> pb_reserved t' = pb_reserved s \<and> pb_initial t' = pb_initial s \<and>
    pb_total_costs t' = pb_total_costs s \<and> pb_trades t' = pb_trades s \<and>
    pb_orders t' = sort_key fst (pb_orders s) \<and> pb_positions t' = sort_key fst (pb_positions s) \<and>
    serialise fd t' = serialise fd s"
proof -
  let ?s = "s\<lparr>pb_env := d, pb_degraded := False, pb_connected := False\<rparr>" and ?t = "restored s (t\<lparr>pb_env := d'\<rparr>)"
  have s: "disconnect cfg fd s = (Inr (), ?s)"
    using assms(1,6) by (simp add: disconnect_def save_state_def ef_defs on_feed_def)
  have "load_state cfg fd (t\<lparr>pb_env := d\<rparr>) = (Inr (), ?t)"
    using assms(1,7) deserialise_restores [OF assms(5) book_json_unique [OF assms(3,4)] assms(2)]
    by (simp add: load_state_def ef_defs on_feed_def)
  then have t: "connect cfg fd (t\<lparr>pb_env := d\<rparr>) = (Inr (), ?t\<lparr>pb_connected := True\<rparr>)"
    using restored_check [of s "t\<lparr>pb_env := d'\<rparr>"] assms(2) by (simp add: connect_def ef_defs assert_quiet_state)
  have j: "book_json (?t\<lparr>pb_connected := True\<rparr>) = book_json ?t" by (simp add: book_json_def)
  have "serialise fd (?t\<lparr>pb_connected := True\<rparr>) = serialise fd s"
    unfolding serialise_def j restored_json ..
  then show ?thesis using s t by (simp add: restored_def)
qed

section \<open>Concrete runs\<close>

definition demo_instant :: int where "demo_instant = (date_day 2025 10 14 * 86400 + 6 * 3600) * 1000000"

definition demo_quote :: "pyfloat \<Rightarrow> int \<Rightarrow> raw_quote" where
  "demo_quote price volume = empty_quote\<lparr>rq_last := Some price, rq_volume := Some volume\<rparr>"

definition demo_feed :: "pyfloat \<Rightarrow> int \<Rightarrow> unit feed" where
  "demo_feed price volume = \<lparr>fd_clock = (\<lambda>_. Aware demo_instant),
     fd_quote = (\<lambda>key d. (Inr [(key, demo_quote price volume)], d)),
     fd_read = (\<lambda>d. (Inr (Some ''saved''), d)), fd_write = (\<lambda>_ d. (Inr (), d)),
     fd_dumps = (\<lambda>_. ''saved''),
     fd_loads = (\<lambda>_. Inr (JObj [(''schema'', JInt 2), (''checksum'', JStr ''digest''), (''body'', JStr ''body'')])),
     fd_digest = (\<lambda>_. ''digest'')\<rparr>"

definition demo_request :: "txn_type \<Rightarrow> int \<Rightarrow> order_type \<Rightarrow> pyfloat \<Rightarrow> prdct \<Rightarrow> place_request" where
  "demo_request txn qty ot price pr = \<lparr>pl_symbol = ''INFY'', pl_exchange = ''NSE'', pl_txn = txn, pl_qty = qty,
     pl_price = price, pl_order_type = ot, pl_product = pr, pl_tag = ''t'', pl_trigger = None\<rparr>"

lemma demo_aware: "aware (demo_feed p v)"
  by (simp add: aware_def demo_feed_def)

lemma demo_book: "book_ok (paper_book n d)" "0 \<le> n \<Longrightarrow> book_check (paper_book n d) = Inr ()"
  by (simp_all add: book_ok_def paper_book_def ledger_cash_def reserved_sum_def book_check_def)

lemma demo_ids: "unique_ids (fst ` set (pb_orders (paper_book n d))) [Place oid req, Poll, Cancel oid]"
  by (simp add: paper_book_def)

lemma paper_book_stays_sound_witness:
  "book_ok (paper_run default_paper_config (demo_feed (Fin 1) 100)
     [Place ''o1'' (demo_request BUY 1 MARKET (Fin 0) CNC), Poll, Cancel ''o1''] (paper_book 100000 ()))"
  by (rule paper_book_stays_sound [OF demo_aware demo_ids demo_book(1)])

lemma demo_cancel: "cancel_paper_order cfg fd oid (paper_book n d) = (Inr False, paper_book n d)"
  by (simp add: cancel_paper_order_def ef_defs paper_book_def)

lemma returned_book_is_coherent_witness:
  "book_check (paper_book 100 ()) = Inr () \<and>
   fst (cancel_paper_order default_paper_config (demo_feed (Fin 1) 100) ''o9'' (paper_book 100 ())) = Inr False"
proof -
  have c: "cancel_paper_order default_paper_config (demo_feed (Fin 1) 100) ''o9'' (paper_book 100 ()) =
      (Inr False, paper_book 100 ())"
    by (rule demo_cancel)
  have "book_check (paper_book 100 ()) = Inr ()"
    using returned_book_is_coherent [OF demo_aware [of "Fin 1" 100] demo_book [of 100 "()"], OF _ disjI2 [OF disjI1 [OF c]]]
    by simp
  with c show ?thesis by simp
qed

lemma demo_free: "free_qty symbol exchange pr (paper_book n d) = 0"
  by (simp add: free_qty_def held_qty_def reserved_qty_def paper_book_def Let_def)

lemma oversell_is_rejected_witness:
  "\<exists>ord. place_order default_paper_config (demo_feed (Fin 1) 100) ''o1'' (demo_request SELL 1 MARKET (Fin 0) CNC)
     (paper_book 100 ()) = (Inr ''o1'', set_order ''o1'' ord (paper_book 100 ())) \<and> po_status ord = P_REJECTED \<and>
     po_filled ord = 0 \<and> po_reserved_qty ord = 0 \<and> po_reserved_cash ord = 0"
  by (rule oversell_is_rejected [where t = demo_instant])
    (simp_all add: demo_feed_def demo_request_def demo_free)

definition demo_order :: paper_order where
  "demo_order = new_order ''o1'' (demo_request SELL 1 MARKET (Fin 0) CNC) demo_instant"

definition thin_snapshot :: market_snapshot where
  "thin_snapshot = \<lparr>sn_symbol = ''INFY'', sn_exchange = ''NSE'', sn_last = Fin 1, sn_bid = fl (95/100),
     sn_ask = fl (105/100), sn_volume = 1000000, sn_open = Fin 1, sn_high = Fin 1, sn_low = Fin 1,
     sn_prev_close = Fin 1, sn_half_spread = Fin 250, sn_age = None\<rparr>"

lemma thin_price: "impacted_price default_paper_config (fl (95/100)) 1 1000000 SELL = Inr (fl (9/10))"
  by code_simp

lemma thin_capacity: "to_int (fint 1000000 * pc_participation default_paper_config) = Inr 100000"
  by code_simp

lemma fill_plan_respects_order_witness:
  "plan_fill default_paper_config demo_order thin_snapshot = Inr (1, fl (9/10), None) \<and>
   (1::int) \<le> po_qty demo_order - po_filled demo_order"
proof -
  have p: "plan_fill default_paper_config demo_order thin_snapshot = Inr (1, fl (9/10), None)"
    using thin_capacity thin_price
    by (simp add: plan_fill_def plan_market_def liquidity_known_def thin_snapshot_def demo_order_def new_order_def
        demo_request_def Let_def)
  have "(1::int) \<le> po_qty demo_order - po_filled demo_order"
    using fill_plan_respects_order [OF p] by (simp only: zero_less_one simp_thms)
  with p show ?thesis by blast
qed

lemma thin_buy_total: "bc_total (bt_breakdown CONFIG BUY CNC (fint 1 * fl (9/10))) = Fin (5072854620270127 / 4611686018427387904)"
  unfolding bt_breakdown_def Let_def bt_cost.select_convs CONFIG_def cost_config.select_convs by code_simp

lemma thin_paise: "to_paise (Fin (8968299412959579 / 562949953421312)) = Inr 1593"
  "to_paise (Fin (5072854620270127 / 4611686018427387904)) = Inr 0" "to_paise (fl (9/10)) = Inr 90"
  by code_simp+

lemma thin_value: "\<not> fint 1 * fl (9/10) \<le> Fin 0"
  by code_simp

lemma upper_cnc: "py_upper ''CNC'' = ''CNC''"
  by code_simp

lemma thin_buy: "costs_paise default_paper_config 1 (fl (9/10)) BUY CNC =
    Inr (0, bt_breakdown CONFIG BUY CNC (fint 1 * fl (9/10)))"
  using thin_value thin_buy_total thin_paise(2)
  by (simp add: costs_paise_def bt_costs_def upper_buy upper_cnc txn_of_def bt_product_of_def default_paper_config_def Let_def)

lemma affordable_fill_fits_budget_witness:
  "affordable_qty default_paper_config 100 1 (fl (9/10)) CNC = Inr 1 \<and>
   (\<exists>px costs b. to_paise (fl (9/10)) = Inr px \<and> costs_paise default_paper_config 1 (fl (9/10)) BUY CNC = Inr (costs, b) \<and>
     1 * px + costs \<le> 100)"
proof -
  have r: "affordable_qty default_paper_config 100 1 (fl (9/10)) CNC = Inr 1"
    by (simp add: affordable_qty_def affordable_loop.simps thin_paise thin_buy)
  have "0 < (1::int) \<longrightarrow> (\<exists>px costs b. to_paise (fl (9/10)) = Inr px \<and>
      costs_paise default_paper_config 1 (fl (9/10)) BUY CNC = Inr (costs, b) \<and> 1 * px + costs \<le> 100)"
    using affordable_fill_fits_budget [OF r] by blast
  with r show ?thesis by simp
qed

definition damaged_feed :: "unit feed" where
  "damaged_feed = (demo_feed (Fin 1) 100)\<lparr>fd_digest := (\<lambda>_. ''other'')\<rparr>"

lemma damaged_read: "fd_read damaged_feed d = (Inr (Some ''saved''), d)"
  "open_envelope damaged_feed ''saved'' = Inl (ValueError ''state checksum mismatch'')"
  by (simp_all add: damaged_feed_def demo_feed_def open_envelope_def STATE_SCHEMA_VERSION_def)

lemma corrupt_book_never_connects_witness:
  "\<not> pb_connected (snd (connect (default_paper_config\<lparr>pc_stored := True\<rparr>) damaged_feed (paper_book 100 ())))"
  using corrupt_book_never_connects [of "default_paper_config\<lparr>pc_stored := True\<rparr>" damaged_feed "paper_book 100 ()"
      "Inr (Some ''saved'')" "pb_env (paper_book 100 ())"]
  by (auto simp: damaged_read default_paper_config_def paper_book_def split: prod.splits sum.splits)

text \<open>A store that holds one text, and a code of JSON values as texts of their number in an enumeration.\<close>

instance pyfloat :: countable by countable_datatype
instance json :: countable by countable_datatype

definition store_feed :: "string option feed" where
  "store_feed = \<lparr>fd_clock = (\<lambda>_. Aware demo_instant), fd_quote = (\<lambda>key d. (Inr [], d)),
     fd_read = (\<lambda>d. (Inr d, d)), fd_write = (\<lambda>txt d. (Inr (), Some txt)),
     fd_dumps = (\<lambda>j. replicate (to_nat j) CHR ''1''), fd_loads = (\<lambda>txt. Inr (from_nat (length txt))),
     fd_digest = rev\<rparr>"

definition saved_order :: "string \<Rightarrow> paper_order" where
  "saved_order oid = new_order oid (demo_request BUY 1 LIMIT (Fin 90) CNC) demo_instant"

text \<open>A share held, bought for Rs 1, and two open orders that were entered in the order \<open>b\<close>, \<open>a\<close>.\<close>

definition kept_book :: "string option book" where
  "kept_book = (paper_book 500 None)\<lparr>pb_cash := 400, pb_orders := [(''b'', saved_order ''b''), (''a'', saved_order ''a'')],
     pb_positions := [(''NSE:INFY:CNC'', \<lparr>pp_symbol = ''INFY'', pp_exchange = ''NSE'', pp_product = CNC, pp_quantity = 1,
       pp_average = Fin 1, pp_basis = 100, pp_last = Fin 1, pp_realised = Fin 0, pp_unrealised = Fin 0, pp_pnl = Fin 0\<rparr>)],
     pb_trades := [\<lparr>tr_order_id = ''o0'', tr_symbol = ''INFY'', tr_exchange = ''NSE'', tr_txn = BUY, tr_qty = 1, tr_price = Fin 1,
       tr_notional = 100, tr_costs_paise = 0, tr_product = CNC, tr_costs = bt_zero, tr_at = [], tr_tag = ''t''\<rparr>]\<rparr>"

lemma saved_book_is_restored_witness:
  "\<exists>s' t'. disconnect (default_paper_config\<lparr>pc_stored := True\<rparr>) store_feed kept_book = (Inr (), s') \<and>
     connect (default_paper_config\<lparr>pc_stored := True\<rparr>) store_feed (paper_book 5 (pb_env s')) = (Inr (), t') \<and>
     pb_cash t' = 400 \<and> pb_positions t' = pb_positions kept_book \<and> pb_trades t' = pb_trades kept_book \<and>
     pb_orders t' = [(''a'', saved_order ''a''), (''b'', saved_order ''b'')]"
proof -
  have "book_check kept_book = Inr ()" by code_simp
  moreover have "text_codec store_feed" by (simp add: text_codec_def store_feed_def)
  moreover have "sort_key fst (pb_orders kept_book) = [(''a'', saved_order ''a''), (''b'', saved_order ''b'')]"
    "sort_key fst (pb_positions kept_book) = pb_positions kept_book" "pb_cash kept_book = 400"
    by (simp_all add: kept_book_def)
  moreover have "(paper_book 5 None)\<lparr>pb_env := e\<rparr> = paper_book 5 e" for e :: "string option"
    by (simp add: paper_book_def)
  ultimately show ?thesis
    using saved_book_is_restored [of "default_paper_config\<lparr>pc_stored := True\<rparr>" kept_book store_feed
        "Some (serialise store_feed kept_book)" "Some (serialise store_feed kept_book)" "paper_book 5 None"]
    by (auto simp: store_feed_def kept_book_def default_paper_config_def)
qed

section \<open>A sale worth less than its charges\<close>

text \<open>A broker without cash holds one share bought at Rs 1. The depository charge of the sale is
  larger than its proceeds: the fill books a negative cash balance before the invariant check raises.\<close>

definition broke :: "unit book" where
  "broke = (paper_book 100 ())\<lparr>pb_cash := 0, pb_positions := [(''NSE:INFY:CNC'', \<lparr>pp_symbol = ''INFY'',
     pp_exchange = ''NSE'', pp_product = CNC, pp_quantity = 1, pp_average = Fin 1, pp_basis = 100, pp_last = Fin 1,
     pp_realised = Fin 0, pp_unrealised = Fin 0, pp_pnl = Fin 0\<rparr>)], pb_trades := [\<lparr>tr_order_id = ''o0'', tr_symbol = ''INFY'',
     tr_exchange = ''NSE'', tr_txn = BUY, tr_qty = 1, tr_price = Fin 1, tr_notional = 100, tr_costs_paise = 0, tr_product = CNC,
     tr_costs = bt_zero, tr_at = [], tr_tag = ''t''\<rparr>]\<rparr>"

definition sale :: place_request where "sale = demo_request SELL 1 MARKET (Fin 0) CNC"

lemma thin_make: "make_snapshot default_paper_config ''INFY'' ''NSE'' (demo_quote (Fin 1) 1000000) (Fin 1) None = Inr thin_snapshot"
  by code_simp

lemma thin_total: "bc_total (bt_breakdown CONFIG SELL CNC (fint 1 * fl (9/10))) = Fin (8968299412959579 / 562949953421312)"
  unfolding bt_breakdown_def Let_def bt_cost.select_convs CONFIG_def cost_config.select_convs by code_simp

lemma thin_static: "static_reject default_paper_config sale (ist_of demo_instant) broke = None"
  by code_simp
lemma thin_costs: "costs_paise default_paper_config 1 (fl (9/10)) SELL CNC =
    Inr (1593, bt_breakdown CONFIG SELL CNC (fint 1 * fl (9/10)))"
  using thin_value thin_total thin_paise(1)
  by (simp add: costs_paise_def bt_costs_def upper_sell upper_cnc txn_of_def bt_product_of_def default_paper_config_def Let_def)

lemma thin_plan:
  assumes "po_txn ord = SELL" "po_type ord = MARKET" "po_qty ord = 1" "po_filled ord = 0"
  shows "plan_fill default_paper_config ord thin_snapshot = Inr (1, fl (9/10), None)"
  using assms thin_capacity thin_price
  by (simp add: plan_fill_def plan_market_def liquidity_known_def thin_snapshot_def Let_def)

lemma thin_basis: "int_truediv 100 1 = Inr (Fin 100)" "round_int (Fin 100) = Inr 100"
  by code_simp+

lemma thin_held: "held_qty (position_key ''INFY'' ''NSE'' CNC) broke = 1"
  by code_simp

lemma thin_key: "position_key ''INFY'' ''NSE'' CNC = ''NSE:INFY:CNC''"
  by code_simp

lemma unit_env: "s\<lparr>pb_env := ()\<rparr> = s"
  by (cases s) simp

lemma thin_clock: "now_ist (demo_feed p v) s = (Inr demo_instant, s)"
  by (simp add: now_ist_def ensure_aware_def demo_feed_def ef_defs)

lemma thin_snap: "snapshot default_paper_config (demo_feed (Fin 1) 1000000) ''INFY'' ''NSE'' s =
    (Inr thin_snapshot, set_age ''INFY'' None s)"
  using thin_make
  by (simp add: snapshot_def record_quote_age_def quote_age_def demo_feed_def demo_quote_def empty_quote_def
      Let_def ef_defs on_feed_def unit_env)

lemma sale_fields: "pl_symbol sale = ''INFY''" "pl_exchange sale = ''NSE''" "pl_txn sale = SELL" "pl_qty sale = 1"
  "pl_product sale = CNC" "pl_order_type sale = MARKET"
  by (simp_all add: sale_def demo_request_def)

lemma thin_fresh: "\<not> stale_snapshot default_paper_config thin_snapshot" "liquidity_known thin_snapshot"
  by (simp_all add: stale_snapshot_def thin_snapshot_def default_paper_config_def liquidity_known_def)

definition sale_order :: paper_order where "sale_order = new_order ''o1'' sale demo_instant"

lemma sale_order_fields: "po_txn sale_order = SELL" "po_type sale_order = MARKET" "po_qty sale_order = 1"
  "po_filled sale_order = 0" "po_product sale_order = CNC" "po_symbol sale_order = ''INFY''"
  "po_exchange sale_order = ''NSE''" "po_reserved_cash sale_order = 0"
  by (simp_all add: sale_order_def new_order_def sale_fields)

definition offered :: "unit book" where
  "offered = set_order ''o1'' (sale_order\<lparr>po_reserved_qty := 1\<rparr>) (set_age ''INFY'' None broke)"

lemma sale_placed: "place_order default_paper_config (demo_feed (Fin 1) 1000000) ''o1'' sale broke =
    execute_new default_paper_config (demo_feed (Fin 1) 1000000) ''o1'' thin_snapshot offered"
  by (simp add: place_order_def ef_defs thin_clock thin_static thin_snap sale_fields thin_fresh reserve_order_def
      offered_def sale_order_def Let_def)

lemma offered_order: "map_of (pb_orders offered) ''o1'' = Some (sale_order\<lparr>po_reserved_qty := 1\<rparr>)"
  by (simp add: offered_def set_order_def map_of_update_iff)

lemma offered_fields: "pb_positions offered = pb_positions broke" "pb_cash offered = 0" "pb_trades offered = pb_trades broke"
  "pb_reserved offered = 0" "pb_initial offered = 100"
  by (simp_all add: offered_def set_order_def set_age_def broke_def paper_book_def)

lemma sale_executed: "execute_against default_paper_config fd ''o1'' thin_snapshot offered =
   (case apply_paper_fill default_paper_config fd ''o1'' 1 (fl (9/10)) thin_snapshot offered of
      (Inl e, s) \<Rightarrow> (Inl e, s) | (Inr _, s) \<Rightarrow> (Inr None, s))"
  using thin_held
  by (simp add: execute_against_def with_order_def ef_defs offered_order thin_plan sale_order_fields order_key_def
      held_qty_def offered_fields Let_def split: prod.split sum.split)

lemma broke_position: "map_of (pb_positions broke) ''NSE:INFY:CNC'' = Some \<lparr>pp_symbol = ''INFY'',
     pp_exchange = ''NSE'', pp_product = CNC, pp_quantity = 1, pp_average = Fin 1, pp_basis = 100, pp_last = Fin 1,
     pp_realised = Fin 0, pp_unrealised = Fin 0, pp_pnl = Fin 0\<rparr>"
  by (simp add: broke_def)

lemma sale_sold: "\<exists>s. fill_sell ''o1'' ''NSE:INFY:CNC'' 1 (- 1503) lp offered = (Inr (), s) \<and>
   pb_cash s = -1503 \<and> pb_reserved s = 0 \<and> map_of (pb_orders s) ''o1'' = Some sale_order \<and> pb_env s = ()"
  using thin_basis
  by (simp add: fill_sell_def ef_defs broke_position with_order_def offered_order set_order_def map_of_update_iff
    offered_fields sale_order_def new_order_def sale_fields)

lemma sale_recorded:
  assumes "map_of (pb_orders s) ''o1'' = Some sale_order" "pb_cash s = -1503"
  shows "\<exists>s' ord. record_fill (demo_feed p v) ''o1'' o1 1 pr n c b s = (Inr (), s') \<and> pb_cash s' = -1503 \<and>
    map_of (pb_orders s') ''o1'' = Some ord \<and> po_filled ord = 1 \<and> po_qty ord = 1"
  using assms by (simp add: record_fill_def ef_defs thin_clock with_order_def set_order_def map_of_update_iff
     book_order_fill_def sale_order_fields Let_def)

lemma sale_filled:
  "\<exists>s ord. apply_paper_fill default_paper_config (demo_feed p v) ''o1'' 1 (fl (9/10)) thin_snapshot offered = (Inr (), s) \<and>
     pb_cash s = -1503 \<and> map_of (pb_orders s) ''o1'' = Some ord \<and> po_filled ord = 1 \<and> po_qty ord = 1"
proof -
  obtain s where s: "fill_sell ''o1'' ''NSE:INFY:CNC'' 1 (- 1503) (Fin 1) offered = (Inr (), s)" "pb_cash s = -1503"
     "map_of (pb_orders s) ''o1'' = Some sale_order"
    using sale_sold [of "Fin 1"] by blast
  show ?thesis
    using sale_recorded [OF s(3,2)]
    by (simp add: apply_paper_fill_def with_order_def ef_defs offered_order thin_paise thin_costs move_cash_def
      sale_order_fields order_key_def thin_key s(1) thin_snapshot_def)
qed

lemma penny_sale_breaks_the_book:
  "\<exists>s. place_order default_paper_config (demo_feed (Fin 1) 1000000) ''o1'' sale broke =
     (Inl (AccountingInvariantError ''cash went negative''), s) \<and> pb_cash s = -1503"
proof -
  obtain s ord where f: "apply_paper_fill default_paper_config (demo_feed (Fin 1) 1000000) ''o1'' 1 (fl (9/10)) thin_snapshot offered = (Inr (), s)"
    "pb_cash s = -1503" "map_of (pb_orders s) ''o1'' = Some ord" "po_filled ord = 1" "po_qty ord = 1"
    using sale_filled by blast
  then show ?thesis
    by (simp add: sale_placed execute_new_def ef_defs sale_executed with_order_def finalise_def set_status_def
        release_order_def set_order_def map_of_update_iff assert_invariants_def book_check_def)
qed

end
