(* ===== verification/Risk_Limits.thy ===== *)
theory Risk_Limits
  imports Py_Float "HOL-Library.Multiset"
begin

text \<open>
  \<open>app/risk/limits.py\<close>: the loss sign convention, the mutable risk state and
  \<open>check_all_limits\<close>, which evaluates the twelve declared limits. Dictionaries are association
  lists in insertion order; the messages of the breaches are not modelled.
\<close>

section \<open>Severities, ordered from the worst\<close>

datatype severity = BREACH | CRITICAL | WARNING | INFO

fun sev_order :: "severity \<Rightarrow> nat" where
  "sev_order BREACH = 0"
| "sev_order CRITICAL = 1"
| "sev_order WARNING = 2"
| "sev_order INFO = 3"

lemma sev_order_inj: "sev_order a = sev_order b \<Longrightarrow> a = b"
  by (cases a; cases b) auto

instantiation severity :: linorder
begin

definition less_eq_severity :: "severity \<Rightarrow> severity \<Rightarrow> bool" where
  "less_eq_severity a b \<longleftrightarrow> sev_order a \<le> sev_order b"

definition less_severity :: "severity \<Rightarrow> severity \<Rightarrow> bool" where
  "less_severity a b \<longleftrightarrow> sev_order a < sev_order b"

instance
  by standard (auto simp: less_eq_severity_def less_severity_def intro: sev_order_inj)

end

section \<open>Limits and state\<close>

text \<open>\<open>abs(min(0.0, float(pnl)))\<close>.\<close>

definition normalize_loss :: "pyfloat \<Rightarrow> pyfloat" where
  "normalize_loss pnl = \<bar>fmin (Fin 0) pnl\<bar>"

record limit_breached =
  lb_name :: string
  lb_current :: pyfloat
  lb_limit :: pyfloat
  lb_severity :: severity

definition breach_pct :: "limit_breached \<Rightarrow> pyfloat" where
  "breach_pct b = (if lb_limit b = Fin 0 then Fin 0 else fquot (lb_current b) (lb_limit b) * Fin 100)"

record risk_limits =
  rl_max_daily_loss :: pyfloat
  rl_max_weekly_loss :: pyfloat
  rl_max_monthly_loss :: pyfloat
  rl_max_drawdown_pct :: pyfloat
  rl_soft_drawdown_pct :: pyfloat
  rl_max_open_positions :: int
  rl_max_single_stock_pct :: pyfloat
  rl_max_sector_pct :: pyfloat
  rl_max_risk_per_trade_pct :: pyfloat
  rl_max_daily_risk :: pyfloat
  rl_max_leverage :: pyfloat
  rl_max_intraday_capital_pct :: pyfloat

definition default_limits :: risk_limits where
  "default_limits = \<lparr>rl_max_daily_loss = Fin 10000, rl_max_weekly_loss = Fin 25000,
     rl_max_monthly_loss = Fin 75000, rl_max_drawdown_pct = fl (1 / 10), rl_soft_drawdown_pct = fl (7 / 100),
     rl_max_open_positions = 20, rl_max_single_stock_pct = fl (1 / 10), rl_max_sector_pct = fl (3 / 10),
     rl_max_risk_per_trade_pct = fl (1 / 100), rl_max_daily_risk = Fin 50000, rl_max_leverage = Fin 2,
     rl_max_intraday_capital_pct = fl (1 / 10)\<rparr>"

record risk_state =
  rs_daily_loss :: pyfloat
  rs_weekly_loss :: pyfloat
  rs_monthly_loss :: pyfloat
  rs_current_drawdown :: pyfloat
  rs_positions_count :: int
  rs_peak_value :: pyfloat
  rs_current_value :: pyfloat
  rs_daily_risk_used :: pyfloat
  rs_intraday_capital_used :: pyfloat
  rs_total_capital :: pyfloat
  rs_position_values :: "(string \<times> pyfloat) list"
  rs_sector_values :: "(string \<times> pyfloat) list"
  rs_trade_risks :: "(string \<times> pyfloat) list"
  rs_gross_exposure :: pyfloat

definition validate :: "risk_state \<Rightarrow> unit res" where
  "validate st = (if list_ex (\<lambda>x. x < Fin 0) [rs_daily_loss st, rs_weekly_loss st, rs_monthly_loss st]
     then Inl (ValueError ''must be a non-negative loss magnitude'') else Inr ())"

text \<open>\<open>RiskState.from_pnl\<close> over the other fields of \<open>st\<close>, the constructor's check included.\<close>

definition from_pnl :: "pyfloat \<Rightarrow> pyfloat \<Rightarrow> pyfloat \<Rightarrow> risk_state \<Rightarrow> risk_state res" where
  "from_pnl daily weekly monthly st =
     (let st' = st\<lparr>rs_daily_loss := normalize_loss daily, rs_weekly_loss := normalize_loss weekly,
            rs_monthly_loss := normalize_loss monthly\<rparr>
      in res_bind (validate st') (\<lambda>_. Inr st'))"

definition equity_base :: "risk_state \<Rightarrow> pyfloat" where
  "equity_base st = (if Fin 0 < rs_current_value st then rs_current_value st
     else if Fin 0 < rs_total_capital st then rs_total_capital st else Fin 0)"

definition update_drawdown :: "risk_state \<Rightarrow> risk_state" where
  "update_drawdown st =
     (let st1 = (if Fin 0 < rs_peak_value st then st\<lparr>rs_current_drawdown :=
            fmax (Fin 0) (fquot (rs_peak_value st - rs_current_value st) (rs_peak_value st))\<rparr> else st)
      in if rs_peak_value st1 < rs_current_value st1
         then st1\<lparr>rs_peak_value := rs_current_value st1\<rparr> else st1)"

section \<open>The checks\<close>

definition hit :: "bool \<Rightarrow> string \<Rightarrow> pyfloat \<Rightarrow> pyfloat \<Rightarrow> severity \<Rightarrow> limit_breached list" where
  "hit b name cur lms sev = (if b then [\<lparr>lb_name = name, lb_current = cur, lb_limit = lms, lb_severity = sev\<rparr>] else [])"

text \<open>Checks 1 to 7, in the order of the code.\<close>

definition state_checks :: "risk_state \<Rightarrow> risk_limits \<Rightarrow> limit_breached list" where
  "state_checks st lms =
     (if rl_max_daily_loss lms \<le> rs_daily_loss st
      then hit True ''daily_loss'' (rs_daily_loss st) (rl_max_daily_loss lms) BREACH
      else hit (rl_max_daily_loss lms * fl (8 / 10) \<le> rs_daily_loss st)
             ''daily_loss'' (rs_daily_loss st) (rl_max_daily_loss lms) WARNING) @
     hit (rl_max_weekly_loss lms \<le> rs_weekly_loss st)
       ''weekly_loss'' (rs_weekly_loss st) (rl_max_weekly_loss lms) BREACH @
     hit (rl_max_monthly_loss lms \<le> rs_monthly_loss st)
       ''monthly_loss'' (rs_monthly_loss st) (rl_max_monthly_loss lms) BREACH @
     (if rl_max_drawdown_pct lms \<le> rs_current_drawdown st
      then hit True ''drawdown'' (rs_current_drawdown st) (rl_max_drawdown_pct lms) CRITICAL
      else hit (rl_soft_drawdown_pct lms \<le> rs_current_drawdown st)
             ''drawdown_soft'' (rs_current_drawdown st) (rl_soft_drawdown_pct lms) WARNING) @
     hit (rl_max_open_positions lms \<le> rs_positions_count st)
       ''positions_count'' (fint (rs_positions_count st)) (fint (rl_max_open_positions lms)) WARNING @
     hit (rl_max_daily_risk lms \<le> rs_daily_risk_used st)
       ''daily_risk'' (rs_daily_risk_used st) (rl_max_daily_risk lms) BREACH @
     (if Fin 0 < rs_total_capital st
      then let pct = fquot (rs_intraday_capital_used st) (rs_total_capital st)
           in hit (rl_max_intraday_capital_pct lms \<le> pct) ''intraday_capital'' pct
                (rl_max_intraday_capital_pct lms) WARNING
      else [])"

text \<open>Checks 8 to 11, against the equity base.\<close>

definition exposure_checks :: "risk_state \<Rightarrow> risk_limits \<Rightarrow> pyfloat \<Rightarrow> limit_breached list" where
  "exposure_checks st lms equity =
     concat (map (\<lambda>(name, v). let pct = fquot \<bar>v\<bar> equity in
         hit (rl_max_single_stock_pct lms \<le> pct) ''single_stock_concentration'' pct
           (rl_max_single_stock_pct lms) BREACH) (rs_position_values st)) @
     concat (map (\<lambda>(name, v). let pct = fquot \<bar>v\<bar> equity in
         hit (rl_max_sector_pct lms \<le> pct) ''sector_concentration'' pct (rl_max_sector_pct lms) BREACH)
       (rs_sector_values st)) @
     (let max_risk = rl_max_risk_per_trade_pct lms * equity in
      concat (map (\<lambda>(name, v). hit (max_risk \<le> \<bar>v\<bar>) ''trade_risk'' \<bar>v\<bar> max_risk BREACH) (rs_trade_risks st))) @
     (if ftruthy (rs_gross_exposure st)
      then let leverage = fquot \<bar>rs_gross_exposure st\<bar> equity
           in hit (rl_max_leverage lms \<le> leverage) ''leverage'' leverage (rl_max_leverage lms) CRITICAL
      else [])"

definition needs_equity :: "risk_state \<Rightarrow> bool" where
  "needs_equity st \<longleftrightarrow> rs_position_values st \<noteq> [] \<or> rs_sector_values st \<noteq> [] \<or> rs_trade_risks st \<noteq> [] \<or>
     ftruthy (rs_gross_exposure st)"

definition check_all_limits :: "risk_state \<Rightarrow> risk_limits \<Rightarrow> limit_breached list res" where
  "check_all_limits st lms = res_bind (validate st) (\<lambda>_.
     let equity = equity_base st in
     if needs_equity st \<and> equity \<le> Fin 0
     then Inl (ValueError ''Exposure detail was supplied but no equity base'')
     else Inr (sort_key lb_severity (state_checks st lms @ exposure_checks st lms equity)))"

section \<open>Properties\<close>

lemma hit_empty [simp]: "hit b name cur lms sev = [] \<longleftrightarrow> \<not> b"
  by (simp add: hit_def)

lemma sort_key_empty [simp]: "sort_key f xs = [] \<longleftrightarrow> xs = []"
  by (metis length_0_conv length_sort)

text \<open>An empty report means that every declared limit holds: no loss, drawdown, position
  count, daily risk or intraday share has reached its limit, not even the warning levels, and no
  position, sector, trade or leverage has reached its share of the equity.\<close>

theorem empty_report_means_within_limits:
  assumes "check_all_limits st lms = Inr []"
  shows "\<not> rl_max_daily_loss lms \<le> rs_daily_loss st \<and>
    \<not> rl_max_daily_loss lms * fl (8 / 10) \<le> rs_daily_loss st \<and>
    \<not> rl_max_weekly_loss lms \<le> rs_weekly_loss st \<and> \<not> rl_max_monthly_loss lms \<le> rs_monthly_loss st \<and>
    \<not> rl_max_drawdown_pct lms \<le> rs_current_drawdown st \<and>
    \<not> rl_soft_drawdown_pct lms \<le> rs_current_drawdown st \<and>
    rs_positions_count st < rl_max_open_positions lms \<and>
    \<not> rl_max_daily_risk lms \<le> rs_daily_risk_used st \<and>
    \<not> (Fin 0 < rs_total_capital st \<and>
       rl_max_intraday_capital_pct lms \<le> fquot (rs_intraday_capital_used st) (rs_total_capital st)) \<and>
    list_all (\<lambda>(name, v). \<not> rl_max_single_stock_pct lms \<le> fquot \<bar>v\<bar> (equity_base st)) (rs_position_values st) \<and>
    list_all (\<lambda>(name, v). \<not> rl_max_sector_pct lms \<le> fquot \<bar>v\<bar> (equity_base st)) (rs_sector_values st) \<and>
    list_all (\<lambda>(name, v). \<not> rl_max_risk_per_trade_pct lms * equity_base st \<le> \<bar>v\<bar>) (rs_trade_risks st) \<and>
    \<not> (ftruthy (rs_gross_exposure st) \<and> rl_max_leverage lms \<le> fquot \<bar>rs_gross_exposure st\<bar> (equity_base st))"
proof -
  from assms have s: "state_checks st lms = []" and e: "exposure_checks st lms (equity_base st) = []"
    by (auto simp: check_all_limits_def Let_def split: if_splits)
  from e have "list_all (\<lambda>(name, v). \<not> rl_max_single_stock_pct lms \<le> fquot \<bar>v\<bar> (equity_base st)) (rs_position_values st)"
    "list_all (\<lambda>(name, v). \<not> rl_max_sector_pct lms \<le> fquot \<bar>v\<bar> (equity_base st)) (rs_sector_values st)"
    "list_all (\<lambda>(name, v). \<not> rl_max_risk_per_trade_pct lms * equity_base st \<le> \<bar>v\<bar>) (rs_trade_risks st)"
    by (auto simp: exposure_checks_def Let_def list_all_iff)
  moreover from e have "\<not> (ftruthy (rs_gross_exposure st) \<and>
      rl_max_leverage lms \<le> fquot \<bar>rs_gross_exposure st\<bar> (equity_base st))"
    by (simp add: exposure_checks_def Let_def split: if_splits)
  ultimately show ?thesis
    using s by (simp add: state_checks_def Let_def split: if_splits)
qed

definition calm_state :: risk_state where
  "calm_state = \<lparr>rs_daily_loss = Fin 100, rs_weekly_loss = Fin 100, rs_monthly_loss = Fin 100,
     rs_current_drawdown = Fin 0, rs_positions_count = 1, rs_peak_value = Fin 500000,
     rs_current_value = Fin 500000, rs_daily_risk_used = Fin 300, rs_intraday_capital_used = Fin 0,
     rs_total_capital = Fin 500000, rs_position_values = [(''INFY'', Fin 15000)],
     rs_sector_values = [(''IT'', Fin 15000)], rs_trade_risks = [(''t1'', Fin 300)],
     rs_gross_exposure = Fin 15000\<rparr>"

lemma calm_report: "check_all_limits calm_state default_limits = Inr []"
proof -
  have "state_checks calm_state default_limits = []" by code_simp
  moreover have "exposure_checks calm_state default_limits (equity_base calm_state) = []" by code_simp
  moreover have "validate calm_state = Inr ()" "\<not> equity_base calm_state \<le> Fin 0" by code_simp+
  ultimately show ?thesis by (simp add: check_all_limits_def)
qed

theorem empty_report_means_within_limits_witness:
  "\<not> rl_max_daily_loss default_limits \<le> rs_daily_loss calm_state"
  using empty_report_means_within_limits [OF calm_report] by (elim conjE)

text \<open>The report is the findings of all the checks, each once, sorted from the worst
  severity, and findings of equal severity stay in the order of the checks.\<close>

theorem report_is_sorted_and_complete:
  assumes "check_all_limits st lms = Inr bs"
  shows "sorted (map lb_severity bs) \<and>
    mset bs = mset (state_checks st lms @ exposure_checks st lms (equity_base st)) \<and>
    filter (\<lambda>b. lb_severity b = sev) bs =
      filter (\<lambda>b. lb_severity b = sev) (state_checks st lms @ exposure_checks st lms (equity_base st))"
  using assms by (auto simp: check_all_limits_def Let_def sort_key_stable split: if_splits)

definition losing_state :: risk_state where
  "losing_state = calm_state\<lparr>rs_current_drawdown := Fin (1 / 5), rs_daily_loss := Fin 10000\<rparr>"

theorem report_is_sorted_and_complete_witness:
  "\<exists>bs. check_all_limits losing_state default_limits = Inr bs \<and> sorted (map lb_severity bs) \<and> bs \<noteq> []"
proof -
  have v: "validate losing_state = Inr ()" "\<not> equity_base losing_state \<le> Fin 0"
    "state_checks losing_state default_limits \<noteq> []" by code_simp+
  then obtain bs where bs: "check_all_limits losing_state default_limits = Inr bs" "bs \<noteq> []"
    by (simp add: check_all_limits_def)
  with report_is_sorted_and_complete [OF bs(1)] show ?thesis by blast
qed

text \<open>A \<open>NaN\<close> profit figure disables the loss limits: the sign convention turns it into a
  loss of zero, and a \<open>NaN\<close> loss that reaches the state is neither refused by \<open>validate\<close> nor
  reported by the checks.\<close>

theorem nan_disables_loss_limits:
  "normalize_loss NaN = Fin 0 \<and>
   validate (st\<lparr>rs_daily_loss := NaN, rs_weekly_loss := NaN, rs_monthly_loss := NaN\<rparr>) = Inr () \<and>
   list_all (\<lambda>b. lb_name b \<noteq> ''daily_loss'' \<and> lb_name b \<noteq> ''weekly_loss'' \<and> lb_name b \<noteq> ''monthly_loss'')
     (state_checks (st\<lparr>rs_daily_loss := NaN, rs_weekly_loss := NaN, rs_monthly_loss := NaN\<rparr>) lms)"
  by (simp add: normalize_loss_def fmin_def validate_def state_checks_def hit_def Let_def)

text \<open>Signed profits and losses are normalised at the boundary: with finite figures
  \<open>from_pnl\<close> always succeeds, a loss becomes its magnitude and a profit becomes zero.\<close>

theorem from_pnl_normalises:
  "\<exists>st'. from_pnl (Fin d) (Fin w) (Fin m) st = Inr st' \<and> rs_daily_loss st' = Fin (max 0 (- d)) \<and>
     rs_weekly_loss st' = Fin (max 0 (- w)) \<and> rs_monthly_loss st' = Fin (max 0 (- m)) \<and>
     validate st' = Inr ()"
proof -
  have n: "normalize_loss (Fin x) = Fin (max 0 (- x))" for x
    by (auto simp: normalize_loss_def fmin_def max_def)
  show ?thesis by (simp add: from_pnl_def Let_def validate_def n)
qed

end
