(* ===== verification/Risk_Engine.thy ===== *)
theory Risk_Engine
  imports Py_Float
begin

text \<open>
  \<open>app/risk/engine.py\<close>: the trade approval the strategies call, fixed-fractional position
  sizing and the dynamic risk scale. The configured limits of \<open>app.core.config\<close> are arguments; the
  covariance and value-at-risk computations, which run on numpy and pandas, are not modelled.
\<close>

section \<open>Approval of one trade\<close>

record engine_settings =
  es_max_positions :: int
  es_max_single_stock_pct :: pyfloat
  es_max_intraday_capital_pct :: pyfloat

text \<open>A held position: symbol, quantity and average price as floats (a missing one is zero).\<close>

record held_position =
  hp_symbol :: string
  hp_quantity :: pyfloat
  hp_average_price :: pyfloat

record engine_ctx =
  cx_portfolio_value :: pyfloat
  cx_available_cash :: pyfloat
  cx_positions :: "held_position list"
  cx_max_positions :: int

definition set_portfolio_context ::
  "engine_settings \<Rightarrow> pyfloat option \<Rightarrow> pyfloat \<Rightarrow> held_position list \<Rightarrow> int option \<Rightarrow> engine_ctx res" where
  "set_portfolio_context es portfolio_value available_cash positions max_positions =
     (case portfolio_value of
        None \<Rightarrow> Inl (ValueError ''portfolio_value must be > 0'')
      | Some pv \<Rightarrow> if pv \<le> Fin 0 then Inl (ValueError ''portfolio_value must be > 0'')
          else Inr \<lparr>cx_portfolio_value = pv, cx_available_cash = available_cash, cx_positions = positions,
            cx_max_positions = (case max_positions of None \<Rightarrow> es_max_positions es | Some n \<Rightarrow> n)\<rparr>)"

definition held_value :: "held_position list \<Rightarrow> string \<Rightarrow> pyfloat" where
  "held_value ps symbol = foldl (\<lambda>acc p. acc + hp_quantity p * hp_average_price p) (Fin 0)
     (filter (\<lambda>p. py_upper (hp_symbol p) = py_upper symbol) ps)"

definition open_symbols :: "held_position list \<Rightarrow> string list" where
  "open_symbols ps = remdups (map (\<lambda>p. py_upper (hp_symbol p)) (filter (\<lambda>p. hp_quantity p \<noteq> Fin 0) ps))"

definition approve_trade ::
  "engine_settings \<Rightarrow> engine_ctx option \<Rightarrow> string \<Rightarrow> pyfloat \<Rightarrow> string \<Rightarrow> bool res" where
  "approve_trade es ctx symbol sz sleeve = (case ctx of
     None \<Rightarrow> Inl (RiskEngineError ''approve_trade called with no portfolio context'')
   | Some c \<Rightarrow>
       if \<not> ftruthy sz \<or> sz \<le> Fin 0 then Inr False
       else if cx_available_cash c < sz then Inr False
       else if cx_portfolio_value c * es_max_single_stock_pct es < held_value (cx_positions c) symbol + sz
       then Inr False
       else if py_lower sleeve = ''intraday'' \<and> cx_portfolio_value c * es_max_intraday_capital_pct es < sz
       then Inr False
       else if py_upper symbol \<notin> set (open_symbols (cx_positions c)) \<and>
               cx_max_positions c \<le> int (length (open_symbols (cx_positions c)))
       then Inr False
       else Inr True)"

section \<open>Position sizing and scaling\<close>

definition scale_position_for_risk ::
  "pyfloat \<Rightarrow> pyfloat \<Rightarrow> pyfloat \<Rightarrow> pyfloat \<Rightarrow> pyfloat \<Rightarrow> int option \<Rightarrow> pyfloat \<Rightarrow> pyfloat" where
  "scale_position_for_risk signal_price stop_price capital max_risk max_stock adv_shares adv_cap =
     (if \<not> isfinite signal_price \<or> \<not> isfinite stop_price \<or> \<not> isfinite capital then Fin 0
      else if signal_price \<le> Fin 0 \<or> stop_price \<le> Fin 0 then Fin 0
      else let distance = fquot \<bar>signal_price - stop_price\<bar> signal_price in
        if distance < fl (1 / 1000000) then Fin 0
        else
          let sz1 = fmin (fquot (capital * max_risk) distance) (capital * max_stock);
              sz2 = (case adv_shares of None \<Rightarrow> sz1
                     | Some n \<Rightarrow> if 0 < n then fmin sz1 (fint n * adv_cap * signal_price) else sz1)
          in fround 2 sz2)"

definition dynamic_risk_scaling :: "string \<Rightarrow> string \<Rightarrow> pyfloat \<Rightarrow> pyfloat" where
  "dynamic_risk_scaling status regime drawdown =
     (if status = ''PAUSED'' \<or> status = ''STOPPED'' then Fin 0
      else
        let f1 = (if status = ''REDUCED'' then fmin (Fin 1) (Fin (1 / 2)) else Fin 1);
            f2 = (if fl (15 / 100) \<le> drawdown then fmin f1 (Fin (1 / 4))
                  else if fl (1 / 10) \<le> drawdown then fmin f1 (Fin (1 / 2)) else f1)
        in if regime = ''STRONG_BEAR'' \<or> regime = ''PANIC'' then fmin f2 (Fin (1 / 2)) else f2)"

section \<open>Properties\<close>

text \<open>What an approval guarantees, for amounts that are numbers: the size is positive and fits
  the cash, the exposure already held plus the new one stays within the single-stock cap, an
  intraday trade stays within the intraday cap, and a new symbol finds a free position.\<close>

theorem approved_trade_is_within_limits:
  assumes "approve_trade es (Some c) symbol sz sleeve = Inr True"
    and "sz \<noteq> NaN" and "cx_available_cash c \<noteq> NaN"
    and "held_value (cx_positions c) symbol + sz \<noteq> NaN"
    and "cx_portfolio_value c * es_max_single_stock_pct es \<noteq> NaN"
    and "cx_portfolio_value c * es_max_intraday_capital_pct es \<noteq> NaN"
  shows "Fin 0 < sz \<and> sz \<le> cx_available_cash c \<and>
    held_value (cx_positions c) symbol + sz \<le> cx_portfolio_value c * es_max_single_stock_pct es \<and>
    (py_lower sleeve \<noteq> ''intraday'' \<or> sz \<le> cx_portfolio_value c * es_max_intraday_capital_pct es) \<and>
    (py_upper symbol \<in> set (open_symbols (cx_positions c)) \<or>
     int (length (open_symbols (cx_positions c))) < cx_max_positions c)"
proof -
  have "Fin 0 < sz" using assms(1,2) by (cases sz) (auto simp: approve_trade_def split: if_splits)
  then show ?thesis
    using assms by (auto simp: approve_trade_def fnot_less split: if_splits)
qed

definition demo_settings :: engine_settings where
  "demo_settings = \<lparr>es_max_positions = 20, es_max_single_stock_pct = fl (1 / 10),
     es_max_intraday_capital_pct = fl (1 / 10)\<rparr>"

definition demo_ctx :: engine_ctx where
  "demo_ctx = \<lparr>cx_portfolio_value = Fin 500000, cx_available_cash = Fin 100000,
     cx_positions = [\<lparr>hp_symbol = ''infy'', hp_quantity = Fin 10, hp_average_price = Fin 1500\<rparr>],
     cx_max_positions = 20\<rparr>"

theorem approved_trade_is_within_limits_witness:
  "held_value (cx_positions demo_ctx) ''INFY'' + Fin 20000 \<le>
     cx_portfolio_value demo_ctx * es_max_single_stock_pct demo_settings"
proof -
  have a: "approve_trade demo_settings (Some demo_ctx) ''INFY'' (Fin 20000) ''swing'' = Inr True" by code_simp
  have n: "Fin 20000 \<noteq> NaN" "cx_available_cash demo_ctx \<noteq> NaN"
    "held_value (cx_positions demo_ctx) ''INFY'' + Fin 20000 \<noteq> NaN"
    "cx_portfolio_value demo_ctx * es_max_single_stock_pct demo_settings \<noteq> NaN"
    "cx_portfolio_value demo_ctx * es_max_intraday_capital_pct demo_settings \<noteq> NaN" by code_simp+
  from approved_trade_is_within_limits [OF a n] show ?thesis by (elim conjE)
qed

text \<open>The approval does not fail closed on \<open>NaN\<close>: with any context that has a free position
  for the symbol, a size of \<open>NaN\<close> is approved, and a \<open>NaN\<close> portfolio value is accepted as context
  and then disables the concentration and intraday caps.\<close>

theorem approval_fails_open_on_nan:
  "approve_trade es (Some \<lparr>cx_portfolio_value = pv, cx_available_cash = cash, cx_positions = [],
      cx_max_positions = 1\<rparr>) symbol NaN sleeve = Inr True \<and>
   set_portfolio_context es (Some NaN) (Fin 100000) [] (Some 1) =
     Inr \<lparr>cx_portfolio_value = NaN, cx_available_cash = Fin 100000, cx_positions = [], cx_max_positions = 1\<rparr> \<and>
   approve_trade es (Some \<lparr>cx_portfolio_value = NaN, cx_available_cash = Fin 100000, cx_positions = [],
      cx_max_positions = 1\<rparr>) symbol (Fin 100000) sleeve = Inr True"
proof -
  have n: "x + NaN = NaN" "NaN * x = NaN" for x :: pyfloat by (cases x; simp)+
  show ?thesis
    by (simp add: approve_trade_def set_portfolio_context_def ftruthy_def open_symbols_def n)
qed

lemma fquot_nonneg: "Fin 0 \<le> x \<Longrightarrow> 0 < y \<Longrightarrow> Fin 0 \<le> fquot x (Fin y)"
  by (cases x) (auto simp: fquot_def fl_nonneg)

text \<open>With a finite stop distance, a sized position is never negative and never above the
  single-stock share of the capital (to the paisa), nor, for a known daily volume, above the
  liquidity share.\<close>

theorem sized_position_is_capped:
  assumes "isfinite capital" and "Fin 0 \<le> capital" and "isfinite max_risk" and "Fin 0 \<le> max_risk"
    and "isfinite max_stock" and "Fin 0 \<le> max_stock" and "isfinite (fquot \<bar>px - stop\<bar> px)"
    and "0 < shares" and "Fin 0 \<le> fint shares * adv_cap * px"
  shows "Fin 0 \<le> scale_position_for_risk px stop capital max_risk max_stock (Some shares) adv_cap \<and>
    scale_position_for_risk px stop capital max_risk max_stock (Some shares) adv_cap \<le> fround 2 (capital * max_stock) \<and>
    scale_position_for_risk px stop capital max_risk max_stock (Some shares) adv_cap
      \<le> fround 2 (fint shares * adv_cap * px)"
proof -
  define cap where "cap = capital * max_stock"
  define liq where "liq = fint shares * adv_cap * px"
  define d where "d = fquot \<bar>px - stop\<bar> px"
  define sz where "sz = fmin (fmin (fquot (capital * max_risk) d) cap) liq"
  have c: "Fin 0 \<le> cap" "Fin 0 \<le> capital * max_risk" "Fin 0 \<le> liq"
    using assms by (simp_all add: ftimes_nonneg cap_def liq_def)
  have z: "Fin 0 \<le> fround 2 cap" "Fin 0 \<le> fround 2 liq" using c by (simp_all add: fround_nonneg)
  show ?thesis
  proof (cases "scale_position_for_risk px stop capital max_risk max_stock (Some shares) adv_cap = Fin 0")
    case True
    then show ?thesis using z by (simp add: cap_def liq_def)
  next
    case False
    then have v: "scale_position_for_risk px stop capital max_risk max_stock (Some shares) adv_cap = fround 2 sz"
      and nd: "\<not> d < fl (1 / 1000000)"
      using assms(8) by (auto simp: scale_position_for_risk_def Let_def sz_def cap_def liq_def d_def split: if_splits)
    obtain y where y: "d = Fin y" using assms(7) by (auto simp: isfinite_iff d_def)
    have "Fin 0 < fl (1 / 1000000)" by code_simp
    moreover have "fl (1 / 1000000) \<le> d" using nd y by (simp add: fnot_less)
    ultimately have "Fin 0 < d" by (rule fless_le_trans)
    then have q: "Fin 0 \<le> fquot (capital * max_risk) d" using c(2) y by (simp add: fquot_nonneg)
    have nn: "x \<noteq> NaN" if "Fin 0 \<le> x" for x using that by auto
    have "Fin 0 \<le> sz" "sz \<le> cap" "sz \<le> liq"
      using q c nn [OF q] nn [OF c(1)] nn [OF c(3)]
      by (auto simp: sz_def fmin_def fnot_less intro: fle_trans fless_imp_le)
    then show ?thesis
      unfolding v cap_def [symmetric] liq_def [symmetric] by (simp add: fround_nonneg fround_mono)
  qed
qed

theorem sized_position_is_capped_witness:
  "scale_position_for_risk (Fin 100) (Fin 95) (Fin 500000) (fl (1/100)) (fl (1/10)) (Some 1000) (fl (1/20))
     \<le> fround 2 (fint 1000 * fl (1/20) * Fin 100)"
proof -
  have h: "isfinite (Fin 500000)" "Fin 0 \<le> Fin 500000" "isfinite (fl (1/100))" "Fin 0 \<le> fl (1/100)"
    "isfinite (fl (1/10))" "Fin 0 \<le> fl (1/10)" "isfinite (fquot \<bar>Fin 100 - Fin 95\<bar> (Fin 100))"
    "(0::int) < 1000" "Fin 0 \<le> fint 1000 * fl (1/20) * Fin 100" by code_simp+
  from sized_position_is_capped [OF h] show ?thesis by (elim conjE)
qed

text \<open>The dynamic scale is one of 0, 1/4, 1/2 and 1, is 0 for a paused or stopped strategy,
  never grows when the drawdown does, and never grows when the regime turns to a bear one.\<close>

theorem scaling_is_monotone:
  assumes "d1 \<le> d2"
  shows "dynamic_risk_scaling status regime d1 \<in> {Fin 0, Fin (1/4), Fin (1/2), Fin 1} \<and>
    dynamic_risk_scaling status regime d2 \<le> dynamic_risk_scaling status regime d1 \<and>
    dynamic_risk_scaling status ''PANIC'' d1 \<le> dynamic_risk_scaling status regime d1 \<and>
    dynamic_risk_scaling ''PAUSED'' regime d1 = Fin 0"
proof -
  have m: "c \<le> d1 \<Longrightarrow> c \<le> d2" for c using assms by (rule fle_trans [rotated])
  show ?thesis
    using m [of "fl (15/100)"] m [of "fl (1/10)"]
    by (simp add: dynamic_risk_scaling_def Let_def fmin_def)
qed

theorem scaling_is_monotone_witness:
  "dynamic_risk_scaling ''ACTIVE'' ''BULL'' (Fin (1/5)) \<le> dynamic_risk_scaling ''ACTIVE'' ''BULL'' (Fin 0)"
  using scaling_is_monotone [of "Fin 0" "Fin (1/5)" "''ACTIVE''" "''BULL''"] by simp

end
