(* ===== verification/Reconcile.thy ===== *)
theory Reconcile
  imports Py_Value Kill_Switch
begin

text \<open>
  \<open>app/execution/reconciliation.py\<close>: what the broker reports against what the local store holds.
  The rows of both sides are dictionaries of Python values, the eight fetches are operations on an
  arbitrary world that may raise or return anything, the database session is a parameter that
  returns the rows of a table. A comparison that meets a value it cannot convert raises, and the
  pass then ends in \<open>RECONCILIATION_ERROR\<close>. The texts of findings are left out. The loops over
  \<open>a.keys() & b.keys()\<close> visit a set in an unspecified order: the model takes the broker's order,
  and no statement depends on it.
\<close>

section \<open>Statuses and findings\<close>

datatype reconciliation_status = RECONCILIATION_OK | RECONCILIATION_MISMATCH | RECONCILIATION_UNAVAILABLE
  | RECONCILIATION_ERROR

definition permits_trading :: "reconciliation_status \<Rightarrow> bool" where
  "permits_trading st \<longleftrightarrow> st = RECONCILIATION_OK"

datatype discrepancy_kind = MISSING_LOCAL | MISSING_BROKER | MISMATCHED_QTY | MISMATCHED_PRICE | MISMATCHED_CASH
  | UNKNOWN_ORDER_STATE | PARTIAL_FILL_MISMATCH | DATA_UNAVAILABLE

datatype finding_severity = CRITICAL_FINDING | WARNING_FINDING

record discrepancy =
  dc_kind :: discrepancy_kind
  dc_symbol :: string
  dc_order_id :: "string option"
  dc_broker :: pyval
  dc_local :: pyval
  dc_severity :: finding_severity

definition finding :: "discrepancy_kind \<Rightarrow> string \<Rightarrow> string option \<Rightarrow> pyval \<Rightarrow> pyval \<Rightarrow> discrepancy" where
  "finding kind symbol oid b l = \<lparr>dc_kind = kind, dc_symbol = symbol, dc_order_id = oid, dc_broker = b,
     dc_local = l, dc_severity = CRITICAL_FINDING\<rparr>"

definition OPEN_STATUSES :: "string list" where
  "OPEN_STATUSES = [''OPEN'', ''TRIGGER PENDING'', ''AMO REQ RECEIVED'', ''OPEN PENDING'', ''MODIFY PENDING'',
     ''MODIFY VALIDATION PENDING'', ''CANCEL PENDING'', ''VALIDATION PENDING'', ''PUT ORDER REQ RECEIVED'',
     ''PARTIAL'', ''PARTIALLY FILLED'', ''PARTIALLY_FILLED'']"

definition TERMINAL_STATUSES :: "string list" where
  "TERMINAL_STATUSES = [''COMPLETE'', ''CANCELLED'', ''REJECTED'']"

datatype status_class = Live | Finished | Unrecognised

definition class_of :: "string \<Rightarrow> status_class" where
  "class_of s = (if s \<in> set OPEN_STATUSES then Live else if s \<in> set TERMINAL_STATUSES then Finished else Unrecognised)"

text \<open>\<open>(status or "").strip().upper()\<close> raises on a truthy value that is not a string.\<close>

definition status_text :: "pyval \<Rightarrow> string res" where
  "status_text v = (if \<not> truthy v then Inr [] else case v of
     PStr s \<Rightarrow> Inr (py_upper (py_strip s)) | _ \<Rightarrow> Inl (PyExn ''AttributeError'' ''strip''))"

definition classify_order_status :: "pyval \<Rightarrow> status_class res" where
  "classify_order_status v = res_bind (status_text v) (\<lambda>s. Inr (class_of s))"

section \<open>Reading numbers and names from rows\<close>

definition to_float :: "pyval \<Rightarrow> pyfloat option res" where
  "to_float v = (case v of PNone \<Rightarrow> Inr None | PBool _ \<Rightarrow> Inr None
     | PInt n \<Rightarrow> res_bind (int_to_float n) (\<lambda>x. Inr (Some x))
     | PFloat x \<Rightarrow> Inr (Some x) | PStr s \<Rightarrow> Inr (parse_float s))"

definition float_of_row :: "row \<Rightarrow> string \<Rightarrow> pyfloat res" where
  "float_of_row r k = res_bind (to_float (row_get r k)) (\<lambda>v. Inr (case v of None \<Rightarrow> Fin 0 | Some x \<Rightarrow> x))"

definition int_of_row :: "row \<Rightarrow> string \<Rightarrow> int res" where
  "int_of_row r k = res_bind (to_float (row_get r k)) (\<lambda>v. case v of None \<Rightarrow> Inr 0 | Some x \<Rightarrow> to_int x)"

definition symbol_of_row :: "row \<Rightarrow> string" where
  "symbol_of_row r = py_str (py_or (row_get r ''tradingsymbol'') (py_or (row_get r ''symbol'') (PStr '''')))"

definition price_differs :: "pyfloat \<Rightarrow> pyfloat \<Rightarrow> pyfloat \<Rightarrow> bool" where
  "price_differs a b tol =
     (if a \<le> Fin 0 \<and> b \<le> Fin 0 then False
      else if a \<le> Fin 0 \<or> b \<le> Fin 0 then True
      else tol < fquot \<bar>a - b\<bar> (fmax a b))"

text \<open>The first of several keys that is present and numeric.\<close>

fun first_number :: "row \<Rightarrow> string list \<Rightarrow> pyfloat option res" where
  "first_number r [] = Inr None"
| "first_number r (k # ks) =
     (if k \<in> set (map fst r) then res_bind (to_float (row_get r k)) (\<lambda>v. case v of
        Some x \<Rightarrow> Inr (Some x) | None \<Rightarrow> first_number r ks)
      else first_number r ks)"

definition fill_qty :: "row \<Rightarrow> int res" where
  "fill_qty r = res_bind (first_number r [''quantity'', ''qty'', ''filled_quantity'', ''filled_qty''])
     (\<lambda>v. case v of None \<Rightarrow> Inr 0 | Some x \<Rightarrow> to_int x)"

definition fill_price :: "row \<Rightarrow> pyfloat res" where
  "fill_price r = res_bind (first_number r [''price'', ''average_price'', ''fill_price''])
     (\<lambda>v. Inr (case v of None \<Rightarrow> Fin 0 | Some x \<Rightarrow> x))"

section \<open>Fill groups\<close>

record fill_group =
  fg_symbol :: string
  fg_fills :: "row list"

definition fill_count :: "fill_group \<Rightarrow> nat" where
  "fill_count g = length (fg_fills g)"

definition total_qty :: "fill_group \<Rightarrow> int res" where
  "total_qty g = res_bind (res_map fill_qty (fg_fills g)) (\<lambda>qs. Inr (sum_list qs))"

definition fill_notional :: "row \<Rightarrow> pyfloat res" where
  "fill_notional r = res_bind (fill_qty r) (\<lambda>q. res_bind (fill_price r) (\<lambda>p.
     res_bind (int_to_float q) (\<lambda>x. Inr (x * p))))"

definition vwap :: "fill_group \<Rightarrow> pyfloat res" where
  "vwap g = res_bind (total_qty g) (\<lambda>total.
     if total = 0 then Inr (Fin 0)
     else res_bind (res_map fill_notional (fg_fills g)) (\<lambda>ns.
          res_bind (int_to_float total) (fdiv (foldl (+) (Fin 0) ns))))"

text \<open>A fill without an order id is skipped.\<close>

definition fill_oid :: "row \<Rightarrow> string option" where
  "fill_oid r = (let v = row_get r ''order_id'' in
     if v = PNone \<or> v = PStr '''' then None else Some (py_str v))"

definition add_fill :: "(string \<times> fill_group) list \<Rightarrow> row \<Rightarrow> (string \<times> fill_group) list" where
  "add_fill groups r = (case fill_oid r of None \<Rightarrow> groups
     | Some oid \<Rightarrow> (case map_of groups oid of
         None \<Rightarrow> AList.update oid \<lparr>fg_symbol = symbol_of_row r, fg_fills = [r]\<rparr> groups
       | Some g \<Rightarrow> AList.update oid (g\<lparr>fg_fills := fg_fills g @ [r]\<rparr>) groups))"

definition group_fills :: "row list \<Rightarrow> (string \<times> fill_group) list" where
  "group_fills rows = foldl add_fill [] rows"

section \<open>Positions by key\<close>

definition row_position_key :: "row \<Rightarrow> string" where
  "row_position_key r =
     py_str (py_or (row_get r ''exchange'') (PStr ''NSE'')) @ '':'' @
     py_str (py_or (row_get r ''tradingsymbol'') (py_or (row_get r ''symbol'') (PStr ''UNKNOWN''))) @ '':'' @
     py_str (py_or (row_get r ''product'') (PStr ''CNC''))"

definition merge_position :: "row \<Rightarrow> row \<Rightarrow> row res" where
  "merge_position a b =
     res_bind (int_of_row a ''quantity'') (\<lambda>q1. res_bind (int_of_row b ''quantity'') (\<lambda>q2.
     res_bind (float_of_row a ''average_price'') (\<lambda>p1. res_bind (float_of_row b ''average_price'') (\<lambda>p2.
     res_bind (if q1 + q2 = 0 then Inr (Fin 0)
       else res_bind (int_to_float q1) (\<lambda>x1. res_bind (int_to_float q2) (\<lambda>x2.
            res_bind (int_to_float (q1 + q2)) (fdiv (x1 * p1 + x2 * p2))))) (\<lambda>average.
     Inr (AList.update ''average_price'' (PFloat average) (AList.update ''quantity'' (PInt (q1 + q2)) a)))))))"

fun position_fold :: "(string \<times> row) list \<Rightarrow> row list \<Rightarrow> (string \<times> row) list res" where
  "position_fold m [] = Inr m"
| "position_fold m (p # ps) =
     (let key = row_position_key p in
      case map_of m key of
        None \<Rightarrow> position_fold (AList.update key p m) ps
      | Some old \<Rightarrow> res_bind (merge_position old p) (\<lambda>merged. position_fold (AList.update key merged m) ps))"

definition position_map :: "row list \<Rightarrow> (string \<times> row) list res" where
  "position_map rows = position_fold [] rows"

section \<open>The snapshot\<close>

record rsnapshot =
  rs_broker_positions :: "row list option"
  rs_broker_orders :: "row list option"
  rs_broker_trades :: "row list option"
  rs_broker_cash :: "row option"
  rs_local_positions :: "row list option"
  rs_local_orders :: "row list option"
  rs_local_trades :: "row list option"
  rs_local_cash :: "row option"
  rs_unavailable :: "string list"

definition empty_snapshot :: rsnapshot where
  "empty_snapshot = \<lparr>rs_broker_positions = None, rs_broker_orders = None, rs_broker_trades = None,
     rs_broker_cash = None, rs_local_positions = None, rs_local_orders = None, rs_local_trades = None,
     rs_local_cash = None, rs_unavailable = []\<rparr>"

definition comparable :: "rsnapshot \<Rightarrow> string list \<Rightarrow> bool" where
  "comparable snap names \<longleftrightarrow> filter (\<lambda>n. n \<in> set (rs_unavailable snap)) names = []"

definition rows_or :: "row list option \<Rightarrow> row list" where
  "rows_or r = (case r of None \<Rightarrow> [] | Some xs \<Rightarrow> xs)"

definition row_or :: "row option \<Rightarrow> row" where
  "row_or r = (case r of None \<Rightarrow> [] | Some x \<Rightarrow> x)"

definition unavailable_discrepancy :: "string \<Rightarrow> discrepancy" where
  "unavailable_discrepancy what = finding DATA_UNAVAILABLE what None PNone PNone"

section \<open>Orders\<close>

record tolerances =
  tl_qty :: int
  tl_price :: pyfloat
  tl_cash_abs :: pyfloat
  tl_cash_pct :: pyfloat

definition default_tolerances :: tolerances where
  "default_tolerances = \<lparr>tl_qty = 0, tl_price = fl (1 / 1000), tl_cash_abs = Fin 1, tl_cash_pct = fl (1 / 1000)\<rparr>"

definition live_row :: "row \<Rightarrow> bool res" where
  "live_row o1 = res_bind (classify_order_status (row_get o1 ''status'')) (\<lambda>c.
     Inr (c = Live \<and> truthy (row_get o1 ''order_id'')))"

definition row_oid :: "row \<Rightarrow> string" where
  "row_oid o1 = py_str (row_get o1 ''order_id'')"

definition open_orders :: "row list \<Rightarrow> (string \<times> row) list res" where
  "open_orders rows = res_bind (res_filter live_row rows) (\<lambda>live. Inr (dict_of (map (\<lambda>o1. (row_oid o1, o1)) live)))"

definition compare_order :: "tolerances \<Rightarrow> string \<Rightarrow> row \<Rightarrow> row \<Rightarrow> discrepancy list res" where
  "compare_order tol oid b l =
     res_bind (int_of_row b ''quantity'') (\<lambda>bq. res_bind (int_of_row l ''quantity'') (\<lambda>lq.
     res_bind (int_of_row b ''filled_quantity'') (\<lambda>bf. res_bind (int_of_row l ''filled_quantity'') (\<lambda>lf.
     Inr ((if tl_qty tol < \<bar>bq - lq\<bar>
           then [finding MISMATCHED_QTY (symbol_of_row b) (Some oid) (PInt bq) (PInt lq)] else []) @
          (if tl_qty tol < \<bar>bf - lf\<bar>
           then [finding PARTIAL_FILL_MISMATCH (symbol_of_row b) (Some oid) (PInt bf) (PInt lf)] else []))))))"

definition compare_fills :: "tolerances \<Rightarrow> string \<Rightarrow> fill_group \<Rightarrow> fill_group \<Rightarrow> discrepancy list res" where
  "compare_fills tol oid bg lg =
     res_bind (total_qty bg) (\<lambda>bq. res_bind (total_qty lg) (\<lambda>lq.
     res_bind (vwap bg) (\<lambda>bp. res_bind (vwap lg) (\<lambda>lp.
     Inr ((if tl_qty tol < \<bar>bq - lq\<bar>
           then [finding MISMATCHED_QTY (fg_symbol bg) (Some oid) (PInt bq) (PInt lq)]
           else if fill_count bg \<noteq> fill_count lg
           then [(finding PARTIAL_FILL_MISMATCH (fg_symbol bg) (Some oid) (PInt (int (fill_count bg)))
                   (PInt (int (fill_count lg))))\<lparr>dc_severity := WARNING_FINDING\<rparr>]
           else []) @
          (if price_differs bp lp (tl_price tol)
           then [finding MISMATCHED_PRICE (fg_symbol bg) (Some oid) (PFloat (fround 4 bp)) (PFloat (fround 4 lp))]
           else []))))))"

definition reconcile_fills :: "tolerances \<Rightarrow> rsnapshot \<Rightarrow> discrepancy list res" where
  "reconcile_fills tol snap =
     (if \<not> comparable snap [''broker_trades'', ''local_trades''] then Inr [unavailable_discrepancy ''fills'']
      else let bs = group_fills (rows_or (rs_broker_trades snap)); ls = group_fills (rows_or (rs_local_trades snap)) in
        res_bind (res_concat (\<lambda>(oid, bg). case map_of ls oid of
            None \<Rightarrow> res_bind (total_qty bg) (\<lambda>q. Inr [finding MISSING_LOCAL (fg_symbol bg) (Some oid) (PInt q) PNone])
          | Some lg \<Rightarrow> compare_fills tol oid bg lg) bs) (\<lambda>found.
        res_bind (res_concat (\<lambda>(oid, lg). if oid \<in> set (map fst bs) then Inr []
            else res_bind (total_qty lg) (\<lambda>q. Inr [finding MISSING_BROKER (fg_symbol lg) (Some oid) PNone (PInt q)])) ls)
          (\<lambda>missing. Inr (found @ missing))))"

definition reconcile_orders :: "tolerances \<Rightarrow> rsnapshot \<Rightarrow> discrepancy list res" where
  "reconcile_orders tol snap =
     (if \<not> comparable snap [''broker_orders'', ''local_orders'']
      then res_bind (reconcile_fills tol snap) (\<lambda>ds. Inr (unavailable_discrepancy ''orders'' # ds))
      else res_bind (open_orders (rows_or (rs_broker_orders snap))) (\<lambda>bs.
        res_bind (open_orders (rows_or (rs_local_orders snap))) (\<lambda>ls.
        let untracked = map (\<lambda>(oid, b). finding MISSING_LOCAL (symbol_of_row b) (Some oid) (row_get b ''status'') PNone)
              (filter (\<lambda>(oid, _). oid \<notin> set (map fst ls)) bs);
            vanished = map (\<lambda>(oid, l). finding MISSING_BROKER (symbol_of_row l) (Some oid) PNone (row_get l ''status''))
              (filter (\<lambda>(oid, _). oid \<notin> set (map fst bs)) ls)
        in res_bind (res_concat (\<lambda>(oid, b). case map_of ls oid of
               None \<Rightarrow> Inr [] | Some l \<Rightarrow> compare_order tol oid b l) bs) (\<lambda>differing.
           res_bind (reconcile_fills tol snap) (\<lambda>fills.
           Inr (untracked @ vanished @ differing @ fills))))))"

section \<open>Positions and cash\<close>

definition compare_position :: "tolerances \<Rightarrow> string \<Rightarrow> row \<Rightarrow> row \<Rightarrow> discrepancy list res" where
  "compare_position tol key b l =
     res_bind (int_of_row b ''quantity'') (\<lambda>bq. res_bind (int_of_row l ''quantity'') (\<lambda>lq.
     res_bind (float_of_row b ''average_price'') (\<lambda>bp. res_bind (float_of_row l ''average_price'') (\<lambda>lp.
     Inr ((if tl_qty tol < \<bar>bq - lq\<bar> then [finding MISMATCHED_QTY key None (PInt bq) (PInt lq)] else []) @
          (if price_differs bp lp (tl_price tol)
           then [finding MISMATCHED_PRICE key None (PFloat (fround 4 bp)) (PFloat (fround 4 lp))] else []))))))"

definition untracked_position :: "(string \<times> row) list \<Rightarrow> string \<times> row \<Rightarrow> discrepancy list res" where
  "untracked_position ls = (\<lambda>(key, b). res_bind (int_of_row b ''quantity'') (\<lambda>q.
     Inr (if q = 0 \<or> key \<in> set (map fst ls) then [] else [finding MISSING_LOCAL key None (PInt q) PNone])))"

definition vanished_position :: "(string \<times> row) list \<Rightarrow> string \<times> row \<Rightarrow> discrepancy list res" where
  "vanished_position bs = (\<lambda>(key, l). res_bind (int_of_row l ''quantity'') (\<lambda>q.
     if q = 0 then Inr []
     else let missing = [finding MISSING_BROKER key None PNone (PInt q)] in
       case map_of bs key of None \<Rightarrow> Inr missing
       | Some b \<Rightarrow> res_bind (int_of_row b ''quantity'') (\<lambda>bq. Inr (if bq = 0 then missing else []))))"

definition reconcile_positions :: "tolerances \<Rightarrow> rsnapshot \<Rightarrow> discrepancy list res" where
  "reconcile_positions tol snap =
     (if \<not> comparable snap [''broker_positions'', ''local_positions'']
      then Inr [unavailable_discrepancy ''positions'']
      else res_bind (position_map (rows_or (rs_broker_positions snap))) (\<lambda>bs.
        res_bind (position_map (rows_or (rs_local_positions snap))) (\<lambda>ls.
        res_bind (res_concat (untracked_position ls) bs) (\<lambda>untracked.
        res_bind (res_concat (vanished_position bs) ls) (\<lambda>vanished.
        res_bind (res_concat (\<lambda>(key, b). case map_of ls key of
            None \<Rightarrow> Inr [] | Some l \<Rightarrow> compare_position tol key b l) bs) (\<lambda>differing.
        Inr (untracked @ vanished @ differing)))))))"

definition compare_cash :: "tolerances \<Rightarrow> row \<Rightarrow> row \<Rightarrow> string \<Rightarrow> discrepancy list res" where
  "compare_cash tol b l field =
     (if field \<notin> set (map fst b) \<or> field \<notin> set (map fst l) then Inr []
      else res_bind (to_float (row_get b field)) (\<lambda>x. res_bind (to_float (row_get l field)) (\<lambda>y.
        case (x, y) of
          (Some bv, Some lv) \<Rightarrow>
            Inr (if fmax (tl_cash_abs tol) (\<bar>bv\<bar> * tl_cash_pct tol) < \<bar>bv - lv\<bar>
              then [finding MISMATCHED_CASH field None (PFloat bv) (PFloat lv)] else [])
        | _ \<Rightarrow> Inr [finding DATA_UNAVAILABLE field None (row_get b field) (row_get l field)])))"

definition cash_fields :: "string list" where
  "cash_fields = [''cash'', ''margin_available'', ''margin_used'']"

definition reconcile_cash :: "tolerances \<Rightarrow> rsnapshot \<Rightarrow> discrepancy list res" where
  "reconcile_cash tol snap =
     (if \<not> comparable snap [''broker_cash'', ''local_cash''] then Inr [unavailable_discrepancy ''cash'']
      else res_concat (compare_cash tol (row_or (rs_broker_cash snap)) (row_or (rs_local_cash snap))) cash_fields)"

section \<open>Orders whose state nobody knows\<close>

definition status_shown :: "string \<Rightarrow> pyval" where
  "status_shown s = PStr (if s = [] then ''<empty>'' else s)"

definition broker_status_for :: "rsnapshot \<Rightarrow> pyval \<Rightarrow> pyval" where
  "broker_status_for snap oid =
     (if \<not> truthy oid then PNone
      else case find (\<lambda>b. row_oid b = py_str oid) (rows_or (rs_broker_orders snap)) of
        None \<Rightarrow> PNone | Some b \<Rightarrow> row_get b ''status'')"

definition no_broker_id :: "pyval \<Rightarrow> bool" where
  "no_broker_id oid \<longleftrightarrow> oid \<in> {PNone, PStr '''', PStr ''None''}"

definition shown_oid :: "pyval \<Rightarrow> string option" where
  "shown_oid oid = (if truthy oid then Some (py_str oid) else None)"

definition unknown_local :: "rsnapshot \<Rightarrow> row \<Rightarrow> discrepancy list res" where
  "unknown_local snap l = res_bind (status_text (row_get l ''status'')) (\<lambda>status.
     let oid = row_get l ''order_id'' in
     Inr (if class_of (py_upper (py_strip status)) \<noteq> Unrecognised
       then (if no_broker_id oid \<and> status \<notin> set TERMINAL_STATUSES
         then [finding UNKNOWN_ORDER_STATE (symbol_of_row l) None PNone (PStr status)] else [])
       else [finding UNKNOWN_ORDER_STATE (symbol_of_row l) (shown_oid oid) (broker_status_for snap oid)
         (status_shown status)]))"

definition unknown_broker :: "row \<Rightarrow> discrepancy list res" where
  "unknown_broker b = res_bind (status_text (row_get b ''status'')) (\<lambda>status.
     Inr (if class_of (py_upper (py_strip status)) = Unrecognised
       then [finding UNKNOWN_ORDER_STATE (symbol_of_row b) (shown_oid (row_get b ''order_id'')) (status_shown status) PNone]
       else []))"

definition identify_unknown_orders :: "rsnapshot \<Rightarrow> discrepancy list res" where
  "identify_unknown_orders snap =
     (if rs_local_orders snap = None \<and> ''local_orders'' \<in> set (rs_unavailable snap) then Inr []
      else res_bind (res_concat (unknown_local snap) (rows_or (rs_local_orders snap))) (\<lambda>here.
        res_bind (res_concat unknown_broker (rows_or (rs_broker_orders snap))) (\<lambda>there.
        Inr (here @ there))))"

section \<open>The outcome of a pass\<close>

text \<open>\<open>rr_recommendation\<close> is the fixed part of the text.\<close>

record reconciliation_result =
  rr_status :: reconciliation_status
  rr_discrepancies :: "discrepancy list"
  rr_unavailable :: "string list"
  rr_recommendation :: string
  rr_kill_switch :: bool
  rr_error :: "exn option"

definition result_of :: "reconciliation_status \<Rightarrow> discrepancy list \<Rightarrow> string list \<Rightarrow> string \<Rightarrow> reconciliation_result" where
  "result_of st ds missing text1 = \<lparr>rr_status = st, rr_discrepancies = ds, rr_unavailable = missing,
     rr_recommendation = text1, rr_kill_switch = False, rr_error = None\<rparr>"

definition result_ok :: "reconciliation_result \<Rightarrow> bool" where
  "result_ok r \<longleftrightarrow> rr_status r = RECONCILIATION_OK"

definition of_kind :: "discrepancy_kind \<Rightarrow> reconciliation_result \<Rightarrow> discrepancy list" where
  "of_kind k r = filter (\<lambda>d. dc_kind d = k) (rr_discrepancies r)"

definition classify :: "rsnapshot \<Rightarrow> discrepancy list \<Rightarrow> reconciliation_result" where
  "classify snap ds =
     (if rs_unavailable snap \<noteq> []
      then result_of RECONCILIATION_UNAVAILABLE ds (sort (remdups (rs_unavailable snap)))
             ''UNAVAILABLE: could not read every source''
      else if ds \<noteq> [] then result_of RECONCILIATION_MISMATCH ds [] ''MISMATCH: discrepancies''
      else result_of RECONCILIATION_OK [] [] ''Orders, positions, fills and cash all match.'')"

definition error_result :: "exn \<Rightarrow> reconciliation_result" where
  "error_result e = (result_of RECONCILIATION_ERROR [] [] ''ERROR: reconciliation itself failed'')\<lparr>rr_error := Some e\<rparr>"

text \<open>The four comparisons and the classification, as \<open>evaluate\<close> runs them on a snapshot.\<close>

definition all_findings :: "tolerances \<Rightarrow> rsnapshot \<Rightarrow> discrepancy list res" where
  "all_findings tol snap =
     res_bind (reconcile_orders tol snap) (\<lambda>a. res_bind (reconcile_positions tol snap) (\<lambda>b.
     res_bind (reconcile_cash tol snap) (\<lambda>c. res_bind (identify_unknown_orders snap) (\<lambda>d.
     Inr (a @ b @ c @ d)))))"

definition judge :: "tolerances \<Rightarrow> rsnapshot \<Rightarrow> reconciliation_result" where
  "judge tol snap = (case all_findings tol snap of Inl e \<Rightarrow> error_result e | Inr ds \<Rightarrow> classify snap ds)"

section \<open>The fetches\<close>

datatype fetched = F_List "row list" | F_Dict row | F_Other

record 'w source =
  so_positions :: "('w, fetched) ef"
  so_orders :: "('w, fetched) ef"
  so_trades :: "('w, fetched) ef"
  so_cash :: "('w, fetched) ef"

definition missing_source :: "string \<Rightarrow> rsnapshot \<Rightarrow> rsnapshot" where
  "missing_source name snap = snap\<lparr>rs_unavailable := rs_unavailable snap @ [name]\<rparr>"

definition safe_fetch_list ::
  "('w, fetched) ef \<Rightarrow> string \<Rightarrow> (row list option \<Rightarrow> rsnapshot \<Rightarrow> rsnapshot) \<Rightarrow> rsnapshot \<Rightarrow> ('w, rsnapshot) ef" where
  "safe_fetch_list get name put snap = ef_bind (ef_try get) (\<lambda>r. ef_return (case r of
     Inr (F_List rows) \<Rightarrow> put (Some rows) snap | _ \<Rightarrow> put None (missing_source name snap)))"

definition safe_fetch_dict ::
  "('w, fetched) ef \<Rightarrow> string \<Rightarrow> (row option \<Rightarrow> rsnapshot \<Rightarrow> rsnapshot) \<Rightarrow> rsnapshot \<Rightarrow> ('w, rsnapshot) ef" where
  "safe_fetch_dict get name put snap = ef_bind (ef_try get) (\<lambda>r. ef_return (case r of
     Inr (F_Dict r1) \<Rightarrow> put (Some r1) snap | _ \<Rightarrow> put None (missing_source name snap)))"

definition fetch_local :: "'w source option \<Rightarrow> rsnapshot \<Rightarrow> ('w, rsnapshot) ef" where
  "fetch_local store snap0 = (case store of None \<Rightarrow> ef_return snap0 | Some so \<Rightarrow>
     ef_bind (safe_fetch_list (so_positions so) ''local_positions'' (\<lambda>v s. s\<lparr>rs_local_positions := v\<rparr>) snap0) (\<lambda>snap1.
     ef_bind (safe_fetch_list (so_orders so) ''local_orders'' (\<lambda>v s. s\<lparr>rs_local_orders := v\<rparr>) snap1) (\<lambda>snap2.
     ef_bind (safe_fetch_list (so_trades so) ''local_trades'' (\<lambda>v s. s\<lparr>rs_local_trades := v\<rparr>) snap2) (\<lambda>snap3.
     safe_fetch_dict (so_cash so) ''local_cash'' (\<lambda>v s. s\<lparr>rs_local_cash := v\<rparr>) snap3))))"

definition fetch_broker :: "'w source \<Rightarrow> rsnapshot \<Rightarrow> ('w, rsnapshot) ef" where
  "fetch_broker so snap0 =
     ef_bind (safe_fetch_list (so_positions so) ''broker_positions'' (\<lambda>v s. s\<lparr>rs_broker_positions := v\<rparr>) snap0) (\<lambda>snap1.
     ef_bind (safe_fetch_list (so_orders so) ''broker_orders'' (\<lambda>v s. s\<lparr>rs_broker_orders := v\<rparr>) snap1) (\<lambda>snap2.
     ef_bind (safe_fetch_list (so_trades so) ''broker_trades'' (\<lambda>v s. s\<lparr>rs_broker_trades := v\<rparr>) snap2) (\<lambda>snap3.
     safe_fetch_dict (so_cash so) ''broker_cash'' (\<lambda>v s. s\<lparr>rs_broker_cash := v\<rparr>) snap3)))"

section \<open>The SQL store\<close>

record db_position =
  dp_user :: int
  dp_symbol :: string
  dp_exchange :: string
  dp_quantity :: int
  dp_average_price :: "pyfloat option"
  dp_strategy :: string
  dp_open :: bool

record db_order =
  do_user :: int
  do_id :: int
  do_broker_id :: "string option"
  do_symbol :: string
  do_exchange :: string
  do_txn :: string
  do_quantity :: int
  do_filled :: int
  do_price :: "pyfloat option"
  do_status :: string
  do_strategy :: "string option"

record db_trade =
  dt_user :: int
  dt_id :: int
  dt_order_id :: "int option"
  dt_symbol :: string
  dt_exchange :: string
  dt_quantity :: int
  dt_price :: "pyfloat option"

record db_cash =
  ca_user :: int
  ca_mode :: string
  ca_cash :: "pyfloat option"
  ca_reserved :: "pyfloat option"

text \<open>The session returns the rows of a table; the \<open>where\<close> clauses and the join are the model's.\<close>

record 'w session =
  se_positions :: "('w, db_position list) ef"
  se_orders :: "('w, db_order list) ef"
  se_trades :: "('w, db_trade list \<times> db_order list) ef"
  se_cash :: "('w, db_cash list) ef"

definition in_scope :: "int option \<Rightarrow> int \<Rightarrow> bool" where
  "in_scope user u \<longleftrightarrow> (case user of None \<Rightarrow> True | Some n \<Rightarrow> u = n)"

definition sql_execute :: "('w, 'a) ef \<Rightarrow> string \<Rightarrow> ('w, 'a) ef" where
  "sql_execute m what = ef_bind (ef_try m) (\<lambda>r. case r of
     Inl _ \<Rightarrow> ef_raise (PyExn ''LocalStateUnavailable'' what) | Inr x \<Rightarrow> ef_return x)"

definition float_or_zero :: "pyfloat option \<Rightarrow> pyfloat" where
  "float_or_zero v = (case v of None \<Rightarrow> Fin 0 | Some x \<Rightarrow> x)"

definition opt_str :: "string option \<Rightarrow> pyval" where
  "opt_str v = (case v of None \<Rightarrow> PNone | Some s \<Rightarrow> PStr s)"

definition product_for_strategy :: "string \<Rightarrow> string" where
  "product_for_strategy s = (if py_lower s = ''intraday'' then ''MIS'' else ''CNC'')"

definition sql_position_row :: "db_position \<Rightarrow> row" where
  "sql_position_row r = [(''symbol'', PStr (dp_symbol r)), (''exchange'', PStr (dp_exchange r)),
     (''quantity'', PInt (dp_quantity r)), (''average_price'', PFloat (float_or_zero (dp_average_price r))),
     (''product'', PStr (product_for_strategy (dp_strategy r))), (''strategy'', PStr (dp_strategy r))]"

definition sql_order_row :: "db_order \<Rightarrow> row" where
  "sql_order_row r = [(''order_id'', opt_str (do_broker_id r)), (''local_id'', PInt (do_id r)),
     (''symbol'', PStr (do_symbol r)), (''exchange'', PStr (do_exchange r)), (''status'', PStr (do_status r)),
     (''quantity'', PInt (do_quantity r)), (''price'', PFloat (float_or_zero (do_price r))),
     (''transaction_type'', PStr (do_txn r)), (''strategy'', opt_str (do_strategy r))]"

definition sql_trade_row :: "db_order list \<Rightarrow> db_trade \<Rightarrow> row" where
  "sql_trade_row orders r =
     [(''order_id'', case find (\<lambda>o1. dt_order_id r = Some (do_id o1)) orders of
         None \<Rightarrow> PNone | Some o1 \<Rightarrow> opt_str (do_broker_id o1)),
      (''local_order_id'', case dt_order_id r of None \<Rightarrow> PNone | Some n \<Rightarrow> PInt n),
      (''trade_id'', PInt (dt_id r)), (''symbol'', PStr (dt_symbol r)), (''exchange'', PStr (dt_exchange r)),
      (''quantity'', PInt (dt_quantity r)), (''price'', PFloat (float_or_zero (dt_price r)))]"

definition sql_cash_row :: "db_cash \<Rightarrow> row" where
  "sql_cash_row r = (let cash = float_or_zero (ca_cash r); reserved = float_or_zero (ca_reserved r) in
     [(''cash'', PFloat cash), (''margin_available'', PFloat (cash - reserved)), (''margin_used'', PFloat reserved)])"

definition sql_store :: "'w session \<Rightarrow> int option \<Rightarrow> string \<Rightarrow> 'w source" where
  "sql_store se user mode = \<lparr>
     so_positions = ef_bind (sql_execute (se_positions se) ''positions'') (\<lambda>rs. ef_return (F_List
       (map sql_position_row (filter (\<lambda>r. dp_open r \<and> in_scope user (dp_user r) \<and> dp_quantity r \<noteq> 0) rs)))),
     so_orders = ef_bind (sql_execute (se_orders se) ''orders'') (\<lambda>rs. ef_return (F_List
       (map sql_order_row (filter (\<lambda>r. in_scope user (do_user r)) rs)))),
     so_trades = ef_bind (sql_execute (se_trades se) ''trades'') (\<lambda>(ts, os). ef_return (F_List
       (map (sql_trade_row os) (filter (\<lambda>r. in_scope user (dt_user r)) ts)))),
     so_cash = ef_bind (sql_execute (se_cash se) ''cash'') (\<lambda>rs.
       case find (\<lambda>r. ca_mode r = mode \<and> in_scope user (ca_user r)) rs of
         None \<Rightarrow> ef_raise (PyExn ''LocalStateUnavailable'' ''no AccountCash row'')
       | Some r \<Rightarrow> ef_return (F_Dict (sql_cash_row r)))\<rparr>"

section \<open>The engine\<close>

record 'w rengine =
  re_switch :: "((string \<Rightarrow> 'w \<Rightarrow> kv res) option \<times> (string \<Rightarrow> kv \<Rightarrow> ('w, unit) ef)) option"
  re_local :: "'w source option"
  re_user :: "int option"
  re_mode :: string
  re_tol :: tolerances
  re_kill_on :: "reconciliation_status list"
  re_key :: string

definition kill_statuses :: "reconciliation_status list \<Rightarrow> reconciliation_status list" where
  "kill_statuses configured = (if configured = []
     then [RECONCILIATION_MISMATCH, RECONCILIATION_UNAVAILABLE, RECONCILIATION_ERROR] else configured)"

text \<open>The store of a pass: the argument, else the engine's, else one built over the session.\<close>

definition resolve_local_state ::
  "'w rengine \<Rightarrow> 'w session option \<Rightarrow> 'w source option \<Rightarrow> rsnapshot \<Rightarrow> 'w source option \<times> rsnapshot" where
  "resolve_local_state en db local snap =
     (let store = (case local of Some so \<Rightarrow> Some so | None \<Rightarrow>
        (case re_local en of Some so \<Rightarrow> Some so | None \<Rightarrow>
          map_option (\<lambda>se. sql_store se (re_user en) (re_mode en)) db))
      in (store, case store of Some _ \<Rightarrow> snap
          | None \<Rightarrow> foldl (\<lambda>s n. missing_source n s) snap
              [''local_positions'', ''local_orders'', ''local_trades'', ''local_cash'']))"

definition gather :: "'w rengine \<Rightarrow> 'w source \<Rightarrow> 'w session option \<Rightarrow> 'w source option \<Rightarrow> ('w, rsnapshot) ef" where
  "gather en br db local =
     (let (store, snap) = resolve_local_state en db local empty_snapshot in
      ef_bind (fetch_local store snap) (fetch_broker br))"

definition evaluate ::
  "'w rengine \<Rightarrow> 'w source \<Rightarrow> 'w session option \<Rightarrow> 'w source option \<Rightarrow> ('w, reconciliation_result) ef" where
  "evaluate en br db local = ef_bind (gather en br db local) (\<lambda>snap. ef_return (judge (re_tol en) snap))"

definition enforce :: "'w rengine \<Rightarrow> reconciliation_result \<Rightarrow> bool \<Rightarrow> ('w, reconciliation_result) ef" where
  "enforce en r raise_on_failure =
     (if permits_trading (rr_status r) then ef_return r
      else ef_bind
        (if rr_status r \<in> set (kill_statuses (re_kill_on en))
         then ef_seq (activate_kill_switch (re_key en) (re_switch en)) (ef_return (r\<lparr>rr_kill_switch := True\<rparr>))
         else ef_return r) (\<lambda>r'.
        if raise_on_failure then ef_raise (ReconciliationError ''Reconciliation failed'') else ef_return r'))"

definition reconcile ::
  "'w rengine \<Rightarrow> 'w source \<Rightarrow> 'w session option \<Rightarrow> 'w source option \<Rightarrow> bool \<Rightarrow> ('w, reconciliation_result) ef" where
  "reconcile en br db local raise_on_failure =
     ef_bind (evaluate en br db local) (\<lambda>r. enforce en r raise_on_failure)"

end
