(* ===== verification/Startup.thy ===== *)
theory Startup
  imports Reconcile
begin

text \<open>
  \<open>app/execution/recovery.py\<close>: the gate between a started process and one that may trade.
  \<open>RecoveryManager\<close> is a record of its flag, the reason and the last report; \<open>recover\<close> runs the
  nine phases on an arbitrary world. The texts of phases and resolutions are left out except whether
  there are any. The resolver is a parameter, an operation on the world that may raise.
\<close>

section \<open>States and reports\<close>

datatype startup_state = RECOVERING | READY | BLOCKED

datatype recovery_phase = LOAD_LOCAL_STATE | QUERY_BROKER | RECONCILE_ORDERS | RECONCILE_POSITIONS | RECONCILE_CASH
  | IDENTIFY_UNKNOWN_ORDERS | IDENTIFY_MISMATCHES | RESOLVE | VERIFY | PERMIT_TRADING

record phase_outcome =
  ph_phase :: recovery_phase
  ph_ok :: bool
  ph_found :: "discrepancy list"

record recovery_report =
  rp_state :: startup_state
  rp_status :: reconciliation_status
  rp_phases :: "phase_outcome list"
  rp_result :: reconciliation_result
  rp_unresolved :: "discrepancy list"
  rp_resolutions :: "string list"
  rp_blocked_reason :: string
  rp_kill_switch :: bool
  rp_kill_switch_error :: "exn option"

definition report_permits :: "recovery_report \<Rightarrow> bool" where
  "report_permits r \<longleftrightarrow> rp_state r = READY \<and> rp_status r = RECONCILIATION_OK"

record 'w manager =
  mg_state :: startup_state
  mg_reason :: string
  mg_report :: "recovery_report option"
  mg_world :: 'w

definition new_manager :: "'w \<Rightarrow> 'w manager" where
  "new_manager w = \<lparr>mg_state = BLOCKED, mg_reason = ''recovery has not run yet'', mg_report = None, mg_world = w\<rparr>"

definition trading_permitted :: "'w manager \<Rightarrow> bool" where
  "trading_permitted m \<longleftrightarrow> mg_state m = READY"

definition blocked_reason :: "'w manager \<Rightarrow> string" where
  "blocked_reason m = (if trading_permitted m then '''' else mg_reason m)"

definition require_ready :: "'w manager \<Rightarrow> unit res" where
  "require_ready m = raise_if (\<not> trading_permitted m) (PyExn ''TradingBlockedError'' (mg_reason m))"

definition set_blocked :: "string \<Rightarrow> 'w manager \<Rightarrow> 'w manager" where
  "set_blocked reason m = m\<lparr>mg_state := BLOCKED, mg_reason := reason\<rparr>"

definition on_world :: "('w, 'a) ef \<Rightarrow> ('w manager, 'a) ef" where
  "on_world m s = (case m (mg_world s) of (r, w) \<Rightarrow> (r, s\<lparr>mg_world := w\<rparr>))"

section \<open>Safe resolution\<close>

text \<open>The manager's collaborators; \<open>rc_status\<close> is \<open>broker.get_order_status\<close>.\<close>

record 'w recovery_config =
  rc_engine :: "'w rengine"
  rc_broker :: "'w source"
  rc_status :: "string \<Rightarrow> ('w, row) ef"
  rc_db :: "'w session option"
  rc_local :: "'w source option"
  rc_resolver :: "(reconciliation_result \<Rightarrow> ('w, string list) ef) option"
  rc_disambiguate :: bool

definition disambiguate_one :: "'w recovery_config \<Rightarrow> discrepancy \<Rightarrow> ('w, string list) ef" where
  "disambiguate_one cf d = (case dc_order_id d of
     None \<Rightarrow> ef_return []
   | Some oid \<Rightarrow>
       if oid = [] then ef_return []
       else ef_bind (ef_try (rc_status cf oid)) (\<lambda>r. case r of
         Inl _ \<Rightarrow> ef_return []
       | Inr status \<Rightarrow> ef_bind (ef_lift (classify_order_status (row_get status ''status''))) (\<lambda>c.
           ef_return (if c = Unrecognised then [] else [''order disambiguated at broker'']))))"

definition resolve_safely :: "'w recovery_config \<Rightarrow> reconciliation_result \<Rightarrow> ('w, string list) ef" where
  "resolve_safely cf r =
     ef_bind (if rc_disambiguate cf
       then ef_bind (ef_iter (disambiguate_one cf) (of_kind UNKNOWN_ORDER_STATE r)) (\<lambda>as. ef_return (concat as))
       else ef_return []) (\<lambda>actions.
     case rc_resolver cf of None \<Rightarrow> ef_return actions
     | Some resolver \<Rightarrow> ef_bind (ef_try (resolver r)) (\<lambda>extra. ef_return (case extra of
         Inl _ \<Rightarrow> actions @ [''resolver FAILED''] | Inr done \<Rightarrow> actions @ done)))"

section \<open>The sequence\<close>

definition outcome :: "recovery_phase \<Rightarrow> bool \<Rightarrow> discrepancy list \<Rightarrow> phase_outcome" where
  "outcome p ok found = \<lparr>ph_phase = p, ph_ok = ok, ph_found = found\<rparr>"

text \<open>Steps 1 to 8: the phases reached so far are kept when a later one raises, so they are part of
  the state the body runs on.\<close>

type_synonym 'w attempt = "'w manager \<times> phase_outcome list"

definition note_phase :: "recovery_phase \<Rightarrow> bool \<Rightarrow> discrepancy list \<Rightarrow> ('w attempt, unit) ef" where
  "note_phase p ok found = ef_modify (\<lambda>(m, ps). (m, ps @ [outcome p ok found]))"

definition in_world :: "('w, 'a) ef \<Rightarrow> ('w attempt, 'a) ef" where
  "in_world f s = (case s of (m, ps) \<Rightarrow> case on_world f m of (r, m') \<Rightarrow> (r, (m', ps)))"

definition comparisons :: "tolerances \<Rightarrow> (recovery_phase \<times> (rsnapshot \<Rightarrow> discrepancy list res)) list" where
  "comparisons tol = [(RECONCILE_ORDERS, reconcile_orders tol), (RECONCILE_POSITIONS, reconcile_positions tol),
     (RECONCILE_CASH, reconcile_cash tol), (IDENTIFY_UNKNOWN_ORDERS, identify_unknown_orders)]"

definition compare_phase ::
  "rsnapshot \<Rightarrow> recovery_phase \<times> (rsnapshot \<Rightarrow> discrepancy list res) \<Rightarrow> ('w attempt, discrepancy list) ef" where
  "compare_phase snap = (\<lambda>(p, f). ef_bind (ef_lift (f snap)) (\<lambda>found.
     ef_seq (note_phase p (found = []) found) (ef_return found)))"

definition missing_with :: "string \<Rightarrow> rsnapshot \<Rightarrow> string list" where
  "missing_with prefix snap = filter (is_prefix prefix) (rs_unavailable snap)"

text \<open>Step 8b: after a resolution everything is fetched and compared again.\<close>

definition resolve_and_verify ::
  "'w recovery_config \<Rightarrow> reconciliation_result \<Rightarrow> ('w attempt, reconciliation_result \<times> string list) ef" where
  "resolve_and_verify cf r =
     ef_bind (if result_ok r then ef_return [] else in_world (resolve_safely cf r)) (\<lambda>resolutions.
     ef_seq (note_phase RESOLVE (result_ok r \<or> resolutions \<noteq> []) [])
       (if resolutions = [] then ef_return (r, resolutions)
        else ef_bind (in_world (evaluate (rc_engine cf) (rc_broker cf) (rc_db cf) (rc_local cf))) (\<lambda>verified.
          ef_seq (note_phase VERIFY (result_ok verified) (rr_discrepancies verified))
            (ef_return (verified, resolutions)))))"

definition compare_all ::
  "'w recovery_config \<Rightarrow> rsnapshot \<Rightarrow> ('w attempt, reconciliation_result) ef" where
  "compare_all cf snap =
     ef_bind (ef_iter (compare_phase snap) (comparisons (re_tol (rc_engine cf)))) (\<lambda>found.
     let r = classify snap (concat found) in
     ef_seq (note_phase IDENTIFY_MISMATCHES (result_ok r) (rr_discrepancies r)) (ef_return r))"

definition recovery_body ::
  "'w recovery_config \<Rightarrow> ('w attempt, reconciliation_result \<times> string list) ef" where
  "recovery_body cf =
     (let (store, snap0) = resolve_local_state (rc_engine cf) (rc_db cf) (rc_local cf) empty_snapshot in
      ef_bind (in_world (fetch_local store snap0)) (\<lambda>snap1.
      ef_seq (note_phase LOAD_LOCAL_STATE (missing_with ''local_'' snap1 = []) [])
     (ef_bind (in_world (fetch_broker (rc_broker cf) snap1)) (\<lambda>snap.
      ef_seq (note_phase QUERY_BROKER (missing_with ''broker_'' snap = []) [])
     (ef_bind (compare_all cf snap) (resolve_and_verify cf))))))"

text \<open>\<open>_enter_ready\<close>: the only transition into \<open>READY\<close>.\<close>

definition enter_ready :: "reconciliation_result \<Rightarrow> ('w manager, unit) ef" where
  "enter_ready r = (if rr_status r \<noteq> RECONCILIATION_OK
     then ef_raise (PyExn ''AssertionError'' ''READY is reachable only via RECONCILIATION_OK'')
     else ef_modify (\<lambda>m. m\<lparr>mg_state := READY, mg_reason := ''''\<rparr>))"

definition report_of ::
  "startup_state \<Rightarrow> reconciliation_result \<Rightarrow> phase_outcome list \<Rightarrow> string list \<Rightarrow> string \<Rightarrow> recovery_report" where
  "report_of st r phases resolutions reason = \<lparr>rp_state = st, rp_status = rr_status r, rp_phases = phases,
     rp_result = r, rp_unresolved = (if st = READY then [] else rr_discrepancies r), rp_resolutions = resolutions,
     rp_blocked_reason = reason, rp_kill_switch = False, rp_kill_switch_error = None\<rparr>"

definition finish ::
  "'w recovery_config \<Rightarrow> bool \<Rightarrow> reconciliation_result \<Rightarrow> phase_outcome list \<Rightarrow> string list \<Rightarrow>
     ('w manager, recovery_report) ef" where
  "finish cf raise_on_kill_failure r phases resolutions =
     (if result_ok r then
        (let report = report_of READY r (phases @ [outcome PERMIT_TRADING True []]) resolutions '''' in
         ef_seq (enter_ready r) (ef_seq (ef_modify (\<lambda>m. m\<lparr>mg_report := Some report\<rparr>)) (ef_return report)))
      else
        (let reason = rr_recommendation r;
             report = report_of BLOCKED r (phases @ [outcome PERMIT_TRADING False []]) resolutions reason in
         ef_seq (ef_modify (\<lambda>m. (set_blocked reason m)\<lparr>mg_report := Some report\<rparr>))
        (ef_bind (ef_try (on_world (enforce (rc_engine cf) r False))) (\<lambda>done.
         case done of
           Inr r' \<Rightarrow> (let final = report\<lparr>rp_kill_switch := rr_kill_switch r'\<rparr> in
             ef_seq (ef_modify (\<lambda>m. m\<lparr>mg_report := Some final\<rparr>)) (ef_return final))
         | Inl e \<Rightarrow> (let final = report\<lparr>rp_kill_switch_error := Some e\<rparr> in
             ef_seq (ef_modify (\<lambda>m. m\<lparr>mg_report := Some final\<rparr>))
               (if raise_on_kill_failure then ef_raise e else ef_return final))))))"

text \<open>\<open>recover\<close>. Any exception of the body ends in \<open>RECONCILIATION_ERROR\<close>; the body never
  activates the switch, so the clause for \<open>KillSwitchActivationError\<close> is for a resolver or a
  comparison that raises it.\<close>

definition is_kill_switch_error :: "exn \<Rightarrow> bool" where
  "is_kill_switch_error e = (case e of KillSwitchActivationError _ \<Rightarrow> True | _ \<Rightarrow> False)"

definition start_recovery :: "'w recovery_config \<Rightarrow> bool \<Rightarrow> ('w manager, recovery_report) ef" where
  "start_recovery cf raise_on_kill_failure m0 =
     (let m = m0\<lparr>mg_state := RECOVERING, mg_reason := ''recovery in progress''\<rparr> in
      case recovery_body cf (m, []) of
        (Inr (r, resolutions), (m', phases)) \<Rightarrow> finish cf raise_on_kill_failure r phases resolutions m'
      | (Inl e, (m', phases)) \<Rightarrow>
          if is_kill_switch_error e then (Inl e, set_blocked (exn_msg e) m')
          else finish cf raise_on_kill_failure
            ((error_result e)\<lparr>rr_recommendation := ''Recovery itself failed.''\<rparr>)
            (phases @ [outcome IDENTIFY_MISMATCHES False []]) [] m')"

text \<open>\<open>block\<close>: a later pass failed.\<close>

definition block_trading :: "string \<Rightarrow> 'w manager \<Rightarrow> 'w manager" where
  "block_trading reason m = set_blocked reason m"

end
