(* ===== verification/Reconcile_Proofs.thy ===== *)
theory Reconcile_Proofs
  imports Reconcile
begin

text \<open>
  What \<open>RECONCILIATION_OK\<close> means: a specification of agreement that speaks of the rows of both sides
  and not of findings, and the proof that a pass reports \<open>OK\<close> exactly when everything was read and
  the two sides agree. Then the fail-closed behaviour of the whole pass.
\<close>

section \<open>Dictionaries of open orders\<close>

lemma find_map_of: "find (\<lambda>x. f x = k) xs = map_of (map (\<lambda>x. (f x, x)) xs) k"
  by (induction xs) auto

lemma find_filter: "find P (filter Q xs) = find (\<lambda>x. Q x \<and> P x) xs"
  by (induction xs) auto

text \<open>The live order of an id: the last row that is live and carries it.\<close>

definition open_order :: "row list \<Rightarrow> string \<Rightarrow> row option" where
  "open_order rows oid = find (\<lambda>r. live_row r = Inr True \<and> row_oid r = oid) (rev rows)"

lemma open_orders_Inr:
  "open_orders rows = Inr m \<longleftrightarrow> (\<forall>r \<in> set rows. \<exists>b. live_row r = Inr b) \<and>
     m = dict_of (map (\<lambda>r. (row_oid r, r)) (filter (\<lambda>r. live_row r = Inr True) rows))"
  by (auto simp: open_orders_def res_filter_Inr)

lemma open_orders_lookup:
  assumes "open_orders rows = Inr m"
  shows "map_of m oid = open_order rows oid" "(oid, r) \<in> set m \<longleftrightarrow> open_order rows oid = Some r"
proof -
  have m: "m = dict_of (map (\<lambda>r. (row_oid r, r)) (filter (\<lambda>r. live_row r = Inr True) rows))"
    using assms by (simp add: open_orders_Inr)
  show lookup: "map_of m oid = open_order rows oid"
    by (simp add: m map_of_dict open_order_def find_filter rev_filter rev_map find_map_of [symmetric])
  have "map_of m oid = Some r \<longleftrightarrow> (oid, r) \<in> set m"
    unfolding m by (rule map_of_eq_Some_iff [OF distinct_dict])
  then show "(oid, r) \<in> set m \<longleftrightarrow> open_order rows oid = Some r" by (simp only: lookup)
qed

lemma open_orders_Inl:
  assumes "open_orders rows = Inl e"
  shows "\<not> (\<forall>r \<in> set rows. \<exists>c. live_row r = Inr c)"
proof
  assume "\<forall>r \<in> set rows. \<exists>c. live_row r = Inr c"
  then have "open_orders rows = Inr (dict_of (map (\<lambda>r. (row_oid r, r)) (filter (\<lambda>r. live_row r = Inr True) rows)))"
    by (simp add: open_orders_Inr)
  with assms show False by simp
qed

lemma ball_open:
  assumes "open_orders rows = Inr m"
  shows "(\<forall>x \<in> set m. P x) \<longleftrightarrow> (\<forall>oid r. open_order rows oid = Some r \<longrightarrow> P (oid, r))"
  using open_orders_lookup(2) [OF assms] by (metis surj_pair)

lemma fst_in_map_of: "k \<in> fst ` set m \<longleftrightarrow> map_of m k \<noteq> None"
  by (metis map_of_eq_None_iff)

section \<open>Fill groups\<close>

definition fills_of :: "row list \<Rightarrow> string \<Rightarrow> row list" where
  "fills_of rows oid = filter (\<lambda>r. fill_oid r = Some oid) rows"

definition group_of :: "row list \<Rightarrow> fill_group" where
  "group_of rows = \<lparr>fg_symbol = symbol_of_row (hd rows), fg_fills = rows\<rparr>"

definition groups_ok :: "(string \<times> fill_group) list \<Rightarrow> row list \<Rightarrow> bool" where
  "groups_ok m rows \<longleftrightarrow> distinct (map fst m) \<and>
     (\<forall>oid. map_of m oid = (if fills_of rows oid = [] then None else Some (group_of (fills_of rows oid))))"

lemma add_fill_ok: "groups_ok m rows \<Longrightarrow> groups_ok (add_fill m r) (rows @ [r])"
  by (auto simp: groups_ok_def add_fill_def fills_of_def group_of_def distinct_update update_conv'
      simp del: map_of_eq_Some_iff split: option.split if_splits)

lemma group_fold_ok: "groups_ok m rows \<Longrightarrow> groups_ok (foldl add_fill m added) (rows @ added)"
proof (induction added arbitrary: m rows)
  case (Cons r added)
  from Cons.IH [OF add_fill_ok [OF Cons.prems, of r]] show ?case by simp
qed simp

lemma group_fills_ok: "groups_ok (group_fills rows) rows"
  using group_fold_ok [of "[]" "[]" rows] by (simp add: group_fills_def groups_ok_def fills_of_def)

lemma group_lookup:
  "map_of (group_fills rows) oid = (if fills_of rows oid = [] then None else Some (group_of (fills_of rows oid)))"
  "(oid, g) \<in> set (group_fills rows) \<longleftrightarrow> fills_of rows oid \<noteq> [] \<and> g = group_of (fills_of rows oid)"
  "oid \<in> fst ` set (group_fills rows) \<longleftrightarrow> fills_of rows oid \<noteq> []"
  using group_fills_ok [of rows] map_of_eq_Some_iff [of "group_fills rows" oid g]
  by (auto simp: groups_ok_def fst_in_map_of simp del: map_of_eq_Some_iff split: if_splits)

section \<open>Agreement\<close>

definition close_ints :: "int \<Rightarrow> int res \<Rightarrow> int res \<Rightarrow> bool" where
  "close_ints tol a b \<longleftrightarrow> (\<exists>x y. a = Inr x \<and> b = Inr y \<and> \<bar>x - y\<bar> \<le> tol)"

definition same_price :: "pyfloat \<Rightarrow> pyfloat res \<Rightarrow> pyfloat res \<Rightarrow> bool" where
  "same_price tol a b \<longleftrightarrow> (\<exists>x y. a = Inr x \<and> b = Inr y \<and> \<not> price_differs x y tol)"

definition same_order :: "tolerances \<Rightarrow> row \<Rightarrow> row \<Rightarrow> bool" where
  "same_order tol b l \<longleftrightarrow> close_ints (tl_qty tol) (int_of_row b ''quantity'') (int_of_row l ''quantity'') \<and>
     close_ints (tl_qty tol) (int_of_row b ''filled_quantity'') (int_of_row l ''filled_quantity'')"

definition same_fills :: "tolerances \<Rightarrow> row list \<Rightarrow> row list \<Rightarrow> bool" where
  "same_fills tol b l \<longleftrightarrow> close_ints (tl_qty tol) (total_qty (group_of b)) (total_qty (group_of l)) \<and>
     length b = length l \<and> same_price (tl_price tol) (vwap (group_of b)) (vwap (group_of l))"

definition same_position :: "tolerances \<Rightarrow> row \<Rightarrow> row \<Rightarrow> bool" where
  "same_position tol b l \<longleftrightarrow> close_ints (tl_qty tol) (int_of_row b ''quantity'') (int_of_row l ''quantity'') \<and>
     same_price (tl_price tol) (float_of_row b ''average_price'') (float_of_row l ''average_price'') \<and>
     (int_of_row l ''quantity'' \<noteq> Inr 0 \<longrightarrow> int_of_row b ''quantity'' \<noteq> Inr 0)"

definition both :: "('a \<Rightarrow> 'a \<Rightarrow> bool) \<Rightarrow> 'a option \<Rightarrow> 'a option \<Rightarrow> bool" where
  "both P a b \<longleftrightarrow> (case (a, b) of (None, None) \<Rightarrow> True | (Some x, Some y) \<Rightarrow> P x y | _ \<Rightarrow> False)"

text \<open>A position on one side only is tolerated where its quantity is zero.\<close>

definition agreeing_position :: "tolerances \<Rightarrow> row option \<Rightarrow> row option \<Rightarrow> bool" where
  "agreeing_position tol b l \<longleftrightarrow> (case (b, l) of
     (None, None) \<Rightarrow> True
   | (Some x, None) \<Rightarrow> int_of_row x ''quantity'' = Inr 0
   | (None, Some y) \<Rightarrow> int_of_row y ''quantity'' = Inr 0
   | (Some x, Some y) \<Rightarrow> same_position tol x y)"

definition same_cash :: "tolerances \<Rightarrow> row \<Rightarrow> row \<Rightarrow> string \<Rightarrow> bool" where
  "same_cash tol b l field \<longleftrightarrow> (field \<in> set (map fst b) \<and> field \<in> set (map fst l) \<longrightarrow>
     (\<exists>x y. to_float (row_get b field) = Inr (Some x) \<and> to_float (row_get l field) = Inr (Some y) \<and>
        \<not> fmax (tl_cash_abs tol) (\<bar>x\<bar> * tl_cash_pct tol) < \<bar>x - y\<bar>))"

definition known_status :: "row \<Rightarrow> bool" where
  "known_status r \<longleftrightarrow> (\<exists>c. classify_order_status (row_get r ''status'') = Inr c \<and> c \<noteq> Unrecognised)"

definition identified :: "row \<Rightarrow> bool" where
  "identified r \<longleftrightarrow> no_broker_id (row_get r ''order_id'') \<longrightarrow>
     classify_order_status (row_get r ''status'') = Inr Finished"

record books =
  bk_positions :: "row list"
  bk_orders :: "row list"
  bk_trades :: "row list"
  bk_cash :: row

definition agree :: "tolerances \<Rightarrow> books \<Rightarrow> books \<Rightarrow> bool" where
  "agree tol b l \<longleftrightarrow>
     (\<forall>r \<in> set (bk_orders b) \<union> set (bk_orders l). known_status r) \<and> (\<forall>r \<in> set (bk_orders l). identified r) \<and>
     (\<forall>oid. both (same_order tol) (open_order (bk_orders b) oid) (open_order (bk_orders l) oid)) \<and>
     (\<forall>oid. fills_of (bk_trades b) oid = [] \<and> fills_of (bk_trades l) oid = [] \<or>
        fills_of (bk_trades b) oid \<noteq> [] \<and> fills_of (bk_trades l) oid \<noteq> [] \<and>
        same_fills tol (fills_of (bk_trades b) oid) (fills_of (bk_trades l) oid)) \<and>
     (\<exists>bm lm. position_map (bk_positions b) = Inr bm \<and> position_map (bk_positions l) = Inr lm \<and>
        (\<forall>key. agreeing_position tol (map_of bm key) (map_of lm key))) \<and>
     (\<forall>field \<in> set cash_fields. same_cash tol (bk_cash b) (bk_cash l) field)"

definition snap_of :: "books \<Rightarrow> books \<Rightarrow> rsnapshot" where
  "snap_of b l = \<lparr>rs_broker_positions = Some (bk_positions b), rs_broker_orders = Some (bk_orders b),
     rs_broker_trades = Some (bk_trades b), rs_broker_cash = Some (bk_cash b),
     rs_local_positions = Some (bk_positions l), rs_local_orders = Some (bk_orders l),
     rs_local_trades = Some (bk_trades l), rs_local_cash = Some (bk_cash l), rs_unavailable = []\<rparr>"

lemma snap_fields [simp]:
  "rs_unavailable (snap_of b l) = []" "rows_or (rs_broker_orders (snap_of b l)) = bk_orders b"
  "rows_or (rs_local_orders (snap_of b l)) = bk_orders l" "rows_or (rs_broker_trades (snap_of b l)) = bk_trades b"
  "rows_or (rs_local_trades (snap_of b l)) = bk_trades l" "rows_or (rs_broker_positions (snap_of b l)) = bk_positions b"
  "rows_or (rs_local_positions (snap_of b l)) = bk_positions l" "row_or (rs_broker_cash (snap_of b l)) = bk_cash b"
  "row_or (rs_local_cash (snap_of b l)) = bk_cash l" "comparable (snap_of b l) names"
  by (simp_all add: snap_of_def rows_or_def row_or_def comparable_def)

section \<open>Each comparison finds nothing exactly when its part agrees\<close>

lemma compare_order_Nil: "compare_order tol oid b l = Inr [] \<longleftrightarrow> same_order tol b l"
  by (auto simp: compare_order_def same_order_def close_ints_def not_less)

lemma fill_count_group [simp]: "fill_count (group_of rows) = length rows"
  by (simp add: fill_count_def group_of_def)

lemma compare_fills_Nil: "compare_fills tol oid (group_of b) (group_of l) = Inr [] \<longleftrightarrow> same_fills tol b l"
  by (auto simp: compare_fills_def same_fills_def close_ints_def same_price_def not_less)

lemma compare_cash_Nil: "compare_cash tol b l field = Inr [] \<longleftrightarrow> same_cash tol b l field"
proof (cases "field \<in> set (map fst b) \<and> field \<in> set (map fst l)")
  case True
  show ?thesis
    using True by (cases "to_float (row_get b field)"; cases "to_float (row_get l field)")
      (auto simp: compare_cash_def same_cash_def split: option.split)
qed (auto simp: compare_cash_def same_cash_def)

lemma append_Nil_res: "res_bind a (\<lambda>x. res_bind b (\<lambda>y. Inr (x @ y))) = Inr [] \<longleftrightarrow> a = Inr [] \<and> b = Inr []"
  by auto

lemma ball_groups:
  "(\<forall>x \<in> set (group_fills rows). P x) \<longleftrightarrow>
     (\<forall>oid. fills_of rows oid \<noteq> [] \<longrightarrow> P (oid, group_of (fills_of rows oid)))"
proof
  assume "\<forall>x \<in> set (group_fills rows). P x"
  then show "\<forall>oid. fills_of rows oid \<noteq> [] \<longrightarrow> P (oid, group_of (fills_of rows oid))"
    by (simp add: group_lookup(2))
next
  assume *: "\<forall>oid. fills_of rows oid \<noteq> [] \<longrightarrow> P (oid, group_of (fills_of rows oid))"
  show "\<forall>x \<in> set (group_fills rows). P x"
  proof
    fix x assume x: "x \<in> set (group_fills rows)"
    obtain oid g where "x = (oid, g)" by (cases x)
    with x * show "P x" by (simp add: group_lookup(2))
  qed
qed

lemma fills_Nil:
  "reconcile_fills tol (snap_of b l) = Inr [] \<longleftrightarrow>
     (\<forall>oid. fills_of (bk_trades b) oid = [] \<and> fills_of (bk_trades l) oid = [] \<or>
        fills_of (bk_trades b) oid \<noteq> [] \<and> fills_of (bk_trades l) oid \<noteq> [] \<and>
        same_fills tol (fills_of (bk_trades b) oid) (fills_of (bk_trades l) oid))"
proof -
  let ?b = "fills_of (bk_trades b)" and ?l = "fills_of (bk_trades l)"
  let ?bs = "group_fills (bk_trades b)" and ?ls = "group_fills (bk_trades l)"
  define one where "one = (\<lambda>(oid, bg). case map_of ?ls oid of
      None \<Rightarrow> res_bind (total_qty bg) (\<lambda>q. Inr [finding MISSING_LOCAL (fg_symbol bg) (Some oid) (PInt q) PNone])
    | Some lg \<Rightarrow> compare_fills tol oid bg lg)"
  define other where "other = (\<lambda>(oid, lg). if oid \<in> set (map fst ?bs) then Inr []
    else res_bind (total_qty lg) (\<lambda>q. Inr [finding MISSING_BROKER (fg_symbol lg) (Some oid) PNone (PInt q)]))"
  have one: "one (oid, group_of rows) = Inr [] \<longleftrightarrow> ?l oid \<noteq> [] \<and> same_fills tol rows (?l oid)" for oid rows
    by (simp add: one_def group_lookup(1) compare_fills_Nil)
  have other: "other (oid, g) = Inr [] \<longleftrightarrow> ?b oid \<noteq> []" for oid g
    by (simp add: other_def group_lookup(3))
  have "reconcile_fills tol (snap_of b l) = Inr [] \<longleftrightarrow> (\<forall>x \<in> set ?bs. one x = Inr []) \<and> (\<forall>x \<in> set ?ls. other x = Inr [])"
    by (simp only: reconcile_fills_def Let_def snap_fields one_def [symmetric] other_def [symmetric] append_Nil_res
        res_concat_Nil not_True_eq_False if_False)
  then show ?thesis by (simp only: ball_groups one other) blast
qed

lemma both_iff:
  "both P a b \<longleftrightarrow> (\<forall>x. a = Some x \<longrightarrow> b \<noteq> None) \<and> (\<forall>y. b = Some y \<longrightarrow> a \<noteq> None) \<and>
     (\<forall>x y. a = Some x \<longrightarrow> b = Some y \<longrightarrow> P x y)"
  by (cases a; cases b) (auto simp: both_def)

lemma orders_Nil:
  "reconcile_orders tol (snap_of b l) = Inr [] \<longleftrightarrow>
     (\<forall>r \<in> set (bk_orders b) \<union> set (bk_orders l). \<exists>c. live_row r = Inr c) \<and>
     (\<forall>oid. both (same_order tol) (open_order (bk_orders b) oid) (open_order (bk_orders l) oid)) \<and>
     reconcile_fills tol (snap_of b l) = Inr []"
proof (cases "open_orders (bk_orders b)")
  case (Inl e)
  with open_orders_Inl [OF Inl] show ?thesis by (auto simp: reconcile_orders_def)
next
  case bs: (Inr bs)
  show ?thesis
  proof (cases "open_orders (bk_orders l)")
    case (Inl e)
    with bs open_orders_Inl [OF Inl] show ?thesis by (auto simp: reconcile_orders_def)
  next
    case ls: (Inr ls)
    have readable: "\<forall>r \<in> set (bk_orders b) \<union> set (bk_orders l). \<exists>c. live_row r = Inr c"
      using bs ls by (auto simp: open_orders_Inr)
    have "reconcile_orders tol (snap_of b l) = Inr [] \<longleftrightarrow>
        (\<forall>oid r. open_order (bk_orders b) oid = Some r \<longrightarrow> open_order (bk_orders l) oid \<noteq> None) \<and>
        (\<forall>oid r. open_order (bk_orders l) oid = Some r \<longrightarrow> open_order (bk_orders b) oid \<noteq> None) \<and>
        (\<forall>oid r r'. open_order (bk_orders b) oid = Some r \<longrightarrow> open_order (bk_orders l) oid = Some r' \<longrightarrow>
           same_order tol r r') \<and> reconcile_fills tol (snap_of b l) = Inr []"
      by (auto simp: reconcile_orders_def bs ls Let_def res_concat_Nil ball_open [OF bs] ball_open [OF ls]
          open_orders_lookup(1) [OF bs] open_orders_lookup(1) [OF ls] fst_in_map_of filter_empty_conv compare_order_Nil
          split: option.splits)
    with readable show ?thesis by (auto simp: both_iff)
  qed
qed

lemma ball_dict:
  assumes "distinct (map fst m)"
  shows "(\<forall>x \<in> set m. P x) \<longleftrightarrow> (\<forall>k v. map_of m k = Some v \<longrightarrow> P (k, v))"
  using map_of_eq_Some_iff [OF assms] by (metis surj_pair)

lemma position_fold_distinct: "position_fold m ps = Inr m' \<Longrightarrow> distinct (map fst m) \<Longrightarrow> distinct (map fst m')"
  by (induction m ps arbitrary: m' rule: position_fold.induct)
    (auto simp: Let_def distinct_update split: option.splits)

lemma position_map_distinct: "position_map rows = Inr m \<Longrightarrow> distinct (map fst m)"
  using position_fold_distinct [of "[]" rows m] by (simp add: position_map_def)

lemma untracked_Nil:
  "untracked_position ls (key, b) = Inr [] \<longleftrightarrow>
     (\<exists>q. int_of_row b ''quantity'' = Inr q \<and> (q = 0 \<or> map_of ls key \<noteq> None))"
  by (auto simp: untracked_position_def map_of_eq_None_iff split: if_splits)

lemma vanished_Nil:
  "vanished_position bs (key, l) = Inr [] \<longleftrightarrow>
     (\<exists>q. int_of_row l ''quantity'' = Inr q \<and> (q = 0 \<or>
        (\<exists>b bq. map_of bs key = Some b \<and> int_of_row b ''quantity'' = Inr bq \<and> bq \<noteq> 0)))"
  by (cases "int_of_row l ''quantity''"; cases "map_of bs key")
    (auto simp: vanished_position_def Let_def split: if_splits)

lemma compare_position_Nil:
  "compare_position tol key b l = Inr [] \<longleftrightarrow>
     close_ints (tl_qty tol) (int_of_row b ''quantity'') (int_of_row l ''quantity'') \<and>
     same_price (tl_price tol) (float_of_row b ''average_price'') (float_of_row l ''average_price'')"
  by (auto simp: compare_position_def close_ints_def same_price_def not_less)

lemma agreeing_iff:
  "agreeing_position tol b l \<longleftrightarrow>
     (\<forall>x. b = Some x \<longrightarrow> (\<exists>q. int_of_row x ''quantity'' = Inr q \<and> (q = 0 \<or> l \<noteq> None))) \<and>
     (\<forall>y. l = Some y \<longrightarrow> (\<exists>q. int_of_row y ''quantity'' = Inr q \<and> (q = 0 \<or>
        (\<exists>x bq. b = Some x \<and> int_of_row x ''quantity'' = Inr bq \<and> bq \<noteq> 0)))) \<and>
     (\<forall>x. b = Some x \<longrightarrow> (\<forall>y. l = Some y \<longrightarrow>
        close_ints (tl_qty tol) (int_of_row x ''quantity'') (int_of_row y ''quantity'') \<and>
        same_price (tl_price tol) (float_of_row x ''average_price'') (float_of_row y ''average_price'')))"
  by (cases b; cases l) (auto simp: agreeing_position_def same_position_def close_ints_def)

lemma positions_Nil:
  "reconcile_positions tol (snap_of b l) = Inr [] \<longleftrightarrow>
     (\<exists>bm lm. position_map (bk_positions b) = Inr bm \<and> position_map (bk_positions l) = Inr lm \<and>
        (\<forall>key. agreeing_position tol (map_of bm key) (map_of lm key)))"
proof (cases "position_map (bk_positions b)")
  case bm: (Inr bm)
  show ?thesis
  proof (cases "position_map (bk_positions l)")
    case lm: (Inr lm)
    define third where "third = (\<lambda>(key, b). case map_of lm key of None \<Rightarrow> Inr [] | Some l \<Rightarrow> compare_position tol key b l)"
    have third: "third (key, x) = Inr [] \<longleftrightarrow> (\<forall>y. map_of lm key = Some y \<longrightarrow>
        close_ints (tl_qty tol) (int_of_row x ''quantity'') (int_of_row y ''quantity'') \<and>
        same_price (tl_price tol) (float_of_row x ''average_price'') (float_of_row y ''average_price''))" for key x
      by (simp add: third_def compare_position_Nil split: option.split)
    have "reconcile_positions tol (snap_of b l) = Inr [] \<longleftrightarrow>
        (\<forall>x \<in> set bm. untracked_position lm x = Inr []) \<and> (\<forall>x \<in> set lm. vanished_position bm x = Inr []) \<and>
        (\<forall>x \<in> set bm. third x = Inr [])"
      by (simp add: reconcile_positions_def bm lm third_def [symmetric] res_concat_Nil)
    also have "\<dots> \<longleftrightarrow> (\<forall>key. agreeing_position tol (map_of bm key) (map_of lm key))"
      by (simp only: ball_dict [OF position_map_distinct [OF bm]] ball_dict [OF position_map_distinct [OF lm]]
          untracked_Nil vanished_Nil third agreeing_iff all_conj_distrib)
    finally show ?thesis by (simp add: bm lm)
  qed (simp add: reconcile_positions_def bm)
qed (simp add: reconcile_positions_def)

lemma cash_Nil: "reconcile_cash tol (snap_of b l) = Inr [] \<longleftrightarrow> (\<forall>field \<in> set cash_fields. same_cash tol (bk_cash b) (bk_cash l) field)"
  by (simp add: reconcile_cash_def res_concat_Nil compare_cash_Nil)

section \<open>Order states\<close>

lemma strip_fixed:
  assumes "t \<noteq> [] \<Longrightarrow> \<not> P (hd t)"
  shows "dropWhile P (rev (dropWhile P (rev t))) = rev (dropWhile P (rev t))"
proof (cases t)
  case (Cons h t')
  with assms have "\<not> P h" by simp
  then have "\<exists>u. dropWhile P (rev t) = u @ [h]"
    by (cases "\<forall>x \<in> set t'. P x") (auto simp: Cons dropWhile_append)
  with \<open>\<not> P h\<close> show ?thesis by auto
qed simp

lemma strip_idem: "py_strip (py_strip s) = py_strip s"
proof -
  let ?t = "dropWhile is_space s"
  have h: "?t \<noteq> [] \<Longrightarrow> \<not> is_space (hd ?t)" by (rule hd_dropWhile)
  show ?thesis using strip_fixed [of ?t is_space, OF h] by (simp add: py_strip_def)
qed

lemma space_upper: "is_space (upper_char c) = is_space c"
  by (auto simp: is_space_def upper_char_def Let_def)

lemma strip_upper: "py_strip (py_upper s) = py_upper (py_strip s)"
proof -
  have "dropWhile is_space (map upper_char t) = map upper_char (dropWhile is_space t)" for t
    by (induction t) (simp_all add: space_upper)
  then show ?thesis by (simp add: py_strip_def py_upper_def rev_map)
qed

lemma upper_idem: "py_upper (py_upper s) = py_upper s"
  by (auto simp: py_upper_def upper_char_def Let_def)

lemma status_text_normal: "status_text v = Inr s \<Longrightarrow> py_upper (py_strip s) = s"
proof -
  have "py_upper (py_strip (py_upper (py_strip t))) = py_upper (py_strip t)" for t
    by (simp only: strip_upper strip_idem upper_idem)
  moreover have "py_upper (py_strip []) = []" by (simp add: py_upper_def py_strip_def)
  moreover assume "status_text v = Inr s"
  ultimately show ?thesis by (cases v) (auto simp: status_text_def split: if_splits)
qed

lemma class_Finished: "class_of s = Finished \<longleftrightarrow> s \<in> set TERMINAL_STATUSES"
proof -
  have "set OPEN_STATUSES \<inter> set TERMINAL_STATUSES = {}" by (simp add: OPEN_STATUSES_def TERMINAL_STATUSES_def)
  then show ?thesis by (auto simp: class_of_def)
qed

lemma unknown_broker_Nil: "unknown_broker r = Inr [] \<longleftrightarrow> known_status r"
  using status_text_normal [of "row_get r ''status''"]
  by (cases "status_text (row_get r ''status'')") (auto simp: unknown_broker_def known_status_def classify_order_status_def)

lemma unknown_local_Nil: "unknown_local snap r = Inr [] \<longleftrightarrow> known_status r \<and> identified r"
  using status_text_normal [of "row_get r ''status''"]
  by (cases "status_text (row_get r ''status'')")
    (auto simp: unknown_local_def known_status_def identified_def classify_order_status_def Let_def class_Finished)

lemma known_live: "known_status r \<Longrightarrow> \<exists>c. live_row r = Inr c"
  by (auto simp: known_status_def live_row_def)

lemma unknown_Nil:
  "identify_unknown_orders (snap_of b l) = Inr [] \<longleftrightarrow>
     (\<forall>r \<in> set (bk_orders b) \<union> set (bk_orders l). known_status r) \<and> (\<forall>r \<in> set (bk_orders l). identified r)"
proof -
  have "identify_unknown_orders (snap_of b l) = Inr [] \<longleftrightarrow>
      (\<forall>r \<in> set (bk_orders l). known_status r \<and> identified r) \<and> (\<forall>r \<in> set (bk_orders b). known_status r)"
    by (simp add: identify_unknown_orders_def append_Nil_res res_concat_Nil unknown_local_Nil unknown_broker_Nil
        del: res_bind_eq_Inr)
  then show ?thesis by blast
qed

lemma findings_Nil: "all_findings tol (snap_of b l) = Inr [] \<longleftrightarrow> agree tol b l"
proof -
  have "all_findings tol (snap_of b l) = Inr [] \<longleftrightarrow> reconcile_orders tol (snap_of b l) = Inr [] \<and>
      reconcile_positions tol (snap_of b l) = Inr [] \<and> reconcile_cash tol (snap_of b l) = Inr [] \<and>
      identify_unknown_orders (snap_of b l) = Inr []"
    by (auto simp: all_findings_def)
  then show ?thesis
    using known_live
    unfolding orders_Nil fills_Nil positions_Nil cash_Nil unknown_Nil agree_def by blast
qed

end
