(* ===== verification/Reconcile_Claims.thy ===== *)
theory Reconcile_Claims
  imports Reconcile_Proofs
begin

text \<open>
  Whole passes of the reconciliation engine: what they read, when they report \<open>RECONCILIATION_OK\<close>,
  that they halt trading otherwise, and that two equal, readable sides do reconcile.
\<close>

section \<open>What a pass reads\<close>

fun list_read :: "fetched res \<Rightarrow> row list option" where
  "list_read (Inr (F_List rows)) = Some rows"
| "list_read _ = None"

fun dict_read :: "fetched res \<Rightarrow> row option" where
  "dict_read (Inr (F_Dict r)) = Some r"
| "dict_read _ = None"

text \<open>The four fetches of one side, in the code's order; \<open>None\<close> when one of them failed.\<close>

definition read_books :: "'w source \<Rightarrow> 'w \<Rightarrow> (books \<times> 'w) option" where
  "read_books so w =
     (let (p, w1) = so_positions so w; (o1, w2) = so_orders so w1; (t, w3) = so_trades so w2; (c, w4) = so_cash so w3
      in case (list_read p, list_read o1, list_read t, dict_read c) of
        (Some ps, Some os, Some ts, Some cs) \<Rightarrow>
          Some (\<lparr>bk_positions = ps, bk_orders = os, bk_trades = ts, bk_cash = cs\<rparr>, w4)
      | _ \<Rightarrow> None)"

definition fetched_list :: "(row list option \<Rightarrow> rsnapshot \<Rightarrow> rsnapshot) \<Rightarrow> string \<Rightarrow> fetched res \<Rightarrow> rsnapshot \<Rightarrow> rsnapshot" where
  "fetched_list put name r snap = (case list_read r of Some rows \<Rightarrow> put (Some rows) snap
     | None \<Rightarrow> put None (missing_source name snap))"

definition fetched_dict :: "(row option \<Rightarrow> rsnapshot \<Rightarrow> rsnapshot) \<Rightarrow> string \<Rightarrow> fetched res \<Rightarrow> rsnapshot \<Rightarrow> rsnapshot" where
  "fetched_dict put name r snap = (case dict_read r of Some r1 \<Rightarrow> put (Some r1) snap
     | None \<Rightarrow> put None (missing_source name snap))"

lemma safe_fetch_list_run: "safe_fetch_list get name put snap w = (case get w of (r, w') \<Rightarrow> (Inr (fetched_list put name r snap), w'))"
  by (auto simp: safe_fetch_list_def ef_defs fetched_list_def split: prod.split sum.split fetched.split)

lemma safe_fetch_dict_run: "safe_fetch_dict get name put snap w = (case get w of (r, w') \<Rightarrow> (Inr (fetched_dict put name r snap), w'))"
  by (auto simp: safe_fetch_dict_def ef_defs fetched_dict_def split: prod.split sum.split fetched.split)

definition with_local :: "books \<Rightarrow> rsnapshot \<Rightarrow> rsnapshot" where
  "with_local l snap = snap\<lparr>rs_local_positions := Some (bk_positions l), rs_local_orders := Some (bk_orders l),
     rs_local_trades := Some (bk_trades l), rs_local_cash := Some (bk_cash l)\<rparr>"

definition with_broker :: "books \<Rightarrow> rsnapshot \<Rightarrow> rsnapshot" where
  "with_broker b snap = snap\<lparr>rs_broker_positions := Some (bk_positions b), rs_broker_orders := Some (bk_orders b),
     rs_broker_trades := Some (bk_trades b), rs_broker_cash := Some (bk_cash b)\<rparr>"

lemma with_both: "with_broker b (with_local l empty_snapshot) = snap_of b l"
  by (simp add: with_broker_def with_local_def empty_snapshot_def snap_of_def)

lemma fetch_local_run:
  "\<exists>snap' w'. fetch_local (Some so) snap w = (Inr snap', w') \<and> (case read_books so w of
     Some (l, w2) \<Rightarrow> snap' = with_local l snap \<and> w' = w2 | None \<Rightarrow> rs_unavailable snap' \<noteq> [])"
  by (auto simp: fetch_local_def ef_bind_def safe_fetch_list_run safe_fetch_dict_run fetched_list_def fetched_dict_def
      read_books_def with_local_def missing_source_def split: prod.splits option.splits)

lemma fetch_broker_run:
  "\<exists>snap' w'. fetch_broker so snap w = (Inr snap', w') \<and> (case read_books so w of
     Some (b, w2) \<Rightarrow> snap' = with_broker b snap \<and> w' = w2 | None \<Rightarrow> rs_unavailable snap' \<noteq> []) \<and>
     (rs_unavailable snap \<noteq> [] \<longrightarrow> rs_unavailable snap' \<noteq> [])"
  by (auto simp: fetch_broker_def ef_bind_def safe_fetch_list_run safe_fetch_dict_run fetched_list_def fetched_dict_def
      read_books_def with_broker_def missing_source_def split: prod.splits option.splits)

text \<open>Both sides of a pass: the local one first, as \<open>gather\<close> does.\<close>

definition pass_books ::
  "'w rengine \<Rightarrow> 'w source \<Rightarrow> 'w session option \<Rightarrow> 'w source option \<Rightarrow> 'w \<Rightarrow> (books \<times> books \<times> 'w) option" where
  "pass_books en br db local w = (case fst (resolve_local_state en db local empty_snapshot) of None \<Rightarrow> None
     | Some so \<Rightarrow> (case read_books so w of None \<Rightarrow> None
       | Some (l, w1) \<Rightarrow> (case read_books br w1 of None \<Rightarrow> None | Some (b, w2) \<Rightarrow> Some (b, l, w2))))"

lemma resolve_snap:
  "fst (resolve_local_state en db local empty_snapshot) = Some so \<Longrightarrow>
     snd (resolve_local_state en db local empty_snapshot) = empty_snapshot"
  "fst (resolve_local_state en db local empty_snapshot) = None \<Longrightarrow>
     rs_unavailable (snd (resolve_local_state en db local empty_snapshot)) \<noteq> []"
  by (auto simp: resolve_local_state_def missing_source_def Let_def split: option.split)

lemma gather_run:
  "\<exists>snap w'. gather en br db local w = (Inr snap, w') \<and> (case pass_books en br db local w of
     Some (b, l, w2) \<Rightarrow> snap = snap_of b l \<and> w' = w2 | None \<Rightarrow> rs_unavailable snap \<noteq> [])"
proof (cases "fst (resolve_local_state en db local empty_snapshot)")
  case None
  obtain snap0 where r: "resolve_local_state en db local empty_snapshot = (None, snap0)"
    using None by (cases "resolve_local_state en db local empty_snapshot") simp
  have "rs_unavailable snap0 \<noteq> []" using resolve_snap(2) [OF None] r by simp
  then show ?thesis
    using fetch_broker_run [of br snap0 w] r
    by (auto simp: gather_def pass_books_def fetch_local_def ef_defs)
next
  case (Some so)
  have r: "resolve_local_state en db local empty_snapshot = (Some so, empty_snapshot)"
    using Some resolve_snap(1) [OF Some] by (cases "resolve_local_state en db local empty_snapshot") auto
  obtain snap1 w1 where l: "fetch_local (Some so) empty_snapshot w = (Inr snap1, w1)"
    "case read_books so w of Some (l, w2) \<Rightarrow> snap1 = with_local l empty_snapshot \<and> w1 = w2
       | None \<Rightarrow> rs_unavailable snap1 \<noteq> []"
    using fetch_local_run [of so empty_snapshot w] by blast
  obtain snap2 w2 where b: "fetch_broker br snap1 w1 = (Inr snap2, w2)"
    "case read_books br w1 of Some (b, w3) \<Rightarrow> snap2 = with_broker b snap1 \<and> w2 = w3
       | None \<Rightarrow> rs_unavailable snap2 \<noteq> []" "rs_unavailable snap1 \<noteq> [] \<Longrightarrow> rs_unavailable snap2 \<noteq> []"
    using fetch_broker_run [of br snap1 w1] by blast
  have g: "gather en br db local w = (Inr snap2, w2)"
    by (simp add: gather_def r ef_bind_def l(1) b(1))
  show ?thesis
    using l(2) b(2,3) by (auto simp: g pass_books_def r with_both split: option.splits)
qed

lemma judge_unavailable: "rs_unavailable snap \<noteq> [] \<Longrightarrow> rr_status (judge tol snap) \<noteq> RECONCILIATION_OK"
  by (auto simp: judge_def classify_def result_of_def error_result_def split: sum.split)

lemma judge_ok: "rr_status (judge tol (snap_of b l)) = RECONCILIATION_OK \<longleftrightarrow> agree tol b l"
  unfolding findings_Nil [symmetric]
  by (auto simp: judge_def classify_def result_of_def error_result_def split: sum.split)

lemma evaluate_run:
  "\<exists>r w'. evaluate en br db local w = (Inr r, w') \<and> (rr_status r = RECONCILIATION_OK \<longleftrightarrow>
     (\<exists>b l. pass_books en br db local w = Some (b, l, w') \<and> agree (re_tol en) b l))"
  using gather_run [of en br db local w] judge_unavailable judge_ok
  by (auto simp: evaluate_def ef_defs split: option.splits)

text \<open>C5. A pass reports \<open>RECONCILIATION_OK\<close> exactly when all eight sources were read and the two sides
  agree: the same live orders with the same sizes and fills, every fill accounted for, the same
  positions at the same prices, cash within tolerance, and no order in an unrecognised state. It never raises.\<close>

theorem ok_exactly_on_agreement:
  "\<exists>r w'. evaluate en br db local w = (Inr r, w') \<and> (rr_status r = RECONCILIATION_OK \<longleftrightarrow>
     (\<exists>so l w1 b. fst (resolve_local_state en db local empty_snapshot) = Some so \<and>
        read_books so w = Some (l, w1) \<and> read_books br w1 = Some (b, w') \<and> agree (re_tol en) b l))"
proof -
  have "pass_books en br db local w = Some (b, l, w') \<longleftrightarrow>
      (\<exists>so w1. fst (resolve_local_state en db local empty_snapshot) = Some so \<and>
        read_books so w = Some (l, w1) \<and> read_books br w1 = Some (b, w'))" for b l w'
    by (auto simp: pass_books_def split: option.splits)
  then show ?thesis using evaluate_run [of en br db local w] by metis
qed

section \<open>A pass that is not OK halts trading\<close>

text \<open>With the default policy \<open>reconcile\<close> returns only a result that is \<open>RECONCILIATION_OK\<close>; an outcome
  that is anything else raises, after the switch was set or with an error that says it was not.\<close>

theorem reconcile_returns_only_ok:
  assumes "reconcile en br db local True w = (Inr r, w')"
  shows "rr_status r = RECONCILIATION_OK \<and> (\<exists>b l. pass_books en br db local w = Some (b, l, w') \<and> agree (re_tol en) b l)"
  using assms evaluate_run [of en br db local w]
  by (auto simp: reconcile_def enforce_def ef_defs permits_trading_def split: if_splits sum.splits prod.splits)

lemma activate_error: "activate_kill_switch key store s = (Inl e, s') \<Longrightarrow> \<exists>m. e = KillSwitchActivationError m"
  by (auto simp: activate_kill_switch_def split: option.splits prod.splits sum.splits if_splits)

lemma default_kills_on_failure: "st \<in> set (kill_statuses []) \<longleftrightarrow> st \<noteq> RECONCILIATION_OK"
  by (cases st) (auto simp: kill_statuses_def)

lemma enforce_cases:
  assumes "enforce en r True w = (Inl (ReconciliationError m), w')"
  shows "rr_status r \<noteq> RECONCILIATION_OK \<and> (if rr_status r \<in> set (kill_statuses (re_kill_on en))
     then activate_kill_switch (re_key en) (re_switch en) w = (Inr (), w') else w' = w)"
  using assms activate_error [of "re_key en" "re_switch en" w "ReconciliationError m" w']
  by (auto simp: enforce_def permits_trading_def ef_defs split: if_splits sum.splits prod.splits)

context switch_store
begin

lemma failed_pass_blocks:
  assumes "re_switch en = Some (g, put)" and "re_key en = KILL_SWITCH_KEY"
    and "reconcile en br db local True w = (Inl (ReconciliationError m), w')"
  shows "\<exists>r w1. evaluate en br db local w = (Inr r, w1) \<and> rr_status r \<noteq> RECONCILIATION_OK \<and>
    (if rr_status r \<in> set (kill_statuses (re_kill_on en)) then is_kill_switch_active (\<lambda>k. get k w') else w' = w1)"
proof -
  obtain r w1 where e: "evaluate en br db local w = (Inr r, w1)"
    using evaluate_run [of en br db local w] by blast
  then have "enforce en r True w1 = (Inl (ReconciliationError m), w')"
    using assms(3) by (simp add: reconcile_def ef_defs)
  from enforce_cases [OF this] show ?thesis
    using e activated_blocks [of g w1 "()" w'] assms(1,2) by (auto split: if_splits)
qed

end

section \<open>The file-backed switch\<close>

text \<open>A world that carries the file of the kill switch beside everything else.\<close>

definition file_get :: "string \<Rightarrow> 'e \<times> kill_file \<Rightarrow> kv res" where
  "file_get k w = kf_get k (snd w)"

definition file_put :: "bool \<Rightarrow> string \<Rightarrow> kv \<Rightarrow> ('e \<times> kill_file, unit) ef" where
  "file_put io_ok k v w = (case kf_set io_ok k v (snd w) of (r, f) \<Rightarrow> (r, (fst w, f)))"

interpretation file_world: switch_store file_get "file_put ok" for ok
  by unfold_locales (auto simp: file_get_def file_put_def dest: kf.put_get split: prod.splits)

text \<open>C30. Over the file-backed switch, under the key the order path reads: a pass that raises
  \<open>ReconciliationError\<close> had evaluated to something other than agreement, and if that status is among
  those the engine was told to halt on, the switch is on afterwards, so that the gate of the order path
  refuses every order from then on. An engine that was not given a set of its own halts on every failing
  status. With a narrower set, as \<open>activate_kill_switch_on\<close> allows, a failing pass outside it raises
  and leaves the world, the switch included, as the evaluation left it.\<close>

theorem failed_reconciliation_halts:
  assumes "re_switch en = Some (Some file_get, file_put ok)" and "re_key en = KILL_SWITCH_KEY"
    and "reconcile en br db local True w = (Inl (ReconciliationError m), w')"
  shows "(\<exists>r w1. evaluate en br db local w = (Inr r, w1) \<and> rr_status r \<noteq> RECONCILIATION_OK \<and>
      (if rr_status r \<in> set (kill_statuses (re_kill_on en)) then is_kill_switch_active (\<lambda>k. file_get k w')
       else w' = w1)) \<and>
    (re_kill_on en = [] \<longrightarrow> is_kill_switch_active (\<lambda>k. file_get k w'))"
  using file_world.failed_pass_blocks [OF assms] by (auto simp: default_kills_on_failure)

section \<open>Fills are never collapsed\<close>

text \<open>Grouping the trade book keeps every fill of every order, in its order.\<close>

theorem grouping_keeps_every_fill:
  "map_of (group_fills rows) oid = (case filter (\<lambda>r. fill_oid r = Some oid) rows of [] \<Rightarrow> None
     | r # rest \<Rightarrow> Some \<lparr>fg_symbol = symbol_of_row r, fg_fills = r # rest\<rparr>)"
  using group_lookup(1) [of rows oid] by (simp add: fills_of_def group_of_def split: list.split)

section \<open>Equal sides reconcile\<close>

definition readable_number :: "row \<Rightarrow> string \<Rightarrow> bool" where
  "readable_number r k \<longleftrightarrow> (\<exists>q. int_of_row r k = Inr q)"

definition well_formed :: "books \<Rightarrow> bool" where
  "well_formed k \<longleftrightarrow>
     (\<forall>r \<in> set (bk_orders k). known_status r \<and> identified r \<and> readable_number r ''quantity'' \<and>
        readable_number r ''filled_quantity'') \<and>
     (\<forall>r \<in> set (bk_trades k). \<forall>oid. fill_oid r = Some oid \<longrightarrow>
        (\<exists>q p. total_qty (group_of (fills_of (bk_trades k) oid)) = Inr q \<and> vwap (group_of (fills_of (bk_trades k) oid)) = Inr p)) \<and>
     (\<exists>m. position_map (bk_positions k) = Inr m \<and>
        (\<forall>(_, r) \<in> set m. readable_number r ''quantity'' \<and> (\<exists>p. float_of_row r ''average_price'' = Inr p))) \<and>
     (\<forall>field \<in> set cash_fields. field \<in> set (map fst (bk_cash k)) \<longrightarrow> (\<exists>x. to_float (row_get (bk_cash k) field) = Inr (Some x)))"

definition sane_tolerances :: "tolerances \<Rightarrow> bool" where
  "sane_tolerances t \<longleftrightarrow> 0 \<le> tl_qty t \<and> Fin 0 \<le> tl_price t \<and> Fin 0 \<le> tl_cash_abs t"

lemma minus_self: "\<bar>x - x\<bar> = Fin 0 \<or> \<bar>x - x\<bar> = NaN" for x :: pyfloat
  by (cases x) (simp_all add: minus_pyfloat_def)

lemma not_less_zero: "Fin 0 \<le> t \<Longrightarrow> \<not> t < Fin 0" for t :: pyfloat
  by (cases t) simp_all

lemma price_same: "Fin 0 \<le> t \<Longrightarrow> \<not> price_differs x x t"
proof -
  assume t: "Fin 0 \<le> t"
  have "fquot \<bar>x - x\<bar> (fmax x x) = Fin 0 \<or> fquot \<bar>x - x\<bar> (fmax x x) = NaN"
    by (cases x) (auto simp: minus_pyfloat_def fquot_def fmax_def)
  then show ?thesis using t by (cases t) (auto simp: price_differs_def not_less_zero)
qed

lemma fmax_nonneg: "Fin 0 \<le> a \<Longrightarrow> Fin 0 \<le> fmax a b"
  by (cases a; cases b) (auto simp: fmax_def)

lemma cash_same: "Fin 0 \<le> a \<Longrightarrow> \<not> fmax a c < \<bar>x - x\<bar>" for x :: pyfloat
proof -
  assume a: "Fin 0 \<le> a"
  have "\<not> y < NaN" for y :: pyfloat by (cases y) simp_all
  then show ?thesis using minus_self [of x] not_less_zero [OF fmax_nonneg [OF a, of c]] by metis
qed

lemma find_in_set: "find P xs = Some x \<Longrightarrow> x \<in> set xs"
  by (induction xs) (auto split: if_splits)

lemma agree_refl:
  assumes "well_formed k" and "sane_tolerances tol"
  shows "agree tol k k"
proof -
  have t: "0 \<le> tl_qty tol" "Fin 0 \<le> tl_price tol" "Fin 0 \<le> tl_cash_abs tol"
    using assms(2) by (simp_all add: sane_tolerances_def)
  have orders: "both (same_order tol) (open_order (bk_orders k) oid) (open_order (bk_orders k) oid)" for oid
  proof (cases "open_order (bk_orders k) oid")
    case (Some r)
    then have "r \<in> set (bk_orders k)" by (auto simp: open_order_def dest: find_in_set)
    then show ?thesis
      using assms(1) t Some by (auto simp: well_formed_def both_def same_order_def close_ints_def readable_number_def)
  qed (simp add: both_def)
  have fills: "same_fills tol (fills_of (bk_trades k) oid) (fills_of (bk_trades k) oid)"
    if some: "fills_of (bk_trades k) oid \<noteq> []" for oid
  proof -
    obtain r where "r \<in> set (bk_trades k)" "fill_oid r = Some oid"
      using some by (auto simp: fills_of_def filter_empty_conv)
    then obtain q p where "total_qty (group_of (fills_of (bk_trades k) oid)) = Inr q"
      "vwap (group_of (fills_of (bk_trades k) oid)) = Inr p"
      using assms(1) unfolding well_formed_def by blast
    then show ?thesis using t price_same by (simp add: same_fills_def close_ints_def same_price_def)
  qed
  obtain m where m: "position_map (bk_positions k) = Inr m"
    "\<forall>(_, r) \<in> set m. readable_number r ''quantity'' \<and> (\<exists>p. float_of_row r ''average_price'' = Inr p)"
    using assms(1) unfolding well_formed_def by blast
  have positions: "agreeing_position tol (map_of m key) (map_of m key)" for key
  proof (cases "map_of m key")
    case (Some r)
    then have "readable_number r ''quantity''" "\<exists>p. float_of_row r ''average_price'' = Inr p"
      using m(2) by (auto dest!: map_of_SomeD)
    then show ?thesis
      using Some t price_same
      by (auto simp: agreeing_position_def same_position_def close_ints_def same_price_def readable_number_def)
  qed (simp add: agreeing_position_def)
  have cash: "same_cash tol (bk_cash k) (bk_cash k) field" if known: "field \<in> set cash_fields" for field
  proof (cases "field \<in> set (map fst (bk_cash k))")
    case True
    then obtain x where "to_float (row_get (bk_cash k) field) = Inr (Some x)"
      using assms(1) known unfolding well_formed_def by blast
    then show ?thesis using cash_same [OF t(3)] by (simp add: same_cash_def)
  qed (simp add: same_cash_def)
  show ?thesis
    using assms(1) orders fills m(1) positions cash by (auto simp: agree_def well_formed_def)
qed

lemma reconcile_equal:
  assumes "pass_books en br db local w = Some (k, k, w')" and "well_formed k" and "sane_tolerances (re_tol en)"
  shows "\<exists>r. reconcile en br db local raising w = (Inr r, w') \<and> rr_status r = RECONCILIATION_OK"
proof -
  obtain r where "evaluate en br db local w = (Inr r, w')" "rr_status r = RECONCILIATION_OK"
    using assms(1) agree_refl [OF assms(2,3)] gather_run [of en br db local w] judge_ok [of "re_tol en" k k]
    by (auto simp: evaluate_def ef_defs)
  then show ?thesis by (auto simp: reconcile_def enforce_def ef_defs permits_trading_def)
qed

text \<open>The gate does open: when both sides return the same readable books, in which every order is in
  a known state and has a broker id, the pass is \<open>RECONCILIATION_OK\<close> and \<open>reconcile\<close> returns it.\<close>

theorem equal_books_reconcile:
  assumes "fst (resolve_local_state en db local empty_snapshot) = Some so"
    and "read_books so w = Some (k, w1)" and "read_books br w1 = Some (k, w')"
    and "well_formed k" and "sane_tolerances (re_tol en)"
  shows "\<exists>r. reconcile en br db local raising w = (Inr r, w') \<and> rr_status r = RECONCILIATION_OK"
  using assms by (intro reconcile_equal) (simp_all add: pass_books_def)

section \<open>A partially filled order never reconciles against the SQL store\<close>

lemma sql_orders_read:
  assumes "read_books (sql_store se user mode) w = Some (l, w1)"
  shows "\<exists>rs. bk_orders l = map sql_order_row rs"
proof -
  have "list_read r = Some rows \<Longrightarrow> so_orders (sql_store se user mode) w2 = (r, w3) \<Longrightarrow>
      \<exists>rs. rows = map sql_order_row rs" for r rows w2 w3
    by (auto simp: sql_store_def ef_defs sql_execute_def split: prod.splits sum.splits)
  then show ?thesis using assms by (auto simp: read_books_def split: prod.splits option.splits)
qed

lemma sql_order_unfilled: "int_of_row (sql_order_row r) ''filled_quantity'' = Inr 0"
  by (simp add: int_of_row_def row_get_def sql_order_row_def to_float_def)

text \<open>The rows of the SQL store carry no filled quantity: as soon as the broker reports a live order
  with a fill larger than the tolerance, no local state makes the pass \<open>RECONCILIATION_OK\<close>.\<close>

theorem partial_fill_never_reconciles:
  assumes "fst (resolve_local_state en db local empty_snapshot) = Some (sql_store se user mode)"
    and "pass_books en br db local w = Some (b, l, w')"
    and "open_order (bk_orders b) oid = Some x" and "int_of_row x ''filled_quantity'' = Inr f"
    and "tl_qty (re_tol en) < \<bar>f\<bar>"
  shows "\<exists>r. evaluate en br db local w = (Inr r, w') \<and> rr_status r \<noteq> RECONCILIATION_OK"
proof -
  obtain rs where rs: "bk_orders l = map sql_order_row rs"
    using assms(1,2) sql_orders_read [of se user mode w] by (auto simp: pass_books_def split: option.splits)
  have "\<not> both (same_order (re_tol en)) (open_order (bk_orders b) oid) (open_order (bk_orders l) oid)"
  proof (cases "open_order (bk_orders l) oid")
    case (Some y)
    then obtain r where "y = sql_order_row r"
      using rs by (auto simp: open_order_def dest!: find_in_set)
    then show ?thesis
      using Some assms(3-5) by (simp add: both_def same_order_def close_ints_def sql_order_unfilled)
  qed (simp add: assms(3) both_def)
  then have "\<not> agree (re_tol en) b l" by (auto simp: agree_def)
  then show ?thesis
    using assms(2) gather_run [of en br db local w] judge_ok [of "re_tol en" b l] by (auto simp: evaluate_def ef_defs)
qed

section \<open>Gaps of the comparison\<close>

text \<open>A balance that is not a number compares equal to every balance, and so does an answer of the
  broker without the three fields; a broker fill without an order id and a live broker order without
  one are not compared at all.\<close>

lemma nan_cash_reconciles: "same_cash tol [(k, PFloat NaN)] [(k, PFloat x)] k"
proof -
  have "\<not> fmax a c < \<bar>NaN - x\<bar>" for a c by (cases x; cases "fmax a c") (simp_all add: minus_pyfloat_def)
  then show ?thesis by (simp add: same_cash_def row_get_def to_float_def)
qed

lemma empty_funds_reconcile: "same_cash tol [] l k"
  by (simp add: same_cash_def)

lemma fill_without_id_is_skipped: "fills_of ([(''quantity'', PInt 10)] # rows) oid = fills_of rows oid"
  by (simp add: fills_of_def fill_oid_def row_get_def)

lemma live_order_without_id_is_skipped: "live_row [(''status'', PStr ''OPEN'')] = Inr False"
  by (simp add: live_row_def classify_order_status_def status_text_def row_get_def)

section \<open>Concrete passes\<close>

definition steady :: "books \<Rightarrow> 'w source" where
  "steady k = \<lparr>so_positions = (\<lambda>w. (Inr (F_List (bk_positions k)), w)), so_orders = (\<lambda>w. (Inr (F_List (bk_orders k)), w)),
     so_trades = (\<lambda>w. (Inr (F_List (bk_trades k)), w)), so_cash = (\<lambda>w. (Inr (F_Dict (bk_cash k)), w))\<rparr>"

lemma read_steady: "read_books (steady k) w = Some (k, w)"
  by (simp add: read_books_def steady_def)

definition demo_books :: books where
  "demo_books = \<lparr>bk_positions = [[(''symbol'', PStr ''INFY''), (''quantity'', PInt 10), (''average_price'', PFloat (Fin 100))]],
     bk_orders = [[(''order_id'', PStr ''A1''), (''symbol'', PStr ''INFY''), (''status'', PStr ''open''),
       (''quantity'', PInt 20), (''filled_quantity'', PInt 10)]],
     bk_trades = [[(''order_id'', PStr ''A1''), (''symbol'', PStr ''INFY''), (''qty'', PInt 10), (''price'', PFloat (Fin 100))]],
     bk_cash = [(''cash'', PFloat (Fin 5000))]\<rparr>"

definition demo_engine :: "(unit \<times> kill_file) rengine" where
  "demo_engine = \<lparr>re_switch = Some (Some file_get, file_put True), re_local = None, re_user = None,
     re_mode = ''paper'', re_tol = default_tolerances, re_kill_on = [], re_key = KILL_SWITCH_KEY\<rparr>"

lemma demo_small: "int_to_float 10 = Inr (Fin 10)" "int_to_float 20 = Inr (Fin 20)"
  using int_to_float_small [of 10] int_to_float_small [of 20] by simp_all

lemma demo_open: "py_upper (py_strip ''open'') = ''OPEN''" "class_of ''OPEN'' = Live"
  by (code_simp, simp add: class_of_def OPEN_STATUSES_def)

lemma fdiv_total: "y \<noteq> 0 \<Longrightarrow> \<exists>p. fdiv x (Fin y) = Inr p"
  by (cases x) auto

lemma demo_trunc: "rat_trunc 10 = 10" "rat_trunc 20 = 20"
  by (simp_all add: rat_trunc_def)

lemma demo_well_formed: "well_formed demo_books"
  by (simp add: well_formed_def demo_books_def known_status_def classify_order_status_def status_text_def row_get_def
      demo_open identified_def no_broker_id_def readable_number_def int_of_row_def to_float_def demo_small
      fill_oid_def fills_of_def group_of_def total_qty_def fill_qty_def vwap_def fill_notional_def fill_price_def
      position_map_def float_of_row_def Let_def fdiv_total demo_trunc)

lemma demo_tolerances: "sane_tolerances default_tolerances"
  by code_simp

lemma equal_books_reconcile_witness:
  "\<exists>r. reconcile demo_engine (steady demo_books) None (Some (steady demo_books)) True ((), kf_open None) =
     (Inr r, ((), kf_open None)) \<and> rr_status r = RECONCILIATION_OK"
  by (rule equal_books_reconcile [where so = "steady demo_books" and k = demo_books and ?w1.0 = "((), kf_open None)"])
    (simp_all add: resolve_local_state_def read_steady demo_well_formed demo_engine_def demo_tolerances)

lemma reconcile_returns_only_ok_witness:
  "\<exists>r. reconcile demo_engine (steady demo_books) None (Some (steady demo_books)) True ((), kf_open None) =
     (Inr r, ((), kf_open None)) \<and> rr_status r = RECONCILIATION_OK"
proof -
  obtain r where r: "reconcile demo_engine (steady demo_books) None (Some (steady demo_books)) True
      ((), kf_open None) = (Inr r, ((), kf_open None))"
    using reconcile_equal [of demo_engine "steady demo_books" None "Some (steady demo_books)"
        "((), kf_open None)" demo_books "((), kf_open None)" True]
    by (auto simp: pass_books_def resolve_local_state_def read_steady demo_well_formed demo_engine_def demo_tolerances)
  from reconcile_returns_only_ok [OF r] r show ?thesis by blast
qed

lemma demo_gather:
  "\<exists>snap. gather demo_engine (steady demo_books) None None w = (Inr snap, w) \<and> rs_unavailable snap \<noteq> []"
  by (simp add: gather_def resolve_local_state_def demo_engine_def fetch_local_def fetch_broker_def safe_fetch_list_run
      safe_fetch_dict_run ef_bind_def ef_return_def steady_def fetched_list_def fetched_dict_def missing_source_def Let_def)

lemma demo_activates:
  "activate_kill_switch KILL_SWITCH_KEY (Some (Some file_get, file_put True)) ((), kf_open None) = (Inr (),
     ((), \<lparr>kf_data = [(''kill_switch'', KStr ''1'')], kf_disk = Some [(''kill_switch'', KStr ''1'')]\<rparr>))"
  by (simp add: activate_kill_switch_def file_get_def file_put_def kf_get_def kf_set_def kf_flush_def kf_open_def
      KILL_SWITCH_KEY_def ACTIVATE_REFUSED_def)

lemma demo_unavailable:
  "reconcile demo_engine (steady demo_books) None None True ((), kf_open None) =
     (Inl (ReconciliationError ''Reconciliation failed''),
      ((), \<lparr>kf_data = [(''kill_switch'', KStr ''1'')], kf_disk = Some [(''kill_switch'', KStr ''1'')]\<rparr>))"
proof -
  obtain snap where snap: "gather demo_engine (steady demo_books) None None ((), kf_open None) = (Inr snap, ((), kf_open None))"
    "rs_unavailable snap \<noteq> []"
    using demo_gather [of "((), kf_open None)"] by blast
  let ?r = "judge (re_tol demo_engine) snap"
  have st: "rr_status ?r \<noteq> RECONCILIATION_OK" by (rule judge_unavailable [OF snap(2)])
  then have "rr_status ?r \<in> set (kill_statuses [])"
    by (cases "rr_status ?r") (auto simp: kill_statuses_def)
  moreover have "re_kill_on demo_engine = []" "re_switch demo_engine = Some (Some file_get, file_put True)"
    "re_key demo_engine = KILL_SWITCH_KEY"
    by (simp_all add: demo_engine_def)
  ultimately show ?thesis
    using st by (simp add: reconcile_def evaluate_def enforce_def ef_defs snap(1) permits_trading_def demo_activates)
qed

lemma failed_reconciliation_halts_witness:
  "is_kill_switch_active (\<lambda>k. file_get k ((), \<lparr>kf_data = [(''kill_switch'', KStr ''1'')],
     kf_disk = Some [(''kill_switch'', KStr ''1'')]\<rparr>))"
  using failed_reconciliation_halts [OF _ _ demo_unavailable] by (simp add: demo_engine_def)

definition demo_session :: "'w session" where
  "demo_session = \<lparr>se_positions = ef_return [], se_orders = ef_return [], se_trades = ef_return ([], []),
     se_cash = ef_return [\<lparr>ca_user = 1, ca_mode = ''paper'', ca_cash = Some (Fin 5000), ca_reserved = None\<rparr>]\<rparr>"

lemma partial_fill_never_reconciles_witness:
  "\<exists>r. evaluate demo_engine (steady demo_books) (Some demo_session) None ((), kf_open None) = (Inr r, ((), kf_open None)) \<and>
     rr_status r \<noteq> RECONCILIATION_OK"
proof -
  have store: "fst (resolve_local_state demo_engine (Some demo_session) None empty_snapshot) = Some (sql_store demo_session None ''paper'')"
    by (simp add: resolve_local_state_def demo_engine_def)
  have "\<exists>l. read_books (sql_store demo_session None ''paper'') w = Some (l, w)" for w :: "unit \<times> kill_file"
    by (simp add: read_books_def sql_store_def sql_execute_def demo_session_def ef_defs in_scope_def)
  then obtain l where l: "read_books (sql_store demo_session None ''paper'') ((), kf_open None) = Some (l, ((), kf_open None))"
    by blast
  show ?thesis
  proof (rule partial_fill_never_reconciles [OF store])
    show "pass_books demo_engine (steady demo_books) (Some demo_session) None ((), kf_open None) =
        Some (demo_books, l, ((), kf_open None))"
      by (simp add: pass_books_def store l read_steady)
    show "open_order (bk_orders demo_books) ''A1'' = Some (hd (bk_orders demo_books))"
      by (simp add: open_order_def demo_books_def live_row_def classify_order_status_def status_text_def row_get_def
          demo_open row_oid_def)
    show "int_of_row (hd (bk_orders demo_books)) ''filled_quantity'' = Inr 10"
      by (simp add: demo_books_def int_of_row_def row_get_def to_float_def demo_small demo_trunc)
    show "tl_qty (re_tol demo_engine) < \<bar>10\<bar>"
      by (simp add: demo_engine_def default_tolerances_def)
  qed
qed

end
