(* ===== verification/Startup_Claims.thy ===== *)
theory Startup_Claims
  imports Startup Reconcile_Claims
begin

text \<open>
  The startup gate: the state machine of the recovery manager over all sequences of recoveries and
  blocks, what a permitted state rests on, and how a recovery that fails ends.
\<close>

section \<open>The body of a recovery changes the world only\<close>

definition same_flag :: "'w manager \<Rightarrow> 'w attempt \<Rightarrow> bool" where
  "same_flag m0 = (\<lambda>(m, _). mg_state m = mg_state m0 \<and> mg_reason m = mg_reason m0 \<and> mg_report m = mg_report m0)"

lemma keeps_world [intro]: "keeps (same_flag m0) (in_world f)"
  by (auto simp: keeps_def in_world_def on_world_def same_flag_def split: prod.splits)

lemma keeps_note [intro]: "keeps (same_flag m0) (note_phase p ok found)"
  by (auto simp: keeps_def note_phase_def ef_modify_def same_flag_def)

lemma keeps_compare [intro]: "keeps (same_flag m0) (compare_phase snap x)"
  by (cases x) (auto simp: compare_phase_def)

lemma keeps_compare_all: "keeps (same_flag m0) (compare_all cf snap)"
  unfolding compare_all_def Let_def
  by (intro keeps_bind keeps_seq keeps_iter keeps_note keeps_compare keeps_return)

lemma keeps_resolve: "keeps (same_flag m0) (resolve_and_verify cf r)"
  unfolding resolve_and_verify_def
  by (intro keeps_bind keeps_seq keeps_if keeps_note keeps_world keeps_return)

lemma keeps_body: "keeps (same_flag m0) (recovery_body cf)"
proof -
  obtain store snap0 where "resolve_local_state (rc_engine cf) (rc_db cf) (rc_local cf) empty_snapshot = (store, snap0)"
    by (cases "resolve_local_state (rc_engine cf) (rc_db cf) (rc_local cf) empty_snapshot")
  then show ?thesis
    unfolding recovery_body_def Let_def
    by simp (intro keeps_bind keeps_seq keeps_note keeps_world keeps_compare_all keeps_resolve)
qed

section \<open>What a result that is OK rests on\<close>

text \<open>The world is where a pass ended that read both sides and found that they agree.\<close>

definition reconciled :: "'w recovery_config \<Rightarrow> 'w \<Rightarrow> bool" where
  "reconciled cf w' \<longleftrightarrow> (\<exists>w b l. pass_books (rc_engine cf) (rc_broker cf) (rc_db cf) (rc_local cf) w = Some (b, l, w') \<and>
     agree (re_tol (rc_engine cf)) b l)"

lemma compare_keeps_world: "compare_all cf snap s = (res, s') \<Longrightarrow> mg_world (fst s') = mg_world (fst s)"
  by (auto simp: compare_all_def comparisons_def compare_phase_def ef_defs note_phase_def Let_def
      split: sum.splits prod.splits)

lemma compare_phases:
  assumes "compare_all cf snap s = (Inr r, s')"
  shows "\<exists>ds. all_findings (re_tol (rc_engine cf)) snap = Inr ds \<and> r = classify snap ds"
  using assms
  by (auto simp: compare_all_def comparisons_def compare_phase_def ef_defs note_phase_def all_findings_def Let_def
      split: sum.splits prod.splits)

lemma classify_ok: "rr_status (classify snap ds) = RECONCILIATION_OK \<longleftrightarrow> rs_unavailable snap = [] \<and> ds = []"
  by (simp add: classify_def result_of_def)

lemma gathered_ok:
  assumes "gather (rc_engine cf) (rc_broker cf) (rc_db cf) (rc_local cf) w = (Inr snap, w')"
    and "all_findings (re_tol (rc_engine cf)) snap = Inr []" and "rs_unavailable snap = []"
  shows "reconciled cf w'"
proof -
  obtain b l where "pass_books (rc_engine cf) (rc_broker cf) (rc_db cf) (rc_local cf) w = Some (b, l, w')"
    "snap = snap_of b l"
    using gather_run [of "rc_engine cf" "rc_broker cf" "rc_db cf" "rc_local cf" w] assms(1,3)
    by (auto split: option.splits)
  with assms(2) show ?thesis by (auto simp: reconciled_def findings_Nil)
qed

lemma resolve_and_verify_ok:
  assumes "resolve_and_verify cf r s = (Inr (r', resolutions), s')" and "result_ok r'"
  shows "result_ok r \<and> mg_world (fst s') = mg_world (fst s) \<or> reconciled cf (mg_world (fst s'))"
proof -
  have "reconciled cf w'" if "evaluate (rc_engine cf) (rc_broker cf) (rc_db cf) (rc_local cf) w = (Inr r', w')" for w w'
    using evaluate_run [of "rc_engine cf" "rc_broker cf" "rc_db cf" "rc_local cf" w] that assms(2)
    by (auto simp: reconciled_def result_ok_def)
  then show ?thesis
    using assms
    by (auto simp: resolve_and_verify_def ef_defs note_phase_def in_world_def on_world_def
        split: sum.splits prod.splits if_splits)
qed

lemma body_ok:
  assumes "recovery_body cf s = (Inr (r, resolutions), s')" and "result_ok r"
  shows "reconciled cf (mg_world (fst s'))"
proof -
  obtain m ps where s: "s = (m, ps)" by (cases s)
  obtain store snap0 where st: "resolve_local_state (rc_engine cf) (rc_db cf) (rc_local cf) empty_snapshot = (store, snap0)"
    by (cases "resolve_local_state (rc_engine cf) (rc_db cf) (rc_local cf) empty_snapshot")
  obtain snap1 w1 snap w2 r0 s1 s2 where f: "fetch_local store snap0 (mg_world m) = (Inr snap1, w1)"
    "fetch_broker (rc_broker cf) snap1 w1 = (Inr snap, w2)" "compare_all cf snap s1 = (Inr r0, s2)"
    "mg_world (fst s1) = w2" "resolve_and_verify cf r0 s2 = (Inr (r, resolutions), s')"
    using assms(1)
    by (auto simp: recovery_body_def st s Let_def ef_defs note_phase_def in_world_def on_world_def
        split: sum.splits prod.splits)
  have g: "gather (rc_engine cf) (rc_broker cf) (rc_db cf) (rc_local cf) (mg_world m) = (Inr snap, w2)"
    by (simp add: gather_def st ef_bind_def f(1,2))
  obtain ds where ds: "all_findings (re_tol (rc_engine cf)) snap = Inr ds" "r0 = classify snap ds"
    using compare_phases [OF f(3)] by blast
  show ?thesis
    using resolve_and_verify_ok [OF f(5) assms(2)] gathered_ok [OF g] ds compare_keeps_world [OF f(3)] f(4)
    by (auto simp: result_ok_def classify_ok)
qed

section \<open>How a recovery ends\<close>

lemma body_flag:
  assumes "recovery_body cf (m, []) = (res, (m', ps))"
  shows "mg_state m' = mg_state m" "mg_reason m' = mg_reason m" "mg_report m' = mg_report m"
  using keepsD [OF keeps_body [of m cf], of "(m, [])"] assms by (simp_all add: same_flag_def)

lemma enforce_quiet:
  assumes "rr_status r \<noteq> RECONCILIATION_OK"
  shows "case enforce en r False w of
      (Inr r', w') \<Rightarrow> r' = r \<and> w' = w \<and> rr_status r \<notin> set (kill_statuses (re_kill_on en)) \<or>
        r' = r\<lparr>rr_kill_switch := True\<rparr> \<and> activate_kill_switch (re_key en) (re_switch en) w = (Inr (), w')
    | (Inl e, w') \<Rightarrow> \<exists>m. e = KillSwitchActivationError m"
  using assms activate_error [of "re_key en" "re_switch en" w]
  by (auto simp: enforce_def permits_trading_def ef_defs split: prod.splits sum.splits)

text \<open>How \<open>finish\<close> leaves the manager, for each kind of result.\<close>

definition ended :: "'w recovery_config \<Rightarrow> exn + recovery_report \<Rightarrow> 'w manager \<Rightarrow> bool" where
  "ended cf out m \<longleftrightarrow> (case out of
     Inr rep \<Rightarrow> mg_report m = Some rep \<and> (if report_permits rep then mg_state m = READY
       else mg_state m = BLOCKED \<and> rp_status rep \<noteq> RECONCILIATION_OK \<and>
         (rp_kill_switch rep \<longrightarrow> (\<exists>w. activate_kill_switch (re_key (rc_engine cf)) (re_switch (rc_engine cf)) w = (Inr (), mg_world m))) \<and>
         (rp_kill_switch rep \<or> rp_kill_switch_error rep \<noteq> None \<or>
            rp_status rep \<notin> set (kill_statuses (re_kill_on (rc_engine cf)))))
   | Inl e \<Rightarrow> mg_state m = BLOCKED \<and> is_kill_switch_error e)"

lemma finish_ends:
  assumes "rr_kill_switch r = False" and "finish cf raising r ps resolutions m = (out, m')"
  shows "ended cf out m' \<and> (mg_state m' = READY \<longrightarrow> result_ok r \<and> mg_world m' = mg_world m \<and> (\<exists>rep. out = Inr rep \<and> report_permits rep))"
proof (cases "result_ok r")
  case True
  then show ?thesis
    using assms by (auto simp: finish_def Let_def ef_defs enter_ready_def result_ok_def ended_def report_permits_def report_of_def)
next
  case False
  then have bad: "rr_status r \<noteq> RECONCILIATION_OK" by (simp add: result_ok_def)
  obtain res w' where e: "enforce (rc_engine cf) r False (mg_world m) = (res, w')" by fastforce
  show ?thesis
  proof (cases res)
    case (Inl err)
    then show ?thesis
      using assms False bad e enforce_quiet [OF bad, where en = "rc_engine cf" and w = "mg_world m"]
      by (auto simp: finish_def Let_def ef_defs on_world_def set_blocked_def ended_def report_permits_def report_of_def
          is_kill_switch_error_def split: if_splits)
  next
    case (Inr r')
    then show ?thesis
      using assms False bad e enforce_quiet [OF bad, where en = "rc_engine cf" and w = "mg_world m"]
      by (auto simp: finish_def Let_def ef_defs on_world_def set_blocked_def ended_def report_permits_def report_of_def)
  qed
qed

lemma judge_unswitched: "rr_kill_switch (judge tol snap) = False"
  by (simp add: judge_def classify_def result_of_def error_result_def split: sum.split)

lemma body_unswitched: "recovery_body cf s = (Inr (r, resolutions), s') \<Longrightarrow> rr_kill_switch r = False"
proof -
  have c: "rr_kill_switch (classify snap ds) = False" for snap ds by (simp add: classify_def result_of_def)
  have r: "resolve_and_verify cf r0 s0 = (Inr (r, resolutions), s1) \<Longrightarrow> \<not> rr_kill_switch r0 \<Longrightarrow> \<not> rr_kill_switch r"
    for r0 s0 s1
    by (auto simp: resolve_and_verify_def ef_defs in_world_def on_world_def evaluate_def judge_unswitched
        split: sum.splits prod.splits if_splits)
  have a: "compare_all cf snap s0 = (Inr r0, s1) \<Longrightarrow> rr_kill_switch r0 = False" for snap s0 r0 s1
    using compare_phases c by blast
  assume "recovery_body cf s = (Inr (r, resolutions), s')"
  then show ?thesis
    by (auto simp: recovery_body_def Let_def ef_defs note_phase_def in_world_def
        split: sum.splits prod.splits dest!: a dest: r)
qed

lemma recovery_ends:
  assumes "start_recovery cf raising m = (out, m')"
  shows "ended cf out m' \<and> (mg_state m' = READY \<longrightarrow> reconciled cf (mg_world m'))"
proof -
  let ?m = "m\<lparr>mg_state := RECOVERING, mg_reason := ''recovery in progress''\<rparr>"
  obtain res m1 ps where b: "recovery_body cf (?m, []) = (res, (m1, ps))" by (cases "recovery_body cf (?m, [])") auto
  show ?thesis
  proof (cases res)
    case (Inl e)
    show ?thesis
    proof (cases "is_kill_switch_error e")
      case True
      then show ?thesis using assms b Inl by (auto simp: start_recovery_def ended_def set_blocked_def)
    next
      case False
      let ?r = "(error_result e)\<lparr>rr_recommendation := ''Recovery itself failed.''\<rparr>"
      have "finish cf raising ?r (ps @ [outcome IDENTIFY_MISMATCHES False []]) [] m1 = (out, m')"
        using assms b Inl False by (simp add: start_recovery_def)
      moreover have "\<not> result_ok ?r" "rr_kill_switch ?r = False"
        by (simp_all add: error_result_def result_of_def result_ok_def)
      ultimately show ?thesis using finish_ends by blast
    qed
  next
    case (Inr r)
    then obtain r1 resolutions where r: "res = Inr (r1, resolutions)" by (cases r) auto
    have "finish cf raising r1 ps resolutions m1 = (out, m')" using assms b r by (simp add: start_recovery_def)
    moreover have "result_ok r1 \<Longrightarrow> reconciled cf (mg_world m1)" using body_ok b r by fastforce
    moreover have "rr_kill_switch r1 = False" using body_unswitched b r by blast
    ultimately show ?thesis using finish_ends [of r1 cf raising ps resolutions m1 out m'] by auto
  qed
qed

text \<open>C7. Every startup recovery ends in one of two ways. Either \<open>READY\<close>: \<open>require_ready\<close> passes, the report permits
  trading and a reconciliation read everything and found that the sides agree. Or \<open>BLOCKED\<close>: \<open>require_ready\<close>
  raises, and either the call itself raised the failure to activate the kill switch, or it returned a report that does not
  permit trading. That report then shows the failure of the activation, or says the switch is on; and over the
  file-backed switch under the key the order path reads, the switch then really is on, so that
  the gate of the order path refuses every order. The exception is an engine that was told to halt on
  a set of statuses of its own: a recovery that ends in a status outside that set blocks trading without the switch.\<close>

theorem recovery_is_ready_or_blocked:
  fixes cf :: "('e \<times> kill_file) recovery_config"
  assumes "start_recovery cf raising m = (out, m')"
  shows "(mg_state m' = READY \<and> require_ready m' = Inr () \<and> (\<exists>rep. out = Inr rep \<and> report_permits rep) \<and> reconciled cf (mg_world m')) \<or>
     (mg_state m' = BLOCKED \<and> (\<exists>e. require_ready m' = Inl e) \<and>
      (case out of Inl e \<Rightarrow> is_kill_switch_error e
       | Inr rep \<Rightarrow> \<not> report_permits rep \<and> rp_status rep \<noteq> RECONCILIATION_OK \<and>
          (rp_kill_switch_error rep \<noteq> None \<or>
           rp_kill_switch rep \<and>
             (re_switch (rc_engine cf) = Some (Some file_get, file_put ok) \<and> re_key (rc_engine cf) = KILL_SWITCH_KEY \<longrightarrow>
              is_kill_switch_active (\<lambda>k. file_get k (mg_world m'))) \<or>
           re_kill_on (rc_engine cf) \<noteq> [] \<and> rp_status rep \<notin> set (re_kill_on (rc_engine cf)))))"
proof -
  have on: "is_kill_switch_active (\<lambda>k. file_get k (mg_world m'))"
    if "activate_kill_switch (re_key (rc_engine cf)) (re_switch (rc_engine cf)) w = (Inr (), mg_world m')"
      "re_switch (rc_engine cf) = Some (Some file_get, file_put ok)" "re_key (rc_engine cf) = KILL_SWITCH_KEY" for w
    using that file_world.activated_blocks by simp
  have k: "st \<notin> set (kill_statuses ks) \<Longrightarrow> st \<noteq> RECONCILIATION_OK \<Longrightarrow> ks \<noteq> [] \<and> st \<notin> set ks" for st ks
    using default_kills_on_failure by (cases "ks = []") (auto simp: kill_statuses_def)
  show ?thesis
    using recovery_ends [OF assms] on k
    by (cases out) (auto simp: ended_def require_ready_def trading_permitted_def raise_if_def split: if_splits)
qed

text \<open>Over the file-backed switch a recovery whose report says the switch is on leaves it on: the
  order path refuses every order, in this process and after the next restart.\<close>

theorem blocked_recovery_engages_switch:
  assumes "re_switch (rc_engine cf) = Some (Some file_get, file_put ok)" and "re_key (rc_engine cf) = KILL_SWITCH_KEY"
    and "start_recovery cf raising m = (Inr rep, m')" and "rp_kill_switch rep" and "\<not> report_permits rep"
  shows "is_kill_switch_active (\<lambda>k. file_get k (mg_world m'))"
proof -
  obtain w where "activate_kill_switch KILL_SWITCH_KEY (Some (Some file_get, file_put ok)) w = (Inr (), mg_world m')"
    using recovery_ends [OF assms(3)] assms(1,2,4,5) by (auto simp: ended_def)
  then show ?thesis by (rule file_world.activated_blocks)
qed

section \<open>The state machine of a process\<close>

inductive manager_step :: "'w manager \<Rightarrow> 'w manager \<Rightarrow> bool" where
  recover: "manager_step m (snd (start_recovery cf raising m))"
| block: "manager_step m (block_trading reason m)"
| elapse: "manager_step m (m\<lparr>mg_world := w\<rparr>)"

inductive_cases manager_stepE: "manager_step m m'"

text \<open>A process that may trade is as its last recovery left it, but for the time that passed since;
  that recovery returned a report that permits trading and ended where the two sides agreed.\<close>

definition earned :: "'w manager \<Rightarrow> 'w manager \<Rightarrow> bool" where
  "earned m0 m \<longleftrightarrow> (\<exists>cf raising rep m1 m2. manager_step\<^sup>*\<^sup>* m0 m1 \<and> start_recovery cf raising m1 = (Inr rep, m2) \<and>
     report_permits rep \<and> reconciled cf (mg_world m2) \<and> mg_report m = Some rep \<and> m = m2\<lparr>mg_world := mg_world m\<rparr>)"

definition gated :: "'w manager \<Rightarrow> 'w manager \<Rightarrow> bool" where
  "gated m0 m \<longleftrightarrow> mg_state m \<noteq> RECOVERING \<and> (mg_state m = READY \<longrightarrow> earned m0 m)"

lemma recovery_gated:
  assumes "manager_step\<^sup>*\<^sup>* m0 m" and "start_recovery cf raising m = (out, m')"
  shows "gated m0 m'"
proof (cases "mg_state m' = READY")
  case True
  then obtain rep where "out = Inr rep" "report_permits rep" "mg_report m' = Some rep" "reconciled cf (mg_world m')"
    using recovery_ends [OF assms(2)] by (auto simp: ended_def split: sum.splits if_splits)
  then have "\<exists>m2. start_recovery cf raising m = (Inr rep, m2) \<and> report_permits rep \<and> reconciled cf (mg_world m2) \<and>
      mg_report m' = Some rep \<and> m' = m2\<lparr>mg_world := mg_world m'\<rparr>" using assms(2) by auto
  then have "earned m0 m'" using assms(1) unfolding earned_def by blast
  with True show ?thesis by (simp add: gated_def)
next
  case False
  then show ?thesis
    using recovery_ends [OF assms(2)] by (auto simp: gated_def ended_def split: sum.splits if_splits)
qed

lemma elapse_earned: "earned m0 m \<Longrightarrow> earned m0 (m\<lparr>mg_world := w\<rparr>)"
  by (auto simp: earned_def) (metis manager.update_convs(4) manager.cases)

lemma step_gated:
  assumes "manager_step\<^sup>*\<^sup>* m0 m" and "manager_step m m'" and "gated m0 m"
  shows "gated m0 m'"
  using assms(2)
proof (elim manager_stepE)
  fix cf :: "'a recovery_config" and raising
  assume "m' = snd (start_recovery cf raising m)"
  then show ?thesis using recovery_gated [OF assms(1)] by (metis prod.collapse)
next
  fix w
  assume "m' = m\<lparr>mg_world := w\<rparr>"
  then show ?thesis using assms(3) elapse_earned by (auto simp: gated_def)
qed (auto simp: gated_def block_trading_def set_blocked_def)

lemma reached_gated: "manager_step\<^sup>*\<^sup>* (new_manager w) m \<Longrightarrow> gated (new_manager w) m"
proof (induction rule: rtranclp_induct)
  case base
  show ?case by (simp add: gated_def new_manager_def)
next
  case (step m1 m2)
  from step_gated [OF step.hyps step.IH] show ?case .
qed

text \<open>C6. Trading is permitted only after a recovery that reconciled: in every state a process can reach
  from its start by recoveries, blocks and the passing of time, a permitted state is what a recovery
  left, changed by time alone; that recovery reported \<open>RECONCILIATION_OK\<close> and ended in a world in which
  both sides had been read and agreed. No state between two steps is \<open>RECOVERING\<close>.\<close>

theorem ready_is_earned:
  assumes "manager_step\<^sup>*\<^sup>* (new_manager w) m"
  shows "mg_state m \<noteq> RECOVERING \<and> (trading_permitted m \<longrightarrow>
     (\<exists>cf raising rep m1 m2. manager_step\<^sup>*\<^sup>* (new_manager w) m1 \<and> start_recovery cf raising m1 = (Inr rep, m2) \<and>
        report_permits rep \<and> reconciled cf (mg_world m2) \<and> mg_report m = Some rep \<and> m = m2\<lparr>mg_world := mg_world m\<rparr>))"
  using reached_gated [OF assms] by (simp add: gated_def earned_def trading_permitted_def)

section \<open>An agreeing restart opens the gate\<close>

lemma comparisons_clean:
  assumes "all_findings (re_tol (rc_engine cf)) snap = Inr []" and "rs_unavailable snap = []"
  shows "\<exists>r ps'. compare_all cf snap (m, ps) = (Inr r, (m, ps')) \<and> result_ok r"
  using assms
  by (auto simp: all_findings_def compare_all_def comparisons_def compare_phase_def ef_defs note_phase_def Let_def
      result_ok_def classify_ok)

lemma body_agrees:
  assumes "pass_books (rc_engine cf) (rc_broker cf) (rc_db cf) (rc_local cf) (mg_world m) = Some (b, l, w')"
    and "agree (re_tol (rc_engine cf)) b l"
  shows "\<exists>r ps'. recovery_body cf (m, ps) = (Inr (r, []), (m\<lparr>mg_world := w'\<rparr>, ps')) \<and> result_ok r"
proof -
  obtain store snap0 where st: "resolve_local_state (rc_engine cf) (rc_db cf) (rc_local cf) empty_snapshot = (store, snap0)"
    by (cases "resolve_local_state (rc_engine cf) (rc_db cf) (rc_local cf) empty_snapshot")
  have g: "gather (rc_engine cf) (rc_broker cf) (rc_db cf) (rc_local cf) (mg_world m) = (Inr (snap_of b l), w')"
    using gather_run [of "rc_engine cf" "rc_broker cf" "rc_db cf" "rc_local cf" "mg_world m"] assms(1) by auto
  then obtain snap1 w1 where f: "fetch_local store snap0 (mg_world m) = (Inr snap1, w1)"
    "fetch_broker (rc_broker cf) snap1 w1 = (Inr (snap_of b l), w')"
    by (auto simp: gather_def st ef_bind_def split: sum.splits prod.splits)
  have found: "all_findings (re_tol (rc_engine cf)) (snap_of b l) = Inr []"
    using assms(2) by (simp add: findings_Nil)
  have step: "resolve_and_verify cf r (m1, ps1) = (Inr (r, []), (m1, ps1 @ [outcome RESOLVE True []]))" if "result_ok r" for r m1 ps1
    using that by (simp add: resolve_and_verify_def ef_defs note_phase_def)
  have cmp: "\<exists>r ps2. compare_all cf (snap_of b l) (m1, ps1) = (Inr r, (m1, ps2)) \<and> result_ok r" for m1 ps1
    by (rule comparisons_clean [OF found]) simp
  obtain r ps2 where r: "compare_all cf (snap_of b l)
      (m\<lparr>mg_world := w'\<rparr>, (ps @ [outcome LOAD_LOCAL_STATE (missing_with ''local_'' snap1 = []) []]) @
        [outcome QUERY_BROKER (missing_with ''broker_'' (snap_of b l) = []) []]) = (Inr r, (m\<lparr>mg_world := w'\<rparr>, ps2))" "result_ok r"
    using cmp by blast
  show ?thesis
    using r(2) step [OF r(2)] r(1)
    by (simp add: recovery_body_def st Let_def ef_defs note_phase_def in_world_def on_world_def f)
qed

lemma agreeing_run:
  assumes "pass_books (rc_engine cf) (rc_broker cf) (rc_db cf) (rc_local cf) (mg_world m) = Some (b, l, w')"
    and "agree (re_tol (rc_engine cf)) b l"
  shows "\<exists>rep m'. start_recovery cf raising m = (Inr rep, m') \<and> mg_state m' = READY \<and> report_permits rep"
proof -
  let ?m = "m\<lparr>mg_state := RECOVERING, mg_reason := ''recovery in progress''\<rparr>"
  obtain r ps where b: "recovery_body cf (?m, []) = (Inr (r, []), (?m\<lparr>mg_world := w'\<rparr>, ps))" "result_ok r"
    using body_agrees [of cf ?m b l w' "[]"] assms by auto
  then show ?thesis
    by (auto simp: start_recovery_def finish_def Let_def ef_defs enter_ready_def result_ok_def report_of_def report_permits_def)
qed

text \<open>C35. The gate opens: a restart that can read both sides, and finds that they agree, ends in \<open>READY\<close>
  whatever state the process was in.\<close>

theorem agreeing_recovery_is_ready:
  assumes "pass_books (rc_engine cf) (rc_broker cf) (rc_db cf) (rc_local cf) (mg_world m) = Some (b, l, w')"
    and "agree (re_tol (rc_engine cf)) b l"
  shows "\<exists>rep m'. start_recovery cf raising m = (Inr rep, m') \<and> mg_state m' = READY \<and> report_permits rep"
  using assms by (rule agreeing_run)

section \<open>Concrete restarts\<close>

definition demo_recovery :: "(unit \<times> kill_file) source option \<Rightarrow> (unit \<times> kill_file) recovery_config" where
  "demo_recovery local = \<lparr>rc_engine = demo_engine, rc_broker = steady demo_books, rc_status = (\<lambda>_. ef_return []),
     rc_db = None, rc_local = local, rc_resolver = None, rc_disambiguate = True\<rparr>"

definition restart_world :: "unit \<times> kill_file" where
  "restart_world = ((), kf_open None)"

lemma demo_pass:
  "pass_books (rc_engine (demo_recovery (Some (steady demo_books)))) (rc_broker (demo_recovery (Some (steady demo_books))))
     (rc_db (demo_recovery (Some (steady demo_books)))) (rc_local (demo_recovery (Some (steady demo_books))))
     (mg_world (new_manager restart_world)) = Some (demo_books, demo_books, restart_world)"
  by (simp add: demo_recovery_def pass_books_def resolve_local_state_def read_steady new_manager_def)

lemma demo_agree: "agree (re_tol (rc_engine (demo_recovery local))) demo_books demo_books"
  by (rule agree_refl [OF demo_well_formed]) (simp add: demo_recovery_def demo_engine_def demo_tolerances)

lemma agreeing_recovery_is_ready_witness:
  "\<exists>rep m'. start_recovery (demo_recovery (Some (steady demo_books))) True (new_manager restart_world) = (Inr rep, m') \<and>
     mg_state m' = READY \<and> report_permits rep"
  by (rule agreeing_recovery_is_ready [OF demo_pass demo_agree])

lemma ready_is_earned_witness:
  "\<exists>m. trading_permitted m \<and> (\<exists>(cf :: (unit \<times> kill_file) recovery_config) raising rep m2.
     report_permits rep \<and> reconciled cf (mg_world m2) \<and> m = m2\<lparr>mg_world := mg_world m\<rparr>)"
proof -
  obtain rep m' where m': "start_recovery (demo_recovery (Some (steady demo_books))) True (new_manager restart_world) = (Inr rep, m')"
    "mg_state m' = READY"
    using agreeing_run [OF demo_pass demo_agree] by blast
  have "manager_step (new_manager restart_world) m'"
    using manager_step.recover [of "new_manager restart_world" "demo_recovery (Some (steady demo_books))" True] m'(1) by simp
  then have "manager_step\<^sup>*\<^sup>* (new_manager restart_world) m'" by (rule r_into_rtranclp)
  from ready_is_earned [OF this] m'(2) show ?thesis unfolding trading_permitted_def by blast
qed

definition blind_snapshot :: rsnapshot where
  "blind_snapshot = with_broker demo_books (empty_snapshot\<lparr>rs_unavailable :=
     [''local_positions'', ''local_orders'', ''local_trades'', ''local_cash'']\<rparr>)"

lemma blind_fetch:
  "resolve_local_state demo_engine None None empty_snapshot =
     (None, empty_snapshot\<lparr>rs_unavailable := [''local_positions'', ''local_orders'', ''local_trades'', ''local_cash'']\<rparr>)"
  "fetch_broker (steady demo_books) (empty_snapshot\<lparr>rs_unavailable :=
     [''local_positions'', ''local_orders'', ''local_trades'', ''local_cash'']\<rparr>) w = (Inr blind_snapshot, w)"
  by (simp_all add: resolve_local_state_def demo_engine_def missing_source_def empty_snapshot_def fetch_broker_def
      safe_fetch_list_run safe_fetch_dict_run ef_bind_def steady_def fetched_list_def fetched_dict_def
      blind_snapshot_def with_broker_def)

lemma blind_findings:
  "reconcile_orders tol blind_snapshot = Inr [unavailable_discrepancy ''orders'', unavailable_discrepancy ''fills'']"
  "reconcile_positions tol blind_snapshot = Inr [unavailable_discrepancy ''positions'']"
  "reconcile_cash tol blind_snapshot = Inr [unavailable_discrepancy ''cash'']"
  "identify_unknown_orders blind_snapshot = Inr []"
  by (simp_all add: reconcile_orders_def reconcile_fills_def reconcile_positions_def reconcile_cash_def
      identify_unknown_orders_def comparable_def blind_snapshot_def with_broker_def empty_snapshot_def)

lemma blind_result:
  "of_kind UNKNOWN_ORDER_STATE (classify blind_snapshot [unavailable_discrepancy ''orders'', unavailable_discrepancy ''fills'',
     unavailable_discrepancy ''positions'', unavailable_discrepancy ''cash'']) = []"
  "rr_status (classify blind_snapshot ds) = RECONCILIATION_UNAVAILABLE"
  by (simp_all add: classify_def result_of_def of_kind_def unavailable_discrepancy_def finding_def blind_snapshot_def
      with_broker_def)

lemma blind_recovery:
  "\<exists>rep m'. start_recovery (demo_recovery None) True (new_manager restart_world) = (Inr rep, m') \<and> rp_kill_switch rep \<and>
     \<not> report_permits rep \<and> rp_kill_switch_error rep = None"
proof -
  let ?m = "(new_manager restart_world)\<lparr>mg_state := RECOVERING, mg_reason := ''recovery in progress''\<rparr>"
  have e: "rc_engine (demo_recovery None) = demo_engine" "rc_broker (demo_recovery None) = steady demo_books"
    "rc_db (demo_recovery None) = None" "rc_local (demo_recovery None) = None" "rc_disambiguate (demo_recovery None)"
    "rc_resolver (demo_recovery None) = None" "re_kill_on demo_engine = []"
    "re_switch demo_engine = Some (Some file_get, file_put True)" "re_key demo_engine = KILL_SWITCH_KEY"
    by (simp_all add: demo_recovery_def demo_engine_def)
  obtain r ps where "recovery_body (demo_recovery None) (?m, []) = (Inr (r, []), (?m, ps))"
    "rr_status r = RECONCILIATION_UNAVAILABLE"
    by (simp add: recovery_body_def e blind_fetch Let_def fetch_local_def ef_defs note_phase_def in_world_def on_world_def
        compare_all_def comparisons_def compare_phase_def blind_findings resolve_and_verify_def result_ok_def blind_result
        resolve_safely_def)
  then show ?thesis
    by (simp add: start_recovery_def finish_def result_ok_def Let_def ef_defs on_world_def enforce_def permits_trading_def
        e kill_statuses_def set_blocked_def new_manager_def restart_world_def demo_activates report_permits_def report_of_def)
qed

lemma recovery_is_ready_or_blocked_witness:
  "\<exists>rep m'. start_recovery (demo_recovery None) True (new_manager restart_world) = (Inr rep, m') \<and>
     mg_state m' = BLOCKED \<and> (\<exists>e. require_ready m' = Inl e) \<and> is_kill_switch_active (\<lambda>k. file_get k (mg_world m'))"
proof -
  obtain rep m' where r: "start_recovery (demo_recovery None) True (new_manager restart_world) = (Inr rep, m')"
    "rp_kill_switch rep" "\<not> report_permits rep" "rp_kill_switch_error rep = None"
    using blind_recovery by blast
  have "re_switch (rc_engine (demo_recovery None)) = Some (Some file_get, file_put True)"
    "re_key (rc_engine (demo_recovery None)) = KILL_SWITCH_KEY" "re_kill_on (rc_engine (demo_recovery None)) = []"
    by (simp_all add: demo_recovery_def demo_engine_def)
  with recovery_is_ready_or_blocked [OF r(1), of True] r show ?thesis by auto
qed

lemma blocked_recovery_engages_switch_witness:
  "\<exists>rep m'. start_recovery (demo_recovery None) True (new_manager restart_world) = (Inr rep, m') \<and>
     is_kill_switch_active (\<lambda>k. file_get k (mg_world m'))"
proof -
  obtain rep m' where r: "start_recovery (demo_recovery None) True (new_manager restart_world) = (Inr rep, m')"
    "rp_kill_switch rep" "\<not> report_permits rep"
    using blind_recovery by blast
  have e: "re_switch (rc_engine (demo_recovery None)) = Some (Some file_get, file_put True)"
    "re_key (rc_engine (demo_recovery None)) = KILL_SWITCH_KEY"
    by (simp_all add: demo_recovery_def demo_engine_def)
  from blocked_recovery_engages_switch [OF e r] r(1) show ?thesis by blast
qed

end
