(* ===== verification/Ledger.thy ===== *)
theory Ledger
  imports Order_Manager Py_Value
begin

text \<open>
  \<open>app/execution/persistence.py\<close> with the tables of \<open>app/database/models.py\<close> it writes: the claim
  of an idempotency key, the durable outcome of an order, the fills the broker reported, positions,
  cash and reconciliation runs. The rows are those of one account (every query is scoped by
  \<open>user_id\<close>, and the unique constraints are per user).

  A database call may fail, and a commit may take effect and lose its answer. The session is the
  one of \<open>app/database/session.py\<close>: \<open>autoflush=False\<close>, so a query sees the committed rows and not
  the rows added in the same session; loaded rows keep the values the session gave them.
\<close>

section \<open>Tables\<close>

record order_row =
  ow_id :: nat
  ow_client_id :: string
  ow_broker_id :: "string option"
  ow_symbol :: string
  ow_exchange :: string
  ow_side :: string
  ow_qty :: int
  ow_filled :: int
  ow_average :: "pyfloat option"
  ow_product :: "string option"
  ow_rejection :: "string option"
  ow_price :: "pyfloat option"
  ow_order_type :: "string option"
  ow_status :: string
  ow_strategy :: "string option"

record transition_row =
  tw_order :: nat
  tw_from :: "string option"
  tw_to :: string
  tw_reason :: "string option"
  tw_source :: string
  tw_filled :: int

record trade_row =
  tr_order :: nat
  tr_fill_id :: string
  tr_symbol :: string
  tr_exchange :: string
  tr_side :: string
  tr_qty :: int
  tr_price :: pyfloat
  tr_value :: pyfloat
  tr_charges :: "pyfloat list"
  tr_costs :: pyfloat
  tr_net :: pyfloat
  tr_strategy :: "string option"
  tr_pnl :: "pyfloat option"

record position_row =
  pw_symbol :: string
  pw_exchange :: string
  pw_qty :: int
  pw_average :: pyfloat
  pw_strategy :: string
  pw_open :: bool

record cash_row =
  cw_cash :: pyfloat
  cw_reserved :: pyfloat
  cw_pnl :: pyfloat
  cw_costs :: pyfloat

record run_row =
  rw_mode :: string
  rw_state :: string
  rw_permitted :: bool
  rw_count :: nat
  rw_found :: "string list option"
  rw_missing :: "string list option"
  rw_detail :: "string option"

text \<open>Cash is keyed by the trading mode, which is unique per account.\<close>

record ledger =
  ld_orders :: "order_row list"
  ld_transitions :: "transition_row list"
  ld_trades :: "trade_row list"
  ld_positions :: "position_row list"
  ld_cash :: "(string \<times> cash_row) list"
  ld_runs :: "run_row list"
  ld_users :: "string list"

definition empty_ledger :: ledger where
  "empty_ledger = \<lparr>ld_orders = [], ld_transitions = [], ld_trades = [], ld_positions = [], ld_cash = [],
     ld_runs = [], ld_users = []\<rparr>"

text \<open>The unique constraints.\<close>

definition ledger_unique :: "ledger \<Rightarrow> bool" where
  "ledger_unique l \<longleftrightarrow> distinct (map ow_client_id (ld_orders l)) \<and> distinct (map tr_fill_id (ld_trades l))"

text \<open>What the \<open>NUMERIC(18, 4)\<close> columns give back of the values written to them; the conversion
  is the database's (\<open>num\<close>).\<close>

definition stored_order :: "(pyfloat \<Rightarrow> pyfloat) \<Rightarrow> order_row \<Rightarrow> order_row" where
  "stored_order num r = r\<lparr>ow_average := map_option num (ow_average r), ow_price := map_option num (ow_price r)\<rparr>"

definition stored_trade :: "(pyfloat \<Rightarrow> pyfloat) \<Rightarrow> trade_row \<Rightarrow> trade_row" where
  "stored_trade num t = t\<lparr>tr_price := num (tr_price t), tr_value := num (tr_value t),
     tr_charges := map num (tr_charges t), tr_costs := num (tr_costs t), tr_net := num (tr_net t),
     tr_pnl := map_option num (tr_pnl t)\<rparr>"

definition stored_position :: "(pyfloat \<Rightarrow> pyfloat) \<Rightarrow> position_row \<Rightarrow> position_row" where
  "stored_position num p = p\<lparr>pw_average := num (pw_average p)\<rparr>"

definition stored_cash :: "(pyfloat \<Rightarrow> pyfloat) \<Rightarrow> cash_row \<Rightarrow> cash_row" where
  "stored_cash num c = \<lparr>cw_cash = num (cw_cash c), cw_reserved = num (cw_reserved c), cw_pnl = num (cw_pnl c),
     cw_costs = num (cw_costs c)\<rparr>"

definition stored :: "(pyfloat \<Rightarrow> pyfloat) \<Rightarrow> ledger \<Rightarrow> ledger" where
  "stored num l = l\<lparr>ld_orders := map (stored_order num) (ld_orders l), ld_trades := map (stored_trade num) (ld_trades l),
     ld_positions := map (stored_position num) (ld_positions l),
     ld_cash := map (\<lambda>(m, c). (m, stored_cash num c)) (ld_cash l)\<rparr>"

section \<open>Sessions\<close>

text \<open>\<open>FillSyncResult\<close>.\<close>

record fill_sync =
  fs_status :: "string option"
  fs_filled :: int
  fs_average :: "pyfloat option"
  fs_new_fills :: nat
  fs_pnl :: pyfloat
  fs_cash :: "pyfloat option"
  fs_reject :: "string option"
  fs_errors :: "string list"

definition empty_sync :: fill_sync where
  "empty_sync = \<lparr>fs_status = None, fs_filled = 0, fs_average = None, fs_new_fills = 0, fs_pnl = Fin 0, fs_cash = None,
     fs_reject = None, fs_errors = []\<rparr>"

record db =
  db_rows :: ledger
  db_outcomes :: "outcome list"

record work =
  wk_rows :: ledger
  wk_db :: db
  wk_out :: fill_sync

definition db_error :: exn where
  "db_error = PyExn ''DBAPIError'' ''database unavailable''"

definition unavailable :: "string \<Rightarrow> exn" where
  "unavailable what = PyExn ''PersistenceUnavailable'' what"

definition is_integrity_error :: "exn \<Rightarrow> bool" where
  "is_integrity_error e = (case e of PyExn c _ \<Rightarrow> c = ''IntegrityError'' | _ \<Rightarrow> False)"

definition next_outcome :: "(work, outcome) ef" where
  "next_outcome s = (let os = db_outcomes (wk_db s) in
     (Inr (case os of [] \<Rightarrow> Works | out # _ \<Rightarrow> out), s\<lparr>wk_db := (wk_db s)\<lparr>db_outcomes := tl os\<rparr>\<rparr>))"

text \<open>A query: it sees the committed rows, and its answer is needed.\<close>

definition db_query :: "(ledger \<Rightarrow> 'a) \<Rightarrow> (work, 'a) ef" where
  "db_query f = ef_bind next_outcome (\<lambda>out. if out = Works then ef_get (\<lambda>s. f (db_rows (wk_db s))) else ef_raise db_error)"

text \<open>\<open>session.flush()\<close> of added orders.\<close>

definition db_flush :: "(work, unit) ef" where
  "db_flush = ef_bind next_outcome (\<lambda>out. if out \<noteq> Works then ef_raise db_error
     else ef_bind (ef_get (\<lambda>s. distinct (map ow_client_id (ld_orders (wk_rows s))))) (\<lambda>ok.
       if ok then ef_return () else ef_raise (PyExn ''IntegrityError'' ''uq_orders_user_client_order_id'')))"

definition db_commit :: "(pyfloat \<Rightarrow> pyfloat) \<Rightarrow> (work, unit) ef" where
  "db_commit num = ef_bind (ef_get (\<lambda>s. ledger_unique (wk_rows s))) (\<lambda>ok.
     if \<not> ok then ef_raise (PyExn ''IntegrityError'' ''unique constraint'')
     else ef_bind next_outcome (\<lambda>out. if out = Fails then ef_raise db_error
       else ef_seq (ef_modify (\<lambda>s. s\<lparr>wk_db := (wk_db s)\<lparr>db_rows := stored num (wk_rows s)\<rparr>\<rparr>))
         (if out = Lost then ef_raise db_error else ef_return ())))"

definition rows_update :: "(ledger \<Rightarrow> ledger) \<Rightarrow> (work, unit) ef" where
  "rows_update f = ef_modify (\<lambda>s. s\<lparr>wk_rows := f (wk_rows s)\<rparr>)"

text \<open>\<open>async with self._sf() as session\<close>: what is not committed is dropped. \<open>wk_out\<close> is the result object
  the synchronisation fills in as it goes; it outlives a session that fails.\<close>

definition session_run :: "(work, 'a) ef \<Rightarrow> fill_sync \<Rightarrow> db \<Rightarrow> 'a res \<times> work" where
  "session_run m out d = m \<lparr>wk_rows = db_rows d, wk_db = d, wk_out = out\<rparr>"

definition transaction :: "(work, 'a) ef \<Rightarrow> (db, 'a) ef" where
  "transaction m d = (case session_run m empty_sync d of (r, s) \<Rightarrow> (r, wk_db s))"

definition out_update :: "(fill_sync \<Rightarrow> fill_sync) \<Rightarrow> (work, unit) ef" where
  "out_update f = ef_modify (\<lambda>s. s\<lparr>wk_out := f (wk_out s)\<rparr>)"

section \<open>Orders\<close>

definition order_by_id :: "nat \<Rightarrow> ledger \<Rightarrow> order_row option" where
  "order_by_id n l = find (\<lambda>r. ow_id r = n) (ld_orders l)"

definition put_order :: "order_row \<Rightarrow> ledger \<Rightarrow> ledger" where
  "put_order r l = l\<lparr>ld_orders := map (\<lambda>x. if ow_id x = ow_id r then r else x) (ld_orders l)\<rparr>"

definition add_transition :: "transition_row \<Rightarrow> ledger \<Rightarrow> ledger" where
  "add_transition t l = l\<lparr>ld_transitions := ld_transitions l @ [t]\<rparr>"

record submission_record =
  sr_row :: "nat option"
  sr_client_id :: string
  sr_duplicate :: bool

definition claimed_order :: "nat \<Rightarrow> signal \<Rightarrow> int \<Rightarrow> order_row" where
  "claimed_order n sg quantity = \<lparr>ow_id = n, ow_client_id = sg_client_order_id sg, ow_broker_id = None,
     ow_symbol = sg_symbol sg, ow_exchange = (if sg_exchange sg = [] then ''NSE'' else sg_exchange sg),
     ow_side = txn_value (sg_txn sg), ow_qty = quantity, ow_filled = 0, ow_average = None,
     ow_product = Some (product_value (sg_product sg)), ow_rejection = None, ow_price = Some (sg_price sg),
     ow_order_type = Some (order_type_value (sg_order_type sg)), ow_status = ''INTENT_CREATED'',
     ow_strategy = (if sg_strategy sg = [] then None else Some (sg_strategy sg))\<rparr>"

definition insert_order :: "order_row \<Rightarrow> ledger \<Rightarrow> ledger" where
  "insert_order r l = l\<lparr>ld_orders := ld_orders l @ [r]\<rparr>"

definition transition_of :: "nat \<Rightarrow> string option \<Rightarrow> string \<Rightarrow> string option \<Rightarrow> string \<Rightarrow> int \<Rightarrow> transition_row" where
  "transition_of n old new reason source filled = \<lparr>tw_order = n, tw_from = old, tw_to = new, tw_reason = reason,
     tw_source = source, tw_filled = filled\<rparr>"

text \<open>The body of the claim's session.\<close>

definition claim_body :: "(pyfloat \<Rightarrow> pyfloat) \<Rightarrow> signal \<Rightarrow> int \<Rightarrow> (work, submission_record) ef" where
  "claim_body num sg quantity =
     ef_bind (ef_get (\<lambda>s. length (ld_orders (wk_rows s)))) (\<lambda>n.
     ef_seq (rows_update (insert_order (claimed_order n sg quantity)))
    (ef_bind (ef_try db_flush) (\<lambda>flushed. case flushed of
       Inl e \<Rightarrow> if is_integrity_error e
         then ef_seq (db_query (\<lambda>_. ())) (ef_bind (db_query (\<lambda>l. find (\<lambda>r. ow_client_id r = sg_client_order_id sg) (ld_orders l)))
           (\<lambda>existing. ef_return \<lparr>sr_row = map_option ow_id existing, sr_client_id = sg_client_order_id sg, sr_duplicate = True\<rparr>))
         else ef_raise e
     | Inr _ \<Rightarrow> ef_seq (rows_update (add_transition (transition_of n None ''INTENT_CREATED'' None ''submission'' 0)))
         (ef_seq (db_commit num)
           (ef_return \<lparr>sr_row = Some n, sr_client_id = sg_client_order_id sg, sr_duplicate = False\<rparr>)))))"

definition claim_idempotency_key :: "(pyfloat \<Rightarrow> pyfloat) \<Rightarrow> signal \<Rightarrow> int \<Rightarrow> (db, submission_record) ef" where
  "claim_idempotency_key num sg quantity =
     (if sg_client_order_id sg = [] then ef_raise (unavailable ''no client_order_id'')
      else ef_bind (ef_try (transaction (claim_body num sg quantity))) (\<lambda>r. case r of
        Inl _ \<Rightarrow> ef_raise (unavailable ''idempotency claim failed'') | Inr sub \<Rightarrow> ef_return sub))"

definition status_move ::
  "order_row \<Rightarrow> order_row \<Rightarrow> string option \<Rightarrow> string \<Rightarrow> ledger \<Rightarrow> ledger" where
  "status_move old new reason source l = add_transition
     (transition_of (ow_id new) (Some (ow_status old)) (ow_status new) reason source (ow_filled new)) (put_order new l)"

definition attach_broker_order_id :: "(pyfloat \<Rightarrow> pyfloat) \<Rightarrow> nat \<Rightarrow> string \<Rightarrow> (db, unit) ef" where
  "attach_broker_order_id num n bid = transaction (ef_bind (db_query (order_by_id n)) (\<lambda>found. case found of
     None \<Rightarrow> ef_raise (unavailable ''order row vanished'')
   | Some r \<Rightarrow> ef_seq (rows_update (status_move r (r\<lparr>ow_broker_id := Some bid, ow_status := ''SUBMITTED''\<rparr>) None ''submission''))
       (db_commit num)))"

text \<open>A write that swallows its own failure.\<close>

definition quietly :: "(db, unit) ef \<Rightarrow> (db, unit) ef" where
  "quietly m = ef_bind (ef_try m) (\<lambda>_. ef_return ())"

definition record_block :: "(pyfloat \<Rightarrow> pyfloat) \<Rightarrow> nat \<Rightarrow> string \<Rightarrow> string \<Rightarrow> (db, unit) ef" where
  "record_block num n st reason = quietly (transaction (ef_bind (db_query (order_by_id n)) (\<lambda>found. case found of
     None \<Rightarrow> ef_return ()
   | Some r \<Rightarrow> ef_seq (rows_update (status_move r
       (r\<lparr>ow_status := st, ow_rejection := (if reason = [] then None else Some (take 2000 reason))\<rparr>) (Some reason) ''submission''))
       (db_commit num))))"

definition record_unknown :: "(pyfloat \<Rightarrow> pyfloat) \<Rightarrow> nat \<Rightarrow> string \<Rightarrow> (db, unit) ef" where
  "record_unknown num n reason = quietly (transaction (ef_bind (db_query (order_by_id n)) (\<lambda>found. case found of
     None \<Rightarrow> ef_return ()
   | Some r \<Rightarrow> ef_seq (rows_update (status_move r (r\<lparr>ow_status := ''UNKNOWN''\<rparr>)
       (Some (take 2000 (''broker outcome could not be determined: '' @ reason))) ''fill'')) (db_commit num))))"

section \<open>Fills\<close>

text \<open>An entry of the trade book: its fields, and the dictionary under \<open>costs\<close> (empty where it is missing).\<close>

record fill_entry =
  fe_row :: row
  fe_costs :: row

text \<open>\<open>int(v)\<close> of a value.\<close>

definition py_int :: "pyval \<Rightarrow> int res" where
  "py_int v = (case v of PNone \<Rightarrow> Inl (TypeError ''int() argument'') | PBool b \<Rightarrow> Inr (if b then 1 else 0)
     | PInt n \<Rightarrow> Inr n | PFloat x \<Rightarrow> to_int x
     | PStr s \<Rightarrow> (let (neg, ds) = split_sign (py_strip s) in case digit_part ds of
         None \<Rightarrow> Inl (ValueError ''invalid literal for int()'') | Some (n, _) \<Rightarrow> Inr (if neg then - n else n)))"

text \<open>\<open>_opt_float\<close>.\<close>

definition opt_float :: "pyval \<Rightarrow> pyfloat option res" where
  "opt_float v = (case v of PNone \<Rightarrow> Inr None | _ \<Rightarrow> (case py_float v of
     Inr x \<Rightarrow> Inr (Some x) | Inl (TypeError _) \<Rightarrow> Inr None | Inl (ValueError _) \<Rightarrow> Inr None | Inl e \<Rightarrow> Inl e))"

text \<open>\<open>float(d.get(k) or 0.0)\<close>.\<close>

definition float_or_0 :: "row \<Rightarrow> string \<Rightarrow> pyfloat res" where
  "float_or_0 r k = py_float (py_or (row_get r k) (PFloat (Fin 0)))"

record fill_numbers =
  fn_qty :: int
  fn_price :: pyfloat
  fn_side :: string
  fn_costs :: pyfloat
  fn_value :: pyfloat

definition str_or_empty :: "pyval \<Rightarrow> string" where
  "str_or_empty v = py_str (py_or v (PStr ''''))"

text \<open>\<open>n * x\<close> of an integer and a float.\<close>

definition times_int :: "int \<Rightarrow> pyfloat \<Rightarrow> pyfloat res" where
  "times_int n x = res_bind (int_to_float n) (\<lambda>m. Inr (m * x))"

definition read_fill :: "fill_entry \<Rightarrow> fill_numbers res" where
  "read_fill f =
     res_bind (py_int (py_or (row_get (fe_row f) ''qty'') (py_or (row_get (fe_row f) ''quantity'') (PInt 0)))) (\<lambda>q.
     res_bind (float_or_0 (fe_row f) ''price'') (\<lambda>p.
     res_bind (float_or_0 (fe_costs f) ''total'') (\<lambda>c.
     res_bind (times_int q p) (\<lambda>v.
     Inr \<lparr>fn_qty = q, fn_price = p,
       fn_side = py_upper (str_or_empty (py_or (row_get (fe_row f) ''txn_type'') (row_get (fe_row f) ''transaction_type''))),
       fn_costs = c, fn_value = fround 4 v\<rparr>))))"

text \<open>\<open>_get_position\<close>: the place of the first open row of the instrument in the committed table.\<close>

definition position_at :: "string \<Rightarrow> string \<Rightarrow> ledger \<Rightarrow> nat option" where
  "position_at symbol exchange l = find (\<lambda>i. let p = ld_positions l ! i in
     pw_symbol p = symbol \<and> pw_exchange p = exchange \<and> pw_open p) [0..<length (ld_positions l)]"

definition set_position :: "nat \<Rightarrow> position_row \<Rightarrow> ledger \<Rightarrow> ledger" where
  "set_position i p l = l\<lparr>ld_positions := (ld_positions l)[i := p]\<rparr>"

definition cash_of :: "string \<Rightarrow> ledger \<Rightarrow> cash_row option" where
  "cash_of mode l = map_of (ld_cash l) mode"

definition upd_cash :: "string \<Rightarrow> (cash_row \<Rightarrow> cash_row) \<Rightarrow> ledger \<Rightarrow> ledger" where
  "upd_cash mode f l = l\<lparr>ld_cash := map (\<lambda>(m, c). (m, if m = mode then f c else c)) (ld_cash l)\<rparr>"

text \<open>The two sides of a fill: cash, the position, and what it realised.\<close>

definition grown_position :: "fill_numbers \<Rightarrow> position_row \<Rightarrow> position_row res" where
  "grown_position fn p = (let new_qty = pw_qty p + fn_qty fn in
     res_bind (if new_qty = 0 then Inr (Fin 0)
       else res_bind (times_int (pw_qty p) (pw_average p)) (\<lambda>a. res_bind (times_int (fn_qty fn) (fn_price fn)) (\<lambda>b.
            res_bind (int_to_float new_qty) (\<lambda>n. fdiv (a + b) n)))) (\<lambda>avg.
     Inr (p\<lparr>pw_average := avg, pw_qty := new_qty, pw_open := new_qty \<noteq> 0\<rparr>)))"

definition buy_fill :: "string \<Rightarrow> order_row \<Rightarrow> fill_numbers \<Rightarrow> nat option \<Rightarrow> ledger \<Rightarrow> (pyfloat option \<times> ledger) res" where
  "buy_fill mode r fn at_row l0 =
     (let l = upd_cash mode (\<lambda>c. c\<lparr>cw_cash := cw_cash c - fn_value fn - fn_costs fn\<rparr>) l0 in
      case at_row of
        None \<Rightarrow> Inr (None, l\<lparr>ld_positions := ld_positions l @ [\<lparr>pw_symbol = ow_symbol r, pw_exchange = ow_exchange r,
            pw_qty = fn_qty fn, pw_average = fn_price fn,
            pw_strategy = (case ow_strategy r of None \<Rightarrow> ''unknown'' | Some s \<Rightarrow> if s = [] then ''unknown'' else s),
            pw_open = True\<rparr>]\<rparr>)
      | Some i \<Rightarrow> res_bind (grown_position fn (ld_positions l ! i)) (\<lambda>p. Inr (None, set_position i p l)))"

definition sell_fill :: "string \<Rightarrow> order_row \<Rightarrow> fill_numbers \<Rightarrow> nat option \<Rightarrow> ledger \<Rightarrow> (pyfloat option \<times> ledger) res" where
  "sell_fill mode r fn at_row l0 =
     (let l = upd_cash mode (\<lambda>c. c\<lparr>cw_cash := cw_cash c + fn_value fn - fn_costs fn\<rparr>) l0;
          flat = Inr (None, l) in
      case at_row of None \<Rightarrow> flat
      | Some i \<Rightarrow> (let p = ld_positions l ! i in
          if pw_qty p \<le> 0 then flat
          else res_bind (times_int (fn_qty fn) (fn_price fn - pw_average p)) (\<lambda>gross.
            let realized = fround 4 (gross - fn_costs fn); q = max (pw_qty p - fn_qty fn) 0 in
            Inr (Some realized, upd_cash mode (\<lambda>c. c\<lparr>cw_pnl := cw_pnl c + realized\<rparr>)
              (set_position i (p\<lparr>pw_qty := q, pw_open := q \<noteq> 0\<rparr>) l)))))"

definition charge_names :: "string list list" where
  "charge_names = [[''brokerage''], [''stt''], [''exchange'', ''exchange_charges''], [''gst''], [''stamp_duty''],
     [''sebi'', ''sebi_charges'']]"

definition charges_of :: "fill_entry \<Rightarrow> pyfloat list res" where
  "charges_of f = res_map (\<lambda>ks. py_float (foldr (\<lambda>k v. py_or (row_get (fe_costs f) k) v) ks (PFloat (Fin 0)))) charge_names"

definition trade_of_fill :: "order_row \<Rightarrow> string \<Rightarrow> fill_numbers \<Rightarrow> pyfloat list \<Rightarrow> pyfloat option \<Rightarrow> trade_row" where
  "trade_of_fill r fid fn charges pnl = \<lparr>tr_order = ow_id r, tr_fill_id = fid, tr_symbol = ow_symbol r,
     tr_exchange = ow_exchange r, tr_side = fn_side fn, tr_qty = fn_qty fn, tr_price = fn_price fn, tr_value = fn_value fn,
     tr_charges = charges, tr_costs = fn_costs fn,
     tr_net = fround 4 (if fn_side fn = ''SELL'' then fn_value fn - fn_costs fn else fn_value fn + fn_costs fn),
     tr_strategy = ow_strategy r, tr_pnl = pnl\<rparr>"

text \<open>\<open>_apply_fill\<close> on the session's rows, once the position was looked up.\<close>

definition booked_fill ::
  "string \<Rightarrow> order_row \<Rightarrow> fill_entry \<Rightarrow> string \<Rightarrow> fill_numbers \<Rightarrow> nat option \<Rightarrow> ledger \<Rightarrow> (pyfloat option \<times> ledger) res" where
  "booked_fill mode r f fid fn at_row l =
     res_bind (if fn_side fn = ''BUY'' then buy_fill mode r fn at_row l
       else if fn_side fn = ''SELL'' then sell_fill mode r fn at_row l
       else Inl (unavailable ''unrecognised fill side'')) (\<lambda>(pnl, l1).
     res_bind (charges_of f) (\<lambda>charges.
     let l2 = upd_cash mode (\<lambda>c. c\<lparr>cw_costs := cw_costs c + fn_costs fn\<rparr>) l1 in
     Inr (pnl, l2\<lparr>ld_trades := ld_trades l2 @ [trade_of_fill r fid fn charges pnl]\<rparr>)))"

definition apply_fill_row :: "string \<Rightarrow> order_row \<Rightarrow> fill_entry \<Rightarrow> string \<Rightarrow> (work, pyfloat option) ef" where
  "apply_fill_row mode r f fid =
     ef_bind (ef_lift (read_fill f)) (\<lambda>fn.
     ef_bind (db_query (position_at (ow_symbol r) (ow_exchange r))) (\<lambda>at_row.
     ef_bind (ef_get wk_rows) (\<lambda>l.
     ef_bind (ef_lift (booked_fill mode r f fid fn at_row l)) (\<lambda>(pnl, l').
     ef_seq (rows_update (\<lambda>_. l')) (ef_return pnl)))))"

section \<open>Synchronising an order with the broker\<close>

text \<open>\<open>str(fill.get("trade_id") or f"{broker_order_id}:{seq}")\<close>.\<close>

definition fill_id_of :: "string \<Rightarrow> nat \<Rightarrow> fill_entry \<Rightarrow> string" where
  "fill_id_of bid seq f = py_str (py_or (row_get (fe_row f) ''trade_id'') (PStr (bid @ '':'' @ nat_str seq)))"

text \<open>\<open>_existing_fill_ids\<close>. \<open>LIKE\<close> takes \<open>%\<close> and \<open>_\<close> in the order id as wildcards; \<open>like\<close> is the database's.\<close>

definition existing_fill_ids :: "(string \<Rightarrow> string \<Rightarrow> bool) \<Rightarrow> string \<Rightarrow> ledger \<Rightarrow> string list" where
  "existing_fill_ids like bid l = filter (\<lambda>fid. like fid (bid @ ''%'') \<and> fid \<noteq> []) (map tr_fill_id (ld_trades l))"

text \<open>The loop over the fills.\<close>

definition count_fill :: "pyfloat option \<Rightarrow> fill_sync \<Rightarrow> fill_sync" where
  "count_fill pnl out = out\<lparr>fs_pnl := fs_pnl out + (case pnl of None \<Rightarrow> Fin 0 | Some x \<Rightarrow> if ftruthy x then x else Fin 0),
     fs_new_fills := Suc (fs_new_fills out)\<rparr>"

fun sync_fills :: "string \<Rightarrow> order_row \<Rightarrow> string \<Rightarrow> string list \<Rightarrow> nat \<Rightarrow> fill_entry list \<Rightarrow> (work, unit) ef" where
  "sync_fills mode r bid already seq [] = ef_return ()"
| "sync_fills mode r bid already seq (f # fs) =
     (if fill_id_of bid seq f \<in> set already then sync_fills mode r bid already (Suc seq) fs
      else ef_bind (apply_fill_row mode r f (fill_id_of bid seq f)) (\<lambda>pnl.
        ef_seq (out_update (count_fill pnl)) (sync_fills mode r bid already (Suc seq) fs)))"

text \<open>The order row after the broker's status, with the refusal text.\<close>

definition reported_order :: "row \<Rightarrow> order_row \<Rightarrow> (order_row \<times> string option) res" where
  "reported_order st r =
     res_bind (py_int (py_or (row_get st ''filled_qty'') (py_or (row_get st ''filled_quantity'') (PInt 0)))) (\<lambda>filled.
     res_bind (opt_float (row_get st ''average_price'')) (\<lambda>avg.
     let bst = py_upper (str_or_empty (row_get st ''status''));
         refusal = py_or (row_get st ''reject_reason'') (row_get st ''message'');
         reject = (if truthy refusal then Some (take 2000 (py_str refusal)) else None) in
     Inr (r\<lparr>ow_filled := filled, ow_average := avg, ow_status := (if bst = [] then ow_status r else bst),
         ow_rejection := (if bst = ''REJECTED'' \<and> reject \<noteq> None then reject else ow_rejection r)\<rparr>, reject)))"

definition sync_body ::
  "(pyfloat \<Rightarrow> pyfloat) \<Rightarrow> (string \<Rightarrow> string \<Rightarrow> bool) \<Rightarrow> string \<Rightarrow> nat \<Rightarrow> string \<Rightarrow> row \<Rightarrow> fill_entry list \<Rightarrow>
     (work, unit) ef" where
  "sync_body num like mode n bid st fills =
     ef_bind (db_query (order_by_id n)) (\<lambda>found. case found of
       None \<Rightarrow> out_update (\<lambda>out. out\<lparr>fs_errors := fs_errors out @ [''order row vanished'']\<rparr>)
     | Some r \<Rightarrow>
       ef_bind (db_query (existing_fill_ids like bid)) (\<lambda>already.
       ef_bind (db_query (cash_of mode)) (\<lambda>cash.
       if cash = None then ef_raise (unavailable ''no AccountCash row'') else
       ef_seq (sync_fills mode r bid already 0 fills)
      (ef_bind (ef_lift (reported_order st r)) (\<lambda>(r', reject).
       ef_seq (out_update (\<lambda>out. if reject = None then out else out\<lparr>fs_reject := reject\<rparr>))
      (ef_seq (rows_update (if ow_status r' \<noteq> ow_status r then status_move r r' reject ''fill'' else put_order r'))
      (ef_seq (db_commit num)
      (ef_bind (ef_get (\<lambda>s. map_option cw_cash (cash_of mode (wk_rows s)))) (\<lambda>c.
       out_update (\<lambda>out. out\<lparr>fs_status := Some (ow_status r'), fs_filled := ow_filled r', fs_average := ow_average r',
         fs_cash := c\<rparr>))))))))))"

text \<open>Everything after the broker's two answers. An entry of the trade book that is not a dictionary is \<open>None\<close>: the
  comprehension that selects the fills of the order raises on it, outside of every handler.\<close>

definition sync_rows ::
  "(pyfloat \<Rightarrow> pyfloat) \<Rightarrow> (string \<Rightarrow> string \<Rightarrow> bool) \<Rightarrow> string \<Rightarrow> nat \<Rightarrow> string \<Rightarrow> row res \<Rightarrow> fill_entry option list res \<Rightarrow>
     (db, fill_sync) ef" where
  "sync_rows num like mode n bid status book = (case status of
     Inl e \<Rightarrow> ef_seq (record_unknown num n (exn_msg e))
       (ef_return (empty_sync\<lparr>fs_status := Some ''UNKNOWN'', fs_errors := [''order status unavailable: '' @ exn_msg e]\<rparr>))
   | Inr st \<Rightarrow> (\<lambda>d.
       let out0 = (case book of Inr _ \<Rightarrow> empty_sync
             | Inl e \<Rightarrow> empty_sync\<lparr>fs_errors := [''trade book unavailable: '' @ exn_msg e]\<rparr>);
           entries = (case book of Inr fs \<Rightarrow> fs | Inl _ \<Rightarrow> []);
           fills = filter (\<lambda>f. py_str (row_get (fe_row f) ''order_id'') = bid) (List.map_filter id entries) in
       if None \<in> set entries then (Inl (PyExn ''AttributeError'' ''get''), d) else
       case session_run (sync_body num like mode n bid st fills) out0 d of
         (Inr _, s) \<Rightarrow> (Inr (wk_out s), wk_db s)
       | (Inl e, s) \<Rightarrow> (Inr ((wk_out s)\<lparr>fs_errors := fs_errors (wk_out s) @ [''fill persistence failed: '' @ exn_msg e]\<rparr>),
           wk_db s)))"

text \<open>The broker's answers: the status is asked first, the trade book only when the status came.\<close>

record 'b venue =
  ve_status :: "string \<Rightarrow> ('b, row) ef"
  ve_trades :: "('b, fill_entry option list) ef"

definition sync_from_broker ::
  "(pyfloat \<Rightarrow> pyfloat) \<Rightarrow> (string \<Rightarrow> string \<Rightarrow> bool) \<Rightarrow> 'b venue \<Rightarrow> string \<Rightarrow> nat \<Rightarrow> string \<Rightarrow> 'b \<times> db \<Rightarrow>
     (exn + fill_sync) \<times> ('b \<times> db)" where
  "sync_from_broker num like v mode n bid = (\<lambda>(b, d).
     case ve_status v bid b of (status, b1) \<Rightarrow>
     case (case status of Inl e \<Rightarrow> (Inr [], b1) | Inr _ \<Rightarrow> ve_trades v b1) of (book, b2) \<Rightarrow>
     case sync_rows num like mode n bid status book d of (r, d') \<Rightarrow> (r, (b2, d')))"

section \<open>Reconciliation runs and the account\<close>

definition record_reconciliation ::
  "(pyfloat \<Rightarrow> pyfloat) \<Rightarrow> string \<Rightarrow> string \<Rightarrow> bool \<Rightarrow> string list option \<Rightarrow> string list option \<Rightarrow> string \<Rightarrow> (db, unit) ef" where
  "record_reconciliation num mode state permitted found missing detail = quietly (transaction
     (ef_seq (rows_update (\<lambda>l. l\<lparr>ld_runs := ld_runs l @ [\<lparr>rw_mode = mode, rw_state = state, rw_permitted = permitted,
         rw_count = (case found of None \<Rightarrow> 0 | Some ds \<Rightarrow> length ds), rw_found = found, rw_missing = missing,
         rw_detail = (if detail = [] then None else Some (take 4000 detail))\<rparr>]\<rparr>))
       (db_commit num)))"

definition get_or_create_system_user :: "(pyfloat \<Rightarrow> pyfloat) \<Rightarrow> string \<Rightarrow> (db, nat) ef" where
  "get_or_create_system_user num email = transaction
     (ef_bind (db_query (\<lambda>l. find (\<lambda>i. ld_users l ! i = email) [0..<length (ld_users l)])) (\<lambda>found. case found of
        Some i \<Rightarrow> ef_return i
      | None \<Rightarrow> ef_bind (ef_get (\<lambda>s. length (ld_users (wk_rows s)))) (\<lambda>i.
          ef_seq (rows_update (\<lambda>l. l\<lparr>ld_users := ld_users l @ [email]\<rparr>))
         (ef_seq (db_commit num) (ef_seq (db_query (\<lambda>_. ())) (ef_return i))))))"

definition ensure_opening_cash :: "(pyfloat \<Rightarrow> pyfloat) \<Rightarrow> string \<Rightarrow> pyfloat \<Rightarrow> (db, pyfloat) ef" where
  "ensure_opening_cash num mode opening = transaction
     (ef_bind (db_query (cash_of mode)) (\<lambda>found. case found of
        Some c \<Rightarrow> ef_return (cw_cash c)
      | None \<Rightarrow> ef_seq (rows_update (\<lambda>l. l\<lparr>ld_cash := ld_cash l @
            [(mode, \<lparr>cw_cash = opening, cw_reserved = Fin 0, cw_pnl = Fin 0, cw_costs = Fin 0\<rparr>)]\<rparr>))
         (ef_seq (db_commit num) (ef_return opening))))"
end
