(* ===== verification/Ledger_Claims.thy ===== *)
theory Ledger_Claims
  imports Ledger
begin

text \<open>
  The durable record over all sequences of its operations, with failing calls and commits whose
  answer is lost: a key is granted once, an order's history is a chain that ends in its status, and a
  synchronisation books the new fills in trades, positions and cash together, or nothing.
\<close>

declare nat_str.simps [simp del]

section \<open>What a committed operation does to the tables\<close>

text \<open>The fills of a trade book that were not booked before, with their ids.\<close>

fun fresh_fills :: "string \<Rightarrow> string list \<Rightarrow> nat \<Rightarrow> fill_entry list \<Rightarrow> (fill_entry \<times> string) list" where
  "fresh_fills bid already seq [] = []"
| "fresh_fills bid already seq (f # fs) =
     (if fill_id_of bid seq f \<in> set already then [] else [(f, fill_id_of bid seq f)]) @
      fresh_fills bid already (Suc seq) fs"

fun book_all :: "string \<Rightarrow> order_row \<Rightarrow> nat option \<Rightarrow> (fill_entry \<times> string) list \<Rightarrow> ledger \<Rightarrow> ledger res" where
  "book_all mode r at_row [] l = Inr l"
| "book_all mode r at_row ((f, fid) # fs) l =
     res_bind (read_fill f) (\<lambda>fn. res_bind (booked_fill mode r f fid fn at_row l) (\<lambda>(_, l1). book_all mode r at_row fs l1))"

lemmas session_defs = ef_defs db_query_def next_outcome_def db_commit_def rows_update_def out_update_def

lemma apply_fill_row_run:
  assumes "apply_fill_row mode r f fid s = (res, s')"
  shows "db_rows (wk_db s') = db_rows (wk_db s) \<and> (\<forall>pnl. res = Inr pnl \<longrightarrow> (\<exists>fn. read_fill f = Inr fn \<and>
     booked_fill mode r f fid fn (position_at (ow_symbol r) (ow_exchange r) (db_rows (wk_db s))) (wk_rows s) = Inr (pnl, wk_rows s')))"
  using assms
  by (auto simp: apply_fill_row_def session_defs Let_def split: sum.splits prod.splits if_splits list.splits)

lemma sync_fills_run:
  assumes "sync_fills mode r bid already seq fs s = (res, s')"
  shows "db_rows (wk_db s') = db_rows (wk_db s) \<and> (\<forall>u. res = Inr u \<longrightarrow>
     book_all mode r (position_at (ow_symbol r) (ow_exchange r) (db_rows (wk_db s))) (fresh_fills bid already seq fs) (wk_rows s) =
       Inr (wk_rows s'))"
  using assms
proof (induction fs arbitrary: seq s)
  case Nil
  then show ?case by (auto simp: ef_return_def)
next
  case (Cons f fs)
  show ?case
  proof (cases "fill_id_of bid seq f \<in> set already")
    case True
    then show ?thesis using Cons.IH [of "Suc seq" s] Cons.prems by simp
  next
    case False
    obtain p s1 where a: "apply_fill_row mode r f (fill_id_of bid seq f) s = (p, s1)" by fastforce
    note run = apply_fill_row_run [OF a]
    show ?thesis
    proof (cases p)
      case (Inl e)
      then show ?thesis using Cons.prems False a run by (auto simp: ef_bind_def)
    next
      case (Inr pnl)
      define s2 where "s2 = s1\<lparr>wk_out := count_fill pnl (wk_out s1)\<rparr>"
      have "sync_fills mode r bid already (Suc seq) fs s2 = (res, s')"
        using Cons.prems False a Inr by (simp add: ef_defs out_update_def s2_def)
      from Cons.IH [OF this] show ?thesis
        using False run Inr by (auto simp: s2_def)
    qed
  qed
qed

section \<open>Operations\<close>

text \<open>The operations of a process on the account's tables. A synchronisation comes with the answers of the broker.\<close>

datatype ledger_op =
    Claim signal int
  | Attach nat string
  | Block nat string string
  | Sync string nat string "row res" "fill_entry option list res"
  | Run string string bool "string list option" "string list option" string
  | Open_cash string pyfloat
  | Open_user string

text \<open>\<open>exec_op\<close> also says which key the operation granted, if it did.\<close>

fun exec_op :: "(pyfloat \<Rightarrow> pyfloat) \<Rightarrow> (string \<Rightarrow> string \<Rightarrow> bool) \<Rightarrow> ledger_op \<Rightarrow> db \<Rightarrow> string option \<times> db" where
  "exec_op num like (Claim sg n) d = (case claim_idempotency_key num sg n d of
     (Inr sub, d') \<Rightarrow> (if sr_duplicate sub then None else Some (sr_client_id sub), d') | (Inl _, d') \<Rightarrow> (None, d'))"
| "exec_op num like (Attach n bid) d = (None, snd (attach_broker_order_id num n bid d))"
| "exec_op num like (Block n st reason) d = (None, snd (record_block num n st reason d))"
| "exec_op num like (Sync mode n bid status book) d = (None, snd (sync_rows num like mode n bid status book d))"
| "exec_op num like (Run mode st ok found missing detail) d =
     (None, snd (record_reconciliation num mode st ok found missing detail d))"
| "exec_op num like (Open_cash mode x) d = (None, snd (ensure_opening_cash num mode x d))"
| "exec_op num like (Open_user email) d = (None, snd (get_or_create_system_user num email d))"

fun run_ops :: "(pyfloat \<Rightarrow> pyfloat) \<Rightarrow> (string \<Rightarrow> string \<Rightarrow> bool) \<Rightarrow> ledger_op list \<Rightarrow> db \<Rightarrow> string list \<times> db" where
  "run_ops num like [] d = ([], d)"
| "run_ops num like (x # xs) d = (case exec_op num like x d of (g, d1) \<Rightarrow>
     case run_ops num like xs d1 of (gs, d2) \<Rightarrow> ((case g of None \<Rightarrow> gs | Some k \<Rightarrow> k # gs), d2))"

text \<open>What one committed operation does, as a relation on the tables.\<close>

definition claimed_keys :: "ledger \<Rightarrow> string set" where
  "claimed_keys l = ow_client_id ` set (ld_orders l)"

inductive ledger_step :: "(pyfloat \<Rightarrow> pyfloat) \<Rightarrow> ledger \<Rightarrow> ledger \<Rightarrow> bool" for num :: "pyfloat \<Rightarrow> pyfloat" where
  claimed: "sg_client_order_id sg \<notin> claimed_keys l \<Longrightarrow> n = length (ld_orders l) \<Longrightarrow>
     ledger_step num l (stored num (add_transition (transition_of n None ''INTENT_CREATED'' None ''submission'' 0)
       (insert_order (claimed_order n sg q) l)))"
| moved: "order_by_id n l = Some x \<Longrightarrow> ow_id r = ow_id x \<Longrightarrow> ow_client_id r = ow_client_id x \<Longrightarrow>
     ledger_step num l (stored num (status_move x r reason source l))"
| synced: "order_by_id n l = Some x \<Longrightarrow> reported_order st x = Inr (r, refusal) \<Longrightarrow>
     book_all mode x (position_at (ow_symbol x) (ow_exchange x) l) fs l = Inr l1 \<Longrightarrow>
     ledger_step num l (stored num (if ow_status r \<noteq> ow_status x then status_move x r refusal ''fill'' l1 else put_order r l1))"
| noted: "ld_orders l1 = ld_orders l \<Longrightarrow> ld_transitions l1 = ld_transitions l \<Longrightarrow> ledger_step num l (stored num l1)"

inductive_cases ledger_stepE: "ledger_step num l l'"

lemma order_found: "order_by_id n l = Some x \<Longrightarrow> x \<in> set (ld_orders l) \<and> ow_id x = n"
  by (auto simp: order_by_id_def find_Some_iff)

lemma query_run: "db_query f s = (res, s') \<Longrightarrow> wk_rows s' = wk_rows s \<and> wk_out s' = wk_out s \<and>
    db_rows (wk_db s') = db_rows (wk_db s) \<and> (\<forall>x. res = Inr x \<longrightarrow> x = f (db_rows (wk_db s)))"
  by (auto simp: session_defs Let_def split: if_splits list.splits)

lemma flush_run: "db_flush s = (res, s') \<Longrightarrow> wk_rows s' = wk_rows s \<and> db_rows (wk_db s') = db_rows (wk_db s) \<and>
    (\<forall>u. res = Inr u \<longrightarrow> distinct (map ow_client_id (ld_orders (wk_rows s))))"
  by (auto simp: session_defs db_flush_def Let_def split: if_splits list.splits)

lemma commit_run: "db_commit num s = (res, s') \<Longrightarrow> wk_rows s' = wk_rows s \<and> wk_out s' = wk_out s \<and>
    (db_rows (wk_db s') = db_rows (wk_db s) \<or> ledger_unique (wk_rows s) \<and> db_rows (wk_db s') = stored num (wk_rows s)) \<and>
    (\<forall>u. res = Inr u \<longrightarrow> db_rows (wk_db s') = stored num (wk_rows s))"
  by (auto simp: session_defs Let_def split: if_splits list.splits)

lemma claim_body_run:
  assumes "claim_body num sg q s = (res, s')" and "wk_rows s = db_rows (wk_db s)"
  shows "(db_rows (wk_db s') = db_rows (wk_db s) \<or> ledger_step num (db_rows (wk_db s)) (db_rows (wk_db s'))) \<and>
    (\<forall>sub. res = Inr sub \<longrightarrow> \<not> sr_duplicate sub \<longrightarrow> sr_client_id sub = sg_client_order_id sg \<and>
       sg_client_order_id sg \<notin> claimed_keys (db_rows (wk_db s)) \<and>
       sg_client_order_id sg \<in> claimed_keys (db_rows (wk_db s')))"
proof -
  let ?n = "length (ld_orders (wk_rows s))"
  let ?l1 = "insert_order (claimed_order ?n sg q) (wk_rows s)"
  let ?l2 = "add_transition (transition_of ?n None ''INTENT_CREATED'' None ''submission'' 0) ?l1"
  obtain fr s2 where fl: "db_flush (s\<lparr>wk_rows := ?l1\<rparr>) = (fr, s2)" by fastforce
  note f = flush_run [OF fl]
  show ?thesis
  proof (cases fr)
    case (Inl e)
    then show ?thesis
      using assms fl f
      by (auto simp: claim_body_def ef_defs rows_update_def split: prod.splits sum.splits if_splits dest!: query_run)
  next
    case (Inr u)
    obtain cr s3 where c: "db_commit num (s2\<lparr>wk_rows := ?l2\<rparr>) = (cr, s3)" by fastforce
    have new: "sg_client_order_id sg \<notin> claimed_keys (wk_rows s)"
      using f Inr by (auto simp: insert_order_def claimed_order_def claimed_keys_def)
    have res: "s' = s3 \<and> (\<forall>sub. res = Inr sub \<longrightarrow> cr = Inr () \<and> sr_client_id sub = sg_client_order_id sg)"
      using assms(1) fl Inr c f
      by (auto simp: claim_body_def ef_defs rows_update_def split: prod.splits sum.splits)
    have step: "ledger_step num (db_rows (wk_db s)) (stored num ?l2)"
      using new unfolding assms(2) by (rule claimed [OF _ refl])
    have "sg_client_order_id sg \<in> claimed_keys (stored num ?l2)"
      by (auto simp: claimed_keys_def stored_def stored_order_def add_transition_def insert_order_def claimed_order_def)
    then show ?thesis
      using res step commit_run [OF c] f new assms(2) by auto
  qed
qed

lemma claim_step:
  assumes "claim_idempotency_key num sg q d = (res, d')"
  shows "(db_rows d' = db_rows d \<or> ledger_step num (db_rows d) (db_rows d')) \<and>
    (\<forall>sub. res = Inr sub \<longrightarrow> \<not> sr_duplicate sub \<longrightarrow> sr_client_id sub = sg_client_order_id sg \<and>
       sg_client_order_id sg \<notin> claimed_keys (db_rows d) \<and>
       sg_client_order_id sg \<in> claimed_keys (db_rows d'))"
proof (cases "sg_client_order_id sg = []")
  case True
  then show ?thesis using assms by (auto simp: claim_idempotency_key_def ef_defs)
next
  case False
  obtain r s where b: "claim_body num sg q \<lparr>wk_rows = db_rows d, wk_db = d, wk_out = empty_sync\<rparr> = (r, s)" by fastforce
  show ?thesis
    using claim_body_run [OF b] assms False b
    by (auto simp: claim_idempotency_key_def transaction_def session_run_def ef_defs split: sum.splits)
qed

lemma attach_step: "attach_broker_order_id num n bid d = (res, d') \<Longrightarrow>
    db_rows d' = db_rows d \<or> ledger_step num (db_rows d) (db_rows d')"
  by (auto simp: attach_broker_order_id_def transaction_def session_run_def ef_bind_def ef_seq_def ef_raise_def rows_update_def
      ef_modify_def split: prod.splits sum.splits option.splits dest!: query_run commit_run intro!: moved)

lemma block_step: "db_rows (snd (record_block num n st reason d)) = db_rows d \<or>
    ledger_step num (db_rows d) (db_rows (snd (record_block num n st reason d)))"
  by (auto simp: record_block_def quietly_def transaction_def session_run_def ef_bind_def ef_seq_def ef_raise_def rows_update_def
      ef_modify_def ef_try_def ef_return_def split: prod.splits sum.splits option.splits dest!: query_run commit_run intro!: moved)

lemma unknown_step: "db_rows (snd (record_unknown num n reason d)) = db_rows d \<or>
    ledger_step num (db_rows d) (db_rows (snd (record_unknown num n reason d)))"
  by (auto simp: record_unknown_def quietly_def transaction_def session_run_def ef_bind_def ef_seq_def ef_raise_def rows_update_def
      ef_modify_def ef_try_def ef_return_def split: prod.splits sum.splits option.splits dest!: query_run commit_run intro!: moved)

text \<open>A synchronisation leaves the tables alone, or commits the new fills with the reported status.\<close>

definition committed_sync ::
  "(pyfloat \<Rightarrow> pyfloat) \<Rightarrow> (string \<Rightarrow> string \<Rightarrow> bool) \<Rightarrow> string \<Rightarrow> nat \<Rightarrow> string \<Rightarrow> row \<Rightarrow> fill_entry list \<Rightarrow> ledger \<Rightarrow> ledger \<Rightarrow> bool" where
  "committed_sync num like mode n bid st fills l l' \<longleftrightarrow> (\<exists>x r refusal l1. order_by_id n l = Some x \<and>
     reported_order st x = Inr (r, refusal) \<and> cash_of mode l \<noteq> None \<and>
     book_all mode x (position_at (ow_symbol x) (ow_exchange x) l) (fresh_fills bid (existing_fill_ids like bid l) 0 fills) l = Inr l1 \<and>
     l' = stored num (if ow_status r \<noteq> ow_status x then status_move x r refusal ''fill'' l1 else put_order r l1))"

lemma committed_step: "committed_sync num like mode n bid st fills l l' \<Longrightarrow> ledger_step num l l'"
  unfolding committed_sync_def using synced by blast

lemma sync_fills_errors:
  "sync_fills mode r bid already seq fs s = (res, s') \<Longrightarrow> fs_errors (wk_out s') = fs_errors (wk_out s)"
proof (induction fs arbitrary: seq s)
  case Nil
  then show ?case by (auto simp: ef_return_def)
next
  case (Cons f fs)
  have a: "apply_fill_row mode r f fid s = (p, s1) \<Longrightarrow> wk_out s1 = wk_out s" for fid p s1
    by (auto simp: apply_fill_row_def ef_bind_def ef_seq_def ef_lift_def ef_get_def rows_update_def ef_modify_def ef_return_def
        split: sum.splits prod.splits dest!: query_run)
  show ?case
    using Cons.prems
    by (auto simp: ef_bind_def ef_seq_def out_update_def ef_modify_def count_fill_def
        split: if_splits sum.splits prod.splits dest!: Cons.IH a)
qed

lemma sync_body_run:
  assumes "sync_body num like mode n bid st fills s = (res, s')" and "wk_rows s = db_rows (wk_db s)"
  shows "(db_rows (wk_db s') = db_rows (wk_db s) \<or>
      committed_sync num like mode n bid st fills (db_rows (wk_db s)) (db_rows (wk_db s'))) \<and>
    (\<forall>u. res = Inr u \<longrightarrow> fs_errors (wk_out s') = [] \<longrightarrow>
      committed_sync num like mode n bid st fills (db_rows (wk_db s)) (db_rows (wk_db s')))"
proof -
  let ?l = "db_rows (wk_db s)"
  obtain fo s1 where q1: "db_query (order_by_id n) s = (fo, s1)" by fastforce
  note r1 = query_run [OF q1]
  obtain al s2 where q2: "db_query (existing_fill_ids like bid) s1 = (al, s2)" by fastforce
  note r2 = query_run [OF q2]
  obtain ca s3 where q3: "db_query (cash_of mode) s2 = (ca, s3)" by fastforce
  note r3 = query_run [OF q3]
  show ?thesis
  proof (cases "\<exists>x already c. fo = Inr (Some x) \<and> al = Inr already \<and> ca = Inr (Some c)")
    case False
    then show ?thesis
      using assms(1) q1 r1 q2 r2 q3 r3
      by (auto simp: sync_body_def ef_bind_def ef_raise_def out_update_def ef_modify_def
          split: sum.splits prod.splits option.splits if_splits)
  next
    case True
    then obtain x already c where ok: "fo = Inr (Some x)" "al = Inr already" "ca = Inr (Some c)" by blast
    then have x: "order_by_id n ?l = Some x" "already = existing_fill_ids like bid ?l" "Some c = cash_of mode ?l"
      using r1 r2 r3 by auto
    then have cash: "cash_of mode ?l \<noteq> None" by (metis option.distinct(1))
    obtain sr s4 where sf: "sync_fills mode x bid already 0 fills s3 = (sr, s4)" by fastforce
    note r4 = sync_fills_run [OF sf]
    have at3: "db_rows (wk_db s3) = ?l" "wk_rows s3 = ?l" using r1 r2 r3 assms(2) by simp_all
    show ?thesis
    proof (cases "\<exists>r' refusal. sr = Inr () \<and> reported_order st x = Inr (r', refusal)")
      case False
      then show ?thesis
        using assms(1) q1 q2 q3 ok sf r4 at3
        by (auto simp: sync_body_def ef_bind_def ef_seq_def ef_lift_def split: sum.splits prod.splits)
    next
      case True
      then obtain r' refusal where rep: "sr = Inr ()" "reported_order st x = Inr (r', refusal)" by blast
      have all: "book_all mode x (position_at (ow_symbol x) (ow_exchange x) ?l)
          (fresh_fills bid (existing_fill_ids like bid ?l) 0 fills) ?l = Inr (wk_rows s4)"
        using r4 rep at3 x(2) by simp
      let ?L = "if ow_status r' \<noteq> ow_status x then status_move x r' refusal ''fill'' (wk_rows s4) else put_order r' (wk_rows s4)"
      define s5 where "s5 = s4\<lparr>wk_out := (if refusal = None then wk_out s4 else (wk_out s4)\<lparr>fs_reject := refusal\<rparr>), wk_rows := ?L\<rparr>"
      obtain cr s6 where c: "db_commit num s5 = (cr, s6)" by fastforce
      have end': "db_rows (wk_db s') = db_rows (wk_db s6) \<and> (\<forall>u. res = Inr u \<longrightarrow> cr = Inr ())"
        using assms(1) q1 q2 q3 ok sf rep c
        by (cases "ow_status r' = ow_status x"; cases refusal)
           (auto simp: sync_body_def ef_bind_def ef_seq_def ef_lift_def out_update_def rows_update_def ef_modify_def ef_get_def
            s5_def split: sum.splits prod.splits)
      have s5: "db_rows (wk_db s5) = ?l" "wk_rows s5 = ?L" using r4 at3 by (simp_all add: s5_def)
      have "committed_sync num like mode n bid st fills ?l (stored num ?L)"
        unfolding committed_sync_def using x(1) cash rep(2) all by blast
      then show ?thesis
        using commit_run [OF c] end' s5 by auto
    qed
  qed
qed

text \<open>The fills of an order in the trade book.\<close>

definition order_fills :: "string \<Rightarrow> fill_entry list \<Rightarrow> fill_entry list" where
  "order_fills bid fs = filter (\<lambda>f. py_str (row_get (fe_row f) ''order_id'') = bid) fs"

lemma entries_of [simp]: "List.map_filter id (map Some xs) = xs"
  by (induction xs) simp_all

definition book_entries :: "fill_entry option list res \<Rightarrow> fill_entry option list" where
  "book_entries book = (case book of Inr fs \<Rightarrow> fs | Inl _ \<Rightarrow> [])"

text \<open>A synchronisation whose status came, over any trade book.\<close>

lemma sync_status_run:
  assumes "sync_rows num like mode n bid (Inr st) book d = (res, d')"
  shows "(if None \<in> set (book_entries book) then res = Inl (PyExn ''AttributeError'' ''get'') \<and> d' = d
    else (db_rows d' = db_rows d \<or>
        committed_sync num like mode n bid st (order_fills bid (List.map_filter id (book_entries book))) (db_rows d) (db_rows d')) \<and>
      (\<exists>out. res = Inr out \<and> (fs_errors out = [] \<longrightarrow>
         committed_sync num like mode n bid st (order_fills bid (List.map_filter id (book_entries book))) (db_rows d) (db_rows d'))))"
proof -
  let ?out = "case book of Inr _ \<Rightarrow> empty_sync | Inl e \<Rightarrow> empty_sync\<lparr>fs_errors := [''trade book unavailable: '' @ exn_msg e]\<rparr>"
  let ?fs = "order_fills bid (List.map_filter id (book_entries book))"
  obtain r s where b: "sync_body num like mode n bid st ?fs \<lparr>wk_rows = db_rows d, wk_db = d, wk_out = ?out\<rparr> = (r, s)"
    by fastforce
  have run: "sync_rows num like mode n bid (Inr st) book d =
      (if None \<in> set (book_entries book) then (Inl (PyExn ''AttributeError'' ''get''), d)
       else case session_run (sync_body num like mode n bid st ?fs) ?out d of
         (Inr _, s) \<Rightarrow> (Inr (wk_out s), wk_db s)
       | (Inl e, s) \<Rightarrow> (Inr ((wk_out s)\<lparr>fs_errors := fs_errors (wk_out s) @ [''fill persistence failed: '' @ exn_msg e]\<rparr>),
           wk_db s))"
    by (cases book) (simp_all add: sync_rows_def order_fills_def book_entries_def Let_def)
  show ?thesis
  proof (cases "None \<in> set (book_entries book)")
    case False
    have f: "(db_rows (wk_db s) = db_rows d \<or> committed_sync num like mode n bid st ?fs (db_rows d) (db_rows (wk_db s))) \<and>
        (\<forall>u. r = Inr u \<longrightarrow> fs_errors (wk_out s) = [] \<longrightarrow>
           committed_sync num like mode n bid st ?fs (db_rows d) (db_rows (wk_db s)))"
      using sync_body_run [OF b] by simp
    show ?thesis using assms f False unfolding run session_run_def b by (cases r) auto
  qed (use assms in \<open>simp add: run\<close>)
qed

lemma sync_rows_run:
  assumes "sync_rows num like mode n bid (Inr st) (Inr (map Some fs)) d = (res, d')"
  shows "(db_rows d' = db_rows d \<or> committed_sync num like mode n bid st (order_fills bid fs) (db_rows d) (db_rows d')) \<and>
    (\<exists>out. res = Inr out \<and> (fs_errors out = [] \<longrightarrow>
       committed_sync num like mode n bid st (order_fills bid fs) (db_rows d) (db_rows d')))"
proof -
  have "None \<notin> set (book_entries (Inr (map Some fs)))" "List.map_filter id (book_entries (Inr (map Some fs))) = fs"
    by (simp_all add: book_entries_def image_iff)
  then show ?thesis using sync_status_run [OF assms] by simp
qed

lemma sync_step: "db_rows (snd (sync_rows num like mode n bid status book d)) = db_rows d \<or>
    ledger_step num (db_rows d) (db_rows (snd (sync_rows num like mode n bid status book d)))"
proof (cases status)
  case (Inl e)
  then show ?thesis using unknown_step [of num n "exn_msg e" d]
    by (auto simp: sync_rows_def ef_defs record_unknown_def quietly_def split: prod.splits sum.splits)
next
  case (Inr st)
  obtain res d' where r: "sync_rows num like mode n bid (Inr st) book d = (res, d')" by fastforce
  show ?thesis using sync_status_run [OF r] committed_step by (auto simp: Inr r split: if_splits)
qed

lemma noted_update:
  assumes "ld_orders (f l) = ld_orders l" and "ld_transitions (f l) = ld_transitions l"
  shows "ledger_step num l (stored num (f l))"
  using noted [of "f l" l num] assms by simp

lemma run_step: "db_rows (snd (record_reconciliation num mode st ok found missing detail d)) = db_rows d \<or>
    ledger_step num (db_rows d) (db_rows (snd (record_reconciliation num mode st ok found missing detail d)))"
  by (auto simp: record_reconciliation_def quietly_def transaction_def session_run_def ef_bind_def ef_seq_def rows_update_def
      ef_modify_def ef_try_def ef_return_def split: prod.splits sum.splits dest!: commit_run intro!: noted)

lemma cash_step: "db_rows (snd (ensure_opening_cash num mode x d)) = db_rows d \<or>
    ledger_step num (db_rows d) (db_rows (snd (ensure_opening_cash num mode x d)))"
  by (auto simp: ensure_opening_cash_def transaction_def session_run_def ef_bind_def ef_seq_def rows_update_def
      ef_modify_def ef_return_def split: prod.splits sum.splits option.splits dest!: query_run commit_run intro!: noted)

lemma user_step: "db_rows (snd (get_or_create_system_user num email d)) = db_rows d \<or>
    ledger_step num (db_rows d) (db_rows (snd (get_or_create_system_user num email d)))"
  by (auto simp: get_or_create_system_user_def transaction_def session_run_def ef_bind_def ef_seq_def rows_update_def
      ef_modify_def ef_return_def ef_get_def split: prod.splits sum.splits option.splits dest!: query_run commit_run intro!: noted)

text \<open>Every operation leaves the tables as they were or takes one step, and grants a key only in a step
  that adds it.\<close>

lemma exec_step:
  assumes "exec_op num like x d = (g, d')"
  shows "(db_rows d' = db_rows d \<or> ledger_step num (db_rows d) (db_rows d')) \<and>
    (\<forall>k. g = Some k \<longrightarrow> k \<notin> claimed_keys (db_rows d) \<and> k \<in> claimed_keys (db_rows d'))"
proof (cases x)
  case (Claim sg n)
  obtain res d1 where c: "claim_idempotency_key num sg n d = (res, d1)" by fastforce
  show ?thesis using assms claim_step [OF c] c Claim by (auto split: sum.splits if_splits)
next
  case (Attach n bid)
  then show ?thesis using assms attach_step [of num n bid d] by (cases "attach_broker_order_id num n bid d") auto
next
  case (Block n st reason)
  then show ?thesis using assms block_step [of num n st reason d] by simp
next
  case (Sync mode n bid status book)
  then show ?thesis using assms sync_step [of num like mode n bid status book d] by simp
next
  case (Run mode st ok found missing detail)
  then show ?thesis using assms run_step [of num mode st ok found missing detail d] by simp
next
  case (Open_cash mode c)
  then show ?thesis using assms cash_step [of num mode c d] by simp
next
  case (Open_user email)
  then show ?thesis using assms user_step [of num email d] by simp
qed

section \<open>The history of an order\<close>

fun chain :: "string option \<Rightarrow> (string option \<times> string) list \<Rightarrow> string option \<Rightarrow> bool" where
  "chain a [] b \<longleftrightarrow> a = b"
| "chain a ((old, new) # xs) b \<longleftrightarrow> old = a \<and> chain (Some new) xs b"

lemma chain_append: "chain a (xs @ ys) b \<longleftrightarrow> (\<exists>c. chain a xs c \<and> chain c ys b)"
  by (induction xs arbitrary: a) auto

definition history_of :: "nat \<Rightarrow> ledger \<Rightarrow> (string option \<times> string) list" where
  "history_of n l = map (\<lambda>t. (tw_from t, tw_to t)) (filter (\<lambda>t. tw_order t = n) (ld_transitions l))"

text \<open>Row ids are places, a transition belongs to an order, and the transitions of an order lead from
  nothing to its status without a gap.\<close>

definition tables_ok :: "ledger \<Rightarrow> bool" where
  "tables_ok l \<longleftrightarrow> (\<forall>i < length (ld_orders l). ow_id (ld_orders l ! i) = i) \<and>
     (\<forall>t \<in> set (ld_transitions l). tw_order t < length (ld_orders l)) \<and>
     (\<forall>r \<in> set (ld_orders l). chain None (history_of (ow_id r) l) (Some (ow_status r)))"

lemma tables_ok_ids: "tables_ok l \<Longrightarrow> r \<in> set (ld_orders l) \<Longrightarrow> r' \<in> set (ld_orders l) \<Longrightarrow> ow_id r = ow_id r' \<Longrightarrow> r = r'"
  unfolding tables_ok_def by (metis in_set_conv_nth)

lemma stored_ok: "tables_ok (stored num l) = tables_ok l"
  by (auto simp: tables_ok_def stored_def stored_order_def history_of_def)

lemma stored_ids: "claimed_keys (stored num l) = claimed_keys l"
  by (simp add: claimed_keys_def stored_def stored_order_def image_image)

lemma booked_orders:
  assumes "booked_fill mode r f fid fn at_row l = Inr (pnl, l')"
  shows "ld_orders l' = ld_orders l \<and> ld_transitions l' = ld_transitions l"
  using assms
  by (auto simp: booked_fill_def buy_fill_def sell_fill_def upd_cash_def set_position_def Let_def
      split: if_splits option.splits)

lemma book_all_orders:
  "book_all mode r at_row fs l = Inr l' \<Longrightarrow> ld_orders l' = ld_orders l \<and> ld_transitions l' = ld_transitions l"
proof (induction mode r at_row fs l rule: book_all.induct)
  case (2 mode r at_row f fid fs l)
  then obtain fn pnl l1 where "read_fill f = Inr fn" "booked_fill mode r f fid fn at_row l = Inr (pnl, l1)"
    "book_all mode r at_row fs l1 = Inr l'" by auto
  then show ?case using "2.IH" booked_orders by metis
qed auto

lemma move_ok:
  assumes "tables_ok l" and "x \<in> set (ld_orders l)" and "ow_id r = ow_id x"
  shows "tables_ok (status_move x r reason source l)"
proof -
  have "chain None (history_of (ow_id y) (status_move x r reason source l)) (Some (ow_status y))"
    if "y \<in> set (ld_orders (status_move x r reason source l))" for y
  proof (cases "y = r")
    case True
    then show ?thesis using assms
      by (auto simp: tables_ok_def history_of_def status_move_def add_transition_def put_order_def transition_of_def chain_append)
  next
    case False
    then have y: "y \<in> set (ld_orders l)" "ow_id y \<noteq> ow_id r"
      using that by (auto simp: status_move_def add_transition_def put_order_def split: if_splits)
    then show ?thesis using assms(1)
      by (auto simp: tables_ok_def history_of_def status_move_def add_transition_def put_order_def transition_of_def)
  qed
  moreover have "ow_id r < length (ld_orders l)"
    using assms unfolding tables_ok_def by (metis in_set_conv_nth)
  ultimately show ?thesis using assms(1)
    by (auto simp: tables_ok_def status_move_def add_transition_def put_order_def transition_of_def)
qed

lemma put_ok:
  assumes "tables_ok l" and "x \<in> set (ld_orders l)" and "ow_id r = ow_id x" and "ow_status r = ow_status x"
  shows "tables_ok (put_order r l)"
proof -
  have "chain None (history_of (ow_id y) l) (Some (ow_status y))" if "y \<in> set (ld_orders (put_order r l))" for y
    using that assms by (auto simp: tables_ok_def put_order_def split: if_splits)
  then show ?thesis using assms(1) by (auto simp: tables_ok_def put_order_def history_of_def)
qed

lemma reported_id: "reported_order st x = Inr (r, refusal) \<Longrightarrow> ow_id r = ow_id x \<and> ow_client_id r = ow_client_id x"
  by (auto simp: reported_order_def Let_def)

lemma insert_ok:
  assumes "tables_ok l" and "ow_id r = length (ld_orders l)"
  shows "tables_ok (add_transition (transition_of (ow_id r) None (ow_status r) reason source q) (insert_order r l))"
    (is "tables_ok ?l")
proof -
  have "chain None (history_of (ow_id y) ?l) (Some (ow_status y))" if "y \<in> set (ld_orders l)" for y
  proof -
    have "ow_id y < ow_id r" using that assms by (metis in_set_conv_nth tables_ok_def)
    then show ?thesis using that assms(1)
      by (simp add: tables_ok_def history_of_def add_transition_def insert_order_def transition_of_def)
  qed
  moreover have "chain None (history_of (ow_id r) ?l) (Some (ow_status r))"
  proof -
    have "filter (\<lambda>t. tw_order t = ow_id r) (ld_transitions l) = []"
      using assms by (auto simp: filter_empty_conv tables_ok_def)
    then show ?thesis by (simp add: history_of_def add_transition_def insert_order_def transition_of_def)
  qed
  moreover have "ow_id (ld_orders ?l ! i) = i" if "i < length (ld_orders ?l)" for i
    using that assms by (auto simp: tables_ok_def add_transition_def insert_order_def nth_append less_Suc_eq)
  moreover have "tw_order t < length (ld_orders ?l)" if "t \<in> set (ld_transitions ?l)" for t
    using that assms by (auto simp: tables_ok_def add_transition_def insert_order_def transition_of_def)
  ultimately show ?thesis
    unfolding tables_ok_def by (auto simp: add_transition_def insert_order_def)
qed

lemma step_ok:
  assumes "ledger_step num l l'" and "tables_ok l"
  shows "tables_ok l'"
  using assms
proof (induction rule: ledger_step.induct)
  case (claimed sg l n q)
  have "ow_id (claimed_order n sg q) = n" "ow_status (claimed_order n sg q) = ''INTENT_CREATED''"
    by (simp_all add: claimed_order_def)
  then show ?case using insert_ok [OF claimed.prems, of "claimed_order n sg q"] claimed.hyps(2) by (simp add: stored_ok)
next
  case (moved n l x r reason source)
  then show ?case by (simp add: stored_ok move_ok order_found)
next
  case (synced n l x st r refusal mode fs l1)
  have same: "ld_orders l1 = ld_orders l" "ld_transitions l1 = ld_transitions l"
    using book_all_orders [OF synced.hyps(3)] by simp_all
  then have ok: "tables_ok l1" "x \<in> set (ld_orders l1)"
    using synced.prems order_found [OF synced.hyps(1)] by (simp_all add: tables_ok_def history_of_def)
  show ?case
    using move_ok [OF ok] put_ok [OF ok] reported_id [OF synced.hyps(2)] by (simp add: stored_ok)
next
  case (noted l1 l)
  then show ?case by (simp only: stored_ok) (simp add: tables_ok_def history_of_def)
qed

lemma move_keys: "claimed_keys (status_move x r reason source l) = claimed_keys (put_order r l)"
  by (simp add: claimed_keys_def status_move_def add_transition_def)

lemma put_keys:
  assumes "tables_ok l" and "x \<in> set (ld_orders l)" and "ow_id r = ow_id x" and "ow_client_id r = ow_client_id x"
  shows "claimed_keys (put_order r l) = claimed_keys l"
proof -
  have "ow_client_id (if ow_id y = ow_id r then r else y) = ow_client_id y" if "y \<in> set (ld_orders l)" for y
    using tables_ok_ids [OF assms(1) that assms(2)] assms(3,4) by auto
  then have "(\<lambda>y. ow_client_id (if ow_id y = ow_id r then r else y)) ` set (ld_orders l) = ow_client_id ` set (ld_orders l)"
    by (rule image_cong [OF refl])
  then show ?thesis by (simp add: claimed_keys_def put_order_def image_image del: if_image_distrib)
qed

lemma step_ids:
  assumes "ledger_step num l l'" and "tables_ok l"
  shows "claimed_keys l \<subseteq> claimed_keys l'"
  using assms
proof (induction rule: ledger_step.induct)
  case (claimed sg l n q)
  then show ?case by (simp only: stored_ids) (auto simp: claimed_keys_def add_transition_def insert_order_def)
next
  case (moved n l x r reason source)
  then show ?case using put_keys [of l x r] order_found [OF moved(1)] by (simp add: stored_ids move_keys)
next
  case (synced n l x st r refusal mode fs l1)
  have "claimed_keys (put_order r l1) = claimed_keys (put_order r l)"
    using book_all_orders [OF synced.hyps(3)] by (simp add: claimed_keys_def put_order_def)
  then show ?case
    using put_keys [of l x r] order_found [OF synced.hyps(1)] reported_id [OF synced.hyps(2)] synced.prems
    by (simp add: stored_ids move_keys)
next
  case (noted l1 l)
  then show ?case by (simp only: stored_ids) (simp add: claimed_keys_def)
qed

lemma run_grants:
  assumes "run_ops num like xs d = (gs, d')" and "tables_ok (db_rows d)"
  shows "tables_ok (db_rows d') \<and> distinct gs \<and> set gs \<inter> claimed_keys (db_rows d) = {} \<and>
    set gs \<union> claimed_keys (db_rows d) \<subseteq> claimed_keys (db_rows d')"
  using assms
proof (induction xs arbitrary: d gs)
  case Nil
  then show ?case by simp
next
  case (Cons x xs)
  obtain g d1 where e: "exec_op num like x d = (g, d1)" by fastforce
  obtain gs1 where r: "run_ops num like xs d1 = (gs1, d')" using Cons.prems(1) e by (auto split: prod.splits)
  note step = exec_step [OF e]
  have ok: "tables_ok (db_rows d1)" using step step_ok [of num "db_rows d" "db_rows d1"] Cons.prems(2) by auto
  have up: "claimed_keys (db_rows d) \<subseteq> claimed_keys (db_rows d1)"
    using step step_ids [of num "db_rows d" "db_rows d1"] Cons.prems(2) by auto
  have gs: "gs = (case g of None \<Rightarrow> gs1 | Some k \<Rightarrow> k # gs1)" using Cons.prems(1) e r by simp
  show ?case
    using Cons.IH [OF r ok] up step by (cases g) (simp_all add: gs, blast+)
qed

text \<open>C36. Over any sequence of claims, attachments, blocks, synchronisations and other operations on the
  account, with any failures of the database, a key is granted at most once, and never one that was
  claimed before.\<close>

theorem key_is_granted_once:
  assumes "tables_ok (db_rows d)" and "run_ops num like xs d = (granted, d')"
  shows "distinct granted \<and> set granted \<inter> claimed_keys (db_rows d) = {}"
  using run_grants [OF assms(2,1)] by simp

text \<open>C37. The history of every order is a chain of transitions that starts at its creation and ends in its
  status, over any sequence of operations and failures: no change of status goes unrecorded.\<close>

theorem order_history_has_no_gap:
  assumes "tables_ok (db_rows d)" and "run_ops num like xs d = (granted, d')" and "r \<in> set (ld_orders (db_rows d'))"
  shows "chain None (history_of (ow_id r) (db_rows d')) (Some (ow_status r))"
  using run_grants [OF assms(2,1)] assms(3) by (simp add: tables_ok_def)

section \<open>Trades, positions and cash move together\<close>

text \<open>What a trade does to the cash of its mode.\<close>

definition settle :: "cash_row \<Rightarrow> trade_row \<Rightarrow> cash_row" where
  "settle c t = c\<lparr>cw_cash := (if tr_side t = ''BUY'' then cw_cash c - tr_value t - tr_costs t else cw_cash c + tr_value t - tr_costs t),
     cw_pnl := (case tr_pnl t of None \<Rightarrow> cw_pnl c | Some x \<Rightarrow> cw_pnl c + x), cw_costs := cw_costs c + tr_costs t\<rparr>"

lemma cash_upd [simp]: "cash_of m (upd_cash mode f l) = (if m = mode then map_option f (cash_of m l) else cash_of m l)"
proof -
  have "map_of (map (\<lambda>(k, c). (k, if k = mode then f c else c)) xs) m =
      (if m = mode then map_option f (map_of xs m) else map_of xs m)" for xs :: "(string \<times> cash_row) list"
    by (induction xs) auto
  then show ?thesis by (simp add: cash_of_def upd_cash_def)
qed

lemma cash_position [simp]: "cash_of m (set_position i p l) = cash_of m l"
  by (simp add: cash_of_def set_position_def)

lemma trades_upd [simp]: "ld_trades (upd_cash mode f l) = ld_trades l" "ld_trades (set_position i p l) = ld_trades l"
  by (simp_all add: upd_cash_def set_position_def)

lemma cash_positions_only [simp]: "cash_of m (l\<lparr>ld_positions := ps\<rparr>) = cash_of m l" "cash_of m (l\<lparr>ld_trades := ts\<rparr>) = cash_of m l"
  by (simp_all add: cash_of_def)

lemma booked_settles:
  assumes "booked_fill mode r f fid fn at_row l = Inr (pnl, l')"
  shows "\<exists>t. ld_trades l' = ld_trades l @ [t] \<and> tr_fill_id t = fid \<and> tr_order t = ow_id r \<and>
    tr_symbol t = ow_symbol r \<and> tr_exchange t = ow_exchange r \<and> tr_side t = fn_side fn \<and> fn_side fn \<in> {''BUY'', ''SELL''} \<and>
    tr_qty t = fn_qty fn \<and> tr_price t = fn_price fn \<and> tr_value t = fn_value fn \<and> tr_costs t = fn_costs fn \<and>
    (\<forall>m. cash_of m l' = (if m = mode then map_option (\<lambda>c. settle c t) (cash_of m l) else cash_of m l))"
proof -
  obtain l1 charges where b: "(if fn_side fn = ''BUY'' then buy_fill mode r fn at_row l
       else if fn_side fn = ''SELL'' then sell_fill mode r fn at_row l
       else Inl (unavailable ''unrecognised fill side'')) = Inr (pnl, l1)"
    and l': "l' = (upd_cash mode (\<lambda>c. c\<lparr>cw_costs := cw_costs c + fn_costs fn\<rparr>) l1)\<lparr>ld_trades :=
       ld_trades l1 @ [trade_of_fill r fid fn charges pnl]\<rparr>"
    using assms by (auto simp: booked_fill_def Let_def)
  let ?t = "trade_of_fill r fid fn charges pnl"
  have t: "tr_fill_id ?t = fid" "tr_order ?t = ow_id r" "tr_symbol ?t = ow_symbol r" "tr_exchange ?t = ow_exchange r"
    "tr_price ?t = fn_price fn" "tr_qty ?t = fn_qty fn" "tr_value ?t = fn_value fn"
    "tr_costs ?t = fn_costs fn" "tr_side ?t = fn_side fn" "tr_pnl ?t = pnl"
    by (simp_all add: trade_of_fill_def)
  have l1: "ld_trades l1 = ld_trades l" "m \<noteq> mode \<Longrightarrow> cash_of m l1 = cash_of m l"
    "cash_of mode l1 = map_option (\<lambda>c. c\<lparr>cw_cash := (if fn_side fn = ''BUY'' then cw_cash c - fn_value fn - fn_costs fn
        else cw_cash c + fn_value fn - fn_costs fn), cw_pnl := (case pnl of None \<Rightarrow> cw_pnl c | Some x \<Rightarrow> cw_pnl c + x)\<rparr>) (cash_of mode l)" for m
    using b
    by (auto simp: buy_fill_def sell_fill_def Let_def option.map_comp comp_def
        split: if_splits option.splits intro!: map_option_cong)
  have "cash_of m l' = (if m = mode then map_option (\<lambda>c. settle c ?t) (cash_of m l) else cash_of m l)" for m
    using l1 by (auto simp: l' settle_def t option.map_comp comp_def intro!: map_option_cong)
  moreover have "fn_side fn \<in> {''BUY'', ''SELL''}" using b by (auto split: if_splits)
  ultimately show ?thesis using t l1(1) by (intro exI [of _ ?t]) (simp add: l')
qed

text \<open>What the trade row of a fill says: the order's id and instrument, the fill's id, and the quantity, price, side and
  charges the broker's trade book has, with the value they make.\<close>

definition trade_reports :: "order_row \<Rightarrow> fill_entry \<times> string \<Rightarrow> trade_row \<Rightarrow> bool" where
  "trade_reports x ff t \<longleftrightarrow> (let f = fe_row (fst ff) in
     tr_order t = ow_id x \<and> tr_fill_id t = snd ff \<and> tr_symbol t = ow_symbol x \<and> tr_exchange t = ow_exchange x \<and>
     py_int (py_or (row_get f ''qty'') (py_or (row_get f ''quantity'') (PInt 0))) = Inr (tr_qty t) \<and>
     py_float (py_or (row_get f ''price'') (PFloat (Fin 0))) = Inr (tr_price t) \<and>
     py_float (py_or (row_get (fe_costs (fst ff)) ''total'') (PFloat (Fin 0))) = Inr (tr_costs t) \<and>
     (\<exists>q. int_to_float (tr_qty t) = Inr q \<and> tr_value t = fround 4 (q * tr_price t)) \<and>
     tr_side t = py_upper (str_or_empty (py_or (row_get f ''txn_type'') (row_get f ''transaction_type''))) \<and>
     tr_side t \<in> {''BUY'', ''SELL''})"

lemma reports_ids: "list_all2 (trade_reports x) fs new \<Longrightarrow> map tr_fill_id new = map snd fs"
  by (induction rule: list_all2_induct) (auto simp: trade_reports_def Let_def)

lemma booked_reports:
  assumes "read_fill f = Inr fn" and "tr_fill_id t = fid \<and> tr_order t = ow_id r"
    and "tr_symbol t = ow_symbol r \<and> tr_exchange t = ow_exchange r \<and> tr_side t = fn_side fn \<and> fn_side fn \<in> {''BUY'', ''SELL''}"
    and "tr_qty t = fn_qty fn \<and> tr_price t = fn_price fn \<and> tr_value t = fn_value fn \<and> tr_costs t = fn_costs fn"
  shows "trade_reports r (f, fid) t"
  using assms by (auto simp: read_fill_def res_bind_eq_Inr trade_reports_def times_int_def float_or_0_def Let_def)

lemma book_all_settles:
  assumes "book_all mode r at_row fs l = Inr l'"
  shows "\<exists>new. ld_trades l' = ld_trades l @ new \<and> list_all2 (trade_reports r) fs new \<and>
    (\<forall>m. cash_of m l' = (if m = mode then map_option (\<lambda>c. foldl settle c new) (cash_of m l) else cash_of m l))"
  using assms
proof (induction mode r at_row fs l rule: book_all.induct)
  case (1 mode r at_row l)
  then show ?case by (auto simp: option.map_ident)
next
  case (2 mode r at_row f fid fs l)
  then obtain fn pnl l1 where s: "read_fill f = Inr fn" "booked_fill mode r f fid fn at_row l = Inr (pnl, l1)"
    "book_all mode r at_row fs l1 = Inr l'" by auto
  obtain t where t: "ld_trades l1 = ld_trades l @ [t]" "trade_reports r (f, fid) t"
    "\<And>m. cash_of m l1 = (if m = mode then map_option (\<lambda>c. settle c t) (cash_of m l) else cash_of m l)"
    using booked_settles [OF s(2)] booked_reports [OF s(1)] by metis
  obtain new where new: "ld_trades l' = ld_trades l1 @ new" "list_all2 (trade_reports r) fs new"
    "\<And>m. cash_of m l' = (if m = mode then map_option (\<lambda>c. foldl settle c new) (cash_of m l1) else cash_of m l1)"
    using "2.IH" [OF s(3)] by blast
  show ?case
    using t new by (intro exI [of _ "t # new"]) (auto simp: option.map_comp comp_def)
qed

lemma stored_cash_of: "cash_of m (stored num l) = map_option (stored_cash num) (cash_of m l)"
proof -
  have "map_of (map (\<lambda>(m, c). (m, stored_cash num c)) xs) m = map_option (stored_cash num) (map_of xs m)"
    for xs :: "(string \<times> cash_row) list" by (induction xs) auto
  then show ?thesis by (simp add: cash_of_def stored_def)
qed

lemma order_write [simp]:
  "ld_trades (status_move x r reason source l) = ld_trades l" "cash_of m (status_move x r reason source l) = cash_of m l"
  "ld_positions (status_move x r reason source l) = ld_positions l"
  "ld_trades (put_order r l) = ld_trades l" "cash_of m (put_order r l) = cash_of m l" "ld_positions (put_order r l) = ld_positions l"
  by (simp_all add: status_move_def add_transition_def put_order_def cash_of_def)

text \<open>The tables after the trades \<open>new\<close> of one mode were booked on \<open>l\<close>: trades and cash together.\<close>

definition books_trades :: "(pyfloat \<Rightarrow> pyfloat) \<Rightarrow> string \<Rightarrow> trade_row list \<Rightarrow> ledger \<Rightarrow> ledger \<Rightarrow> bool" where
  "books_trades num mode new l l' \<longleftrightarrow> ld_trades l' = map (stored_trade num) (ld_trades l @ new) \<and>
     (\<forall>m. cash_of m l' = map_option (\<lambda>c. stored_cash num (if m = mode then foldl settle c new else c)) (cash_of m l))"

lemma stored_books: "books_trades num mode [] l (stored num (status_move x r reason source l))"
proof -
  have "(\<lambda>c. stored_cash num (if m = mode then foldl settle c [] else c)) = stored_cash num" for m by auto
  then show ?thesis by (simp add: books_trades_def stored_cash_of) (simp add: stored_def)
qed

lemma committed_books:
  assumes "committed_sync num like mode n bid st fills l l'"
  shows "\<exists>x new. order_by_id n l = Some x \<and> cash_of mode l \<noteq> None \<and>
    list_all2 (trade_reports x) (fresh_fills bid (existing_fill_ids like bid l) 0 fills) new \<and> books_trades num mode new l l'"
proof -
  obtain x r refusal l1 where c: "order_by_id n l = Some x" "cash_of mode l \<noteq> None"
    "book_all mode x (position_at (ow_symbol x) (ow_exchange x) l) (fresh_fills bid (existing_fill_ids like bid l) 0 fills) l = Inr l1"
    "l' = stored num (if ow_status r \<noteq> ow_status x then status_move x r refusal ''fill'' l1 else put_order r l1)"
    using assms by (auto simp: committed_sync_def)
  obtain new where new: "ld_trades l1 = ld_trades l @ new"
    "list_all2 (trade_reports x) (fresh_fills bid (existing_fill_ids like bid l) 0 fills) new"
    "\<And>m. cash_of m l1 = (if m = mode then map_option (\<lambda>c. foldl settle c new) (cash_of m l) else cash_of m l)"
    using book_all_settles [OF c(3)] by blast
  have l': "ld_trades l' = map (stored_trade num) (ld_trades l1)" "\<And>m. cash_of m l' = map_option (stored_cash num) (cash_of m l1)"
    by (auto simp: c(4) stored_cash_of) (auto simp: stored_def)
  have "books_trades num mode new l l'"
    using new(1,3) l' by (simp add: books_trades_def option.map_comp comp_def)
  then show ?thesis using c(1,2) new(2) by blast
qed

lemma unknown_books:
  "db_rows (snd (record_unknown num n reason d)) = db_rows d \<or>
   (\<exists>x. order_by_id n (db_rows d) = Some x \<and> books_trades num mode [] (db_rows d) (db_rows (snd (record_unknown num n reason d))))"
proof -
  note defs = record_unknown_def quietly_def transaction_def session_run_def ef_defs rows_update_def
  obtain f s1 where q: "db_query (order_by_id n) \<lparr>wk_rows = db_rows d, wk_db = d, wk_out = empty_sync\<rparr> = (f, s1)" by fastforce
  note q' = query_run [OF q]
  show ?thesis
  proof (cases f)
    case (Inr fo)
    show ?thesis
    proof (cases fo)
      case (Some x)
      then have x: "order_by_id n (db_rows d) = Some x" using q' Inr by simp
      let ?l = "status_move x (x\<lparr>ow_status := ''UNKNOWN''\<rparr>)
        (Some (take 2000 (''broker outcome could not be determined: '' @ reason))) ''fill'' (wk_rows s1)"
      obtain c s2 where c: "db_commit num (s1\<lparr>wk_rows := ?l\<rparr>) = (c, s2)" by fastforce
      have "db_rows (snd (record_unknown num n reason d)) = db_rows (wk_db s2)"
        using q c Inr Some by (cases c) (simp_all add: defs del: take_append)
      then show ?thesis using commit_run [OF c] q' x stored_books [of num mode "db_rows d"] by (auto simp del: take_append)
    qed (use q q' Inr in \<open>simp add: defs\<close>)
  qed (use q q' in \<open>simp add: defs\<close>)
qed

text \<open>The fills of the order among the broker's answers: none when the status or the trade book did not come.\<close>

definition reported_fills :: "row res \<Rightarrow> fill_entry option list res \<Rightarrow> string \<Rightarrow> fill_entry list" where
  "reported_fills status book bid = (case status of Inl _ \<Rightarrow> []
     | Inr _ \<Rightarrow> order_fills bid (List.map_filter id (book_entries book)))"

text \<open>C38. A synchronisation books every new fill of the order or none, whatever the broker answers and whatever fails.
  Either the tables are as they were, or one trade was added for each fill of the order that had not been recorded, in
  the order of the trade book and with the quantity, price, side, charges and value the book reports, and the cash of the
  mode is settled by exactly these trades, the cash of every other mode untouched (all amounts as the columns
  store them). When the status or the trade book is not answered there are no fills to book. The only exception that
  escapes is for an answered trade book with an entry that is not a dictionary, and then nothing was changed.\<close>

theorem sync_books_all_or_nothing:
  assumes "sync_rows num like mode n bid status book d = (res, d')"
  shows "(db_rows d' = db_rows d \<or>
      (\<exists>x new. order_by_id n (db_rows d) = Some x \<and>
         list_all2 (trade_reports x) (fresh_fills bid (existing_fill_ids like bid (db_rows d)) 0 (reported_fills status book bid)) new \<and>
         ld_trades (db_rows d') = map (stored_trade num) (ld_trades (db_rows d) @ new) \<and>
         (\<forall>m. cash_of m (db_rows d') =
            map_option (\<lambda>c. stored_cash num (if m = mode then foldl settle c new else c)) (cash_of m (db_rows d))) \<and>
         (new = [] \<or> cash_of mode (db_rows d) \<noteq> None))) \<and>
    (case res of Inr _ \<Rightarrow> True | Inl _ \<Rightarrow> d' = d \<and> None \<in> set (book_entries book))"
proof (cases status)
  case (Inl e)
  have r: "res = Inr (empty_sync\<lparr>fs_status := Some ''UNKNOWN'', fs_errors := [''order status unavailable: '' @ exn_msg e]\<rparr>)"
    "d' = snd (record_unknown num n (exn_msg e) d)"
    using assms by (auto simp: Inl sync_rows_def ef_defs record_unknown_def quietly_def split: prod.splits sum.splits)
  show ?thesis using unknown_books [of num n "exn_msg e" d mode]
    by (auto simp: r Inl reported_fills_def books_trades_def)
next
  case (Inr st)
  note run = sync_status_run [OF assms [unfolded Inr]]
  show ?thesis
  proof (cases "None \<in> set (book_entries book)")
    case True
    then show ?thesis using run by simp
  next
    case False
    then show ?thesis using run committed_books [of num like mode n bid st _ "db_rows d" "db_rows d'"]
      by (fastforce simp: Inr reported_fills_def books_trades_def)
  qed
qed

section \<open>Replaying a trade book\<close>

text \<open>\<open>LIKE 'p%'\<close> matches what starts with \<open>p\<close>.\<close>

definition matches_prefix :: "(string \<Rightarrow> string \<Rightarrow> bool) \<Rightarrow> bool" where
  "matches_prefix like \<longleftrightarrow> (\<forall>p s. like (p @ s) (p @ ''%''))"

text \<open>The fills of the venue carry no id of their own, as those of the paper broker.\<close>

definition unnamed :: "fill_entry \<Rightarrow> bool" where
  "unnamed f \<longleftrightarrow> \<not> truthy (row_get (fe_row f) ''trade_id'')"

lemma unnamed_id: "unnamed f \<Longrightarrow> fill_id_of bid seq f = bid @ '':'' @ nat_str seq"
  by (simp add: unnamed_def fill_id_of_def py_or_def)

lemma fresh_none:
  assumes "\<forall>f \<in> set fs. unnamed f" and "matches_prefix like"
    and "snd ` set (fresh_fills bid already seq fs) \<union> set already \<subseteq> tr_fill_id ` set (ld_trades l)"
  shows "fresh_fills bid (existing_fill_ids like bid l) seq fs = []"
  using assms
proof (induction fs arbitrary: seq)
  case Nil
  then show ?case by simp
next
  case (Cons f fs)
  let ?id = "bid @ '':'' @ nat_str seq"
  have "?id \<in> tr_fill_id ` set (ld_trades l)"
    using Cons.prems by (auto simp: unnamed_id split: if_splits)
  then have "?id \<in> set (existing_fill_ids like bid l)"
    using Cons.prems(2) by (auto simp: existing_fill_ids_def matches_prefix_def)
  moreover have "snd ` set (fresh_fills bid already (Suc seq) fs) \<union> set already \<subseteq> tr_fill_id ` set (ld_trades l)"
    using Cons.prems(3) by auto
  ultimately show ?case using Cons.IH [of "Suc seq"] Cons.prems(1,2) by (simp add: unnamed_id)
qed

lemma stored_again:
  assumes "\<And>x. num (num x) = num x"
  shows "stored num (stored num l) = stored num l"
proof -
  have "map_option num (map_option num v) = map_option num v" for v using assms by (cases v) auto
  then have "stored_order num (stored_order num r) = stored_order num r" "stored_trade num (stored_trade num t) = stored_trade num t"
    "stored_position num (stored_position num p) = stored_position num p" "stored_cash num (stored_cash num c) = stored_cash num c"
    for r t p c
    using assms by (simp_all add: stored_order_def stored_trade_def stored_position_def stored_cash_def)
  then show ?thesis by (simp add: stored_def comp_def case_prod_beta')
qed

lemma stored_parts:
  "ld_trades (stored num l) = map (stored_trade num) (ld_trades l)"
  "ld_positions (stored num l) = map (stored_position num) (ld_positions l)"
  "ld_cash (stored num l) = map (\<lambda>(m, c). (m, stored_cash num c)) (ld_cash l)"
  by (simp_all add: stored_def)

lemma parts_stored:
  assumes "stored num l = l"
  shows "map (stored_trade num) (ld_trades l) = ld_trades l" "map (stored_position num) (ld_positions l) = ld_positions l"
    "map (\<lambda>(m, c). (m, stored_cash num c)) (ld_cash l) = ld_cash l"
  using assms stored_parts [of num l] by simp_all

lemma order_write_cash [simp]:
  "ld_cash (status_move x r reason source l) = ld_cash l" "ld_cash (put_order r l) = ld_cash l"
  by (simp_all add: status_move_def add_transition_def put_order_def)

lemma committed_ids:
  assumes "committed_sync num like mode n bid st fills l l'"
  shows "snd ` set (fresh_fills bid (existing_fill_ids like bid l) 0 fills) \<union> set (existing_fill_ids like bid l)
     \<subseteq> tr_fill_id ` set (ld_trades l')"
proof -
  obtain new where new: "map tr_fill_id new = map snd (fresh_fills bid (existing_fill_ids like bid l) 0 fills)"
    "ld_trades l' = map (stored_trade num) (ld_trades l @ new)"
    using committed_books [OF assms] reports_ids by (auto simp: books_trades_def)
  have "tr_fill_id ` set (ld_trades l') = tr_fill_id ` set (ld_trades l) \<union> tr_fill_id ` set new"
    by (simp add: new(2) image_Un image_image stored_trade_def)
  moreover have "tr_fill_id ` set new = snd ` set (fresh_fills bid (existing_fill_ids like bid l) 0 fills)"
    using new(1) by (metis list.set_map)
  ultimately show ?thesis by (auto simp: existing_fill_ids_def)
qed

lemma replayed:
  assumes "committed_sync num like mode n bid st fills l l1" and "\<forall>f \<in> set fills. unnamed f" and "matches_prefix like"
    and idem: "\<And>x. num (num x) = num x" and "committed_sync num like mode n bid st' fills l1 l2"
  shows "ld_trades l2 = ld_trades l1 \<and> ld_positions l2 = ld_positions l1 \<and> ld_cash l2 = ld_cash l1"
proof -
  have none: "fresh_fills bid (existing_fill_ids like bid l1) 0 fills = []"
    using fresh_none [OF assms(2,3) committed_ids [OF assms(1)]] .
  have s: "stored num l1 = l1" using assms(1) stored_again [OF idem] by (auto simp: committed_sync_def)
  show ?thesis
    using assms(5) none parts_stored [OF s] by (auto simp: committed_sync_def stored_parts)
qed

text \<open>Replaying the trade book does not book a fill twice: after a synchronisation without errors, a
  further one with the same fills leaves trades, positions and cash as they are, whatever the status now
  says and whatever fails. The fills carry no id of their own, \<open>LIKE\<close> matches prefixes, and a stored
  number reads back as itself.\<close>

theorem replay_books_nothing:
  assumes "matches_prefix like" and "\<And>x. num (num x) = num x" and "\<forall>f \<in> set fs. unnamed f"
    and "sync_rows num like mode n bid (Inr st) (Inr (map Some fs)) d = (Inr out, d1)" and "fs_errors out = []"
    and "sync_rows num like mode n bid (Inr st') (Inr (map Some fs)) d1 = (res, d2)"
  shows "ld_trades (db_rows d2) = ld_trades (db_rows d1) \<and> ld_positions (db_rows d2) = ld_positions (db_rows d1) \<and>
    ld_cash (db_rows d2) = ld_cash (db_rows d1)"
proof -
  have c: "committed_sync num like mode n bid st (order_fills bid fs) (db_rows d) (db_rows d1)"
    using sync_rows_run [OF assms(4)] assms(5) by simp
  have u: "\<forall>f \<in> set (order_fills bid fs). unnamed f" using assms(3) by (simp add: order_fills_def)
  show ?thesis
    using sync_rows_run [OF assms(6)] replayed [OF c u assms(1,2)] by auto
qed

section \<open>Two rows of one instrument\<close>

text \<open>A purchase recorded in parts: the position row added for the first part is not flushed when the
  next part looks for it.\<close>

lemma buys_append:
  assumes "book_all mode r None fs l = Inr l'"
    and "\<And>f fid fn. (f, fid) \<in> set fs \<Longrightarrow> read_fill f = Inr fn \<Longrightarrow> fn_side fn = ''BUY''"
  shows "\<exists>ps. ld_positions l' = ld_positions l @ ps \<and> length ps = length fs \<and>
    (\<forall>p \<in> set ps. pw_symbol p = ow_symbol r \<and> pw_exchange p = ow_exchange r \<and> pw_open p)"
  using assms
proof (induction fs arbitrary: l)
  case Nil
  then show ?case by simp
next
  case (Cons x fs)
  obtain f fid where x: "x = (f, fid)" by (cases x)
  then obtain fn pnl l1 where s: "read_fill f = Inr fn" "booked_fill mode r f fid fn None l = Inr (pnl, l1)"
    "book_all mode r None fs l1 = Inr l'" using Cons.prems(1) by auto
  have "fn_side fn = ''BUY''" using Cons.prems(2) [of f fid fn] s(1) x by simp
  then obtain p where p: "ld_positions l1 = ld_positions l @ [p]" "pw_symbol p = ow_symbol r" "pw_exchange p = ow_exchange r" "pw_open p"
    using s(2) by (auto simp: booked_fill_def buy_fill_def Let_def upd_cash_def)
  obtain ps where "ld_positions l' = ld_positions l1 @ ps" "length ps = length fs"
    "\<forall>p \<in> set ps. pw_symbol p = ow_symbol r \<and> pw_exchange p = ow_exchange r \<and> pw_open p"
    using Cons.IH [OF s(3)] Cons.prems(2) by (metis list.set_intros(2))
  then show ?case using p by (intro exI [of _ "p # ps"]) auto
qed

lemma sales_touch_one_row:
  assumes "book_all mode r (Some i) fs l = Inr l'"
    and "\<And>f fid fn. (f, fid) \<in> set fs \<Longrightarrow> read_fill f = Inr fn \<Longrightarrow> fn_side fn = ''SELL''" and "j \<noteq> i"
  shows "length (ld_positions l') = length (ld_positions l) \<and> ld_positions l' ! j = ld_positions l ! j"
  using assms(1,2)
proof (induction fs arbitrary: l)
  case Nil
  then show ?case by simp
next
  case (Cons x fs)
  obtain f fid where x: "x = (f, fid)" by (cases x)
  then obtain fn pnl l1 where s: "read_fill f = Inr fn" "booked_fill mode r f fid fn (Some i) l = Inr (pnl, l1)"
    "book_all mode r (Some i) fs l1 = Inr l'" using Cons.prems(1) by auto
  have "fn_side fn = ''SELL''" using Cons.prems(2) [of f fid fn] s(1) x by simp
  then have "length (ld_positions l1) = length (ld_positions l) \<and> ld_positions l1 ! j = ld_positions l ! j"
    using s(2) assms(3) by (auto simp: booked_fill_def sell_fill_def Let_def upd_cash_def set_position_def split: if_splits)
  then show ?case using Cons.IH [OF s(3)] Cons.prems(2) by (metis list.set_intros(2))
qed

text \<open>A purchase that is recorded in two or more parts at once leaves a position row for each part, and
  the sale that closes the holding reaches only the first: whatever quantity is sold afterwards, the
  account still shows an open position of the instrument, as large as the part it was opened with.\<close>

theorem split_purchase_survives_its_sale:
  assumes "order_by_id n (db_rows d) = Some x" and "position_at (ow_symbol x) (ow_exchange x) (db_rows d) = None"
    and "sync_rows num like mode n bid (Inr st) (Inr (map Some fs)) d = (Inr out, d1)" and "fs_errors out = []"
    and "2 \<le> length (fresh_fills bid (existing_fill_ids like bid (db_rows d)) 0 (order_fills bid fs))"
    and "\<forall>f \<in> set (order_fills bid fs). \<forall>fn. read_fill f = Inr fn \<longrightarrow> fn_side fn = ''BUY''"
    and "order_by_id m (db_rows d1) = Some y" and "ow_symbol y = ow_symbol x" and "ow_exchange y = ow_exchange x"
    and "sync_rows num like mode m bid' (Inr st') (Inr (map Some fs')) d1 = (res, d2)"
    and "\<forall>f \<in> set (order_fills bid' fs'). \<forall>fn. read_fill f = Inr fn \<longrightarrow> fn_side fn = ''SELL''"
  shows "\<exists>j < length (ld_positions (db_rows d1)). pw_symbol (ld_positions (db_rows d2) ! j) = ow_symbol x \<and>
    pw_exchange (ld_positions (db_rows d2) ! j) = ow_exchange x \<and> pw_open (ld_positions (db_rows d2) ! j) \<and>
    pw_qty (ld_positions (db_rows d2) ! j) = pw_qty (ld_positions (db_rows d1) ! j)"
proof -
  let ?old = "ld_positions (db_rows d)" and ?ps1 = "ld_positions (db_rows d1)" and ?ps2 = "ld_positions (db_rows d2)"
  let ?new = "fresh_fills bid (existing_fill_ids like bid (db_rows d)) 0 (order_fills bid fs)"
  have fresh_in: "(f, fid) \<in> set (fresh_fills b al k gs) \<Longrightarrow> f \<in> set gs" for f fid b al k gs
    by (induction gs arbitrary: k) (auto split: if_splits)
  have "committed_sync num like mode n bid st (order_fills bid fs) (db_rows d) (db_rows d1)"
    using sync_rows_run [OF assms(3)] assms(4) by simp
  then obtain l1 where l1: "book_all mode x None ?new (db_rows d) = Inr l1" "?ps1 = map (stored_position num) (ld_positions l1)"
    using assms(1,2) by (auto simp: committed_sync_def stored_parts)
  obtain ps where ps: "ld_positions l1 = ?old @ ps" "length ps = length ?new"
    "\<forall>p \<in> set ps. pw_symbol p = ow_symbol x \<and> pw_exchange p = ow_exchange x \<and> pw_open p"
    using buys_append [OF l1(1)] assms(6) fresh_in by blast
  have row: "pw_symbol (?ps1 ! j) = ow_symbol x \<and> pw_exchange (?ps1 ! j) = ow_exchange x \<and> pw_open (?ps1 ! j)"
    if "length ?old \<le> j" "j < length ?ps1" for j
    using that ps by (auto simp: l1(2) nth_append stored_position_def)
  have two: "length ?old + 2 \<le> length ?ps1" using ps assms(5) by (simp add: l1(2))
  obtain i where i: "position_at (ow_symbol x) (ow_exchange x) (db_rows d1) = Some i"
  proof (cases "position_at (ow_symbol x) (ow_exchange x) (db_rows d1)")
    case None
    then show ?thesis using row [of "length ?old"] two by (force simp: position_at_def find_None_iff Let_def)
  next
    case (Some i)
    then show ?thesis using that by blast
  qed
  define j where "j = (if i = length ?old then Suc (length ?old) else length ?old)"
  have j: "j \<noteq> i" "length ?old \<le> j" "j < length ?ps1" using two by (auto simp: j_def)
  have "?ps2 ! j = ?ps1 ! j \<or> ?ps2 ! j = stored_position num (?ps1 ! j)"
  proof (cases "db_rows d2 = db_rows d1")
    case False
    then have "committed_sync num like mode m bid' st' (order_fills bid' fs') (db_rows d1) (db_rows d2)"
      using sync_rows_run [OF assms(10)] by blast
    then obtain l2 where l2: "book_all mode y (Some i) (fresh_fills bid' (existing_fill_ids like bid' (db_rows d1)) 0 (order_fills bid' fs'))
        (db_rows d1) = Inr l2" "?ps2 = map (stored_position num) (ld_positions l2)"
      using assms(7-9) i by (auto simp: committed_sync_def stored_parts)
    have "length (ld_positions l2) = length ?ps1 \<and> ld_positions l2 ! j = ?ps1 ! j"
      by (rule sales_touch_one_row [OF l2(1) _ j(1)]) (use assms(11) fresh_in in blast)
    then show ?thesis using j(3) by (simp add: l2(2))
  qed simp
  then show ?thesis using row [OF j(2,3)] j(3) by (auto simp: stored_position_def)
qed

section \<open>A concrete account\<close>

definition demo_fill_row :: "string \<Rightarrow> string \<Rightarrow> int \<Rightarrow> fill_entry" where
  "demo_fill_row bid side q = \<lparr>fe_row = [(''order_id'', PStr bid), (''qty'', PInt q), (''price'', PFloat (Fin 100)),
     (''txn_type'', PStr side)], fe_costs = []\<rparr>"

definition demo_signal_for :: "string \<Rightarrow> txn_type \<Rightarrow> signal" where
  "demo_signal_for key side = \<lparr>sg_symbol = ''INFY'', sg_exchange = ''NSE'', sg_txn = side, sg_order_type = MARKET,
     sg_product = CNC, sg_price = Fin 100, sg_stop_price = Fin 0, sg_strategy = ''swing'', sg_tag = [],
     sg_client_order_id = key, sg_intent_kind = ''entry''\<rparr>"

definition starts_with :: "string \<Rightarrow> string \<Rightarrow> bool" where
  "starts_with s pattern \<longleftrightarrow> is_prefix (butlast pattern) s"

lemma starts_with_matches: "matches_prefix starts_with"
  by (simp add: matches_prefix_def starts_with_def butlast_append)

definition demo_account :: db where
  "demo_account = \<lparr>db_rows = empty_ledger\<lparr>ld_cash := [(''paper'', \<lparr>cw_cash = Fin 10000, cw_reserved = Fin 0, cw_pnl = Fin 0,
     cw_costs = Fin 0\<rparr>)]\<rparr>, db_outcomes = []\<rparr>"

definition demo_claimed :: db where
  "demo_claimed = snd (claim_idempotency_key id (demo_signal_for ''k2'' SELL) 8
     (snd (claim_idempotency_key id (demo_signal_for ''k1'' BUY) 8 demo_account)))"

definition demo_book :: "fill_entry list" where
  "demo_book = [demo_fill_row ''B1'' ''BUY'' 4, demo_fill_row ''B1'' ''BUY'' 4]"

definition demo_status :: row where
  "demo_status = [(''status'', PStr ''COMPLETE''), (''filled_qty'', PInt 8)]"

definition demo_sync :: "(exn + fill_sync) \<times> db" where
  "demo_sync = sync_rows id starts_with ''paper'' 0 ''B1'' (Inr demo_status) (Inr (map Some demo_book)) demo_claimed"

lemma demo_tables: "tables_ok (db_rows demo_account)"
  by (simp add: demo_account_def empty_ledger_def tables_ok_def)

lemma demo_sync_clean:
  "\<exists>out. sync_rows id starts_with ''paper'' 0 ''B1'' (Inr demo_status) (Inr (map Some demo_book)) demo_claimed = (Inr out, snd demo_sync) \<and>
     fs_errors out = []"
proof -
  have "case fst demo_sync of Inl e \<Rightarrow> False | Inr out \<Rightarrow> fs_errors out = []" by code_simp
  then show ?thesis by (cases demo_sync) (auto simp: demo_sync_def split: sum.splits)
qed

lemma demo_buys: "read_fill (demo_fill_row bid side q) = Inr fn \<Longrightarrow> fn_side fn = py_upper (str_or_empty (PStr side))"
  by (auto simp: read_fill_def demo_fill_row_def row_get_def py_or_def str_or_empty_def)

lemma key_is_granted_once_witness:
  "distinct (fst (run_ops id starts_with [Claim (demo_signal_for ''k1'' BUY) 8, Claim (demo_signal_for ''k1'' BUY) 8] demo_account)) \<and>
     fst (run_ops id starts_with [Claim (demo_signal_for ''k1'' BUY) 8, Claim (demo_signal_for ''k1'' BUY) 8] demo_account) = [''k1'']"
proof -
  let ?xs = "[Claim (demo_signal_for ''k1'' BUY) 8, Claim (demo_signal_for ''k1'' BUY) 8]"
  have "fst (run_ops id starts_with ?xs demo_account) = [''k1'']" by code_simp
  moreover have "run_ops id starts_with ?xs demo_account =
      (fst (run_ops id starts_with ?xs demo_account), snd (run_ops id starts_with ?xs demo_account))" by simp
  from key_is_granted_once [OF demo_tables this] have "distinct (fst (run_ops id starts_with ?xs demo_account))" by blast
  ultimately show ?thesis by blast
qed

lemma order_history_has_no_gap_witness:
  "\<exists>(r :: order_row) (d' :: db). r \<in> set (ld_orders (db_rows d')) \<and> ow_status r = ''SUBMITTED'' \<and>
     chain None (history_of (ow_id r) (db_rows d')) (Some ''SUBMITTED'')"
proof -
  let ?xs = "[Claim (demo_signal_for ''k1'' BUY) 8, Attach 0 ''B1'']"
  obtain gs d' where run: "run_ops id starts_with ?xs demo_account = (gs, d')" by fastforce
  have "map ow_status (ld_orders (db_rows (snd (run_ops id starts_with ?xs demo_account)))) = [''SUBMITTED'']" by code_simp
  then obtain r where r: "r \<in> set (ld_orders (db_rows d'))" "ow_status r = ''SUBMITTED''" using run by auto
  from order_history_has_no_gap [OF demo_tables run r(1)] have "chain None (history_of (ow_id r) (db_rows d')) (Some ''SUBMITTED'')"
    using r(2) by simp
  with r show ?thesis by blast
qed

lemma sync_books_all_or_nothing_witness:
  "\<exists>t t'. ld_trades (db_rows (snd demo_sync)) = map (stored_trade id) (ld_trades (db_rows demo_claimed) @ [t, t']) \<and>
     tr_fill_id t = ''B1:0'' \<and> tr_fill_id t' = ''B1:1'' \<and> tr_qty t = 4 \<and> tr_price t = Fin 100"
proof -
  obtain out where out: "sync_rows id starts_with ''paper'' 0 ''B1'' (Inr demo_status) (Inr (map Some demo_book)) demo_claimed = (Inr out, snd demo_sync)"
    using demo_sync_clean by blast
  have "length (ld_trades (db_rows (snd demo_sync))) \<noteq> length (ld_trades (db_rows demo_claimed))" by code_simp
  then have ne: "db_rows (snd demo_sync) \<noteq> db_rows demo_claimed" by metis
  have f: "fresh_fills ''B1'' (existing_fill_ids starts_with ''B1'' (db_rows demo_claimed)) 0
      (reported_fills (Inr demo_status) (Inr (map Some demo_book)) ''B1'') =
      [(demo_fill_row ''B1'' ''BUY'' 4, ''B1:0''), (demo_fill_row ''B1'' ''BUY'' 4, ''B1:1'')]" by code_simp
  have q: "py_int (py_or (row_get (fe_row (demo_fill_row ''B1'' ''BUY'' 4)) ''qty'') v) = Inr 4"
    "py_float (py_or (row_get (fe_row (demo_fill_row ''B1'' ''BUY'' 4)) ''price'') w) = Inr (Fin 100)" for v w
    by (simp_all add: demo_fill_row_def row_get_def py_or_def py_int_def py_float_def ftruthy_def)
  obtain x new where new: "list_all2 (trade_reports x) [(demo_fill_row ''B1'' ''BUY'' 4, ''B1:0''), (demo_fill_row ''B1'' ''BUY'' 4, ''B1:1'')] new"
    and l: "ld_trades (db_rows (snd demo_sync)) = map (stored_trade id) (ld_trades (db_rows demo_claimed) @ new)"
    using sync_books_all_or_nothing [OF out] ne unfolding f by auto
  obtain t t' where t: "new = [t, t']" "trade_reports x (demo_fill_row ''B1'' ''BUY'' 4, ''B1:0'') t"
    "trade_reports x (demo_fill_row ''B1'' ''BUY'' 4, ''B1:1'') t'"
    using new by (auto simp: list_all2_Cons1)
  have "tr_fill_id t = ''B1:0''" "tr_fill_id t' = ''B1:1''" "tr_qty t = 4" "tr_price t = Fin 100"
    using t(2,3) by (simp_all add: trade_reports_def q Let_def)
  then show ?thesis using l unfolding t(1) by blast
qed

lemma demo_unnamed: "\<forall>f \<in> set demo_book. unnamed f"
  by (simp add: demo_book_def demo_fill_row_def unnamed_def row_get_def)

lemma replay_books_nothing_witness:
  "ld_trades (db_rows (snd (sync_rows id starts_with ''paper'' 0 ''B1'' (Inr demo_status) (Inr (map Some demo_book)) (snd demo_sync)))) =
     ld_trades (db_rows (snd demo_sync))"
proof -
  obtain out where out: "sync_rows id starts_with ''paper'' 0 ''B1'' (Inr demo_status) (Inr (map Some demo_book)) demo_claimed = (Inr out, snd demo_sync)"
    "fs_errors out = []" using demo_sync_clean by blast
  obtain res d2 where again: "sync_rows id starts_with ''paper'' 0 ''B1'' (Inr demo_status) (Inr (map Some demo_book)) (snd demo_sync) = (res, d2)"
    by fastforce
  from replay_books_nothing [OF starts_with_matches _ demo_unnamed out again] again show ?thesis by simp
qed

lemma split_purchase_survives_its_sale_witness:
  "\<exists>j. let p = ld_positions (db_rows (snd (sync_rows id starts_with ''paper'' 1 ''B2'' (Inr demo_status)
      (Inr (map Some [demo_fill_row ''B2'' ''SELL'' 8])) (snd demo_sync)))) ! j in pw_symbol p = ''INFY'' \<and> pw_open p"
proof -
  obtain out where out: "sync_rows id starts_with ''paper'' 0 ''B1'' (Inr demo_status) (Inr (map Some demo_book)) demo_claimed = (Inr out, snd demo_sync)"
    "fs_errors out = []" using demo_sync_clean by blast
  obtain res d2 where sale: "sync_rows id starts_with ''paper'' 1 ''B2'' (Inr demo_status) (Inr (map Some [demo_fill_row ''B2'' ''SELL'' 8])) (snd demo_sync) = (res, d2)"
    by fastforce
  let ?x = "claimed_order 0 (demo_signal_for ''k1'' BUY) 8"
  have x: "order_by_id 0 (db_rows demo_claimed) = Some ?x" by code_simp
  have x': "ow_symbol ?x = ''INFY''" "ow_exchange ?x = ''NSE''" by (simp_all add: claimed_order_def demo_signal_for_def)
  have none: "position_at ''INFY'' ''NSE'' (db_rows demo_claimed) = None" by code_simp
  have two: "2 \<le> length (fresh_fills ''B1'' (existing_fill_ids starts_with ''B1'' (db_rows demo_claimed)) 0 (order_fills ''B1'' demo_book))"
    by code_simp
  have "map (\<lambda>r. (ow_id r, ow_symbol r, ow_exchange r)) (ld_orders (db_rows (snd demo_sync))) =
      [(0, ''INFY'', ''NSE''), (1, ''INFY'', ''NSE'')]" by code_simp
  then obtain y where y: "order_by_id 1 (db_rows (snd demo_sync)) = Some y" "ow_symbol y = ''INFY''" "ow_exchange y = ''NSE''"
    by (auto simp: order_by_id_def)
  have side: "py_upper (str_or_empty (PStr ''BUY'')) = ''BUY''" "py_upper (str_or_empty (PStr ''SELL'')) = ''SELL''" by code_simp+
  have buy: "\<forall>f \<in> set (order_fills ''B1'' demo_book). \<forall>fn. read_fill f = Inr fn \<longrightarrow> fn_side fn = ''BUY''"
    using demo_buys [of "''B1''" "''BUY''" 4] side(1) by (simp add: order_fills_def demo_book_def split: if_splits)
  have sell: "\<forall>f \<in> set (order_fills ''B2'' [demo_fill_row ''B2'' ''SELL'' 8]). \<forall>fn. read_fill f = Inr fn \<longrightarrow> fn_side fn = ''SELL''"
    using demo_buys [of "''B2''" "''SELL''" 8] side(2) by (simp add: order_fills_def split: if_splits)
  from split_purchase_survives_its_sale [OF x _ out two buy y(1) _ _ sale sell] none x' y sale
  show ?thesis unfolding Let_def x' by auto
qed

end
