(* ===== verification/Eligibility.thy ===== *)
theory Eligibility
  imports Lifecycle Py_Time Py_Value
begin

text \<open>
  \<open>app/governance/eligibility.py\<close>: the gate between research and real money. The evidence is a map
  from field names to values of any type, since the checks test the types; the clock reading of an
  assessment is an argument. A reason keeps its fixed text, without the numbers printed into it, and
  the text of a requirement is shortened.
\<close>

section \<open>Thresholds\<close>

definition MIN_PRICE_HISTORY_YEARS :: pyfloat where "MIN_PRICE_HISTORY_YEARS = Fin 10"
definition MIN_PRICE_HISTORY_SYMBOLS :: pyfloat where "MIN_PRICE_HISTORY_SYMBOLS = Fin 50"
definition MIN_INTRADAY_HISTORY_DAYS :: pyfloat where "MIN_INTRADAY_HISTORY_DAYS = Fin 504"
definition MIN_DEFLATED_SHARPE :: pyfloat where "MIN_DEFLATED_SHARPE = fl (95 / 100)"
definition MAX_PBO :: pyfloat where "MAX_PBO = Fin (1 / 2)"
definition MIN_OOS_SHARPE :: pyfloat where "MIN_OOS_SHARPE = Fin (1 / 2)"
definition MAX_DRAWDOWN :: pyfloat where "MAX_DRAWDOWN = fl (15 / 100)"
definition MIN_SLIPPAGE_STRESS_MULTIPLE :: pyfloat where "MIN_SLIPPAGE_STRESS_MULTIPLE = Fin (3 / 2)"
definition MAX_SINGLE_NAME_PNL_SHARE :: pyfloat where "MAX_SINGLE_NAME_PNL_SHARE = Fin (1 / 4)"
definition MAX_SECTOR_PNL_SHARE :: pyfloat where "MAX_SECTOR_PNL_SHARE = fl (40 / 100)"
definition MAX_SINGLE_YEAR_PNL_SHARE :: pyfloat where "MAX_SINGLE_YEAR_PNL_SHARE = Fin (1 / 2)"
definition MAX_TOP5_TRADES_PNL_SHARE :: pyfloat where "MAX_TOP5_TRADES_PNL_SHARE = Fin (1 / 2)"
definition MIN_PAPER_TRADING_DAYS :: pyfloat where "MIN_PAPER_TRADING_DAYS = Fin 90"
definition MIN_PAPER_TO_BACKTEST_SHARPE_RATIO :: pyfloat where "MIN_PAPER_TO_BACKTEST_SHARPE_RATIO = Fin (1 / 2)"

text \<open>Durations, in microseconds.\<close>

definition hours :: "int \<Rightarrow> int" where "hours n = n * 3600000000"
definition minutes :: "int \<Rightarrow> int" where "minutes n = n * 60000000"
definition days :: "int \<Rightarrow> int" where "days n = n * micros_per_day"

definition MAX_EVIDENCE_AGE :: int where "MAX_EVIDENCE_AGE = hours 24"
definition MAX_PRICE_DATA_STALENESS :: int where "MAX_PRICE_DATA_STALENESS = days 7"
definition MAX_BROKER_HEARTBEAT_AGE :: int where "MAX_BROKER_HEARTBEAT_AGE = minutes 15"
definition MAX_RECONCILIATION_AGE :: int where "MAX_RECONCILIATION_AGE = hours 24"
definition MAX_APPROVAL_AGE :: int where "MAX_APPROVAL_AGE = days 90"
definition MAX_REPORT_AGE :: int where "MAX_REPORT_AGE = minutes 15"
definition CLOCK_SKEW_TOLERANCE :: int where "CLOCK_SKEW_TOLERANCE = 120000000"

definition MIN_PLAUSIBLE_DATA_DATE :: int where "MIN_PLAUSIBLE_DATA_DATE = date_day 1990 1 1"

section \<open>States\<close>

datatype eligibility_state =
    BLOCKED_INSUFFICIENT_DATA
  | BLOCKED_VALIDATION_INCOMPLETE
  | BLOCKED_INSUFFICIENT_STATISTICAL_EVIDENCE
  | BLOCKED_POOR_OOS_PERFORMANCE
  | BLOCKED_EXCESSIVE_DRAWDOWN
  | BLOCKED_EXECUTION_NOT_VALIDATED
  | BLOCKED_RISK_LIMIT_BREACH
  | PAPER_ONLY
  | LIVE_ELIGIBLE

definition default_state :: eligibility_state where "default_state = BLOCKED_INSUFFICIENT_DATA"

fun severity :: "eligibility_state \<Rightarrow> nat" where
  "severity BLOCKED_INSUFFICIENT_DATA = 0"
| "severity BLOCKED_VALIDATION_INCOMPLETE = 1"
| "severity BLOCKED_INSUFFICIENT_STATISTICAL_EVIDENCE = 2"
| "severity BLOCKED_POOR_OOS_PERFORMANCE = 3"
| "severity BLOCKED_EXCESSIVE_DRAWDOWN = 4"
| "severity BLOCKED_EXECUTION_NOT_VALIDATED = 5"
| "severity BLOCKED_RISK_LIMIT_BREACH = 6"
| "severity PAPER_ONLY = 7"
| "severity LIVE_ELIGIBLE = 8"

fun state_text :: "eligibility_state \<Rightarrow> string" where
  "state_text BLOCKED_INSUFFICIENT_DATA = ''blocked_insufficient_data''"
| "state_text BLOCKED_VALIDATION_INCOMPLETE = ''blocked_validation_incomplete''"
| "state_text BLOCKED_INSUFFICIENT_STATISTICAL_EVIDENCE = ''blocked_insufficient_statistical_evidence''"
| "state_text BLOCKED_POOR_OOS_PERFORMANCE = ''blocked_poor_oos_performance''"
| "state_text BLOCKED_EXCESSIVE_DRAWDOWN = ''blocked_excessive_drawdown''"
| "state_text BLOCKED_EXECUTION_NOT_VALIDATED = ''blocked_execution_not_validated''"
| "state_text BLOCKED_RISK_LIMIT_BREACH = ''blocked_risk_limit_breach''"
| "state_text PAPER_ONLY = ''paper_only''"
| "state_text LIVE_ELIGIBLE = ''live_eligible''"

definition all_eligibility_states :: "eligibility_state list" where
  "all_eligibility_states = [BLOCKED_INSUFFICIENT_DATA, BLOCKED_VALIDATION_INCOMPLETE,
     BLOCKED_INSUFFICIENT_STATISTICAL_EVIDENCE, BLOCKED_POOR_OOS_PERFORMANCE, BLOCKED_EXCESSIVE_DRAWDOWN,
     BLOCKED_EXECUTION_NOT_VALIDATED, BLOCKED_RISK_LIMIT_BREACH, PAPER_ONLY, LIVE_ELIGIBLE]"

datatype gate_category = DATA | STATISTICAL | PERFORMANCE | EXECUTION | OPERATIONAL

fun category_text :: "gate_category \<Rightarrow> string" where
  "category_text DATA = ''data''"
| "category_text STATISTICAL = ''statistical''"
| "category_text PERFORMANCE = ''performance''"
| "category_text EXECUTION = ''execution''"
| "category_text OPERATIONAL = ''operational''"

definition all_categories :: "gate_category list" where
  "all_categories = [DATA, STATISTICAL, PERFORMANCE, EXECUTION, OPERATIONAL]"

datatype provenance = COMPUTED | UNTRUSTED

datatype order_intent = INCREASE_RISK | REDUCE_RISK | UNRECOGNISED

section \<open>Evidence\<close>

text \<open>A value a field may hold: a date is its day number, 1970-01-01 being day 0.\<close>

datatype ev = EvNone | EvBool bool | EvInt int | EvFloat pyfloat | EvStr string | EvDate int | EvTime datetime | EvOther

type_synonym evidence = "string \<Rightarrow> ev"

definition no_evidence :: evidence where
  "no_evidence = (\<lambda>_. EvNone)"

definition numeric_domains :: "(string \<times> rat \<times> rat) list" where
  "numeric_domains =
     [(''price_history_symbols'', 0, 100000), (''intraday_history_days'', 0, 40000),
      (''deflated_sharpe_ratio'', -20, 20), (''probability_of_backtest_overfitting'', 0, 1),
      (''net_annual_excess_return_vs_benchmark'', -1, 10), (''n_trials_recorded'', 0, 10000000),
      (''n_trials_used_in_dsr'', 0, 10000000), (''oos_sharpe'', -20, 20), (''max_drawdown'', 0, 1),
      (''slippage_multiple_survived'', 0, 1000), (''oos_sharpe_at_stressed_costs'', -20, 20),
      (''max_single_name_pnl_share'', 0, 100), (''max_sector_pnl_share'', 0, 100),
      (''max_single_year_pnl_share'', 0, 100), (''top_5_trades_pnl_share'', 0, 100),
      (''open_reconciliation_breaks'', 0, 1000000), (''active_risk_limit_breaches'', 0, 1000000),
      (''current_drawdown'', 0, 1), (''paper_trading_days'', 0, 36500), (''paper_sharpe'', -20, 20),
      (''backtest_expected_sharpe'', -20, 20)]"

definition bool_fields :: "string list" where
  "bool_fields = [''price_history_is_real_market_data'', ''point_in_time_index_constituents_available'',
     ''point_in_time_fundamentals_available'', ''data_quality_audit_passed'', ''real_ohlc_available'',
     ''corporate_actions_adjusted'', ''market_data_feed_healthy'', ''purged_walk_forward_completed'',
     ''label_embargo_applied'', ''broker_auth_verified'', ''order_lifecycle_verified'', ''reconciliation_verified'',
     ''duplicate_order_protection_verified'', ''kill_switch_verified'', ''timezone_squareoff_verified'',
     ''broker_session_valid'', ''broker_api_degraded'', ''last_reconciliation_succeeded'', ''risk_limits_loaded'',
     ''kill_switch_engaged'', ''eligibility_enforced_at_order_path'']"

definition date_fields :: "string list" where
  "date_fields = [''price_history_start'', ''price_history_end'', ''live_enable_approved_at'']"

definition datetime_fields :: "string list" where
  "datetime_fields = [''evidence_gathered_at'', ''broker_reachable_at'', ''last_reconciliation_at'']"

definition text_fields :: "string list" where
  "text_fields = [''benchmark_name'', ''trading_mode'', ''live_enable_approved_by'']"

text \<open>Every field except the notes.\<close>

definition evidence_fields :: "string list" where
  "evidence_fields = map fst numeric_domains @ bool_fields @ date_fields @ datetime_fields @ text_fields"

section \<open>Checks\<close>

type_synonym check = "bool \<times> string"

text \<open>\<open>_is_blank\<close>: the invisible characters with codes up to 255.\<close>

definition blank_char :: "char \<Rightarrow> bool" where
  "blank_char c = (let n = (of_char c :: nat) in n = 32 \<or> (9 \<le> n \<and> n \<le> 13) \<or> (28 \<le> n \<and> n \<le> 31) \<or> n = 133 \<or> n = 160)"

definition is_blank :: "ev \<Rightarrow> bool" where
  "is_blank v = (case v of EvStr s \<Rightarrow> list_all blank_char s | _ \<Rightarrow> True)"

definition no_record :: "string \<Rightarrow> string" where
  "no_record label = ''NO EVIDENCE RECORDED: '' @ label"

text \<open>\<open>_as_finite\<close>: the float, or the problem. A huge integer raises.\<close>

definition as_finite :: "ev \<Rightarrow> string \<Rightarrow> (string + pyfloat) res" where
  "as_finite v label =
     (let real = (\<lambda>x. Inr (if x = NaN then Inl (label @ '' is NaN.'')
            else if \<not> isfinite x then Inl (label @ '' is infinity.'') else Inr x)) in
      case v of
        EvNone \<Rightarrow> Inr (Inl (no_record label))
      | EvBool _ \<Rightarrow> Inr (Inl (label @ '': a boolean is not a measurement.''))
      | EvInt n \<Rightarrow> res_bind (int_to_float n) real
      | EvFloat x \<Rightarrow> real x
      | _ \<Rightarrow> Inr (Inl (label @ '' is not a number.'')))"

definition flag :: "ev \<Rightarrow> string \<Rightarrow> check" where
  "flag v label = (case v of
     EvNone \<Rightarrow> (False, no_record label)
   | EvBool True \<Rightarrow> (True, label @ '': verified.'')
   | EvBool False \<Rightarrow> (False, label @ '': NOT verified.'')
   | _ \<Rightarrow> (False, label @ '': not a boolean.''))"

definition not_flag :: "ev \<Rightarrow> string \<Rightarrow> check" where
  "not_flag v label = (case v of
     EvNone \<Rightarrow> (False, no_record label)
   | EvBool False \<Rightarrow> (True, label @ '': confirmed absent.'')
   | EvBool True \<Rightarrow> (False, label @ '': PRESENT.'')
   | _ \<Rightarrow> (False, label @ '': not a boolean.''))"

definition verdict :: "bool \<Rightarrow> string \<Rightarrow> check" where
  "verdict ok label = (ok, label @ (if ok then '' meets the bound'' else '' FAILS the bound''))"

definition min_value :: "ev \<Rightarrow> pyfloat \<Rightarrow> string \<Rightarrow> bool \<Rightarrow> check res" where
  "min_value v bound label strict = res_bind (as_finite v label) (\<lambda>r. Inr (case r of
     Inl problem \<Rightarrow> (False, problem) | Inr x \<Rightarrow> verdict (if strict then bound < x else bound \<le> x) label))"

definition max_value :: "ev \<Rightarrow> pyfloat \<Rightarrow> string \<Rightarrow> bool \<Rightarrow> check res" where
  "max_value v cap label strict = res_bind (as_finite v label) (\<lambda>r. Inr (case r of
     Inl problem \<Rightarrow> (False, problem) | Inr x \<Rightarrow> verdict (if strict then x < cap else x \<le> cap) label))"

definition fresh_stamp :: "int \<Rightarrow> ev \<Rightarrow> int \<Rightarrow> string \<Rightarrow> check" where
  "fresh_stamp now v max_age label = (case v of
     EvNone \<Rightarrow> (False, no_record (label @ '' timestamp''))
   | EvTime (Naive _) \<Rightarrow> (False, label @ '' timestamp is timezone-naive.'')
   | EvTime (Aware t) \<Rightarrow> (let age = now - t in
       if age < - CLOCK_SKEW_TOLERANCE then (False, label @ '' timestamp is in the FUTURE.'')
       else if max_age < age then (False, label @ '' is STALE.'')
       else (True, label @ '' is current.''))
   | _ \<Rightarrow> (False, label @ '' timestamp is not a datetime.''))"

definition today :: "int \<Rightarrow> int" where
  "today now = now div micros_per_day"

text \<open>\<open>_fresh_date\<close>: the limit is a whole number of days.\<close>

definition fresh_date :: "int \<Rightarrow> ev \<Rightarrow> int \<Rightarrow> string \<Rightarrow> check" where
  "fresh_date now v max_age label = (case v of
     EvNone \<Rightarrow> (False, no_record (label @ '' date''))
   | EvDate d \<Rightarrow> (let age = today now - d in
       if age < -1 then (False, label @ '' is dated in the FUTURE.'')
       else if max_age < age * micros_per_day then (False, label @ '' is STALE.'')
       else (True, label @ '' is current.''))
   | _ \<Rightarrow> (False, label @ '' date is not a date.''))"

text \<open>\<open>_all_of\<close> on checks that are evaluated in order and may raise.\<close>

definition all_of :: "check res list \<Rightarrow> check res" where
  "all_of checks = res_bind (res_map id checks) (\<lambda>cs.
     let failures = filter (\<lambda>c. \<not> fst c) cs in
     Inr (if failures \<noteq> [] then (False, concat (map (\<lambda>c. snd c @ '' '') failures))
          else (True, concat (map (\<lambda>c. snd c @ '' '') cs))))"

section \<open>The predicates of the gates\<close>

type_synonym predicate = "int \<Rightarrow> evidence \<Rightarrow> check res"

text \<open>\<open>isinstance(v, date)\<close>, which holds of a datetime, and the arithmetic on such values.\<close>

definition dated :: "ev \<Rightarrow> bool" where
  "dated v = (case v of EvDate _ \<Rightarrow> True | EvTime _ \<Rightarrow> True | _ \<Rightarrow> False)"

fun date_minus :: "ev \<Rightarrow> ev \<Rightarrow> int res" where
  "date_minus (EvDate a) (EvDate b) = Inr (a - b)"
| "date_minus (EvTime (Aware a)) (EvTime (Aware b)) = Inr ((a - b) div micros_per_day)"
| "date_minus (EvTime (Naive a)) (EvTime (Naive b)) = Inr ((a - b) div micros_per_day)"
| "date_minus _ _ = Inl (TypeError ''unsupported operand types for -'')"

fun date_less :: "ev \<Rightarrow> ev \<Rightarrow> bool res" where
  "date_less (EvDate a) (EvDate b) = Inr (a < b)"
| "date_less (EvTime (Aware a)) (EvTime (Aware b)) = Inr (a < b)"
| "date_less (EvTime (Naive a)) (EvTime (Naive b)) = Inr (a < b)"
| "date_less _ _ = Inl (TypeError ''not comparable'')"

definition evidence_freshness :: predicate where
  "evidence_freshness now e = Inr (fresh_stamp now (e ''evidence_gathered_at'') MAX_EVIDENCE_AGE ''evidence record'')"

definition numeric_problem :: "evidence \<Rightarrow> string \<times> rat \<times> rat \<Rightarrow> string list res" where
  "numeric_problem e = (\<lambda>(name, lo, hi). if e name = EvNone then Inr [] else
     res_bind (as_finite (e name) name) (\<lambda>r. Inr (case r of
       Inl problem \<Rightarrow> [problem]
     | Inr x \<Rightarrow> if Fin lo \<le> x \<and> x \<le> Fin hi then [] else [name @ '' is outside its physically possible range.''])))"

definition bool_problem :: "evidence \<Rightarrow> string \<Rightarrow> string list" where
  "bool_problem e name = (case e name of EvNone \<Rightarrow> [] | EvBool _ \<Rightarrow> [] | _ \<Rightarrow> [name @ '' is not a boolean.''])"

definition text_problem :: "evidence \<Rightarrow> string \<Rightarrow> string list" where
  "text_problem e name = (case e name of EvNone \<Rightarrow> [] | EvStr _ \<Rightarrow> [] | _ \<Rightarrow> [name @ '' is not a string.''])"

definition date_problem :: "int \<Rightarrow> evidence \<Rightarrow> string \<Rightarrow> string list" where
  "date_problem now e name = (case e name of EvNone \<Rightarrow> []
     | EvDate d \<Rightarrow> if 1 < d - today now then [name @ '' is in the future.'']
         else if d < MIN_PLAUSIBLE_DATA_DATE then [name @ '' predates any market data.''] else []
     | _ \<Rightarrow> [name @ '' is not a date.''])"

definition datetime_problem :: "int \<Rightarrow> evidence \<Rightarrow> string \<Rightarrow> string list" where
  "datetime_problem now e name = (case e name of EvNone \<Rightarrow> []
     | EvTime (Naive _) \<Rightarrow> [name @ '' is timezone-naive.'']
     | EvTime (Aware t) \<Rightarrow> if CLOCK_SKEW_TOLERANCE < t - now then [name @ '' is in the future.''] else []
     | _ \<Rightarrow> [name @ '' is not a datetime.''])"

definition evidence_well_formed :: predicate where
  "evidence_well_formed now e =
     (if list_all (\<lambda>n. e n = EvNone) evidence_fields
      then Inr (False, ''NO EVIDENCE RECORDED AT ALL: the Evidence record is empty.'')
      else res_bind (res_concat (numeric_problem e) numeric_domains) (\<lambda>ns.
        let s = e ''price_history_start''; t = e ''price_history_end'' in
        res_bind (if dated s \<and> dated t then date_less t s else Inr False) (\<lambda>reversed.
        let problems = ns @ concat (map (bool_problem e) bool_fields) @ concat (map (text_problem e) text_fields) @
              concat (map (date_problem now e) date_fields) @ concat (map (datetime_problem now e) datetime_fields) @
              (if reversed then [''price history ends before it starts.''] else []) in
        Inr (if problems \<noteq> [] then (False, ''IMPOSSIBLE EVIDENCE: '' @ concat (map (\<lambda>p. p @ '' '') problems))
             else (True, ''Every supplied value is finite, in-domain and correctly typed.'')))))"

definition price_history :: predicate where
  "price_history now e =
     (let s = e ''price_history_start''; t = e ''price_history_end'';
          span = (if s = EvNone \<or> t = EvNone then Inr (False, no_record ''price history date range.'')
            else if \<not> (dated s \<and> dated t) then Inr (False, ''Price history date range is not made of dates.'')
            else res_bind (date_minus t s) (\<lambda>d. res_bind (int_to_float d) (\<lambda>x. res_bind (fdiv x (Fin (1461 / 4))) (\<lambda>years.
              min_value (EvFloat years) MIN_PRICE_HISTORY_YEARS ''price history span (years)'' False)))) in
      res_bind span (\<lambda>span_check. all_of
        [Inr (flag (e ''price_history_is_real_market_data'') ''price history is real market data''),
         min_value (e ''price_history_symbols'') MIN_PRICE_HISTORY_SYMBOLS ''symbols with history'' False,
         Inr span_check]))"

definition market_data_current :: predicate where
  "market_data_current now e = all_of
     [Inr (fresh_date now (e ''price_history_end'') MAX_PRICE_DATA_STALENESS ''last bar of price history''),
      Inr (flag (e ''market_data_feed_healthy'') ''market data feed health'')]"

definition data_quality :: predicate where
  "data_quality now e = all_of
     [Inr (flag (e ''data_quality_audit_passed'') ''data quality audit''),
      Inr (flag (e ''real_ohlc_available'') ''real OHLC (not synthesized from close)''),
      Inr (flag (e ''corporate_actions_adjusted'') ''corporate-action adjustment'')]"

definition purged_walk_forward :: predicate where
  "purged_walk_forward now e = all_of
     [Inr (flag (e ''purged_walk_forward_completed'') ''purged walk-forward validation''),
      Inr (flag (e ''label_embargo_applied'') ''label embargo between train and test'')]"

definition beats_benchmark :: predicate where
  "beats_benchmark now e = (if is_blank (e ''benchmark_name'') then Inr (False, no_record ''no passive benchmark was named'')
     else min_value (e ''net_annual_excess_return_vs_benchmark'') (Fin 0) ''annual excess return, net of costs'' True)"

definition trial_count :: predicate where
  "trial_count now e = res_bind (min_value (e ''n_trials_recorded'') (Fin 1) ''recorded trial count'' False) (\<lambda>c.
     if \<not> fst c then Inr c
     else res_bind (as_finite (e ''n_trials_used_in_dsr'') ''trial count used in the DSR'') (\<lambda>u. case u of
       Inl problem \<Rightarrow> Inr (False, problem)
     | Inr used \<Rightarrow> res_bind (as_finite (e ''n_trials_recorded'') ''recorded trial count'') (\<lambda>r. case r of
         Inl _ \<Rightarrow> Inl (PyExn ''AssertionError'' '''')
       | Inr recorded \<Rightarrow> Inr (if used \<noteq> recorded then (False, ''Trial count is not honest.'')
           else (True, ''trials recorded and fully reflected in the DSR.'')))))"

definition concentration :: predicate where
  "concentration now e = all_of
     [max_value (e ''max_single_name_pnl_share'') MAX_SINGLE_NAME_PNL_SHARE ''largest single-name share of PnL'' False,
      max_value (e ''max_sector_pnl_share'') MAX_SECTOR_PNL_SHARE ''largest sector share of PnL'' False,
      max_value (e ''max_single_year_pnl_share'') MAX_SINGLE_YEAR_PNL_SHARE ''largest single-year share of PnL'' False,
      max_value (e ''top_5_trades_pnl_share'') MAX_TOP5_TRADES_PNL_SHARE ''top-5-trades share of PnL'' False]"

definition cost_stress :: predicate where
  "cost_stress now e = all_of
     [min_value (e ''slippage_multiple_survived'') MIN_SLIPPAGE_STRESS_MULTIPLE ''slippage multiple survived'' False,
      min_value (e ''oos_sharpe_at_stressed_costs'') MIN_OOS_SHARPE ''OOS Sharpe under stressed costs'' False]"

definition broker_connectivity :: predicate where
  "broker_connectivity now e = all_of
     [Inr (fresh_stamp now (e ''broker_reachable_at'') MAX_BROKER_HEARTBEAT_AGE ''broker heartbeat''),
      Inr (flag (e ''broker_session_valid'') ''broker session validity''),
      Inr (not_flag (e ''broker_api_degraded'') ''broker API degradation'')]"

definition reconciliation_current :: predicate where
  "reconciliation_current now e = all_of
     [Inr (fresh_stamp now (e ''last_reconciliation_at'') MAX_RECONCILIATION_AGE ''position reconciliation''),
      Inr (flag (e ''last_reconciliation_succeeded'') ''last reconciliation outcome''),
      max_value (e ''open_reconciliation_breaks'') (Fin 0) ''open reconciliation breaks'' False]"

definition risk_limits_ok :: predicate where
  "risk_limits_ok now e = all_of
     [Inr (flag (e ''risk_limits_loaded'') ''risk limits loaded and active''),
      max_value (e ''active_risk_limit_breaches'') (Fin 0) ''active risk-limit breaches'' False,
      max_value (e ''current_drawdown'') MAX_DRAWDOWN ''current live drawdown'' False,
      Inr (not_flag (e ''kill_switch_engaged'') ''kill switch engagement'')]"

definition enforcement_wired :: predicate where
  "enforcement_wired now e = (let (ok, reason) = flag (e ''eligibility_enforced_at_order_path'')
       ''eligibility enforcement wired into the live order path'' in
     Inr (if ok then (True, reason) else (False, reason @ '' Live orders can be placed while BLOCKED.'')))"

definition paper_matches_backtest :: predicate where
  "paper_matches_backtest now e =
     res_bind (as_finite (e ''paper_sharpe'') ''paper Sharpe'') (\<lambda>p. case p of
       Inl problem \<Rightarrow> Inr (False, problem)
     | Inr paper \<Rightarrow> res_bind (as_finite (e ''backtest_expected_sharpe'') ''backtest expected Sharpe'') (\<lambda>b. case b of
         Inl problem \<Rightarrow> Inr (False, problem)
       | Inr backtest \<Rightarrow> Inr (if backtest \<le> Fin 0 then (False, ''There is no positive expectation to confirm.'')
           else if \<not> MIN_PAPER_TO_BACKTEST_SHARPE_RATIO * backtest \<le> paper then (False, ''Paper Sharpe is below the bound.'')
           else (True, ''Paper Sharpe is consistent with the backtest.''))))"

definition stripped :: "string \<Rightarrow> string" where
  "stripped s = rev (dropWhile blank_char (rev (dropWhile blank_char s)))"

definition human_enabled_live :: predicate where
  "human_enabled_live now e = Inr (case e ''trading_mode'' of
     EvNone \<Rightarrow> (False, no_record ''TRADING_MODE.'')
   | EvStr mode \<Rightarrow>
       if mode \<noteq> ''live'' then (False, ''TRADING_MODE is not live.'')
       else (case e ''live_enable_approved_by'' of
           EvStr by \<Rightarrow>
             if list_all blank_char by then (False, ''no human approver is recorded.'')
             else if length (stripped by) < 2 then (False, ''Recorded approver is not a name.'')
             else (case e ''live_enable_approved_at'' of
                 EvNone \<Rightarrow> (False, ''approved with no approval date.'')
               | EvDate _ \<Rightarrow> (True, ''TRADING_MODE explicitly set to live.'')
               | _ \<Rightarrow> (False, ''Approval date is not a date.''))
         | _ \<Rightarrow> (False, ''no human approver is recorded.''))
   | _ \<Rightarrow> (False, ''TRADING_MODE is not live.''))"

definition approval_is_current :: predicate where
  "approval_is_current now e = Inr (fresh_date now (e ''live_enable_approved_at'') MAX_APPROVAL_AGE ''human live-trading approval'')"

definition flag_gate :: "string \<Rightarrow> string \<Rightarrow> predicate" where
  "flag_gate name label now e = Inr (flag (e name) label)"

definition min_gate :: "string \<Rightarrow> pyfloat \<Rightarrow> string \<Rightarrow> bool \<Rightarrow> predicate" where
  "min_gate name bound label strict now e = min_value (e name) bound label strict"

definition max_gate :: "string \<Rightarrow> pyfloat \<Rightarrow> string \<Rightarrow> bool \<Rightarrow> predicate" where
  "max_gate name cap label strict now e = max_value (e name) cap label strict"

end
