(* ===== verification/Eligibility_Report.thy ===== *)
theory Eligibility_Report
  imports Eligibility
begin

text \<open>
  The gates of \<open>app/governance/eligibility.py\<close>, the report over them, the assessment and its
  enforcement point \<open>require_live_eligible\<close>. A gate given to the assessor is an object of the
  registry or another object, since the assessor compares by identity; the trust token is the flag
  of \<open>make_report\<close> that only the assessor sets.
\<close>

section \<open>Gates\<close>

record gate =
  g_name :: string
  g_category :: gate_category
  g_blocking :: eligibility_state
  g_requirement :: string
  g_predicate :: predicate

record gate_result =
  gr_name :: string
  gr_category :: gate_category
  gr_blocking :: eligibility_state
  gr_requirement :: string
  gr_passed :: bool
  gr_reason :: string

text \<open>\<open>Gate.check\<close>: a predicate that raises is a failed gate.\<close>

definition check_gate :: "gate \<Rightarrow> int \<Rightarrow> evidence \<Rightarrow> gate_result" where
  "check_gate g now e =
     (let (passed, reason) = (case g_predicate g now e of
        Inr c \<Rightarrow> c
      | Inl x \<Rightarrow> (False, ''GATE COULD NOT BE EVALUATED: '' @ exn_msg x @ ''. An unevaluable gate fails.''))
      in \<lparr>gr_name = g_name g, gr_category = g_category g, gr_blocking = g_blocking g,
          gr_requirement = g_requirement g, gr_passed = passed, gr_reason = reason\<rparr>)"

text \<open>The constructor \<open>Gate(name, category, blocking_state, requirement, predicate)\<close>.\<close>

definition mk_gate :: "string \<Rightarrow> gate_category \<Rightarrow> eligibility_state \<Rightarrow> string \<Rightarrow> predicate \<Rightarrow> gate" where
  "mk_gate n c b r p = \<lparr>g_name = n, g_category = c, g_blocking = b, g_requirement = r, g_predicate = p\<rparr>"

definition data_gates :: "gate list" where
  "data_gates =
    [mk_gate ''evidence_freshness'' DATA BLOCKED_INSUFFICIENT_DATA
       ''The Evidence record states when it was gathered, and that is within 24h and not in the future.''
       evidence_freshness,
     mk_gate ''evidence_well_formed'' DATA BLOCKED_INSUFFICIENT_DATA
       ''Every supplied value is finite, correctly typed and inside its physically possible range.''
       evidence_well_formed,
     mk_gate ''real_price_history'' DATA BLOCKED_INSUFFICIENT_DATA
       ''Real daily OHLCV for >= 50 symbols spanning >= 10 years.'' price_history,
     mk_gate ''market_data_current'' DATA BLOCKED_INSUFFICIENT_DATA
       ''The last bar of price history is within 7 days and the feed is currently healthy.'' market_data_current,
     mk_gate ''point_in_time_index_constituents'' DATA BLOCKED_INSUFFICIENT_DATA ''Point-in-time index membership.''
       (flag_gate ''point_in_time_index_constituents_available'' ''point-in-time index constituents''),
     mk_gate ''point_in_time_fundamentals'' DATA BLOCKED_INSUFFICIENT_DATA
       ''Point-in-time fundamentals with publication dates.''
       (flag_gate ''point_in_time_fundamentals_available'' ''point-in-time fundamentals''),
     mk_gate ''intraday_history_span'' DATA BLOCKED_INSUFFICIENT_DATA ''At least 504 days of intraday history.''
       (min_gate ''intraday_history_days'' MIN_INTRADAY_HISTORY_DAYS ''intraday history (days)'' False),
     mk_gate ''data_quality_audit'' DATA BLOCKED_INSUFFICIENT_DATA
       ''Data quality audited: real OHLC and corporate actions adjusted.'' data_quality]"

definition statistical_gates :: "gate list" where
  "statistical_gates =
    [mk_gate ''purged_walk_forward'' STATISTICAL BLOCKED_VALIDATION_INCOMPLETE
       ''Purged, embargoed walk-forward validation completed.'' purged_walk_forward,
     mk_gate ''deflated_sharpe_ratio'' STATISTICAL BLOCKED_INSUFFICIENT_STATISTICAL_EVIDENCE
       ''Deflated Sharpe Ratio > 0.95.''
       (min_gate ''deflated_sharpe_ratio'' MIN_DEFLATED_SHARPE ''Deflated Sharpe Ratio'' True),
     mk_gate ''probability_of_backtest_overfitting'' STATISTICAL BLOCKED_INSUFFICIENT_STATISTICAL_EVIDENCE
       ''PBO < 0.5.''
       (max_gate ''probability_of_backtest_overfitting'' MAX_PBO ''Probability of Backtest Overfitting'' True),
     mk_gate ''beats_passive_benchmark'' STATISTICAL BLOCKED_POOR_OOS_PERFORMANCE
       ''Positive excess return over a named passive benchmark, net of costs.'' beats_benchmark,
     mk_gate ''honest_trial_count'' STATISTICAL BLOCKED_INSUFFICIENT_STATISTICAL_EVIDENCE
       ''The number of trials is recorded and is the number the DSR was deflated for.'' trial_count]"

definition performance_gates :: "gate list" where
  "performance_gates =
    [mk_gate ''oos_sharpe_floor'' PERFORMANCE BLOCKED_POOR_OOS_PERFORMANCE ''Out-of-sample Sharpe >= 0.5, net of costs.''
       (min_gate ''oos_sharpe'' MIN_OOS_SHARPE ''OOS Sharpe'' False),
     mk_gate ''max_drawdown_limit'' PERFORMANCE BLOCKED_EXCESSIVE_DRAWDOWN ''Out-of-sample max drawdown <= 15%.''
       (max_gate ''max_drawdown'' MAX_DRAWDOWN ''OOS max drawdown'' False),
     mk_gate ''cost_and_slippage_stress'' PERFORMANCE BLOCKED_POOR_OOS_PERFORMANCE
       ''The edge survives slippage stress to >= 1.5x.'' cost_stress,
     mk_gate ''return_concentration'' PERFORMANCE BLOCKED_INSUFFICIENT_STATISTICAL_EVIDENCE
       ''PnL is not concentrated in one stock, one sector, one year, or a handful of trades.'' concentration]"

definition execution_gates :: "gate list" where
  "execution_gates =
    [mk_gate ''broker_auth'' EXECUTION BLOCKED_EXECUTION_NOT_VALIDATED
       ''Broker authentication and token refresh verified against a live session.''
       (flag_gate ''broker_auth_verified'' ''broker auth and token refresh''),
     mk_gate ''broker_connectivity'' EXECUTION BLOCKED_EXECUTION_NOT_VALIDATED
       ''The broker answered within the last 15 minutes, the session is valid, and the API is not degraded.''
       broker_connectivity,
     mk_gate ''order_lifecycle'' EXECUTION BLOCKED_EXECUTION_NOT_VALIDATED
       ''Full order lifecycle verified: place, modify, cancel, partial fill, reject.''
       (flag_gate ''order_lifecycle_verified'' ''order lifecycle''),
     mk_gate ''reconciliation'' EXECUTION BLOCKED_EXECUTION_NOT_VALIDATED
       ''Startup reconciliation against real broker positions verified.''
       (flag_gate ''reconciliation_verified'' ''startup reconciliation''),
     mk_gate ''reconciliation_current'' EXECUTION BLOCKED_EXECUTION_NOT_VALIDATED
       ''The most recent reconciliation ran within 24h, succeeded, and left no open position breaks.''
       reconciliation_current,
     mk_gate ''duplicate_order_protection'' EXECUTION BLOCKED_EXECUTION_NOT_VALIDATED
       ''Duplicate-order protection verified against a real broker session.''
       (flag_gate ''duplicate_order_protection_verified'' ''duplicate-order protection''),
     mk_gate ''kill_switch'' EXECUTION BLOCKED_EXECUTION_NOT_VALIDATED
       ''Kill switch verified to halt and flatten against a real broker session.''
       (flag_gate ''kill_switch_verified'' ''kill switch''),
     mk_gate ''timezone_and_squareoff'' EXECUTION BLOCKED_EXECUTION_NOT_VALIDATED
       ''IST handling and intraday square-off verified on a UTC host.''
       (flag_gate ''timezone_squareoff_verified'' ''timezone and square-off''),
     mk_gate ''enforcement_wired_into_order_path'' EXECUTION BLOCKED_EXECUTION_NOT_VALIDATED
       ''The live order path calls require_live_eligible() before touching the broker.'' enforcement_wired]"

definition operational_gates :: "gate list" where
  "operational_gates =
    [mk_gate ''risk_limits_enforced'' OPERATIONAL BLOCKED_RISK_LIMIT_BREACH
       ''Risk limits are loaded, no limit is currently breached, live drawdown is <= 15%, and the kill switch is not engaged.''
       risk_limits_ok,
     mk_gate ''paper_trading_duration'' OPERATIONAL PAPER_ONLY ''Paper trading on live data for >= 90 days.''
       (min_gate ''paper_trading_days'' MIN_PAPER_TRADING_DAYS ''paper trading (days)'' False),
     mk_gate ''paper_matches_backtest'' OPERATIONAL PAPER_ONLY
       ''Paper results are consistent with backtest expectations.'' paper_matches_backtest,
     mk_gate ''human_enabled_live_mode'' OPERATIONAL PAPER_ONLY
       ''TRADING_MODE explicitly set to 'live' by a named human on a recorded date.'' human_enabled_live,
     mk_gate ''approval_is_current'' OPERATIONAL PAPER_ONLY ''That human approval is less than 90 days old.''
       approval_is_current]"

definition ALL_GATES :: "gate list" where
  "ALL_GATES = data_gates @ statistical_gates @ performance_gates @ execution_gates @ operational_gates"

definition canonical_names :: "string list" where
  "canonical_names = map g_name ALL_GATES"

text \<open>\<open>_CANONICAL_BY_NAME.get(name)\<close>.\<close>

definition canonical_gate :: "string \<Rightarrow> gate option" where
  "canonical_gate name = map_of (map (\<lambda>g. (g_name g, g)) ALL_GATES) name"

section \<open>The report\<close>

record report =
  er_results :: "gate_result list"
  er_at :: ev
  er_notes :: "string list"
  er_provenance :: provenance

text \<open>\<open>__post_init__\<close>: a line under a canonical name takes the canonical category, state and
  requirement; a canonical gate without a line is added as a failure.\<close>

definition rebind_line :: "gate_result \<Rightarrow> gate_result" where
  "rebind_line r = (case canonical_gate (gr_name r) of None \<Rightarrow> r
     | Some g \<Rightarrow> r\<lparr>gr_category := g_category g, gr_blocking := g_blocking g, gr_requirement := g_requirement g\<rparr>)"

definition unevaluated :: "gate \<Rightarrow> gate_result" where
  "unevaluated g = \<lparr>gr_name = g_name g, gr_category = g_category g, gr_blocking = g_blocking g,
     gr_requirement = g_requirement g, gr_passed = False,
     gr_reason = ''GATE WAS NOT EVALUATED. An unevaluated gate fails.''\<rparr>"

definition post_init :: "gate_result list \<Rightarrow> gate_result list" where
  "post_init rs = (let lines = map rebind_line rs; seen = map gr_name lines in
     lines @ map unevaluated (filter (\<lambda>g. g_name g \<notin> set seen) ALL_GATES))"

text \<open>\<open>EligibilityReport(...)\<close>, with the private trust token or without.\<close>

definition make_report :: "bool \<Rightarrow> gate_result list \<Rightarrow> ev \<Rightarrow> string list \<Rightarrow> provenance \<Rightarrow> report" where
  "make_report trusted rs stamp notes prov = \<lparr>er_results = post_init rs, er_at = stamp, er_notes = notes,
     er_provenance = (if trusted then prov else UNTRUSTED)\<rparr>"

definition failed_gates :: "report \<Rightarrow> gate_result list" where
  "failed_gates r = filter (\<lambda>x. \<not> gr_passed x) (er_results r)"

definition passed_gates :: "report \<Rightarrow> gate_result list" where
  "passed_gates r = filter gr_passed (er_results r)"

text \<open>\<open>min(states, key=severity)\<close>: the first of the least.\<close>

fun most_severe :: "eligibility_state \<Rightarrow> eligibility_state list \<Rightarrow> eligibility_state" where
  "most_severe s [] = s"
| "most_severe s (t # ts) = most_severe (if severity t < severity s then t else s) ts"

definition report_state :: "report \<Rightarrow> eligibility_state" where
  "report_state r = (case map gr_blocking (failed_gates r) of
     s # ss \<Rightarrow> most_severe s ss
   | [] \<Rightarrow> if set canonical_names \<subseteq> set (map gr_name (passed_gates r)) then LIVE_ELIGIBLE else default_state)"

definition permits_live_trading :: "report \<Rightarrow> bool" where
  "permits_live_trading r \<longleftrightarrow> report_state r = LIVE_ELIGIBLE \<and> er_provenance r = COMPUTED"

text \<open>\<open>timedelta.max\<close> is the age of a report whose time is not one.\<close>

definition TIMEDELTA_MAX :: int where "TIMEDELTA_MAX = days 1000000000 - 1"

definition report_age :: "int \<Rightarrow> report \<Rightarrow> int" where
  "report_age now r = (case er_at r of EvTime (Aware t) \<Rightarrow> now - t | _ \<Rightarrow> TIMEDELTA_MAX)"

definition is_stale :: "int \<Rightarrow> report \<Rightarrow> bool" where
  "is_stale now r \<longleftrightarrow> MAX_REPORT_AGE < report_age now r"

definition blocking_reason :: "report \<Rightarrow> string" where
  "blocking_reason r = (case failed_gates r of
     [] \<Rightarrow> if report_state r \<noteq> LIVE_ELIGIBLE then ''Not every canonical gate is present in this report.''
           else if er_provenance r \<noteq> COMPUTED
           then ''This report was not computed in-process; an untrusted report cannot authorize live trading.''
           else ''All gates passed.''
   | f # fs \<Rightarrow> (let first = (case find (\<lambda>x. gr_blocking x = report_state r) (f # fs) of Some x \<Rightarrow> x | None \<Rightarrow> f)
       in gr_name first @ '': '' @ gr_reason first))"

section \<open>Serialisation\<close>

definition result_to_dict :: "gate_result \<Rightarrow> json" where
  "result_to_dict r = JObj [(''name'', JStr (gr_name r)), (''category'', JStr (category_text (gr_category r))),
     (''blocking_state'', JStr (state_text (gr_blocking r))), (''requirement'', JStr (gr_requirement r)),
     (''passed'', JBool (gr_passed r)), (''reason'', JStr (gr_reason r))]"

text \<open>\<open>bool\<close> of a parsed value, and \<open>str\<close> of one; \<open>shown\<close> is the text of a list or a dictionary.\<close>

fun json_truthy :: "json \<Rightarrow> bool" where
  "json_truthy JNull = False"
| "json_truthy (JBool b) = b"
| "json_truthy (JInt n) = (n \<noteq> 0)"
| "json_truthy (JFloat x) = ftruthy x"
| "json_truthy (JStr s) = (s \<noteq> [])"
| "json_truthy (JList xs) = (xs \<noteq> [])"
| "json_truthy (JObj kvs) = (kvs \<noteq> [])"

definition json_str :: "(json \<Rightarrow> string) \<Rightarrow> json \<Rightarrow> string" where
  "json_str shown v = (case v of
     JNull \<Rightarrow> py_str PNone | JBool b \<Rightarrow> py_str (PBool b) | JInt n \<Rightarrow> py_str (PInt n)
   | JFloat x \<Rightarrow> py_str (PFloat x) | JStr s \<Rightarrow> s | _ \<Rightarrow> shown v)"

text \<open>\<open>d[k]\<close> on a parsed value.\<close>

definition json_item :: "json \<Rightarrow> string \<Rightarrow> json res" where
  "json_item d k = (case d of
     JObj kvs \<Rightarrow> (case map_of kvs k of None \<Rightarrow> Inl (KeyError k) | Some v \<Rightarrow> Inr v)
   | _ \<Rightarrow> Inl (TypeError ''not subscriptable by a string''))"

text \<open>The enumerations by value: \<open>GateCategory(v)\<close> and \<open>EligibilityState(v)\<close>.\<close>

definition category_of :: "json \<Rightarrow> gate_category res" where
  "category_of v = (case find (\<lambda>c. v = JStr (category_text c)) all_categories of
     None \<Rightarrow> Inl (ValueError ''not a valid GateCategory'') | Some c \<Rightarrow> Inr c)"

definition state_of :: "json \<Rightarrow> eligibility_state res" where
  "state_of v = (case find (\<lambda>s. v = JStr (state_text s)) all_eligibility_states of
     None \<Rightarrow> Inl (ValueError ''not a valid EligibilityState'') | Some s \<Rightarrow> Inr s)"

definition result_from_dict :: "(json \<Rightarrow> string) \<Rightarrow> json \<Rightarrow> gate_result res" where
  "result_from_dict shown d =
     res_bind (json_item d ''name'') (\<lambda>n. res_bind (res_bind (json_item d ''category'') category_of) (\<lambda>c.
     res_bind (res_bind (json_item d ''blocking_state'') state_of) (\<lambda>b. res_bind (json_item d ''requirement'') (\<lambda>q.
     res_bind (json_item d ''passed'') (\<lambda>p. res_bind (json_item d ''reason'') (\<lambda>w.
     Inr \<lparr>gr_name = json_str shown n, gr_category = c, gr_blocking = b, gr_requirement = json_str shown q,
          gr_passed = json_truthy p, gr_reason = json_str shown w\<rparr>))))))"

text \<open>\<open>isoformat\<close> and \<open>datetime.fromisoformat\<close> are arguments.\<close>

definition report_to_dict :: "(ev \<Rightarrow> string res) \<Rightarrow> report \<Rightarrow> json res" where
  "report_to_dict isoformat r = res_bind (isoformat (er_at r)) (\<lambda>stamp. let st = report_state r in Inr (JObj
     [(''state'', JStr (state_text st)), (''permits_live_trading'', JBool (permits_live_trading r)),
      (''severity'', JInt (int (severity st))),
      (''provenance'', JStr (if er_provenance r = COMPUTED then ''computed'' else ''untrusted'')),
      (''blocking_reason'', JStr (blocking_reason r)), (''evaluated_at'', JStr stamp),
      (''n_gates'', JInt (int (length (er_results r)))), (''n_passed'', JInt (int (length (passed_gates r)))),
      (''n_failed'', JInt (int (length (failed_gates r)))),
      (''failed_gates'', JList (map result_to_dict (failed_gates r))),
      (''results'', JList (map result_to_dict (er_results r))),
      (''evidence_notes'', JList (map JStr (er_notes r)))]))"

text \<open>The elements of an iterated value; the characters of a string and the keys of a dictionary are strings.\<close>

definition json_iter :: "json \<Rightarrow> json list res" where
  "json_iter v = (case v of
     JList xs \<Rightarrow> Inr xs
   | JStr s \<Rightarrow> Inr (map (\<lambda>c. JStr [c]) s)
   | JObj kvs \<Rightarrow> Inr (map (\<lambda>(k, _). JStr k) kvs)
   | _ \<Rightarrow> Inl (TypeError ''object is not iterable''))"

definition report_from_dict :: "(json \<Rightarrow> string) \<Rightarrow> (json \<Rightarrow> ev res) \<Rightarrow> json \<Rightarrow> report res" where
  "report_from_dict shown fromiso d =
     res_bind (res_bind (json_item d ''results'') json_iter) (\<lambda>xs.
     res_bind (res_map (result_from_dict shown) xs) (\<lambda>rs.
     res_bind (res_bind (json_item d ''evaluated_at'') fromiso) (\<lambda>stamp.
     res_bind (case json_item d ''evidence_notes'' of Inr v \<Rightarrow> json_iter v | Inl _ \<Rightarrow> Inr []) (\<lambda>notes.
     Inr (make_report False rs stamp (map (json_str shown) notes) UNTRUSTED)))))"

section \<open>The assessment\<close>

text \<open>A gate handed to the assessor: the registry's \<open>i\<close>-th object, or another object. An index
  outside the registry names no object.\<close>

datatype gate_ref = Registry nat | Other gate

definition gate_objects :: "gate_ref list \<Rightarrow> (bool \<times> gate) list" where
  "gate_objects refs = concat (map (\<lambda>x. case x of
     Registry i \<Rightarrow> if i < length ALL_GATES then [(True, ALL_GATES ! i)] else []
   | Other g \<Rightarrow> [(False, g)]) refs)"

definition whole_registry :: "gate_ref list" where
  "whole_registry = map Registry [0..<length ALL_GATES]"

definition assess_gate :: "int \<Rightarrow> evidence \<Rightarrow> bool \<times> gate \<Rightarrow> gate_result" where
  "assess_gate now e = (\<lambda>(canonical, g). let r = check_gate g now e in
     if canonical_gate (g_name g) \<noteq> None \<and> \<not> canonical \<and> gr_passed r
     then r\<lparr>gr_passed := False, gr_reason := ''GATE WAS SUBSTITUTED. Original reason: '' @ gr_reason r\<rparr>
     else r)"

definition assess_live_trading_eligibility ::
  "int \<Rightarrow> (evidence \<times> string list) option \<Rightarrow> gate_ref list option \<Rightarrow> report" where
  "assess_live_trading_eligibility now supplied gates =
     (let (e, notes) = (case supplied of
            None \<Rightarrow> (no_evidence, [''No evidence was supplied to the assessor.'']) | Some x \<Rightarrow> x);
          chosen = (case gates of None \<Rightarrow> whole_registry | Some gs \<Rightarrow> gs)
      in make_report True (map (assess_gate now e) (gate_objects chosen)) (EvTime (Aware now)) notes COMPUTED)"

section \<open>Enforcement\<close>

text \<open>The \<open>report\<close> argument: absent, exactly an \<open>EligibilityReport\<close>, an instance of a subclass, or
  another object.\<close>

datatype offered = NoReport | Exact report | Subclass report | Foreign

fun state_name :: "eligibility_state \<Rightarrow> string" where
  "state_name s = py_upper (state_text s)"

definition live_blocked :: "eligibility_state \<Rightarrow> string \<Rightarrow> exn" where
  "live_blocked s reason = LiveTradingBlocked (''LIVE TRADING BLOCKED ['' @ state_name s @ '']: '' @ reason)"

definition missing_gates :: "report \<Rightarrow> string list" where
  "missing_gates r = sort (filter (\<lambda>n. n \<notin> set (map gr_name (passed_gates r))) canonical_names)"

definition join_names :: "string list \<Rightarrow> string" where
  "join_names ns = (case ns of [] \<Rightarrow> [] | n # rest \<Rightarrow> n @ concat (map (\<lambda>x. '', '' @ x) rest))"

text \<open>What follows once a report is in hand.\<close>

definition enforce_report :: "int \<Rightarrow> int option \<Rightarrow> report \<Rightarrow> report res" where
  "enforce_report now max_age r =
     (if er_provenance r \<noteq> COMPUTED then Inl (live_blocked default_state ''This report was not computed in-process.'')
      else
        let limit = (case max_age of Some a \<Rightarrow> if a = 0 then MAX_REPORT_AGE else a | None \<Rightarrow> MAX_REPORT_AGE) in
        if limit < report_age now r then Inl (live_blocked default_state ''Eligibility report is too old. Re-assess before trading.'')
        else
          let missing = missing_gates r in
          if missing \<noteq> [] then
            Inl (live_blocked (if report_state r = LIVE_ELIGIBLE then default_state else report_state r)
              (''gate(s) not passing: '' @ join_names missing @ ''. '' @ blocking_reason r))
          else Inr r)"

text \<open>\<open>gathered\<close> is \<open>gather_repo_evidence()\<close>, which may raise.\<close>

definition require_live_eligible ::
  "int \<Rightarrow> (evidence \<times> string list) res \<Rightarrow> offered \<Rightarrow> order_intent \<Rightarrow> int option \<Rightarrow> report res" where
  "require_live_eligible now gathered offer intent max_age =
     (case intent of
        REDUCE_RISK \<Rightarrow> (case offer of Exact r \<Rightarrow> Inr r | Subclass r \<Rightarrow> Inr r
          | _ \<Rightarrow> Inr (make_report False [] (EvTime (Aware now)) [] UNTRUSTED))
      | UNRECOGNISED \<Rightarrow> Inl (live_blocked default_state ''Unrecognized OrderIntent; an unrecognized intent is blocked.'')
      | INCREASE_RISK \<Rightarrow> (case offer of
          NoReport \<Rightarrow> (case gathered of
              Inl x \<Rightarrow> Inl (live_blocked default_state (''Eligibility could not be assessed: '' @ exn_msg x))
            | Inr ev \<Rightarrow> enforce_report now max_age (assess_live_trading_eligibility now (Some ev) None))
        | Exact r \<Rightarrow> enforce_report now max_age r
        | _ \<Rightarrow> Inl (live_blocked default_state ''Expected an EligibilityReport; only the exact type is accepted.'')))"

end
