(* ===== verification/Eligibility_Evidence.thy ===== *)
theory Eligibility_Evidence
  imports Eligibility_Report
begin

text \<open>
  \<open>gather_repo_evidence\<close> of \<open>app/governance/eligibility.py\<close>: the evidence read from the price
  cache, the settings, the fundamentals provider, the result of the research study and the source
  of the order path. What the function reads is the record \<open>repo\<close>; an assignment made before an
  exception stays, as in the source.
\<close>

section \<open>What is read\<close>

text \<open>The \<open>*.parquet\<close> names of the cache (none when there is no directory), the trading mode, the
  \<open>IS_MOCK\<close> flag, the parsed study file if it exists, and the source of the order path.\<close>

record repo =
  rp_cache :: "string list res"
  rp_mode :: "string res"
  rp_mock :: "bool res"
  rp_study :: "json option res"
  rp_order_path :: "string res"

section \<open>The price cache\<close>

definition is_digit :: "char \<Rightarrow> bool" where
  "is_digit c \<longleftrightarrow> (let n = (of_char c :: nat) in 48 \<le> n \<and> n \<le> 57)"

definition date_char :: "char \<Rightarrow> bool" where
  "date_char c \<longleftrightarrow> is_digit c \<or> c = CHR ''-''"

text \<open>The match of \<open>_CACHE_FILENAME\<close>, read from the right: the two last groups hold no underscore.\<close>

definition split_name :: "string \<Rightarrow> (string \<times> string) option" where
  "split_name s = (let r = rev s; e = takeWhile date_char r; rest = dropWhile date_char r in
     if e \<noteq> [] \<and> take 2 rest = ''__'' then Some (rev (drop 2 rest), rev e) else None)"

definition cache_filename :: "string \<Rightarrow> (string \<times> string \<times> string) option" where
  "cache_filename name =
     (let n = length name - 8 in
      if \<not> (8 \<le> length name \<and> drop n name = ''.parquet'') then None
      else (case split_name (take n name) of None \<Rightarrow> None
        | Some (front, till) \<Rightarrow> (case split_name front of None \<Rightarrow> None
            | Some (symbol, since) \<Rightarrow>
                if symbol = [] \<or> CHR 0x0A \<in> set symbol then None else Some (symbol, since, till))))"

text \<open>\<open>date.fromisoformat\<close> on digits and dashes: \<open>YYYY-MM-DD\<close> or \<open>YYYYMMDD\<close>.\<close>

definition days_in_month :: "int \<Rightarrow> int \<Rightarrow> int" where
  "days_in_month y m = (if m = 2 then if y mod 4 = 0 \<and> (y mod 100 \<noteq> 0 \<or> y mod 400 = 0) then 29 else 28
     else if m \<in> set [4, 6, 9, 11] then 30 else 31)"

definition number_of :: "string \<Rightarrow> int" where
  "number_of s = foldl (\<lambda>n c. 10 * n + (int (of_char c) - 48)) 0 s"

definition date_fromisoformat :: "string \<Rightarrow> int res" where
  "date_fromisoformat s =
     (let fields = (if length s = 10 \<and> s ! 4 = CHR ''-'' \<and> s ! 7 = CHR ''-''
            then Some (take 4 s, take 2 (drop 5 s), drop 8 s)
            else if length s = 8 then Some (take 4 s, take 2 (drop 4 s), drop 6 s) else None)
      in case fields of
        None \<Rightarrow> Inl (ValueError ''Invalid isoformat string'')
      | Some (ys, ms, ds) \<Rightarrow>
          (let y = number_of ys; m = number_of ms; d = number_of ds in
           if list_all is_digit (ys @ ms @ ds) \<and> 1 \<le> y \<and> 1 \<le> m \<and> m \<le> 12 \<and> 1 \<le> d \<and> d \<le> days_in_month y m
           then Inr (date_day y m d) else Inl (ValueError ''Invalid isoformat string'')))"

text \<open>The findings of an inspection so far.\<close>

record finds =
  fi_fields :: "evidence"
  fi_notes :: "string list"
  fi_verdict :: "string option"

definition put :: "string \<Rightarrow> ev \<Rightarrow> (finds, unit) ef" where
  "put name v = ef_modify (\<lambda>f. f\<lparr>fi_fields := (fi_fields f)(name := v)\<rparr>)"

definition remark :: "string \<Rightarrow> (finds, unit) ef" where
  "remark s = ef_modify (\<lambda>f. f\<lparr>fi_notes := fi_notes f @ [s]\<rparr>)"

definition attempt :: "(finds, unit) ef \<Rightarrow> (exn \<Rightarrow> (finds, unit) ef) \<Rightarrow> (finds, unit) ef" where
  "attempt body handler = ef_bind (ef_try body) (\<lambda>r. case r of Inr _ \<Rightarrow> ef_return () | Inl x \<Rightarrow> handler x)"

definition inspect_cache :: "repo \<Rightarrow> (finds, unit) ef" where
  "inspect_cache rp = attempt
     (ef_bind (ef_lift (rp_cache rp)) (\<lambda>files.
       let parsed = List.map_filter cache_filename files in
       if parsed \<noteq> [] then
         ef_seq (put ''price_history_symbols''
             (EvInt (int (length (remdups (filter (\<lambda>s. take 6 s \<noteq> ''BENCH_'') (map fst parsed)))))))
         (ef_bind (ef_lift (res_map (\<lambda>(_, s, _). date_fromisoformat s) parsed)) (\<lambda>starts.
          ef_seq (put ''price_history_start'' (EvDate (Min (set starts))))
         (ef_bind (ef_lift (res_map (\<lambda>(_, _, x). date_fromisoformat x) parsed)) (\<lambda>ends.
          ef_seq (put ''price_history_end'' (EvDate (Max (set ends))))
         (ef_seq (put ''price_history_is_real_market_data'' (EvBool True))
          (remark ''parquet files of real daily OHLCV.''))))))
       else
         ef_seq (put ''price_history_symbols'' (EvInt 0))
         (ef_seq (put ''price_history_is_real_market_data'' (EvBool False))
          (remark ''No cached price data found.''))))
     (\<lambda>x. remark ''Price cache could not be inspected.'')"

section \<open>The settings and the fundamentals provider\<close>

definition inspect_mode :: "repo \<Rightarrow> (finds, unit) ef" where
  "inspect_mode rp = attempt (ef_bind (ef_lift (rp_mode rp)) (\<lambda>m. put ''trading_mode'' (EvStr m)))
     (\<lambda>x. remark ''TRADING_MODE could not be read.'')"

definition inspect_fundamentals :: "repo \<Rightarrow> (finds, unit) ef" where
  "inspect_fundamentals rp = attempt
     (ef_bind (ef_lift (rp_mock rp)) (\<lambda>mock.
       ef_seq (put ''point_in_time_fundamentals_available'' (EvBool (\<not> mock)))
         (remark (if mock then ''Fundamentals provider is MOCK.'' else ''Fundamentals provider is real.''))))
     (\<lambda>x. remark ''Fundamentals provider could not be inspected.'')"

section \<open>The research study\<close>

text \<open>\<open>d.get(k)\<close> on a parsed value, and \<open>d.get(k) or {}\<close>.\<close>

definition json_get :: "json \<Rightarrow> string \<Rightarrow> json res" where
  "json_get d k = (case d of
     JObj kvs \<Rightarrow> Inr (case map_of kvs k of None \<Rightarrow> JNull | Some v \<Rightarrow> v)
   | _ \<Rightarrow> Inl (PyExn ''AttributeError'' ''object has no attribute 'get' ''))"

definition or_empty :: "json \<Rightarrow> json" where
  "or_empty v = (if json_truthy v then v else JObj [])"

text \<open>\<open>_num_or_none\<close>: \<open>float(v)\<close> raises \<open>OverflowError\<close>, which it does not catch, on a huge integer.\<close>

definition num_or_none :: "json \<Rightarrow> ev res" where
  "num_or_none v =
     (let keep = (\<lambda>x. if isfinite x then EvFloat x else EvNone) in
      case v of
        JBool b \<Rightarrow> Inr (EvFloat (Fin (if b then 1 else 0)))
      | JInt n \<Rightarrow> res_bind (int_to_float n) (\<lambda>x. Inr (keep x))
      | JFloat x \<Rightarrow> Inr (keep x)
      | JStr s \<Rightarrow> Inr (case parse_float s of None \<Rightarrow> EvNone | Some x \<Rightarrow> keep x)
      | _ \<Rightarrow> Inr EvNone)"

definition ev_of_json :: "json \<Rightarrow> ev" where
  "ev_of_json v = (case v of JNull \<Rightarrow> EvNone | JBool b \<Rightarrow> EvBool b | JInt n \<Rightarrow> EvInt n
     | JFloat x \<Rightarrow> EvFloat x | JStr s \<Rightarrow> EvStr s | _ \<Rightarrow> EvOther)"

definition stale_study :: exn where
  "stale_study = PyExn ''_StaleStudy'' []"

definition study_fields :: "string list" where
  "study_fields = [''oos_sharpe'', ''oos_sharpe_at_stressed_costs'', ''deflated_sharpe_ratio'', ''n_trials_recorded'',
     ''probability_of_backtest_overfitting'', ''net_annual_excess_return_vs_benchmark'',
     ''purged_walk_forward_completed'', ''label_embargo_applied'']"

text \<open>\<open>x = _num_or_none(d.get(k))\<close>.\<close>

definition put_number :: "string \<Rightarrow> json \<Rightarrow> string \<Rightarrow> (finds, unit) ef" where
  "put_number name d k = ef_bind (ef_lift (res_bind (json_get d k) num_or_none)) (put name)"

definition read_results :: "json \<Rightarrow> (finds, unit) ef" where
  "read_results study =
     ef_bind (ef_lift (json_get study ''out_of_sample'')) (\<lambda>v. let sample = or_empty v in
     ef_seq (put_number ''oos_sharpe'' sample ''sharpe'')
     (ef_seq (put_number ''deflated_sharpe_ratio'' sample ''deflated_sharpe_ratio'')
     (ef_bind (ef_lift (json_get sample ''n_trials'')) (\<lambda>trials.
     ef_seq (put ''n_trials_recorded'' (ev_of_json trials))
     (ef_bind (ef_lift (json_get study ''robustness'')) (\<lambda>rb.
     ef_bind (ef_lift (json_get (or_empty rb) ''cost_sensitivity'')) (\<lambda>cs.
     ef_bind (ef_lift (json_get (or_empty cs) ''50bps'')) (\<lambda>stressed.
     ef_seq (put_number ''oos_sharpe_at_stressed_costs'' (or_empty stressed) ''sharpe'')
     (ef_seq (put_number ''probability_of_backtest_overfitting'' sample ''pbo'')
     (ef_seq (put_number ''net_annual_excess_return_vs_benchmark'' sample ''excess_cagr'')
     (ef_bind (ef_lift (json_get study ''folds'')) (\<lambda>folds.
     ef_seq (put ''purged_walk_forward_completed'' (EvBool (json_truthy folds)))
       (put ''label_embargo_applied'' (EvBool (json_truthy folds)))))))))))))))"

definition read_study :: "(json \<Rightarrow> string) \<Rightarrow> json \<Rightarrow> (finds, unit) ef" where
  "read_study shown study =
     ef_bind (ef_lift (json_get study ''verdict'')) (\<lambda>v.
     let verdict = json_str shown (if json_truthy v then v else JStr []) in
     ef_seq (ef_modify (\<lambda>f. f\<lparr>fi_verdict := Some verdict\<rparr>))
     (ef_bind (ef_lift (json_get study ''provenance'')) (\<lambda>p. let prov = or_empty p in
     ef_bind (ef_lift (json_get prov ''experiment_id'')) (\<lambda>eid.
     if \<not> json_truthy eid then
       ef_seq (remark ''RESEARCH RESULT REJECTED: study_result.json carries no provenance block.'') (ef_raise stale_study)
     else
     ef_bind (ef_lift (json_get prov ''universe_fingerprint'')) (\<lambda>u.
     if json_str shown (if json_truthy u then u else JStr ''none'') = ''none'' then
       ef_seq (remark ''RESEARCH RESULT REJECTED: the study was run WITHOUT a point-in-time universe provider.'')
         (ef_raise stale_study)
     else
     ef_seq (remark ''Research provenance.'')
     (ef_seq (read_results study)
     (ef_seq (remark (''Research study verdict: '' @ verdict))
     (if verdict \<noteq> ''VALIDATED'' then remark ''NO VALIDATED STRATEGY.'' else ef_return ()))))))))"

definition inspect_study :: "(json \<Rightarrow> string) \<Rightarrow> repo \<Rightarrow> (finds, unit) ef" where
  "inspect_study shown rp = attempt
     (ef_bind (ef_lift (rp_study rp)) (\<lambda>s. case s of
        Some study \<Rightarrow> read_study shown study
      | None \<Rightarrow> remark ''No research study result: no strategy has been validated.''))
     (\<lambda>x. if x = stale_study
        then ef_modify (\<lambda>f. f\<lparr>fi_fields := (\<lambda>n. if n \<in> set study_fields then EvNone else fi_fields f n),
                             fi_verdict := None\<rparr>)
        else remark ''Research study result could not be read.'')"

section \<open>The order path\<close>

definition enforcement_is_wired :: "repo \<Rightarrow> bool option" where
  "enforcement_is_wired rp = (case rp_order_path rp of
     Inl _ \<Rightarrow> None | Inr source \<Rightarrow> Some (contains ''require_live_eligible'' source))"

definition note_enforcement :: "bool option \<Rightarrow> (finds, unit) ef" where
  "note_enforcement enforced =
     ef_seq (put ''eligibility_enforced_at_order_path'' (case enforced of None \<Rightarrow> EvNone | Some b \<Rightarrow> EvBool b))
       (remark (case enforced of
          Some False \<Rightarrow> ''CRITICAL: execution/order_manager.py does NOT call require_live_eligible().''
        | None \<Rightarrow> ''execution/order_manager.py could not be read.''
        | Some True \<Rightarrow> ''execution/order_manager.py references require_live_eligible().''))"

section \<open>The evidence\<close>

definition inspect_repo :: "(json \<Rightarrow> string) \<Rightarrow> repo \<Rightarrow> (finds, unit) ef" where
  "inspect_repo shown rp = ef_seq (inspect_cache rp) (ef_seq (inspect_mode rp) (ef_seq (inspect_fundamentals rp)
     (ef_seq (inspect_study shown rp) (note_enforcement (enforcement_is_wired rp)))))"

definition gather_repo_evidence :: "(json \<Rightarrow> string) \<Rightarrow> int \<Rightarrow> repo \<Rightarrow> evidence \<times> string list" where
  "gather_repo_evidence shown now rp =
     (let f = snd (inspect_repo shown rp \<lparr>fi_fields = no_evidence, fi_notes = [], fi_verdict = None\<rparr>) in
      ((fi_fields f)(''evidence_gathered_at'' := EvTime (Aware now),
         ''point_in_time_index_constituents_available'' := EvBool False,
         ''intraday_history_days'' := EvInt 0,
         ''benchmark_name'' := (if fi_verdict f = None then EvNone else EvStr ''^NSEI'')),
       fi_notes f @ [''The price source supplies no point-in-time index membership.'',
         ''No model, backtest result or validation record has ever been persisted by this repository.'']))"

definition live_trading_eligibility :: "(json \<Rightarrow> string) \<Rightarrow> int \<Rightarrow> repo \<Rightarrow> (evidence \<times> string list) option \<Rightarrow> eligibility_state" where
  "live_trading_eligibility shown now rp supplied =
     report_state (assess_live_trading_eligibility now
       (Some (case supplied of None \<Rightarrow> gather_repo_evidence shown now rp | Some x \<Rightarrow> x)) None)"

definition assess_repo_live_trading_eligibility :: "(json \<Rightarrow> string) \<Rightarrow> int \<Rightarrow> repo \<Rightarrow> report" where
  "assess_repo_live_trading_eligibility shown now rp =
     assess_live_trading_eligibility now (Some (gather_repo_evidence shown now rp)) None"

end
