(* ===== verification/Eligibility_Proofs.thy ===== *)
theory Eligibility_Proofs
  imports Eligibility_Evidence
begin

text \<open>
  Lemmas on the live eligibility gates: the registry and the normalised lines of a report, what a
  LIVE_ELIGIBLE verdict and a returning \<open>require_live_eligible\<close> say of the evidence, and each gate
  as a condition on the evidence (\<open>ok\<close> of its predicate).
\<close>

section \<open>The registry\<close>

lemma distinct_canonical: "distinct canonical_names"
  by code_simp

lemma canonical_gate_iff: "canonical_gate n = Some g \<longleftrightarrow> g \<in> set ALL_GATES \<and> g_name g = n"
proof -
  have "map fst (map (\<lambda>g. (g_name g, g)) ALL_GATES) = canonical_names"
    by (simp add: canonical_names_def comp_def)
  with distinct_canonical have "canonical_gate n = Some g \<longleftrightarrow> (n, g) \<in> set (map (\<lambda>g. (g_name g, g)) ALL_GATES)"
    by (simp add: canonical_gate_def map_of_eq_Some_iff)
  then show ?thesis by auto
qed

lemma canonical_gate_None: "canonical_gate n = None \<longleftrightarrow> n \<notin> set canonical_names"
  by (simp add: canonical_gate_def map_of_eq_None_iff canonical_names_def image_image)

lemma gates_block: "g \<in> set ALL_GATES \<Longrightarrow> g_blocking g \<noteq> LIVE_ELIGIBLE"
  by (auto simp: ALL_GATES_def data_gates_def statistical_gates_def performance_gates_def execution_gates_def
      operational_gates_def mk_gate_def)

lemma check_gate_simps [simp]:
  "gr_name (check_gate g now e) = g_name g" "gr_category (check_gate g now e) = g_category g"
  "gr_blocking (check_gate g now e) = g_blocking g" "gr_requirement (check_gate g now e) = g_requirement g"
  by (simp_all add: check_gate_def split: sum.split prod.split)

definition passes :: "int \<Rightarrow> evidence \<Rightarrow> gate \<Rightarrow> bool" where
  "passes now e g \<longleftrightarrow> (\<exists>why. g_predicate g now e = Inr (True, why))"

lemma check_gate_passed: "gr_passed (check_gate g now e) \<longleftrightarrow> passes now e g"
  by (auto simp: check_gate_def passes_def split: sum.split prod.split)

lemma gate_objects_registry: "gate_objects whole_registry = map (Pair True) ALL_GATES"
proof -
  have "gate_objects (map Registry is) = map (\<lambda>i. (True, ALL_GATES ! i)) (filter (\<lambda>i. i < length ALL_GATES) is)" for "is"
    by (induction "is") (auto simp: gate_objects_def)
  from this [of "[0..<length ALL_GATES]"] have
    "gate_objects whole_registry = map (\<lambda>i. (True, ALL_GATES ! i)) [0..<length ALL_GATES]"
    by (simp add: whole_registry_def filter_id_conv)
  also have "\<dots> = map (Pair True) (map ((!) ALL_GATES) [0..<length ALL_GATES])" by simp
  finally show ?thesis by (simp only: map_nth)
qed

lemma gate_objects_canonical: "(True, g) \<in> set (gate_objects gs) \<Longrightarrow> g \<in> set ALL_GATES"
proof -
  assume "(True, g) \<in> set (gate_objects gs)"
  then obtain x where "(True, g) \<in> set (case x of Registry i \<Rightarrow> if i < length ALL_GATES then [(True, ALL_GATES ! i)] else []
      | Other g \<Rightarrow> [(False, g)])" by (auto simp: gate_objects_def)
  then show ?thesis by (cases x) (auto split: if_splits)
qed

section \<open>Normalised lines\<close>

lemma rebind_simps [simp]:
  "gr_name (rebind_line r) = gr_name r" "gr_passed (rebind_line r) = gr_passed r" "gr_reason (rebind_line r) = gr_reason r"
  by (simp_all add: rebind_line_def split: option.split)

lemma rebind_blocking: "canonical_gate (gr_name r) = Some g \<Longrightarrow> gr_blocking (rebind_line r) = g_blocking g"
  by (simp add: rebind_line_def)

lemma rebind_check: "g \<in> set ALL_GATES \<Longrightarrow> gr_name r = g_name g \<Longrightarrow> gr_category r = g_category g \<Longrightarrow>
    gr_blocking r = g_blocking g \<Longrightarrow> gr_requirement r = g_requirement g \<Longrightarrow> rebind_line r = r"
  using canonical_gate_iff [of "g_name g" g] by (simp add: rebind_line_def)

lemma unevaluated_simps [simp]:
  "gr_name (unevaluated g) = g_name g" "gr_passed (unevaluated g) = False" "gr_blocking (unevaluated g) = g_blocking g"
  by (simp_all add: unevaluated_def)

lemma set_post_init: "set (post_init rs) = rebind_line ` set rs \<union> unevaluated ` {g \<in> set ALL_GATES. g_name g \<notin> gr_name ` set rs}"
  by (auto simp: post_init_def Let_def image_image)

lemma post_init_names: "set canonical_names \<subseteq> gr_name ` set (post_init rs)"
  by (auto simp: set_post_init canonical_names_def image_Un image_image)

text \<open>Every line under a canonical name blocks as the registry says.\<close>

lemma canonical_line:
  assumes "x \<in> set (post_init rs)" and "gr_name x \<in> set canonical_names"
  shows "\<exists>g \<in> set ALL_GATES. g_name g = gr_name x \<and> gr_blocking x = g_blocking g"
proof -
  obtain g where g: "canonical_gate (gr_name x) = Some g" using assms(2) canonical_gate_None by fastforce
  then have m: "g \<in> set ALL_GATES" "g_name g = gr_name x" by (simp_all add: canonical_gate_iff)
  from assms(1) consider (old) r where "x = rebind_line r" | (new) h where "h \<in> set ALL_GATES" "x = unevaluated h"
    unfolding set_post_init by blast
  then have "gr_blocking x = g_blocking g"
  proof cases
    case old
    then show ?thesis using g rebind_blocking [of r g] by simp
  next
    case new
    then have "h = g" using g canonical_gate_iff [of "g_name h" h] by simp
    then show ?thesis using new by simp
  qed
  with m show ?thesis by blast
qed

lemma most_severe_mem: "most_severe s ts \<in> set (s # ts)"
  by (induction ts arbitrary: s) (auto split: if_splits)

lemma most_severe_least: "x \<in> set (s # ts) \<Longrightarrow> severity (most_severe s ts) \<le> severity x"
proof (induction ts arbitrary: s x)
  case (Cons t ts)
  have t: "severity (most_severe t ts) \<le> severity t" and s: "severity (most_severe s ts) \<le> severity s"
    using Cons.IH by simp_all
  have "severity (most_severe (if severity t < severity s then t else s) ts) \<le> severity x"
    using Cons.prems Cons.IH [of x t] Cons.IH [of x s] t s by (cases "x \<in> set ts") auto
  then show ?case by simp
qed simp

lemma severity_live: "severity s \<le> 8" "severity s = 8 \<longleftrightarrow> s = LIVE_ELIGIBLE"
  by (cases s; simp)+

lemma state_least: "x \<in> set (er_results r) \<Longrightarrow> \<not> gr_passed x \<Longrightarrow> severity (report_state r) \<le> severity (gr_blocking x)"
proof -
  assume x: "x \<in> set (er_results r)" "\<not> gr_passed x"
  then have "x \<in> set (failed_gates r)" by (simp add: failed_gates_def)
  then obtain s ss where s: "map gr_blocking (failed_gates r) = s # ss"
    by (cases "failed_gates r") auto
  with \<open>x \<in> set (failed_gates r)\<close> have "gr_blocking x \<in> set (s # ss)" by (metis image_eqI list.set_map)
  then show ?thesis using most_severe_least s by (simp add: report_state_def)
qed

text \<open>A report that says LIVE_ELIGIBLE has a passing line for every gate of the registry, and no
  failing one.\<close>

lemma live_state_lines:
  assumes "report_state (make_report t rs st ns p) = LIVE_ELIGIBLE" and "n \<in> set canonical_names"
  shows "(\<exists>x \<in> set rs. gr_name x = n) \<and> (\<forall>x \<in> set rs. gr_name x = n \<longrightarrow> gr_passed x)"
proof -
  let ?r = "make_report t rs st ns p"
  have er: "er_results ?r = post_init rs" by (simp add: make_report_def)
  have ok: "gr_passed x" if x: "x \<in> set (post_init rs)" and xn: "gr_name x = n" for x
  proof (rule ccontr)
    assume "\<not> gr_passed x"
    with x assms(1) have "8 \<le> severity (gr_blocking x)" using state_least [of x ?r] er by simp
    then have "gr_blocking x = LIVE_ELIGIBLE" using severity_live [of "gr_blocking x"] by simp
    moreover obtain g where "g \<in> set ALL_GATES" "gr_blocking x = g_blocking g"
      using canonical_line [OF x] xn assms(2) by auto
    ultimately show False using gates_block by auto
  qed
  obtain x where x: "x \<in> set (post_init rs)" "gr_name x = n" using post_init_names assms(2) by blast
  with ok have "gr_passed x" by blast
  with x have "\<exists>y \<in> set rs. gr_name y = n" by (auto simp: set_post_init)
  moreover have "gr_passed y" if "y \<in> set rs" "gr_name y = n" for y
    using ok [of "rebind_line y"] that by (auto simp: set_post_init)
  ultimately show ?thesis by blast
qed

section \<open>The assessment\<close>

lemma assess_gate_simps [simp]:
  "gr_name (assess_gate now e cg) = g_name (snd cg)" "gr_blocking (assess_gate now e cg) = g_blocking (snd cg)"
  "gr_category (assess_gate now e cg) = g_category (snd cg)"
  "gr_requirement (assess_gate now e cg) = g_requirement (snd cg)"
  by (simp_all add: assess_gate_def Let_def split: prod.split)

lemma assess_gate_passed:
  "gr_passed (assess_gate now e (c, g)) \<longleftrightarrow> passes now e g \<and> (c \<or> g_name g \<notin> set canonical_names)"
  by (auto simp: assess_gate_def Let_def check_gate_passed canonical_gate_None [symmetric])

text \<open>Whatever gates are handed over, a LIVE_ELIGIBLE verdict says that every predicate of the
  registry holds of the evidence.\<close>

lemma assessed_live:
  assumes "report_state (assess_live_trading_eligibility now (Some (e, ns)) gs) = LIVE_ELIGIBLE"
    and g: "g \<in> set ALL_GATES"
  shows "passes now e g"
proof -
  define objs where "objs = gate_objects (case gs of None \<Rightarrow> whole_registry | Some x \<Rightarrow> x)"
  have nm: "g_name g \<in> set canonical_names" using g by (simp add: canonical_names_def)
  have "report_state (make_report True (map (assess_gate now e) objs) (EvTime (Aware now)) ns COMPUTED) = LIVE_ELIGIBLE"
    using assms(1) by (simp add: assess_live_trading_eligibility_def objs_def)
  from live_state_lines [OF this nm] obtain c h where ch: "(c, h) \<in> set objs" "g_name h = g_name g"
    and ok: "gr_passed (assess_gate now e (c, h))" by fastforce
  from ok ch nm have p: "passes now e h" and c: c by (auto simp: assess_gate_passed)
  from ch c have "h \<in> set ALL_GATES" using gate_objects_canonical by (auto simp: objs_def)
  with ch(2) g have "h = g" using canonical_gate_iff [of "g_name g"] by (metis option.inject)
  with p show ?thesis by simp
qed

lemma registry_lines:
  "er_results (assess_live_trading_eligibility now (Some (e, ns)) None) = map (\<lambda>g. check_gate g now e) ALL_GATES"
proof -
  have a: "assess_gate now e (True, g) = check_gate g now e" for g
    by (simp add: assess_gate_def Let_def)
  have "rebind_line (check_gate g now e) = check_gate g now e" if "g \<in> set ALL_GATES" for g
    using that by (intro rebind_check [of g]) simp_all
  then have b: "map rebind_line (map (\<lambda>g. check_gate g now e) ALL_GATES) = map (\<lambda>g. check_gate g now e) ALL_GATES"
    by simp
  have c: "filter (\<lambda>g. g_name g \<notin> set (map gr_name (map (\<lambda>g. check_gate g now e) ALL_GATES))) ALL_GATES = []"
    by (simp add: filter_empty_conv image_image)
  have "post_init (map (\<lambda>g. check_gate g now e) ALL_GATES) = map (\<lambda>g. check_gate g now e) ALL_GATES"
    unfolding post_init_def Let_def b c by simp
  then show ?thesis
    by (simp add: assess_live_trading_eligibility_def make_report_def gate_objects_registry a comp_def)
qed

lemma verdict_is_every_gate:
  "permits_live_trading (assess_live_trading_eligibility now (Some (e, ns)) None) \<longleftrightarrow> (\<forall>g \<in> set ALL_GATES. passes now e g)"
proof
  assume "permits_live_trading (assess_live_trading_eligibility now (Some (e, ns)) None)"
  then show "\<forall>g \<in> set ALL_GATES. passes now e g" using assessed_live by (auto simp: permits_live_trading_def)
next
  let ?r = "assess_live_trading_eligibility now (Some (e, ns)) None"
  assume ok: "\<forall>g \<in> set ALL_GATES. passes now e g"
  then have "failed_gates ?r = []" by (auto simp: failed_gates_def registry_lines filter_empty_conv check_gate_passed)
  moreover have "map gr_name (passed_gates ?r) = canonical_names"
    using ok by (simp add: passed_gates_def registry_lines filter_id_conv check_gate_passed canonical_names_def comp_def)
  moreover have "er_provenance ?r = COMPUTED" by (simp add: assess_live_trading_eligibility_def make_report_def)
  ultimately show "permits_live_trading ?r" by (simp add: permits_live_trading_def report_state_def)
qed

section \<open>Enforcement\<close>

definition age_limit :: "int option \<Rightarrow> int" where
  "age_limit max_age = (case max_age of Some a \<Rightarrow> if a = 0 then MAX_REPORT_AGE else a | None \<Rightarrow> MAX_REPORT_AGE)"

lemma missing_none: "missing_gates r = [] \<longleftrightarrow> (\<forall>n \<in> set canonical_names. \<exists>x \<in> set (passed_gates r). gr_name x = n)"
proof -
  have "missing_gates r = [] \<longleftrightarrow> set (missing_gates r) = {}" by simp
  also have "\<dots> \<longleftrightarrow> set canonical_names \<subseteq> gr_name ` set (passed_gates r)"
    by (auto simp: missing_gates_def)
  finally show ?thesis by auto
qed

lemma enforce_returns:
  "enforce_report now max_age r = Inr r' \<longleftrightarrow> r' = r \<and> er_provenance r = COMPUTED \<and>
     report_age now r \<le> age_limit max_age \<and> missing_gates r = []"
  by (auto simp: enforce_report_def age_limit_def Let_def)

lemma enforce_blocks: "enforce_report now max_age r = Inl x \<Longrightarrow> \<exists>m. x = LiveTradingBlocked m"
  by (auto simp: enforce_report_def live_blocked_def Let_def split: if_splits)

text \<open>The reports a caller can obtain: built by hand or read back without the private token, or
  computed by the assessor.\<close>

inductive obtainable :: "report \<Rightarrow> bool" where
  built: "obtainable (make_report False rs stamp ns p)"
| parsed: "report_from_dict shown fromiso d = Inr r \<Longrightarrow> obtainable r"
| computed: "obtainable (assess_live_trading_eligibility now supplied gates)"

inductive_cases obtainableE: "obtainable r"

lemma parsed_untrusted: "report_from_dict shown fromiso d = Inr r \<Longrightarrow> er_provenance r = UNTRUSTED"
  by (auto simp: report_from_dict_def make_report_def)

lemma obtainable_computed:
  assumes "obtainable r" and "er_provenance r = COMPUTED"
  shows "\<exists>t e ns gs. r = assess_live_trading_eligibility t (Some (e, ns)) gs"
  using assms
proof cases
  case (computed t supplied gs)
  have "assess_live_trading_eligibility t None gs =
      assess_live_trading_eligibility t (Some (no_evidence, [''No evidence was supplied to the assessor.''])) gs"
    by (simp add: assess_live_trading_eligibility_def)
  with computed show ?thesis by (cases supplied) (metis surj_pair)+
next
  case parsed
  then show ?thesis using assms(2) parsed_untrusted by force
qed (simp add: make_report_def)

text \<open>A passing line under a canonical name comes from the registry's own gate.\<close>

lemma assessed_pass:
  assumes "x \<in> set (passed_gates (assess_live_trading_eligibility t (Some (e, ns)) gs))"
    and "gr_name x = g_name g" and g: "g \<in> set ALL_GATES"
  shows "passes t e g"
proof -
  define objs where "objs = gate_objects (case gs of None \<Rightarrow> whole_registry | Some x \<Rightarrow> x)"
  have nm: "g_name g \<in> set canonical_names" using g by (simp add: canonical_names_def)
  have "er_results (assess_live_trading_eligibility t (Some (e, ns)) gs) = post_init (map (assess_gate t e) objs)"
    by (simp add: assess_live_trading_eligibility_def objs_def make_report_def)
  with assms(1) have "x \<in> set (post_init (map (assess_gate t e) objs))" and px: "gr_passed x"
    by (auto simp: passed_gates_def)
  then obtain c h where x: "x = rebind_line (assess_gate t e (c, h))" and ch: "(c, h) \<in> set objs"
    by (auto simp: set_post_init)
  from x assms(2) have nh: "g_name h = g_name g" by simp
  from x px nh nm have p: "passes t e h" and c: c by (auto simp: assess_gate_passed)
  from ch c have "h \<in> set ALL_GATES" using gate_objects_canonical by (auto simp: objs_def)
  with nh g have "h = g" using canonical_gate_iff [of "g_name g"] by (metis option.inject)
  with p show ?thesis by simp
qed

definition offers :: "(report \<Rightarrow> bool) \<Rightarrow> offered \<Rightarrow> bool" where
  "offers P offer = (case offer of Exact r \<Rightarrow> P r | _ \<Rightarrow> True)"

text \<open>The code refuses by raising \<open>LiveTradingBlocked\<close> only, and a risk-reducing action is never refused.\<close>

lemma refusal_is_live_trading_blocked:
  "(\<exists>r. require_live_eligible now gathered offer REDUCE_RISK max_age = Inr r) \<and>
   (case require_live_eligible now gathered offer intent max_age of Inl x \<Rightarrow> (\<exists>m. x = LiveTradingBlocked m) | Inr _ \<Rightarrow> True)"
  by (auto simp: require_live_eligible_def live_blocked_def split: offered.split order_intent.split sum.split
      dest: enforce_blocks)

section \<open>The verdict in terms of the evidence\<close>

definition ok :: "check res \<Rightarrow> bool" where
  "ok c \<longleftrightarrow> (\<exists>why. c = Inr (True, why))"

lemma passes_mk: "passes now e (mk_gate n c b r p) \<longleftrightarrow> ok (p now e)"
  by (simp add: passes_def mk_gate_def ok_def)

lemma ok_Inr: "ok (Inr c) \<longleftrightarrow> fst c"
  by (cases c) (simp add: ok_def)

lemma ok_Inl: "\<not> ok (Inl x)"
  by (simp add: ok_def)

lemma ok_if: "ok (if b then x else y) \<longleftrightarrow> (if b then ok x else ok y)"
  by simp

lemma ok_bind: "ok (res_bind r f) \<longleftrightarrow> (\<exists>x. r = Inr x \<and> ok (f x))"
  by (cases r) (simp_all add: ok_Inl)

text \<open>The finite number a value holds, if it holds one.\<close>

definition number :: "ev \<Rightarrow> pyfloat option" where
  "number v = (case v of EvFloat x \<Rightarrow> if isfinite x then Some x else None
     | EvInt n \<Rightarrow> (case int_to_float n of Inr x \<Rightarrow> Some x | Inl _ \<Rightarrow> None) | _ \<Rightarrow> None)"

lemma number_fin: "number v = Some x \<Longrightarrow> isfinite x"
  by (auto simp: number_def int_to_float_def split: ev.splits if_splits sum.splits)

lemma as_finite_iff: "as_finite v l = Inr (Inr x) \<longleftrightarrow> number v = Some x"
  by (cases v) (auto simp: as_finite_def number_def Let_def int_to_float_def dest: isfinite_not_NaN)

lemma as_finite_problem: "as_finite v l = Inr (Inl p) \<Longrightarrow> number v = None"
  using as_finite_iff [of v l] by (cases "number v") force+

definition measured :: "evidence \<Rightarrow> string \<Rightarrow> (pyfloat \<Rightarrow> bool) \<Rightarrow> bool" where
  "measured e f P \<longleftrightarrow> (\<exists>x. number (e f) = Some x \<and> P x)"

lemma ok_as_finite:
  "ok (res_bind (as_finite v l) (\<lambda>r. Inr (case r of Inl p \<Rightarrow> (False, p) | Inr x \<Rightarrow> f x))) \<longleftrightarrow>
   (\<exists>x. number v = Some x \<and> fst (f x))"
proof (cases "as_finite v l")
  case (Inr r)
  then show ?thesis
    by (cases r) (auto simp: ok_Inr as_finite_iff [symmetric, of v _ l] dest: as_finite_problem)
next
  case (Inl p)
  then have "number v = None" using as_finite_iff [of v l] by (cases "number v") force+
  then show ?thesis by (simp add: Inl ok_Inl)
qed

lemma ok_min: "ok (min_value v b l s) \<longleftrightarrow> (\<exists>x. number v = Some x \<and> (if s then b < x else b \<le> x))"
  unfolding min_value_def ok_as_finite by (simp add: verdict_def)

lemma ok_max: "ok (max_value v b l s) \<longleftrightarrow> (\<exists>x. number v = Some x \<and> (if s then x < b else x \<le> b))"
  unfolding max_value_def ok_as_finite by (simp add: verdict_def)

lemma flag_iff: "fst (flag v l) \<longleftrightarrow> v = EvBool True"
  by (cases v) (simp_all add: flag_def split: bool.split)

lemma not_flag_iff: "fst (not_flag v l) \<longleftrightarrow> v = EvBool False"
  by (cases v) (simp_all add: not_flag_def split: bool.split)

lemma list_eq_map_Inr: "list_all2 (\<lambda>c x. id c = Inr x) cs xs \<longleftrightarrow> cs = map Inr xs"
  by (induction cs arbitrary: xs) (auto simp: list_all2_Cons1)

lemma ok_all_of: "ok (all_of cs) \<longleftrightarrow> (\<forall>c \<in> set cs. ok c)"
proof -
  have "ok (all_of cs) \<longleftrightarrow> (\<exists>xs. res_map id cs = Inr xs \<and> (\<forall>x \<in> set xs. fst x))"
    by (auto simp: all_of_def ok_bind ok_Inr Let_def filter_empty_conv)
  also have "\<dots> \<longleftrightarrow> (\<exists>xs. cs = map Inr xs \<and> (\<forall>x \<in> set xs. fst x))"
    by (simp only: res_map_Inr list_eq_map_Inr)
  also have "\<dots> \<longleftrightarrow> (\<forall>c \<in> set cs. ok c)"
  proof
    assume "\<forall>c \<in> set cs. ok c"
    then show "\<exists>xs. cs = map Inr xs \<and> (\<forall>x \<in> set xs. fst x)"
    proof (induction cs)
      case (Cons c cs)
      then obtain xs x where "cs = map Inr xs" "\<forall>x \<in> set xs. fst x" "c = Inr x" "fst x" by (auto simp: ok_def)
      then have "c # cs = map Inr (x # xs)" "\<forall>x \<in> set (x # xs). fst x" by simp_all
      then show ?case by (intro exI [of _ "x # xs"] conjI)
    qed simp
  qed (force simp: ok_Inr)
  finally show ?thesis .
qed

lemma fresh_stamp_iff: "fst (fresh_stamp now v a l) \<longleftrightarrow>
    (\<exists>t. v = EvTime (Aware t) \<and> now - t \<le> a \<and> t - now \<le> CLOCK_SKEW_TOLERANCE)"
  by (auto simp: fresh_stamp_def Let_def split: ev.split datetime.split)

lemma fresh_date_iff: "fst (fresh_date now v a l) \<longleftrightarrow>
    (\<exists>d. v = EvDate d \<and> (today now - d) * micros_per_day \<le> a \<and> d \<le> today now + 1)"
  by (auto simp: fresh_date_def Let_def split: ev.split)

lemmas ok_rules = ok_Inr ok_if ok_min ok_max flag_iff not_flag_iff ok_all_of fresh_stamp_iff fresh_date_iff

section \<open>Each gate\<close>

definition domain_ok :: "evidence \<Rightarrow> string \<times> rat \<times> rat \<Rightarrow> bool" where
  "domain_ok e = (\<lambda>(f, lo, hi). e f = EvNone \<or> measured e f (\<lambda>x. Fin lo \<le> x \<and> x \<le> Fin hi))"

lemma numeric_problem_iff: "numeric_problem e d = Inr [] \<longleftrightarrow> domain_ok e d"
proof (cases d)
  case (fields f lo hi)
  show ?thesis
  proof (cases "e f = EvNone")
    case False
    show ?thesis
    proof (cases "as_finite (e f) f")
      case (Inr r)
      then show ?thesis using False fields
        by (cases r) (auto simp: numeric_problem_def domain_ok_def measured_def as_finite_iff [symmetric, of "e f" _ f]
            dest: as_finite_problem)
    next
      case (Inl p)
      then have "number (e f) = None" using as_finite_iff [of "e f" f] by (cases "number (e f)") force+
      then show ?thesis using False fields Inl by (simp add: numeric_problem_def domain_ok_def measured_def)
    qed
  qed (simp add: fields numeric_problem_def domain_ok_def)
qed

lemma bool_problem_iff: "bool_problem e f = [] \<longleftrightarrow> e f = EvNone \<or> (\<exists>b. e f = EvBool b)"
  by (auto simp: bool_problem_def split: ev.split)

lemma text_problem_iff: "text_problem e f = [] \<longleftrightarrow> e f = EvNone \<or> (\<exists>s. e f = EvStr s)"
  by (auto simp: text_problem_def split: ev.split)

lemma date_problem_iff: "date_problem now e f = [] \<longleftrightarrow>
    e f = EvNone \<or> (\<exists>d. e f = EvDate d \<and> MIN_PLAUSIBLE_DATA_DATE \<le> d \<and> d \<le> today now + 1)"
  by (auto simp: date_problem_def split: ev.split)

lemma datetime_problem_iff: "datetime_problem now e f = [] \<longleftrightarrow>
    e f = EvNone \<or> (\<exists>t. e f = EvTime (Aware t) \<and> t - now \<le> CLOCK_SKEW_TOLERANCE)"
  by (auto simp: datetime_problem_def split: ev.split datetime.split)

definition typed_evidence :: "int \<Rightarrow> evidence \<Rightarrow> bool" where
  "typed_evidence now e \<longleftrightarrow> (\<forall>d \<in> set numeric_domains. domain_ok e d) \<and>
     (\<forall>f \<in> set bool_fields. e f = EvNone \<or> (\<exists>b. e f = EvBool b)) \<and>
     (\<forall>f \<in> set text_fields. e f = EvNone \<or> (\<exists>s. e f = EvStr s)) \<and>
     (\<forall>f \<in> set date_fields. e f = EvNone \<or> (\<exists>d. e f = EvDate d \<and> MIN_PLAUSIBLE_DATA_DATE \<le> d \<and> d \<le> today now + 1)) \<and>
     (\<forall>f \<in> set datetime_fields. e f = EvNone \<or> (\<exists>t. e f = EvTime (Aware t) \<and> t - now \<le> CLOCK_SKEW_TOLERANCE)) \<and>
     (\<forall>s t. e ''price_history_start'' = EvDate s \<and> e ''price_history_end'' = EvDate t \<longrightarrow> s \<le> t)"

lemma ok_well_formed: "ok (evidence_well_formed now e) \<longleftrightarrow> (\<exists>f \<in> set evidence_fields. e f \<noteq> EvNone) \<and> typed_evidence now e"
proof (cases "list_all (\<lambda>n. e n = EvNone) evidence_fields")
  case True
  then have "\<not> (\<exists>f \<in> set evidence_fields. e f \<noteq> EvNone)" by (simp add: list_all_iff)
  moreover have "\<not> ok (evidence_well_formed now e)" by (simp add: evidence_well_formed_def True ok_Inr)
  ultimately show ?thesis by blast
next
  case False
  let ?s = "e ''price_history_start''" and ?t = "e ''price_history_end''"
  let ?rev = "if dated ?s \<and> dated ?t then date_less ?t ?s else Inr False"
  have cats: "concat (map f xs) = [] \<longleftrightarrow> (\<forall>x \<in> set xs. f x = [])" for f :: "string \<Rightarrow> string list" and xs
    by (simp add: concat_eq_Nil_conv)
  have rv: "?rev = Inr False \<longleftrightarrow> (\<forall>s t. ?s = EvDate s \<and> ?t = EvDate t \<longrightarrow> s \<le> t)"
    if "?s = EvNone \<or> (\<exists>d. ?s = EvDate d)" "?t = EvNone \<or> (\<exists>d. ?t = EvDate d)"
    using that by (auto simp: dated_def)
  have "ok (evidence_well_formed now e) \<longleftrightarrow> res_concat (numeric_problem e) numeric_domains = Inr [] \<and> ?rev = Inr False \<and>
      (\<forall>f \<in> set bool_fields. bool_problem e f = []) \<and> (\<forall>f \<in> set text_fields. text_problem e f = []) \<and>
      (\<forall>f \<in> set date_fields. date_problem now e f = []) \<and> (\<forall>f \<in> set datetime_fields. datetime_problem now e f = [])"
    unfolding evidence_well_formed_def Let_def if_not_P [OF False] ok_bind ok_if ok_Inr
    by (auto simp: cats simp del: concat_eq_Nil_conv)
  also have "\<dots> \<longleftrightarrow> typed_evidence now e"
    unfolding typed_evidence_def res_concat_Nil numeric_problem_iff bool_problem_iff text_problem_iff date_problem_iff
      datetime_problem_iff
    using rv by (auto simp: date_fields_def)
  finally show ?thesis using False by (auto simp: list_all_iff)
qed

text \<open>\<open>int_to_float\<close> of a number of days, and the ten years.\<close>

lemma ten_years: "Fin 10 \<le> fl (of_int d / (1461 / 4)) \<longleftrightarrow> 3653 \<le> d"
proof
  assume "3653 \<le> d"
  then have "fl (of_int 10) \<le> fl (of_int d / (1461 / 4))" by (intro fl_mono) simp
  then show "Fin 10 \<le> fl (of_int d / (1461 / 4))" using fl_of_int [of 10] by simp
next
  assume l: "Fin 10 \<le> fl (of_int d / (1461 / 4))"
  show "3653 \<le> d"
  proof (rule ccontr)
    assume "\<not> 3653 \<le> d"
    then have "fl (of_int d / (1461 / 4)) \<le> fl (of_int 3652 / (1461 / 4))"
      by (intro fl_mono divide_right_mono) simp_all
    with l have "Fin 10 \<le> fl (of_int 3652 / (1461 / 4))" using fle_trans by blast
    moreover have "\<not> Fin 10 \<le> fl (of_int 3652 / (1461 / 4))" by code_simp
    ultimately show False by blast
  qed
qed

lemma fdiv_days: "fdiv (Fin d) (Fin (1461 / 4)) = Inr (fl (d / (1461 / 4)))"
  by simp

lemma big_years: "\<bar>d\<bar> \<le> 2 ^ 53 \<Longrightarrow> isfinite (fl (of_int d / (1461 / 4)))"
proof -
  assume d: "\<bar>d\<bar> \<le> (2::int) ^ 53"
  have "of_int d \<le> (of_int (2 ^ 53) :: rat)" "of_int (- (2 ^ 53)) \<le> (of_int d :: rat)"
    using d by (simp_all only: of_int_le_iff abs_le_iff) linarith
  then have "of_int d / (1461 / 4) \<le> (of_int (2 ^ 53) :: rat)" "of_int (- (2 ^ 53)) \<le> (of_int d / (1461 / 4) :: rat)"
    by simp_all
  then have "fl (of_int d / (1461 / 4)) \<le> fl (of_int (2 ^ 53))" "fl (of_int (- (2 ^ 53))) \<le> fl (of_int d / (1461 / 4))"
    using fl_mono by blast+
  then show ?thesis using fl_of_int [of "2 ^ 53"] fl_of_int [of "- (2 ^ 53)"] fle_finite by simp
qed

lemma ok_price_history:
  assumes "e ''price_history_start'' = EvDate s" "e ''price_history_end'' = EvDate t" "\<bar>t - s\<bar> \<le> 2 ^ 53"
  shows "ok (price_history now e) \<longleftrightarrow> e ''price_history_is_real_market_data'' = EvBool True \<and>
    measured e ''price_history_symbols'' (\<lambda>x. Fin 50 \<le> x) \<and> 3653 \<le> t - s"
proof -
  define y where "y = fl (of_int (t - s) / (1461 / 4))"
  have fin: "number (EvFloat y) = Some y" using big_years [OF assms(3)] by (simp add: number_def y_def)
  have ten: "Fin 10 \<le> y \<longleftrightarrow> 3653 \<le> t - s" unfolding y_def by (rule ten_years)
  have span: "ok (res_bind r (\<lambda>c. all_of [A, B, Inr c])) \<longleftrightarrow> ok A \<and> ok B \<and> ok r" for r A B
    by (cases r) (auto simp: ok_all_of ok_Inr ok_Inl)
  have "price_history now e = res_bind (min_value (EvFloat y) MIN_PRICE_HISTORY_YEARS
      ''price history span (years)'' False) (\<lambda>c. all_of
        [Inr (flag (e ''price_history_is_real_market_data'') ''price history is real market data''),
         min_value (e ''price_history_symbols'') MIN_PRICE_HISTORY_SYMBOLS ''symbols with history'' False, Inr c])"
    using assms(1,2) int_to_float_small [OF assms(3)] by (simp add: price_history_def dated_def y_def)
  then show ?thesis
    by (auto simp: span ok_rules fin ten measured_def MIN_PRICE_HISTORY_YEARS_def MIN_PRICE_HISTORY_SYMBOLS_def)
qed

lemma ok_cases:
  assumes "\<And>p. \<not> ok (g p)"
  shows "ok (res_bind (as_finite v l) (\<lambda>r. case r of Inl p \<Rightarrow> g p | Inr x \<Rightarrow> f x)) \<longleftrightarrow> (\<exists>x. number v = Some x \<and> ok (f x))"
proof (cases "as_finite v l")
  case (Inr r)
  then show ?thesis
    using assms by (cases r) (auto simp: as_finite_iff [symmetric, of v _ l] dest: as_finite_problem)
next
  case (Inl p)
  then have "number v = None" using as_finite_iff [of v l] by (cases "number v") force+
  then show ?thesis by (simp add: Inl ok_Inl)
qed

lemma ok_then: "ok (res_bind r (\<lambda>c. if \<not> fst c then Inr c else k)) \<longleftrightarrow> ok r \<and> ok k"
  by (cases r) (auto simp: ok_Inr ok_Inl)

lemma ok_trial_count: "ok (trial_count now e) \<longleftrightarrow>
    measured e ''n_trials_recorded'' (\<lambda>x. Fin 1 \<le> x \<and> number (e ''n_trials_used_in_dsr'') = Some x)"
  unfolding trial_count_def ok_then by (subst ok_cases | simp add: ok_rules ok_Inl measured_def)+ auto

lemma ok_paper: "ok (paper_matches_backtest now e) \<longleftrightarrow> measured e ''paper_sharpe'' (\<lambda>p.
    measured e ''backtest_expected_sharpe'' (\<lambda>b. \<not> b \<le> Fin 0 \<and> Fin (1 / 2) * b \<le> p))"
  unfolding paper_matches_backtest_def
  by (subst ok_cases | simp add: ok_rules measured_def MIN_PAPER_TO_BACKTEST_SHARPE_RATIO_def)+ auto

lemma ok_human: "ok (human_enabled_live now e) \<longleftrightarrow> e ''trading_mode'' = EvStr ''live'' \<and>
    (\<exists>s. e ''live_enable_approved_by'' = EvStr s \<and> \<not> list_all blank_char s \<and> 2 \<le> length (stripped s)) \<and>
    (\<exists>d. e ''live_enable_approved_at'' = EvDate d)"
  unfolding human_enabled_live_def ok_Inr by (auto split: ev.split if_splits)

lemma ok_enforcement: "ok (enforcement_wired now e) \<longleftrightarrow> e ''eligibility_enforced_at_order_path'' = EvBool True"
  using flag_iff [of "e ''eligibility_enforced_at_order_path''" "''eligibility enforcement wired into the live order path''"]
  by (auto simp: enforcement_wired_def Let_def ok_Inr split: prod.split)

definition flags_on :: "evidence \<Rightarrow> string list \<Rightarrow> bool" where
  "flags_on e fs \<longleftrightarrow> (\<forall>f \<in> set fs. e f = EvBool True)"

definition stamped :: "evidence \<Rightarrow> string \<Rightarrow> int \<Rightarrow> int \<Rightarrow> bool" where
  "stamped e f now limit \<longleftrightarrow> (\<exists>t. e f = EvTime (Aware t) \<and> now - t \<le> limit \<and> t - now \<le> CLOCK_SKEW_TOLERANCE)"

definition data_demands :: "int \<Rightarrow> evidence \<Rightarrow> bool" where
  "data_demands now e \<longleftrightarrow> stamped e ''evidence_gathered_at'' now (hours 24) \<and>
     (\<exists>s t. e ''price_history_start'' = EvDate s \<and> e ''price_history_end'' = EvDate t \<and> 3653 \<le> t - s \<and> today now - t \<le> 7) \<and>
     measured e ''price_history_symbols'' (\<lambda>x. Fin 50 \<le> x) \<and> measured e ''intraday_history_days'' (\<lambda>x. Fin 504 \<le> x) \<and>
     flags_on e [''price_history_is_real_market_data'', ''market_data_feed_healthy'',
       ''point_in_time_index_constituents_available'', ''point_in_time_fundamentals_available'',
       ''data_quality_audit_passed'', ''real_ohlc_available'', ''corporate_actions_adjusted'']"

definition research_demands :: "evidence \<Rightarrow> bool" where
  "research_demands e \<longleftrightarrow> flags_on e [''purged_walk_forward_completed'', ''label_embargo_applied''] \<and>
     measured e ''deflated_sharpe_ratio'' (\<lambda>x. fl (95 / 100) < x) \<and>
     measured e ''probability_of_backtest_overfitting'' (\<lambda>x. x < Fin (1 / 2)) \<and>
     (\<exists>s. e ''benchmark_name'' = EvStr s \<and> \<not> list_all blank_char s) \<and>
     measured e ''net_annual_excess_return_vs_benchmark'' (\<lambda>x. Fin 0 < x) \<and>
     measured e ''n_trials_recorded'' (\<lambda>x. Fin 1 \<le> x \<and> number (e ''n_trials_used_in_dsr'') = Some x) \<and>
     measured e ''oos_sharpe'' (\<lambda>x. Fin (1 / 2) \<le> x) \<and> measured e ''max_drawdown'' (\<lambda>x. x \<le> fl (15 / 100)) \<and>
     measured e ''slippage_multiple_survived'' (\<lambda>x. Fin (3 / 2) \<le> x) \<and>
     measured e ''oos_sharpe_at_stressed_costs'' (\<lambda>x. Fin (1 / 2) \<le> x) \<and>
     measured e ''max_single_name_pnl_share'' (\<lambda>x. x \<le> Fin (1 / 4)) \<and> measured e ''max_sector_pnl_share'' (\<lambda>x. x \<le> fl (40 / 100)) \<and>
     measured e ''max_single_year_pnl_share'' (\<lambda>x. x \<le> Fin (1 / 2)) \<and> measured e ''top_5_trades_pnl_share'' (\<lambda>x. x \<le> Fin (1 / 2))"

definition execution_demands :: "int \<Rightarrow> evidence \<Rightarrow> bool" where
  "execution_demands now e \<longleftrightarrow> flags_on e [''broker_auth_verified'', ''broker_session_valid'', ''order_lifecycle_verified'',
       ''reconciliation_verified'', ''last_reconciliation_succeeded'', ''duplicate_order_protection_verified'',
       ''kill_switch_verified'', ''timezone_squareoff_verified'', ''eligibility_enforced_at_order_path''] \<and>
     stamped e ''broker_reachable_at'' now (minutes 15) \<and> e ''broker_api_degraded'' = EvBool False \<and>
     stamped e ''last_reconciliation_at'' now (hours 24) \<and> measured e ''open_reconciliation_breaks'' (\<lambda>x. x \<le> Fin 0)"

definition operational_demands :: "int \<Rightarrow> evidence \<Rightarrow> bool" where
  "operational_demands now e \<longleftrightarrow> e ''risk_limits_loaded'' = EvBool True \<and> e ''kill_switch_engaged'' = EvBool False \<and>
     measured e ''active_risk_limit_breaches'' (\<lambda>x. x \<le> Fin 0) \<and> measured e ''current_drawdown'' (\<lambda>x. x \<le> fl (15 / 100)) \<and>
     measured e ''paper_trading_days'' (\<lambda>x. Fin 90 \<le> x) \<and>
     measured e ''paper_sharpe'' (\<lambda>p. measured e ''backtest_expected_sharpe'' (\<lambda>b. \<not> b \<le> Fin 0 \<and> Fin (1 / 2) * b \<le> p)) \<and>
     e ''trading_mode'' = EvStr ''live'' \<and>
     (\<exists>s. e ''live_enable_approved_by'' = EvStr s \<and> \<not> list_all blank_char s \<and> 2 \<le> length (stripped s)) \<and>
     (\<exists>d. e ''live_enable_approved_at'' = EvDate d \<and> today now - d \<le> 90 \<and> d \<le> today now + 1)"

lemma is_blank_iff: "\<not> is_blank v \<longleftrightarrow> (\<exists>s. v = EvStr s \<and> \<not> list_all blank_char s)"
  by (simp add: is_blank_def split: ev.split)

lemma day_limit: "(today now - d) * micros_per_day \<le> days k \<longleftrightarrow> today now - d \<le> k"
  by (simp only: days_def mult_le_cancel_right) (simp add: micros_per_day_def)

lemma ok_beats: "ok (beats_benchmark now e) \<longleftrightarrow> (\<exists>s. e ''benchmark_name'' = EvStr s \<and> \<not> list_all blank_char s) \<and>
    measured e ''net_annual_excess_return_vs_benchmark'' (\<lambda>x. Fin 0 < x)"
  unfolding is_blank_iff [symmetric] by (simp add: beats_benchmark_def ok_rules measured_def)

lemmas thresholds = MIN_INTRADAY_HISTORY_DAYS_def MIN_DEFLATED_SHARPE_def MAX_PBO_def MIN_OOS_SHARPE_def MAX_DRAWDOWN_def
  MIN_SLIPPAGE_STRESS_MULTIPLE_def MAX_SINGLE_NAME_PNL_SHARE_def MAX_SECTOR_PNL_SHARE_def MAX_SINGLE_YEAR_PNL_SHARE_def
  MAX_TOP5_TRADES_PNL_SHARE_def MIN_PAPER_TRADING_DAYS_def MAX_EVIDENCE_AGE_def MAX_PRICE_DATA_STALENESS_def
  MAX_BROKER_HEARTBEAT_AGE_def MAX_RECONCILIATION_AGE_def MAX_APPROVAL_AGE_def

lemmas demands = flags_on_def stamped_def measured_def thresholds day_limit

lemma statistical_gates_pass: "(\<forall>g \<in> set (statistical_gates @ performance_gates). passes now e g) \<longleftrightarrow> research_demands e"
  unfolding statistical_gates_def performance_gates_def research_demands_def
  by (simp add: passes_mk flag_gate_def min_gate_def max_gate_def ok_rules ok_trial_count purged_walk_forward_def
      ok_beats cost_stress_def concentration_def demands)

lemma execution_gates_pass: "(\<forall>g \<in> set execution_gates. passes now e g) \<longleftrightarrow> execution_demands now e"
  unfolding execution_gates_def execution_demands_def
  by (simp add: passes_mk flag_gate_def ok_rules broker_connectivity_def reconciliation_current_def ok_enforcement demands) blast

lemma operational_gates_pass: "(\<forall>g \<in> set operational_gates. passes now e g) \<longleftrightarrow> operational_demands now e"
  unfolding operational_gates_def operational_demands_def
  by (simp add: passes_mk min_gate_def ok_rules risk_limits_ok_def ok_paper ok_human approval_is_current_def demands) blast

text \<open>The clock of a \<open>datetime\<close>: before the year 10000.\<close>

definition clock :: "int \<Rightarrow> bool" where
  "clock now \<longleftrightarrow> 0 \<le> now \<and> now < days 2932897"

lemma data_gates_pass:
  assumes "clock now"
  shows "(\<forall>g \<in> set data_gates. passes now e g) \<longleftrightarrow> data_demands now e \<and> typed_evidence now e"
proof (cases "(\<exists>s t. e ''price_history_start'' = EvDate s \<and> e ''price_history_end'' = EvDate t) \<and> typed_evidence now e \<and>
    e ''evidence_gathered_at'' \<noteq> EvNone")
  case True
  then obtain s t where st: "e ''price_history_start'' = EvDate s" "e ''price_history_end'' = EvDate t" by blast
  have bnd: "MIN_PLAUSIBLE_DATA_DATE \<le> s" "s \<le> t" "t \<le> today now + 1"
    using True st by (auto simp: typed_evidence_def date_fields_def)
  have "MIN_PLAUSIBLE_DATA_DATE = 7305" by code_simp
  moreover have "today now \<le> 2932896" using assms zdiv_mono1 [of now "days 2932897 - 1" micros_per_day]
    by (simp add: clock_def today_def days_def micros_per_day_def)
  ultimately have "\<bar>t - s\<bar> \<le> 2 ^ 53" using bnd by simp
  note ph = ok_price_history [OF st this]
  have ne: "\<exists>f \<in> set evidence_fields. e f \<noteq> EvNone" using True by (auto simp: evidence_fields_def datetime_fields_def)
  show ?thesis
    using True st bnd ne unfolding data_gates_def data_demands_def
    by (simp add: passes_mk flag_gate_def min_gate_def ok_rules ph ok_well_formed evidence_freshness_def
        market_data_current_def data_quality_def demands) blast
next
  case False
  have a: "\<not> (data_demands now e \<and> typed_evidence now e)" using False by (auto simp: data_demands_def stamped_def)
  have "\<not> (ok (evidence_freshness now e) \<and> ok (evidence_well_formed now e) \<and> ok (price_history now e))"
  proof
    assume p: "ok (evidence_freshness now e) \<and> ok (evidence_well_formed now e) \<and> ok (price_history now e)"
    then have "e ''evidence_gathered_at'' \<noteq> EvNone" "typed_evidence now e"
      by (auto simp: evidence_freshness_def ok_rules ok_well_formed)
    moreover have "e ''price_history_start'' \<noteq> EvNone \<and> e ''price_history_end'' \<noteq> EvNone"
      using p by (auto simp: price_history_def ok_rules)
    ultimately show False using False by (auto simp: typed_evidence_def date_fields_def)
  qed
  then show ?thesis using a by (auto simp: data_gates_def passes_mk)
qed

end
