(* ===== verification/Eligibility_Claims.thy ===== *)
theory Eligibility_Claims
  imports Eligibility_Proofs Order_Paths
begin

text \<open>
  What the live eligibility gate promises: the verdict is LIVE_ELIGIBLE exactly on evidence that
  meets every demand, a permission is a fresh assessment of such evidence, a stored or forged
  report permits nothing, and the repository as it stands sends no order to a live broker.
\<close>

section \<open>An evidence that passes\<close>

definition good_evidence :: evidence where
  "good_evidence n =
     (if n \<in> set [''broker_api_degraded'', ''kill_switch_engaged''] then EvBool False
      else if n \<in> set bool_fields then EvBool True
      else if n = ''price_history_start'' then EvDate (date_day 2005 1 3)
      else if n = ''price_history_end'' then EvDate (date_day 2025 10 20)
      else if n = ''live_enable_approved_at'' then EvDate (date_day 2025 10 1)
      else if n \<in> set datetime_fields then EvTime (Aware (days (date_day 2025 10 21)))
      else if n = ''benchmark_name'' then EvStr ''NIFTY 50''
      else if n = ''trading_mode'' then EvStr ''live''
      else if n = ''live_enable_approved_by'' then EvStr ''Asha''
      else if n \<in> set [''open_reconciliation_breaks'', ''active_risk_limit_breaches''] then EvInt 0
      else if n \<in> set [''price_history_symbols'', ''intraday_history_days'', ''paper_trading_days'',
                       ''n_trials_recorded'', ''n_trials_used_in_dsr''] then EvInt 600
      else if n \<in> set [''deflated_sharpe_ratio'', ''oos_sharpe'', ''slippage_multiple_survived'', ''paper_sharpe'',
                       ''oos_sharpe_at_stressed_costs'', ''backtest_expected_sharpe''] then EvFloat (Fin 2)
      else EvFloat (Fin (1 / 8)))"

definition good_now :: int where "good_now = days (date_day 2025 10 21)"

lemma good_passes: "\<forall>g \<in> set ALL_GATES. passes good_now good_evidence g"
proof -
  have "list_all (\<lambda>g. gr_passed (check_gate g good_now good_evidence)) ALL_GATES" by code_simp
  then show ?thesis by (simp add: list_all_iff check_gate_passed)
qed

text \<open>C8. The assessment permits live trading exactly when the evidence is well-typed, lies in its domains and
  meets every demand on data, research, execution and operation; all thirty-one gates are demanded.\<close>

theorem live_means_measured:
  assumes "clock now"
  shows "permits_live_trading (assess_live_trading_eligibility now (Some (e, ns)) None) \<longleftrightarrow>
    data_demands now e \<and> research_demands e \<and> execution_demands now e \<and> operational_demands now e \<and> typed_evidence now e"
proof -
  have "(\<forall>g \<in> set ALL_GATES. passes now e g) \<longleftrightarrow> (\<forall>g \<in> set data_gates. passes now e g) \<and>
      (\<forall>g \<in> set (statistical_gates @ performance_gates). passes now e g) \<and>
      (\<forall>g \<in> set execution_gates. passes now e g) \<and> (\<forall>g \<in> set operational_gates. passes now e g)"
    by (auto simp: ALL_GATES_def)
  then show ?thesis
    using verdict_is_every_gate data_gates_pass [OF assms] statistical_gates_pass execution_gates_pass operational_gates_pass
    by blast
qed

theorem live_means_measured_witness:
  "permits_live_trading (assess_live_trading_eligibility good_now (Some (good_evidence, [])) None) \<and>
   operational_demands good_now good_evidence"
proof -
  have "clock good_now" by code_simp
  then show ?thesis
    using live_means_measured [of good_now good_evidence "[]"] good_passes verdict_is_every_gate by blast
qed

text \<open>C9. \<open>require_live_eligible\<close> lets a risk-increasing action through only with the result of an assessment,
  no older than the limit, of evidence on which every predicate of the registry passes.\<close>

theorem permission_is_earned:
  assumes "require_live_eligible now gathered offer INCREASE_RISK max_age = Inr r" and "offers obtainable offer"
  shows "\<exists>t e ns gs. r = assess_live_trading_eligibility t (Some (e, ns)) gs \<and>
    now - t \<le> age_limit max_age \<and> (\<forall>g \<in> set ALL_GATES. passes t e g)"
proof -
  have "obtainable r \<and> enforce_report now max_age r = Inr r"
    using assms by (auto simp: require_live_eligible_def offers_def enforce_returns intro: computed
        split: offered.splits sum.splits)
  then have r: "obtainable r" "er_provenance r = COMPUTED" "report_age now r \<le> age_limit max_age" "missing_gates r = []"
    by (auto simp: enforce_returns)
  then obtain t e ns gs where a: "r = assess_live_trading_eligibility t (Some (e, ns)) gs"
    using obtainable_computed by blast
  have "passes t e g" if "g \<in> set ALL_GATES" for g
    using that r(4) assessed_pass [of _ t e ns gs g] by (auto simp: missing_none canonical_names_def a)
  moreover have "now - t \<le> age_limit max_age"
    using r(3) by (simp add: a report_age_def assess_live_trading_eligibility_def make_report_def)
  ultimately show ?thesis using a by blast
qed

lemma good_permitted: "require_live_eligible good_now (Inr (good_evidence, [])) NoReport INCREASE_RISK None =
    Inr (assess_live_trading_eligibility good_now (Some (good_evidence, [])) None)"
proof -
  let ?r = "assess_live_trading_eligibility good_now (Some (good_evidence, [])) None"
  have "missing_gates ?r = []"
    using good_passes by (auto simp: missing_none passed_gates_def registry_lines canonical_names_def check_gate_passed)
  moreover have "er_provenance ?r = COMPUTED" "report_age good_now ?r \<le> age_limit None"
    by (simp_all add: assess_live_trading_eligibility_def make_report_def report_age_def age_limit_def MAX_REPORT_AGE_def
        minutes_def)
  ultimately show ?thesis by (simp add: require_live_eligible_def enforce_returns)
qed

theorem permission_is_earned_witness:
  "\<exists>t e ns gs. assess_live_trading_eligibility good_now (Some (good_evidence, [])) None =
      assess_live_trading_eligibility t (Some (e, ns)) gs \<and>
    good_now - t \<le> age_limit None \<and> (\<forall>g \<in> set ALL_GATES. passes t e g)"
  by (rule permission_is_earned [of good_now "Inr (good_evidence, [])" NoReport None])
    (simp_all add: good_permitted offers_def)

section \<open>Nothing known\<close>

lemma number_None [simp]: "number EvNone = None"
  by (simp add: number_def)

lemma nothing_passes: "g \<in> set ALL_GATES \<Longrightarrow> \<not> passes now no_evidence g"
proof -
  have wf: "\<not> ok (evidence_well_formed now no_evidence)" "\<not> ok (price_history now no_evidence)"
    by (simp_all add: ok_well_formed price_history_def no_evidence_def ok_rules Let_def)
  have trial: "\<not> ok (trial_count now no_evidence)" "\<not> ok (paper_matches_backtest now no_evidence)"
     "\<not> ok (human_enabled_live now no_evidence)" "\<not> ok (enforcement_wired now no_evidence)" "\<not> ok (beats_benchmark now no_evidence)"
    by (simp_all add: ok_trial_count ok_paper ok_human ok_enforcement ok_beats measured_def no_evidence_def)
  note s = passes_mk ok_rules flag_gate_def min_gate_def max_gate_def no_evidence_def
  have "\<forall>g \<in> set data_gates. \<not> passes now no_evidence g" "\<forall>g \<in> set statistical_gates. \<not> passes now no_evidence g"
    "\<forall>g \<in> set performance_gates. \<not> passes now no_evidence g" "\<forall>g \<in> set execution_gates. \<not> passes now no_evidence g"
    "\<forall>g \<in> set operational_gates. \<not> passes now no_evidence g"
    using wf trial unfolding data_gates_def statistical_gates_def performance_gates_def execution_gates_def operational_gates_def
    by (simp_all add: s evidence_freshness_def market_data_current_def data_quality_def purged_walk_forward_def
        cost_stress_def concentration_def broker_connectivity_def reconciliation_current_def risk_limits_ok_def
        approval_is_current_def)
  then show "g \<in> set ALL_GATES \<Longrightarrow> ?thesis" by (auto simp: ALL_GATES_def)
qed

lemma severity_zero: "severity s = 0 \<longleftrightarrow> s = BLOCKED_INSUFFICIENT_DATA"
  by (cases s) simp_all

text \<open>Without evidence every gate fails, at any time.\<close>

theorem silence_fails_every_gate:
  "(\<forall>x \<in> set (er_results (assess_live_trading_eligibility now None None)). \<not> gr_passed x) \<and>
   report_state (assess_live_trading_eligibility now None None) = BLOCKED_INSUFFICIENT_DATA"
proof -
  let ?ns = "[''No evidence was supplied to the assessor.'']"
  let ?r = "assess_live_trading_eligibility now (Some (no_evidence, ?ns)) None"
  have e: "assess_live_trading_eligibility now None None = ?r" by (simp add: assess_live_trading_eligibility_def)
  have f: "\<forall>x \<in> set (er_results ?r). \<not> gr_passed x"
    using nothing_passes by (auto simp: registry_lines check_gate_passed)
  define g where "g = mk_gate ''evidence_freshness'' DATA BLOCKED_INSUFFICIENT_DATA
       ''The Evidence record states when it was gathered, and that is within 24h and not in the future.''
       evidence_freshness"
  have "g \<in> set ALL_GATES" by (simp add: ALL_GATES_def data_gates_def g_def)
  then have "check_gate g now no_evidence \<in> set (er_results ?r)" by (simp add: registry_lines)
  with f have "severity (report_state ?r) \<le> severity (g_blocking g)" using state_least by fastforce
  then have "severity (report_state ?r) = 0" by (simp add: g_def mk_gate_def)
  with f show ?thesis unfolding e by (simp add: severity_zero)
qed

section \<open>Forged and stored reports\<close>

text \<open>However a report is built, a failing or missing line of a canonical gate makes the state at least as
  severe as the registry says.\<close>

theorem forged_line_cannot_soften:
  assumes "g \<in> set ALL_GATES"
    and "(\<exists>x \<in> set rs. gr_name x = g_name g \<and> \<not> gr_passed x) \<or> (\<forall>x \<in> set rs. gr_name x \<noteq> g_name g)"
  shows "severity (report_state (make_report t rs stamp ns p)) \<le> severity (g_blocking g)"
proof -
  have er: "er_results (make_report t rs stamp ns p) = post_init rs" by (simp add: make_report_def)
  from assms(2) have "\<exists>y \<in> set (post_init rs). \<not> gr_passed y \<and> gr_blocking y = g_blocking g"
  proof
    assume "\<exists>x \<in> set rs. gr_name x = g_name g \<and> \<not> gr_passed x"
    then obtain x where x: "x \<in> set rs" "gr_name x = g_name g" "\<not> gr_passed x" by blast
    have "canonical_gate (gr_name x) = Some g" using x assms(1) by (simp add: canonical_gate_iff)
    then have "gr_blocking (rebind_line x) = g_blocking g" by (rule rebind_blocking)
    moreover have "rebind_line x \<in> set (post_init rs)" using x by (simp add: set_post_init)
    ultimately show ?thesis using x by (intro bexI [of _ "rebind_line x"]) simp_all
  next
    assume "\<forall>x \<in> set rs. gr_name x \<noteq> g_name g"
    then have "unevaluated g \<in> set (post_init rs)" using assms(1) unfolding set_post_init
      by (intro UnI2 imageI) auto
    then show ?thesis by (intro bexI [of _ "unevaluated g"]) simp_all
  qed
  then obtain y where y: "y \<in> set (post_init rs)" "\<not> gr_passed y" "gr_blocking y = g_blocking g" by blast
  show ?thesis using state_least [of y "make_report t rs stamp ns p"] y by (simp add: er)
qed

theorem forged_line_cannot_soften_witness:
  "severity (report_state (make_report False
     [\<lparr>gr_name = ''evidence_freshness'', gr_category = OPERATIONAL, gr_blocking = LIVE_ELIGIBLE, gr_requirement = [],
       gr_passed = False, gr_reason = []\<rparr>] EvNone [] COMPUTED)) \<le> 0"
  using forged_line_cannot_soften [of "mk_gate ''evidence_freshness'' DATA BLOCKED_INSUFFICIENT_DATA
       ''The Evidence record states when it was gathered, and that is within 24h and not in the future.''
       evidence_freshness" "[\<lparr>gr_name = ''evidence_freshness'', gr_category = OPERATIONAL, gr_blocking = LIVE_ELIGIBLE,
       gr_requirement = [], gr_passed = False, gr_reason = []\<rparr>]" False EvNone "[]" COMPUTED]
  by (simp add: ALL_GATES_def data_gates_def mk_gate_def)

lemma post_init_idem: "post_init (post_init rs) = post_init rs"
proof -
  have r: "rebind_line (rebind_line x) = rebind_line x" for x
    by (simp add: rebind_line_def split: option.split)
  have u: "rebind_line (unevaluated g) = unevaluated g" if "g \<in> set ALL_GATES" for g
    using that by (intro rebind_check [of g]) (simp_all add: unevaluated_def)
  have "map rebind_line (post_init rs) = post_init rs"
    by (auto simp: post_init_def Let_def r u)
  moreover have "filter (\<lambda>g. g_name g \<notin> set (map gr_name (post_init rs))) ALL_GATES = []"
    using post_init_names [of rs] by (auto simp: filter_empty_conv canonical_names_def)
  ultimately show ?thesis by (simp add: post_init_def [of "post_init rs"] Let_def)
qed

lemma category_roundtrip: "category_of (JStr (category_text c)) = Inr c"
  by (cases c) (simp_all add: category_of_def all_categories_def)

lemma state_roundtrip: "state_of (JStr (state_text s)) = Inr s"
  by (cases s) (simp_all add: state_of_def all_eligibility_states_def)

lemma result_roundtrip: "result_from_dict shown (result_to_dict x) = Inr x"
  by (simp add: result_from_dict_def result_to_dict_def json_item_def category_roundtrip state_roundtrip json_str_def)

lemma results_roundtrip: "res_map (result_from_dict shown) (map result_to_dict xs) = Inr xs"
  by (induction xs) (simp_all add: result_roundtrip)

text \<open>Reading a report back keeps its lines, time, notes and state, and permits nothing.\<close>

theorem stored_report_informs_only:
  assumes "r = make_report t rs stamp ns p" and "isoformat stamp = Inr s" and "fromiso (JStr s) = Inr stamp"
  shows "\<exists>d r'. report_to_dict isoformat r = Inr d \<and> report_from_dict shown fromiso d = Inr r' \<and>
    er_results r' = er_results r \<and> er_at r' = er_at r \<and> er_notes r' = er_notes r \<and> report_state r' = report_state r \<and>
    (\<forall>now ev max_age. \<exists>m. require_live_eligible now ev (Exact r') INCREASE_RISK max_age = Inl (LiveTradingBlocked m))"
proof -
  let ?r' = "r\<lparr>er_provenance := UNTRUSTED\<rparr>"
  have r: "er_results r = post_init rs" "er_at r = stamp" "er_notes r = ns" by (simp_all add: assms(1) make_report_def)
  have nts: "map (json_str shown) (map JStr ns) = ns" by (simp add: json_str_def comp_def)
  obtain d where d: "report_to_dict isoformat r = Inr d" using assms(2) r by (simp add: report_to_dict_def Let_def)
  then have d': "json_item d ''results'' = Inr (JList (map result_to_dict (er_results r)))"
    "json_item d ''evaluated_at'' = Inr (JStr s)" "json_item d ''evidence_notes'' = Inr (JList (map JStr ns))"
    using assms(2) r by (auto simp: report_to_dict_def json_item_def Let_def)
  have "report_from_dict shown fromiso d = Inr (make_report False (er_results r) stamp ns UNTRUSTED)"
    unfolding report_from_dict_def d' using assms(3) nts by (simp add: json_iter_def results_roundtrip del: list.map_comp map_map)
  also have "make_report False (er_results r) stamp ns UNTRUSTED = ?r'"
    by (simp add: make_report_def post_init_idem r assms(1))
  finally have f: "report_from_dict shown fromiso d = Inr ?r'" .
  have "\<exists>m. require_live_eligible now ev (Exact ?r') INCREASE_RISK max_age = Inl (LiveTradingBlocked m)" for now ev max_age
    by (simp add: require_live_eligible_def enforce_report_def live_blocked_def)
  moreover have "report_state ?r' = report_state r"
    by (simp add: report_state_def failed_gates_def passed_gates_def)
  ultimately show ?thesis using d f by (intro exI [of _ d] exI [of _ ?r']) auto
qed

theorem stored_report_informs_only_witness:
  "\<exists>d r'. report_to_dict (\<lambda>_. Inr ''2025-10-21T00:00:00+00:00'')
       (make_report True [] (EvTime (Aware good_now)) [''note''] COMPUTED) = Inr d \<and>
     report_from_dict (\<lambda>_. []) (\<lambda>_. Inr (EvTime (Aware good_now))) d = Inr r' \<and> er_notes r' = [''note'']"
  using stored_report_informs_only [of "make_report True [] (EvTime (Aware good_now)) [''note''] COMPUTED" True "[]"
      "EvTime (Aware good_now)" "[''note'']" COMPUTED "\<lambda>_. Inr ''2025-10-21T00:00:00+00:00''" "''2025-10-21T00:00:00+00:00''"
      "\<lambda>_. Inr (EvTime (Aware good_now))" "\<lambda>_. []"]
  by (auto simp: make_report_def)

section \<open>The repository\<close>

definition constituents_gate :: gate where
  "constituents_gate = mk_gate ''point_in_time_index_constituents'' DATA BLOCKED_INSUFFICIENT_DATA
     ''Point-in-time index membership.''
     (flag_gate ''point_in_time_index_constituents_available'' ''point-in-time index constituents'')"

lemma constituents_registered: "constituents_gate \<in> set ALL_GATES"
  by (simp add: ALL_GATES_def data_gates_def constituents_gate_def)

lemma repo_blocked: "\<exists>m. require_live_eligible now (Inr (gather_repo_evidence shown now rp)) NoReport INCREASE_RISK max_age =
    Inl (LiveTradingBlocked m)"
proof (cases "require_live_eligible now (Inr (gather_repo_evidence shown now rp)) NoReport INCREASE_RISK max_age")
  case (Inl x)
  then show ?thesis using refusal_is_live_trading_blocked
      [of now "Inr (gather_repo_evidence shown now rp)" NoReport max_age INCREASE_RISK] by auto
next
  case (Inr r)
  obtain e ns where g: "gather_repo_evidence shown now rp = (e, ns)" by fastforce
  then have e: "e ''point_in_time_index_constituents_available'' = EvBool False"
    by (auto simp: gather_repo_evidence_def Let_def)
  from Inr have "missing_gates (assess_live_trading_eligibility now (Some (e, ns)) None) = []"
    by (auto simp: require_live_eligible_def enforce_returns g)
  then have "passes now e constituents_gate"
    using constituents_registered assessed_pass unfolding missing_none canonical_names_def by fastforce
  then show ?thesis by (simp add: constituents_gate_def passes_mk ok_rules flag_gate_def e)
qed

text \<open>The eligibility check of the order manager: \<open>require_live_eligible(action=...)\<close>.\<close>

definition eligibility_check :: "(json \<Rightarrow> string) \<Rightarrow> int \<Rightarrow> repo \<Rightarrow> unit res" where
  "eligibility_check shown now rp =
     res_bind (require_live_eligible now (Inr (gather_repo_evidence shown now rp)) NoReport INCREASE_RISK None) (\<lambda>_. Inr ())"

text \<open>C10. With the evidence this repository can gather, the order manager sends no order to a live broker:
  whatever the files say, \<open>submit_order\<close> raises \<open>LiveTradingBlocked\<close> and changes nothing.\<close>

theorem no_live_order_is_sent:
  assumes "\<forall>b. om_eligible om b = eligibility_check shown now rp" and "\<not> is_paper_broker (om_broker om) (w_env w)"
  shows "\<exists>m. submit_order om sg n a w = (Inl (LiveTradingBlocked m), w)"
proof -
  obtain m where "require_eligible_for_live om (w_env w) = Inl (LiveTradingBlocked m)"
    using repo_blocked [of now shown rp None] assms by (auto simp: require_eligible_for_live_def eligibility_check_def)
  then show ?thesis by (simp add: submit_order_def ef_seq_def ef_bind_def env_read_def)
qed

text \<open>A repository that would satisfy every other reading: a cached history, the live mode, a wired order path.\<close>

definition demo_repo :: repo where
  "demo_repo = \<lparr>rp_cache = Inr [''INFY__2010-01-04__2025-10-20.parquet''], rp_mode = Inr ''live'', rp_mock = Inr False,
     rp_study = Inr None, rp_order_path = Inr ''from app.governance.eligibility import require_live_eligible''\<rparr>"

definition live_manager :: "unit manager" where
  "live_manager = demo_manager\<lparr>om_broker := (om_broker demo_manager)\<lparr>br_paper_class := False, br_trading_mode := (\<lambda>_. Inr ''live'')\<rparr>,
     om_eligible := (\<lambda>_. eligibility_check (\<lambda>_. []) good_now demo_repo)\<rparr>"

theorem no_live_order_is_sent_witness:
  "\<exists>m. submit_order live_manager demo_signal 10 demo_args (demo_world ACKNOWLEDGED) =
     (Inl (LiveTradingBlocked m), demo_world ACKNOWLEDGED)"
proof (rule no_live_order_is_sent)
  show "\<forall>b. om_eligible live_manager b = eligibility_check (\<lambda>_. []) good_now demo_repo"
    by (simp add: live_manager_def)
  have "py_lower ''live'' \<noteq> ''paper''" by code_simp
  then show "\<not> is_paper_broker (om_broker live_manager) (w_env (demo_world ACKNOWLEDGED))"
    by (simp add: is_paper_broker_def live_manager_def)
qed

text \<open>A study without provenance sets no field.\<close>

definition unprovenanced :: "(json \<Rightarrow> string) \<Rightarrow> json \<Rightarrow> bool" where
  "unprovenanced shown study =
     (case json_get study ''provenance'' of Inl _ \<Rightarrow> False
      | Inr p \<Rightarrow> (case (json_get (or_empty p) ''experiment_id'', json_get (or_empty p) ''universe_fingerprint'') of
           (Inr x, Inr u) \<Rightarrow> \<not> json_truthy x \<or> json_str shown (if json_truthy u then u else JStr ''none'') = ''none''
         | _ \<Rightarrow> False))"

lemma attempt_returns:
  assumes "\<And>x s. \<exists>s'. h x s = (Inr (), s')"
  shows "\<exists>s'. attempt b h s = (Inr (), s')"
  using assms by (auto simp: attempt_def ef_defs split: prod.split sum.split)

lemma remark_returns: "\<exists>s'. remark t s = (Inr (), s')"
  by (simp add: remark_def ef_modify_def)

lemma inspections_return:
  "\<exists>s'. inspect_cache rp s = (Inr (), s')" "\<exists>s'. inspect_mode rp s = (Inr (), s')"
  "\<exists>s'. inspect_fundamentals rp s = (Inr (), s')"
  unfolding inspect_cache_def inspect_mode_def inspect_fundamentals_def
  by (intro attempt_returns remark_returns)+

lemma unprovenanced_is_stale:
  assumes "unprovenanced shown study"
  shows "\<exists>s'. read_study shown study s = (Inl stale_study, s')"
proof -
  obtain p where p: "json_get study ''provenance'' = Inr p"
    using assms by (auto simp: unprovenanced_def split: sum.splits)
  obtain x u where xu: "json_get (or_empty p) ''experiment_id'' = Inr x" "json_get (or_empty p) ''universe_fingerprint'' = Inr u"
    and bad: "\<not> json_truthy x \<or> json_str shown (if json_truthy u then u else JStr ''none'') = ''none''"
    using assms by (auto simp: unprovenanced_def p split: sum.splits)
  obtain v where v: "json_get study ''verdict'' = Inr v" using p by (cases study) (simp_all add: json_get_def)
  show ?thesis using bad
    by (simp add: read_study_def v p xu ef_bind_def ef_seq_def ef_lift_def ef_modify_def remark_def ef_raise_def Let_def)
qed

theorem unprovenanced_study_sets_nothing:
  assumes "rp_study rp = Inr (Some study)" and "unprovenanced shown study" and "f \<in> set (''benchmark_name'' # study_fields)"
  shows "fst (gather_repo_evidence shown now rp) f = EvNone"
proof -
  define s0 where "s0 = \<lparr>fi_fields = no_evidence, fi_notes = [], fi_verdict = None\<rparr>"
  obtain s1 where s1: "inspect_cache rp s0 = (Inr (), s1)" using inspections_return by blast
  obtain s2 where s2: "inspect_mode rp s1 = (Inr (), s2)" using inspections_return by blast
  obtain s3 where s3: "inspect_fundamentals rp s2 = (Inr (), s3)" using inspections_return by blast
  obtain s4 where "read_study shown study s3 = (Inl stale_study, s4)" using unprovenanced_is_stale [OF assms(2)] by blast
  then have s5: "inspect_study shown rp s3 = (Inr (), s4\<lparr>fi_fields := (\<lambda>n. if n \<in> set study_fields then EvNone else fi_fields s4 n),
      fi_verdict := None\<rparr>)"
    using assms(1) by (simp add: inspect_study_def attempt_def ef_defs)
  have "fi_verdict (snd (inspect_repo shown rp s0)) = None \<and>
      (\<forall>n \<in> set study_fields. fi_fields (snd (inspect_repo shown rp s0)) n = EvNone)"
    by (auto simp: inspect_repo_def ef_seq_def ef_bind_def s1 s2 s3 s5 note_enforcement_def put_def remark_def ef_modify_def
        study_fields_def)
  then show ?thesis using assms(3) unfolding gather_repo_evidence_def Let_def s0_def [symmetric]
    by (auto simp: study_fields_def)
qed

theorem unprovenanced_study_sets_nothing_witness:
  "fst (gather_repo_evidence (\<lambda>_. []) good_now
     (demo_repo\<lparr>rp_study := Inr (Some (JObj [(''verdict'', JStr ''VALIDATED''), (''out_of_sample'', JObj [(''sharpe'', JInt 3)])]))\<rparr>))
     ''oos_sharpe'' = EvNone"
proof (rule unprovenanced_study_sets_nothing)
  show "unprovenanced (\<lambda>_. []) (JObj [(''verdict'', JStr ''VALIDATED''), (''out_of_sample'', JObj [(''sharpe'', JInt 3)])])"
    by code_simp
qed (simp_all add: study_fields_def)

end
