(* ===== verification/Audit_Log.thy ===== *)
theory Audit_Log
  imports Py_Value Lifecycle
begin

text \<open>
  \<open>app/execution/audit.py\<close>: the outcome of an execution attempt, its audit record and the journal
  that writes a record to every sink. The identity and the time stamp of a record are arguments of
  \<open>new_record\<close>. Log lines and \<open>summary()\<close> are left out.
\<close>

section \<open>Outcomes\<close>

datatype execution_outcome = O_SUBMITTED | O_FILLED | O_PARTIALLY_FILLED | O_REJECTED_BY_BROKER | O_BLOCKED_KILL_SWITCH
  | O_BLOCKED_ELIGIBILITY | O_BLOCKED_RISK | O_BLOCKED_NOT_RECONCILED | O_BLOCKED_MODE | O_BLOCKED_DUPLICATE | O_CANCELLED
  | O_AMBIGUOUS | O_ERROR

fun outcome_text :: "execution_outcome \<Rightarrow> string" where
  "outcome_text O_SUBMITTED = ''SUBMITTED''"
| "outcome_text O_FILLED = ''FILLED''"
| "outcome_text O_PARTIALLY_FILLED = ''PARTIALLY_FILLED''"
| "outcome_text O_REJECTED_BY_BROKER = ''REJECTED_BY_BROKER''"
| "outcome_text O_BLOCKED_KILL_SWITCH = ''BLOCKED_KILL_SWITCH''"
| "outcome_text O_BLOCKED_ELIGIBILITY = ''BLOCKED_ELIGIBILITY''"
| "outcome_text O_BLOCKED_RISK = ''BLOCKED_RISK''"
| "outcome_text O_BLOCKED_NOT_RECONCILED = ''BLOCKED_NOT_RECONCILED''"
| "outcome_text O_BLOCKED_MODE = ''BLOCKED_MODE''"
| "outcome_text O_BLOCKED_DUPLICATE = ''BLOCKED_DUPLICATE''"
| "outcome_text O_CANCELLED = ''CANCELLED''"
| "outcome_text O_AMBIGUOUS = ''AMBIGUOUS''"
| "outcome_text O_ERROR = ''ERROR''"

definition all_outcomes :: "execution_outcome list" where
  "all_outcomes = [O_SUBMITTED, O_FILLED, O_PARTIALLY_FILLED, O_REJECTED_BY_BROKER, O_BLOCKED_KILL_SWITCH,
     O_BLOCKED_ELIGIBILITY, O_BLOCKED_RISK, O_BLOCKED_NOT_RECONCILED, O_BLOCKED_MODE, O_BLOCKED_DUPLICATE, O_CANCELLED,
     O_AMBIGUOUS, O_ERROR]"

definition reached_broker :: "execution_outcome \<Rightarrow> bool" where
  "reached_broker o' \<longleftrightarrow> o' \<in> set [O_SUBMITTED, O_FILLED, O_PARTIALLY_FILLED, O_REJECTED_BY_BROKER, O_AMBIGUOUS, O_CANCELLED]"

text \<open>\<open>ExecutionOutcome(text)\<close>.\<close>

definition outcome_of_text :: "string \<Rightarrow> execution_outcome option" where
  "outcome_of_text s = find (\<lambda>x. outcome_text x = s) all_outcomes"

lemma outcome_of_text [simp]: "outcome_of_text (outcome_text x) = Some x"
  by (cases x) (simp_all add: outcome_of_text_def all_outcomes_def)

section \<open>The record\<close>

record audit_record =
  au_id :: string
  au_key :: "string option"
  au_timestamp :: string
  au_mode :: string
  au_symbol :: "string option"
  au_exchange :: "string option"
  au_side :: "string option"
  au_quantity :: "int option"
  au_order_type :: "string option"
  au_product :: "string option"
  au_strategy :: "string option"
  au_model_name :: "string option"
  au_model_version :: "string option"
  au_edge :: "pyfloat option"
  au_return :: "pyfloat option"
  au_return_std :: "pyfloat option"
  au_stop_pct :: "pyfloat option"
  au_target_pct :: "pyfloat option"
  au_signal_time :: "string option"
  au_notional :: "pyfloat option"
  au_trade_risk :: "pyfloat option"
  au_allocation :: "json option"
  au_eligibility :: "string option"
  au_permits_live :: "bool option"
  au_failed_gates :: "string list option"
  au_risk_passed :: "bool option"
  au_failed_checks :: "string list option"
  au_kill_switch :: "bool option"
  au_reconciliation :: "string option"
  au_broker_id :: "string option"
  au_response :: "json option"
  au_fill_quantity :: "int option"
  au_fill_price :: "pyfloat option"
  au_costs :: "pyfloat option"
  au_slippage :: "pyfloat option"
  au_outcome :: string
  au_reason :: "string option"
  au_final_state :: "string option"
  au_error :: "string option"
  au_sink_error :: "string option"

text \<open>\<open>AuditJournal.new_record\<close>: what is not known is \<open>None\<close>.\<close>

definition new_record :: "string \<Rightarrow> string \<Rightarrow> string \<Rightarrow> audit_record" where
  "new_record uid timestamp mode = \<lparr>au_id = uid, au_key = None, au_timestamp = timestamp, au_mode = mode,
     au_symbol = None, au_exchange = None, au_side = None, au_quantity = None, au_order_type = None, au_product = None,
     au_strategy = None, au_model_name = None, au_model_version = None, au_edge = None, au_return = None,
     au_return_std = None, au_stop_pct = None, au_target_pct = None, au_signal_time = None, au_notional = None,
     au_trade_risk = None, au_allocation = None, au_eligibility = None, au_permits_live = None, au_failed_gates = None,
     au_risk_passed = None, au_failed_checks = None, au_kill_switch = None, au_reconciliation = None, au_broker_id = None,
     au_response = None, au_fill_quantity = None, au_fill_price = None, au_costs = None, au_slippage = None,
     au_outcome = outcome_text O_ERROR, au_reason = None, au_final_state = None, au_error = None, au_sink_error = None\<rparr>"

definition record_reached_broker :: "audit_record \<Rightarrow> bool" where
  "record_reached_broker r = (case outcome_of_text (au_outcome r) of None \<Rightarrow> False | Some x \<Rightarrow> reached_broker x)"

section \<open>Sinks\<close>

text \<open>A sink with what its next writes will do: \<open>None\<close> works, \<open>Some e\<close> raises \<open>e\<close> and writes nothing.
  A sink in memory keeps the record object itself, so a later change of the record shows in it.\<close>

record sink =
  sk_name :: string
  sk_memory :: bool
  sk_records :: "audit_record list"
  sk_next :: "exn option list"

definition write_sink :: "audit_record \<Rightarrow> sink \<Rightarrow> unit res \<times> sink" where
  "write_sink r s = (case sk_next s of
     Some e # es \<Rightarrow> (Inl e, s\<lparr>sk_next := es\<rparr>)
   | es \<Rightarrow> (Inr (), s\<lparr>sk_next := tl es, sk_records := sk_records s @ [r]\<rparr>))"

definition by_outcome :: "execution_outcome \<Rightarrow> sink \<Rightarrow> audit_record list" where
  "by_outcome x s = filter (\<lambda>r. au_outcome r = outcome_text x) (sk_records s)"

definition reached_records :: "sink \<Rightarrow> audit_record list" where
  "reached_records s = filter record_reached_broker (sk_records s)"

definition blocked_records :: "sink \<Rightarrow> audit_record list" where
  "blocked_records s = filter (\<lambda>r. \<not> record_reached_broker r) (sk_records s)"

section \<open>The journal\<close>

text \<open>A write with no sink configured goes to a new one in memory.\<close>

definition memory_sink :: sink where
  "memory_sink = \<lparr>sk_name = ''InMemoryAuditSink'', sk_memory = True, sk_records = [], sk_next = []\<rparr>"

definition new_journal :: "sink list \<Rightarrow> sink list" where
  "new_journal ss = (if ss = [] then [memory_sink] else ss)"

definition sink_errors :: "audit_record \<Rightarrow> sink list \<Rightarrow> string list" where
  "sink_errors r ss = concat (map (\<lambda>s. case fst (write_sink r s) of
     Inl e \<Rightarrow> [sk_name s @ '': '' @ exn_msg e] | Inr _ \<Rightarrow> []) ss)"

definition join_with :: "string \<Rightarrow> string list \<Rightarrow> string" where
  "join_with sep xs = (case xs of [] \<Rightarrow> [] | x # ys \<Rightarrow> x @ concat (map (\<lambda>y. sep @ y) ys))"

text \<open>\<open>AuditJournal.record\<close>: every sink is tried; the failures are put on the record, which the
  sinks in memory that took it share.\<close>

definition journal_record :: "audit_record \<Rightarrow> sink list \<Rightarrow> audit_record \<times> sink list" where
  "journal_record r ss =
     (let errors = sink_errors r ss;
          r' = (if errors = [] then r else r\<lparr>au_sink_error := Some (join_with ''; '' errors)\<rparr>)
      in (r', map (\<lambda>s. case write_sink r s of
           (Inr _, s') \<Rightarrow> if sk_memory s then s'\<lparr>sk_records := butlast (sk_records s') @ [r']\<rparr> else s'
         | (Inl _, s') \<Rightarrow> s') ss))"

end
