(* ===== verification/Service.thy ===== *)
theory Service
  imports Audit_Log Ledger Order_Manager Startup Eligibility_Report
begin

text \<open>
  \<open>app/execution/service.py\<close>: the boundary every order passes. Its four gates, the translation of a
  strategy's signal into an order intent, the claim of the idempotency key in the database, the call
  of the order manager and the record of what the broker did. The service is a record of its
  collaborators; a call runs on the order manager's world, the database and the sinks of the journal.
  Reasons keep their fixed text without class names and numbers.
\<close>

section \<open>The service\<close>

datatype trading_mode = PAPER | LIVE

fun mode_text :: "trading_mode \<Rightarrow> string" where
  "mode_text PAPER = ''paper''"
| "mode_text LIVE = ''live''"

text \<open>\<open>sv_probes\<close> are the kill-switch sources with their names, \<open>sv_recovery\<close> the recovery manager of
  the trading gate, \<open>sv_provider\<close> the eligibility provider, \<open>sv_venue\<close> the broker as the persistence
  reads it, \<open>sv_gathered\<close> the evidence \<open>require_live_eligible\<close> gathers when it is given no report.\<close>

record ('b, 'w) service =
  sv_mode :: trading_mode
  sv_om :: "'b Order_Manager.manager"
  sv_probes :: "(string \<times> ('b \<Rightarrow> bool res)) list"
  sv_recovery :: "'w Startup.manager option"
  sv_provider :: "('b \<Rightarrow> offered res) option"
  sv_live_authorized :: bool
  sv_persistent :: bool
  sv_num :: "pyfloat \<Rightarrow> pyfloat"
  sv_like :: "string \<Rightarrow> string \<Rightarrow> bool"
  sv_venue :: "'b venue"
  sv_clock :: int
  sv_gathered :: "(evidence \<times> string list) res"
  sv_uuid :: string
  sv_timestamp :: string

record 'b boundary =
  bd_world :: "'b world"
  bd_db :: db
  bd_sinks :: "sink list"

record execution_result =
  xr_outcome :: execution_outcome
  xr_audit :: audit_record
  xr_broker_id :: "string option"
  xr_reason :: "string option"

definition submitted :: "execution_result \<Rightarrow> bool" where
  "submitted x \<longleftrightarrow> reached_broker (xr_outcome x)"

definition blocked :: "execution_result \<Rightarrow> bool" where
  "blocked x \<longleftrightarrow> \<not> submitted x"

text \<open>\<open>_assert_broker_matches_mode\<close> of the constructor.\<close>

definition assert_broker_matches_mode :: "('b, 'w) service \<Rightarrow> unit res" where
  "assert_broker_matches_mode sv =
     (let paper = br_paper_class (om_broker (sv_om sv)); refuse = (\<lambda>m. Inl (PyExn ''ExecutionBlocked'' m)) in
      if sv_mode sv = PAPER \<and> \<not> paper then refuse ''trading_mode=paper but broker is not PaperBroker.''
      else if sv_mode sv = LIVE \<and> paper then refuse ''trading_mode=live but broker is PaperBroker.''
      else if sv_mode sv = LIVE \<and> \<not> sv_live_authorized sv then refuse ''trading_mode=live requires live_authorized=True.''
      else Inr ())"

section \<open>The gates\<close>

text \<open>\<open>KillSwitch.is_active\<close>: a source that raises counts as active, and so does having none.\<close>

fun probe_sources :: "(string \<times> ('b \<Rightarrow> bool res)) list \<Rightarrow> 'b \<Rightarrow> bool \<times> string option" where
  "probe_sources [] b = (False, None)"
| "probe_sources ((name, probe) # ps) b = (case probe b of
     Inr True \<Rightarrow> (True, Some (''kill switch ACTIVE (source: '' @ name @ '')''))
   | Inr False \<Rightarrow> probe_sources ps b
   | Inl e \<Rightarrow> (True, Some (''kill-switch source '' @ name @ '' could not be read; treating as ACTIVE'')))"

definition kill_switch_active :: "(string \<times> ('b \<Rightarrow> bool res)) list \<Rightarrow> 'b \<Rightarrow> bool \<times> string option" where
  "kill_switch_active ps b = (if ps = [] then (True, Some ''no kill-switch source configured'') else probe_sources ps b)"

text \<open>\<open>TradingGate.check\<close> and \<open>TradingGate.state\<close>.\<close>

definition trading_gate_check :: "'w Startup.manager option \<Rightarrow> bool \<times> string option" where
  "trading_gate_check rm = (case rm of
     None \<Rightarrow> (False, Some ''no recovery manager wired'')
   | Some m \<Rightarrow> (case require_ready m of Inr _ \<Rightarrow> (True, None) | Inl e \<Rightarrow> (False, Some (''trading gate closed: '' @ exn_msg e))))"

fun startup_text :: "startup_state \<Rightarrow> string" where
  "startup_text RECOVERING = ''StartupState.RECOVERING''"
| "startup_text READY = ''StartupState.READY''"
| "startup_text BLOCKED = ''StartupState.BLOCKED''"

definition trading_gate_state :: "'w Startup.manager option \<Rightarrow> string" where
  "trading_gate_state rm = (case rm of None \<Rightarrow> ''NO_RECOVERY_MANAGER'' | Some m \<Rightarrow> startup_text (mg_state m))"

text \<open>A gate raises \<open>ExecutionBlocked\<close> with an outcome, or another exception, or passes.\<close>

datatype refusal = Blocked execution_outcome string | Raised exn

type_synonym ('b, 'w) boundary_gate = "('b, 'w) service \<Rightarrow> 'b \<Rightarrow> audit_record \<Rightarrow> refusal option \<times> audit_record"

definition gate_kill_switch :: "('b, 'w) boundary_gate" where
  "gate_kill_switch sv b rec = (case kill_switch_active (sv_probes sv) b of (active, reason) \<Rightarrow>
     (if active then Some (Blocked O_BLOCKED_KILL_SWITCH (case reason of None \<Rightarrow> ''kill switch active'' | Some r \<Rightarrow> r)) else None,
      rec\<lparr>au_kill_switch := Some active\<rparr>))"

definition gate_trading :: "('b, 'w) boundary_gate" where
  "gate_trading sv b rec = (case trading_gate_check (sv_recovery sv) of (ok, reason) \<Rightarrow>
     (if ok then None else Some (Blocked O_BLOCKED_NOT_RECONCILED
        (case reason of None \<Rightarrow> ''startup reconciliation has not succeeded'' | Some r \<Rightarrow> r)),
      rec\<lparr>au_reconciliation := Some (trading_gate_state (sv_recovery sv))\<rparr>))"

definition gate_mode :: "('b, 'w) boundary_gate" where
  "gate_mode sv b rec =
     (if sv_mode sv = PAPER \<or> sv_live_authorized sv then None
      else Some (Blocked O_BLOCKED_MODE ''live trading is not authorized''), rec)"

text \<open>What the service reads off a report; an object without these attributes gives the defaults.\<close>

definition offered_state :: "offered \<Rightarrow> string option" where
  "offered_state x = (case x of Exact r \<Rightarrow> Some (py_upper (state_text (report_state r)))
     | Subclass r \<Rightarrow> Some (py_upper (state_text (report_state r))) | _ \<Rightarrow> None)"

definition offered_permits :: "offered \<Rightarrow> bool" where
  "offered_permits x = (case x of Exact r \<Rightarrow> permits_live_trading r | Subclass r \<Rightarrow> permits_live_trading r | _ \<Rightarrow> False)"

definition offered_failures :: "offered \<Rightarrow> string list option" where
  "offered_failures x = (let names = (case x of Exact r \<Rightarrow> map gr_name (failed_gates r)
       | Subclass r \<Rightarrow> map gr_name (failed_gates r) | _ \<Rightarrow> []) in if names = [] then None else Some names)"

definition gate_eligibility :: "('b, 'w) boundary_gate" where
  "gate_eligibility sv b rec = (case sv_provider sv of
     None \<Rightarrow> (if sv_mode sv = LIVE then Some (Blocked O_BLOCKED_ELIGIBILITY ''live mode requires an eligibility provider'') else None,
              rec\<lparr>au_eligibility := Some ''NOT_EVALUATED'', au_permits_live := None\<rparr>)
   | Some provider \<Rightarrow> (case provider b of
       Inl e \<Rightarrow> (if sv_mode sv = LIVE then Some (Blocked O_BLOCKED_ELIGIBILITY ''eligibility could not be evaluated; failing closed'') else None,
                 rec\<lparr>au_eligibility := Some ''EVALUATION_FAILED'', au_permits_live := Some False\<rparr>)
     | Inr report \<Rightarrow>
         (if sv_mode sv = LIVE
          then (case require_live_eligible (sv_clock sv) (sv_gathered sv) report INCREASE_RISK None of
                  Inl e \<Rightarrow> Some (Raised e) | Inr _ \<Rightarrow> None)
          else None,
          rec\<lparr>au_eligibility := offered_state report, au_permits_live := Some (offered_permits report),
              au_failed_gates := offered_failures report\<rparr>)))"

fun run_gates :: "('b, 'w) boundary_gate list \<Rightarrow> ('b, 'w) boundary_gate" where
  "run_gates [] sv b rec = (None, rec)"
| "run_gates (g # gs) sv b rec = (case g sv b rec of
     (Some r, rec') \<Rightarrow> (Some r, rec') | (None, rec') \<Rightarrow> run_gates gs sv b rec')"

definition check_all_gates :: "('b, 'w) boundary_gate" where
  "check_all_gates = run_gates [gate_kill_switch, gate_trading, gate_mode, gate_eligibility]"

section \<open>From a signal to an order\<close>

datatype direction = LONG | SHORT | EXIT

fun direction_text :: "direction \<Rightarrow> string" where
  "direction_text LONG = ''LONG''"
| "direction_text SHORT = ''SHORT''"
| "direction_text EXIT = ''EXIT''"

text \<open>The signal of \<open>app.strategies.base\<close>; its two times as \<open>str\<close> prints them.\<close>

record alpha =
  al_symbol :: string
  al_direction :: direction
  al_strategy :: string
  al_timestamp :: string
  al_signal_date :: string
  al_edge :: pyfloat
  al_return :: pyfloat
  al_return_std :: pyfloat
  al_stop_pct :: pyfloat
  al_target_pct :: pyfloat
  al_horizon :: int
  al_model_name :: "string option"
  al_model_version :: "string option"

text \<open>The keyword arguments of a submission, the last the risk context of the order manager.\<close>

record request =
  rq_exchange :: string
  rq_product :: "string option"
  rq_price :: pyfloat
  rq_key :: "string option"
  rq_allocation :: "json option"
  rq_risk :: submit_args

text \<open>\<open>Product[name]\<close>, by the name of the member.\<close>

definition product_named :: "string \<Rightarrow> prdct res" where
  "product_named s = (case List.find (\<lambda>p. product_value p = s) [CNC, MIS, NRML, CO, BO] of
     None \<Rightarrow> Inl (KeyError s) | Some p \<Rightarrow> Inr p)"

definition stop_trigger :: "string option \<Rightarrow> txn_type \<Rightarrow> pyfloat \<Rightarrow> pyfloat \<Rightarrow> pyfloat" where
  "stop_trigger kind txn price pct =
     (if Fin 0 < price \<and> Fin 0 < pct then
        (if txn = (if kind = Some ''stop'' then SELL else BUY) then price * (Fin 1 - pct) else price * (Fin 1 + pct))
      else Fin 0)"

record overrides =
  ov_type :: "order_type option"
  ov_txn :: "txn_type option"
  ov_kind :: "string option"

definition no_overrides :: overrides where
  "no_overrides = \<lparr>ov_type = None, ov_txn = None, ov_kind = None\<rparr>"

definition intent_parts :: "alpha \<Rightarrow> request \<Rightarrow> int \<Rightarrow> txn_type \<Rightarrow> prdct \<Rightarrow> string list" where
  "intent_parts al rq n txn pr = [al_symbol al, rq_exchange rq, txn_value txn, int_str n, product_value pr, al_strategy al,
     if al_signal_date al \<noteq> [] then al_signal_date al else al_timestamp al]"

text \<open>\<open>_to_order_intent\<close>, with the record as it stands when a product name is refused.\<close>

definition to_order_intent ::
  "(string \<Rightarrow> string) \<Rightarrow> alpha \<Rightarrow> int \<Rightarrow> request \<Rightarrow> overrides \<Rightarrow> audit_record \<Rightarrow> signal res \<times> audit_record" where
  "to_order_intent sha256 al n rq ov rec =
     (let txn = (case ov_txn ov of Some t \<Rightarrow> t | None \<Rightarrow> if al_direction al = LONG then BUY else SELL);
          named = (case rq_product rq of Some p \<Rightarrow> p | None \<Rightarrow> []) in
      case (if named \<noteq> [] then product_named (py_upper named)
            else Inr (if py_lower (al_strategy al) = ''intraday'' then MIS else CNC)) of
        Inl e \<Rightarrow> (Inl e, rec)
      | Inr pr \<Rightarrow>
          (let kind = (case ov_type ov of Some t \<Rightarrow> t | None \<Rightarrow> MARKET);
               key = (case rq_key rq of Some k \<Rightarrow> k | None \<Rightarrow> []);
               cid = (if key \<noteq> [] then key
                      else deterministic_client_order_id sha256 (intent_parts al rq n txn pr) ''SIG'') in
           (Inr \<lparr>sg_symbol = al_symbol al, sg_exchange = rq_exchange rq, sg_txn = txn, sg_order_type = kind,
              sg_product = pr, sg_price = (if ftruthy (rq_price rq) then rq_price rq else Fin 0),
              sg_stop_price = stop_trigger (ov_kind ov) txn (rq_price rq)
                (if ftruthy (al_stop_pct al) then al_stop_pct al else Fin 0),
              sg_strategy = al_strategy al, sg_tag = [], sg_client_order_id = cid,
              sg_intent_kind = (case ov_kind ov of Some k \<Rightarrow> k | None \<Rightarrow> if al_direction al = EXIT then ''exit'' else ''entry'')\<rparr>,
            rec\<lparr>au_product := Some (product_value pr), au_side := Some (txn_value txn),
                au_order_type := Some (order_type_value kind), au_key := Some cid\<rparr>)))"

section \<open>Concluding an attempt\<close>

text \<open>Every attempt ends here: the outcome is put on the record, the record is written, and the
  result carries it.\<close>

definition conclude ::
  "execution_outcome \<Rightarrow> string option \<Rightarrow> string option \<Rightarrow> audit_record \<Rightarrow> 'b boundary \<Rightarrow> execution_result \<times> 'b boundary" where
  "conclude x bid reason rec s =
     (case journal_record (rec\<lparr>au_outcome := outcome_text x\<rparr>) (bd_sinks s) of (rec', sinks) \<Rightarrow>
       (\<lparr>xr_outcome = x, xr_audit = rec', xr_broker_id = bid, xr_reason = reason\<rparr>, s\<lparr>bd_sinks := sinks\<rparr>))"

definition refuse :: "string \<Rightarrow> refusal \<Rightarrow> audit_record \<Rightarrow> 'b boundary \<Rightarrow> execution_result \<times> 'b boundary" where
  "refuse context r rec s = (case r of
     Blocked x reason \<Rightarrow> conclude x None (Some reason) (rec\<lparr>au_reason := Some reason\<rparr>) s
   | Raised e \<Rightarrow> (let reason = context @ exn_msg e in
       conclude O_ERROR None (Some reason) (rec\<lparr>au_error := Some (exn_msg e), au_reason := Some reason\<rparr>) s))"

text \<open>\<open>_persist_block\<close>.\<close>

definition persist_block :: "('b, 'w) service \<Rightarrow> nat option \<Rightarrow> string \<Rightarrow> string \<Rightarrow> 'b boundary \<Rightarrow> 'b boundary" where
  "persist_block sv row st reason s = (case row of
     None \<Rightarrow> s
   | Some n \<Rightarrow> if sv_persistent sv then s\<lparr>bd_db := snd (record_block (sv_num sv) n st reason (bd_db s))\<rparr> else s)"

text \<open>The classes the two special handlers catch, the shared ones of \<open>core/exceptions.py\<close> included.\<close>

definition is_kill_switch_exn :: "exn \<Rightarrow> bool" where
  "is_kill_switch_exn e = (case e of KillSwitchActiveError _ \<Rightarrow> True | PyExn c _ \<Rightarrow> c = ''KillSwitchActiveError'' | _ \<Rightarrow> False)"

definition is_ambiguous_exn :: "exn \<Rightarrow> bool" where
  "is_ambiguous_exn e = (case e of AmbiguousOrderError _ \<Rightarrow> True | PyExn c _ \<Rightarrow> c = ''AmbiguousOrderStateError'' | _ \<Rightarrow> False)"

text \<open>The three handlers of \<open>_submit_to_broker\<close>.\<close>

definition submission_failed ::
  "('b, 'w) service \<Rightarrow> nat option \<Rightarrow> exn \<Rightarrow> audit_record \<Rightarrow> 'b boundary \<Rightarrow> execution_result \<times> 'b boundary" where
  "submission_failed sv row e rec s =
     (let m = exn_msg e in
      if is_kill_switch_exn e then
        conclude O_BLOCKED_KILL_SWITCH None (Some m) (rec\<lparr>au_kill_switch := Some True, au_reason := Some m\<rparr>)
          (persist_block sv row ''BLOCKED_KILL_SWITCH'' m s)
      else if is_ambiguous_exn e then
        conclude O_AMBIGUOUS None (Some m) (rec\<lparr>au_reason := Some m, au_final_state := Some ''UNKNOWN''\<rparr>)
          (persist_block sv row ''UNKNOWN'' m s)
      else
        conclude O_BLOCKED_RISK None (Some m) (rec\<lparr>au_risk_passed := Some False, au_reason := Some m\<rparr>)
          (persist_block sv row ''BLOCKED_RISK'' m s))"

section \<open>A declined order\<close>

fun split_at :: "char \<Rightarrow> string \<Rightarrow> string \<Rightarrow> string list" where
  "split_at sep acc [] = [rev acc]"
| "split_at sep acc (c # cs) = (if c = sep then rev acc # split_at sep [] cs else split_at sep (c # acc) cs)"

definition gate_names :: "string \<Rightarrow> string list option" where
  "gate_names reason = (let names = filter (\<lambda>c. c \<noteq> []) (map py_strip (split_at CHR 0x3B [] reason)) in
     if names = [] then None else Some names)"

text \<open>\<open>_lookup_decline_reason\<close>, which asks the order store.\<close>

definition lookup_decline_reason :: "string \<Rightarrow> 'b boundary \<Rightarrow> (string option \<times> string list option) \<times> 'b boundary" where
  "lookup_decline_reason cid s =
     (if cid = [] then ((None, None), s)
      else case st_get cid (bd_world s) of (found, w) \<Rightarrow>
        ((case found of Inr (Some r) \<Rightarrow> if r_reason r = [] then (None, None) else (Some (r_reason r), gate_names (r_reason r))
          | _ \<Rightarrow> (None, None)), s\<lparr>bd_world := w\<rparr>))"

definition declined ::
  "('b, 'w) service \<Rightarrow> nat option \<Rightarrow> string \<Rightarrow> audit_record \<Rightarrow> 'b boundary \<Rightarrow> execution_result \<times> 'b boundary" where
  "declined sv row cid rec s = (case lookup_decline_reason cid s of ((found, listed), s1) \<Rightarrow>
     (let reason = (case found of Some r \<Rightarrow> r | None \<Rightarrow> ''order manager declined to submit and recorded no reason'') in
      conclude O_BLOCKED_RISK None (Some reason)
        (rec\<lparr>au_risk_passed := Some False, au_failed_checks := listed, au_reason := Some reason\<rparr>)
        (persist_block sv row ''BLOCKED_RISK'' reason s1)))"

section \<open>A sent order\<close>

text \<open>What the record takes over from a synchronisation.\<close>

definition note_sync :: "fill_sync \<Rightarrow> audit_record \<Rightarrow> audit_record" where
  "note_sync sync rec =
     (let rec1 = (case fs_status sync of Some st \<Rightarrow> if st \<noteq> [] then rec\<lparr>au_final_state := Some st\<rparr> else rec | None \<Rightarrow> rec);
          rec2 = (case fs_reject sync of
             Some r \<Rightarrow> if r \<noteq> [] then rec1\<lparr>au_response := Some (JObj [(''reject_reason'', JStr r),
                 (''status'', case fs_status sync of None \<Rightarrow> JNull | Some st \<Rightarrow> JStr st)])\<rparr> else rec1
           | None \<Rightarrow> rec1);
          rec3 = rec2\<lparr>au_fill_quantity := Some (fs_filled sync), au_fill_price := fs_average sync\<rparr> in
      if fs_errors sync \<noteq> [] then rec3\<lparr>au_error := Some (take 2000 (join_with ''; '' (fs_errors sync)))\<rparr> else rec3)"

text \<open>\<open>attach_broker_order_id\<close>, then \<open>sync_from_broker\<close>; an exception is noted on the record.\<close>

definition record_fills ::
  "('b, 'w) service \<Rightarrow> nat \<Rightarrow> string \<Rightarrow> audit_record \<Rightarrow> 'b boundary \<Rightarrow> audit_record \<times> 'b boundary" where
  "record_fills sv n oid rec s =
     (let noted = rec\<lparr>au_error := Some ''post-submission persistence failed''\<rparr> in
      case attach_broker_order_id (sv_num sv) n oid (bd_db s) of
        (Inl e, d) \<Rightarrow> (noted, s\<lparr>bd_db := d\<rparr>)
      | (Inr _, d) \<Rightarrow>
          (case sync_from_broker (sv_num sv) (sv_like sv) (sv_venue sv) (mode_text (sv_mode sv)) n oid (w_env (bd_world s), d) of
             (r, (b, d')) \<Rightarrow>
               (case r of Inl e \<Rightarrow> noted | Inr sync \<Rightarrow> note_sync sync rec,
                s\<lparr>bd_world := (bd_world s)\<lparr>w_env := b\<rparr>, bd_db := d'\<rparr>)))"

definition sent_order ::
  "('b, 'w) service \<Rightarrow> nat option \<Rightarrow> string \<Rightarrow> audit_record \<Rightarrow> 'b boundary \<Rightarrow> execution_result \<times> 'b boundary" where
  "sent_order sv row oid rec s =
     (let rec1 = rec\<lparr>au_risk_passed := Some True, au_broker_id := Some oid,
            au_key := (case au_key rec of Some k \<Rightarrow> if k \<noteq> [] then Some k else Some oid | None \<Rightarrow> Some oid),
            au_final_state := Some ''SUBMITTED'', au_outcome := outcome_text O_SUBMITTED\<rparr>;
          (rec2, s2) = (case row of
             Some n \<Rightarrow> if sv_persistent sv then record_fills sv n oid rec1 s else (rec1, s) | None \<Rightarrow> (rec1, s))
      in conclude O_SUBMITTED (Some oid) None rec2 s2)"

section \<open>The call of the order manager\<close>

definition call_manager ::
  "('b, 'w) service \<Rightarrow> signal \<Rightarrow> int \<Rightarrow> request \<Rightarrow> nat option \<Rightarrow> audit_record \<Rightarrow> 'b boundary \<Rightarrow> execution_result \<times> 'b boundary" where
  "call_manager sv sg n rq row rec s =
     (case submit_order (sv_om sv) sg n (rq_risk rq) (bd_world s) of (r, w) \<Rightarrow>
       (let s1 = s\<lparr>bd_world := w\<rparr> in
        case r of Inl e \<Rightarrow> submission_failed sv row e rec s1
        | Inr None \<Rightarrow> declined sv row (sg_client_order_id sg) rec s1
        | Inr (Some oid) \<Rightarrow> sent_order sv row oid rec s1))"

text \<open>\<open>_submit_to_broker\<close>: the intent, the claim of its id in the database, then the order manager.\<close>

definition submit_to_broker ::
  "('b, 'w) service \<Rightarrow> alpha \<Rightarrow> int \<Rightarrow> request \<Rightarrow> overrides \<Rightarrow> audit_record \<Rightarrow> 'b boundary \<Rightarrow> execution_result \<times> 'b boundary" where
  "submit_to_broker sv al n rq ov rec s =
     (case to_order_intent (om_sha256 (sv_om sv)) al n rq ov rec of
        (Inl e, rec1) \<Rightarrow> submission_failed sv None e rec1 s
      | (Inr sg, rec1) \<Rightarrow>
          if \<not> sv_persistent sv then call_manager sv sg n rq None rec1 s
          else (case claim_idempotency_key (sv_num sv) sg n (bd_db s) of
             (Inl e, d) \<Rightarrow> submission_failed sv None e rec1 (s\<lparr>bd_db := d\<rparr>)
           | (Inr claim, d) \<Rightarrow>
               if sr_duplicate claim then
                 (let reason = ''duplicate submission: client_order_id '' @ sr_client_id claim @ '' was already submitted.'' in
                  conclude O_BLOCKED_DUPLICATE None (Some reason)
                    (rec1\<lparr>au_reason := Some reason, au_key := Some (sr_client_id claim)\<rparr>) (s\<lparr>bd_db := d\<rparr>))
               else call_manager sv sg n rq (sr_row claim) rec1 (s\<lparr>bd_db := d\<rparr>)))"

section \<open>The operations\<close>

fun side_of :: "direction \<Rightarrow> string" where
  "side_of LONG = ''BUY''"
| "side_of SHORT = ''SELL''"
| "side_of EXIT = ''SELL''"

definition signal_record :: "('b, 'w) service \<Rightarrow> alpha \<Rightarrow> int \<Rightarrow> request \<Rightarrow> audit_record" where
  "signal_record sv al n rq = (new_record (sv_uuid sv) (sv_timestamp sv) (mode_text (sv_mode sv)))
     \<lparr>au_symbol := Some (al_symbol al), au_exchange := Some (rq_exchange rq), au_side := Some (side_of (al_direction al)),
      au_quantity := Some n, au_product := rq_product rq, au_strategy := Some (al_strategy al), au_edge := Some (al_edge al),
      au_return := Some (al_return al), au_return_std := Some (al_return_std al), au_stop_pct := Some (al_stop_pct al),
      au_target_pct := Some (al_target_pct al), au_signal_time := Some (al_timestamp al), au_allocation := rq_allocation rq,
      au_model_name := al_model_name al, au_model_version := al_model_version al\<rparr>"

definition gated ::
  "('b, 'w) boundary_gate \<Rightarrow> string \<Rightarrow> ('b, 'w) service \<Rightarrow> audit_record \<Rightarrow>
     (audit_record \<Rightarrow> 'b boundary \<Rightarrow> execution_result \<times> 'b boundary) \<Rightarrow> 'b boundary \<Rightarrow> execution_result \<times> 'b boundary" where
  "gated gate context sv rec body s = (case gate sv (w_env (bd_world s)) rec of
     (Some r, rec') \<Rightarrow> refuse context r rec' s | (None, rec') \<Rightarrow> body rec' s)"

definition submit_signal ::
  "('b, 'w) service \<Rightarrow> alpha \<Rightarrow> int \<Rightarrow> request \<Rightarrow> 'b boundary \<Rightarrow> execution_result \<times> 'b boundary" where
  "submit_signal sv al n rq = gated check_all_gates ''unexpected error at execution boundary: '' sv (signal_record sv al n rq)
     (submit_to_broker sv al n rq no_overrides)"

text \<open>\<open>submit_stop\<close>: always a SELL of type SL-M; \<open>rq_price\<close> is the fill price.\<close>

definition stop_record :: "('b, 'w) service \<Rightarrow> alpha \<Rightarrow> int \<Rightarrow> request \<Rightarrow> audit_record" where
  "stop_record sv al n rq = (new_record (sv_uuid sv) (sv_timestamp sv) (mode_text (sv_mode sv)))
     \<lparr>au_symbol := Some (al_symbol al), au_exchange := Some (rq_exchange rq), au_side := Some ''SELL'',
      au_quantity := Some n, au_product := rq_product rq, au_strategy := Some (al_strategy al), au_edge := Some (al_edge al),
      au_stop_pct := Some (al_stop_pct al), au_target_pct := Some (al_target_pct al), au_signal_time := Some (al_timestamp al),
      au_allocation := Some (case rq_allocation rq of
          Some a \<Rightarrow> if json_truthy a then a else JObj [(''intent'', JStr ''protective_stop''), (''ref_price'', JFloat (rq_price rq)), (''parent_kind'', JStr ''stop'')]
        | None \<Rightarrow> JObj [(''intent'', JStr ''protective_stop''), (''ref_price'', JFloat (rq_price rq)), (''parent_kind'', JStr ''stop'')])\<rparr>"

definition submit_stop ::
  "('b, 'w) service \<Rightarrow> alpha \<Rightarrow> int \<Rightarrow> request \<Rightarrow> 'b boundary \<Rightarrow> execution_result \<times> 'b boundary" where
  "submit_stop sv al n rq = gated check_all_gates ''unexpected error placing protective stop: '' sv (stop_record sv al n rq)
     (submit_to_broker sv al n rq \<lparr>ov_type = Some SL_M, ov_txn = Some SELL, ov_kind = Some ''stop''\<rparr>)"

definition cancel_through_manager ::
  "('b, 'w) service \<Rightarrow> string \<Rightarrow> audit_record \<Rightarrow> 'b boundary \<Rightarrow> execution_result \<times> 'b boundary" where
  "cancel_through_manager sv ref rec s =
     (case cancel_order (sv_om sv) ref (bd_world s) of (r, w) \<Rightarrow>
       (let s1 = s\<lparr>bd_world := w\<rparr>; rec1 = rec\<lparr>au_broker_id := Some ref\<rparr>;
            gone = ''cancel returned False: order already filled/cancelled/unknown at broker'' in
        case r of
          Inl e \<Rightarrow> refuse ''unexpected error cancelling order: '' (Raised e) rec s1
        | Inr True \<Rightarrow> conclude O_CANCELLED (Some ref) None (rec1\<lparr>au_final_state := Some ''CANCELLED''\<rparr>) s1
        | Inr False \<Rightarrow> conclude O_SUBMITTED (Some ref) (Some gone)
            (rec1\<lparr>au_final_state := Some ''ALREADY_TERMINAL'', au_reason := Some gone\<rparr>) s1))"

definition cancel_order_at_boundary ::
  "('b, 'w) service \<Rightarrow> string \<Rightarrow> string option \<Rightarrow> string option \<Rightarrow> 'b boundary \<Rightarrow> execution_result \<times> 'b boundary" where
  "cancel_order_at_boundary sv ref symbol strategy = gated (run_gates [gate_kill_switch, gate_trading])
     ''unexpected error cancelling order: '' sv
     ((new_record (sv_uuid sv) (sv_timestamp sv) (mode_text (sv_mode sv)))
       \<lparr>au_symbol := symbol, au_strategy := strategy, au_allocation := Some (JObj [(''intent'', JStr ''cancel_protective_stop'')])\<rparr>)
     (cancel_through_manager sv ref)"

end
