(* ===== verification/Service_Claims.thy ===== *)
theory Service_Claims
  imports Service Order_Paths Ledger_Claims
begin

text \<open>
  What the execution boundary promises over all its operations: a closed gate changes nothing, every
  attempt leaves one audit record, a key that was claimed is never sent again, and over any sequence
  of operations every order sent was claimed in the account tables.
\<close>

section \<open>The gates\<close>

text \<open>What an order needs: every switch reads off, the startup recovery is \<open>READY\<close>, and in live mode the
  authorisation and a report that \<open>require_live_eligible\<close> lets through.\<close>

definition switches_off :: "(string \<times> ('b \<Rightarrow> bool res)) list \<Rightarrow> 'b \<Rightarrow> bool" where
  "switches_off ps b \<longleftrightarrow> ps \<noteq> [] \<and> (\<forall>(name, p) \<in> set ps. p b = Inr False)"

definition recovered :: "('b, 'w) service \<Rightarrow> bool" where
  "recovered sv \<longleftrightarrow> (\<exists>m. sv_recovery sv = Some m \<and> mg_state m = READY)"

definition live_permitted :: "('b, 'w) service \<Rightarrow> 'b \<Rightarrow> bool" where
  "live_permitted sv b \<longleftrightarrow> sv_live_authorized sv \<and> (\<exists>p x r. sv_provider sv = Some p \<and> p b = Inr x \<and>
     require_live_eligible (sv_clock sv) (sv_gathered sv) x INCREASE_RISK None = Inr r)"

lemma probes_off: "fst (probe_sources ps b) \<longleftrightarrow> \<not> (\<forall>(name, p) \<in> set ps. p b = Inr False)"
  by (induction ps b rule: probe_sources.induct) (auto split: sum.split bool.split)

lemma kill_switch_off: "fst (kill_switch_active ps b) \<longleftrightarrow> \<not> switches_off ps b"
  by (simp add: kill_switch_active_def switches_off_def probes_off)

lemma gate_kill_switch_opens: "fst (gate_kill_switch sv b rec) = None \<longleftrightarrow> switches_off (sv_probes sv) b"
  using kill_switch_off [of "sv_probes sv" b] by (auto simp: gate_kill_switch_def split: prod.split)

lemma gate_trading_opens: "fst (gate_trading sv b rec) = None \<longleftrightarrow> recovered sv"
  by (auto simp: gate_trading_def trading_gate_check_def recovered_def require_ready_def trading_permitted_def
      raise_if_def split: option.split)

lemma gate_mode_opens: "fst (gate_mode sv b rec) = None \<longleftrightarrow> sv_mode sv = PAPER \<or> sv_live_authorized sv"
  by (simp add: gate_mode_def)

lemma gate_eligibility_opens: "fst (gate_eligibility sv b rec) = None \<longleftrightarrow>
    sv_mode sv = PAPER \<or> (\<exists>p x r. sv_provider sv = Some p \<and> p b = Inr x \<and>
      require_live_eligible (sv_clock sv) (sv_gathered sv) x INCREASE_RISK None = Inr r)"
  by (cases "sv_mode sv") (auto simp: gate_eligibility_def split: option.split sum.split)

lemma run_gates_opens: "fst (run_gates gs sv b rec) = None \<Longrightarrow> \<forall>g \<in> set gs. \<exists>rec'. fst (g sv b rec') = None"
proof (induction gs sv b rec rule: run_gates.induct)
  case (2 g gs sv b rec)
  then show ?case by (cases "g sv b rec"; cases "fst (g sv b rec)") (auto, (metis fst_conv)+)
qed simp

lemma all_gates_open:
  assumes "fst (check_all_gates sv b rec) = None"
  shows "switches_off (sv_probes sv) b \<and> recovered sv \<and> (sv_mode sv = LIVE \<longrightarrow> live_permitted sv b)"
  using run_gates_opens [OF assms [unfolded check_all_gates_def]]
  by (auto simp: gate_kill_switch_opens gate_trading_opens gate_mode_opens gate_eligibility_opens live_permitted_def)

lemma conclude_keeps [simp]:
  "bd_world (snd (conclude x bid reason rec s)) = bd_world s" "bd_db (snd (conclude x bid reason rec s)) = bd_db s"
  by (simp_all add: conclude_def split: prod.split)

lemma refuse_keeps [simp]:
  "bd_world (snd (refuse context r rec s)) = bd_world s" "bd_db (snd (refuse context r rec s)) = bd_db s"
  by (simp_all add: refuse_def Let_def split: refusal.split)

lemma gated_opens:
  "bd_world (snd (gated gate context sv rec body s)) \<noteq> bd_world s \<Longrightarrow> fst (gate sv (w_env (bd_world s)) rec) = None"
  "bd_db (snd (gated gate context sv rec body s)) \<noteq> bd_db s \<Longrightarrow> fst (gate sv (w_env (bd_world s)) rec) = None"
  by (cases "gate sv (w_env (bd_world s)) rec"; cases "fst (gate sv (w_env (bd_world s)) rec)"; auto simp: gated_def)+

section \<open>Operations\<close>

text \<open>The operations of a process at the boundary, and the environment moving by itself.\<close>

datatype ('b, 'w) boundary_op =
    Enter "('b, 'w) service" alpha int request
  | Protect "('b, 'w) service" alpha int request
  | Withdraw "('b, 'w) service" string "string option" "string option"
  | Move "'b \<Rightarrow> 'b"

fun attempt_of :: "('b, 'w) boundary_op \<Rightarrow> 'b boundary \<Rightarrow> execution_result option \<times> 'b boundary" where
  "attempt_of (Enter sv al n rq) s = (case submit_signal sv al n rq s of (x, s') \<Rightarrow> (Some x, s'))"
| "attempt_of (Protect sv al n rq) s = (case submit_stop sv al n rq s of (x, s') \<Rightarrow> (Some x, s'))"
| "attempt_of (Withdraw sv ref symbol strategy) s =
     (case cancel_order_at_boundary sv ref symbol strategy s of (x, s') \<Rightarrow> (Some x, s'))"
| "attempt_of (Move f) s = (None, s\<lparr>bd_world := (bd_world s)\<lparr>w_env := f (w_env (bd_world s))\<rparr>\<rparr>)"

fun run_boundary :: "('b, 'w) boundary_op list \<Rightarrow> 'b boundary \<Rightarrow> 'b boundary" where
  "run_boundary [] s = s"
| "run_boundary (x # xs) s = run_boundary xs (snd (attempt_of x s))"

text \<open>The gates that must be open for an operation; a cancellation needs the switch and the recovery.\<close>

fun needs_open :: "('b, 'w) boundary_op \<Rightarrow> 'b \<Rightarrow> bool" where
  "needs_open (Enter sv al n rq) b \<longleftrightarrow>
     switches_off (sv_probes sv) b \<and> recovered sv \<and> (sv_mode sv = LIVE \<longrightarrow> live_permitted sv b)"
| "needs_open (Protect sv al n rq) b \<longleftrightarrow>
     switches_off (sv_probes sv) b \<and> recovered sv \<and> (sv_mode sv = LIVE \<longrightarrow> live_permitted sv b)"
| "needs_open (Withdraw sv ref symbol strategy) b \<longleftrightarrow> switches_off (sv_probes sv) b \<and> recovered sv"
| "needs_open (Move f) b \<longleftrightarrow> True"

lemma attempt_snd:
  "snd (attempt_of (Enter sv al n rq) s) = snd (submit_signal sv al n rq s)"
  "snd (attempt_of (Protect sv al n rq) s) = snd (submit_stop sv al n rq s)"
  "snd (attempt_of (Withdraw sv ref symbol strategy) s) = snd (cancel_order_at_boundary sv ref symbol strategy s)"
  by (simp_all split: prod.split)

lemma gates_open:
  assumes "bd_world (snd (attempt_of x s)) \<noteq> bd_world s \<or> bd_db (snd (attempt_of x s)) \<noteq> bd_db s"
  shows "needs_open x (w_env (bd_world s))"
proof (cases x)
  case (Enter sv al n rq)
  with assms have "fst (check_all_gates sv (w_env (bd_world s)) (signal_record sv al n rq)) = None"
    by (auto simp: attempt_snd submit_signal_def simp del: attempt_of.simps dest: gated_opens)
  then show ?thesis using all_gates_open Enter by fastforce
next
  case (Protect sv al n rq)
  with assms have "fst (check_all_gates sv (w_env (bd_world s)) (stop_record sv al n rq)) = None"
    by (auto simp: attempt_snd submit_stop_def simp del: attempt_of.simps dest: gated_opens)
  then show ?thesis using all_gates_open Protect by fastforce
next
  case (Withdraw sv ref symbol strategy)
  with assms obtain rec where "fst (run_gates [gate_kill_switch, gate_trading] sv (w_env (bd_world s)) rec) = None"
    by (auto simp: attempt_snd cancel_order_at_boundary_def simp del: attempt_of.simps run_gates.simps dest: gated_opens)
  from run_gates_opens [OF this] show ?thesis using Withdraw by (auto simp: gate_kill_switch_opens gate_trading_opens)
qed simp

section \<open>The audit trail\<close>

text \<open>A sink after one more attempt: its record has the outcome, unless the write raised.\<close>

definition took_one :: "execution_outcome \<Rightarrow> sink \<Rightarrow> sink \<Rightarrow> bool" where
  "took_one x s s' \<longleftrightarrow> (case sk_next s of
     Some e # es \<Rightarrow> s' = s\<lparr>sk_next := es\<rparr>
   | es \<Rightarrow> sk_next s' = tl es \<and> (\<exists>r. sk_records s' = sk_records s @ [r] \<and> au_outcome r = outcome_text x))"

definition audited :: "'b boundary \<Rightarrow> execution_result \<times> 'b boundary \<Rightarrow> bool" where
  "audited s = (\<lambda>(x, s'). list_all2 (took_one (xr_outcome x)) (bd_sinks s) (bd_sinks s') \<and>
     au_outcome (xr_audit x) = outcome_text (xr_outcome x))"

lemma journal_takes:
  assumes "journal_record r ss = (r', ss')" and "au_outcome r = outcome_text x"
  shows "list_all2 (took_one x) ss ss' \<and> au_outcome r' = outcome_text x"
proof -
  have "took_one x s (case write_sink r s of
           (Inr u, s') \<Rightarrow> if sk_memory s then s'\<lparr>sk_records := butlast (sk_records s') @ [r']\<rparr> else s'
         | (Inl e, s') \<Rightarrow> s')" if "au_outcome r' = outcome_text x" for s
    using that assms(2) by (auto simp: took_one_def write_sink_def split: list.split option.split)
  moreover have "au_outcome r' = outcome_text x" using assms by (auto simp: journal_record_def Let_def)
  ultimately show ?thesis using assms(1)
    by (auto simp: journal_record_def Let_def list_all2_conv_all_nth)
qed

lemma audited_conclude: "bd_sinks s = bd_sinks s0 \<Longrightarrow> audited s0 (conclude x bid reason rec s)"
  using journal_takes [of "rec\<lparr>au_outcome := outcome_text x\<rparr>" "bd_sinks s" _ _ x]
  by (auto simp: audited_def conclude_def split: prod.split)

lemma audited_refuse: "bd_sinks s = bd_sinks s0 \<Longrightarrow> audited s0 (refuse context r rec s)"
  by (auto simp: refuse_def Let_def audited_conclude split: refusal.split)

lemma persist_sinks [simp]: "bd_sinks (persist_block sv row st reason s) = bd_sinks s"
  by (simp add: persist_block_def split: option.split)

lemma audited_failed: "bd_sinks s = bd_sinks s0 \<Longrightarrow> audited s0 (submission_failed sv row e rec s)"
  by (simp add: submission_failed_def Let_def audited_conclude)

lemma audited_declined: "bd_sinks s = bd_sinks s0 \<Longrightarrow> audited s0 (declined sv row cid rec s)"
  by (auto simp: declined_def lookup_decline_reason_def Let_def split: prod.splits intro!: audited_conclude)

lemma record_fills_sinks: "record_fills sv n oid rec s = (rec', s') \<Longrightarrow> bd_sinks s' = bd_sinks s"
  by (auto simp: record_fills_def Let_def split: prod.splits sum.splits)

lemma audited_sent: "bd_sinks s = bd_sinks s0 \<Longrightarrow> audited s0 (sent_order sv row oid rec s)"
  by (auto simp: sent_order_def Let_def split: prod.splits option.splits if_splits dest: record_fills_sinks intro!: audited_conclude)

lemma audited_call: "bd_sinks s = bd_sinks s0 \<Longrightarrow> audited s0 (call_manager sv sg n rq row rec s)"
  by (auto simp: call_manager_def Let_def split: prod.split sum.split option.split
      intro!: audited_failed audited_declined audited_sent)

lemma audited_submission: "audited s (submit_to_broker sv al n rq ov rec s)"
  by (auto simp: submit_to_broker_def Let_def split: prod.split sum.split
      intro!: audited_failed audited_call audited_conclude)

lemma audited_cancel: "audited s (cancel_through_manager sv ref rec s)"
  by (auto simp: cancel_through_manager_def Let_def split: prod.split sum.split bool.split
      intro!: audited_refuse audited_conclude)

lemma audited_gated: "(\<And>rec'. audited s (body rec' s)) \<Longrightarrow> audited s (gated gate context sv rec body s)"
  by (auto simp: gated_def split: prod.split option.split intro!: audited_refuse)

lemma audited_attempt: "audited s (submit_signal sv al n rq s)" "audited s (submit_stop sv al n rq s)"
    "audited s (cancel_order_at_boundary sv ref symbol strategy s)"
  unfolding submit_signal_def submit_stop_def cancel_order_at_boundary_def
  by (intro audited_gated audited_submission audited_cancel)+

section \<open>Claimed before sent\<close>

text \<open>Every id in the log of sent orders is claimed in the account tables.\<close>

definition boundary_ok :: "'b boundary \<Rightarrow> bool" where
  "boundary_ok s \<longleftrightarrow> sends_ok (bd_world s) \<and> tables_ok (db_rows (bd_db s)) \<and>
     set (placed_tags (bd_world s)) \<subseteq> claimed_keys (db_rows (bd_db s))"

definition db_grows :: "(pyfloat \<Rightarrow> pyfloat) \<Rightarrow> db \<Rightarrow> db \<Rightarrow> bool" where
  "db_grows num d d' \<longleftrightarrow> db_rows d' = db_rows d \<or> ledger_step num (db_rows d) (db_rows d')"

lemma ok_db: "boundary_ok s \<Longrightarrow> db_grows num (bd_db s) d' \<Longrightarrow> boundary_ok (s\<lparr>bd_db := d'\<rparr>)"
  using step_ok step_ids by (fastforce simp: boundary_ok_def db_grows_def)

lemma ok_world:
  "boundary_ok s \<Longrightarrow> w_sent w' = w_sent (bd_world s) \<Longrightarrow> known (bd_world s) \<subseteq> known w' \<Longrightarrow> boundary_ok (s\<lparr>bd_world := w'\<rparr>)"
  by (auto simp: boundary_ok_def sends_ok_def placed_tags_def)

lemma ok_env: "boundary_ok s \<Longrightarrow> boundary_ok (s\<lparr>bd_world := (bd_world s)\<lparr>w_env := b\<rparr>\<rparr>)"
  by (rule ok_world) (simp_all add: known_def)

lemma ok_conclude: "boundary_ok s \<Longrightarrow> boundary_ok (snd (conclude x bid reason rec s))"
  by (simp add: boundary_ok_def)

lemma ok_refuse: "boundary_ok s \<Longrightarrow> boundary_ok (snd (refuse context r rec s))"
  by (simp add: boundary_ok_def)

lemma ok_persist: "boundary_ok s \<Longrightarrow> boundary_ok (persist_block sv row st reason s)"
  by (auto simp: persist_block_def db_grows_def block_step intro!: ok_db [where num = "sv_num sv"] split: option.split)

lemma ok_failed: "boundary_ok s \<Longrightarrow> boundary_ok (snd (submission_failed sv row e rec s))"
  by (simp add: submission_failed_def Let_def ok_conclude ok_persist)

lemma ok_declined: "boundary_ok s \<Longrightarrow> boundary_ok (snd (declined sv row cid rec s))"
proof -
  assume s: "boundary_ok s"
  have "boundary_ok (snd (lookup_decline_reason cid s))"
  proof (cases "cid = []")
    case False
    obtain f w where w: "st_get cid (bd_world s) = (f, w)" by fastforce
    show ?thesis using False w s calmD [OF calm_st_get w] by (simp add: lookup_decline_reason_def ok_world)
  qed (simp add: lookup_decline_reason_def s)
  then show ?thesis by (auto simp: declined_def Let_def ok_conclude ok_persist split: prod.split)
qed

lemma ok_fills:
  assumes "record_fills sv n oid rec s = (rec', s')" and "boundary_ok s"
  shows "boundary_ok s'"
proof -
  obtain r d where a: "attach_broker_order_id (sv_num sv) n oid (bd_db s) = (r, d)" by fastforce
  have 1: "boundary_ok (s\<lparr>bd_db := d\<rparr>)"
    using attach_step [OF a] assms(2) by (intro ok_db [where num = "sv_num sv"]) (simp_all add: db_grows_def)
  show ?thesis
  proof (cases r)
    case (Inl e)
    then show ?thesis using assms(1) a 1 by (simp add: record_fills_def Let_def)
  next
    case (Inr u)
    obtain q b d' where q: "sync_from_broker (sv_num sv) (sv_like sv) (sv_venue sv) (mode_text (sv_mode sv)) n oid
      (w_env (bd_world s), d) = (q, (b, d'))" by (metis surj_pair)
    then have "db_grows (sv_num sv) d d'"
      unfolding db_grows_def sync_from_broker_def using sync_step
      by (auto split: prod.splits) (metis snd_conv)+
    then have "boundary_ok (s\<lparr>bd_db := d'\<rparr>)"
      using ok_db [OF 1, of "sv_num sv" d'] by simp
    then have "boundary_ok ((s\<lparr>bd_db := d'\<rparr>)\<lparr>bd_world := (bd_world (s\<lparr>bd_db := d'\<rparr>))\<lparr>w_env := b\<rparr>\<rparr>)" by (rule ok_env)
    then show ?thesis using assms(1) a Inr q by (auto simp: record_fills_def Let_def boundary_ok_def)
  qed
qed

lemma ok_sent: "boundary_ok s \<Longrightarrow> boundary_ok (snd (sent_order sv row oid rec s))"
  by (auto simp: sent_order_def Let_def ok_conclude split: prod.splits option.splits if_splits intro: ok_fills ok_conclude)

lemma ok_call:
  assumes "boundary_ok s" and "sg_client_order_id sg \<in> claimed_keys (db_rows (bd_db s))"
  shows "boundary_ok (snd (call_manager sv sg n rq row rec s))"
proof -
  obtain r w where w: "submit_order (sv_om sv) sg n (rq_risk rq) (bd_world s) = (r, w)" by fastforce
  have "sends_ok w"
    using triple_snd [OF triple_submit_order] assms(1) w unfolding boundary_ok_def by (metis snd_conv)
  moreover have "one_send (sv_om sv) sg n (rq_risk rq) (w_env (bd_world s)) (w_sent (bd_world s)) (w_sent w)"
    using submit_sends_once [of "w_env (bd_world s)" "w_sent (bd_world s)" "sv_om sv" sg n "rq_risk rq"] w
    by (auto simp: sends_by_iff idle_def)
  then have "set (placed_tags w) \<subseteq> insert (sg_client_order_id sg) (set (placed_tags (bd_world s)))"
    by (auto simp: one_send_def placed_tags_def place_request_of_def)
  ultimately have "boundary_ok (s\<lparr>bd_world := w\<rparr>)" using assms by (auto simp: boundary_ok_def)
  then show ?thesis
    by (auto simp: call_manager_def w Let_def ok_failed ok_declined ok_sent split: sum.split option.split)
qed

lemma ok_submission:
  assumes "boundary_ok s" and "sv_persistent sv"
  shows "boundary_ok (snd (submit_to_broker sv al n rq ov rec s))"
proof (cases "to_order_intent (om_sha256 (sv_om sv)) al n rq ov rec")
  case (Pair i rec1)
  show ?thesis
  proof (cases i)
    case (Inl e)
    then show ?thesis using assms by (simp add: submit_to_broker_def Pair ok_failed)
  next
    case (Inr sg)
    obtain c d where c: "claim_idempotency_key (sv_num sv) sg n (bd_db s) = (c, d)" by fastforce
    note cs = claim_step [OF c]
    have "boundary_ok (s\<lparr>bd_db := d\<rparr>)"
      using cs assms(1) by (intro ok_db [where num = "sv_num sv"]) (simp_all add: db_grows_def)
    then show ?thesis
      using assms(2) cs by (auto simp: submit_to_broker_def Pair Inr c Let_def ok_failed ok_conclude ok_call split: sum.split)
  qed
qed

lemma ok_gated: "boundary_ok s \<Longrightarrow> (\<And>rec'. boundary_ok (snd (body rec' s))) \<Longrightarrow> boundary_ok (snd (gated gate context sv rec body s))"
  by (auto simp: gated_def ok_refuse split: prod.split option.split)

lemma ok_cancel: "boundary_ok s \<Longrightarrow> boundary_ok (snd (cancel_through_manager sv ref rec s))"
proof -
  assume s: "boundary_ok s"
  obtain r w where w: "cancel_order (sv_om sv) ref (bd_world s) = (r, w)" by fastforce
  have "boundary_ok (s\<lparr>bd_world := w\<rparr>)" using calmD [OF calm_cancel w] s by (simp add: ok_world)
  then show ?thesis
    by (auto simp: cancel_through_manager_def w Let_def ok_refuse ok_conclude split: sum.split bool.split)
qed

fun persistent_op :: "('b, 'w) boundary_op \<Rightarrow> bool" where
  "persistent_op (Enter sv al n rq) = sv_persistent sv"
| "persistent_op (Protect sv al n rq) = sv_persistent sv"
| "persistent_op (Withdraw sv ref symbol strategy) = True"
| "persistent_op (Move f) = True"

lemma ok_attempt: "boundary_ok s \<Longrightarrow> persistent_op x \<Longrightarrow> boundary_ok (snd (attempt_of x s))"
proof (cases x)
  case (Move f)
  then show "boundary_ok s \<Longrightarrow> ?thesis" by (simp add: ok_env)
qed (simp_all only: attempt_snd submit_signal_def submit_stop_def cancel_order_at_boundary_def persistent_op.simps
    ok_gated ok_submission ok_cancel)

lemma ok_run: "boundary_ok s \<Longrightarrow> list_all persistent_op xs \<Longrightarrow> boundary_ok (run_boundary xs s)"
  by (induction xs arbitrary: s) (auto intro: ok_attempt)

text \<open>An id in the account tables stays there, whatever happens at the boundary.\<close>

definition holds_key :: "string \<Rightarrow> 'b boundary \<Rightarrow> bool" where
  "holds_key k s \<longleftrightarrow> tables_ok (db_rows (bd_db s)) \<and> k \<in> claimed_keys (db_rows (bd_db s))"

lemma key_db: "holds_key k s \<Longrightarrow> db_grows num (bd_db s) d' \<Longrightarrow> holds_key k (s\<lparr>bd_db := d'\<rparr>)"
  using step_ok step_ids by (fastforce simp: holds_key_def db_grows_def)

lemma key_world [simp]: "holds_key k (s\<lparr>bd_world := w\<rparr>) = holds_key k s"
  by (simp add: holds_key_def)

lemma key_conclude [simp]: "holds_key k (snd (conclude x bid reason rec s)) = holds_key k s"
  by (simp add: holds_key_def)

lemma key_refuse [simp]: "holds_key k (snd (refuse context r rec s)) = holds_key k s"
  by (simp add: holds_key_def)

lemma key_persist: "holds_key k s \<Longrightarrow> holds_key k (persist_block sv row st reason s)"
  by (auto simp: persist_block_def db_grows_def block_step intro!: key_db [where num = "sv_num sv"] split: option.split)

lemma key_failed: "holds_key k s \<Longrightarrow> holds_key k (snd (submission_failed sv row e rec s))"
  by (simp add: submission_failed_def Let_def key_persist)

lemma key_declined: "holds_key k s \<Longrightarrow> holds_key k (snd (declined sv row cid rec s))"
proof -
  assume s: "holds_key k s"
  have "holds_key k (snd (lookup_decline_reason cid s))"
    using s by (simp add: lookup_decline_reason_def split: prod.split)
  then show ?thesis by (auto simp: declined_def Let_def key_persist split: prod.split)
qed

lemma key_fills:
  assumes "record_fills sv n oid rec s = (rec', s')" and "holds_key k s"
  shows "holds_key k s'"
proof -
  obtain r d where a: "attach_broker_order_id (sv_num sv) n oid (bd_db s) = (r, d)" by fastforce
  have 1: "holds_key k (s\<lparr>bd_db := d\<rparr>)"
    using attach_step [OF a] assms(2) by (intro key_db [where num = "sv_num sv"]) (simp_all add: db_grows_def)
  show ?thesis
  proof (cases r)
    case (Inl e)
    then show ?thesis using assms(1) a 1 by (simp add: record_fills_def Let_def)
  next
    case (Inr u)
    obtain q b d' where q: "sync_from_broker (sv_num sv) (sv_like sv) (sv_venue sv) (mode_text (sv_mode sv)) n oid
      (w_env (bd_world s), d) = (q, (b, d'))" by (metis surj_pair)
    then have "db_grows (sv_num sv) d d'"
      unfolding db_grows_def sync_from_broker_def using sync_step
      by (auto split: prod.splits) (metis snd_conv)+
    then have "holds_key k (s\<lparr>bd_db := d'\<rparr>)"
      using key_db [OF 1, of "sv_num sv" d'] by simp
    then show ?thesis using assms(1) a Inr q by (auto simp: record_fills_def Let_def holds_key_def)
  qed
qed

lemma key_sent: "holds_key k s \<Longrightarrow> holds_key k (snd (sent_order sv row oid rec s))"
  by (auto simp: sent_order_def Let_def split: prod.splits option.splits if_splits intro: key_fills)

lemma key_call: "holds_key k s \<Longrightarrow> holds_key k (snd (call_manager sv sg n rq row rec s))"
  by (auto simp: call_manager_def Let_def key_failed key_declined key_sent split: prod.split sum.split option.split)

lemma key_submission: "holds_key k s \<Longrightarrow> holds_key k (snd (submit_to_broker sv al n rq ov rec s))"
proof -
  assume s: "holds_key k s"
  have "holds_key k (s\<lparr>bd_db := d\<rparr>)" if "claim_idempotency_key (sv_num sv) sg n (bd_db s) = (c, d)" for sg c d
    using claim_step [OF that] s by (intro key_db [where num = "sv_num sv"]) (simp_all add: db_grows_def)
  then show ?thesis using s
    by (auto simp: submit_to_broker_def Let_def key_failed key_call split: prod.split sum.split)
qed

lemma key_gated: "holds_key k s \<Longrightarrow> (\<And>rec'. holds_key k (snd (body rec' s))) \<Longrightarrow> holds_key k (snd (gated gate context sv rec body s))"
  by (auto simp: gated_def split: prod.split option.split)

lemma key_cancel: "holds_key k s \<Longrightarrow> holds_key k (snd (cancel_through_manager sv ref rec s))"
  by (auto simp: cancel_through_manager_def Let_def split: prod.split sum.split bool.split)

lemma key_attempt: "holds_key k s \<Longrightarrow> holds_key k (snd (attempt_of x s))"
proof (cases x)
  case (Move f)
  then show "holds_key k s \<Longrightarrow> ?thesis" by simp
qed (simp_all only: attempt_snd submit_signal_def submit_stop_def cancel_order_at_boundary_def key_gated key_submission key_cancel)

lemma key_run: "holds_key k s \<Longrightarrow> holds_key k (run_boundary xs s)"
  by (induction xs arbitrary: s) (auto intro: key_attempt)

text \<open>A key in the account tables blocks the submission before the order manager is called.\<close>

lemma claimed_key_stops:
  assumes "sv_persistent sv" and "to_order_intent (om_sha256 (sv_om sv)) al n rq ov rec = (Inr sg, rec1)"
    and "sg_client_order_id sg \<in> claimed_keys (db_rows (bd_db s))"
  shows "bd_world (snd (submit_to_broker sv al n rq ov rec s)) = bd_world s \<and>
    \<not> submitted (fst (submit_to_broker sv al n rq ov rec s))"
proof -
  obtain c d where c: "claim_idempotency_key (sv_num sv) sg n (bd_db s) = (c, d)" by fastforce
  note cs = claim_step [OF c]
  show ?thesis
  proof (cases c)
    case (Inl e)
    have "\<exists>m. e = PyExn ''PersistenceUnavailable'' m"
      using c Inl by (auto simp: claim_idempotency_key_def ef_defs unavailable_def split: if_splits sum.splits prod.splits)
    then show ?thesis
      using assms(1,2) c Inl by (auto simp: submit_to_broker_def submission_failed_def Let_def is_kill_switch_exn_def
          is_ambiguous_exn_def persist_block_def submitted_def conclude_def reached_broker_def split: prod.split)
  next
    case (Inr sub)
    then have "sr_duplicate sub" using cs assms(3) by blast
    then show ?thesis using assms(1,2) c Inr
      by (simp add: submit_to_broker_def Let_def submitted_def conclude_def reached_broker_def split: prod.split)
  qed
qed

section \<open>The properties\<close>

lemma refused_gates: "fst (check_all_gates sv b rec) = Some (Blocked x reason) \<Longrightarrow> \<not> reached_broker x"
  by (auto simp: check_all_gates_def gate_kill_switch_def gate_trading_def gate_mode_def gate_eligibility_def reached_broker_def
      split: prod.splits option.splits sum.splits if_splits)

lemma refused_pair: "fst (run_gates [gate_kill_switch, gate_trading] sv b rec) = Some (Blocked x reason) \<Longrightarrow> \<not> reached_broker x"
  by (auto simp: gate_kill_switch_def gate_trading_def reached_broker_def split: prod.splits option.splits if_splits)

lemma refuse_unsent: "(\<And>x reason. r = Blocked x reason \<Longrightarrow> \<not> reached_broker x) \<Longrightarrow> \<not> submitted (fst (refuse context r rec s))"
  by (cases r) (auto simp: refuse_def conclude_def submitted_def reached_broker_def Let_def split: prod.split)

lemma gated_closed:
  assumes "fst (gate sv (w_env (bd_world s)) rec) = Some r" and "\<And>x reason. r = Blocked x reason \<Longrightarrow> \<not> reached_broker x"
  shows "\<not> submitted (fst (gated gate context sv rec body s))"
  using assms by (cases "gate sv (w_env (bd_world s)) rec") (simp add: gated_def refuse_unsent)

lemma closed_all:
  assumes "fst (check_all_gates sv (w_env (bd_world s)) rec) \<noteq> None"
  shows "\<not> submitted (fst (gated check_all_gates context sv rec body s))"
proof -
  obtain r where r: "fst (check_all_gates sv (w_env (bd_world s)) rec) = Some r" using assms by auto
  show ?thesis using r by (rule gated_closed) (use r in \<open>auto dest: refused_gates\<close>)
qed

lemma closed_pair:
  assumes "fst (run_gates [gate_kill_switch, gate_trading] sv (w_env (bd_world s)) rec) \<noteq> None"
  shows "\<not> submitted (fst (gated (run_gates [gate_kill_switch, gate_trading]) context sv rec body s))"
proof -
  obtain r where r: "fst (run_gates [gate_kill_switch, gate_trading] sv (w_env (bd_world s)) rec) = Some r" using assms by auto
  show ?thesis using r by (rule gated_closed) (use r in \<open>auto simp del: run_gates.simps dest: refused_pair\<close>)
qed

lemma attempt_fst:
  "fst (attempt_of (Enter sv al n rq) s) = Some (fst (submit_signal sv al n rq s))"
  "fst (attempt_of (Protect sv al n rq) s) = Some (fst (submit_stop sv al n rq s))"
  "fst (attempt_of (Withdraw sv ref symbol strategy) s) = Some (fst (cancel_order_at_boundary sv ref symbol strategy s))"
  by (simp_all split: prod.split)

text \<open>C11. An operation at the boundary that finds a gate closed changes neither the order manager's world nor
  the account tables, and its result says that nothing was sent. The gates of a submission: every kill
  switch is configured, readable and off, the startup recovery is \<open>READY\<close>, and in live mode the
  authorisation and a report that \<open>require_live_eligible\<close> lets through; a cancellation has the first two.\<close>

theorem closed_gate_changes_nothing:
  assumes "\<not> needs_open x (w_env (bd_world s))"
  shows "bd_world (snd (attempt_of x s)) = bd_world s \<and> bd_db (snd (attempt_of x s)) = bd_db s \<and>
    (case fst (attempt_of x s) of None \<Rightarrow> False | Some r \<Rightarrow> blocked r)"
proof -
  have keep: "bd_world (snd (attempt_of x s)) = bd_world s \<and> bd_db (snd (attempt_of x s)) = bd_db s"
    using gates_open [of x s] assms by blast
  have "\<exists>r. fst (attempt_of x s) = Some r \<and> \<not> submitted r"
  proof (cases x)
    case (Enter sv al n rq)
    then have "fst (check_all_gates sv (w_env (bd_world s)) (signal_record sv al n rq)) \<noteq> None"
      using all_gates_open assms by fastforce
    then show ?thesis using closed_all unfolding Enter attempt_fst submit_signal_def by blast
  next
    case (Protect sv al n rq)
    then have "fst (check_all_gates sv (w_env (bd_world s)) (stop_record sv al n rq)) \<noteq> None"
      using all_gates_open assms by fastforce
    then show ?thesis using closed_all unfolding Protect attempt_fst submit_stop_def by blast
  next
    case (Withdraw sv ref symbol strategy)
    have "fst (run_gates [gate_kill_switch, gate_trading] sv (w_env (bd_world s)) rec) \<noteq> None" for rec
    proof
      assume "fst (run_gates [gate_kill_switch, gate_trading] sv (w_env (bd_world s)) rec) = None"
      from run_gates_opens [OF this] show False
        using assms Withdraw by (auto simp: gate_kill_switch_opens gate_trading_opens)
    qed
    then show ?thesis using closed_pair unfolding Withdraw attempt_fst cancel_order_at_boundary_def by blast
  qed (use assms in simp)
  then show ?thesis using keep by (auto simp: blocked_def)
qed

text \<open>C13. Every operation at the boundary, whatever it ends in, adds exactly one record with its outcome to
  every sink of the journal whose write does not raise, and leaves the other sinks as they were.\<close>

theorem every_attempt_is_audited_once:
  "case fst (attempt_of x s) of
     None \<Rightarrow> bd_sinks (snd (attempt_of x s)) = bd_sinks s
   | Some r \<Rightarrow> list_all2 (took_one (xr_outcome r)) (bd_sinks s) (bd_sinks (snd (attempt_of x s))) \<and>
       au_outcome (xr_audit r) = outcome_text (xr_outcome r)"
proof (cases x)
  case (Enter sv al n rq)
  then show ?thesis using audited_attempt(1) [of s sv al n rq] by (simp add: audited_def split: prod.splits)
next
  case (Protect sv al n rq)
  then show ?thesis using audited_attempt(2) [of s sv al n rq] by (simp add: audited_def split: prod.splits)
next
  case (Withdraw sv ref symbol strategy)
  then show ?thesis using audited_attempt(3) [of s sv ref symbol strategy] by (simp add: audited_def split: prod.splits)
qed simp

text \<open>C12. Over any sequence of submissions, stops, cancellations and moves of the environment, by any
  services with a persistence, whatever fails: no client order id is sent twice, and every id sent is
  recorded in the order store and was claimed in the account tables.\<close>

theorem sent_orders_are_claimed:
  assumes "boundary_ok s" and "list_all persistent_op xs"
  shows "distinct (placed_tags (bd_world (run_boundary xs s))) \<and>
    set (placed_tags (bd_world (run_boundary xs s))) \<subseteq>
      claimed_keys (db_rows (bd_db (run_boundary xs s))) \<inter> known (bd_world (run_boundary xs s))"
  using ok_run [OF assms] by (simp add: boundary_ok_def sends_ok_def)

text \<open>C14. A signal whose id is in the account tables is not sent again, whatever fails: the order manager is
  not called, and the result says that nothing was sent.\<close>

theorem claimed_signal_is_not_resent:
  assumes "sv_persistent sv"
    and "fst (to_order_intent (om_sha256 (sv_om sv)) al n rq no_overrides (new_record [] [] [])) = Inr sg"
    and "sg_client_order_id sg \<in> claimed_keys (db_rows (bd_db s))"
  shows "bd_world (snd (submit_signal sv al n rq s)) = bd_world s \<and> blocked (fst (submit_signal sv al n rq s))"
proof -
  let ?b = "w_env (bd_world s)" and ?rec = "signal_record sv al n rq"
  obtain g rec' where g: "check_all_gates sv ?b ?rec = (g, rec')" by fastforce
  show ?thesis
  proof (cases g)
    case (Some r)
    then have "\<not> submitted (fst (submit_signal sv al n rq s))"
      unfolding submit_signal_def using g by (intro closed_all) simp
    then show ?thesis using g Some by (simp add: submit_signal_def gated_def blocked_def)
  next
    case None
    obtain rec2 where "to_order_intent (om_sha256 (sv_om sv)) al n rq no_overrides rec' = (Inr sg, rec2)"
      using assms(2) by (auto simp: to_order_intent_def Let_def split: sum.splits)
    from claimed_key_stops [OF assms(1) this assms(3)] show ?thesis
      by (simp add: submit_signal_def gated_def g None blocked_def)
  qed
qed

section \<open>Concrete runs\<close>

definition demo_venue :: "unit venue" where
  "demo_venue = \<lparr>ve_status = (\<lambda>_. ef_return [(''status'', PStr ''OPEN''), (''filled_qty'', PInt 0)]), ve_trades = ef_return []\<rparr>"

definition paper_manager :: "unit Order_Manager.manager" where
  "paper_manager = demo_manager\<lparr>om_broker := open_broker\<lparr>br_paper_class := True,
     br_get_quote := (\<lambda>_. ef_return [(''NSE:INFY'', [(''last_price'', NFloat (Fin 1500))])])\<rparr>\<rparr>"

definition demo_service :: "(unit, unit) service" where
  "demo_service = \<lparr>sv_mode = PAPER, sv_om = paper_manager, sv_probes = [(''store'', \<lambda>_. Inr False)],
     sv_recovery = Some ((new_manager ())\<lparr>mg_state := READY\<rparr>), sv_provider = None, sv_live_authorized = False,
     sv_persistent = True, sv_num = id, sv_like = starts_with, sv_venue = demo_venue, sv_clock = 0,
     sv_gathered = Inl (PyExn [] []), sv_uuid = ''u1'', sv_timestamp = ''t1''\<rparr>"

definition demo_alpha :: alpha where
  "demo_alpha = \<lparr>al_symbol = ''INFY'', al_direction = LONG, al_strategy = ''swing'', al_timestamp = ''t0'', al_signal_date = ''d0'',
     al_edge = Fin 1, al_return = Fin 1, al_return_std = Fin 1, al_stop_pct = fl (2 / 100), al_target_pct = fl (4 / 100),
     al_horizon = 5, al_model_name = None, al_model_version = None\<rparr>"

definition demo_request :: request where
  "demo_request = \<lparr>rq_exchange = ''NSE'', rq_product = None, rq_price = Fin 1500, rq_key = Some ''swing1'', rq_allocation = None,
     rq_risk = demo_args\<rparr>"

definition demo_boundary :: "Order_Manager.outcome list \<Rightarrow> unit boundary" where
  "demo_boundary os = \<lparr>bd_world = fresh_world empty_store os (), bd_db = demo_account, bd_sinks = [memory_sink]\<rparr>"

lemma demo_ok: "boundary_ok (demo_boundary os)"
proof -
  have "placed_tags (fresh_world empty_store os ()) = []" by (simp add: placed_tags_def fresh_world_def)
  then show ?thesis by (simp add: boundary_ok_def demo_boundary_def fresh_sends_ok demo_tables)
qed

theorem closed_gate_changes_nothing_witness:
  "bd_world (snd (attempt_of (Protect (demo_service\<lparr>sv_probes := []\<rparr>) demo_alpha 10 demo_request) (demo_boundary []))) =
     fresh_world empty_store [] ()"
  using closed_gate_changes_nothing [of "Protect (demo_service\<lparr>sv_probes := []\<rparr>) demo_alpha 10 demo_request" "demo_boundary []"]
  by (simp add: switches_off_def demo_boundary_def del: attempt_of.simps)

theorem sent_orders_are_claimed_witness:
  "distinct (placed_tags (bd_world (run_boundary [Enter demo_service demo_alpha 10 demo_request,
     Enter demo_service demo_alpha 10 demo_request, Protect demo_service demo_alpha 10 demo_request] (demo_boundary [Works, Lost]))))"
  using sent_orders_are_claimed [OF demo_ok, of "[Enter demo_service demo_alpha 10 demo_request,
     Enter demo_service demo_alpha 10 demo_request, Protect demo_service demo_alpha 10 demo_request]" "[Works, Lost]"]
  by (simp add: demo_service_def del: run_boundary.simps)

definition demo_intent :: signal where
  "demo_intent = \<lparr>sg_symbol = ''INFY'', sg_exchange = ''NSE'', sg_txn = BUY, sg_order_type = MARKET, sg_product = CNC,
     sg_price = Fin 1500, sg_stop_price = stop_trigger None BUY (Fin 1500) (fl (2 / 100)), sg_strategy = ''swing'', sg_tag = [],
     sg_client_order_id = ''swing1'', sg_intent_kind = ''entry''\<rparr>"

lemma demo_translated: "fst (to_order_intent (om_sha256 (sv_om demo_service)) demo_alpha 10 demo_request no_overrides rec) = Inr demo_intent"
proof -
  have "py_lower ''swing'' \<noteq> ''intraday''" "ftruthy (fl (2 / 100))" by code_simp+
  then show ?thesis
    by (simp add: to_order_intent_def demo_request_def demo_alpha_def no_overrides_def demo_intent_def ftruthy_def Let_def)
qed

definition demo_entered :: db where
  "demo_entered = snd (claim_idempotency_key id demo_intent 10 demo_account)"

theorem claimed_signal_is_not_resent_witness:
  "bd_world (snd (submit_signal demo_service demo_alpha 10 demo_request ((demo_boundary [])\<lparr>bd_db := demo_entered\<rparr>))) =
     fresh_world empty_store [] ()"
proof -
  have "''swing1'' \<in> claimed_keys (db_rows demo_entered)" by code_simp
  then show ?thesis
    using claimed_signal_is_not_resent [of demo_service demo_alpha 10 demo_request demo_intent "(demo_boundary [])\<lparr>bd_db := demo_entered\<rparr>"]
      demo_translated by (simp add: demo_service_def demo_boundary_def demo_intent_def)
qed

section \<open>A late failure of the order store\<close>

text \<open>Nothing stands between the signal and the broker: the gates of the boundary are open, the signal translates to
  the order \<open>sg\<close>, its id can be claimed, the order manager's own gates pass, and neither a record of the
  id nor an unresolved order of its instrument and strategy is in the store.\<close>

definition sendable :: "('b, 'w) service \<Rightarrow> alpha \<Rightarrow> int \<Rightarrow> request \<Rightarrow> signal \<Rightarrow> 'b boundary \<Rightarrow> bool" where
  "sendable sv al n rq sg s \<longleftrightarrow>
     fst (check_all_gates sv (w_env (bd_world s)) (signal_record sv al n rq)) = None \<and>
     fst (to_order_intent (om_sha256 (sv_om sv)) al n rq no_overrides (signal_record sv al n rq)) = Inr sg \<and>
     (sv_persistent sv \<longrightarrow> (case fst (claim_idempotency_key (sv_num sv) sg n (bd_db s)) of
        Inl _ \<Rightarrow> False | Inr claim \<Rightarrow> \<not> sr_duplicate claim)) \<and>
     gates_passed (sv_om sv) sg n (rq_risk rq) (w_env (bd_world s)) \<and> unblocked sg (bd_world s)"

lemma intent_any_record: "fst (to_order_intent sha al n rq ov rec) = fst (to_order_intent sha al n rq ov rec')"
  by (auto simp: to_order_intent_def Let_def split: sum.split)

lemma sendable_reaches_manager:
  assumes "sendable sv al n rq sg s"
  shows "\<exists>row rec d. submit_signal sv al n rq s = call_manager sv sg n rq row rec (s\<lparr>bd_db := d\<rparr>)"
proof -
  obtain rec' where g: "check_all_gates sv (w_env (bd_world s)) (signal_record sv al n rq) = (None, rec')"
    using assms unfolding sendable_def by (metis prod.collapse)
  obtain rec2 where i: "to_order_intent (om_sha256 (sv_om sv)) al n rq no_overrides rec' = (Inr sg, rec2)"
    using assms intent_any_record [of _ al n rq no_overrides "signal_record sv al n rq" rec']
    unfolding sendable_def by (metis prod.collapse)
  show ?thesis
  proof (cases "sv_persistent sv")
    case True
    then obtain c d where "claim_idempotency_key (sv_num sv) sg n (bd_db s) = (Inr c, d)" "\<not> sr_duplicate c"
      using assms unfolding sendable_def
      by (cases "claim_idempotency_key (sv_num sv) sg n (bd_db s)") (auto split: sum.splits)
    then show ?thesis by (auto simp: submit_signal_def gated_def g submit_to_broker_def i True)
  next
    case False
    then have "submit_signal sv al n rq s = call_manager sv sg n rq None rec2 (s\<lparr>bd_db := bd_db s\<rparr>)"
      by (simp add: submit_signal_def gated_def g submit_to_broker_def i)
    then show ?thesis by blast
  qed
qed

text \<open>C15. The order store can fail after the order is out. Take any signal that nothing stands in the way of, and a broker
  that accepts its order under the id \<open>oid\<close>: when the store takes the five writes up to \<open>SUBMITTED\<close> and fails on the one
  that follows the acceptance, the order is at the broker and in the log of sent orders, and its record still says
  \<open>SUBMITTED\<close>, but the result of the boundary is \<open>BLOCKED_RISK\<close>, says that nothing was sent, and does not carry the id.\<close>

theorem store_failure_reads_as_unsent:
  assumes "sendable sv al n rq sg s" and "w_outcomes (bd_world s) = replicate 5 Works @ Fails # os"
    and "br_place_order (om_broker (sv_om sv)) (place_request_of sg n (trigger_of sg))
      (snd (resolve_reference_price (sv_om sv) sg (w_env (bd_world s)))) = (Inr oid, b)"
  shows "\<exists>x s' r. submit_signal sv al n rq s = (x, s') \<and>
    w_sent (bd_world s') = w_sent (bd_world s) @ [Placed (place_request_of sg n (trigger_of sg)) (Some r)] \<and>
    w_env (bd_world s') = b \<and> mem_get (sg_client_order_id sg) (w_store (bd_world s')) = Some r \<and> r_state r = SUBMITTED \<and>
    xr_outcome x = O_BLOCKED_RISK \<and> \<not> submitted x \<and> blocked x \<and> xr_broker_id x = None"
proof -
  obtain r w' m where w: "submit_order (sv_om sv) sg n (rq_risk rq) (bd_world s) = (Inl (PersistenceError m), w')"
    "w_env w' = b" "w_sent w' = w_sent (bd_world s) @ [Placed (place_request_of sg n (trigger_of sg)) (Some r)]"
    "mem_get (sg_client_order_id sg) (w_store w') = Some r" "r_state r = SUBMITTED"
    using submit_fails_late [OF _ _ assms(2,3), of "rq_risk rq"] assms(1) by (auto simp: sendable_def)
  obtain row rec d where c: "submit_signal sv al n rq s = call_manager sv sg n rq row rec (s\<lparr>bd_db := d\<rparr>)"
    using sendable_reaches_manager [OF assms(1)] by blast
  have pb: "bd_world (persist_block sv row st reason x) = bd_world x" for row st reason and x :: "'a boundary"
    by (simp add: persist_block_def split: option.split)
  have "xr_outcome (fst (conclude O_BLOCKED_RISK None reason rec' s')) = O_BLOCKED_RISK \<and>
      xr_broker_id (fst (conclude O_BLOCKED_RISK None reason rec' s')) = None" for reason rec' and s' :: "'a boundary"
    by (simp add: conclude_def split: prod.split)
  then show ?thesis
    unfolding c
    by (simp add: call_manager_def w(1) submission_failed_def is_kill_switch_exn_def is_ambiguous_exn_def Let_def pb
        prod_eq_iff blocked_def submitted_def reached_broker_def) (use w in blast)
qed

lemma demo_sendable:
  "sendable demo_service demo_alpha 10 demo_request demo_intent (demo_boundary (replicate 5 Works @ [Fails]))"
  by code_simp

theorem store_failure_reads_as_unsent_witness:
  "\<exists>x s' r. submit_signal demo_service demo_alpha 10 demo_request (demo_boundary (replicate 5 Works @ [Fails])) = (x, s') \<and>
     w_sent (bd_world s') = [Placed (place_request_of demo_intent 10 None) (Some r)] \<and> xr_outcome x = O_BLOCKED_RISK \<and> \<not> submitted x"
proof -
  have p: "br_place_order (om_broker (sv_om demo_service)) (place_request_of demo_intent 10 (trigger_of demo_intent))
      (snd (resolve_reference_price (sv_om demo_service) demo_intent (w_env (bd_world (demo_boundary (replicate 5 Works @ [Fails])))))) =
    (Inr ''B1'', ())" by code_simp
  have "w_outcomes (bd_world (demo_boundary (replicate 5 Works @ [Fails]))) = replicate 5 Works @ [Fails]"
    by (simp add: demo_boundary_def fresh_world_def)
  moreover have "trigger_of demo_intent = None" by code_simp
  moreover have "w_sent (bd_world (demo_boundary os)) = []" for os by (simp add: demo_boundary_def fresh_world_def)
  ultimately show ?thesis
    using store_failure_reads_as_unsent [OF demo_sendable _ p, of "[]"] by auto
qed

end
