(* ===== verification/Allocator.thy ===== *)
theory Allocator
  imports Py_Value
begin

text \<open>
  \<open>app/portfolio/allocator.py\<close>: how much of the available capital goes to the long-term, the swing and
  the intraday sleeve and how much stays in cash, with the regime table of \<open>app/risk/regime.py\<close>. A
  dictionary over the three sleeves is a function of the sleeve; \<open>sum\<close> adds from the left, as in
  Python 3.11. The text of the explanation is left out.
\<close>

section \<open>Sleeves, regimes, health\<close>

datatype sleeve = Longterm | Swing | Intraday

definition SLEEVES :: "sleeve list" where
  "SLEEVES = [Longterm, Swing, Intraday]"

fun sleeve_name :: "sleeve \<Rightarrow> string" where
  "sleeve_name Longterm = ''longterm''"
| "sleeve_name Swing = ''swing''"
| "sleeve_name Intraday = ''intraday''"

datatype market_regime = STRONG_BULL | WEAK_BULL | SIDEWAYS | WEAK_BEAR | STRONG_BEAR | HIGH_VOL | PANIC | RECOVERY

fun regime_text :: "market_regime \<Rightarrow> string" where
  "regime_text STRONG_BULL = ''STRONG_BULL''"
| "regime_text WEAK_BULL = ''WEAK_BULL''"
| "regime_text SIDEWAYS = ''SIDEWAYS''"
| "regime_text WEAK_BEAR = ''WEAK_BEAR''"
| "regime_text STRONG_BEAR = ''STRONG_BEAR''"
| "regime_text HIGH_VOL = ''HIGH_VOL''"
| "regime_text PANIC = ''PANIC''"
| "regime_text RECOVERY = ''RECOVERY''"

definition all_regimes :: "market_regime list" where
  "all_regimes = [STRONG_BULL, WEAK_BULL, SIDEWAYS, WEAK_BEAR, STRONG_BEAR, HIGH_VOL, PANIC, RECOVERY]"

definition by_sleeve :: "'a \<Rightarrow> 'a \<Rightarrow> 'a \<Rightarrow> sleeve \<Rightarrow> 'a" where
  "by_sleeve x y z s = (case s of Longterm \<Rightarrow> x | Swing \<Rightarrow> y | Intraday \<Rightarrow> z)"

definition percents :: "rat \<Rightarrow> rat \<Rightarrow> rat \<Rightarrow> sleeve \<Rightarrow> pyfloat" where
  "percents x y z = by_sleeve (fl (x / 100)) (fl (y / 100)) (fl (z / 100))"

fun REGIME_SLEEVE_MULTIPLIERS :: "market_regime \<Rightarrow> sleeve \<Rightarrow> pyfloat" where
  "REGIME_SLEEVE_MULTIPLIERS STRONG_BULL = percents 100 100 100"
| "REGIME_SLEEVE_MULTIPLIERS WEAK_BULL = percents 85 75 65"
| "REGIME_SLEEVE_MULTIPLIERS RECOVERY = percents 75 55 45"
| "REGIME_SLEEVE_MULTIPLIERS SIDEWAYS = percents 60 55 50"
| "REGIME_SLEEVE_MULTIPLIERS HIGH_VOL = percents 45 30 20"
| "REGIME_SLEEVE_MULTIPLIERS WEAK_BEAR = percents 35 20 15"
| "REGIME_SLEEVE_MULTIPLIERS STRONG_BEAR = percents 20 10 5"
| "REGIME_SLEEVE_MULTIPLIERS PANIC = percents 15 0 0"

datatype strategy_health = HEALTHY | REDUCED | PAUSED | DISABLED

fun health_text :: "strategy_health \<Rightarrow> string" where
  "health_text HEALTHY = ''HEALTHY''"
| "health_text REDUCED = ''REDUCED''"
| "health_text PAUSED = ''PAUSED''"
| "health_text DISABLED = ''DISABLED''"

fun health_multiplier :: "strategy_health \<Rightarrow> pyfloat" where
  "health_multiplier HEALTHY = Fin 1"
| "health_multiplier REDUCED = Fin (1 / 2)"
| "health_multiplier PAUSED = Fin 0"
| "health_multiplier DISABLED = Fin 0"

section \<open>Inputs\<close>

text \<open>What \<open>regime\<close> may be: nothing, a member, a text, another object with or without a
  \<open>price_regime\<close>.\<close>

datatype regime_arg = No_Regime | Member market_regime | Regime_Text string | Regime_Object "regime_arg option"

datatype health_arg = Health strategy_health | Health_Text string | Health_Object

record allocator =
  al_sharpe :: "(string \<times> pyfloat) list"
  al_min_opp :: pyfloat
  al_min_total :: pyfloat
  al_full :: pyfloat

definition DEFAULT_SHARPE :: "(string \<times> pyfloat) list" where
  "DEFAULT_SHARPE = [(''longterm'', Fin (3 / 4)), (''swing'', fl (65 / 100)), (''intraday'', fl (55 / 100))]"

definition FULL_DEPLOYMENT_SCORE :: pyfloat where
  "FULL_DEPLOYMENT_SCORE = py_sum (map snd DEFAULT_SHARPE)"

text \<open>The constructor, which keeps the default scores when it is given none.\<close>

definition new_allocator :: "(string \<times> pyfloat) list \<Rightarrow> pyfloat \<Rightarrow> pyfloat \<Rightarrow> pyfloat \<Rightarrow> allocator res" where
  "new_allocator sharpe min_opp min_total full =
     (if \<not> isfinite full \<or> full \<le> Fin 0 then Inl (ValueError ''full_deployment_score must be finite and > 0'')
      else Inr \<lparr>al_sharpe = (if sharpe = [] then DEFAULT_SHARPE else sharpe), al_min_opp = min_opp,
                al_min_total = min_total, al_full = full\<rparr>)"

definition as_finite_number :: "pyval \<Rightarrow> pyfloat res" where
  "as_finite_number v = (case py_float v of
     Inl (TypeError m) \<Rightarrow> Inl (ValueError ''must be a number'')
   | Inl (ValueError m) \<Rightarrow> Inl (ValueError ''must be a number'')
   | Inl e \<Rightarrow> Inl e
   | Inr x \<Rightarrow> if isfinite x then Inr x else Inl (ValueError ''must be finite''))"

section \<open>Settings\<close>

record settings =
  se_enabled :: "sleeve \<Rightarrow> bool"
  se_cap :: "sleeve \<Rightarrow> pyfloat"
  se_min_cash :: pyfloat

definition DEFAULT_USER_SETTINGS :: row where
  "DEFAULT_USER_SETTINGS = [(''longterm_enabled'', PBool True), (''swing_enabled'', PBool True), (''intraday_enabled'', PBool True),
     (''max_intraday_pct'', PFloat (fl (10 / 100))), (''max_swing_pct'', PFloat (fl (40 / 100))),
     (''max_longterm_pct'', PFloat (fl (80 / 100))), (''min_cash_pct'', PFloat (fl (5 / 100)))]"

fun cap_key :: "sleeve \<Rightarrow> string" where
  "cap_key Longterm = ''max_longterm_pct''"
| "cap_key Swing = ''max_swing_pct''"
| "cap_key Intraday = ''max_intraday_pct''"

fun enabled_key :: "sleeve \<Rightarrow> string" where
  "enabled_key Longterm = ''longterm_enabled''"
| "enabled_key Swing = ''swing_enabled''"
| "enabled_key Intraday = ''intraday_enabled''"

text \<open>\<open>{**defaults, **user}[key]\<close>.\<close>

definition setting :: "row \<Rightarrow> string \<Rightarrow> pyval" where
  "setting user k = (case map_of user k of Some v \<Rightarrow> v | None \<Rightarrow> row_get DEFAULT_USER_SETTINGS k)"

definition fraction :: "pyval \<Rightarrow> pyfloat res" where
  "fraction v = res_bind (py_float v) (\<lambda>x.
     if \<not> isfinite x \<or> \<not> (Fin 0 \<le> x \<and> x \<le> Fin 1) then Inl (ValueError ''must be a fraction in [0, 1]'') else Inr x)"

definition resolve_settings :: "row \<Rightarrow> settings res" where
  "resolve_settings user =
     (if \<not> (\<forall>k \<in> set (map fst user). k \<in> set (map fst DEFAULT_USER_SETTINGS)) then Inl (ValueError ''Unknown user_settings key'')
      else res_bind (fraction (setting user (cap_key Longterm))) (\<lambda>lt.
        res_bind (fraction (setting user (cap_key Swing))) (\<lambda>sw.
        res_bind (fraction (setting user (cap_key Intraday))) (\<lambda>day.
        res_bind (fraction (setting user ''min_cash_pct'')) (\<lambda>cash.
        Inr \<lparr>se_enabled = (\<lambda>s. truthy (setting user (enabled_key s))), se_cap = by_sleeve lt sw day, se_min_cash = cash\<rparr>)))))"

section \<open>Scores, regime and health\<close>

text \<open>\<open>market_data\<close> with its two dictionaries; the first that is not empty counts.\<close>

record market_data =
  md_scores :: "row option"
  md_sharpe :: "row option"

definition score_override :: "market_data option \<Rightarrow> row" where
  "score_override md = (case md of None \<Rightarrow> [] | Some m \<Rightarrow>
     (case md_scores m of Some (kv # kvs) \<Rightarrow> kv # kvs
      | _ \<Rightarrow> (case md_sharpe m of Some kvs \<Rightarrow> kvs | None \<Rightarrow> [])))"

fun override_scores :: "row \<Rightarrow> sleeve list \<Rightarrow> (sleeve \<Rightarrow> pyfloat) \<Rightarrow> (sleeve \<Rightarrow> pyfloat) res" where
  "override_scores ov [] scores = Inr scores"
| "override_scores ov (s # ss) scores = (case map_of ov (sleeve_name s) of
     None \<Rightarrow> override_scores ov ss scores
   | Some v \<Rightarrow> res_bind (as_finite_number v) (\<lambda>x. override_scores ov ss (scores(s := x))))"

definition resolve_base_scores :: "allocator \<Rightarrow> market_data option \<Rightarrow> (sleeve \<Rightarrow> pyfloat) res" where
  "resolve_base_scores al md =
     res_bind (override_scores (score_override md) SLEEVES
       (\<lambda>s. case map_of (al_sharpe al) (sleeve_name s) of Some x \<Rightarrow> x | None \<Rightarrow> Fin (1 / 2))) (\<lambda>scores.
     if (\<exists>s \<in> set SLEEVES. scores s < Fin 0) then Inl (ValueError ''Base opportunity score is negative'') else Inr scores)"

definition regime_of_text :: "string \<Rightarrow> market_regime option" where
  "regime_of_text s = List.find (\<lambda>r. regime_text r = s) all_regimes"

definition regime_sleeve_multipliers :: "regime_arg \<Rightarrow> (market_regime \<times> (sleeve \<Rightarrow> pyfloat)) res" where
  "regime_sleeve_multipliers r = (case r of
     Member m \<Rightarrow> Inr (m, REGIME_SLEEVE_MULTIPLIERS m) | _ \<Rightarrow> Inl (KeyError ''Unknown market regime''))"

definition price_regime :: "regime_arg \<Rightarrow> regime_arg" where
  "price_regime r = (case r of
     Regime_Object (Some No_Regime) \<Rightarrow> r | Regime_Object (Some p) \<Rightarrow> p | _ \<Rightarrow> r)"

definition resolve_regime :: "regime_arg \<Rightarrow> (market_regime \<times> (sleeve \<Rightarrow> pyfloat)) res" where
  "resolve_regime r = (case r of No_Regime \<Rightarrow> Inl (ValueError ''regime is required'')
     | _ \<Rightarrow> (case price_regime r of
         Regime_Text s \<Rightarrow> (case regime_of_text (py_upper (py_strip s)) of
             None \<Rightarrow> Inl (KeyError ''Unknown market regime'') | Some m \<Rightarrow> regime_sleeve_multipliers (Member m))
       | p \<Rightarrow> regime_sleeve_multipliers p))"

definition health_of_text :: "string \<Rightarrow> strategy_health option" where
  "health_of_text s =
     (if s = ''ACTIVE'' then Some HEALTHY else if s = ''STOPPED'' then Some DISABLED
      else List.find (\<lambda>h. health_text h = s) [HEALTHY, REDUCED, PAUSED, DISABLED])"

definition resolve_health :: "(string \<times> health_arg) list \<Rightarrow> sleeve \<Rightarrow> strategy_health res" where
  "resolve_health hm s = (case map_of hm (sleeve_name s) of
     None \<Rightarrow> Inr HEALTHY
   | Some (Health h) \<Rightarrow> Inr h
   | Some (Health_Text t) \<Rightarrow> (case health_of_text (py_upper (py_strip t)) of
        None \<Rightarrow> Inl (KeyError ''Unknown strategy health'') | Some h \<Rightarrow> Inr h)
   | Some Health_Object \<Rightarrow> Inl (KeyError ''Unknown strategy health''))"

section \<open>Rupees\<close>

text \<open>\<open>_floor_paise\<close>: down to whole paise, with a millionth of a paisa of tolerance.\<close>

definition floor_paise :: "pyfloat \<Rightarrow> pyfloat res" where
  "floor_paise v = (if v \<le> Fin 0 then Inr (Fin 0)
     else res_bind (to_int (v * Fin 100 + fl (1 / 10 ^ 6))) (\<lambda>k. fdiv (fint k) (Fin 100)))"

record allocation =
  an_amount :: "sleeve \<Rightarrow> pyfloat"
  an_cash :: pyfloat
  an_available :: pyfloat
  an_risk :: "sleeve \<Rightarrow> pyfloat"
  an_regime :: string
  an_scores :: "sleeve \<Rightarrow> pyfloat"
  an_confidence :: pyfloat
  an_fraction :: pyfloat

definition deployed_amount :: "allocation \<Rightarrow> pyfloat" where
  "deployed_amount x = an_amount x Longterm + an_amount x Swing + an_amount x Intraday"

definition validate_allocation :: "allocation \<Rightarrow> pyfloat \<Rightarrow> bool" where
  "validate_allocation x tolerance \<longleftrightarrow>
     \<bar>an_amount x Longterm + an_amount x Swing + an_amount x Intraday + an_cash x - an_available x\<bar> \<le> tolerance"

definition flat_allocation :: "pyfloat \<Rightarrow> allocation" where
  "flat_allocation available = \<lparr>an_amount = (\<lambda>_. Fin 0), an_cash = available, an_available = available,
     an_risk = (\<lambda>_. Fin 0), an_regime = ''UNKNOWN'', an_scores = (\<lambda>_. Fin 0), an_confidence = Fin 1, an_fraction = Fin 0\<rparr>"

definition broken :: "string \<Rightarrow> 'a res" where
  "broken m = Inl (AllocationInvariantError m)"

definition verify_tolerance :: "pyfloat \<Rightarrow> pyfloat" where
  "verify_tolerance available = fmax (fl (1 / 10 ^ 6)) (\<bar>available\<bar> * fl (1 / 10 ^ 12))"

fun verify_sleeves :: "allocation \<Rightarrow> settings \<Rightarrow> pyfloat \<Rightarrow> sleeve list \<Rightarrow> unit res" where
  "verify_sleeves x se eps [] = Inr ()"
| "verify_sleeves x se eps (s # ss) =
     (if an_amount x s < - eps then broken ''allocation is negative''
      else if se_cap se s * an_available x + eps < an_amount x s then broken ''allocation exceeds the user cap''
      else if \<not> se_enabled se s \<and> eps < an_amount x s then broken ''sleeve is disabled by the user''
      else verify_sleeves x se eps ss)"

definition verify_allocation :: "allocation \<Rightarrow> settings \<Rightarrow> unit res" where
  "verify_allocation x se =
     (let available = an_available x; eps = verify_tolerance available;
          score = py_sum (map (an_amount x) SLEEVES) + an_cash x in
      if eps < \<bar>score - available\<bar> then broken ''Allocation does not sum to available capital''
      else res_bind (verify_sleeves x se eps SLEEVES) (\<lambda>_.
        if an_cash x < se_min_cash se * available - eps then broken ''Cash is below the user's minimum'' else Inr ()))"

section \<open>The allocation\<close>

text \<open>\<open>np.clip(x, 0.0, 1.0)\<close> and \<open>np.mean\<close> of three numbers.\<close>

definition unit_clip :: "pyfloat \<Rightarrow> pyfloat" where
  "unit_clip x = (if x < Fin 0 then Fin 0 else if Fin 1 < x then Fin 1 else x)"

definition mean3 :: "pyfloat \<Rightarrow> pyfloat \<Rightarrow> pyfloat \<Rightarrow> pyfloat" where
  "mean3 x y z = fquot (x + y + z) (Fin 3)"

definition mean_of :: "(sleeve \<Rightarrow> pyfloat) \<Rightarrow> pyfloat" where
  "mean_of f = mean3 (f Longterm) (f Swing) (f Intraday)"

text \<open>The scores of the sleeves the user enabled, those below the minimum as zero.\<close>

definition raw_scores :: "settings \<Rightarrow> (sleeve \<Rightarrow> pyfloat) \<Rightarrow> (sleeve \<Rightarrow> pyfloat) \<Rightarrow> (sleeve \<Rightarrow> strategy_health) \<Rightarrow> sleeve \<Rightarrow> pyfloat" where
  "raw_scores se base mults health s =
     (if se_enabled se s then base s * mults s * health_multiplier (health s) else Fin 0)"

definition filtered_scores :: "allocator \<Rightarrow> (sleeve \<Rightarrow> pyfloat) \<Rightarrow> sleeve \<Rightarrow> pyfloat" where
  "filtered_scores al raw s = (if al_min_opp al \<le> raw s then raw s else Fin 0)"

definition deployed_fraction :: "allocator \<Rightarrow> pyfloat \<Rightarrow> pyfloat" where
  "deployed_fraction al score = (if score < al_min_total al then Fin 0 else unit_clip (fquot score (al_full al)))"

definition target_deploy :: "settings \<Rightarrow> pyfloat \<Rightarrow> pyfloat \<Rightarrow> pyfloat" where
  "target_deploy se available intensity = (available - se_min_cash se * available) * intensity"

text \<open>The amount of one sleeve: its share of the target, at most its cap, in whole paise.\<close>

definition sleeve_amount :: "settings \<Rightarrow> pyfloat \<Rightarrow> (sleeve \<Rightarrow> pyfloat) \<Rightarrow> pyfloat \<Rightarrow> pyfloat \<Rightarrow> sleeve \<Rightarrow> pyfloat res" where
  "sleeve_amount se available filtered score target s =
     floor_paise (fmin (fquot (filtered s) score * target) (se_cap se s * available))"

definition sleeve_amounts :: "settings \<Rightarrow> pyfloat \<Rightarrow> (sleeve \<Rightarrow> pyfloat) \<Rightarrow> pyfloat \<Rightarrow> pyfloat \<Rightarrow> (sleeve \<Rightarrow> pyfloat) res" where
  "sleeve_amounts se available filtered score target =
     (if Fin 0 < score \<and> Fin 0 < target then
        res_bind (sleeve_amount se available filtered score target Longterm) (\<lambda>lt.
        res_bind (sleeve_amount se available filtered score target Swing) (\<lambda>sw.
        res_bind (sleeve_amount se available filtered score target Intraday) (\<lambda>day. Inr (by_sleeve lt sw day))))
      else Inr (\<lambda>_. Fin 0))"

text \<open>Steps 4 to 10 of \<open>allocate\<close>.\<close>

definition allocate_capital ::
  "allocator \<Rightarrow> settings \<Rightarrow> pyfloat \<Rightarrow> (sleeve \<Rightarrow> pyfloat) \<Rightarrow> market_regime \<Rightarrow> (sleeve \<Rightarrow> pyfloat) \<Rightarrow> (sleeve \<Rightarrow> strategy_health) \<Rightarrow>
     allocation res" where
  "allocate_capital al se available base regime mults health =
     (let raw = raw_scores se base mults health; filtered = filtered_scores al raw;
          score = py_sum (map filtered SLEEVES); intensity = deployed_fraction al score in
      res_bind (sleeve_amounts se available filtered score (target_deploy se available intensity)) (\<lambda>amounts.
      let x = \<lparr>an_amount = amounts, an_cash = available - py_sum (map amounts SLEEVES), an_available = available,
            an_risk = by_sleeve (fl (5 / 100)) (fl (20 / 100)) (fl (25 / 1000)), an_regime = regime_text regime,
            an_scores = raw,
            an_confidence = unit_clip (mean3 (mean_of mults) (mean_of (\<lambda>s. health_multiplier (health s))) intensity),
            an_fraction = intensity\<rparr> in
      res_bind (verify_allocation x se) (\<lambda>_. Inr x)))"

text \<open>\<open>existing_portfolio\<close> is a dictionary, empty for \<open>None\<close>.\<close>

definition available_capital :: "pyval \<Rightarrow> row \<Rightarrow> pyfloat res" where
  "available_capital contribution portfolio =
     res_bind (as_finite_number contribution) (\<lambda>x.
     res_bind (as_finite_number (case map_of portfolio ''cash'' of Some v \<Rightarrow> v | None \<Rightarrow> PInt 0)) (\<lambda>y. Inr (x + y)))"

definition allocate ::
  "allocator \<Rightarrow> pyval \<Rightarrow> row \<Rightarrow> market_data option \<Rightarrow> (string \<times> health_arg) list \<Rightarrow> row \<Rightarrow> regime_arg \<Rightarrow> allocation res" where
  "allocate al contribution portfolio md hm user regime =
     res_bind (available_capital contribution portfolio) (\<lambda>available.
     res_bind (resolve_settings user) (\<lambda>se.
     if available < Fin 0 then Inr (flat_allocation available)
     else if available = Fin 0 then Inr (flat_allocation (Fin 0))
     else res_bind (resolve_regime regime) (\<lambda>(m, mults).
       res_bind (resolve_health hm Longterm) (\<lambda>lt.
       res_bind (resolve_health hm Swing) (\<lambda>sw.
       res_bind (resolve_health hm Intraday) (\<lambda>day.
       res_bind (resolve_base_scores al md) (\<lambda>base.
       allocate_capital al se available base m mults (by_sleeve lt sw day))))))))"

end
