(* ===== verification/Float_Bounds.thy ===== *)
theory Float_Bounds
  imports Py_Float
begin

text \<open>
  The error of one rounding of \<open>Py_Float\<close>: half a unit in the last place, so at most a \<open>2\<^sup>-\<^sup>5\<^sup>3\<close>-th of the
  value and, below the normal range, at most the constant \<open>tiny\<close>.
\<close>

definition uu :: rat where "uu = 1 / 2 ^ 53"

definition tiny :: rat where "tiny = 1 / 2 ^ 1075"

lemma uu_pos: "0 < uu" by (simp add: uu_def)

lemma tiny_pos: "0 < tiny" by (simp add: tiny_def)

lemma rnd64_half_ulp: "x \<noteq> 0 \<Longrightarrow> \<bar>rnd64 x - x\<bar> \<le> 2 powi ulp_exp x / 2"
proof -
  assume "x \<noteq> 0"
  define U :: rat where "U = 2 powi ulp_exp x"
  have U: "0 < U" by (simp add: U_def)
  have "rnd64 x - x = (of_int (rne (x / U)) - x / U) * U"
    using U \<open>x \<noteq> 0\<close> by (simp add: rnd64_powi U_def algebra_simps)
  also have "\<bar>\<dots>\<bar> \<le> 1 / 2 * U" using rne_err [of "x / U"] U by (simp add: abs_mult)
  finally show ?thesis by (simp add: U_def)
qed

lemma rnd64_err: "\<bar>rnd64 x - x\<bar> \<le> uu * \<bar>x\<bar> + tiny"
proof (cases "x = 0")
  case False
  have lg: "2 powi flog2 \<bar>x\<bar> \<le> \<bar>x\<bar>" using flog2_bounds [of "\<bar>x\<bar>"] False by simp
  show ?thesis
  proof (cases "- 1074 \<le> flog2 \<bar>x\<bar> - 52")
    case True
    then have "2 powi ulp_exp x / 2 = 2 powi flog2 \<bar>x\<bar> * uu"
      by (simp add: ulp_exp_def uu_def power_int_diff)
    also have "\<dots> \<le> \<bar>x\<bar> * uu" using lg uu_pos by (simp add: mult_right_mono)
    finally show ?thesis using rnd64_half_ulp [OF False] tiny_pos by (simp add: mult.commute)
  next
    case False
    then have "2 powi ulp_exp x / 2 = tiny"
      by (simp add: ulp_exp_def tiny_def power_int_minus)
    moreover have "0 \<le> uu * \<bar>x\<bar>" using uu_pos by simp
    ultimately show ?thesis using rnd64_half_ulp [OF \<open>x \<noteq> 0\<close>] by linarith
  qed
qed (use tiny_pos in simp)

text \<open>No overflow below \<open>2\<^sup>1\<^sup>0\<^sup>2\<^sup>3\<close>.\<close>

lemma fl_Fin: "\<bar>x\<bar> \<le> 2 ^ 1023 \<Longrightarrow> fl x = Fin (rnd64 x)"
proof -
  assume x: "\<bar>x\<bar> \<le> 2 ^ 1023"
  have p: "rnd64 (2 ^ 1023) = 2 ^ 1023" using rnd64_powi_of_two [of 1023] by simp
  have "rnd64 x \<le> 2 ^ 1023" using rnd64_mono [of x "2 ^ 1023"] x p by simp
  moreover have "- (2 ^ 1023) \<le> rnd64 x" using rnd64_mono [of "- (2 ^ 1023)" x] x p by (simp add: rnd64_neg)
  moreover have "(2::rat) ^ 1023 < 2 ^ 1024" by (rule power_strict_increasing) auto
  ultimately show ?thesis by (simp add: fl_powi Let_def)
qed

text \<open>Doubles, and the bounds a computation passes on: a rounding moves a number below \<open>y\<close> at most to
  \<open>y * (1 + uu) + tiny\<close>, and not past any double.\<close>

definition double :: "rat \<Rightarrow> bool" where "double x \<longleftrightarrow> rnd64 x = x"

lemma double_rnd [simp]: "double (rnd64 x)"
  by (simp add: double_def)

lemma double_0 [simp]: "double 0"
  by (simp add: double_def)

lemma double_1 [simp]: "double 1"
  using rnd64_powi_of_two [of 0] by (simp add: double_def)

lemma rnd_up:
  assumes "0 \<le> x" and "x \<le> y"
  shows "rnd64 x \<le> y * (1 + uu) + tiny"
proof -
  have "rnd64 x - x \<le> uu * x + tiny" using rnd64_err [of x] assms(1) by (simp add: abs_le_iff)
  moreover have "uu * x \<le> uu * y" using assms(2) uu_pos by (intro mult_left_mono) simp_all
  ultimately show ?thesis using assms(2) by (simp add: algebra_simps)
qed

lemma rnd_down:
  assumes "0 \<le> y" and "y \<le> x"
  shows "y * (1 - uu) - tiny \<le> rnd64 x"
proof -
  have "x - rnd64 x \<le> uu * x + tiny" using rnd64_err [of x] assms by (simp add: abs_le_iff)
  moreover have "y * (1 - uu) \<le> x * (1 - uu)" using assms(2) by (intro mult_right_mono) (simp_all add: uu_def)
  ultimately show ?thesis by (simp add: algebra_simps)
qed

lemma rnd_le_double: "x \<le> y \<Longrightarrow> double y \<Longrightarrow> rnd64 x \<le> y"
  using rnd64_mono [of x y] by (simp add: double_def)

lemma rnd_ge_double: "y \<le> x \<Longrightarrow> double y \<Longrightarrow> y \<le> rnd64 x"
  using rnd64_mono [of y x] by (simp add: double_def)

lemma tiny_small: "tiny \<le> 1 / 10 ^ 100"
  by (simp add: tiny_def)

lemma fl_small: "\<bar>x\<bar> \<le> 2 ^ 1000 \<Longrightarrow> fl x = Fin (rnd64 x)"
proof (rule fl_Fin)
  assume "\<bar>x\<bar> \<le> 2 ^ 1000"
  moreover have "(2::rat) ^ 1000 \<le> 2 ^ 1023" by (rule power_increasing) auto
  ultimately show "\<bar>x\<bar> \<le> 2 ^ 1023" by simp
qed

lemma fl_double: "fl x = Fin y \<Longrightarrow> double y"
  using fl_cases [of x] by auto

end
