(* ===== verification/Allocator_Claims.thy ===== *)
theory Allocator_Claims
  imports Allocator Float_Bounds
begin

text \<open>Properties of the capital allocator. The library bounds each rounded step of \<open>allocate_capital\<close> from
  above, with \<open>Float_Bounds\<close>, so that the checks of \<open>_verify\<close> are seen to hold within their tolerance.\<close>

section \<open>The arithmetic of an allocation\<close>

lemma unit_clip_unit: "x \<noteq> NaN \<Longrightarrow> \<exists>r. unit_clip x = Fin r \<and> 0 \<le> r \<and> r \<le> 1"
  by (cases x) (auto simp: unit_clip_def)

lemma fraction_unit: "fraction v = Inr x \<Longrightarrow> \<exists>p. x = Fin p \<and> 0 \<le> p \<and> p \<le> 1"
  by (cases "py_float v"; cases x) (auto simp: fraction_def split: if_splits)

lemma settings_units:
  assumes "resolve_settings user = Inr se"
  shows "\<exists>p. se_cap se s = Fin p \<and> 0 \<le> p \<and> p \<le> 1" and "\<exists>p. se_min_cash se = Fin p \<and> 0 \<le> p \<and> p \<le> 1"
  using assms by (cases s; auto simp: resolve_settings_def res_bind_eq_Inr by_sleeve_def dest!: fraction_unit split: if_splits)+

lemma literal_unit: "0 \<le> x \<Longrightarrow> x \<le> 1 \<Longrightarrow> \<exists>q. fl x = Fin q \<and> 0 \<le> q \<and> q \<le> 1"
  using fl_small [of x] by (auto intro: rnd64_nonneg rnd_le_double)

lemma multipliers_unit: "\<exists>q. REGIME_SLEEVE_MULTIPLIERS r s = Fin q \<and> 0 \<le> q \<and> q \<le> 1"
  by (cases r; cases s) (auto simp: percents_def by_sleeve_def intro!: literal_unit)

lemma health_unit: "\<exists>q. health_multiplier h = Fin q \<and> 0 \<le> q \<and> q \<le> 1"
  by (cases h) (auto intro: exI [of _ "1 / 2"])

lemma times_unit:
  assumes "0 \<le> x" and "x \<le> 2 ^ 500" and "0 \<le> q" and "q \<le> 1"
  shows "\<exists>z. Fin x * Fin q = Fin z \<and> 0 \<le> z \<and> z \<le> 2 ^ 500 \<and> double z"
proof -
  have xq: "0 \<le> x * q" "x * q \<le> 2 ^ 500" using assms mult_mono [of x "2 ^ 500" q 1] by auto
  moreover have "double (2 ^ 500)" using rnd64_powi_of_two [of 500] by (simp add: double_def)
  ultimately have "rnd64 (x * q) \<le> 2 ^ 500" "0 \<le> rnd64 (x * q)" by (auto intro: rnd_le_double rnd64_nonneg)
  moreover have "fl (x * q) = Fin (rnd64 (x * q))" using xq by (intro fl_small) simp
  ultimately show ?thesis by simp
qed

text \<open>Cents of a rupee: never far above the amount asked for.\<close>

lemma floor_paise_bound:
  assumes v: "0 \<le> v" "v \<le> 2 ^ 900"
  shows "\<exists>r. floor_paise (Fin v) = Inr (Fin r) \<and> 0 \<le> r \<and> double r \<and> r \<le> v * (1 + 4 * uu) + 12 / 10 ^ 9"
proof (cases "v = 0")
  case True
  then show ?thesis by (simp add: floor_paise_def)
next
  case False
  define c where "c = rnd64 (1 / 10 ^ 6)"
  define w where "w = rnd64 (v * 100)"
  define z where "z = rnd64 (w + c)"
  define k where "k = rnd64 (of_int \<lfloor>z\<rfloor>)"
  define r where "r = rnd64 (k / 100)"
  have c: "0 \<le> c" "c \<le> 11 / 10 ^ 7"
    using rnd_up [of "1 / 10 ^ 6" "1 / 10 ^ 6"] tiny_small by (auto simp: c_def rnd64_nonneg uu_def)
  have big: "(2::rat) ^ 910 \<le> 2 ^ 1000" by (rule power_increasing) auto
  have w: "0 \<le> w" "w \<le> v * 100 * (1 + uu) + tiny" using v by (auto simp: w_def rnd64_nonneg intro: rnd_up)
  have z: "0 \<le> z" "z \<le> (w + c) * (1 + uu) + tiny" using w c by (auto simp: z_def rnd64_nonneg intro: rnd_up)
  have k: "0 \<le> k" "k \<le> z" using z by (auto simp: k_def z_def intro: rnd64_nonneg rnd_le_double)
  have r: "0 \<le> r" "r \<le> z / 100 * (1 + uu) + tiny"
    using k rnd_up [of "k / 100" "z / 100"] by (simp_all add: r_def rnd64_nonneg)
  have "r \<le> v * (1 + 4 * uu) + 12 / 10 ^ 9"
    using w(2) z(2) r(2) c v(1) tiny_small by (simp add: uu_def field_simps)
  have "v * 100 \<le> 2 ^ 1000" "w + c \<le> 2 ^ 1000" "z \<le> 2 ^ 1000"
  proof -
    have c1: "c \<le> 1" using c by simp
    have "w \<le> v * 200 + 1" "z \<le> (w + c) * 2 + 1" using w z(2) c v(1) tiny_small by (simp_all add: uu_def field_simps)
    then have "w + c \<le> 200 * v + 2" "z \<le> 400 * v + 5" using c1 by (simp_all add: algebra_simps)
    moreover have "400 * v + 5 \<le> 2 ^ 1000" using v by simp
    ultimately show "v * 100 \<le> 2 ^ 1000" "w + c \<le> 2 ^ 1000" "z \<le> 2 ^ 1000" using v(1) by linarith+
  qed
  then have fits: "fl (v * 100) = Fin w" "fl (w + c) = Fin z" "fl (of_int \<lfloor>z\<rfloor>) = Fin k" "fl (k / 100) = Fin r"
    using v w z c k by (simp_all add: fl_small w_def z_def k_def r_def)
  moreover have lit: "fl (1 / 10 ^ 6) = Fin c" unfolding c_def by (rule fl_small) simp
  ultimately have "floor_paise (Fin v) = Inr (Fin r)"
    using False v z(1) unfolding floor_paise_def lit by (simp add: rat_trunc_def fint_def)
  then show ?thesis using r \<open>r \<le> v * (1 + 4 * uu) + 12 / 10 ^ 9\<close> by (auto simp: r_def)
qed

text \<open>A sum of three doubles.\<close>

lemma sum3:
  assumes "\<And>s. f s = Fin (g s)" and "\<And>s. 0 \<le> g s \<and> g s \<le> 2 ^ 900 \<and> double (g s)"
  shows "py_sum (map f SLEEVES) = Fin (rnd64 (rnd64 (g Longterm + g Swing) + g Intraday))"
    and "rnd64 (g Longterm + g Swing) \<le> 2 ^ 902"
proof -
  have big: "(2::rat) ^ 900 \<le> 2 ^ 1000" "(2::rat) ^ 902 + 2 ^ 900 \<le> 2 ^ 1000" "(2::rat) ^ 901 \<le> 2 ^ 902" by simp_all
  have g: "0 \<le> g s" "g s \<le> 2 ^ 900" "rnd64 (g s) = g s" for s using assms(2) by (auto simp: double_def)
  have s: "g Longterm + g Swing \<le> 2 ^ 901" using g(2) [of Longterm] g(2) [of Swing] by simp
  then show le: "rnd64 (g Longterm + g Swing) \<le> 2 ^ 902"
    using rnd64_powi_of_two [of 902] by (intro rnd_le_double) (simp_all add: double_def)
  have "0 \<le> rnd64 (g Longterm + g Swing)" using g(1) by (simp add: rnd64_nonneg)
  then have "fl (rnd64 (g Longterm + g Swing) + g Intraday) = Fin (rnd64 (rnd64 (g Longterm + g Swing) + g Intraday))"
    using le g [of Intraday] big by (intro fl_small) simp
  moreover have "fl (g Longterm + g Swing) = Fin (rnd64 (g Longterm + g Swing))"
    using s g(1) [of Longterm] g(1) [of Swing] by (intro fl_small) simp
  moreover have "fl (g Longterm) = Fin (g Longterm)" using g [of Longterm] big fl_small [of "g Longterm"] by simp
  ultimately show "py_sum (map f SLEEVES) = Fin (rnd64 (rnd64 (g Longterm + g Swing) + g Intraday))"
    by (simp add: py_sum_def SLEEVES_def assms(1))
qed

text \<open>The tolerance of \<open>_verify\<close>.\<close>

lemma tolerance_bounds:
  assumes "0 \<le> a" and "a \<le> 2 ^ 500"
  shows "\<exists>E. verify_tolerance (Fin a) = Fin E \<and> double E \<and> 999 / 10 ^ 9 \<le> E \<and> a * 999 / 10 ^ 15 \<le> E \<and> E \<le> 2 ^ 600"
proof -
  define c where "c = rnd64 (1 / 10 ^ 12)"
  define d where "d = rnd64 (1 / 10 ^ 6)"
  define w where "w = rnd64 (a * c)"
  have c: "9999 / 10 ^ 16 \<le> c" "c \<le> 1"
    using rnd_down [of "1 / 10 ^ 12" "1 / 10 ^ 12"] tiny_small by (auto simp: c_def uu_def intro: rnd_le_double)
  have d: "9999 / 10 ^ 10 \<le> d"
    using rnd_down [of "1 / 10 ^ 6" "1 / 10 ^ 6"] tiny_small by (simp add: d_def uu_def)
  have ac: "a * (9999 / 10 ^ 16) \<le> a * c" "a * c \<le> a" "0 \<le> a * c"
    using mult_left_mono [OF c(1) assms(1)] mult_left_mono [OF c(2) assms(1)] c assms(1) by simp_all
  have w: "a * (9999 / 10 ^ 16) * (1 - uu) - tiny \<le> w"
    using rnd_down [OF _ ac(1)] assms(1) by (simp add: w_def)
  have tol: "verify_tolerance (Fin a) = Fin (if d < w then w else d)"
  proof -
    have "fl (1 / 10 ^ 12) = Fin c" "fl (1 / 10 ^ 6) = Fin d" by (simp_all only: c_def d_def) (rule fl_small, simp)+
    moreover have "fl (a * c) = Fin w" using assms ac unfolding w_def by (intro fl_small) simp
    ultimately show ?thesis using assms by (simp only: verify_tolerance_def abs_pyfloat.simps abs_of_nonneg times_pyfloat.simps)
        (simp add: fmax_def)
  qed
  have "a * 999 / 10 ^ 15 \<le> (if d < w then w else d)"
  proof (cases "a \<le> 1")
    case True
    then show ?thesis using d by simp
  next
    case False
    have "a * (999 / 10 ^ 15) \<le> w" using w False tiny_small by (simp add: uu_def)
    then show ?thesis by simp
  qed
  moreover have "999 / 10 ^ 9 \<le> (if d < w then w else d)" using d by simp
  moreover have "(if d < w then w else d) \<le> 2 ^ 600"
  proof -
    have p: "double (2 ^ 600)" using rnd64_powi_of_two [of 600] by (simp add: double_def)
    have "(2::rat) ^ 500 \<le> 2 ^ 600" by (rule power_increasing) auto
    then have "w \<le> 2 ^ 600" "d \<le> 2 ^ 600" unfolding w_def d_def using ac(2) assms(2) p by (auto intro!: rnd_le_double)
    then show ?thesis by simp
  qed
  ultimately show ?thesis using tol by (auto simp: w_def d_def)
qed

text \<open>The shares of the sleeves: together at most a few roundings above one.\<close>

lemma share_sum:
  assumes "\<And>s. 0 \<le> f s \<and> double (f s)" and "\<And>s. f s = 0 \<or> 1 / 2 ^ 500 \<le> f s"
    and T: "T = rnd64 (rnd64 (f Longterm + f Swing) + f Intraday)" and "0 < T"
  shows "f s \<le> T" and "f Longterm + f Swing + f Intraday \<le> T * (1 + 4 * uu)"
proof -
  define P where "P = rnd64 (f Longterm + f Swing)"
  have P: "f Longterm \<le> P" "f Swing \<le> P" unfolding P_def using assms(1) by (auto intro: rnd_ge_double)
  have Ps: "(f Longterm + f Swing) * (1 - uu) - tiny \<le> P" unfolding P_def using assms(1) by (intro rnd_down) auto
  have P0: "0 \<le> P" using P(1) assms(1) [of Longterm] by linarith
  have T2: "P \<le> T" "f Intraday \<le> T"
    unfolding T P_def [symmetric] using assms(1) P0 by (auto intro!: rnd_ge_double simp: P_def)
  have le: "f s \<le> T" for s using P T2 by (cases s) auto
  show "f s \<le> T" by (rule le)
  have Ts: "(P + f Intraday) * (1 - uu) - tiny \<le> T"
    unfolding T P_def [symmetric] using assms(1) P0 by (intro rnd_down) auto
  have "\<exists>s. f s \<noteq> 0"
  proof (rule ccontr)
    assume "\<nexists>s. f s \<noteq> 0"
    then have "T = 0" unfolding T by simp
    then show False using \<open>0 < T\<close> by simp
  qed
  then obtain s0 where "1 / 2 ^ 500 \<le> f s0" using assms(2) by blast
  then have "1 / 2 ^ 500 \<le> T" using le [of s0] by linarith
  then have "tiny \<le> T / 10 ^ 30" by (simp add: tiny_def)
  then show "f Longterm + f Swing + f Intraday \<le> T * (1 + 4 * uu)"
    using Ps Ts assms(1) [of Longterm] assms(1) [of Swing] assms(1) [of Intraday] \<open>0 < T\<close> by (simp add: uu_def field_simps)
qed

lemma want_bound:
  assumes q: "0 \<le> q" "q \<le> 1" and D: "0 \<le> D" "D \<le> 2 ^ 500" "double D"
  shows "0 \<le> rnd64 (rnd64 q * D)" and "rnd64 (rnd64 q * D) \<le> D" and "rnd64 (rnd64 q * D) \<le> q * D * (1 + 3 * uu) + 1 / 10 ^ 100"
    and "fl q * Fin D = Fin (rnd64 (rnd64 q * D))"
proof -
  have s: "0 \<le> rnd64 q" "rnd64 q \<le> 1" using q by (auto intro: rnd64_nonneg rnd_le_double)
  have p: "0 \<le> rnd64 q * D" "rnd64 q * D \<le> D" using s D mult_right_mono [of "rnd64 q" 1 D] by simp_all
  then show "0 \<le> rnd64 (rnd64 q * D)" "rnd64 (rnd64 q * D) \<le> D" using D by (auto intro: rnd64_nonneg rnd_le_double)
  have "rnd64 q * D \<le> (q * (1 + uu) + tiny) * D" using rnd_up [OF q(1) order_refl] D by (intro mult_right_mono) auto
  moreover have "tiny * D \<le> 1 / 10 ^ 150"
  proof -
    have "tiny * D \<le> tiny * 2 ^ 500" using D tiny_pos by (intro mult_left_mono) auto
    also have "\<dots> \<le> 1 / 10 ^ 150" by (simp add: tiny_def)
    finally show ?thesis .
  qed
  ultimately have "rnd64 q * D \<le> q * D * (1 + uu) + 1 / 10 ^ 150" by (simp add: algebra_simps)
  from rnd_up [OF p(1) this]
  have "rnd64 (rnd64 q * D) \<le> (q * D * (1 + uu) + 1 / 10 ^ 150) * (1 + uu) + tiny" .
  moreover have "0 \<le> q * D" using q D by simp
  moreover have "tiny \<le> 1 / 10 ^ 150" by (simp add: tiny_def)
  ultimately show "rnd64 (rnd64 q * D) \<le> q * D * (1 + 3 * uu) + 1 / 10 ^ 100" by (simp add: uu_def field_simps)
  have big: "(2::rat) ^ 500 \<le> 2 ^ 1000" by (rule power_increasing) auto
  have "fl (rnd64 q * D) = Fin (rnd64 (rnd64 q * D))" using p D big by (intro fl_small) simp
  moreover have "fl q = Fin (rnd64 q)" using q by (intro fl_small) simp
  ultimately show "fl q * Fin D = Fin (rnd64 (rnd64 q * D))" by simp
qed

text \<open>What an amount may be: a double in whole paise, not above its cap nor above its share but for
  the roundings.\<close>

definition granted :: "rat \<Rightarrow> rat \<Rightarrow> rat \<Rightarrow> bool" where
  "granted want cap g \<longleftrightarrow> 0 \<le> g \<and> double g \<and> g \<le> cap * (1 + 4 * uu) + 12 / 10 ^ 9 \<and> g \<le> want * (1 + 4 * uu) + 12 / 10 ^ 9"

lemma sleeve_amount_bound:
  assumes f: "0 \<le> f" "f \<le> T" "0 < T" and D: "0 \<le> D" "D \<le> 2 ^ 500" "double D" and k: "0 \<le> k" "k \<le> 2 ^ 500"
  shows "\<exists>g. floor_paise (fmin (fquot (Fin f) (Fin T) * Fin D) (Fin k)) = Inr (Fin g) \<and>
    granted (f / T * D * (1 + 3 * uu) + 1 / 10 ^ 100) k g \<and> (f = 0 \<longrightarrow> g = 0)"
proof -
  define w where "w = rnd64 (rnd64 (f / T) * D)"
  have q: "0 \<le> f / T" "f / T \<le> 1" using f by simp_all
  note w = want_bound [OF q D, folded w_def]
  define v where "v = (if k < w then k else w)"
  have v: "0 \<le> v" "v \<le> k" "v \<le> w" "v \<le> 2 ^ 900"
  proof -
    have "(2::rat) ^ 500 \<le> 2 ^ 900" by (rule power_increasing) auto
    then show "0 \<le> v" "v \<le> k" "v \<le> w" "v \<le> 2 ^ 900" using k w(1) by (simp_all add: v_def)
  qed
  have "fmin (fquot (Fin f) (Fin T) * Fin D) (Fin k) = Fin v"
    using f(3) w(4) by (simp add: fmin_def v_def)
  moreover obtain g where g: "floor_paise (Fin v) = Inr (Fin g)" "0 \<le> g" "double g" "g \<le> v * (1 + 4 * uu) + 12 / 10 ^ 9"
    using floor_paise_bound [OF v(1,4)] by blast
  moreover have "v * (1 + 4 * uu) \<le> x * (1 + 4 * uu)" if "v \<le> x" for x
    using that by (intro mult_right_mono) (simp_all add: uu_def)
  moreover have "v \<le> f / T * D * (1 + 3 * uu) + 1 / 10 ^ 100" using v(3) w(3) by simp
  moreover have "g = 0" if "f = 0"
    using that g(1) k by (simp add: v_def w_def floor_paise_def split: if_splits)
  ultimately show ?thesis using v by (auto simp: granted_def intro: order_trans)
qed

text \<open>The whole deployed sum stays below the target, but for roundings and paise.\<close>

lemma sum3_up:
  assumes "\<And>s. 0 \<le> g s"
  shows "0 \<le> rnd64 (rnd64 (g Longterm + g Swing) + g Intraday)"
    and "rnd64 (rnd64 (g Longterm + g Swing) + g Intraday) \<le> (g Longterm + g Swing + g Intraday) * (1 + 3 * uu) + 1 / 10 ^ 99"
proof -
  define P where "P = rnd64 (g Longterm + g Swing)"
  have g: "0 \<le> g Longterm" "0 \<le> g Swing" "0 \<le> g Intraday" using assms by blast+
  have P: "0 \<le> P" "P \<le> (g Longterm + g Swing) * (1 + uu) + tiny" using g by (auto simp: P_def intro: rnd64_nonneg rnd_up)
  have R: "rnd64 (P + g Intraday) \<le> (P + g Intraday) * (1 + uu) + tiny" using P g by (intro rnd_up) auto
  show "0 \<le> rnd64 (rnd64 (g Longterm + g Swing) + g Intraday)" using P g by (simp add: P_def [symmetric] rnd64_nonneg)
  show "rnd64 (rnd64 (g Longterm + g Swing) + g Intraday) \<le> (g Longterm + g Swing + g Intraday) * (1 + 3 * uu) + 1 / 10 ^ 99"
    using P R g tiny_small unfolding P_def [symmetric] by (simp add: uu_def field_simps)
qed

lemma deployed_bound:
  assumes "\<And>s. granted (y s * (1 + 3 * uu) + 1 / 10 ^ 100) (k s) (g s)" and "\<And>s. 0 \<le> y s"
    and "y Longterm + y Swing + y Intraday \<le> D * (1 + 4 * uu)" and "0 \<le> D"
  shows "rnd64 (rnd64 (g Longterm + g Swing) + g Intraday) \<le> D * (1 + 20 * uu) + 4 / 10 ^ 8"
proof -
  have g: "0 \<le> g s" "g s \<le> (y s * (1 + 3 * uu) + 1 / 10 ^ 100) * (1 + 4 * uu) + 12 / 10 ^ 9" for s
    using assms(1) by (auto simp: granted_def)
  define G where "G = g Longterm + g Swing + g Intraday"
  define Y where "Y = y Longterm + y Swing + y Intraday"
  have "G \<le> (Y * (1 + 3 * uu) + 3 / 10 ^ 100) * (1 + 4 * uu) + 36 / 10 ^ 9"
    using g(2) [of Longterm] g(2) [of Swing] g(2) [of Intraday] by (simp add: G_def Y_def uu_def field_simps)
  moreover have "0 \<le> Y" "Y \<le> D * (1 + 4 * uu)" using assms(2,3) by (simp_all add: Y_def)
  ultimately have "G \<le> D * (1 + 15 * uu) + 37 / 10 ^ 9" using assms(4) by (simp add: uu_def field_simps)
  moreover have "rnd64 (rnd64 (g Longterm + g Swing) + g Intraday) \<le> G * (1 + 3 * uu) + 1 / 10 ^ 99"
    unfolding G_def using g(1) by (rule sum3_up)
  ultimately show ?thesis using assms(4) by (simp add: uu_def field_simps)
qed

section \<open>The verification never refuses\<close>

lemma abs_rnd: "\<bar>rnd64 x\<bar> = rnd64 \<bar>x\<bar>"
proof (cases "0 \<le> x")
  case True
  then show ?thesis using rnd64_nonneg [of x] by simp
next
  case False
  then have "0 \<le> rnd64 (- x)" by (intro rnd64_nonneg) simp
  then show ?thesis using False by (simp add: rnd64_neg)
qed

lemma balance_close:
  assumes "0 \<le> a" and "0 \<le> S" and "S \<le> a * 2 + 1" and "999 / 10 ^ 9 \<le> E" "a * 999 / 10 ^ 15 \<le> E"
  shows "\<bar>rnd64 (S + rnd64 (a - S)) - a\<bar> \<le> E" and "\<bar>rnd64 (a - S)\<bar> \<le> a * 2 + 3" and "\<bar>rnd64 (S + rnd64 (a - S))\<bar> \<le> a * 4 + 3"
proof -
  define c where "c = rnd64 (a - S)"
  have "\<bar>a - S\<bar> \<le> a + 1" using assms(1-3) by (simp add: abs_le_iff)
  then have "uu * \<bar>a - S\<bar> \<le> uu * (a + 1)" using uu_pos by (intro mult_left_mono) auto
  then have c: "\<bar>c - (a - S)\<bar> \<le> uu * (a + 1) + tiny" using rnd64_err [of "a - S"] by (simp add: c_def)
  then have small: "\<bar>S + c - a\<bar> \<le> uu * (a + 1) + tiny" by (simp add: algebra_simps)
  have "S + c \<le> a * 2 + 1" "- (S + c) \<le> a * 2 + 1"
    using abs_le_D1 [OF small] abs_le_D2 [OF small] assms(1) tiny_small by (simp_all add: uu_def field_simps)
  then have "\<bar>S + c\<bar> \<le> a * 2 + 1" by (simp add: abs_le_iff)
  from this have "uu * \<bar>S + c\<bar> \<le> uu * (a * 2 + 1)" using uu_pos by (intro mult_left_mono) auto
  then have t: "\<bar>rnd64 (S + c) - (S + c)\<bar> \<le> uu * (a * 2 + 1) + tiny" using rnd64_err [of "S + c"] by simp
  have "\<bar>rnd64 (S + c) - a\<bar> \<le> uu * (a * 3 + 2) + 2 * tiny" using t small by (simp add: abs_le_iff algebra_simps)
  also have "\<dots> \<le> E" using assms(1,4,5) tiny_small by (simp add: uu_def field_simps)
  finally show le: "\<bar>rnd64 (S + rnd64 (a - S)) - a\<bar> \<le> E" by (simp add: c_def)
  show "\<bar>rnd64 (a - S)\<bar> \<le> a * 2 + 3"
    using abs_le_D1 [OF c] abs_le_D2 [OF c] assms(1-3) tiny_small unfolding c_def [symmetric] abs_le_iff
    by (simp add: uu_def field_simps)
  show "\<bar>rnd64 (S + rnd64 (a - S))\<bar> \<le> a * 4 + 3"
    using abs_le_D1 [OF t] abs_le_D2 [OF t] \<open>S + c \<le> a * 2 + 1\<close> \<open>- (S + c) \<le> a * 2 + 1\<close> assms(1) tiny_small
    unfolding c_def [symmetric] abs_le_iff by (simp add: uu_def field_simps)
qed

text \<open>The amounts of a coherent allocation.\<close>

definition coherent :: "settings \<Rightarrow> rat \<Rightarrow> (sleeve \<Rightarrow> rat) \<Rightarrow> bool" where
  "coherent se a g \<longleftrightarrow> (\<forall>s. 0 \<le> g s \<and> double (g s) \<and> (\<not> se_enabled se s \<longrightarrow> g s = 0) \<and>
     g s \<le> rnd64 (the_fin (se_cap se s) * a) * (1 + 4 * uu) + 12 / 10 ^ 9) \<and>
   rnd64 (rnd64 (g Longterm + g Swing) + g Intraday) \<le>
     rnd64 (a - rnd64 (the_fin (se_min_cash se) * a)) * (1 + 20 * uu) + 4 / 10 ^ 8"

lemma part_of:
  assumes "\<exists>p. x = Fin p \<and> 0 \<le> p \<and> p \<le> 1" and a: "0 \<le> a" "a \<le> 2 ^ 500" "double a"
  shows "x * Fin a = Fin (rnd64 (the_fin x * a))" and "0 \<le> rnd64 (the_fin x * a)" and "rnd64 (the_fin x * a) \<le> a"
proof -
  obtain p where p: "x = Fin p" "0 \<le> p" "p \<le> 1" using assms(1) by blast
  have pa: "0 \<le> p * a" "p * a \<le> a" using p a mult_right_mono [of p 1 a] by simp_all
  then show "0 \<le> rnd64 (the_fin x * a)" "rnd64 (the_fin x * a) \<le> a" using p a by (auto intro: rnd64_nonneg rnd_le_double)
  have "(2::rat) ^ 500 \<le> 2 ^ 1000" by (rule power_increasing) auto
  then show "x * Fin a = Fin (rnd64 (the_fin x * a))" using pa p a fl_small [of "p * a"] by simp
qed

lemma coherent_sum:
  assumes "coherent se a g" and se: "\<exists>p. se_min_cash se = Fin p \<and> 0 \<le> p \<and> p \<le> 1" and a: "0 \<le> a" "a \<le> 2 ^ 500" "double a"
    and "999 / 10 ^ 9 \<le> E" "a * 999 / 10 ^ 15 \<le> E"
  shows "rnd64 (rnd64 (g Longterm + g Swing) + g Intraday) \<le> a - rnd64 (the_fin (se_min_cash se) * a) + E"
    and "rnd64 (rnd64 (g Longterm + g Swing) + g Intraday) \<le> a * 2 + 1" and "0 \<le> rnd64 (rnd64 (g Longterm + g Swing) + g Intraday)"
proof -
  define m where "m = rnd64 (the_fin (se_min_cash se) * a)"
  define S where "S = rnd64 (rnd64 (g Longterm + g Swing) + g Intraday)"
  have m: "0 \<le> m" "m \<le> a" unfolding m_def using part_of [OF se a] by blast+
  have "rnd64 (a - m) \<le> (a - m) * (1 + uu) + tiny" using m by (intro rnd_up) auto
  moreover have S: "S \<le> rnd64 (a - m) * (1 + 20 * uu) + 4 / 10 ^ 8" using assms(1) by (simp add: coherent_def S_def m_def)
  ultimately have "S \<le> (a - m) * (1 + 22 * uu) + 41 / 10 ^ 9" using m tiny_small by (simp add: uu_def field_simps)
  then show "rnd64 (rnd64 (g Longterm + g Swing) + g Intraday) \<le> a - rnd64 (the_fin (se_min_cash se) * a) + E"
    and "rnd64 (rnd64 (g Longterm + g Swing) + g Intraday) \<le> a * 2 + 1"
    using m a(1) assms(6,7) unfolding S_def [symmetric] m_def [symmetric] by (simp_all add: uu_def field_simps)
  show "0 \<le> rnd64 (rnd64 (g Longterm + g Swing) + g Intraday)"
    using assms(1) by (intro sum3_up) (simp add: coherent_def)
qed

lemma coherent_small: "coherent se a g \<Longrightarrow> \<exists>p. se_cap se s = Fin p \<and> 0 \<le> p \<and> p \<le> 1 \<Longrightarrow> 0 \<le> a \<Longrightarrow> a \<le> 2 ^ 500 \<Longrightarrow> double a
    \<Longrightarrow> 0 \<le> g s \<and> g s \<le> 2 ^ 900 \<and> double (g s)"
proof -
  assume a: "coherent se a g" "\<exists>p. se_cap se s = Fin p \<and> 0 \<le> p \<and> p \<le> 1" "0 \<le> a" "a \<le> 2 ^ 500" "double a"
  then have "rnd64 (the_fin (se_cap se s) * a) \<le> a" "0 \<le> rnd64 (the_fin (se_cap se s) * a)" by (blast intro: part_of)+
  moreover have g: "g s \<le> rnd64 (the_fin (se_cap se s) * a) * (1 + 4 * uu) + 12 / 10 ^ 9" using a(1) by (simp add: coherent_def)
  ultimately have "g s \<le> a * 2 + 1" by (simp add: uu_def field_simps)
  also have "\<dots> \<le> 2 ^ 900" using a(4) by simp
  finally show ?thesis using a(1) by (simp add: coherent_def)
qed

lemma sleeves_verified:
  assumes x: "coherent se a g" "\<And>s. an_amount x s = Fin (g s)" "an_available x = Fin a"
    and se: "\<And>s. \<exists>p. se_cap se s = Fin p \<and> 0 \<le> p \<and> p \<le> 1" and a: "0 \<le> a" "a \<le> 2 ^ 500" "double a"
    and E: "999 / 10 ^ 9 \<le> E" "a * 999 / 10 ^ 15 \<le> E" "E \<le> 2 ^ 600"
  shows "verify_sleeves x se (Fin E) ss = Inr ()"
proof (induction ss)
  case (Cons s ss)
  define k where "k = rnd64 (the_fin (se_cap se s) * a)"
  have k: "se_cap se s * Fin a = Fin k" "0 \<le> k" "k \<le> a" unfolding k_def using part_of [OF se a] by blast+
  have g: "0 \<le> g s" "double (g s)" "g s \<le> k * (1 + 4 * uu) + 12 / 10 ^ 9" "\<not> se_enabled se s \<Longrightarrow> g s = 0"
    using x(1) by (auto simp: coherent_def k_def)
  have "g s \<le> k + E" using g(3) k E a(1) by (simp add: uu_def field_simps)
  then have "g s \<le> rnd64 (k + E)" using g(2) by (rule rnd_ge_double)
  moreover have "fl (k + E) = Fin (rnd64 (k + E))"
  proof (rule fl_small)
    have "0 \<le> k + E" using k E by simp
    moreover have "k + E \<le> 2 ^ 500 + 2 ^ 600" using k a E by linarith
    then have "k + E \<le> 2 ^ 1000" by simp
    ultimately show "\<bar>k + E\<bar> \<le> 2 ^ 1000" by simp
  qed
  moreover have "0 \<le> E" using E(1) by simp
  ultimately show ?case using Cons.IH g k by (auto simp: x(2,3))
qed simp

lemma verified:
  assumes x: "coherent se a g" "\<And>s. an_amount x s = Fin (g s)" "an_available x = Fin a"
      "an_cash x = Fin a - py_sum (map (an_amount x) SLEEVES)"
    and se: "\<And>s. \<exists>p. se_cap se s = Fin p \<and> 0 \<le> p \<and> p \<le> 1" "\<exists>p. se_min_cash se = Fin p \<and> 0 \<le> p \<and> p \<le> 1"
    and a: "0 \<le> a" "a \<le> 2 ^ 500" "double a"
  shows "verify_allocation x se = Inr ()"
proof -
  obtain E where E: "verify_tolerance (Fin a) = Fin E" "double E" "999 / 10 ^ 9 \<le> E" "a * 999 / 10 ^ 15 \<le> E" "E \<le> 2 ^ 600"
    using tolerance_bounds [OF a(1,2)] by blast
  define S where "S = rnd64 (rnd64 (g Longterm + g Swing) + g Intraday)"
  define m where "m = rnd64 (the_fin (se_min_cash se) * a)"
  have sm: "py_sum (map (an_amount x) SLEEVES) = Fin S"
    unfolding S_def using x(2) coherent_small [OF x(1) se(1) a] by (rule sum3(1))
  note S = coherent_sum [OF x(1) se(2) a E(3,4), folded S_def m_def]
  note m = part_of [OF se(2) a, folded m_def]
  have big: "(2::rat) ^ 500 * 4 + 4 \<le> 2 ^ 1000" "(2::rat) ^ 600 + 2 ^ 500 * 4 + 4 \<le> 2 ^ 1000" by simp_all
  note B = balance_close [OF a(1) S(3,2) E(3,4)]
  have fit: "fl x = Fin (rnd64 x)" if "\<bar>x\<bar> \<le> a * 4 + 4 + E" for x
    using that a(2) E(5) big by (intro fl_small) linarith
  have E0: "0 \<le> E" using E(3) by simp
  have cash: "an_cash x = Fin (rnd64 (a - S))"
    using x(4) fit [of "a - S"] S(2,3) a(1) E0 by (simp add: sm minus_pyfloat_def abs_le_iff)
  have "\<bar>S + rnd64 (a - S)\<bar> \<le> a * 4 + 4 + E" using B(2) S(2,3) a(1) E0 by (simp add: abs_le_iff)
  then have sum: "Fin S + Fin (rnd64 (a - S)) = Fin (rnd64 (S + rnd64 (a - S)))" by (simp add: fit)
  have near: "\<bar>rnd64 (rnd64 (S + rnd64 (a - S)) - a)\<bar> \<le> E"
    unfolding abs_rnd using B(1) E(2) by (rule rnd_le_double)
  have dif: "Fin (rnd64 (S + rnd64 (a - S))) - Fin a = Fin (rnd64 (rnd64 (S + rnd64 (a - S)) - a))"
    using fit [of "rnd64 (S + rnd64 (a - S)) - a"] B(1) a(1) E0 by (simp add: minus_pyfloat_def abs_le_iff)
  have "m - E \<le> a - S" using S(1) by simp
  then have floor: "rnd64 (m - E) \<le> rnd64 (a - S)" by (rule rnd64_mono)
  have lim: "Fin m - Fin E = Fin (rnd64 (m - E))"
    using fit [of "m - E"] m a(1) E0 by (simp add: minus_pyfloat_def abs_le_iff)
  show ?thesis
    unfolding verify_allocation_def Let_def x(3) E(1) sm cash sum dif m(1) lim
    using near floor sleeves_verified [OF x(1-3) se(1) a E(3-5)] by simp
qed

section \<open>The allocation as a whole\<close>

text \<open>What an allocation promises, in exact arithmetic: no amount is negative or above its cap, a disabled
  sleeve has none, the four amounts add up to the capital, and the cash floor holds. The slack is a millionth of a rupee
  and a \<open>10\<^sup>-\<^sup>1\<^sup>2\<close>-th of the capital.\<close>

definition slack :: "rat \<Rightarrow> rat" where
  "slack a = 1 / 10 ^ 6 + a / 10 ^ 12"

definition within_limits :: "settings \<Rightarrow> rat \<Rightarrow> (sleeve \<Rightarrow> rat) \<Rightarrow> rat \<Rightarrow> bool" where
  "within_limits se a g c \<longleftrightarrow> (\<forall>s. 0 \<le> g s \<and> g s \<le> the_fin (se_cap se s) * a + slack a \<and> (\<not> se_enabled se s \<longrightarrow> g s = 0)) \<and>
     \<bar>g Longterm + g Swing + g Intraday + c - a\<bar> \<le> slack a \<and> the_fin (se_min_cash se) * a \<le> c + slack a"

lemma sum3_down:
  assumes "\<And>s. 0 \<le> g s"
  shows "(g Longterm + g Swing + g Intraday) * (1 - 3 * uu) - 1 / 10 ^ 99 \<le> rnd64 (rnd64 (g Longterm + g Swing) + g Intraday)"
proof -
  define P where "P = rnd64 (g Longterm + g Swing)"
  have g: "0 \<le> g Longterm" "0 \<le> g Swing" "0 \<le> g Intraday" using assms by blast+
  have P: "0 \<le> P" "(g Longterm + g Swing) * (1 - uu) - tiny \<le> P" using g by (auto simp: P_def intro: rnd64_nonneg rnd_down)
  have R: "(P + g Intraday) * (1 - uu) - tiny \<le> rnd64 (P + g Intraday)" using P g by (intro rnd_down) auto
  show ?thesis using P R g tiny_small unfolding P_def [symmetric] by (simp add: uu_def field_simps)
qed

lemma coherent_limits:
  assumes x: "coherent se a g"
    and se: "\<And>s. \<exists>p. se_cap se s = Fin p \<and> 0 \<le> p \<and> p \<le> 1" "\<exists>p. se_min_cash se = Fin p \<and> 0 \<le> p \<and> p \<le> 1"
    and a: "0 \<le> a" "a \<le> 2 ^ 500" "double a"
  shows "within_limits se a g (rnd64 (a - rnd64 (rnd64 (g Longterm + g Swing) + g Intraday)))"
proof -
  define S where "S = rnd64 (rnd64 (g Longterm + g Swing) + g Intraday)"
  define m where "m = rnd64 (the_fin (se_min_cash se) * a)"
  define G where "G = g Longterm + g Swing + g Intraday"
  define c where "c = rnd64 (a - S)"
  define E where "E = 1 / 10 ^ 6 / 2 + a / 10 ^ 12 / 2"
  have E: "999 / 10 ^ 9 / 2 \<le> E" using a(1) by (simp add: E_def)
  have g: "0 \<le> g s" "g s \<le> rnd64 (the_fin (se_cap se s) * a) * (1 + 4 * uu) + 12 / 10 ^ 9" "\<not> se_enabled se s \<Longrightarrow> g s = 0" for s
    using x by (auto simp: coherent_def)
  have unit: "0 \<le> p * a \<and> p * a \<le> a" if "0 \<le> p" "p \<le> 1" for p
    using that a(1) mult_right_mono [of p 1 a] by simp
  have "g s \<le> the_fin (se_cap se s) * a + slack a" for s
  proof -
    obtain p where p: "the_fin (se_cap se s) = p" "0 \<le> p" "p \<le> 1" using se(1) [of s] by auto
    have "rnd64 (p * a) \<le> p * a * (1 + uu) + tiny" using unit [OF p(2,3)] by (intro rnd_up) auto
    then show ?thesis using g(2) [of s] unit [OF p(2,3)] a(1) tiny_small unfolding p(1) by (simp add: uu_def slack_def field_simps)
  qed
  moreover have "\<bar>G + c - a\<bar> \<le> slack a" and "the_fin (se_min_cash se) * a \<le> c + slack a"
  proof -
    obtain p where p: "the_fin (se_min_cash se) = p" "0 \<le> p" "p \<le> 1" using se(2) by auto
    have m: "0 \<le> m" "m \<le> a" unfolding m_def using part_of [OF se(2) a] by blast+
    have pm: "p * a * (1 - uu) - tiny \<le> m" unfolding m_def p(1) using unit [OF p(2,3)] by (intro rnd_down) auto
    have "rnd64 (a - m) \<le> (a - m) * (1 + uu) + tiny" using m by (intro rnd_up) auto
    moreover have "S \<le> rnd64 (a - m) * (1 + 20 * uu) + 4 / 10 ^ 8" using x by (simp add: coherent_def S_def m_def)
    ultimately have S: "S \<le> (a - m) * (1 + 22 * uu) + 41 / 10 ^ 9" using m tiny_small by (simp add: uu_def field_simps)
    have SG: "0 \<le> S" "S \<le> G * (1 + 3 * uu) + 1 / 10 ^ 99" "G * (1 - 3 * uu) - 1 / 10 ^ 99 \<le> S"
      unfolding S_def G_def by (rule sum3_up [of g, OF g(1)] sum3_down [of g, OF g(1)])+
    have G: "0 \<le> G" using g(1) [of Longterm] g(1) [of Swing] g(1) [of Intraday] by (simp add: G_def)
    have "S \<le> a * 2 + 1" using S m a(1) by (simp add: uu_def field_simps)
    then have "\<bar>a - S\<bar> \<le> a + 1" using SG(1) a(1) by (simp add: abs_le_iff)
    then have "uu * \<bar>a - S\<bar> \<le> uu * (a + 1)" using uu_pos by (intro mult_left_mono) auto
    then have c: "\<bar>c - (a - S)\<bar> \<le> uu * (a + 1) + tiny" using rnd64_err [of "a - S"] by (simp add: c_def)
    note c = abs_le_D1 [OF c] abs_le_D2 [OF c]
    have G2: "G \<le> a * 3 + 2" using SG(3) \<open>S \<le> a * 2 + 1\<close> a(1) G by (simp add: uu_def field_simps)
    show "\<bar>G + c - a\<bar> \<le> slack a"
      unfolding abs_le_iff using c SG G G2 a(1) tiny_small by (simp add: uu_def slack_def field_simps)
    show "the_fin (se_min_cash se) * a \<le> c + slack a"
      unfolding p(1) using c(2) S pm m a(1) tiny_small unit [OF p(2,3)] by (simp add: uu_def slack_def field_simps)
  qed
  ultimately show ?thesis using g by (simp add: within_limits_def G_def c_def S_def)
qed

text \<open>The scores that count: zero, or a double of a sensible size.\<close>

definition scored :: "rat \<Rightarrow> bool" where
  "scored f \<longleftrightarrow> 0 \<le> f \<and> f \<le> 2 ^ 500 \<and> double f \<and> (f = 0 \<or> 1 / 2 ^ 500 \<le> f)"

lemma scored_small: "scored f \<Longrightarrow> 0 \<le> f \<and> f \<le> 2 ^ 900 \<and> double f"
proof -
  have "(2::rat) ^ 500 \<le> 2 ^ 900" by (rule power_increasing) auto
  then show "scored f \<Longrightarrow> ?thesis" unfolding scored_def by (meson order_trans)
qed

lemma filtered_scores_sound:
  assumes "\<And>s. \<exists>b. base s = Fin b \<and> 0 \<le> b \<and> b \<le> 2 ^ 500" and "\<And>s. \<exists>q. mults s = Fin q \<and> 0 \<le> q \<and> q \<le> 1"
    and "Fin (1 / 2 ^ 500) \<le> al_min_opp al"
  shows "\<exists>f. filtered_scores al (raw_scores se base mults health) s = Fin f \<and> scored f \<and> (\<not> se_enabled se s \<longrightarrow> f = 0)"
proof -
  obtain b q h where s: "base s = Fin b" "0 \<le> b" "b \<le> 2 ^ 500" "mults s = Fin q" "0 \<le> q" "q \<le> 1"
      "health_multiplier (health s) = Fin h" "0 \<le> h" "h \<le> 1"
    using assms(1,2) [of s] health_unit [of "health s"] by blast
  obtain y where y: "Fin b * Fin q = Fin y" "0 \<le> y" "y \<le> 2 ^ 500" using times_unit [OF s(2,3,5,6)] by blast
  obtain z where z: "Fin y * Fin h = Fin z" "0 \<le> z" "z \<le> 2 ^ 500" "double z" using times_unit [OF y(2,3) s(8,9)] by blast
  have raw: "raw_scores se base mults health s = (if se_enabled se s then Fin z else Fin 0)"
    unfolding raw_scores_def s(1,4,7) y(1) z(1) ..
  have "\<not> al_min_opp al \<le> Fin 0"
    using assms(3) by (cases "al_min_opp al") (auto simp: field_simps intro: order_less_le_trans)
  moreover have "1 / 2 ^ 500 \<le> z" if "al_min_opp al \<le> Fin z" using fle_trans [OF assms(3) that] by simp
  ultimately show ?thesis using z by (auto simp: filtered_scores_def raw scored_def)
qed

lemma amounts_coherent:
  assumes f: "\<And>s. filtered s = Fin (f s)" "\<And>s. scored (f s)" "\<And>s. \<not> se_enabled se s \<Longrightarrow> f s = 0"
    and se: "\<And>s. \<exists>p. se_cap se s = Fin p \<and> 0 \<le> p \<and> p \<le> 1" "\<exists>p. se_min_cash se = Fin p \<and> 0 \<le> p \<and> p \<le> 1"
    and a: "0 \<le> a" "a \<le> 2 ^ 500" "double a" and i: "intensity = Fin i" "0 \<le> i" "i \<le> 1"
  shows "\<exists>g. sleeve_amounts se (Fin a) filtered (py_sum (map filtered SLEEVES)) (target_deploy se (Fin a) intensity) =
      Inr (\<lambda>s. Fin (g s)) \<and> coherent se a g"
proof -
  define T where "T = rnd64 (rnd64 (f Longterm + f Swing) + f Intraday)"
  define m where "m = rnd64 (the_fin (se_min_cash se) * a)"
  define C where "C = rnd64 (a - m)"
  define D where "D = rnd64 (C * i)"
  have T: "py_sum (map filtered SLEEVES) = Fin T"
    unfolding T_def using f(1) scored_small [OF f(2)] by (rule sum3(1))
  have fs: "0 \<le> f s \<and> double (f s)" "f s = 0 \<or> 1 / 2 ^ 500 \<le> f s" for s using f(2) by (simp_all add: scored_def)
  note m = part_of [OF se(2) a, folded m_def]
  have C: "0 \<le> C" "C \<le> a" unfolding C_def using m a by (auto intro: rnd64_nonneg rnd_le_double)
  have Ci: "0 \<le> C * i" "C * i \<le> C" using C(1) i mult_left_mono [of i 1 C] by simp_all
  have D: "0 \<le> D" "D \<le> C" "double D" unfolding D_def using Ci by (auto intro: rnd64_nonneg rnd_le_double simp: C_def)
  have big: "(2::rat) ^ 500 \<le> 2 ^ 1000" by (rule power_increasing) auto
  have "fl (a - m) = Fin C" unfolding C_def using m(2,3) a(2) big by (intro fl_small) simp
  moreover have "fl (C * i) = Fin D" unfolding D_def using Ci C(2) a(2) big by (intro fl_small) simp
  ultimately have target: "target_deploy se (Fin a) intensity = Fin D"
    using m(1) by (simp add: target_deploy_def i minus_pyfloat_def)
  have zero: "coherent se a (\<lambda>_. 0)"
    using m part_of [OF se(1) a] C(1) by (simp add: coherent_def C_def m_def uu_def)
  show ?thesis
  proof (cases "0 < T \<and> 0 < D")
    case False
    then show ?thesis using zero by (auto simp: sleeve_amounts_def T target)
  next
    case True
    note share = share_sum [OF fs T_def conjunct1 [OF True]]
    have le: "f s \<le> T" for s by (rule share(1))
    note sum = share(2)
    have "\<forall>s. \<exists>g. sleeve_amount se (Fin a) filtered (Fin T) (Fin D) s = Inr (Fin g) \<and>
        granted (f s / T * D * (1 + 3 * uu) + 1 / 10 ^ 100) (rnd64 (the_fin (se_cap se s) * a)) g \<and> (f s = 0 \<longrightarrow> g = 0)"
    proof
      fix s
      note k = part_of [OF se(1) a, of s]
      have "filtered s = Fin (f s)" "0 \<le> f s" using f(1) fs(1) by blast+
      then show "\<exists>g. sleeve_amount se (Fin a) filtered (Fin T) (Fin D) s = Inr (Fin g) \<and>
          granted (f s / T * D * (1 + 3 * uu) + 1 / 10 ^ 100) (rnd64 (the_fin (se_cap se s) * a)) g \<and> (f s = 0 \<longrightarrow> g = 0)"
        using sleeve_amount_bound [of "f s" T D "rnd64 (the_fin (se_cap se s) * a)"] le [of s] True D C(2) a(2) k
        by (simp add: sleeve_amount_def)
    qed
    then obtain g where g: "\<And>s. sleeve_amount se (Fin a) filtered (Fin T) (Fin D) s = Inr (Fin (g s))"
        "\<And>s. granted (f s / T * D * (1 + 3 * uu) + 1 / 10 ^ 100) (rnd64 (the_fin (se_cap se s) * a)) (g s)"
        "\<And>s. f s = 0 \<Longrightarrow> g s = 0" by metis
    have "f Longterm / T * D + f Swing / T * D + f Intraday / T * D = (f Longterm + f Swing + f Intraday) / T * D"
      by (simp add: algebra_simps add_divide_distrib)
    also have "\<dots> \<le> (1 + 4 * uu) * D" using sum True D(1) by (intro mult_right_mono) (simp_all add: divide_le_eq mult.commute)
    finally have "f Longterm / T * D + f Swing / T * D + f Intraday / T * D \<le> D * (1 + 4 * uu)" by (simp add: mult.commute)
    moreover have "0 \<le> f s / T * D" for s using fs(1) [of s] True D by simp
    ultimately have "rnd64 (rnd64 (g Longterm + g Swing) + g Intraday) \<le> D * (1 + 20 * uu) + 4 / 10 ^ 8"
      using deployed_bound [of "\<lambda>s. f s / T * D" "\<lambda>s. rnd64 (the_fin (se_cap se s) * a)" g D, OF g(2)] D(1) by blast
    also have "\<dots> \<le> C * (1 + 20 * uu) + 4 / 10 ^ 8" using D(2) by (simp add: uu_def)
    finally have "coherent se a g" using g(2,3) f(3) by (auto simp: coherent_def granted_def C_def m_def)
    moreover have "by_sleeve (Fin (g Longterm)) (Fin (g Swing)) (Fin (g Intraday)) = (\<lambda>s. Fin (g s))"
      by (auto simp: by_sleeve_def split: sleeve.split)
    ultimately show ?thesis using True by (auto simp: sleeve_amounts_def T target g(1))
  qed
qed

lemma capital_allocated:
  assumes base: "\<And>s. \<exists>b. base s = Fin b \<and> 0 \<le> b \<and> b \<le> 2 ^ 500" and mults: "\<And>s. \<exists>q. mults s = Fin q \<and> 0 \<le> q \<and> q \<le> 1"
    and al: "Fin (1 / 2 ^ 500) \<le> al_min_opp al" "isfinite (al_full al)" "Fin 0 < al_full al"
    and se: "\<And>s. \<exists>p. se_cap se s = Fin p \<and> 0 \<le> p \<and> p \<le> 1" "\<exists>p. se_min_cash se = Fin p \<and> 0 \<le> p \<and> p \<le> 1"
    and a: "0 \<le> a" "a \<le> 2 ^ 500" "double a"
  shows "\<exists>x g c. allocate_capital al se (Fin a) base r mults health = Inr x \<and> (\<forall>s. an_amount x s = Fin (g s)) \<and>
    an_cash x = Fin c \<and> an_available x = Fin a \<and> within_limits se a g c"
proof -
  define filtered where "filtered = filtered_scores al (raw_scores se base mults health)"
  have "\<forall>s. \<exists>f. filtered s = Fin f \<and> scored f \<and> (\<not> se_enabled se s \<longrightarrow> f = 0)"
    unfolding filtered_def by (intro allI filtered_scores_sound base mults al(1))
  then obtain f where f: "\<And>s. filtered s = Fin (f s)" "\<And>s. scored (f s)" "\<And>s. \<not> se_enabled se s \<Longrightarrow> f s = 0" by metis
  obtain T where T: "py_sum (map filtered SLEEVES) = Fin T"
    using sum3(1) [of filtered f, OF f(1) scored_small [OF f(2)]] by blast
  obtain F where F: "al_full al = Fin F" "0 < F" using al(2,3) by (cases "al_full al") auto
  have "fquot (Fin T) (Fin F) \<noteq> NaN" using F by simp
  from unit_clip_unit [OF this] have "\<exists>i. deployed_fraction al (Fin T) = Fin i \<and> 0 \<le> i \<and> i \<le> 1"
    unfolding deployed_fraction_def F(1) by auto
  then obtain i where i: "deployed_fraction al (Fin T) = Fin i" "0 \<le> i" "i \<le> 1" by blast
  obtain g where g: "sleeve_amounts se (Fin a) filtered (Fin T) (target_deploy se (Fin a) (Fin i)) = Inr (\<lambda>s. Fin (g s))"
      "coherent se a g"
    using amounts_coherent [of filtered f se a "Fin i" i, OF f se a refl i(2,3)] unfolding T by blast
  let ?S = "rnd64 (rnd64 (g Longterm + g Swing) + g Intraday)"
  have sum: "py_sum (map (\<lambda>s. Fin (g s)) SLEEVES) = Fin ?S"
    using coherent_small [OF g(2) se(1) a] by (intro sum3(1)) auto
  have "\<bar>a - ?S\<bar> \<le> 2 ^ 1000"
  proof -
    obtain E where "999 / 10 ^ 9 \<le> E" "a * 999 / 10 ^ 15 \<le> E" using tolerance_bounds [OF a(1,2)] by blast
    note S = coherent_sum [OF g(2) se(2) a this]
    have "2 ^ 500 * 3 + (1::rat) \<le> 2 ^ 1000" by simp
    then show ?thesis using S(2,3) a unfolding abs_le_iff by linarith
  qed
  then have cash: "Fin a - Fin ?S = Fin (rnd64 (a - ?S))" by (simp add: minus_pyfloat_def fl_small)
  show ?thesis
    unfolding allocate_capital_def Let_def filtered_def [symmetric] T i(1) g(1) res_bind_simps sum
    using verified [OF g(2) _ _ _ se a] coherent_limits [OF g(2) se a] by (simp add: sum cash) blast
qed

lemma resolved_regime: "resolve_regime r = Inr (m, mults) \<Longrightarrow> mults = REGIME_SLEEVE_MULTIPLIERS m"
  by (auto simp: resolve_regime_def regime_sleeve_multipliers_def split: regime_arg.splits option.splits)

lemma resolved_scores: "resolve_base_scores al md = Inr base \<Longrightarrow> \<not> base s < Fin 0"
  by (cases s) (auto simp: resolve_base_scores_def SLEEVES_def res_bind_eq_Inr split: if_splits)

lemma allocation_sound:
  assumes "available_capital contribution portfolio = Inr (Fin a)" and "0 < a" and "a \<le> 2 ^ 500"
    and "resolve_settings user = Inr se" and "resolve_regime regime = Inr (m, mults)"
    and "\<forall>s. resolve_health hm s = Inr (health s)"
    and "resolve_base_scores al md = Inr base" and "\<forall>s. base s \<le> Fin (2 ^ 500)"
    and "Fin (1 / 2 ^ 500) \<le> al_min_opp al" and "isfinite (al_full al)" and "Fin 0 < al_full al"
  shows "\<exists>x g c. allocate al contribution portfolio md hm user regime = Inr x \<and> (\<forall>s. an_amount x s = Fin (g s)) \<and>
    an_cash x = Fin c \<and> an_available x = Fin a \<and> within_limits se a g c"
proof -
  have "double a"
  proof -
    obtain x y where "x + y = Fin a" "isfinite x" "isfinite y"
      using assms(1) by (auto simp: available_capital_def as_finite_number_def res_bind_eq_Inr split: sum.splits exn.splits if_splits)
    then show ?thesis by (auto simp: isfinite_iff intro: fl_double)
  qed
  have base: "\<exists>b. base s = Fin b \<and> 0 \<le> b \<and> b \<le> 2 ^ 500" for s
    using assms(8) resolved_scores [OF assms(7), of s] by (cases "base s") (auto dest: spec [of _ s])
  have mults: "\<exists>q. mults s = Fin q \<and> 0 \<le> q \<and> q \<le> 1" for s
    using resolved_regime [OF assms(5)] multipliers_unit by simp
  have "by_sleeve (health Longterm) (health Swing) (health Intraday) = health"
    by (auto simp: by_sleeve_def split: sleeve.split)
  then have "allocate al contribution portfolio md hm user regime = allocate_capital al se (Fin a) base m mults health"
    using assms(1,2,4-7) by (simp add: allocate_def)
  then show ?thesis
    using capital_allocated [OF base mults assms(9-11) settings_units [OF assms(4)] _ assms(3) \<open>double a\<close>] assms(2) by simp
qed

text \<open>C16. An allocation of up to \<open>2\<^sup>5\<^sup>0\<^sup>0\<close> rupees with scores of a sensible size never fails its own
  verification: it returns, and in exact arithmetic, whatever the roundings, no sleeve exceeds the
  user's cap, a disabled sleeve gets nothing, the amounts and the cash add up to the capital and the cash floor holds,
  up to a millionth of a rupee and \<open>10\<^sup>-\<^sup>1\<^sup>2\<close> of the capital.\<close>

theorem allocation_keeps_its_limits:
  assumes "available_capital contribution portfolio = Inr (Fin a)" and "0 < a" and "a \<le> 2 ^ 500"
    and "resolve_settings user = Inr se" and "resolve_regime regime = Inr (m, mults)"
    and "\<forall>s. resolve_health hm s = Inr (health s)"
    and "resolve_base_scores al md = Inr base" and "\<forall>s. base s \<le> Fin (2 ^ 500)"
    and "Fin (1 / 2 ^ 500) \<le> al_min_opp al" and "isfinite (al_full al)" and "Fin 0 < al_full al"
  shows "\<exists>x g c. allocate al contribution portfolio md hm user regime = Inr x \<and> (\<forall>s. an_amount x s = Fin (g s)) \<and>
    an_cash x = Fin c \<and> an_available x = Fin a \<and> within_limits se a g c"
  using assms by (rule allocation_sound)

definition unwanted :: "settings \<Rightarrow> (sleeve \<Rightarrow> pyfloat) \<Rightarrow> strategy_health \<Rightarrow> sleeve \<Rightarrow> bool" where
  "unwanted se mults h s \<longleftrightarrow> \<not> se_enabled se s \<or> h \<in> {PAUSED, DISABLED} \<or> mults s = Fin 0"

lemma times_zero: "x * Fin 0 = Fin 0 \<or> x * Fin 0 = NaN"
  by (cases x) simp_all

lemma unwanted_score:
  assumes "unwanted se mults (health s) s"
  shows "filtered_scores al (raw_scores se base mults health) s = Fin 0"
proof -
  have z: "Fin 0 * health_multiplier h = Fin 0" for h by (cases h) simp_all
  have n: "NaN * health_multiplier h = NaN" for h by (cases h) simp_all
  have "health_multiplier (health s) = Fin 0 \<or> mults s = Fin 0 \<or> \<not> se_enabled se s"
    using assms by (auto simp: unwanted_def)
  then have "raw_scores se base mults health s \<in> {Fin 0, NaN}"
    using times_zero [of "base s * mults s"] times_zero [of "base s"] by (auto simp: raw_scores_def z n)
  then show ?thesis by (auto simp: filtered_scores_def)
qed

lemma zero_share:
  assumes "sleeve_amount se av filtered T target s = Inr r" and "filtered s = Fin 0" and "Fin 0 < T" and "Fin 0 < target"
    and "\<not> se_cap se s * av < Fin 0"
  shows "r = Fin 0"
proof -
  have "fquot (Fin 0) T = Fin 0" using assms(3) by (cases T) (auto simp: fquot_def)
  moreover have "Fin 0 * target = Fin 0 \<or> Fin 0 * target = NaN" using assms(4) by (cases target) simp_all
  ultimately show ?thesis using assms(1,2,5) by (auto simp: sleeve_amount_def fmin_def floor_paise_def)
qed

text \<open>C17. Whatever the inputs, a sleeve the user disabled, or whose strategy is paused or disabled, or that the
  regime scales to zero, is given nothing by an allocation that returns.\<close>

theorem unwanted_sleeve_gets_nothing:
  assumes "allocate al contribution portfolio md hm user regime = Inr x"
    and "resolve_settings user = Inr se" and "resolve_regime regime = Inr (m, mults)"
    and "resolve_health hm s = Inr h" and "unwanted se mults h s"
  shows "an_amount x s = Fin 0"
proof -
  obtain av where av: "available_capital contribution portfolio = Inr av"
    using assms(1) by (auto simp: allocate_def res_bind_eq_Inr)
  show ?thesis
  proof (cases "av < Fin 0 \<or> av = Fin 0")
    case True
    then show ?thesis using assms(1,2) by (auto simp: allocate_def av flat_allocation_def)
  next
    case False
    obtain lt sw day base where st: "resolve_health hm Longterm = Inr lt" "resolve_health hm Swing = Inr sw"
        "resolve_health hm Intraday = Inr day" "allocate_capital al se av base m mults (by_sleeve lt sw day) = Inr x"
      using assms(1-3) False by (auto simp: allocate_def av res_bind_eq_Inr)
    define health where "health = by_sleeve lt sw day"
    have "health s = h" using st(1-3) assms(4) by (cases s) (auto simp: health_def by_sleeve_def)
    then have zero: "filtered_scores al (raw_scores se base mults health) s = Fin 0"
      using assms(5) by (intro unwanted_score) simp
    obtain p where p: "se_cap se s = Fin p" "0 \<le> p" using settings_units(1) [OF assms(2)] by blast
    have "\<not> se_cap se s * av < Fin 0"
    proof (cases av)
      case (Fin y)
      then have "Fin 0 \<le> fl (p * y)" using False p(2) by (intro fl_nonneg) simp
      then show ?thesis using Fin p(1) by (cases "fl (p * y)") auto
    qed (use False p in auto)
    moreover obtain T target where "sleeve_amounts se av (filtered_scores al (raw_scores se base mults health)) T target = Inr (an_amount x)"
      using st(4) unfolding health_def [symmetric] by (auto simp: allocate_capital_def Let_def res_bind_eq_Inr)
    ultimately show ?thesis
      using zero zero_share [of se av _ T target s]
      by (cases s) (auto simp: sleeve_amounts_def res_bind_eq_Inr by_sleeve_def split: if_splits dest!: sym [of _ "an_amount x"])
  qed
qed

section \<open>A concrete allocation\<close>

definition default_allocator :: allocator where
  "default_allocator = \<lparr>al_sharpe = DEFAULT_SHARPE, al_min_opp = fl (10 / 100), al_min_total = fl (15 / 100), al_full = FULL_DEPLOYMENT_SCORE\<rparr>"

definition demo_settings :: settings where
  "demo_settings = \<lparr>se_enabled = (\<lambda>_. True), se_cap = by_sleeve (fl (80 / 100)) (fl (40 / 100)) (fl (10 / 100)), se_min_cash = fl (5 / 100)\<rparr>"

lemma fraction_literal: "0 \<le> x \<Longrightarrow> x \<le> 1 \<Longrightarrow> fraction (PFloat (fl x)) = Inr (fl x)"
  using literal_unit [of x] by (auto simp: fraction_def py_float_def)

lemma demo_resolved: "resolve_settings [] = Inr demo_settings"
proof -
  have k: "setting [] (cap_key Longterm) = PFloat (fl (80 / 100))" "setting [] (cap_key Swing) = PFloat (fl (40 / 100))"
      "setting [] (cap_key Intraday) = PFloat (fl (10 / 100))" "setting [] ''min_cash_pct'' = PFloat (fl (5 / 100))"
    by (simp_all only: setting_def row_get_def DEFAULT_USER_SETTINGS_def cap_key.simps map_of.simps) simp_all
  have "truthy (setting [] (enabled_key s))" for s
    by (cases s) (simp_all add: setting_def row_get_def DEFAULT_USER_SETTINGS_def)
  then show ?thesis unfolding resolve_settings_def k by (simp only: list.map set_simps ball_empty not_True_eq_False if_False)
      (simp add: fraction_literal demo_settings_def del: divide_numeral_1)
qed

definition demo_scores :: "sleeve \<Rightarrow> pyfloat" where
  "demo_scores = by_sleeve (Fin (3 / 4)) (fl (65 / 100)) (fl (55 / 100))"

lemma demo_scores_unit: "\<exists>b. demo_scores s = Fin b \<and> 0 \<le> b \<and> b \<le> 1"
  using literal_unit [of "65 / 100"] literal_unit [of "55 / 100"]
  by (cases s) (auto simp: demo_scores_def by_sleeve_def intro: exI [of _ "3 / 4"])

lemma demo_base: "resolve_base_scores default_allocator None = Inr demo_scores"
proof -
  have "(\<lambda>s. case map_of (al_sharpe default_allocator) (sleeve_name s) of Some x \<Rightarrow> x | None \<Rightarrow> Fin (1 / 2)) = demo_scores"
  proof
    fix s show "(case map_of (al_sharpe default_allocator) (sleeve_name s) of Some x \<Rightarrow> x | None \<Rightarrow> Fin (1 / 2)) = demo_scores s"
      by (cases s) (simp_all add: default_allocator_def DEFAULT_SHARPE_def demo_scores_def by_sleeve_def)
  qed
  moreover have "\<not> demo_scores s < Fin 0" for s using demo_scores_unit [of s] by auto
  ultimately show ?thesis by (simp add: resolve_base_scores_def score_override_def SLEEVES_def)
qed

lemma demo_available: "available_capital (PInt 100000) [] = Inr (Fin 100000)"
  by code_simp

lemma demo_allocator: "Fin (1 / 2 ^ 500) \<le> al_min_opp default_allocator" "isfinite (al_full default_allocator)"
    "Fin 0 < al_full default_allocator"
proof -
  have "1 / 2 ^ 500 \<le> rnd64 (10 / 100)"
    using rnd_down [of "10 / 100" "10 / 100"] tiny_small by (simp add: uu_def)
  moreover have "fl (10 / 100) = Fin (rnd64 (10 / 100))" by (rule fl_small) simp
  ultimately show "Fin (1 / 2 ^ 500) \<le> al_min_opp default_allocator"
    unfolding default_allocator_def allocator.select_convs by (simp only: less_eq_pyfloat.simps)
next
  have "isfinite FULL_DEPLOYMENT_SCORE" "Fin 0 < FULL_DEPLOYMENT_SCORE" by code_simp+
  then show "isfinite (al_full default_allocator)" "Fin 0 < al_full default_allocator" by (simp_all add: default_allocator_def)
qed

lemma demo_healthy: "resolve_health [] s = Inr HEALTHY"
  by (simp add: resolve_health_def)

lemma demo_regime: "resolve_regime (Member r) = Inr (r, REGIME_SLEEVE_MULTIPLIERS r)"
  by (simp add: resolve_regime_def price_regime_def regime_sleeve_multipliers_def)

lemma demo_capital: "(100000 :: rat) \<le> 2 ^ 500"
  by simp

lemma demo_scores_small: "\<forall>s. demo_scores s \<le> Fin (2 ^ 500)"
proof
  fix s
  obtain b where "demo_scores s = Fin b" "b \<le> 1" using demo_scores_unit [of s] by blast
  moreover have "(1 :: rat) \<le> 2 ^ 500" by simp
  ultimately show "demo_scores s \<le> Fin (2 ^ 500)" by (simp only: less_eq_pyfloat.simps)
qed

theorem allocation_keeps_its_limits_witness:
  "\<exists>x g c. allocate default_allocator (PInt 100000) [] None [] [] (Member SIDEWAYS) = Inr x \<and> (\<forall>s. an_amount x s = Fin (g s)) \<and>
    an_cash x = Fin c \<and> an_available x = Fin 100000 \<and> within_limits demo_settings 100000 g c"
  by (rule allocation_keeps_its_limits [OF demo_available _ demo_capital demo_resolved demo_regime _ demo_base demo_scores_small
        demo_allocator, where health = "\<lambda>_. HEALTHY"]) (simp_all add: demo_healthy)

theorem unwanted_sleeve_gets_nothing_witness:
  "\<exists>x. allocate default_allocator (PInt 100000) [] None [] [] (Member PANIC) = Inr x \<and> an_amount x Swing = Fin 0"
proof -
  obtain x where x: "allocate default_allocator (PInt 100000) [] None [] [] (Member PANIC) = Inr x"
    using allocation_sound [OF demo_available _ demo_capital demo_resolved demo_regime _ demo_base demo_scores_small
        demo_allocator, of "[]" "\<lambda>_. HEALTHY" PANIC] demo_healthy by auto
  have "unwanted demo_settings (REGIME_SLEEVE_MULTIPLIERS PANIC) HEALTHY Swing"
    by (simp add: unwanted_def percents_def by_sleeve_def)
  from unwanted_sleeve_gets_nothing [OF x demo_resolved demo_regime demo_healthy this] x show ?thesis by blast
qed

end
