(* ===== verification/Strategy.thy ===== *)
theory Strategy
  imports Service Allocator Py_Time
begin

text \<open>
  \<open>app/strategies/base.py\<close>: the validity of a signal, the health of a strategy as a state machine over
  its performance figures, the gate of the risk engine and the budget of a batch of signals; with the
  exit rule of \<open>app/strategies/intraday.py\<close>.
\<close>

section \<open>Signals\<close>

definition MIN_RISK_REWARD :: pyfloat where "MIN_RISK_REWARD = Fin 1"
definition MAX_GROSS_EXPOSURE :: pyfloat where "MAX_GROSS_EXPOSURE = Fin 1"

definition risk_reward_ratio :: "alpha \<Rightarrow> pyfloat" where
  "risk_reward_ratio al = (if al_stop_pct al \<le> Fin 0 then NaN else fquot (al_target_pct al) (al_stop_pct al))"

definition breakeven_win_rate :: "alpha \<Rightarrow> pyfloat" where
  "breakeven_win_rate al = (let rr = risk_reward_ratio al in
     if \<not> isfinite rr \<or> rr \<le> Fin 0 then NaN else fquot (Fin 1) (Fin 1 + rr))"

definition signal_is_valid :: "alpha \<Rightarrow> bool" where
  "signal_is_valid al =
     (if al_direction al = EXIT then True
      else if \<not> isfinite (al_edge al) \<or> al_edge al \<le> Fin 0 then False
      else if \<not> isfinite (al_return al) then False
      else if \<not> isfinite (al_return_std al) \<or> al_return_std al < Fin 0 then False
      else if al_stop_pct al \<le> Fin 0 then False
      else \<not> (\<not> isfinite (risk_reward_ratio al) \<or> risk_reward_ratio al \<le> MIN_RISK_REWARD))"

section \<open>Health\<close>

record performance =
  pm_sharpe_30d :: pyfloat
  pm_sharpe_90d :: pyfloat
  pm_drawdown :: pyfloat
  pm_win_rate :: pyfloat
  pm_trades :: int
  pm_observations :: int

definition sharpe_sample_size :: "performance \<Rightarrow> int" where
  "sharpe_sample_size pm = (if pm_observations pm \<noteq> 0 then pm_observations pm else pm_trades pm)"

definition MIN_OBS_FOR_DEGRADATION :: int where "MIN_OBS_FOR_DEGRADATION = 60"
definition SHARPE_DEGRADE_Z :: pyfloat where "SHARPE_DEGRADE_Z = Fin 2"
definition PERIODS_PER_YEAR :: int where "PERIODS_PER_YEAR = 252"

definition annualized_sharpe_se :: "pyfloat \<Rightarrow> int \<Rightarrow> pyfloat res" where
  "annualized_sharpe_se sharpe n =
     (if n < 2 then Inr PInf else if \<not> isfinite sharpe then Inr PInf
      else res_bind (fsqrt (fl (of_int PERIODS_PER_YEAR / of_int n))) (\<lambda>base.
           res_bind (fsquare sharpe) (\<lambda>sq.
           res_bind (fsqrt (Fin 1 + fquot sq (Fin 2 * fint PERIODS_PER_YEAR))) (\<lambda>correction. Inr (base * correction)))))"

definition sharpe_significantly_below :: "pyfloat \<Rightarrow> pyfloat \<Rightarrow> int \<Rightarrow> bool res" where
  "sharpe_significantly_below sharpe level n =
     (if n < MIN_OBS_FOR_DEGRADATION then Inr False else if \<not> isfinite sharpe then Inr False
      else res_bind (annualized_sharpe_se sharpe n) (\<lambda>se.
        Inr (isfinite se \<and> sharpe < level - SHARPE_DEGRADE_Z * se)))"

text \<open>\<open>update_health\<close>: the new health; \<open>a or b\<close> looks at the drawdown only when the Sharpe does not decide.\<close>

definition degrades :: "performance \<Rightarrow> rat \<Rightarrow> rat \<Rightarrow> bool res" where
  "degrades pm level drawdown =
     res_bind (sharpe_significantly_below (pm_sharpe_30d pm) (fl level) (sharpe_sample_size pm)) (\<lambda>b.
       Inr (b \<or> fl drawdown < pm_drawdown pm))"

definition new_health :: "performance \<Rightarrow> strategy_health \<Rightarrow> strategy_health res" where
  "new_health pm h =
     res_bind (degrades pm (- 1) (20 / 100)) (\<lambda>b. if b then Inr DISABLED
     else res_bind (degrades pm (- 1 / 2) (10 / 100)) (\<lambda>b. if b then Inr PAUSED
     else res_bind (degrades pm 0 (5 / 100)) (\<lambda>b. if b \<and> h = HEALTHY then Inr REDUCED
     else Inr (if h \<in> {REDUCED, PAUSED} \<and> fl (3 / 10) \<le> pm_sharpe_90d pm \<and> pm_drawdown pm \<le> fl (3 / 100) \<and> 10 \<le> pm_trades pm
               then HEALTHY else h))))"

record health_entry =
  he_time :: string
  he_from :: strategy_health
  he_to :: strategy_health
  he_sharpe :: pyfloat
  he_se :: pyfloat
  he_observations :: int
  he_drawdown :: pyfloat

record strategy_state =
  ss_health :: strategy_health
  ss_log :: "health_entry list"

definition update_health :: "string \<Rightarrow> performance \<Rightarrow> (strategy_state, strategy_health) ef" where
  "update_health now pm s =
     (if ss_health s = DISABLED then (Inr DISABLED, s)
      else case new_health pm (ss_health s) of
        Inl e \<Rightarrow> (Inl e, s)
      | Inr h \<Rightarrow> (let s' = s\<lparr>ss_health := h\<rparr> in
          if h = ss_health s then (Inr h, s')
          else case annualized_sharpe_se (pm_sharpe_30d pm) (sharpe_sample_size pm) of
            Inl e \<Rightarrow> (Inl e, s')
          | Inr se \<Rightarrow> (Inr h, s'\<lparr>ss_log := ss_log s @ [\<lparr>he_time = now, he_from = ss_health s, he_to = h,
              he_sharpe = pm_sharpe_30d pm, he_se = se, he_observations = sharpe_sample_size pm, he_drawdown = pm_drawdown pm\<rparr>]\<rparr>)))"

definition is_operational :: "strategy_health \<Rightarrow> bool" where
  "is_operational h \<longleftrightarrow> h \<in> {HEALTHY, REDUCED}"

definition position_size_multiplier :: "strategy_health \<Rightarrow> pyfloat" where
  "position_size_multiplier h = (case h of HEALTHY \<Rightarrow> Fin 1 | REDUCED \<Rightarrow> Fin (1 / 2) | PAUSED \<Rightarrow> Fin 0 | DISABLED \<Rightarrow> Fin 0)"

section \<open>The gate of the risk engine\<close>

text \<open>No engine (\<open>None\<close>) approves, an engine without \<open>approve_trade\<close> (\<open>Some None\<close>) and one that raises block.\<close>

definition risk_engine_approves :: "(string \<Rightarrow> pyfloat \<Rightarrow> string \<Rightarrow> bool res) option option \<Rightarrow> string \<Rightarrow> pyfloat \<Rightarrow> string \<Rightarrow> bool res" where
  "risk_engine_approves engine symbol sz sleeve = (case engine of
     None \<Rightarrow> Inr True
   | Some None \<Rightarrow> Inl (RiskEngineError ''Risk engine has no approve_trade()'')
   | Some (Some approve) \<Rightarrow> (case approve symbol sz sleeve of
       Inl e \<Rightarrow> Inl (RiskEngineError ''Risk engine failed to approve'') | Inr b \<Rightarrow> Inr b))"

section \<open>The budget of a batch\<close>

definition stamp_target_weights :: "pyfloat list \<Rightarrow> pyfloat \<Rightarrow> pyfloat list" where
  "stamp_target_weights raw budget =
     (let total_weight = py_sum (map (fmax (Fin 0)) raw);
          scale = (if total_weight \<le> budget \<or> total_weight \<le> Fin 0 then Fin 1 else fquot budget total_weight)
      in map (\<lambda>w. fmax (Fin 0) w * scale) raw)"

definition entry_budget :: "int \<Rightarrow> int \<Rightarrow> pyfloat \<Rightarrow> pyfloat" where
  "entry_budget max_positions existing budget =
     (if max_positions \<le> 0 then Fin 0
      else fmax (Fin 0) (budget * (Fin 1 - fmin (Fin 1) (fquot (fint (max 0 existing)) (fint max_positions)))))"

text \<open>\<open>allocate_capital\<close> with the sizing of the strategy as a parameter.\<close>

fun batch_sizes :: "(alpha \<Rightarrow> pyfloat res) \<Rightarrow> alpha list \<Rightarrow> (string \<times> pyfloat) list \<Rightarrow> (string \<times> pyfloat) list res" where
  "batch_sizes sizing [] sizes = Inr sizes"
| "batch_sizes sizing (al # als) sizes =
     (if al_direction al = EXIT then batch_sizes sizing als sizes
      else res_bind (sizing al) (\<lambda>v.
        batch_sizes sizing als (if Fin 0 < v then AList.update (al_symbol al)
          ((case map_of sizes (al_symbol al) of Some x \<Rightarrow> x | None \<Rightarrow> Fin 0) + v) sizes else sizes)))"

definition allocate_batch :: "(alpha \<Rightarrow> pyfloat res) \<Rightarrow> alpha list \<Rightarrow> pyfloat \<Rightarrow> pyfloat \<Rightarrow> (string \<times> pyfloat) list res" where
  "allocate_batch sizing als available gross =
     (if available \<le> Fin 0 then Inr []
      else res_bind (batch_sizes sizing als []) (\<lambda>sizes.
        let budget = available * gross; total_size = py_sum (map snd sizes) in
        Inr (if budget < total_size \<and> Fin 0 < total_size
             then map (\<lambda>(k, v). (k, v * fquot budget total_size)) sizes else sizes)))"

section \<open>Stops and targets\<close>

text \<open>A position of the intraday book; its stop is zero and its target out of reach where they are unknown.\<close>

record intraday_position =
  ip_symbol :: string
  ip_direction :: string
  ip_entry :: pyfloat
  ip_stop :: pyfloat
  ip_target :: pyfloat
  ip_quantity :: int
  ip_last :: pyfloat

definition hit_stop :: "intraday_position \<Rightarrow> pyfloat \<Rightarrow> pyfloat \<Rightarrow> bool" where
  "hit_stop p price buffer = (if ip_direction p = ''LONG'' then price \<le> ip_stop p * (Fin 1 - buffer)
     else ip_stop p * (Fin 1 + buffer) \<le> price)"

definition hit_target :: "intraday_position \<Rightarrow> pyfloat \<Rightarrow> bool" where
  "hit_target p price = (if ip_direction p = ''LONG'' then ip_target p \<le> price else price \<le> ip_target p)"

definition SQUARE_OFF_TIME :: int where "SQUARE_OFF_TIME = clock_micros 15 15"

text \<open>\<open>IntradayStrategy.should_exit\<close> at an aware time.\<close>

definition should_exit :: "intraday_position \<Rightarrow> pyfloat \<Rightarrow> pyfloat option \<Rightarrow> moment \<Rightarrow> bool" where
  "should_exit p price average now =
     (if SQUARE_OFF_TIME \<le> mo_micros now then True
      else if price \<le> Fin 0 then False
      else if hit_stop p price (Fin 0) then True
      else if hit_target p price then True
      else case average of None \<Rightarrow> False
        | Some v \<Rightarrow> Fin 0 < v \<and> ip_direction p = ''LONG'' \<and> price < v \<and> price < ip_entry p)"

end
