(* ===== verification/Strategy_Claims.thy ===== *)
theory Strategy_Claims
  imports Strategy
begin

text \<open>
  The health of a strategy over any sequence of updates: the log explains every change from the first
  health to the current one, with the evidence that the thresholds ask for.
\<close>

text \<open>The evidence a log entry holds: a Sharpe ratio significantly below a level on enough observations.\<close>

definition proved_below :: "health_entry \<Rightarrow> rat \<Rightarrow> bool" where
  "proved_below e level \<longleftrightarrow> MIN_OBS_FOR_DEGRADATION \<le> he_observations e \<and> isfinite (he_sharpe e) \<and> isfinite (he_se e) \<and>
     he_sharpe e < fl level - SHARPE_DEGRADE_Z * he_se e"

text \<open>A change and the metrics it was made on, which hold what the entry leaves out: the longer Sharpe ratio and
  the number of trades a recovery needs.\<close>

definition legal_change :: "performance \<Rightarrow> health_entry \<Rightarrow> bool" where
  "legal_change pm e \<longleftrightarrow> he_from e \<noteq> DISABLED \<and> (case he_to e of
     HEALTHY \<Rightarrow> he_from e \<in> {REDUCED, PAUSED} \<and> he_drawdown e \<le> fl (3 / 100) \<and>
       fl (3 / 10) \<le> pm_sharpe_90d pm \<and> 10 \<le> pm_trades pm
   | REDUCED \<Rightarrow> he_from e = HEALTHY \<and> (proved_below e 0 \<or> fl (5 / 100) < he_drawdown e)
   | PAUSED \<Rightarrow> he_from e \<in> {HEALTHY, REDUCED} \<and> (proved_below e (- 1 / 2) \<or> fl (10 / 100) < he_drawdown e)
   | DISABLED \<Rightarrow> proved_below e (- 1) \<or> fl (20 / 100) < he_drawdown e)"

definition entry_of :: "string \<Rightarrow> performance \<Rightarrow> strategy_health \<Rightarrow> strategy_health \<Rightarrow> pyfloat \<Rightarrow> health_entry" where
  "entry_of now pm h h' se = \<lparr>he_time = now, he_from = h, he_to = h', he_sharpe = pm_sharpe_30d pm, he_se = se,
     he_observations = sharpe_sample_size pm, he_drawdown = pm_drawdown pm\<rparr>"

text \<open>An update that changes nothing: the drawdown is beyond no threshold of a health worse than the one there is.\<close>

definition nothing_due :: "performance \<Rightarrow> strategy_health \<Rightarrow> bool" where
  "nothing_due pm h \<longleftrightarrow> h = DISABLED \<or> \<not> fl (20 / 100) < pm_drawdown pm \<and>
     (h = PAUSED \<or> \<not> fl (10 / 100) < pm_drawdown pm) \<and> (h \<noteq> HEALTHY \<or> \<not> fl (5 / 100) < pm_drawdown pm)"

text \<open>The log of a sequence of updates: each update either changes nothing, and nothing was due, or it adds the entry of its
  own metrics for a change they justify.\<close>

fun health_chain :: "strategy_health \<Rightarrow> (string \<times> performance) list \<Rightarrow> health_entry list \<Rightarrow> strategy_health \<Rightarrow> bool" where
  "health_chain h [] es h' \<longleftrightarrow> es = [] \<and> h' = h"
| "health_chain h ((now, pm) # ups) es h' \<longleftrightarrow>
     nothing_due pm h \<and> health_chain h ups es h' \<or>
     (\<exists>k se es'. es = entry_of now pm h k se # es' \<and> k \<noteq> h \<and> legal_change pm (entry_of now pm h k se) \<and>
        annualized_sharpe_se (pm_sharpe_30d pm) (sharpe_sample_size pm) = Inr se \<and> health_chain k ups es' h')"

lemma degrades_evidence:
  assumes "degrades pm level dd = Inr b" and "b" and "annualized_sharpe_se (pm_sharpe_30d pm) (sharpe_sample_size pm) = Inr se"
  shows "proved_below (entry_of now pm h h' se) level \<or> fl dd < pm_drawdown pm"
  using assms by (auto simp: degrades_def sharpe_significantly_below_def proved_below_def entry_of_def res_bind_eq_Inr split: if_splits)

lemma new_health_legal:
  assumes "new_health pm h = Inr h'" and "annualized_sharpe_se (pm_sharpe_30d pm) (sharpe_sample_size pm) = Inr se"
    and "h \<noteq> DISABLED" and "h' \<noteq> h"
  shows "legal_change pm (entry_of now pm h h' se)"
proof -
  have sel: "he_from (entry_of now pm h h' se) = h" "he_to (entry_of now pm h h' se) = h'"
    "he_drawdown (entry_of now pm h h' se) = pm_drawdown pm" by (simp_all add: entry_of_def)
  obtain b1 where b1: "degrades pm (- 1) (20 / 100) = Inr b1" using assms(1) by (auto simp: new_health_def res_bind_eq_Inr)
  show ?thesis
  proof (cases b1)
    case True
    then have "h' = DISABLED" using assms(1) unfolding new_health_def b1 by auto
    then show ?thesis using degrades_evidence [OF b1 True assms(2), of now h h'] assms(3) sel by (simp add: legal_change_def)
  next
    case f1: False
    obtain b2 where b2: "degrades pm (- 1 / 2) (10 / 100) = Inr b2" using assms(1) f1 unfolding new_health_def b1 by (auto simp: res_bind_eq_Inr)
    show ?thesis
    proof (cases b2)
      case True
      then have "h' = PAUSED" using assms(1) f1 unfolding new_health_def b1 b2 by auto
      then show ?thesis using degrades_evidence [OF b2 True assms(2), of now h h'] assms(3,4) sel
        by (cases h) (simp_all add: legal_change_def)
    next
      case f2: False
      obtain b3 where b3: "degrades pm 0 (5 / 100) = Inr b3" using assms(1) f1 f2 unfolding new_health_def b1 b2 by (auto simp: res_bind_eq_Inr)
      have h': "h' = (if b3 \<and> h = HEALTHY then REDUCED else if h \<in> {REDUCED, PAUSED} \<and> fl (3 / 10) \<le> pm_sharpe_90d pm \<and>
        pm_drawdown pm \<le> fl (3 / 100) \<and> 10 \<le> pm_trades pm then HEALTHY else h)"
        using assms(1) f1 f2 unfolding new_health_def b1 b2 b3 by (auto split: if_splits)
      show ?thesis
      proof (cases "b3 \<and> h = HEALTHY")
        case True
        then show ?thesis using degrades_evidence [OF b3 conjunct1 [OF True] assms(2), of now h h'] h' sel
          by (simp add: legal_change_def)
      next
        case False
        then show ?thesis using h' assms(3,4) sel by (auto simp: legal_change_def split: if_splits)
      qed
    qed
  qed
qed

lemma degrades_drawdown: "degrades pm level dd = Inr b \<Longrightarrow> fl dd < pm_drawdown pm \<Longrightarrow> b"
  by (auto simp: degrades_def res_bind_eq_Inr)

lemma unchanged_nothing_due:
  assumes "new_health pm h = Inr h"
  shows "nothing_due pm h"
proof -
  obtain b1 where b1: "degrades pm (- 1) (20 / 100) = Inr b1" using assms by (auto simp: new_health_def res_bind_eq_Inr)
  note d1 = degrades_drawdown [OF b1]
  show ?thesis
  proof (cases "b1 \<or> h = DISABLED")
    case True
    then have "h = DISABLED" using assms unfolding new_health_def b1 by (cases b1) auto
    then show ?thesis by (simp add: nothing_due_def)
  next
    case f1: False
    obtain b2 where b2: "degrades pm (- 1 / 2) (10 / 100) = Inr b2" using assms f1 unfolding new_health_def b1 by (auto simp: res_bind_eq_Inr)
    note d2 = degrades_drawdown [OF b2]
    show ?thesis
    proof (cases b2)
      case True
      then show ?thesis using assms f1 d1 unfolding new_health_def b1 b2 by (auto simp: nothing_due_def)
    next
      case f2: False
      obtain b3 where b3: "degrades pm 0 (5 / 100) = Inr b3" using assms f1 f2 unfolding new_health_def b1 b2 by (auto simp: res_bind_eq_Inr)
      have "\<not> (b3 \<and> h = HEALTHY)" using assms f1 f2 unfolding new_health_def b1 b2 b3 by auto
      then show ?thesis using d1 d2 degrades_drawdown [OF b3] f1 f2 by (auto simp: nothing_due_def)
    qed
  qed
qed

lemma update_cases:
  assumes "update_health now pm s = (Inr h, s')"
  shows "s' = s \<and> nothing_due pm (ss_health s) \<or>
    (\<exists>se. annualized_sharpe_se (pm_sharpe_30d pm) (sharpe_sample_size pm) = Inr se \<and> h \<noteq> ss_health s \<and>
       s' = s\<lparr>ss_health := h, ss_log := ss_log s @ [entry_of now pm (ss_health s) h se]\<rparr> \<and>
       legal_change pm (entry_of now pm (ss_health s) h se))"
proof (cases "ss_health s = DISABLED")
  case True
  then show ?thesis using assms by (auto simp: update_health_def nothing_due_def)
next
  case False
  obtain h' where h': "new_health pm (ss_health s) = Inr h'" using assms(1) False by (cases "new_health pm (ss_health s)") (auto simp: update_health_def)
  show ?thesis
  proof (cases "h' = ss_health s")
    case True
    then have "s' = s" using assms h' False by (simp add: update_health_def)
    then show ?thesis using unchanged_nothing_due [of pm "ss_health s"] h' True by simp
  next
    case ne: False
    obtain se where se: "annualized_sharpe_se (pm_sharpe_30d pm) (sharpe_sample_size pm) = Inr se"
      using assms(1) h' False ne by (cases "annualized_sharpe_se (pm_sharpe_30d pm) (sharpe_sample_size pm)") (auto simp: update_health_def)
    have "s' = s\<lparr>ss_health := h', ss_log := ss_log s @ [entry_of now pm (ss_health s) h' se]\<rparr>" "h = h'"
      using assms(1) h' False ne se by (auto simp: update_health_def entry_of_def Let_def)
    then show ?thesis using new_health_legal [OF h' se False ne, of now] se ne by auto
  qed
qed

lemma updates_extend:
  "ef_iter (\<lambda>(now, pm). update_health now pm) ups s = (Inr hs, s') \<Longrightarrow>
    \<exists>es. ss_log s' = ss_log s @ es \<and> health_chain (ss_health s) ups es (ss_health s')"
proof (induction ups arbitrary: s hs)
  case (Cons u ups)
  obtain now pm where u: "u = (now, pm)" by fastforce
  obtain h s1 where 1: "update_health now pm s = (Inr h, s1)"
    using Cons.prems(1) by (cases "update_health now pm s"; cases "fst (update_health now pm s)") (auto simp: u ef_defs)
  obtain hs' where "ef_iter (\<lambda>(now, pm). update_health now pm) ups s1 = (Inr hs', s')"
    using Cons.prems(1) 1 by (auto simp: u ef_defs split: prod.splits sum.splits)
  then obtain es where es: "ss_log s' = ss_log s1 @ es" "health_chain (ss_health s1) ups es (ss_health s')"
    using Cons.IH by blast
  from update_cases [OF 1] show ?case
  proof (elim disjE exE conjE)
    assume "s1 = s" "nothing_due pm (ss_health s)"
    then show ?thesis using es u by auto
  next
    fix se
    assume "annualized_sharpe_se (pm_sharpe_30d pm) (sharpe_sample_size pm) = Inr se" "h \<noteq> ss_health s"
      "s1 = s\<lparr>ss_health := h, ss_log := ss_log s @ [entry_of now pm (ss_health s) h se]\<rparr>"
      "legal_change pm (entry_of now pm (ss_health s) h se)"
    then show ?thesis using es u by (intro exI [of _ "entry_of now pm (ss_health s) h se # es"]) auto
  qed
qed (simp add: ef_return_def)

text \<open>C29. Over any sequence of updates none of which raises (the standard error of an extreme Sharpe ratio can overflow),
  the log explains how the health went from the one the strategy started with to the one it has. Every entry is the change
  made by one update, in their order, with that update's own metrics: no change leaves \<open>DISABLED\<close>; a degradation has a
  30-day Sharpe ratio significantly below the level, on at least sixty observations, or a drawdown beyond the
  threshold; a return to \<open>HEALTHY\<close> has a 90-day Sharpe ratio of at least 0.3, a drawdown of at most three per cent and at
  least ten trades. And an update that logged nothing changed nothing, and its drawdown was beyond no
  threshold of a worse health.\<close>

theorem health_log_explains_every_change:
  assumes "ef_iter (\<lambda>(now, pm). update_health now pm) ups \<lparr>ss_health = h0, ss_log = []\<rparr> = (Inr hs, s')"
  shows "health_chain h0 ups (ss_log s') (ss_health s')"
  using updates_extend [OF assms] by simp

definition deep_drawdown :: performance where
  "deep_drawdown = \<lparr>pm_sharpe_30d = Fin 1, pm_sharpe_90d = Fin 1, pm_drawdown = Fin (1 / 4), pm_win_rate = Fin (1 / 2), pm_trades = 12,
     pm_observations = 0\<rparr>"

theorem health_log_explains_every_change_witness:
  "health_chain HEALTHY [(''t1'', deep_drawdown), (''t2'', deep_drawdown)] (ss_log (snd (ef_iter (\<lambda>(now, pm). update_health now pm) [(''t1'', deep_drawdown), (''t2'', deep_drawdown)]
     \<lparr>ss_health = HEALTHY, ss_log = []\<rparr>))) DISABLED"
proof -
  let ?r = "ef_iter (\<lambda>(now, pm). update_health now pm) [(''t1'', deep_drawdown), (''t2'', deep_drawdown)] \<lparr>ss_health = HEALTHY, ss_log = []\<rparr>"
  have "case ?r of (r, s) \<Rightarrow> r = Inr [DISABLED, DISABLED] \<and> ss_health s = DISABLED" by code_simp
  then have "?r = (Inr [DISABLED, DISABLED], snd ?r)" "ss_health (snd ?r) = DISABLED" by (simp_all only: case_prod_beta) (metis prod.collapse)
  from health_log_explains_every_change [OF this(1)] this(2) show ?thesis by simp
qed

end
