(* ===== verification/Trader.thy ===== *)
theory Trader
  imports Strategy
begin

text \<open>
  \<open>app/engine/monitor.py\<close> and \<open>app/engine/trader.py\<close>: one pass of the intraday trader over the execution
  boundary: the exits the monitor decides, the entries of the strategy and a protective stop on every
  entry. The bars of a symbol are its closes with the volume-weighted price pandas computes; the signals and sizes of the
  strategy, the texts of times and the strategy's name are parameters. Log lines are left out.
\<close>

section \<open>The monitor\<close>

datatype exit_reason = Stop_Hit | Target_Hit | Vwap_Reversal | Square_Off | Stop_Placement_Failed

fun exit_reason_text :: "exit_reason \<Rightarrow> string" where
  "exit_reason_text Stop_Hit = ''stop''"
| "exit_reason_text Target_Hit = ''target''"
| "exit_reason_text Vwap_Reversal = ''vwap_reversal''"
| "exit_reason_text Square_Off = ''square_off''"
| "exit_reason_text Stop_Placement_Failed = ''stop_placement_failed''"

record exit_decision =
  ed_symbol :: string
  ed_reason :: exit_reason
  ed_price :: pyfloat
  ed_vwap :: "pyfloat option"
  ed_time :: int

record bars =
  bars_close :: "pyfloat list"
  bars_vwap :: "pyfloat option"

definition last_close :: "bars option \<Rightarrow> pyfloat option" where
  "last_close df = (case df of None \<Rightarrow> None | Some b \<Rightarrow> if bars_close b = [] then None else Some (last (bars_close b)))"

definition current_price :: "intraday_position \<Rightarrow> bars option \<Rightarrow> pyfloat option" where
  "current_price p df = (case last_close df of Some x \<Rightarrow> Some x
     | None \<Rightarrow> if ftruthy (ip_last p) then Some (ip_last p) else None)"

definition session_vwap :: "bars option \<Rightarrow> pyfloat option" where
  "session_vwap df = (case df of None \<Rightarrow> None | Some b \<Rightarrow> if bars_close b = [] then None else bars_vwap b)"

definition vwap_reversal :: "intraday_position \<Rightarrow> pyfloat \<Rightarrow> pyfloat option \<Rightarrow> bool" where
  "vwap_reversal p x average = (case average of None \<Rightarrow> False | Some v \<Rightarrow>
     \<not> v \<le> Fin 0 \<and> py_upper (ip_direction p) = ''LONG'' \<and> x < v \<and> x < (if ftruthy (ip_entry p) then ip_entry p else Fin 0))"

definition exit_reason_of :: "int \<Rightarrow> intraday_position \<Rightarrow> pyfloat \<Rightarrow> pyfloat option \<Rightarrow> moment \<Rightarrow> exit_reason" where
  "exit_reason_of square_off p x average now =
     (if square_off \<le> mo_micros now then Square_Off
      else if hit_stop p x (Fin 0) then Stop_Hit
      else if hit_target p x then Target_Hit
      else if vwap_reversal p x average then Vwap_Reversal
      else Square_Off)"

text \<open>\<open>evaluate\<close> with the exit rule of the intraday strategy.\<close>

definition judge_position :: "int \<Rightarrow> (string \<Rightarrow> bars option) \<Rightarrow> int \<Rightarrow> intraday_position \<Rightarrow> exit_decision list" where
  "judge_position square_off bars now p =
     (if ip_symbol p = [] then []
      else case current_price p (bars (ip_symbol p)) of
        None \<Rightarrow> []
      | Some x \<Rightarrow>
          (let average = session_vwap (bars (ip_symbol p)) in
           if x \<le> Fin 0 \<or> \<not> should_exit p x average (ist_of now) then []
           else [\<lparr>ed_symbol = ip_symbol p, ed_reason = exit_reason_of square_off p x average (ist_of now), ed_price = x,
                  ed_vwap = average, ed_time = now\<rparr>]))"

definition evaluate_exits :: "int \<Rightarrow> intraday_position list \<Rightarrow> (string \<Rightarrow> bars option) \<Rightarrow> int \<Rightarrow> exit_decision list" where
  "evaluate_exits square_off ps bars now = concat (map (judge_position square_off bars now) ps)"

section \<open>The ledger\<close>

record ledger_position =
  lp_symbol :: string
  lp_quantity :: int
  lp_entry :: pyfloat
  lp_stop :: pyfloat
  lp_target :: pyfloat
  lp_direction :: string
  lp_strategy :: string
  lp_entry_time :: string
  lp_entry_id :: "string option"
  lp_stop_id :: "string option"

type_synonym ledger = "(string \<times> ledger_position) list"

definition NO_STOP :: pyfloat where "NO_STOP = Fin 0"
definition NO_TARGET :: pyfloat where "NO_TARGET = fl (10 ^ 18)"

definition record_entry :: "alpha \<Rightarrow> int \<Rightarrow> pyfloat \<Rightarrow> string option \<Rightarrow> ledger \<Rightarrow> ledger_position \<times> ledger" where
  "record_entry al n px oid rows =
     (let row = \<lparr>lp_symbol = al_symbol al, lp_quantity = n, lp_entry = px,
            lp_stop = (if Fin 0 < al_stop_pct al then px * (Fin 1 - al_stop_pct al) else NO_STOP),
            lp_target = (if Fin 0 < al_target_pct al then px * (Fin 1 + al_target_pct al) else NO_TARGET),
            lp_direction = direction_text (al_direction al), lp_strategy = al_strategy al, lp_entry_time = al_timestamp al,
            lp_entry_id = oid, lp_stop_id = None\<rparr>
      in (row, AList.update (al_symbol al) row rows))"

definition record_stop_order :: "string \<Rightarrow> string option \<Rightarrow> ledger \<Rightarrow> ledger" where
  "record_stop_order symbol sid rows = (case map_of rows symbol of None \<Rightarrow> rows
     | Some row \<Rightarrow> AList.update symbol (row\<lparr>lp_stop_id := sid\<rparr>) rows)"

definition drop_position :: "string \<Rightarrow> ledger \<Rightarrow> ledger" where
  "drop_position symbol rows = AList.delete symbol rows"

text \<open>A position as the broker reports it, with the two prices the trader reads.\<close>

record holding =
  ho_position :: bposition
  ho_average :: pyfloat
  ho_last :: pyfloat

definition holding_symbol :: "holding \<Rightarrow> string" where
  "holding_symbol h = (case bp_symbol (ho_position h) of None \<Rightarrow> [] | Some s \<Rightarrow> s)"

definition pos_quantity :: "holding list \<Rightarrow> string \<Rightarrow> int" where
  "pos_quantity hs symbol = (case List.find (\<lambda>h. holding_symbol h = symbol) hs of
     None \<Rightarrow> 0 | Some h \<Rightarrow> bp_quantity (ho_position h))"

definition pos_avg :: "holding list \<Rightarrow> string \<Rightarrow> pyfloat option" where
  "pos_avg hs symbol = (case List.find (\<lambda>h. holding_symbol h = symbol) hs of
     None \<Rightarrow> None | Some h \<Rightarrow> if ftruthy (ho_average h) then Some (ho_average h) else None)"

definition is_mis :: "holding \<Rightarrow> bool" where
  "is_mis h \<longleftrightarrow> py_upper (case bp_product (ho_position h) of None \<Rightarrow> [] | Some p \<Rightarrow> p) = ''MIS''"

text \<open>The intraday holdings by symbol; a later one replaces an earlier one.\<close>

definition mis_book :: "holding list \<Rightarrow> (string \<times> int) list" where
  "mis_book hs = dict_of (map (\<lambda>h. (holding_symbol h, bp_quantity (ho_position h)))
     (filter (\<lambda>h. is_mis h \<and> 0 < bp_quantity (ho_position h)) hs))"

definition adopted_row :: "holding list \<Rightarrow> string \<Rightarrow> string \<Rightarrow> int \<Rightarrow> ledger_position" where
  "adopted_row hs now symbol n = \<lparr>lp_symbol = symbol, lp_quantity = n,
     lp_entry = (case pos_avg hs symbol of None \<Rightarrow> Fin 0 | Some x \<Rightarrow> x), lp_stop = NO_STOP, lp_target = NO_TARGET,
     lp_direction = ''LONG'', lp_strategy = ''adopted'', lp_entry_time = now, lp_entry_id = None, lp_stop_id = None\<rparr>"

fun adopt :: "holding list \<Rightarrow> string \<Rightarrow> (string \<times> int) list \<Rightarrow> ledger \<Rightarrow> string list \<times> ledger" where
  "adopt hs now [] rows = ([], rows)"
| "adopt hs now ((symbol, n) # book) rows = (case map_of rows symbol of
     None \<Rightarrow> (case adopt hs now book (AList.update symbol (adopted_row hs now symbol n) rows) of
       (adopted, rows') \<Rightarrow> (symbol # adopted, rows'))
   | Some row \<Rightarrow> adopt hs now book (AList.update symbol (row\<lparr>lp_quantity := n\<rparr>) rows))"

definition reconcile_ledger :: "holding list \<Rightarrow> string \<Rightarrow> ledger \<Rightarrow> string list \<times> ledger" where
  "reconcile_ledger hs now rows = (case adopt hs now (mis_book hs) rows of
     (adopted, rows') \<Rightarrow> (adopted, filter (\<lambda>(symbol, _). symbol \<in> set (map fst (mis_book hs))) rows'))"

section \<open>The trader\<close>

record cycle_report =
  cr_active :: bool
  cr_adopted :: "string list"
  cr_exits :: "exit_decision list"
  cr_entries :: "(string \<times> int \<times> pyfloat \<times> string option) list"
  cr_stops :: "(string \<times> string option) list"
  cr_cancelled :: "string list"
  cr_rejected :: "string list"
  cr_errors :: "string list"

record funds =
  fn_cash :: pyfloat
  fn_total_cash :: pyfloat

text \<open>\<open>tr_signals\<close> and \<open>tr_size\<close> are the strategy; \<open>tr_stamp\<close>, \<open>tr_midnight\<close> and \<open>tr_date\<close> the texts of a time, of the
  midnight of its day and of its day.\<close>

record ('b, 'w) trader =
  tr_service :: "('b, 'w) service"
  tr_strategy :: string
  tr_universe :: "string list"
  tr_positions :: "('b, holding list) ef"
  tr_funds :: "('b, funds) ef"
  tr_bars :: "string \<Rightarrow> bars"
  tr_signals :: "int \<Rightarrow> (string \<Rightarrow> bars option) \<Rightarrow> holding list \<Rightarrow> alpha list res"
  tr_size :: "alpha \<Rightarrow> pyfloat \<Rightarrow> pyfloat \<Rightarrow> holding list \<Rightarrow> pyfloat res"
  tr_broker_stop :: bool
  tr_max_entries :: int
  tr_square_off :: int
  tr_stamp :: "int \<Rightarrow> string"
  tr_midnight :: "int \<Rightarrow> string"
  tr_date :: "int \<Rightarrow> string"

record 'b desk =
  dk_boundary :: "'b boundary"
  dk_ledger :: ledger
  dk_report :: cycle_report

definition new_report :: cycle_report where
  "new_report = \<lparr>cr_active = True, cr_adopted = [], cr_exits = [], cr_entries = [], cr_stops = [], cr_cancelled = [],
     cr_rejected = [], cr_errors = []\<rparr>"

definition OPENING_GRACE_END :: int where "OPENING_GRACE_END = clock_micros 9 30"
definition SIGNAL_CUTOFF :: int where "SIGNAL_CUTOFF = clock_micros 14 45"
definition SESSION_CLOSE :: int where "SESSION_CLOSE = clock_micros 15 30"
definition EXIT_GAP_FRACTION :: pyfloat where "EXIT_GAP_FRACTION = fl (1 / 100)"

text \<open>Asking the broker, and the operations of the boundary, on the desk.\<close>

definition ask :: "('b, 'a) ef \<Rightarrow> ('b desk, 'a) ef" where
  "ask m s = (case m (w_env (bd_world (dk_boundary s))) of
     (r, b) \<Rightarrow> (r, s\<lparr>dk_boundary := (dk_boundary s)\<lparr>bd_world := (bd_world (dk_boundary s))\<lparr>w_env := b\<rparr>\<rparr>\<rparr>))"

definition at_boundary :: "('b boundary \<Rightarrow> execution_result \<times> 'b boundary) \<Rightarrow> ('b desk, execution_result) ef" where
  "at_boundary f s = (case f (dk_boundary s) of (x, b) \<Rightarrow> (Inr x, s\<lparr>dk_boundary := b\<rparr>))"

definition on_ledger :: "(ledger \<Rightarrow> ledger) \<Rightarrow> ('b desk, unit) ef" where
  "on_ledger f = ef_modify (\<lambda>s. s\<lparr>dk_ledger := f (dk_ledger s)\<rparr>)"

definition on_report :: "(cycle_report \<Rightarrow> cycle_report) \<Rightarrow> ('b desk, unit) ef" where
  "on_report f = ef_modify (\<lambda>s. s\<lparr>dk_report := f (dk_report s)\<rparr>)"

definition note_error :: "string \<Rightarrow> ('b desk, unit) ef" where
  "note_error m = on_report (\<lambda>r. r\<lparr>cr_errors := cr_errors r @ [m]\<rparr>)"

definition note_rejected :: "string \<Rightarrow> ('b desk, unit) ef" where
  "note_rejected m = on_report (\<lambda>r. r\<lparr>cr_rejected := cr_rejected r @ [m]\<rparr>)"

definition note_exit :: "exit_decision \<Rightarrow> ('b desk, unit) ef" where
  "note_exit d = ef_seq (on_ledger (drop_position (ed_symbol d))) (on_report (\<lambda>r. r\<lparr>cr_exits := cr_exits r @ [d]\<rparr>))"

definition base_cash :: "funds \<Rightarrow> pyfloat" where
  "base_cash f = (if ftruthy (fn_total_cash f) then fn_total_cash f else if ftruthy (fn_cash f) then fn_cash f else Fin 0)"

definition portfolio_value :: "funds \<Rightarrow> holding list \<Rightarrow> pyfloat" where
  "portfolio_value f hs =
     (let base = base_cash f;
          value = base + py_sum (map (\<lambda>h. fint (bp_quantity (ho_position h)) * ho_last h) hs)
      in fmax value base)"

text \<open>The key of an entry or a stop: the fractional stop is cut to an integer.\<close>

definition idem_key :: "('b, 'w) trader \<Rightarrow> string \<Rightarrow> alpha \<Rightarrow> int \<Rightarrow> string res" where
  "idem_key tr prefix al now =
     res_bind (if ftruthy (al_stop_pct al) then to_int (al_stop_pct al) else Inr 0) (\<lambda>k.
     Inr (deterministic_client_order_id (om_sha256 (sv_om (tr_service tr)))
       [prefix, al_symbol al, ''NSE'', direction_text (al_direction al), int_str k, tr_date tr (mo_day (ist_of now))] prefix))"

definition exit_signal :: "('b, 'w) trader \<Rightarrow> string \<Rightarrow> int \<Rightarrow> alpha" where
  "exit_signal tr symbol now = \<lparr>al_symbol = symbol, al_direction = EXIT, al_strategy = tr_strategy tr, al_timestamp = tr_stamp tr now,
     al_signal_date = tr_midnight tr (mo_day (ist_of now)), al_edge = Fin 0, al_return = Fin 0, al_return_std = Fin 0,
     al_stop_pct = EXIT_GAP_FRACTION, al_target_pct = Fin 0, al_horizon = 0, al_model_name = None, al_model_version = None\<rparr>"

text \<open>The risk context of an order; what the trader does not pass has the defaults of \<open>submit_order\<close>.\<close>

definition risk_args :: "pyfloat \<Rightarrow> pyfloat \<Rightarrow> holding list \<Rightarrow> submit_args" where
  "risk_args cash value hs = \<lparr>sa_daily_risk_used = Fin 0, sa_max_daily_risk = Fin 50000, sa_available_cash = cash,
     sa_total_portfolio = value, sa_positions = map ho_position hs, sa_open_orders = [], sa_max_positions = 20, sa_sector = None,
     sa_sector_value = Fin 0, sa_realised_pnl_today = Fin 0, sa_max_daily_loss = Fin 50000\<rparr>"

definition mis_request :: "pyfloat \<Rightarrow> string option \<Rightarrow> json \<Rightarrow> submit_args \<Rightarrow> request" where
  "mis_request px key allocation args = \<lparr>rq_exchange = ''NSE'', rq_product = Some ''MIS'', rq_price = px, rq_key = key,
     rq_allocation = Some allocation, rq_risk = args\<rparr>"

section \<open>Exits\<close>

text \<open>The order of an exit. Without a bar the price is \<open>None\<close>, and the arithmetic on it raises.\<close>

definition exit_at_market :: "('b, 'w) trader \<Rightarrow> exit_decision \<Rightarrow> pyfloat option \<Rightarrow> holding list \<Rightarrow> int \<Rightarrow> ('b desk, unit) ef" where
  "exit_at_market tr d px hs n = ef_bind (ask (tr_funds tr)) (\<lambda>f.
     case px of
       None \<Rightarrow> ef_raise (TypeError ''unsupported operand type(s) for *: NoneType and int'')
     | Some x \<Rightarrow>
         ef_bind (at_boundary (submit_signal (tr_service tr) (exit_signal tr (ed_symbol d) (ed_time d)) n
             (mis_request (if ftruthy x then x else Fin 0) None
               (JObj [(''intent'', JStr ''auto_intraday_exit''), (''reason'', JStr (exit_reason_text (ed_reason d)))])
               (risk_args (fmax ((if ftruthy (fn_cash f) then fn_cash f else Fin 0) + x * fint n) (Fin 0)) (portfolio_value f hs) hs))))
           (\<lambda>r. if submitted r then note_exit d
                else note_error (''exit:'' @ ed_symbol d @ '':'' @ (case xr_reason r of None \<Rightarrow> ''None'' | Some m \<Rightarrow> m))))"

definition exit_position :: "('b, 'w) trader \<Rightarrow> (string \<Rightarrow> bars option) \<Rightarrow> exit_decision \<Rightarrow> ('b desk, unit) ef" where
  "exit_position tr bars d = ef_bind (ask (tr_positions tr)) (\<lambda>hs.
     let n = pos_quantity hs (ed_symbol d) in
     if n \<le> 0 then note_exit d else exit_at_market tr d (last_close (bars (ed_symbol d))) hs n)"

text \<open>The protective stop is cancelled first; only an active kill switch keeps it.\<close>

definition execute_exit :: "('b, 'w) trader \<Rightarrow> holding list \<Rightarrow> (string \<Rightarrow> bars option) \<Rightarrow> exit_decision \<Rightarrow> ('b desk, unit) ef" where
  "execute_exit tr hs bars d =
     (if pos_quantity hs (ed_symbol d) \<le> 0 then note_exit d
      else ef_bind (ef_get (\<lambda>s. map_of (dk_ledger s) (ed_symbol d))) (\<lambda>row.
        case row of
          None \<Rightarrow> exit_position tr bars d
        | Some p \<Rightarrow> (case lp_stop_id p of
            None \<Rightarrow> exit_position tr bars d
          | Some sid \<Rightarrow>
              if sid \<noteq> [] \<and> tr_broker_stop tr then
                ef_bind (at_boundary (cancel_order_at_boundary (tr_service tr) sid (Some (ed_symbol d)) (Some (lp_strategy p)))) (\<lambda>r.
                  if xr_outcome r = O_BLOCKED_KILL_SWITCH
                  then note_error (''cancel-stop:'' @ ed_symbol d @ '':kill switch active'')
                  else ef_seq (on_report (\<lambda>rp. rp\<lparr>cr_cancelled := cr_cancelled rp @ [sid]\<rparr>)) (exit_position tr bars d))
              else exit_position tr bars d)))"

section \<open>Entries\<close>

text \<open>A stop that cannot be placed: the entry is to be exited again, with the positions read before it
  and no bars.\<close>

definition protect_entry :: "('b, 'w) trader \<Rightarrow> ledger_position \<Rightarrow> alpha \<Rightarrow> int \<Rightarrow> pyfloat \<Rightarrow> pyfloat \<Rightarrow> holding list \<Rightarrow> int \<Rightarrow> ('b desk, unit) ef" where
  "protect_entry tr row al n px value hs now =
     ef_bind (ask (tr_positions tr)) (\<lambda>hs_now.
     ef_bind (ef_lift (idem_key tr ''STP'' al now)) (\<lambda>key.
     ef_bind (at_boundary (submit_stop (tr_service tr) al n (mis_request px (Some key)
         (JObj [(''intent'', JStr ''auto_intraday_stop''), (''parent'', case lp_entry_id row of None \<Rightarrow> JNull | Some i \<Rightarrow> JStr i)])
         (risk_args value value hs_now)))) (\<lambda>r.
     if submitted r then
       ef_seq (on_ledger (record_stop_order (lp_symbol row) (xr_broker_id r)))
         (on_report (\<lambda>rp. rp\<lparr>cr_stops := cr_stops rp @ [(lp_symbol row, xr_broker_id r)]\<rparr>))
     else
       ef_seq (note_error (''stop:'' @ lp_symbol row @ '':'' @ (case xr_reason r of None \<Rightarrow> ''None'' | Some m \<Rightarrow> m)))
         (execute_exit tr hs (\<lambda>_. None) \<lparr>ed_symbol = lp_symbol row, ed_reason = Stop_Placement_Failed, ed_price = px,
            ed_vwap = None, ed_time = now\<rparr>))))"

definition enter_position ::
  "('b, 'w) trader \<Rightarrow> alpha \<Rightarrow> pyfloat \<Rightarrow> int \<Rightarrow> pyfloat \<Rightarrow> pyfloat \<Rightarrow> holding list \<Rightarrow> int \<Rightarrow> ('b desk, unit) ef" where
  "enter_position tr al px n cash value hs now =
     ef_bind (ef_lift (idem_key tr ''ENT'' al now)) (\<lambda>key.
     ef_bind (at_boundary (submit_signal (tr_service tr) al n
       (mis_request px (Some key) (JObj [(''intent'', JStr ''auto_intraday_entry'')]) (risk_args cash value hs)))) (\<lambda>r.
     if \<not> submitted r then note_rejected (''entry:'' @ al_symbol al @ '':'' @ (case xr_reason r of None \<Rightarrow> ''None'' | Some m \<Rightarrow> m))
     else
       ef_seq (on_report (\<lambda>rp. rp\<lparr>cr_entries := cr_entries rp @ [(al_symbol al, n, px, xr_broker_id r)]\<rparr>))
         (ef_bind (ef_get (\<lambda>s. record_entry al n px (xr_broker_id r) (dk_ledger s))) (\<lambda>(row, rows).
           ef_seq (on_ledger (\<lambda>_. rows)) (if tr_broker_stop tr then protect_entry tr row al n px value hs now else ef_return ())))))"

definition try_entry ::
  "('b, 'w) trader \<Rightarrow> (string \<Rightarrow> bars option) \<Rightarrow> pyfloat \<Rightarrow> pyfloat \<Rightarrow> holding list \<Rightarrow> int \<Rightarrow> alpha \<Rightarrow> ('b desk, unit) ef" where
  "try_entry tr bars cash value hs now al =
     (case last_close (bars (al_symbol al)) of
        None \<Rightarrow> note_rejected (''entry:'' @ al_symbol al @ '':no bar'')
      | Some px \<Rightarrow>
          if px \<le> Fin 0 then note_rejected (''entry:'' @ al_symbol al @ '':bad price'')
          else ef_bind (ef_lift (tr_size tr al cash value hs)) (\<lambda>target.
            if target \<le> Fin 0 \<or> cash < target then note_rejected (''entry:'' @ al_symbol al @ '':sizing'')
            else ef_bind (ef_lift (floor_quotient target px)) (\<lambda>n.
              if n \<le> 0 then note_rejected (''entry:'' @ al_symbol al @ '':qty'')
              else enter_position tr al px n cash value hs now)))"

fun entry_loop ::
  "('b, 'w) trader \<Rightarrow> (string \<Rightarrow> bars option) \<Rightarrow> pyfloat \<Rightarrow> pyfloat \<Rightarrow> holding list \<Rightarrow> int \<Rightarrow> string list \<Rightarrow> alpha list \<Rightarrow> ('b desk, unit) ef" where
  "entry_loop tr bars cash value hs now attempted [] = ef_return ()"
| "entry_loop tr bars cash value hs now attempted (al # als) =
     ef_bind (ef_get (\<lambda>s. map_of (dk_ledger s) (al_symbol al))) (\<lambda>held.
       if al_symbol al \<in> set attempted \<or> held \<noteq> None then entry_loop tr bars cash value hs now attempted als
       else ef_seq (try_entry tr bars cash value hs now al)
         (entry_loop tr bars cash value hs now (al_symbol al # attempted) als))"

definition execute_entries :: "('b, 'w) trader \<Rightarrow> (string \<Rightarrow> bars option) \<Rightarrow> int \<Rightarrow> ('b desk, unit) ef" where
  "execute_entries tr bars now =
     ef_bind (ask (tr_positions tr)) (\<lambda>hs.
     if \<exists>h \<in> set hs. bp_symbol (ho_position h) = None then ef_raise (KeyError ''symbol'')
     else ef_bind (ask (tr_funds tr)) (\<lambda>f.
       let cash = (if ftruthy (fn_cash f) then fn_cash f else Fin 0); value = portfolio_value f hs in
       ef_bind (ef_lift (tr_signals tr now bars hs)) (\<lambda>als.
         entry_loop tr bars cash value hs now [] (slice_to (tr_max_entries tr) als))))"

section \<open>One pass\<close>

definition monitor_position :: "ledger_position \<Rightarrow> intraday_position" where
  "monitor_position row = \<lparr>ip_symbol = lp_symbol row, ip_direction = lp_direction row, ip_entry = lp_entry row, ip_stop = lp_stop row,
     ip_target = lp_target row, ip_quantity = lp_quantity row, ip_last = lp_entry row\<rparr>"

definition cycle_bars :: "('b, 'w) trader \<Rightarrow> string \<Rightarrow> bars option" where
  "cycle_bars tr symbol = (if symbol \<in> set (tr_universe tr) then Some (tr_bars tr symbol) else None)"

definition in_session :: "int \<Rightarrow> bool" where
  "in_session now \<longleftrightarrow> \<not> (mo_micros (ist_of now) < OPENING_GRACE_END \<or> SESSION_CLOSE \<le> mo_micros (ist_of now))"

definition run_exits :: "('b, 'w) trader \<Rightarrow> int \<Rightarrow> ('b desk, unit) ef" where
  "run_exits tr now =
     ef_bind (ask (tr_positions tr)) (\<lambda>hs.
     ef_bind (ef_get (\<lambda>s. reconcile_ledger hs (tr_stamp tr now) (dk_ledger s))) (\<lambda>(adopted, rows).
     ef_seq (on_ledger (\<lambda>_. rows)) (ef_seq (on_report (\<lambda>rp. rp\<lparr>cr_adopted := adopted\<rparr>))
     (ef_bind (ef_get (\<lambda>s. evaluate_exits (tr_square_off tr) (map (monitor_position \<circ> snd) (dk_ledger s)) (cycle_bars tr) now)) (\<lambda>ds.
      ef_bind (ask (tr_positions tr)) (\<lambda>hs'. ef_seq (ef_iter (execute_exit tr hs' (cycle_bars tr)) ds) (ef_return ())))))))"

definition run_once :: "('b, 'w) trader \<Rightarrow> int \<Rightarrow> ('b desk, unit) ef" where
  "run_once tr now =
     ef_seq (on_report (\<lambda>_. new_report))
     (if \<not> in_session now then on_report (\<lambda>rp. rp\<lparr>cr_active := False\<rparr>)
      else ef_seq (run_exits tr now)
        (if mo_micros (ist_of now) < SIGNAL_CUTOFF then execute_entries tr (cycle_bars tr) now else ef_return ()))"

text \<open>\<open>run\<close>: a pass that raises is logged and the next one follows.\<close>

fun run_trader :: "(('b, 'w) trader \<times> int) list \<Rightarrow> 'b desk \<Rightarrow> 'b desk" where
  "run_trader [] s = s"
| "run_trader ((tr, now) # passes) s = run_trader passes (snd (run_once tr now s))"

end
