(* ===== verification/Trader_Claims.thy ===== *)
theory Trader_Claims
  imports Trader Service_Claims
begin

text \<open>
  What the intraday trader may do. Every pass is a run of operations of the execution boundary, so that the
  properties of the boundary carry over to any sequence of passes; and three situations in which the
  trader leaves a position without protection.
\<close>

section \<open>A pass as a run of the boundary\<close>

definition reached :: "(('b, 'w) boundary_op \<Rightarrow> bool) \<Rightarrow> 'b boundary \<Rightarrow> 'b desk \<Rightarrow> bool" where
  "reached P b0 s \<longleftrightarrow> (\<exists>xs. list_all P xs \<and> dk_boundary s = run_boundary xs b0)"

lemma run_boundary_append: "run_boundary (xs @ ys) b = run_boundary ys (run_boundary xs b)"
  by (induction xs arbitrary: b) simp_all

lemma reached_start: "dk_boundary s = b0 \<Longrightarrow> reached P b0 s"
  unfolding reached_def by (intro exI [of _ "[]"]) simp

lemma reached_step:
  assumes "reached P b0 s" and "P x" and "dk_boundary s' = snd (attempt_of x (dk_boundary s))"
  shows "reached P b0 s'"
proof -
  obtain xs where "list_all P xs" "dk_boundary s = run_boundary xs b0" using assms(1) by (auto simp: reached_def)
  then have "list_all P (xs @ [x])" "dk_boundary s' = run_boundary (xs @ [x]) b0"
    using assms(2,3) by (simp_all add: run_boundary_append)
  then show ?thesis unfolding reached_def by blast
qed

lemma reached_same: "reached P b0 s \<Longrightarrow> dk_boundary s' = dk_boundary s \<Longrightarrow> reached P b0 s'"
  by (simp add: reached_def)

text \<open>The operations a pass at \<open>now\<close> may do: all through the trader's own service, for a positive quantity and
  intraday; an order other than an exit, and a stop, only before the cut-off and for a signal of the strategy. Beside the
  operations the pass only reads positions and funds, which may move the broker.\<close>

definition signalled :: "('b, 'w) trader \<Rightarrow> int \<Rightarrow> alpha \<Rightarrow> bool" where
  "signalled tr now al \<longleftrightarrow> mo_micros (ist_of now) < SIGNAL_CUTOFF \<and>
     (\<exists>hs als. tr_signals tr now (cycle_bars tr) hs = Inr als \<and> al \<in> set als)"

fun trader_op :: "('b, 'w) trader \<Rightarrow> int \<Rightarrow> ('b, 'w) boundary_op \<Rightarrow> bool" where
  "trader_op tr now (Enter sv al n rq) \<longleftrightarrow> sv = tr_service tr \<and> 0 < n \<and> rq_product rq = Some ''MIS'' \<and>
     ((\<exists>symbol. al = exit_signal tr symbol now) \<or> signalled tr now al)"
| "trader_op tr now (Protect sv al n rq) \<longleftrightarrow> sv = tr_service tr \<and> 0 < n \<and> rq_product rq = Some ''MIS'' \<and> signalled tr now al"
| "trader_op tr now (Withdraw sv ref symbol strategy) \<longleftrightarrow> sv = tr_service tr"
| "trader_op tr now (Move f) \<longleftrightarrow> f = (\<lambda>b. snd (tr_positions tr b)) \<or> f = (\<lambda>b. snd (tr_funds tr b))"

lemma keeps_read: "trader_op tr now (Move (\<lambda>b. snd (m b))) \<Longrightarrow> keeps (reached (trader_op tr now) b0) (ask m)"
  unfolding keeps_def
  by (intro allI impI, erule reached_step [where x = "Move (\<lambda>b. snd (m b))"]) (simp_all add: ask_def split: prod.split)

lemma keeps_ask [intro]:
  "keeps (reached (trader_op tr now) b0) (ask (tr_positions tr))"
  "keeps (reached (trader_op tr now) b0) (ask (tr_funds tr))"
  by (rule keeps_read, simp)+

lemma keeps_at:
  assumes "\<And>b. f b = (case attempt_of x b of (r, b') \<Rightarrow> (the r, b'))" and "trader_op tr now x"
  shows "keeps (reached (trader_op tr now) b0) (at_boundary f)"
  unfolding keeps_def
proof (intro allI impI)
  fix s :: "'a desk" assume s: "reached (trader_op tr now) b0 s"
  have "dk_boundary (snd (at_boundary f s)) = snd (attempt_of x (dk_boundary s))"
    by (simp add: at_boundary_def assms(1) split: prod.split)
  then show "reached (trader_op tr now) b0 (snd (at_boundary f s))" using s assms(2) by (blast intro: reached_step)
qed

lemma keeps_submit [intro]:
  assumes "trader_op tr now (Enter sv al n rq)"
  shows "keeps (reached (trader_op tr now) b0) (at_boundary (submit_signal sv al n rq))"
  by (rule keeps_at [OF _ assms]) (simp split: prod.split)

lemma keeps_stop [intro]:
  assumes "trader_op tr now (Protect sv al n rq)"
  shows "keeps (reached (trader_op tr now) b0) (at_boundary (submit_stop sv al n rq))"
  by (rule keeps_at [OF _ assms]) (simp split: prod.split)

lemma keeps_cancel [intro]:
  assumes "trader_op tr now (Withdraw sv ref symbol strategy)"
  shows "keeps (reached (trader_op tr now) b0) (at_boundary (cancel_order_at_boundary sv ref symbol strategy))"
  by (rule keeps_at [OF _ assms]) (simp split: prod.split)

lemma keeps_notes [intro]:
  "keeps (reached P b0) (on_ledger f)" "keeps (reached P b0) (on_report g)" "keeps (reached P b0) (note_error m)"
  "keeps (reached P b0) (note_rejected m)" "keeps (reached P b0) (note_exit d)"
proof -
  show l: "keeps (reached P b0) (on_ledger f)" for f
    unfolding on_ledger_def by (rule keeps_modify) (auto elim: reached_same)
  show r: "keeps (reached P b0) (on_report g)" for g
    unfolding on_report_def by (rule keeps_modify) (auto elim: reached_same)
  show "keeps (reached P b0) (note_error m)" "keeps (reached P b0) (note_rejected m)" "keeps (reached P b0) (note_exit d)"
    unfolding note_error_def note_rejected_def note_exit_def by (intro keeps_seq l r)+
qed

lemma product_mis [simp]: "rq_product (mis_request px key allocation args) = Some ''MIS''"
  by (simp add: mis_request_def)

lemmas keeps_acts = keeps_bind keeps_seq keeps_if keeps_ask keeps_notes keeps_lift keeps_get keeps_raise keeps_return keeps_submit
  keeps_stop keeps_cancel

lemma keeps_exit:
  assumes "ed_time d = now"
  shows "keeps (reached (trader_op tr now) b0) (execute_exit tr hs bars d)"
proof -
  have op: "trader_op tr now (Enter (tr_service tr) (exit_signal tr (ed_symbol d) (ed_time d)) n (mis_request px None al args))"
    if "0 < n" for n px al args using that assms by auto
  have 1: "keeps (reached (trader_op tr now) b0) (exit_at_market tr d px hs' n)" if "0 < n" for px hs' n
    unfolding exit_at_market_def by (cases px) (auto simp only: option.case intro!: keeps_acts op that)
  have 2: "keeps (reached (trader_op tr now) b0) (exit_position tr bars d)"
    unfolding exit_position_def Let_def by (intro keeps_acts 1) simp
  have "keeps (reached (trader_op tr now) b0) (case row of None \<Rightarrow> exit_position tr bars d | Some p \<Rightarrow> (case lp_stop_id p of
      None \<Rightarrow> exit_position tr bars d | Some sid \<Rightarrow> if sid \<noteq> [] \<and> tr_broker_stop tr then
        ef_bind (at_boundary (cancel_order_at_boundary (tr_service tr) sid (Some (ed_symbol d)) (Some (lp_strategy p)))) (\<lambda>r.
          if xr_outcome r = O_BLOCKED_KILL_SWITCH then note_error (''cancel-stop:'' @ ed_symbol d @ '':kill switch active'')
          else ef_seq (on_report (\<lambda>rp. rp\<lparr>cr_cancelled := cr_cancelled rp @ [sid]\<rparr>)) (exit_position tr bars d))
      else exit_position tr bars d))" for row
    by (cases row; cases "lp_stop_id (the row)") (auto simp only: option.case option.sel intro!: keeps_acts 2, simp_all)
  then show ?thesis unfolding execute_exit_def by (intro keeps_acts) 
qed

lemma keeps_entry:
  assumes al: "signalled tr now al"
  shows "keeps (reached (trader_op tr now) b0) (try_entry tr bars cash value hs now al)"
proof -
  have ops: "trader_op tr now (Enter (tr_service tr) al n (mis_request px key a args))"
    "trader_op tr now (Protect (tr_service tr) al n (mis_request px key a args))" if "0 < n" for n px key a args
    using that al by auto
  have 1: "keeps (reached (trader_op tr now) b0) (protect_entry tr row al n px value hs now)" if "0 < n" for row n px
    unfolding protect_entry_def by (intro keeps_acts ops that keeps_exit) simp
  have 2: "keeps (reached (trader_op tr now) b0) (enter_position tr al px n cash value hs now)" if "0 < n" for n px
    unfolding enter_position_def by (intro keeps_acts ops that) (auto simp only: prod.case split: prod.split intro!: keeps_acts 1 that)
  show ?thesis
    unfolding try_entry_def by (cases "last_close (bars (al_symbol al))")
      (auto simp only: option.case not_le intro!: keeps_acts 2)
qed

lemma keeps_entries:
  "\<forall>al \<in> set als. signalled tr now al \<Longrightarrow>
    keeps (reached (trader_op tr now) b0) (entry_loop tr bars cash value hs now attempted als)"
  by (induction als arbitrary: attempted) (auto intro!: keeps_bind keeps_seq keeps_if keeps_entry)

lemma slice_to_subset: "set (slice_to n xs) \<subseteq> set xs"
  by (simp add: slice_to_def set_take_subset)

lemma keeps_execute_entries:
  assumes "mo_micros (ist_of now) < SIGNAL_CUTOFF"
  shows "keeps (reached (trader_op tr now) b0) (execute_entries tr (cycle_bars tr) now)"
proof -
  have E: "keeps (reached (trader_op tr now) b0) (ef_bind (ef_lift (tr_signals tr now (cycle_bars tr) hs)) (\<lambda>als.
      entry_loop tr (cycle_bars tr) cash v hs now [] (slice_to k als)))" for hs k cash v
  proof (cases "tr_signals tr now (cycle_bars tr) hs")
    case (Inl e)
    then show ?thesis by (simp add: keeps_def ef_bind_def ef_lift_def)
  next
    case (Inr als)
    then have "\<forall>al \<in> set (slice_to k als). signalled tr now al"
      using assms slice_to_subset [of k als] by (auto simp: signalled_def)
    then show ?thesis using Inr by (auto simp: ef_bind_def ef_lift_def keeps_entries keeps_def [symmetric] dest: keeps_entries)
  qed
  show ?thesis unfolding execute_entries_def Let_def by (rule E keeps_ask keeps_raise keeps_if keeps_bind)+
qed

lemma exits_now: "d \<in> set (evaluate_exits square_off ps bars now) \<Longrightarrow> ed_time d = now"
  by (auto simp: evaluate_exits_def judge_position_def Let_def split: option.splits if_splits)

lemma keeps_run_exits: "keeps (reached (trader_op tr now) b0) (run_exits tr now)"
proof -
  have "keeps (reached (trader_op tr now) b0) (ef_bind (ef_get (\<lambda>s. evaluate_exits (tr_square_off tr) (map (monitor_position \<circ> snd) (dk_ledger s)) (cycle_bars tr) now))
     (\<lambda>ds. ef_bind (ask (tr_positions tr)) (\<lambda>hs'. ef_seq (ef_iter (execute_exit tr hs' (cycle_bars tr)) ds) (ef_return ()))))"
    (is "keeps ?I (ef_bind (ef_get ?e) ?cont)")
    unfolding keeps_def
  proof (intro allI impI)
    fix s :: "'a desk" assume s: "?I s"
    have "keeps ?I (?cont (?e s))"
      by (intro keeps_bind keeps_ask keeps_seq keeps_iter keeps_return keeps_exit) (rule exits_now)
    then show "?I (snd (ef_bind (ef_get ?e) ?cont s))" using s by (simp add: ef_bind_def ef_get_def keeps_def)
  qed
  then show ?thesis unfolding run_exits_def by (auto intro!: keeps_bind keeps_seq split: prod.split)
qed

lemma run_once_reaches:
  assumes "in_session now"
  shows "reached (trader_op tr now) (dk_boundary s) (snd (run_once tr now s))"
proof -
  have "keeps (reached (trader_op tr now) (dk_boundary s)) (run_once tr now)"
    using assms unfolding run_once_def
    by (simp add: keeps_seq keeps_notes keeps_run_exits keeps_execute_entries)
  then show ?thesis by (rule keepsD) (rule reached_start [OF refl])
qed

text \<open>C25. A pass of the trader changes the order manager's world, the account tables and the journal only through
  a run of operations of the execution boundary, through its own service, each for a positive quantity and
  intraday. Entries and stops are only for signals of the strategy and only before 14:45; any other order is an
  exit. Outside 9:30 to 15:30 a pass does nothing to them nor to the ledger.\<close>

theorem pass_acts_through_boundary:
  "if in_session now
   then \<exists>xs. list_all (trader_op tr now) xs \<and> dk_boundary (snd (run_once tr now s)) = run_boundary xs (dk_boundary s)
   else dk_boundary (snd (run_once tr now s)) = dk_boundary s \<and> dk_ledger (snd (run_once tr now s)) = dk_ledger s"
proof (cases "in_session now")
  case True
  from run_once_reaches [OF this, of tr s] show ?thesis using True by (simp add: reached_def)
next
  case False
  then show ?thesis by (simp add: run_once_def ef_seq_def ef_bind_def on_report_def ef_modify_def)
qed

lemma trader_op_persistent: "trader_op tr now x \<Longrightarrow> sv_persistent (tr_service tr) \<Longrightarrow> persistent_op x"
  by (cases x) auto

lemma pass_ok:
  assumes "boundary_ok (dk_boundary s)" and "sv_persistent (tr_service tr)"
  shows "boundary_ok (dk_boundary (snd (run_once tr now s)))"
proof (cases "in_session now")
  case True
  from run_once_reaches [OF this, of tr s] obtain xs where
    "list_all (trader_op tr now) xs" "dk_boundary (snd (run_once tr now s)) = run_boundary xs (dk_boundary s)"
    by (auto simp: reached_def)
  then show ?thesis using ok_run [OF assms(1), of xs] assms(2) by (auto simp: list_all_iff intro: trader_op_persistent)
next
  case False
  then show ?thesis using assms(1) by (simp add: run_once_def ef_seq_def ef_bind_def on_report_def ef_modify_def)
qed

lemma passes_ok:
  "boundary_ok (dk_boundary s) \<Longrightarrow> \<forall>(tr, now) \<in> set ps. sv_persistent (tr_service tr) \<Longrightarrow> boundary_ok (dk_boundary (run_trader ps s))"
proof (induction ps arbitrary: s)
  case (Cons p ps)
  then show ?case by (cases p) (simp add: pass_ok)
qed simp

text \<open>C24. Over any sequence of passes, by any traders with persistence and at any times, whatever the strategy
  signals and whatever fails: no client order id is sent to the broker twice, and every id sent is claimed in
  the account tables and known to the order store.\<close>

theorem trader_never_sends_twice:
  assumes "boundary_ok (dk_boundary s)" and "\<forall>(tr, now) \<in> set ps. sv_persistent (tr_service tr)"
  shows "distinct (placed_tags (bd_world (dk_boundary (run_trader ps s)))) \<and>
    set (placed_tags (bd_world (dk_boundary (run_trader ps s)))) \<subseteq>
      claimed_keys (db_rows (bd_db (dk_boundary (run_trader ps s)))) \<inter> known (bd_world (dk_boundary (run_trader ps s)))"
  using passes_ok [OF assms] by (simp add: boundary_ok_def sends_ok_def)

section \<open>Positions without protection\<close>

text \<open>C26. The module promises that an entry whose protective stop cannot be placed is exited at once. The exit is
  given the positions read before the entry: when the symbol was not held then, nothing is sent after the refused stop,
  the ledger forgets the position and the report lists it as exited.\<close>

theorem failed_stop_is_not_exited:
  assumes "submit_signal (tr_service tr) al n (mis_request px (Some k1) (JObj [(''intent'', JStr ''auto_intraday_entry'')])
      (risk_args cash v hs)) (dk_boundary s) = (r1, b1)" and "submitted r1"
    and "idem_key tr ''ENT'' al now = Inr k1" and "idem_key tr ''STP'' al now = Inr k2" and "tr_broker_stop tr"
    and "tr_positions tr (w_env (bd_world b1)) = (Inr hs', e)"
    and "submit_stop (tr_service tr) al n (mis_request px (Some k2) (JObj [(''intent'', JStr ''auto_intraday_stop''),
        (''parent'', case xr_broker_id r1 of None \<Rightarrow> JNull | Some i \<Rightarrow> JStr i)]) (risk_args v v hs'))
      (b1\<lparr>bd_world := (bd_world b1)\<lparr>w_env := e\<rparr>\<rparr>) = (r2, b2)" and "\<not> submitted r2"
    and "pos_quantity hs (al_symbol al) \<le> 0"
  shows "\<exists>s'. enter_position tr al px n cash v hs now s = (Inr (), s') \<and> dk_boundary s' = b2 \<and>
    map_of (dk_ledger s') (al_symbol al) = None \<and>
    (\<exists>d \<in> set (cr_exits (dk_report s')). ed_symbol d = al_symbol al \<and> ed_reason d = Stop_Placement_Failed)"
  using assms
  by (simp add: enter_position_def protect_entry_def execute_exit_def ef_defs at_boundary_def ask_def on_report_def on_ledger_def
      note_error_def note_exit_def record_entry_def drop_position_def Let_def AList.delete_conv')

text \<open>The id of an exit has the day, the symbol and the quantity, not the attempt.\<close>

definition exit_id :: "('b, 'w) trader \<Rightarrow> string \<Rightarrow> int \<Rightarrow> int \<Rightarrow> string" where
  "exit_id tr symbol n day = deterministic_client_order_id (om_sha256 (sv_om (tr_service tr)))
     [symbol, ''NSE'', ''SELL'', int_str n, ''MIS'', tr_strategy tr, tr_midnight tr day] ''SIG''"

lemma exit_intent:
  assumes "tr_midnight tr (mo_day (ist_of now)) \<noteq> []"
  shows "\<exists>sg rec'. to_order_intent (om_sha256 (sv_om (tr_service tr))) (exit_signal tr symbol now) n
    (mis_request px None a args) no_overrides rec = (Inr sg, rec') \<and> sg_client_order_id sg = exit_id tr symbol n (mo_day (ist_of now))"
proof -
  have "product_named (py_upper ''MIS'') = Inr MIS" "product_value MIS = ''MIS''" by code_simp+
  then show ?thesis using assms
    by (simp add: to_order_intent_def exit_signal_def mis_request_def no_overrides_def Let_def intent_parts_def exit_id_def)
qed

lemma claimed_exit_blocked:
  assumes "sv_persistent (tr_service tr)" and "tr_midnight tr (mo_day (ist_of now)) \<noteq> []"
    and "exit_id tr symbol n (mo_day (ist_of now)) \<in> claimed_keys (db_rows (bd_db b))"
  shows "bd_world (snd (submit_signal (tr_service tr) (exit_signal tr symbol now) n (mis_request px None a args) b)) = bd_world b \<and>
    \<not> submitted (fst (submit_signal (tr_service tr) (exit_signal tr symbol now) n (mis_request px None a args) b))"
proof -
  let ?al = "exit_signal tr symbol now" and ?rq = "mis_request px None a args"
  obtain g rec where g: "check_all_gates (tr_service tr) (w_env (bd_world b)) (signal_record (tr_service tr) ?al n ?rq) = (g, rec)"
    by fastforce
  show ?thesis
  proof (cases g)
    case (Some r)
    then have "\<not> submitted (fst (submit_signal (tr_service tr) ?al n ?rq b))"
      unfolding submit_signal_def using g by (intro closed_all) simp
    then show ?thesis using g Some by (simp add: submit_signal_def gated_def)
  next
    case None
    obtain sg rec' where "to_order_intent (om_sha256 (sv_om (tr_service tr))) ?al n ?rq no_overrides rec = (Inr sg, rec')"
      and "sg_client_order_id sg = exit_id tr symbol n (mo_day (ist_of now))"
      using exit_intent [OF assms(2)] by blast
    then show ?thesis using claimed_key_stops [OF assms(1)] assms(3)
      by (simp add: submit_signal_def gated_def g None)
  qed
qed

lemma claimed_exit_noted:
  assumes "sv_persistent (tr_service tr)" and "tr_midnight tr (mo_day (ist_of (ed_time d))) \<noteq> []"
    and "exit_id tr (ed_symbol d) n (mo_day (ist_of (ed_time d))) \<in> claimed_keys (db_rows (bd_db (dk_boundary s)))"
    and "tr_funds tr (w_env (bd_world (dk_boundary s))) = (Inr f, e)"
  shows "\<exists>s' m. exit_at_market tr d (Some x) hs n s = (Inr (), s') \<and>
    bd_world (dk_boundary s') = (bd_world (dk_boundary s))\<lparr>w_env := e\<rparr> \<and> dk_ledger s' = dk_ledger s \<and>
    cr_exits (dk_report s') = cr_exits (dk_report s) \<and> cr_errors (dk_report s') = cr_errors (dk_report s) @ [m]"
proof -
  define b where "b = (dk_boundary s)\<lparr>bd_world := (bd_world (dk_boundary s))\<lparr>w_env := e\<rparr>\<rparr>"
  have "exit_id tr (ed_symbol d) n (mo_day (ist_of (ed_time d))) \<in> claimed_keys (db_rows (bd_db b))"
    using assms(3) by (simp add: b_def)
  note bl = claimed_exit_blocked [OF assms(1,2) this]
  define rq where "rq = mis_request (if ftruthy x then x else Fin 0) None
    (JObj [(''intent'', JStr ''auto_intraday_exit''), (''reason'', JStr (exit_reason_text (ed_reason d)))])
    (risk_args (fmax ((if ftruthy (fn_cash f) then fn_cash f else Fin 0) + x * fint n) (Fin 0)) (portfolio_value f hs) hs)"
  obtain r b' where r: "submit_signal (tr_service tr) (exit_signal tr (ed_symbol d) (ed_time d)) n rq b = (r, b')" by fastforce
  have "bd_world b' = bd_world b" "\<not> submitted r" using bl r unfolding rq_def by (metis fst_conv snd_conv)+
  moreover have "ask (tr_funds tr) s = (Inr f, s\<lparr>dk_boundary := b\<rparr>)" using assms(4) by (simp add: ask_def b_def)
  ultimately show ?thesis using r
    by (simp add: exit_at_market_def rq_def [symmetric] ef_defs at_boundary_def on_report_def note_error_def b_def)
qed

text \<open>An exit at the boundary whose id was granted: the gates were open and the account tables answered that the id is new.\<close>

definition exit_granted :: "('b, 'w) trader \<Rightarrow> string \<Rightarrow> int \<Rightarrow> request \<Rightarrow> int \<Rightarrow> 'b boundary \<Rightarrow> bool" where
  "exit_granted tr symbol n rq now b \<longleftrightarrow>
     fst (check_all_gates (tr_service tr) (w_env (bd_world b)) (signal_record (tr_service tr) (exit_signal tr symbol now) n rq)) = None \<and>
     (case fst (to_order_intent (om_sha256 (sv_om (tr_service tr))) (exit_signal tr symbol now) n rq no_overrides
         (signal_record (tr_service tr) (exit_signal tr symbol now) n rq)) of
        Inl _ \<Rightarrow> False
      | Inr sg \<Rightarrow> (case fst (claim_idempotency_key (sv_num (tr_service tr)) sg n (bd_db b)) of
          Inl _ \<Rightarrow> False | Inr claim \<Rightarrow> \<not> sr_duplicate claim))"

lemma granted_exit_claimed:
  assumes g: "exit_granted tr symbol n (mis_request px None a args) now b" and p: "sv_persistent (tr_service tr)"
    and m: "tr_midnight tr (mo_day (ist_of now)) \<noteq> []" and t: "tables_ok (db_rows (bd_db b))"
  shows "holds_key (exit_id tr symbol n (mo_day (ist_of now)))
    (snd (submit_signal (tr_service tr) (exit_signal tr symbol now) n (mis_request px None a args) b))"
proof -
  let ?al = "exit_signal tr symbol now" and ?rq = "mis_request px None a args" and ?sv = "tr_service tr"
  obtain rec where c: "check_all_gates ?sv (w_env (bd_world b)) (signal_record ?sv ?al n ?rq) = (None, rec)"
    using g unfolding exit_granted_def by (metis prod.collapse)
  obtain sg rec' where i: "to_order_intent (om_sha256 (sv_om ?sv)) ?al n ?rq no_overrides rec = (Inr sg, rec')"
    and k: "sg_client_order_id sg = exit_id tr symbol n (mo_day (ist_of now))"
    using exit_intent [OF m] by blast
  have "fst (to_order_intent (om_sha256 (sv_om ?sv)) ?al n ?rq no_overrides (signal_record ?sv ?al n ?rq)) = Inr sg"
    using i intent_any_record [of "om_sha256 (sv_om ?sv)" ?al n ?rq no_overrides rec "signal_record ?sv ?al n ?rq"] by simp
  then obtain cl d where d: "claim_idempotency_key (sv_num ?sv) sg n (bd_db b) = (Inr cl, d)" "\<not> sr_duplicate cl"
    using g unfolding exit_granted_def
    by (cases "claim_idempotency_key (sv_num ?sv) sg n (bd_db b)") (auto split: sum.splits)
  have "tables_ok (db_rows d)" "sg_client_order_id sg \<in> claimed_keys (db_rows d)"
    using claim_step [OF d(1)] d(2) t step_ok by (auto)
  then have "holds_key (sg_client_order_id sg) (b\<lparr>bd_db := d\<rparr>)" by (simp add: holds_key_def)
  then have "holds_key (sg_client_order_id sg) (snd (call_manager ?sv sg n ?rq row rec' (b\<lparr>bd_db := d\<rparr>)))" for row
    by (rule key_call)
  then show ?thesis using d by (simp add: submit_signal_def gated_def c submit_to_broker_def i p k)
qed

text \<open>C27. The id of an exit has the day, the symbol and the quantity, so one attempt of it is all there is. Take an exit that the
  boundary let through to the order manager (the gates were open and the account tables granted its id), whatever became of it
  there: sent, rejected, refused by a risk gate, or lost in an exception. Whatever happens at the boundary afterwards, a later exit
  of the same symbol and quantity on the same day is not sent: the pass notes an error, asks the broker, and changes
  nothing else of the order manager's world or of the ledger. (An attempt that met a closed gate, or whose id the tables could not
  record, is not claimed and may be repeated.)\<close>

theorem attempted_exit_is_not_retried:
  assumes "exit_granted tr (ed_symbol d) n (mis_request px None a args) now b" and "tables_ok (db_rows (bd_db b))"
    and "dk_boundary s = run_boundary xs (snd (submit_signal (tr_service tr) (exit_signal tr (ed_symbol d) now) n
      (mis_request px None a args) b))"
    and "mo_day (ist_of (ed_time d)) = mo_day (ist_of now)"
    and "sv_persistent (tr_service tr)" and "tr_midnight tr (mo_day (ist_of now)) \<noteq> []"
    and "tr_funds tr (w_env (bd_world (dk_boundary s))) = (Inr f, e)"
  shows "\<exists>s' m. exit_at_market tr d (Some x) hs n s = (Inr (), s') \<and>
    bd_world (dk_boundary s') = (bd_world (dk_boundary s))\<lparr>w_env := e\<rparr> \<and> dk_ledger s' = dk_ledger s \<and>
    cr_exits (dk_report s') = cr_exits (dk_report s) \<and> cr_errors (dk_report s') = cr_errors (dk_report s) @ [m]"
proof -
  have "holds_key (exit_id tr (ed_symbol d) n (mo_day (ist_of now))) (dk_boundary s)"
    unfolding assms(3) by (rule key_run [OF granted_exit_claimed [OF assms(1,5,6,2)]])
  then show ?thesis using claimed_exit_noted [of tr d n s f e x hs] assms(4-7) by (simp add: holds_key_def)
qed

lemma pure_ask: "\<forall>b. m b = (Inr x, b) \<Longrightarrow> ask m s = (Inr x, s)"
  by (simp add: ask_def)

text \<open>C28. After the square-off time, in the session, and with a broker that answers for positions and funds: when the first
  row of the reconciled ledger is a long position of a symbol outside the universe (so there is no bar for it), with an entry
  price above zero and no recorded stop, the pass ends with a \<open>TypeError\<close> before it sends anything: the position is not
  closed, nor is any position after it, and the boundary is as it was. (An entry price of zero gives no exit decision and does
  not raise.)\<close>

theorem unpriced_position_ends_the_pass:
  assumes "\<forall>b. tr_positions tr b = (Inr hs, b)" and "\<forall>b. tr_funds tr b = (Inr f, b)"
    and "in_session now" and "SQUARE_OFF_TIME \<le> mo_micros (ist_of now)"
    and "snd (reconcile_ledger hs (tr_stamp tr now) (dk_ledger s)) = (lp_symbol p, p) # rows"
    and "lp_symbol p \<noteq> []" and "lp_symbol p \<notin> set (tr_universe tr)" and "Fin 0 < lp_entry p" and "lp_stop_id p = None"
    and "0 < pos_quantity hs (lp_symbol p)"
  shows "(\<exists>m. fst (run_once tr now s) = Inl (TypeError m)) \<and> dk_boundary (snd (run_once tr now s)) = dk_boundary s"
proof -
  obtain ad where rec: "reconcile_ledger hs (tr_stamp tr now) (dk_ledger s) = (ad, (lp_symbol p, p) # rows)"
    using assms(5) by (cases "reconcile_ledger hs (tr_stamp tr now) (dk_ledger s)") simp
  have bars: "cycle_bars tr (lp_symbol p) = None" using assms(7) by (simp add: cycle_bars_def)
  have tru: "ftruthy (lp_entry p)" "\<not> lp_entry p \<le> Fin 0" using assms(8) by (cases "lp_entry p"; auto simp: ftruthy_def)+
  define d where "d = \<lparr>ed_symbol = lp_symbol p, ed_reason = exit_reason_of (tr_square_off tr) (monitor_position p) (lp_entry p) None (ist_of now),
    ed_price = lp_entry p, ed_vwap = None, ed_time = now\<rparr>"
  have j: "judge_position (tr_square_off tr) (cycle_bars tr) now (monitor_position p) = [d]"
    using tru assms(4,6) bars
    by (simp add: judge_position_def monitor_position_def current_price_def last_close_def session_vwap_def should_exit_def d_def Let_def)
  show ?thesis using assms(3,9,10) bars rec j
    by (simp add: run_once_def run_exits_def ef_defs pure_ask [OF assms(1)] pure_ask [OF assms(2)] on_report_def on_ledger_def
        evaluate_exits_def execute_exit_def exit_position_def exit_at_market_def Let_def last_close_def d_def)
qed

section \<open>Concrete passes\<close>

definition demo_trader :: "(unit, unit) trader" where
  "demo_trader = \<lparr>tr_service = demo_service, tr_strategy = ''intraday'', tr_universe = [''INFY''], tr_positions = ef_return [],
     tr_funds = ef_return \<lparr>fn_cash = Fin 500000, fn_total_cash = Fin 500000\<rparr>,
     tr_bars = (\<lambda>_. \<lparr>bars_close = [Fin 1500], bars_vwap = None\<rparr>), tr_signals = (\<lambda>_ _ _. Inr [demo_alpha]),
     tr_size = (\<lambda>_ _ _ _. Inr (Fin 30000)), tr_broker_stop = True, tr_max_entries = 3, tr_square_off = SQUARE_OFF_TIME,
     tr_stamp = (\<lambda>_. ''t''), tr_midnight = (\<lambda>_. ''d''), tr_date = (\<lambda>_. ''d'')\<rparr>"

text \<open>Ten o'clock and half past three less a quarter, in India.\<close>

definition at_ten :: int where "at_ten = 16200000000"
definition at_square_off :: int where "at_square_off = 35100000000"

definition demo_desk :: "Order_Manager.outcome list \<Rightarrow> unit desk" where
  "demo_desk os = \<lparr>dk_boundary = demo_boundary os, dk_ledger = [], dk_report = new_report\<rparr>"

theorem trader_never_sends_twice_witness:
  "distinct (placed_tags (bd_world (dk_boundary (run_trader [(demo_trader, at_ten), (demo_trader, at_square_off)] (demo_desk [Works, Lost])))))"
  using trader_never_sends_twice [of "demo_desk [Works, Lost]" "[(demo_trader, at_ten), (demo_trader, at_square_off)]"]
  by (simp add: demo_desk_def demo_ok demo_trader_def demo_service_def del: run_trader.simps)

text \<open>The entry goes through and the order store fails on the first write of the stop.\<close>

definition failing_stop :: "Order_Manager.outcome list" where
  "failing_stop = replicate 6 Works @ [Fails]"

definition plain_trader :: "(unit, unit) trader" where
  "plain_trader = demo_trader\<lparr>tr_service := demo_service\<lparr>sv_persistent := False\<rparr>\<rparr>"

definition entry_request :: request where
  "entry_request = mis_request (Fin 1500) (Some ''ENTENT|INFY|NSE|LONG'') (JObj [(''intent'', JStr ''auto_intraday_entry'')])
     (risk_args (Fin 500000) (Fin 500000) [])"

definition stop_request :: "execution_result \<Rightarrow> request" where
  "stop_request r1 = mis_request (Fin 1500) (Some ''STPSTP|INFY|NSE|LONG'') (JObj [(''intent'', JStr ''auto_intraday_stop''),
     (''parent'', case xr_broker_id r1 of None \<Rightarrow> JNull | Some i \<Rightarrow> JStr i)]) (risk_args (Fin 500000) (Fin 500000) [])"

lemma entry_sent_stop_refused:
  "case submit_signal (demo_service\<lparr>sv_persistent := False\<rparr>) demo_alpha 20 entry_request (demo_boundary failing_stop) of (r1, b1) \<Rightarrow>
     submitted r1 \<and> (case submit_stop (demo_service\<lparr>sv_persistent := False\<rparr>) demo_alpha 20 (stop_request r1) b1 of (r2, b2) \<Rightarrow> \<not> submitted r2)"
  by code_simp

lemma same_env: "b\<lparr>bd_world := (bd_world b)\<lparr>w_env := w_env (bd_world b)\<rparr>\<rparr> = (b :: 'b boundary)"
  by (cases b; cases "bd_world b") simp

theorem failed_stop_is_not_exited_witness:
  "\<exists>s'. enter_position plain_trader demo_alpha (Fin 1500) 20 (Fin 500000) (Fin 500000) [] at_ten (demo_desk failing_stop) = (Inr (), s') \<and>
     map_of (dk_ledger s') ''INFY'' = None"
proof -
  obtain r1 b1 where 1: "submit_signal (demo_service\<lparr>sv_persistent := False\<rparr>) demo_alpha 20 entry_request (demo_boundary failing_stop) = (r1, b1)"
    by fastforce
  obtain r2 b2 where 2: "submit_stop (demo_service\<lparr>sv_persistent := False\<rparr>) demo_alpha 20 (stop_request r1) b1 = (r2, b2)"
    by fastforce
  have sub: "submitted r1" "\<not> submitted r2" using entry_sent_stop_refused by (simp_all add: 1 2)
  have keys: "idem_key plain_trader ''ENT'' demo_alpha at_ten = Inr ''ENTENT|INFY|NSE|LONG''"
    "idem_key plain_trader ''STP'' demo_alpha at_ten = Inr ''STPSTP|INFY|NSE|LONG''" by code_simp+
  have tr: "tr_service plain_trader = demo_service\<lparr>sv_persistent := False\<rparr>" "tr_broker_stop plain_trader"
    "tr_positions plain_trader e = (Inr [], e)" "al_symbol demo_alpha = ''INFY''" "pos_quantity [] ''INFY'' = 0"
    "dk_boundary (demo_desk failing_stop) = demo_boundary failing_stop" for e
    by (simp_all add: plain_trader_def demo_trader_def ef_return_def demo_alpha_def pos_quantity_def demo_desk_def)
  show ?thesis
    using failed_stop_is_not_exited [of plain_trader demo_alpha 20 "Fin 1500" "''ENTENT|INFY|NSE|LONG''" "Fin 500000" "Fin 500000" "[]"
        "demo_desk failing_stop" r1 b1 at_ten "''STPSTP|INFY|NSE|LONG''" "[]" "w_env (bd_world b1)" r2 b2,
        unfolded same_env tr, OF 1 [unfolded entry_request_def] sub(1) keys _ _ 2 [unfolded stop_request_def] sub(2)] tr
    by auto
qed

definition demo_exit :: exit_decision where
  "demo_exit = \<lparr>ed_symbol = ''INFY'', ed_reason = Square_Off, ed_price = Fin 1500, ed_vwap = None, ed_time = at_square_off\<rparr>"

text \<open>The first exit is refused by the risk gates of the order manager, the second finds the id claimed.\<close>

definition first_exit :: request where
  "first_exit = mis_request (Fin 1500) None JNull demo_args"

theorem attempted_exit_is_not_retried_witness:
  "\<exists>s' m. exit_at_market demo_trader demo_exit (Some (Fin 1500)) [] 20
       ((demo_desk [])\<lparr>dk_boundary := snd (submit_signal demo_service (exit_signal demo_trader ''INFY'' at_square_off) 20 first_exit (demo_boundary []))\<rparr>) =
     (Inr (), s') \<and> cr_exits (dk_report s') = [] \<and> cr_errors (dk_report s') = [m]"
proof -
  let ?b = "snd (submit_signal demo_service (exit_signal demo_trader ''INFY'' at_square_off) 20 first_exit (demo_boundary []))"
  let ?s = "(demo_desk [])\<lparr>dk_boundary := ?b\<rparr>"
  have "exit_granted demo_trader ''INFY'' 20 first_exit at_square_off (demo_boundary [])" by code_simp
  then have g: "exit_granted demo_trader (ed_symbol demo_exit) 20 (mis_request (Fin 1500) None JNull demo_args) at_square_off (demo_boundary [])"
    by (simp add: demo_exit_def first_exit_def)
  have t: "tables_ok (db_rows (bd_db (demo_boundary [])))" using demo_ok [of "[]"] by (simp add: boundary_ok_def)
  have d: "dk_boundary ?s = run_boundary [] (snd (submit_signal (tr_service demo_trader)
      (exit_signal demo_trader (ed_symbol demo_exit) at_square_off) 20 (mis_request (Fin 1500) None JNull demo_args) (demo_boundary [])))"
    by (simp add: demo_trader_def demo_exit_def first_exit_def)
  have v: "sv_persistent (tr_service demo_trader)" "tr_midnight demo_trader (mo_day (ist_of at_square_off)) \<noteq> []"
    "mo_day (ist_of (ed_time demo_exit)) = mo_day (ist_of at_square_off)"
    "tr_funds demo_trader (w_env (bd_world (dk_boundary ?s))) = (Inr \<lparr>fn_cash = Fin 500000, fn_total_cash = Fin 500000\<rparr>, w_env (bd_world (dk_boundary ?s)))"
    by (simp_all add: demo_trader_def demo_service_def ef_return_def demo_exit_def)
  have "cr_exits (dk_report ?s) = []" "cr_errors (dk_report ?s) = []" by (simp_all add: demo_desk_def new_report_def)
  then show ?thesis
    using attempted_exit_is_not_retried [OF g t d v(3,1,2,4), of "Fin 1500" "[]"] by auto
qed

definition foreign_holding :: holding where
  "foreign_holding = \<lparr>ho_position = \<lparr>bp_tradingsymbol = None, bp_symbol = Some ''TCS'', bp_exchange = None, bp_product = Some ''MIS'',
     bp_quantity = 5\<rparr>, ho_average = Fin 3000, ho_last = Fin 3000\<rparr>"

theorem unpriced_position_ends_the_pass_witness:
  "\<exists>m. fst (run_once (demo_trader\<lparr>tr_positions := ef_return [foreign_holding]\<rparr>) at_square_off (demo_desk [])) = Inl (TypeError m)"
proof -
  have sess: "in_session at_square_off" "SQUARE_OFF_TIME \<le> mo_micros (ist_of at_square_off)" by code_simp+
  have r: "reconcile_ledger [foreign_holding] ''t'' [] = ([''TCS''], [(''TCS'', adopted_row [foreign_holding] ''t'' ''TCS'' 5)])" by code_simp
  have "pos_quantity [foreign_holding] ''TCS'' = 5" "lp_entry (adopted_row [foreign_holding] ''t'' ''TCS'' 5) = Fin 3000" by code_simp+
  then show ?thesis
    using unpriced_position_ends_the_pass [of "demo_trader\<lparr>tr_positions := ef_return [foreign_holding]\<rparr>" "[foreign_holding]"
        "\<lparr>fn_cash = Fin 500000, fn_total_cash = Fin 500000\<rparr>" at_square_off "demo_desk []" "adopted_row [foreign_holding] ''t'' ''TCS'' 5" "[]"] sess r
    by (simp add: demo_trader_def ef_return_def demo_desk_def adopted_row_def)
qed

end
