(* ===== verification/Portfolio_Engine.thy ===== *)
theory Portfolio_Engine
  imports Py_Value
begin

text \<open>
  \<open>app/portfolio/allocation.py\<close> and \<open>app/portfolio/engine.py\<close>: from signals and the held book to target
  positions under hard limits. The sums and products of NumPy are parameters. A reason or a warning keeps its
  fixed text without the numbers printed into it; the reason texts of positions and sleeves, the fingerprint and the
  snapshot are left out.
\<close>

section \<open>Limits\<close>

datatype bucket = LONG_TERM | SWING | INTRADAY | CASH

fun bucket_text :: "bucket \<Rightarrow> string" where
  "bucket_text LONG_TERM = ''longterm''"
| "bucket_text SWING = ''swing''"
| "bucket_text INTRADAY = ''intraday''"
| "bucket_text CASH = ''cash''"

definition DEPLOYABLE :: "bucket list" where
  "DEPLOYABLE = [LONG_TERM, SWING, INTRADAY]"

record risk_limits =
  lm_position :: pyfloat
  lm_sector :: pyfloat
  lm_strategy :: pyfloat
  lm_drawdown :: pyfloat
  lm_daily_loss :: pyfloat
  lm_target_vol :: pyfloat
  lm_max_vol :: pyfloat
  lm_liquidity :: pyfloat
  lm_turnover :: pyfloat
  lm_min_cash :: pyfloat
  lm_max_positions :: int
  lm_kelly_fraction :: pyfloat
  lm_max_kelly :: pyfloat

definition default_limits :: risk_limits where
  "default_limits = \<lparr>lm_position = fl (10 / 100), lm_sector = Fin (1 / 4), lm_strategy = fl (60 / 100), lm_drawdown = fl (15 / 100),
     lm_daily_loss = fl (2 / 100), lm_target_vol = fl (15 / 100), lm_max_vol = Fin (1 / 4), lm_liquidity = fl (5 / 100),
     lm_turnover = fl (35 / 100), lm_min_cash = fl (5 / 100), lm_max_positions = 20, lm_kelly_fraction = Fin (1 / 4),
     lm_max_kelly = fl (15 / 100)\<rparr>"

text \<open>\<open>__post_init__\<close>.\<close>

definition new_limits :: "risk_limits \<Rightarrow> risk_limits res" where
  "new_limits lm =
     (if \<not> (Fin 0 < lm_kelly_fraction lm \<and> lm_kelly_fraction lm \<le> Fin (1 / 2)) then Inl (ValueError ''kelly_fraction must be in (0, 0.5]'')
      else if \<exists>v \<in> set [lm_position lm, lm_sector lm, lm_strategy lm]. \<not> (Fin 0 < v \<and> v \<le> Fin 1)
        then Inl (ValueError ''must be in (0, 1]'')
      else if \<not> (Fin 0 \<le> lm_min_cash lm \<and> lm_min_cash lm < Fin 1) then Inl (ValueError ''min_cash_pct must be in [0, 1)'')
      else Inr lm)"

section \<open>Inputs and outputs\<close>

record position_input =
  pi_symbol :: string
  pi_quantity :: int
  pi_average :: pyfloat
  pi_last :: pyfloat
  pi_strategy :: string
  pi_sector :: string

definition market_value :: "position_input \<Rightarrow> pyfloat" where
  "market_value p = fint (pi_quantity p) * pi_last p"

record signal_input =
  si_symbol :: string
  si_strategy :: string
  si_direction :: string
  si_edge :: pyfloat
  si_return :: pyfloat
  si_return_std :: pyfloat
  si_price :: pyfloat
  si_sector :: string
  si_volatility :: "pyfloat option"
  si_traded :: "pyfloat option"
  si_age :: "pyfloat option"

record inputs =
  ai_capital :: pyfloat
  ai_cash :: pyfloat
  ai_positions :: "position_input list"
  ai_signals :: "signal_input list"
  ai_health :: "(string \<times> string) list"
  ai_volatilities :: "(string \<times> pyfloat) list"
  ai_corr_symbols :: "string list"
  ai_corr :: "pyfloat list list option"
  ai_drawdown :: pyfloat
  ai_pnl :: pyfloat
  ai_realised :: "pyfloat option"
  ai_cost_bps :: pyfloat
  ai_limits :: risk_limits
  ai_kill :: bool
  ai_stale :: bool
  ai_permitted :: bool

record binding_constraint =
  bi_name :: string
  bi_scope :: string
  bi_limit :: pyfloat
  bi_requested :: pyfloat
  bi_applied :: pyfloat

definition reduction :: "binding_constraint \<Rightarrow> pyfloat" where
  "reduction b = fmax (Fin 0) (bi_requested b - bi_applied b)"

record position_target =
  pt_symbol :: string
  pt_strategy :: string
  pt_sector :: string
  pt_weight :: pyfloat
  pt_value :: pyfloat
  pt_quantity :: int
  pt_current :: int
  pt_delta :: int
  pt_price :: pyfloat
  pt_vol :: "pyfloat option"
  pt_risk :: "pyfloat option"
  pt_constraints :: "string list"

definition delta_value :: "position_target \<Rightarrow> pyfloat" where
  "delta_value p = fint (pt_delta p) * pt_price p"

record strategy_target =
  tg_bucket :: bucket
  tg_capital :: pyfloat
  tg_capital_pct :: pyfloat
  tg_risk_budget :: pyfloat
  tg_risk_used :: pyfloat
  tg_positions :: int
  tg_health :: string

record target_portfolio =
  tp_no_trade :: bool
  tp_strategies :: "strategy_target list"
  tp_positions :: "position_target list"
  tp_cash :: pyfloat
  tp_cash_pct :: pyfloat
  tp_vol :: "pyfloat option"
  tp_turnover :: pyfloat
  tp_cost :: pyfloat
  tp_cost_pct :: pyfloat
  tp_bindings :: "binding_constraint list"
  tp_reasons :: "string list"
  tp_warnings :: "(string \<times> string) list"

definition new_target :: target_portfolio where
  "new_target = \<lparr>tp_no_trade = True, tp_strategies = [], tp_positions = [], tp_cash = Fin 0, tp_cash_pct = Fin 0, tp_vol = None,
     tp_turnover = Fin 0, tp_cost = Fin 0, tp_cost_pct = Fin 0, tp_bindings = [], tp_reasons = [], tp_warnings = []\<rparr>"

definition deployed_value :: "position_target list \<Rightarrow> pyfloat" where
  "deployed_value ps = py_sum (map pt_value ps)"

text \<open>Notes on the target.\<close>

type_synonym 'a tp_ef = "(target_portfolio, 'a) ef"

definition note_binding :: "binding_constraint \<Rightarrow> unit tp_ef" where
  "note_binding b = ef_modify (\<lambda>t. t\<lparr>tp_bindings := tp_bindings t @ [b]\<rparr>)"

definition note_reason :: "string \<Rightarrow> unit tp_ef" where
  "note_reason m = ef_modify (\<lambda>t. t\<lparr>tp_reasons := tp_reasons t @ [m]\<rparr>)"

definition note_warning :: "string \<Rightarrow> string \<Rightarrow> unit tp_ef" where
  "note_warning symbol m = ef_modify (\<lambda>t. t\<lparr>tp_warnings := tp_warnings t @ [(symbol, m)]\<rparr>)"

section \<open>Helpers\<close>

definition safe_div :: "pyfloat \<Rightarrow> pyfloat \<Rightarrow> pyfloat" where
  "safe_div a b = (if ftruthy b then fquot a b else Fin 0)"

definition bucket_of :: "string \<Rightarrow> bucket" where
  "bucket_of strategy = (let s = py_lower strategy in
     if contains ''intraday'' s then INTRADAY else if contains ''swing'' s then SWING
     else if contains ''long'' s then LONG_TERM else SWING)"

definition health_of :: "inputs \<Rightarrow> string \<Rightarrow> string" where
  "health_of ai k = py_upper (case map_of (ai_health ai) k of Some h \<Rightarrow> h | None \<Rightarrow> ''HEALTHY'')"

definition HEALTH_BLOCKED :: "string list" where "HEALTH_BLOCKED = [''DISABLED'', ''PAUSED'', ''STOPPED'']"
definition HEALTH_REDUCED :: "string list" where "HEALTH_REDUCED = [''REDUCED'', ''DEGRADED'']"
definition MAX_QUOTE_AGE_SEC :: pyfloat where "MAX_QUOTE_AGE_SEC = Fin 300"

definition BASE_RISK_BUDGET :: "bucket \<Rightarrow> pyfloat" where
  "BASE_RISK_BUDGET b = (case b of LONG_TERM \<Rightarrow> fl (45 / 100) | SWING \<Rightarrow> fl (35 / 100) | INTRADAY \<Rightarrow> fl (20 / 100) | CASH \<Rightarrow> Fin 0)"

definition in_bucket :: "bucket \<Rightarrow> signal_input list \<Rightarrow> signal_input list" where
  "in_bucket b ss = filter (\<lambda>s. bucket_of (si_strategy s) = b) ss"

definition health_factor :: "inputs \<Rightarrow> bucket \<Rightarrow> pyfloat" where
  "health_factor ai b = (if health_of ai (bucket_text b) \<in> set HEALTH_REDUCED then Fin (1 / 2) else Fin 1)"

section \<open>Gates\<close>

text \<open>Each gate with its reason and the constraint it records; all of them are looked at.\<close>

definition gates :: "inputs \<Rightarrow> (bool \<times> string \<times> binding_constraint list) list" where
  "gates ai = (let lm = ai_limits ai; dd = \<bar>ai_drawdown ai\<bar>; loss = - fmin (Fin 0) (ai_pnl ai) in
    [(ai_kill ai, ''KILL SWITCH ACTIVE'', []),
     (\<not> ai_permitted ai, ''Trading is not permitted'', []),
     (ai_stale ai, ''Market data is stale'', []),
     (ai_capital ai \<le> Fin 0, ''There is nothing to allocate'', []),
     (lm_drawdown lm \<le> dd, ''DRAWDOWN BREACH'', [\<lparr>bi_name = ''max_portfolio_drawdown'', bi_scope = ''portfolio'',
        bi_limit = lm_drawdown lm, bi_requested = dd, bi_applied = Fin 0\<rparr>]),
     (lm_daily_loss lm \<le> loss, ''DAILY LOSS LIMIT'', [\<lparr>bi_name = ''max_daily_loss'', bi_scope = ''portfolio'',
        bi_limit = lm_daily_loss lm, bi_requested = loss, bi_applied = Fin 0\<rparr>])])"

definition preflight :: "inputs \<Rightarrow> bool tp_ef" where
  "preflight ai = (let closed = filter fst (gates ai) in
     ef_seq (ef_modify (\<lambda>t. t\<lparr>tp_reasons := tp_reasons t @ map (fst \<circ> snd) closed,
       tp_bindings := tp_bindings t @ concat (map (snd \<circ> snd) closed)\<rparr>)) (ef_return (closed \<noteq> [])))"

definition cash_only_strategy :: "inputs \<Rightarrow> strategy_target" where
  "cash_only_strategy ai = \<lparr>tg_bucket = CASH, tg_capital = ai_capital ai, tg_capital_pct = Fin 1, tg_risk_budget = Fin 0,
     tg_risk_used = Fin 0, tg_positions = 0, tg_health = ''N/A''\<rparr>"

definition drop_reason :: "inputs \<Rightarrow> signal_input \<Rightarrow> string option" where
  "drop_reason ai s =
     (if health_of ai (si_strategy s) \<in> set HEALTH_BLOCKED then Some ''strategy is blocked''
      else if \<not> Fin 0 < si_price s then Some ''no usable price''
      else if (case si_age s of None \<Rightarrow> False | Some x \<Rightarrow> MAX_QUOTE_AGE_SEC < x) then Some ''quote is old''
      else if (case si_volatility s of None \<Rightarrow> True | Some x \<Rightarrow> \<not> Fin 0 < x) then Some ''no volatility estimate''
      else if (case si_traded s of None \<Rightarrow> True | Some x \<Rightarrow> \<not> Fin 0 < x) then Some ''no traded-value estimate''
      else if \<not> Fin 0 < si_edge s then Some ''edge score is not positive''
      else None)"

definition usable_signals :: "inputs \<Rightarrow> signal_input list tp_ef" where
  "usable_signals ai =
     ef_seq (ef_modify (\<lambda>t. t\<lparr>tp_warnings := tp_warnings t @
         concat (map (\<lambda>s. case drop_reason ai s of None \<Rightarrow> [] | Some m \<Rightarrow> [(si_symbol s, m)]) (ai_signals ai))\<rparr>))
       (ef_return (filter (\<lambda>s. drop_reason ai s = None) (ai_signals ai)))"

section \<open>Capital and risk of the sleeves\<close>

definition strengths :: "inputs \<Rightarrow> signal_input list \<Rightarrow> (bucket \<times> pyfloat) list" where
  "strengths ai ss = map (\<lambda>b. (b, py_sum (map (\<lambda>s. fmax (Fin 0) (si_edge s)) (in_bucket b ss)) * health_factor ai b))
     (filter (\<lambda>b. in_bucket b ss \<noteq> []) DEPLOYABLE)"

definition bucket_capital :: "inputs \<Rightarrow> pyfloat \<Rightarrow> bucket \<times> pyfloat \<Rightarrow> (bucket \<times> pyfloat) tp_ef" where
  "bucket_capital ai strength = (\<lambda>(b, sc).
     let lm = ai_limits ai; amount = ai_capital ai * (Fin 1 - lm_min_cash lm) * fquot sc strength;
         cap = ai_capital ai * lm_strategy lm in
     if cap < amount
     then ef_seq (note_binding \<lparr>bi_name = ''max_strategy_pct'', bi_scope = bucket_text b, bi_limit = lm_strategy lm,
            bi_requested = safe_div amount (ai_capital ai), bi_applied = lm_strategy lm\<rparr>) (ef_return (b, cap))
     else ef_return (b, amount))"

definition sleeve_capital :: "(bucket \<times> pyfloat) list \<Rightarrow> bucket \<Rightarrow> pyfloat" where
  "sleeve_capital m b = (case map_of m b of Some x \<Rightarrow> x | None \<Rightarrow> Fin 0)"

definition allocate_sleeves :: "inputs \<Rightarrow> signal_input list \<Rightarrow> (bucket \<Rightarrow> pyfloat) tp_ef" where
  "allocate_sleeves ai ss = (let st = strengths ai ss; strength = py_sum (map snd st) in
     if strength \<le> Fin 0 then ef_seq (note_reason ''No sleeve produced positive aggregate edge'') (ef_return (\<lambda>_. Fin 0))
     else ef_bind (ef_iter (bucket_capital ai strength) st) (\<lambda>m. ef_return (sleeve_capital m)))"

definition base_budget :: "inputs \<Rightarrow> signal_input list \<Rightarrow> bucket \<Rightarrow> pyfloat" where
  "base_budget ai ss b = (if b = CASH \<or> in_bucket b ss = [] then Fin 0 else BASE_RISK_BUDGET b * health_factor ai b)"

definition allocate_risk :: "inputs \<Rightarrow> signal_input list \<Rightarrow> (bucket \<Rightarrow> pyfloat) tp_ef" where
  "allocate_risk ai ss =
     (let lm = ai_limits ai; budget = py_sum (map (base_budget ai ss) DEPLOYABLE) in
      if (\<forall>b \<in> set DEPLOYABLE. in_bucket b ss = []) \<or> budget \<le> Fin 0 then ef_return (\<lambda>_. Fin 0)
      else case ai_realised ai of
        Some v \<Rightarrow>
          if ftruthy v \<and> lm_target_vol lm < v then
            ef_seq (note_binding \<lparr>bi_name = ''target_portfolio_vol'', bi_scope = ''portfolio'', bi_limit = lm_target_vol lm,
                bi_requested = v, bi_applied = lm_target_vol lm\<rparr>)
            (ef_seq (note_reason ''Realised volatility exceeds the target'')
              (ef_return (\<lambda>b. fquot (base_budget ai ss b) budget * fquot (lm_target_vol lm) v)))
          else ef_return (\<lambda>b. fquot (base_budget ai ss b) budget * Fin 1)
      | None \<Rightarrow> ef_return (\<lambda>b. fquot (base_budget ai ss b) budget * Fin 1))"

section \<open>Sizing one signal\<close>

definition kelly_cap :: "signal_input \<Rightarrow> pyfloat \<Rightarrow> risk_limits \<Rightarrow> pyfloat option res" where
  "kelly_cap s capital lm =
     (if si_return s \<le> Fin 0 \<or> si_return_std s \<le> Fin 0 then Inr None
      else res_bind (fdiv (si_return s) (si_return_std s * si_return_std s)) (\<lambda>f.
        if \<not> isfinite f \<or> f \<le> Fin 0 then Inr None
        else Inr (Some (capital * fmin (f * lm_kelly_fraction lm) (lm_max_kelly lm)))))"

text \<open>One limit: when it binds, it is noted and \<open>v\<close> takes the place of what was wanted.\<close>

definition limit_to :: "bool \<Rightarrow> binding_constraint \<Rightarrow> pyfloat \<Rightarrow> pyfloat \<times> string list \<Rightarrow> (pyfloat \<times> string list) tp_ef" where
  "limit_to b c v w = (if b then ef_seq (note_binding c) (ef_return (v, snd w @ [bi_name c])) else ef_return w)"

type_synonym sectors = "(string \<times> pyfloat) list"

definition sector_value :: "sectors \<Rightarrow> string \<Rightarrow> pyfloat" where
  "sector_value sec k = (case map_of sec k of Some x \<Rightarrow> x | None \<Rightarrow> Fin 0)"

definition sector_of :: "signal_input \<Rightarrow> string" where
  "sector_of s = (if si_sector s = [] then ''UNKNOWN'' else si_sector s)"

definition cap_position :: "inputs \<Rightarrow> signal_input \<Rightarrow> pyfloat \<times> string list \<Rightarrow> (pyfloat \<times> string list) tp_ef" where
  "cap_position ai s w = (let lm = ai_limits ai; cap = ai_capital ai * lm_position lm in
     limit_to (cap < fst w) \<lparr>bi_name = ''max_position_pct'', bi_scope = si_symbol s, bi_limit = lm_position lm,
       bi_requested = safe_div (fst w) (ai_capital ai), bi_applied = lm_position lm\<rparr> cap w)"

definition cap_sector :: "inputs \<Rightarrow> sectors \<Rightarrow> signal_input \<Rightarrow> pyfloat \<times> string list \<Rightarrow> (pyfloat \<times> string list) tp_ef" where
  "cap_sector ai sec s w = (let lm = ai_limits ai; cap = ai_capital ai * lm_sector lm; already = sector_value sec (sector_of s);
       allowed = fmax (Fin 0) (cap - already) in
     limit_to (cap < already + fst w) \<lparr>bi_name = ''max_sector_pct'', bi_scope = sector_of s, bi_limit = lm_sector lm,
       bi_requested = safe_div (already + fst w) (ai_capital ai), bi_applied = safe_div (already + allowed) (ai_capital ai)\<rparr> allowed w)"

definition cap_liquidity :: "inputs \<Rightarrow> signal_input \<Rightarrow> pyfloat \<times> string list \<Rightarrow> (pyfloat \<times> string list) tp_ef" where
  "cap_liquidity ai s w = (let lm = ai_limits ai; traded = (case si_traded s of Some x \<Rightarrow> x | None \<Rightarrow> NaN); cap = traded * lm_liquidity lm in
     limit_to (cap < fst w) \<lparr>bi_name = ''max_liquidity_participation'', bi_scope = si_symbol s, bi_limit = lm_liquidity lm,
       bi_requested = safe_div (fst w) (fmax traded (Fin 1)), bi_applied = lm_liquidity lm\<rparr> cap w)"

definition cap_kelly :: "inputs \<Rightarrow> signal_input \<Rightarrow> pyfloat \<times> string list \<Rightarrow> (pyfloat \<times> string list) tp_ef" where
  "cap_kelly ai s w = ef_bind (ef_lift (kelly_cap s (ai_capital ai) (ai_limits ai))) (\<lambda>k. case k of
       None \<Rightarrow> ef_return w
     | Some cap \<Rightarrow> limit_to (cap < fst w) \<lparr>bi_name = ''fractional_kelly'', bi_scope = si_symbol s, bi_limit = lm_max_kelly (ai_limits ai),
         bi_requested = safe_div (fst w) (ai_capital ai), bi_applied = safe_div cap (ai_capital ai)\<rparr> cap w)"

text \<open>The value wanted for a signal once every limit has been applied.\<close>

definition limited_value :: "inputs \<Rightarrow> sectors \<Rightarrow> signal_input \<Rightarrow> pyfloat \<Rightarrow> (pyfloat \<times> string list) tp_ef" where
  "limited_value ai sec s want =
     ef_bind (cap_position ai s (want, [])) (\<lambda>w. ef_bind (cap_sector ai sec s w) (\<lambda>w.
     ef_bind (cap_liquidity ai s w) (\<lambda>w. cap_kelly ai s w)))"

definition held_book :: "inputs \<Rightarrow> (string \<times> position_input) list" where
  "held_book ai = dict_of (map (\<lambda>p. (pi_symbol p, p)) (ai_positions ai))"

definition held_quantity :: "inputs \<Rightarrow> string \<Rightarrow> int" where
  "held_quantity ai symbol = (case map_of (held_book ai) symbol of Some p \<Rightarrow> pi_quantity p | None \<Rightarrow> 0)"

definition place_signal :: "inputs \<Rightarrow> bucket \<Rightarrow> pyfloat \<Rightarrow> sectors \<Rightarrow> signal_input \<times> pyfloat \<Rightarrow> (position_target list \<times> sectors) tp_ef" where
  "place_signal ai b capital sec = (\<lambda>(s, w).
     ef_bind (limited_value ai sec s (capital * w)) (\<lambda>(want, cs).
     ef_bind (ef_lift (floor_quotient want (si_price s))) (\<lambda>n.
     if n \<le> 0 then ef_seq (note_warning (si_symbol s) ''below one share'') (ef_return ([], sec))
     else (let v = fint n * si_price s; k = sector_of s; cur = held_quantity ai (si_symbol s) in
       ef_return ([\<lparr>pt_symbol = si_symbol s, pt_strategy = bucket_text b, pt_sector = k, pt_weight = safe_div v (ai_capital ai),
           pt_value = v, pt_quantity = n, pt_current = cur, pt_delta = n - cur, pt_price = si_price s, pt_vol = si_volatility s,
           pt_risk = None, pt_constraints = cs\<rparr>],
         AList.update k (sector_value sec k + v) sec)))))"

fun place_all :: "inputs \<Rightarrow> bucket \<Rightarrow> pyfloat \<Rightarrow> sectors \<Rightarrow> (signal_input \<times> pyfloat) list \<Rightarrow> (position_target list \<times> sectors) tp_ef" where
  "place_all ai b capital sec [] = ef_return ([], sec)"
| "place_all ai b capital sec (x # xs) =
     ef_bind (place_signal ai b capital sec x) (\<lambda>(ps, sec').
     ef_bind (place_all ai b capital sec' xs) (\<lambda>(qs, sec''). ef_return (ps @ qs, sec'')))"

section \<open>Sizing the sleeves\<close>

text \<open>What the engine calls of NumPy: the sum of a vector, products of vectors and matrices.\<close>

record numpy =
  np_sum :: "pyfloat list \<Rightarrow> pyfloat"
  np_dot :: "pyfloat list \<Rightarrow> pyfloat list \<Rightarrow> pyfloat"
  np_mat_vec :: "pyfloat list list \<Rightarrow> pyfloat list \<Rightarrow> pyfloat list"
  np_vec_mat :: "pyfloat list \<Rightarrow> pyfloat list list \<Rightarrow> pyfloat list"

definition raw_weight :: "signal_input \<Rightarrow> pyfloat res" where
  "raw_weight s = res_bind (fsqrt (fmax (Fin 0) (si_edge s))) (\<lambda>e.
     Inr (fquot (Fin 1) (fmax (case si_volatility s of Some v \<Rightarrow> v | None \<Rightarrow> NaN) (fl (1 / 10 ^ 6))) * e))"

fun raw_weights :: "signal_input list \<Rightarrow> pyfloat list res" where
  "raw_weights [] = Inr []"
| "raw_weights (s # ss) = res_bind (raw_weight s) (\<lambda>w. res_bind (raw_weights ss) (\<lambda>ws. Inr (w # ws)))"

text \<open>\<open>sorted(\<dots>, reverse=True)\<close> by the weight: largest first, equal ones in their order.\<close>

fun insert_ranked :: "'a \<times> pyfloat \<Rightarrow> ('a \<times> pyfloat) list \<Rightarrow> ('a \<times> pyfloat) list" where
  "insert_ranked x [] = [x]"
| "insert_ranked x (y # ys) = (if snd x < snd y then y # insert_ranked x ys else x # y # ys)"

definition rank_by_weight :: "('a \<times> pyfloat) list \<Rightarrow> ('a \<times> pyfloat) list" where
  "rank_by_weight xs = foldr insert_ranked xs []"

definition size_sleeve :: "numpy \<Rightarrow> inputs \<Rightarrow> signal_input list \<Rightarrow> (bucket \<Rightarrow> pyfloat) \<Rightarrow> sectors \<Rightarrow> bucket \<Rightarrow> (position_target list \<times> sectors) tp_ef" where
  "size_sleeve np ai ss capital sec b =
     (if capital b \<le> Fin 0 \<or> in_bucket b ss = [] then ef_return ([], sec)
      else ef_bind (ef_lift (raw_weights (in_bucket b ss))) (\<lambda>raw.
        if np_sum np raw \<le> Fin 0 then ef_return ([], sec)
        else place_all ai b (capital b) sec (slice_to (lm_max_positions (ai_limits ai))
          (rank_by_weight (zip (in_bucket b ss) (map (\<lambda>r. fquot r (np_sum np raw)) raw))))))"

fun size_sleeves :: "numpy \<Rightarrow> inputs \<Rightarrow> signal_input list \<Rightarrow> (bucket \<Rightarrow> pyfloat) \<Rightarrow> sectors \<Rightarrow> bucket list \<Rightarrow> position_target list tp_ef" where
  "size_sleeves np ai ss capital sec [] = ef_return []"
| "size_sleeves np ai ss capital sec (b # bs) =
     ef_bind (size_sleeve np ai ss capital sec b) (\<lambda>(ps, sec').
     ef_bind (size_sleeves np ai ss capital sec' bs) (\<lambda>qs. ef_return (ps @ qs)))"

text \<open>A held name that no signal supports is targeted to zero.\<close>

definition exit_target :: "inputs \<Rightarrow> string \<times> position_input \<Rightarrow> position_target" where
  "exit_target ai = (\<lambda>(symbol, p). \<lparr>pt_symbol = symbol, pt_strategy = pi_strategy p, pt_sector = pi_sector p, pt_weight = Fin 0,
     pt_value = Fin 0, pt_quantity = 0, pt_current = pi_quantity p, pt_delta = - pi_quantity p, pt_price = pi_last p,
     pt_vol = map_of (ai_volatilities ai) symbol, pt_risk = None, pt_constraints = []\<rparr>)"

definition exit_targets :: "inputs \<Rightarrow> position_target list \<Rightarrow> position_target list" where
  "exit_targets ai ps = map (exit_target ai) (filter (\<lambda>(symbol, p). symbol \<notin> set (map pt_symbol ps)) (held_book ai))"

section \<open>Risk contributions\<close>

definition is_live :: "position_target \<Rightarrow> bool" where
  "is_live p \<longleftrightarrow> Fin 0 < pt_value p \<and> (case pt_vol p of None \<Rightarrow> False | Some v \<Rightarrow> Fin 0 < v)"

definition vol_of :: "position_target \<Rightarrow> pyfloat" where
  "vol_of p = (case pt_vol p of None \<Rightarrow> Fin 0 | Some v \<Rightarrow> v)"

definition identity_matrix :: "nat \<Rightarrow> pyfloat list list" where
  "identity_matrix n = map (\<lambda>i. map (\<lambda>j. if i = j then Fin 1 else Fin 0) [0..<n]) [0..<n]"

definition clip_unit :: "pyfloat \<Rightarrow> pyfloat" where
  "clip_unit x = (if x < Fin (- 1) then Fin (- 1) else if Fin 1 < x then Fin 1 else x)"

definition index_of :: "string list \<Rightarrow> string \<Rightarrow> nat option" where
  "index_of names k = map_of (rev (zip names [0..<length names])) k"

definition correlation_for :: "inputs \<Rightarrow> string list \<Rightarrow> pyfloat list list res" where
  "correlation_for ai symbols = (let n = length symbols in case ai_corr ai of
     None \<Rightarrow> Inr (identity_matrix n)
   | Some full \<Rightarrow>
      (if ai_corr_symbols ai = [] \<or> n = 0 then Inr (identity_matrix n)
       else if \<exists>r \<in> set full. length r \<noteq> length (hd full) then Inl (ValueError ''inhomogeneous matrix'')
       else if \<exists>k \<in> set symbols. index_of (ai_corr_symbols ai) k = None then Inr (identity_matrix n)
       else (let idx = map (\<lambda>k. the (index_of (ai_corr_symbols ai) k)) symbols in
         if \<exists>i \<in> set idx. length full \<le> i \<or> length (hd full) \<le> i then Inl (PyExn ''IndexError'' [])
         else if \<exists>i \<in> set idx. \<exists>j \<in> set idx. \<not> isfinite (full ! i ! j) then Inr (identity_matrix n)
         else Inr (map (\<lambda>a. map (\<lambda>b. if a = b then Fin 1
             else clip_unit (fquot (full ! (idx ! a) ! (idx ! b) + full ! (idx ! b) ! (idx ! a)) (Fin 2))) [0..<n]) [0..<n]))))"

definition covariance :: "pyfloat list \<Rightarrow> pyfloat list list \<Rightarrow> pyfloat list list" where
  "covariance vol corr = map (\<lambda>i. map (\<lambda>j. vol ! i * vol ! j * corr ! i ! j) [0..<length vol]) [0..<length vol]"

fun put_risks :: "position_target list \<Rightarrow> pyfloat list \<Rightarrow> position_target list" where
  "put_risks [] cs = []"
| "put_risks (p # ps) cs = (if is_live p then (case cs of
       [] \<Rightarrow> p # put_risks ps [] | c # cs' \<Rightarrow> p\<lparr>pt_risk := Some c\<rparr> # put_risks ps cs') else p # put_risks ps cs)"

definition attach_risks :: "numpy \<Rightarrow> inputs \<Rightarrow> position_target list \<Rightarrow> position_target list res" where
  "attach_risks np ai ps = (let live = filter is_live ps; values = map pt_value live; all = np_sum np values in
     if live = [] \<or> all \<le> Fin 0 then Inr ps
     else let w = map (\<lambda>v. fquot v all) values in
       res_bind (correlation_for ai (map pt_symbol live)) (\<lambda>corr.
       let cov = covariance (map vol_of live) corr; var = np_dot np (np_vec_mat np w cov) w in
       if var \<le> Fin 0 then Inr ps
       else Inr (put_risks ps (map2 (\<lambda>x m. fquot (x * m) var) w (np_mat_vec np cov w)))))"

definition size_positions :: "numpy \<Rightarrow> inputs \<Rightarrow> signal_input list \<Rightarrow> (bucket \<Rightarrow> pyfloat) \<Rightarrow> position_target list tp_ef" where
  "size_positions np ai ss capital =
     ef_bind (size_sleeves np ai ss capital [] DEPLOYABLE) (\<lambda>ps. ef_lift (attach_risks np ai (ps @ exit_targets ai ps)))"

section \<open>Turnover and cash\<close>

definition turnover_value :: "position_target list \<Rightarrow> pyfloat" where
  "turnover_value ps = py_sum (map (\<lambda>p. \<bar>delta_value p\<bar>) ps)"

definition scale_trade :: "inputs \<Rightarrow> pyfloat \<Rightarrow> position_target \<Rightarrow> position_target res" where
  "scale_trade ai scale p = res_bind (to_int (fint (pt_delta p) * scale)) (\<lambda>d.
     let n = pt_current p + d; v = fint n * pt_price p in
     Inr (p\<lparr>pt_delta := d, pt_quantity := n, pt_value := v, pt_weight := safe_div v (ai_capital ai),
            pt_constraints := pt_constraints p @ [''max_turnover_pct'']\<rparr>))"

definition apply_turnover_limit :: "inputs \<Rightarrow> position_target list \<Rightarrow> position_target list tp_ef" where
  "apply_turnover_limit ai ps = (let lm = ai_limits ai; turnover = turnover_value ps; cap = ai_capital ai * lm_turnover lm in
     if turnover \<le> cap \<or> turnover \<le> Fin 0 then ef_return ps
     else ef_seq (note_binding \<lparr>bi_name = ''max_turnover_pct'', bi_scope = ''portfolio'', bi_limit = lm_turnover lm,
            bi_requested = safe_div turnover (ai_capital ai), bi_applied = lm_turnover lm\<rparr>)
       (ef_seq (note_reason ''Turnover limit bound'')
         (ef_iter (\<lambda>p. ef_lift (scale_trade ai (fquot cap turnover) p)) ps)))"

definition scale_target :: "inputs \<Rightarrow> pyfloat \<Rightarrow> position_target \<Rightarrow> position_target res" where
  "scale_target ai scale p =
     (if pt_quantity p \<le> 0 then Inr p
      else res_bind (to_int (fint (pt_quantity p) * scale)) (\<lambda>n.
        let v = fint n * pt_price p in
        Inr (p\<lparr>pt_quantity := n, pt_value := v, pt_weight := safe_div v (ai_capital ai), pt_delta := n - pt_current p,
               pt_constraints := pt_constraints p @ [''min_cash_pct'']\<rparr>)))"

definition max_deployed :: "inputs \<Rightarrow> pyfloat" where
  "max_deployed ai = ai_capital ai * (Fin 1 - lm_min_cash (ai_limits ai))"

definition apply_cash_floor :: "inputs \<Rightarrow> position_target list \<Rightarrow> position_target list tp_ef" where
  "apply_cash_floor ai ps = (let lm = ai_limits ai; deployed = deployed_value ps in
     if deployed \<le> max_deployed ai \<or> deployed \<le> Fin 0 then ef_return ps
     else ef_seq (note_binding \<lparr>bi_name = ''min_cash_pct'', bi_scope = ''portfolio'', bi_limit = lm_min_cash lm,
            bi_requested = Fin 1 - safe_div deployed (ai_capital ai), bi_applied = lm_min_cash lm\<rparr>)
       (ef_seq (note_reason ''Cash floor bound'')
         (ef_iter (\<lambda>p. ef_lift (scale_target ai (fquot (max_deployed ai) deployed) p)) ps)))"

section \<open>The allocation\<close>

definition expected_vol :: "numpy \<Rightarrow> inputs \<Rightarrow> position_target list \<Rightarrow> pyfloat res" where
  "expected_vol np ai ps = (let live = filter is_live ps in
     if live = [] then Inr (Fin 0)
     else let w = map (\<lambda>p. fquot (pt_value p) (fmax (ai_capital ai) (fl (1 / 10 ^ 9)))) live in
       res_bind (correlation_for ai (map pt_symbol live)) (\<lambda>corr.
         fsqrt (fmax (np_dot np (np_vec_mat np w (covariance (map vol_of live) corr)) w) (Fin 0))))"

definition sleeve_target :: "inputs \<Rightarrow> position_target list \<Rightarrow> (bucket \<Rightarrow> pyfloat) \<Rightarrow> bucket \<Rightarrow> strategy_target" where
  "sleeve_target ai ps risk b = (let mine = filter (\<lambda>p. pt_strategy p = bucket_text b \<and> Fin 0 < pt_value p) ps;
       deployed = deployed_value mine in
     \<lparr>tg_bucket = b, tg_capital = deployed, tg_capital_pct = safe_div deployed (ai_capital ai), tg_risk_budget = risk b,
      tg_risk_used = py_sum (map (\<lambda>p. case pt_risk p of None \<Rightarrow> Fin 0 | Some r \<Rightarrow> r) mine),
      tg_positions = int (length mine), tg_health = health_of ai (bucket_text b)\<rparr>)"

definition sleeve_targets :: "inputs \<Rightarrow> position_target list \<Rightarrow> (bucket \<Rightarrow> pyfloat) \<Rightarrow> pyfloat \<Rightarrow> strategy_target list" where
  "sleeve_targets ai ps risk cash = map (sleeve_target ai ps risk) DEPLOYABLE @
     [\<lparr>tg_bucket = CASH, tg_capital = cash, tg_capital_pct = safe_div cash (ai_capital ai), tg_risk_budget = Fin 0,
       tg_risk_used = Fin 0, tg_positions = 0, tg_health = ''N/A''\<rparr>]"

definition stay_in_cash :: "inputs \<Rightarrow> unit tp_ef" where
  "stay_in_cash ai = ef_modify (\<lambda>t. t\<lparr>tp_cash := ai_cash ai, tp_cash_pct := safe_div (ai_cash ai) (ai_capital ai),
     tp_strategies := [cash_only_strategy ai]\<rparr>)"

definition set_target :: "inputs \<Rightarrow> position_target list \<Rightarrow> (bucket \<Rightarrow> pyfloat) \<Rightarrow> pyfloat \<Rightarrow> target_portfolio \<Rightarrow> target_portfolio" where
  "set_target ai ps risk vol t =
     (let cash = fmax (Fin 0) (ai_capital ai - deployed_value ps); turnover = turnover_value ps;
          cost = turnover * fquot (ai_cost_bps ai) (Fin 10000) in
      t\<lparr>tp_positions := ps, tp_cash := cash, tp_cash_pct := safe_div cash (ai_capital ai),
        tp_no_trade := (\<forall>p \<in> set ps. pt_delta p = 0), tp_vol := Some vol, tp_turnover := safe_div turnover (ai_capital ai),
        tp_cost := cost, tp_cost_pct := safe_div cost (ai_capital ai), tp_strategies := sleeve_targets ai ps risk cash,
        tp_reasons := tp_reasons t @ [if \<forall>p \<in> set ps. pt_delta p = 0 then ''no trade is required'' else ''Target set'',
          ''Expected portfolio volatility'']\<rparr>)"

definition build_portfolio :: "numpy \<Rightarrow> inputs \<Rightarrow> signal_input list \<Rightarrow> unit tp_ef" where
  "build_portfolio np ai ss =
     ef_bind (allocate_sleeves ai ss) (\<lambda>capital.
     ef_bind (allocate_risk ai ss) (\<lambda>risk.
     ef_bind (size_positions np ai ss capital) (\<lambda>ps.
     ef_bind (apply_turnover_limit ai ps) (\<lambda>ps.
     ef_bind (apply_cash_floor ai ps) (\<lambda>ps.
     ef_bind (ef_lift (expected_vol np ai ps)) (\<lambda>vol. ef_modify (set_target ai ps risk vol)))))))"

definition allocate_portfolio :: "numpy \<Rightarrow> inputs \<Rightarrow> target_portfolio res" where
  "allocate_portfolio np ai =
     (case ef_bind (preflight ai) (\<lambda>blocked.
        if blocked then stay_in_cash ai
        else ef_bind (usable_signals ai) (\<lambda>ss.
          if ss = [] then ef_seq (note_reason ''No signal survived'') (stay_in_cash ai)
          else build_portfolio np ai ss)) new_target of
        (Inl e, _) \<Rightarrow> Inl e | (Inr _, t) \<Rightarrow> Inr t)"

end
