(* ===== verification/Portfolio_Claims.thy ===== *)
theory Portfolio_Claims
  imports Portfolio_Engine Float_Bounds
begin

text \<open>
  What the portfolio engine promises: a position is increased only for a usable signal and within every limit of
  its name, whatever NumPy computes; closed gates leave the book alone; and no size depends on the risk budget.
\<close>

section \<open>Whole shares\<close>

lemma double_int: "\<bar>k\<bar> \<le> 2 ^ 53 \<Longrightarrow> double (of_int k)"
  using rnd64_of_int [of k] by (simp add: double_def)

lemma near_floor:
  fixes d :: rat
  assumes "\<bar>d - of_int k\<bar> < 1 / 2"
  shows "(if d - of_int \<lfloor>d\<rfloor> > 1 / 2 then \<lfloor>d\<rfloor> + 1 else \<lfloor>d\<rfloor>) = (k :: int)"
proof (cases "of_int k \<le> d")
  case True
  have lt: "d - of_int k < 1 / 2" using assms by (simp only: abs_less_iff)
  then have "\<lfloor>d\<rfloor> = k" using True by (intro floor_unique) linarith+
  then show ?thesis using lt by simp
next
  case False
  have gt: "of_int k - 1 / 2 < d" using assms by (simp only: abs_less_iff) linarith
  then have "\<lfloor>d\<rfloor> = k - 1" using False by (intro floor_unique) simp_all
  then show ?thesis using gt by simp
qed

lemma rnd_near:
  assumes "0 \<le> x"
  shows "x - (x * uu + tiny) \<le> rnd64 x" and "rnd64 x \<le> x + (x * uu + tiny)"
  using rnd64_err [of x] assms by (simp_all add: abs_le_iff algebra_simps)

lemma quotient_near:
  fixes b :: rat and k :: int
  assumes b: "1 / 100 \<le> b" and k: "0 \<le> k" "k \<le> 2 ^ 50"
  shows "\<bar>rnd64 (rnd64 (b * of_int k) / b) - of_int k\<bar> < 1 / 2"
proof -
  define y where "y = rnd64 (b * of_int k)"
  define x where "x = y / b"
  have K: "0 \<le> (of_int k :: rat)" "(of_int k :: rat) \<le> 2 ^ 50" using k by simp_all
  have bk: "0 \<le> b * of_int k" using b K by simp
  have tiny100: "tiny \<le> 1 / 100" using tiny_small by simp
  have tb: "tiny / b \<le> 1 / 100" and tb0: "0 \<le> tiny / b"
  proof -
    have "tiny \<le> 1 / 100 * b" using b tiny_small by simp
    then show "tiny / b \<le> 1 / 100" "0 \<le> tiny / b" using b tiny_pos by (simp_all add: field_simps)
  qed
  have y: "b * of_int k - (b * of_int k * uu + tiny) \<le> y" "y \<le> b * of_int k + (b * of_int k * uu + tiny)" "0 \<le> y"
    using rnd_near [OF bk] bk by (simp_all add: y_def rnd64_nonneg)
  have split: "(b * of_int k + (b * of_int k * uu + tiny)) / b = of_int k + of_int k * uu + tiny / b"
    "(b * of_int k - (b * of_int k * uu + tiny)) / b = of_int k - of_int k * uu - tiny / b"
    using b by (simp_all add: add_divide_distrib diff_divide_distrib)
  have x: "of_int k - of_int k * uu - tiny / b \<le> x" "x \<le> of_int k + of_int k * uu + tiny / b" "0 \<le> x"
    using divide_right_mono [OF y(1), of b] divide_right_mono [OF y(2), of b] y(3) b unfolding x_def split by simp_all
  have ku: "of_int k * uu \<le> 1 / 8" "0 \<le> of_int k * uu" using K by (simp_all add: uu_def)
  have "x * uu \<le> 1 / 7" using x(2) ku tb K(2) by (simp add: uu_def)
  moreover have "t \<le> 1 / 100 \<Longrightarrow> tiny \<le> 1 / 100 \<Longrightarrow> of_int k - ku - t \<le> x \<Longrightarrow> x \<le> of_int k + ku + t \<Longrightarrow> ku \<le> 1 / 8 \<Longrightarrow>
    xu \<le> 1 / 7 \<Longrightarrow> x - (xu + tiny) \<le> r \<Longrightarrow> r \<le> x + (xu + tiny) \<Longrightarrow> \<bar>r - of_int k\<bar> < 1 / 2" for t ku xu r
    unfolding abs_less_iff by linarith
  ultimately have "\<bar>rnd64 x - of_int k\<bar> < 1 / 2"
    using rnd_near [OF x(3)] x(1,2) ku(1) tb tiny100 by blast
  then show ?thesis by (simp add: x_def y_def)
qed

lemma floor_quotient_is_floor:
  assumes "0 \<le> a" and "1 / 100 \<le> b" and "a / b \<le> 2 ^ 50" and "a \<le> 2 ^ 900"
  shows "floor_quotient (Fin a) (Fin b) = Inr \<lfloor>a / b\<rfloor>"
proof -
  define k where "k = \<lfloor>a / b\<rfloor>"
  have b0: "0 < b" using assms(2) by linarith
  have k: "0 \<le> k" "k \<le> 2 ^ 50"
    using assms b0 unfolding k_def by (simp_all add: floor_le_iff)
  have "0 \<le> a / b" using assms(1) b0 by simp
  then have tr: "rat_trunc (a / b) = k" by (simp only: rat_trunc_def k_def not_less [symmetric] if_False)
  have m: "rat_fmod a b = a - b * of_int k" by (simp add: rat_fmod_def tr)
  have m0: "0 \<le> rat_fmod a b" using floor_divide_lower [OF b0, of a] unfolding m k_def by (simp add: mult.commute)
  have bk: "0 \<le> b * of_int k" "b * of_int k \<le> a" using k(1) b0 m0 m by simp_all
  have big: "(2::rat) ^ 900 \<le> 2 ^ 1000" by (rule power_increasing) auto
  have sub: "Fin a - Fin (rat_fmod a b) = Fin (rnd64 (b * of_int k))"
    using bk assms(4) big fl_small [of "b * of_int k"] by (simp add: m minus_pyfloat_def)
  have d: "fquot (Fin (rnd64 (b * of_int k))) (Fin b) = Fin (rnd64 (rnd64 (b * of_int k) / b))"
  proof -
    have "rnd64 (b * of_int k) \<le> a * 2 + 1" "0 \<le> rnd64 (b * of_int k)"
      using rnd_near [OF bk(1)] bk assms(1) tiny_small by (simp_all add: uu_def rnd64_nonneg)
    moreover have "(a * 2 + 1) / b \<le> (a * 2 + 1) / (1 / 100)" using assms(1,2) b0 by (intro divide_left_mono) simp_all
    ultimately have "\<bar>rnd64 (b * of_int k) / b\<bar> \<le> 2 ^ 1000"
      using assms(4) b0 divide_right_mono [of "rnd64 (b * of_int k)" "a * 2 + 1" b] by simp
    then show ?thesis using b0 by (simp add: fl_small)
  qed
  define q where "q = rnd64 (rnd64 (b * of_int k) / b)"
  have near: "\<bar>q - of_int k\<bar> < 1 / 2" unfolding q_def using quotient_near [OF assms(2) k] .
  have fl: "(if q - of_int \<lfloor>q\<rfloor> > 1 / 2 then \<lfloor>q\<rfloor> + 1 else \<lfloor>q\<rfloor>) = k" using near_floor [OF near] .
  have fk: "\<bar>\<lfloor>q\<rfloor>\<bar> \<le> 2 ^ 53" "\<bar>\<lfloor>q\<rfloor> + 1\<bar> \<le> 2 ^ 53" proof -
    have "\<lfloor>q\<rfloor> = k \<or> \<lfloor>q\<rfloor> = k - 1" using fl by (auto split: if_splits)
    then show "\<bar>\<lfloor>q\<rfloor>\<bar> \<le> 2 ^ 53" "\<bar>\<lfloor>q\<rfloor> + 1\<bar> \<le> 2 ^ 53" using k by auto
  qed
  have out: "to_int (if q - of_int \<lfloor>q\<rfloor> > 1 / 2 then fint \<lfloor>q\<rfloor> + Fin 1 else fint \<lfloor>q\<rfloor>) = Inr k"
  proof -
    have "fint \<lfloor>q\<rfloor> + Fin 1 = Fin (of_int (\<lfloor>q\<rfloor> + 1))"
      using fk fint_small [of "\<lfloor>q\<rfloor>"] fint_small [of "\<lfloor>q\<rfloor> + 1"] by (simp add: fint_def)
    then show ?thesis using fl fint_small [OF fk(1)] by (auto simp: rat_trunc_def split: if_splits)
  qed
  show ?thesis
    using out b0 m0 unfolding floor_quotient_def prod.case pyfloat.case Let_def sub d q_def [symmetric] k_def [symmetric]
    by (simp add: not_less)
qed

lemma trunc_nonpos: "y \<le> 0 \<Longrightarrow> y \<le> of_int (rat_trunc y) \<and> rat_trunc y \<le> 0"
proof (cases "y < 0")
  case True
  have "of_int \<lfloor>- y\<rfloor> \<le> - y" by (rule of_int_floor_le)
  then show ?thesis using True by (simp add: rat_trunc_def floor_minus le_of_int_ceiling)
qed (auto simp: rat_trunc_def)

lemma floor_quotient_nonpos:
  assumes "a \<le> 0" and "0 < b" and "floor_quotient (Fin a) (Fin b) = Inr n"
  shows "n \<le> 0"
proof -
  define m where "m = rat_fmod a b"
  have "a / b \<le> 0" using assms by (simp add: divide_nonpos_pos)
  then have tr: "a / b \<le> of_int (rat_trunc (a / b))" "rat_trunc (a / b) \<le> 0" using trunc_nonpos by blast+
  then have "a \<le> b * of_int (rat_trunc (a / b))" using assms(2) by (simp add: field_simps)
  then have m: "m \<le> 0" by (simp add: m_def rat_fmod_def)
  have am: "a - m \<le> 0"
    using assms(2) tr(2) by (simp add: m_def rat_fmod_def mult_nonneg_nonpos)
  have neg: "fl x = Fin r \<Longrightarrow> x \<le> 0 \<Longrightarrow> r \<le> 0" for x r
    using fl_cases [of x] rnd64_mono [of x 0] by auto
  define d where "d = fquot (Fin a - Fin m) (Fin b)"
  have d: "d = Fin q \<Longrightarrow> q \<le> 0" for q
  proof -
    assume q: "d = Fin q"
    have "Fin a - Fin m = fl (a - m)" by (simp add: minus_pyfloat_def)
    then show "q \<le> 0" using q assms(2) am neg neg [of "_ / b"] fl_cases [of "a - m"]
      by (cases "fl (a - m)") (auto simp: d_def fquot_def divide_nonpos_pos)
  qed
  define d' where "d' = (if m \<noteq> 0 \<and> (b < 0) \<noteq> (m < 0) then d - Fin 1 else d)"
  have d': "d' = Fin q \<Longrightarrow> q \<le> 0" for q
    using d neg by (cases d) (auto simp: d'_def minus_pyfloat_def split: if_splits)
  have F: "(case d' of Fin q \<Rightarrow> to_int (if q - of_int \<lfloor>q\<rfloor> > 1 / 2 then fint \<lfloor>q\<rfloor> + Fin 1 else fint \<lfloor>q\<rfloor>) | z \<Rightarrow> to_int z) = Inr n"
    using assms(3) unfolding floor_quotient_def prod.case pyfloat.case Let_def m_def [symmetric] d_def [symmetric] d'_def [symmetric]
    by (cases d') simp_all
  show ?thesis
  proof (cases d')
    case (Fin q)
    then have q: "q \<le> 0" by (rule d')
    have res: "to_int (if q - of_int \<lfloor>q\<rfloor> > 1 / 2 then fint \<lfloor>q\<rfloor> + Fin 1 else fint \<lfloor>q\<rfloor>) = Inr n"
      using F Fin by simp
    have ti: "to_int x = Inr n \<Longrightarrow> (\<And>r. x = Fin r \<Longrightarrow> r \<le> 0) \<Longrightarrow> n \<le> 0" for x
      by (cases x) (auto simp: rat_trunc_def)
    have f0: "fint \<lfloor>q\<rfloor> = Fin r \<Longrightarrow> r \<le> 0" for r using q neg [of "of_int \<lfloor>q\<rfloor>" r] by (simp add: fint_def floor_le_iff)
    show ?thesis
    proof (cases "q - of_int \<lfloor>q\<rfloor> > 1 / 2")
      case True
      then have "\<lfloor>q\<rfloor> \<le> - 1" using q by (simp add: floor_le_iff) (cases "q = 0"; simp)
      then have "of_int \<lfloor>q\<rfloor> \<le> (- 1 :: rat)" by linarith
      then have "fint \<lfloor>q\<rfloor> = Fin r \<Longrightarrow> r \<le> - 1" for r
        using fl_cases [of "of_int \<lfloor>q\<rfloor>"] rnd_le_double [of "of_int \<lfloor>q\<rfloor>" "- 1"] double_int [of "- 1"] by (auto simp: fint_def)
      then have "fint \<lfloor>q\<rfloor> + Fin 1 = Fin r \<Longrightarrow> r \<le> 0" for r
        using neg by (cases "fint \<lfloor>q\<rfloor>") fastforce+
      then show ?thesis using res True ti by (simp del: to_int.simps)
    next
      case False
      then show ?thesis using res ti f0 by (simp del: to_int.simps)
    qed
  qed (use F in simp_all)
qed

section \<open>Results of an effect\<close>

definition gives :: "('s, 'a) ef \<Rightarrow> ('a \<Rightarrow> 's \<Rightarrow> bool) \<Rightarrow> bool" where
  "gives m P \<longleftrightarrow> (\<forall>s x s'. m s = (Inr x, s') \<longrightarrow> P x s')"

lemma givesD: "gives m P \<Longrightarrow> m s = (Inr x, s') \<Longrightarrow> P x s'"
  by (auto simp: gives_def)

lemma gives_bind:
  assumes "gives m (\<lambda>x _. Q x)" and "\<And>x. Q x \<Longrightarrow> gives (f x) P"
  shows "gives (ef_bind m f) P"
  using assms by (fastforce simp: gives_def ef_bind_def split: prod.splits sum.splits)

lemma gives_any: "gives m (\<lambda>_ _. True)"
  by (simp add: gives_def)

lemma gives_seq: "gives n P \<Longrightarrow> gives (ef_seq m n) P"
  unfolding ef_seq_def by (rule gives_bind [OF gives_any])

lemma gives_return: "(\<And>s. P x s) \<Longrightarrow> gives (ef_return x) P"
  by (simp add: gives_def ef_return_def)

lemma gives_lift: "(\<And>x s. r = Inr x \<Longrightarrow> P x s) \<Longrightarrow> gives (ef_lift r) P"
  by (simp add: gives_def ef_lift_def)

lemma gives_if: "(b \<Longrightarrow> gives m P) \<Longrightarrow> (\<not> b \<Longrightarrow> gives n P) \<Longrightarrow> gives (if b then m else n) P"
  by simp

lemma gives_iter:
  assumes "\<And>x. x \<in> set xs \<Longrightarrow> gives (f x) (\<lambda>y _. P y)"
  shows "gives (ef_iter f xs) (\<lambda>ys _. \<forall>y \<in> set ys. P y)"
  using assms
proof (induction xs)
  case (Cons x xs)
  then have "gives (f x) (\<lambda>y _. P y)" "gives (ef_iter f xs) (\<lambda>ys _. \<forall>y \<in> set ys. P y)" by simp_all
  then show ?case by (auto intro!: gives_bind [where Q = P] gives_bind [where Q = "\<lambda>ys. \<forall>y \<in> set ys. P y"] gives_return)
qed (simp add: gives_return)

section \<open>The limits of one name\<close>

text \<open>The three limits of a name, as the engine computes them.\<close>

definition within_caps :: "inputs \<Rightarrow> signal_input \<Rightarrow> pyfloat \<Rightarrow> bool" where
  "within_caps ai s v \<longleftrightarrow> v \<le> ai_capital ai * lm_position (ai_limits ai) \<and>
     (case si_traded s of None \<Rightarrow> False | Some x \<Rightarrow> v \<le> x * lm_liquidity (ai_limits ai)) \<and>
     (case kelly_cap s (ai_capital ai) (ai_limits ai) of Inr (Some cap) \<Rightarrow> v \<le> cap | _ \<Rightarrow> True)"

text \<open>Capital up to a trillion rupees, validated limits, prices of a paisa or more, and a book without short
  positions.\<close>

definition sane_inputs :: "inputs \<Rightarrow> bool" where
  "sane_inputs ai \<longleftrightarrow> (\<exists>c. ai_capital ai = Fin c \<and> c \<le> 10 ^ 12) \<and> new_limits (ai_limits ai) = Inr (ai_limits ai) \<and>
     Fin 0 < lm_liquidity (ai_limits ai) \<and> Fin 0 \<le> lm_turnover (ai_limits ai) \<and>
     (\<forall>s \<in> set (ai_signals ai). Fin (1 / 100) \<le> si_price s) \<and>
     (\<forall>p \<in> set (ai_positions ai). 0 \<le> pi_quantity p \<and> pi_quantity p \<le> 2 ^ 50)"

definition dbl :: "pyfloat \<Rightarrow> bool" where
  "dbl x \<longleftrightarrow> (\<forall>r. x = Fin r \<longrightarrow> fl r = Fin r)"

lemma dbl_fl [simp]: "dbl (fl x)"
  by (auto simp: dbl_def dest: fl_idem)

lemma dbl_inf [simp]: "dbl PInf" "dbl NInf" "dbl NaN" "dbl (Fin 0)"
  by (simp_all add: dbl_def)

lemma dbl_times [simp]: "dbl (x * y)"
  by (cases x; cases y) auto

lemma dbl_minus [simp]: "dbl (x - y)"
  by (cases x; cases y) (auto simp: minus_pyfloat_def)

lemma dbl_fmax: "dbl x \<Longrightarrow> dbl y \<Longrightarrow> dbl (fmax x y)"
  by (simp add: fmax_def)

lemma limit_value: "limit_to b c v w t = (Inr w', t') \<Longrightarrow> fst w' = (if b then v else fst w)"
  by (auto simp: limit_to_def ef_defs note_binding_def split: if_splits)

lemma gives_limit: "gives (limit_to b c v w) (\<lambda>w' _. fst w' = (if b then v else fst w))"
  by (auto simp: gives_def dest: limit_value)

text \<open>A value limited to \<open>cap\<close>, and what a further limit leaves of it.\<close>

definition at_most :: "pyfloat \<Rightarrow> pyfloat \<Rightarrow> bool" where
  "at_most cap w \<longleftrightarrow> w = NaN \<or> w \<le> Fin 0 \<or> w \<le> cap"

lemma at_most_new: "cap \<noteq> NaN \<Longrightarrow> at_most cap (if cap < w then cap else w)"
  by (cases "w = NaN") (auto simp: at_most_def fnot_less)

lemma at_most_less: "at_most cap w \<Longrightarrow> v < w \<Longrightarrow> at_most cap v"
  unfolding at_most_def using fless_imp_le fle_trans by fastforce

lemma at_most_sector:
  assumes "dbl w" and "at_most (Fin p) w" and "fl q = Fin q"
  shows "at_most (Fin p) (if Fin q < already + w then fmax (Fin 0) (Fin q - already) else w)"
proof (cases "Fin q < already + w")
  case True
  have w0: "w \<noteq> PInf" "w \<noteq> NaN" using assms(2) True by (auto simp: at_most_def) (cases already; simp)+
  show ?thesis
  proof (cases already)
    case (Fin a)
    then obtain x where x: "w = Fin x" using w0 True by (cases w) auto
    have "q < a + x"
    proof (rule ccontr)
      assume "\<not> q < a + x"
      then have "fl (a + x) \<le> Fin q" using fl_mono [of "a + x" q] assms(3) by simp
      then show False using True Fin x by (cases "fl (a + x)") auto
    qed
    then have "fl (q - a) \<le> Fin x" using fl_mono [of "q - a" x] assms(1) x by (simp add: dbl_def)
    then have "at_most (Fin p) (fmax (Fin 0) (fl (q - a)))"
      using assms(2) x unfolding at_most_def fmax_def by (cases "fl (q - a)") auto
    then show ?thesis using True Fin by (simp add: minus_pyfloat_def)
  next
    case PInf
    then show ?thesis using True by (simp add: minus_pyfloat_def fmax_def at_most_def)
  next
    case NInf
    then show ?thesis using True w0 by (cases w) auto
  next
    case NaN
    then show ?thesis using True by simp
  qed
qed (use assms(2) in simp)

lemma fits_capital:
  assumes "sane_inputs ai" and "Fin 0 < ai_capital ai" and "Fin 0 < x" and "x \<le> Fin 1"
  shows "\<exists>q. ai_capital ai * x = Fin q \<and> fl q = Fin q \<and> 0 \<le> q \<and> q \<le> 10 ^ 12"
proof -
  obtain c where c: "ai_capital ai = Fin c" "0 < c" "c \<le> 10 ^ 12" using assms(1,2) by (auto simp: sane_inputs_def)
  obtain y where y: "x = Fin y" "0 < y" "y \<le> 1" using assms(3,4) by (cases x) auto
  have "c * y \<le> 10 ^ 12" using mult_mono [of c "10 ^ 12" y 1] c y by simp
  moreover have "fl (10 ^ 12) = Fin (10 ^ 12)" using fint_small [of "10 ^ 12"] by (simp add: fint_def)
  ultimately have "fl (c * y) \<le> Fin (10 ^ 12)" "Fin 0 \<le> fl (c * y)" using fl_mono [of "c * y" "10 ^ 12"] fl_nonneg c y by simp_all
  then show ?thesis using c y by (cases "fl (c * y)") (auto dest: fl_idem)
qed

lemma sane_limits:
  assumes "sane_inputs ai"
  shows "Fin 0 < lm_position (ai_limits ai) \<and> lm_position (ai_limits ai) \<le> Fin 1"
    and "Fin 0 < lm_sector (ai_limits ai) \<and> lm_sector (ai_limits ai) \<le> Fin 1"
    and "Fin 0 \<le> lm_min_cash (ai_limits ai) \<and> lm_min_cash (ai_limits ai) < Fin 1"
    and "Fin 0 < lm_kelly_fraction (ai_limits ai) \<and> lm_kelly_fraction (ai_limits ai) \<le> Fin (1 / 2)"
  using assms by (auto simp: sane_inputs_def new_limits_def split: if_splits)

lemma kelly_not_NaN:
  assumes "sane_inputs ai" and "Fin 0 < ai_capital ai" and "kelly_cap s (ai_capital ai) (ai_limits ai) = Inr (Some cap)"
  shows "cap \<noteq> NaN \<and> dbl cap"
proof -
  let ?lm = "ai_limits ai"
  obtain f where f: "isfinite f" "\<not> f \<le> Fin 0" "cap = ai_capital ai * fmin (f * lm_kelly_fraction ?lm) (lm_max_kelly ?lm)"
    using assms(3) by (auto simp: kelly_cap_def res_bind_eq_Inr split: if_splits)
  obtain y where y: "f = Fin y" "0 < y" using f(1,2) by (cases f) auto
  obtain k where k: "lm_kelly_fraction ?lm = Fin k" "0 < k" "k \<le> 1 / 2"
    using sane_limits(4) [OF assms(1)] by (cases "lm_kelly_fraction ?lm") auto
  obtain c where c: "ai_capital ai = Fin c" "0 < c" using assms(1,2) by (auto simp: sane_inputs_def)
  have "fmin (f * lm_kelly_fraction ?lm) (lm_max_kelly ?lm) \<noteq> NaN" using y k by (simp add: fmin_NaN)
  then show ?thesis using f(3) c by (cases "fmin (f * lm_kelly_fraction ?lm) (lm_max_kelly ?lm)") auto
qed

lemma limited_within_caps:
  assumes sane: "sane_inputs ai" and pos: "Fin 0 < ai_capital ai" and use: "drop_reason ai s = None" and dbl: "dbl want"
  shows "gives (limited_value ai sec s want) (\<lambda>w _. dbl (fst w) \<and> (fst w = NaN \<or> fst w \<le> Fin 0 \<or> within_caps ai s (fst w)))"
proof -
  let ?lm = "ai_limits ai"
  obtain p where p: "ai_capital ai * lm_position ?lm = Fin p" "fl p = Fin p" using fits_capital [OF sane pos] sane_limits(1) [OF sane] by blast
  obtain q where q: "ai_capital ai * lm_sector ?lm = Fin q" "fl q = Fin q" using fits_capital [OF sane pos] sane_limits(2) [OF sane] by blast
  obtain tr where tr: "si_traded s = Some tr" "Fin 0 < tr" using use by (auto simp: drop_reason_def split: option.splits if_splits)
  have lq: "tr * lm_liquidity ?lm \<noteq> NaN" using tr(2) sane by (cases tr; cases "lm_liquidity ?lm") (auto simp: sane_inputs_def)
  have 1: "gives (cap_position ai s w) (\<lambda>w' _. dbl (fst w') \<and> at_most (Fin p) (fst w'))" if "dbl (fst w)" for w
    unfolding cap_position_def Let_def p(1)
    by (rule gives_def [THEN iffD2]) (use that p(2) at_most_new [of "Fin p" "fst w"] in \<open>auto simp: dbl_def dest!: limit_value\<close>)
  have 2: "gives (cap_sector ai sec s w) (\<lambda>w' _. dbl (fst w') \<and> at_most (Fin p) (fst w'))"
    if "dbl (fst w) \<and> at_most (Fin p) (fst w)" for w
  proof -
    have "dbl (if Fin q < sector_value sec (sector_of s) + fst w then fmax (Fin 0) (Fin q - sector_value sec (sector_of s)) else fst w)"
      using that by (simp add: dbl_fmax)
    then show ?thesis unfolding cap_sector_def Let_def q(1)
      using that at_most_sector [OF _ _ q(2), of "fst w" p "sector_value sec (sector_of s)"] by (auto simp: gives_def dest!: limit_value)
  qed
  have 3: "gives (cap_liquidity ai s w) (\<lambda>w' _. dbl (fst w') \<and> at_most (Fin p) (fst w') \<and> at_most (tr * lm_liquidity ?lm) (fst w'))"
    if "dbl (fst w) \<and> at_most (Fin p) (fst w)" for w
    unfolding cap_liquidity_def Let_def tr(1) option.case
    using that at_most_new [OF lq, of "fst w"] at_most_less [of "Fin p" "fst w"] by (auto simp: gives_def dest!: limit_value)
  have 4: "gives (cap_kelly ai s w) (\<lambda>w' _. dbl (fst w') \<and> (fst w' = NaN \<or> fst w' \<le> Fin 0 \<or> within_caps ai s (fst w')))"
    if w: "dbl (fst w) \<and> at_most (Fin p) (fst w) \<and> at_most (tr * lm_liquidity ?lm) (fst w)" for w
    unfolding cap_kelly_def
  proof (rule gives_bind [where Q = "\<lambda>k. kelly_cap s (ai_capital ai) ?lm = Inr k"])
    fix k assume k: "kelly_cap s (ai_capital ai) ?lm = Inr k"
    show "gives (case k of None \<Rightarrow> ef_return w | Some cap \<Rightarrow> limit_to (cap < fst w) \<lparr>bi_name = ''fractional_kelly'', bi_scope = si_symbol s,
        bi_limit = lm_max_kelly ?lm, bi_requested = safe_div (fst w) (ai_capital ai), bi_applied = safe_div cap (ai_capital ai)\<rparr> cap w)
      (\<lambda>w' _. dbl (fst w') \<and> (fst w' = NaN \<or> fst w' \<le> Fin 0 \<or> within_caps ai s (fst w')))"
    proof (cases k)
      case None
      then show ?thesis using w k p(1) tr(1) by (auto simp: within_caps_def at_most_def intro!: gives_return)
    next
      case (Some cap)
      note c = kelly_not_NaN [OF sane pos k [unfolded Some]]
      have "at_most cap (if cap < fst w then cap else fst w)" using c by (intro at_most_new) simp
      moreover have "at_most x (if cap < fst w then cap else fst w)" if "at_most x (fst w)" for x
        using that at_most_less by auto
      ultimately have "at_most cap v \<and> at_most (Fin p) v \<and> at_most (tr * lm_liquidity ?lm) v \<and> dbl v"
        if "v = (if cap < fst w then cap else fst w)" for v using that w c by simp
      then show ?thesis using k Some p(1) tr(1)
        by (auto simp: gives_def within_caps_def at_most_def dest!: limit_value)
    qed
  qed (simp add: gives_lift)
  show ?thesis unfolding limited_value_def
    by (rule gives_bind [OF 1], simp add: dbl, rule gives_bind [OF 2], assumption, rule gives_bind [OF 3], assumption, rule 4)
qed

text \<open>What an increase rests on, and what is kept of every target from its sizing to the end.\<close>

definition backed :: "inputs \<Rightarrow> position_target \<Rightarrow> bool" where
  "backed ai p \<longleftrightarrow> (\<exists>s \<in> set (ai_signals ai). drop_reason ai s = None \<and> si_symbol s = pt_symbol p \<and> si_price s = pt_price p \<and>
     within_caps ai s (pt_value p))"

definition sound_target :: "inputs \<Rightarrow> position_target \<Rightarrow> bool" where
  "sound_target ai p \<longleftrightarrow> 0 \<le> pt_current p \<and> pt_current p \<le> 2 ^ 50 \<and> 0 \<le> pt_quantity p \<and> pt_quantity p \<le> 2 ^ 50 \<and>
     pt_delta p = pt_quantity p - pt_current p \<and>
     (pt_current p < pt_quantity p \<longrightarrow> backed ai p \<and> pt_value p = fint (pt_quantity p) * pt_price p \<and> Fin 0 < pt_price p)"

lemma within_caps_le: "v \<le> w \<Longrightarrow> within_caps ai s w \<Longrightarrow> within_caps ai s v"
  by (auto simp: within_caps_def dest: fle_trans split: option.splits sum.splits)

lemma held_bounds:
  assumes "sane_inputs ai"
  shows "0 \<le> held_quantity ai k \<and> held_quantity ai k \<le> 2 ^ 50"
    and "(k, p) \<in> set (held_book ai) \<Longrightarrow> 0 \<le> pi_quantity p \<and> pi_quantity p \<le> 2 ^ 50"
proof -
  have m: "map_of (held_book ai) = map_of (rev (map (\<lambda>p. (pi_symbol p, p)) (ai_positions ai)))"
    using map_of_dict_fold [of "[]" "map (\<lambda>p. (pi_symbol p, p)) (ai_positions ai)"] by (simp add: held_book_def dict_of_def)
  have b: "map_of (held_book ai) k = Some p \<Longrightarrow> 0 \<le> pi_quantity p \<and> pi_quantity p \<le> 2 ^ 50" for k p
    using assms unfolding m by (auto simp: sane_inputs_def dest!: map_of_SomeD)
  show "0 \<le> held_quantity ai k \<and> held_quantity ai k \<le> 2 ^ 50"
    using b [of k] by (auto simp: held_quantity_def split: option.split)
  have "distinct (map fst (held_book ai))" unfolding held_book_def dict_of_def
  proof -
    have "distinct (map fst m) \<Longrightarrow> distinct (map fst (foldl (\<lambda>m (k, v). AList.update k v m) m kvs))" for m and kvs :: "(string \<times> position_input) list"
      by (induction kvs arbitrary: m) (auto simp: AList.distinct_update)
    then show "distinct (map fst (foldl (\<lambda>m (k, v). AList.update k v m) [] (map (\<lambda>p. (pi_symbol p, p)) (ai_positions ai))))" by simp
  qed
  then show "(k, p) \<in> set (held_book ai) \<Longrightarrow> 0 \<le> pi_quantity p \<and> pi_quantity p \<le> 2 ^ 50"
    using b by simp
qed

lemma whole_shares:
  assumes sane: "sane_inputs ai" and pos: "Fin 0 < ai_capital ai" and s: "s \<in> set (ai_signals ai)"
    and w: "dbl w" "w = NaN \<or> w \<le> Fin 0 \<or> within_caps ai s w" and n: "floor_quotient w (si_price s) = Inr n" "0 < n"
  shows "n \<le> 2 ^ 50 \<and> within_caps ai s (fint n * si_price s) \<and> Fin 0 < si_price s"
proof -
  obtain p where p: "ai_capital ai * lm_position (ai_limits ai) = Fin p" "p \<le> 10 ^ 12"
    using fits_capital [OF sane pos] sane_limits(1) [OF sane] by blast
  have price: "Fin (1 / 100) \<le> si_price s" using sane s by (auto simp: sane_inputs_def)
  obtain b where b: "si_price s = Fin b" "1 / 100 \<le> b"
    using price n by (cases "si_price s"; cases w) (auto simp: floor_quotient_def split: if_splits)
  obtain a where a: "w = Fin a" "0 < a"
  proof (cases w)
    case (Fin a)
    then show ?thesis using that floor_quotient_nonpos [of a b n] n b by (cases "0 < a") auto
  next
    case PInf
    then show ?thesis using w(2) p by (auto simp: within_caps_def)
  qed (use n b in \<open>auto simp: floor_quotient_def\<close>)
  have caps: "within_caps ai s w" using w(2) a by auto
  then have ap: "a \<le> 10 ^ 12" using p a by (auto simp: within_caps_def)
  have b0: "0 < b" using b(2) by linarith
  have ab: "a / b \<le> 10 ^ 14"
  proof -
    have "a / b \<le> a / (1 / 100)" using b(2) b0 a(2) by (intro divide_left_mono) simp_all
    then show ?thesis using ap by simp
  qed
  have big: "(10::rat) ^ 12 \<le> 2 ^ 900" by simp
  have "floor_quotient (Fin a) (Fin b) = Inr \<lfloor>a / b\<rfloor>"
    using a b(2) ab ap big by (intro floor_quotient_is_floor) simp_all
  then have nf: "n = \<lfloor>a / b\<rfloor>" using n a b by simp
  then have n50: "n \<le> 2 ^ 50" using ab by (simp add: floor_le_iff)
  have "of_int n * b \<le> a" using floor_divide_lower [OF b0, of a] nf by simp
  then have "fl (of_int n * b) \<le> Fin a" using fl_mono [of "of_int n * b" a] w(1) a by (simp add: dbl_def)
  then have "fint n * si_price s \<le> w" using n50 n(2) a b by (simp add: fint_small)
  then show ?thesis using within_caps_le caps n50 b b0 by simp
qed

lemma place_sound:
  assumes sane: "sane_inputs ai" and pos: "Fin 0 < ai_capital ai" and s: "fst x \<in> set (ai_signals ai)" "drop_reason ai (fst x) = None"
  shows "gives (place_signal ai b capital sec x) (\<lambda>r _. \<forall>p \<in> set (fst r). sound_target ai p)"
proof -
  obtain sg w where x: "x = (sg, w)" by fastforce
  have "gives (case wc of (want, cs) \<Rightarrow> ef_bind (ef_lift (floor_quotient want (si_price sg))) (\<lambda>n.
     if n \<le> 0 then ef_seq (note_warning (si_symbol sg) ''below one share'') (ef_return ([], sec))
     else (let v = fint n * si_price sg; k = sector_of sg; cur = held_quantity ai (si_symbol sg) in
       ef_return ([\<lparr>pt_symbol = si_symbol sg, pt_strategy = bucket_text b, pt_sector = k, pt_weight = safe_div v (ai_capital ai),
           pt_value = v, pt_quantity = n, pt_current = cur, pt_delta = n - cur, pt_price = si_price sg, pt_vol = si_volatility sg,
           pt_risk = None, pt_constraints = cs\<rparr>], AList.update k (sector_value sec k + v) sec))))
     (\<lambda>r _. \<forall>p \<in> set (fst r). sound_target ai p)"
    if wc: "dbl (fst wc) \<and> (fst wc = NaN \<or> fst wc \<le> Fin 0 \<or> within_caps ai sg (fst wc))" for wc
  proof -
    obtain want cs where wc': "wc = (want, cs)" by fastforce
    show ?thesis unfolding wc' prod.case
    proof (rule gives_bind [where Q = "\<lambda>n. floor_quotient want (si_price sg) = Inr n"])
      fix n assume n: "floor_quotient want (si_price sg) = Inr n"
      show "gives (if n \<le> 0 then ef_seq (note_warning (si_symbol sg) ''below one share'') (ef_return ([], sec))
       else (let v = fint n * si_price sg; k = sector_of sg; cur = held_quantity ai (si_symbol sg) in
       ef_return ([\<lparr>pt_symbol = si_symbol sg, pt_strategy = bucket_text b, pt_sector = k, pt_weight = safe_div v (ai_capital ai),
           pt_value = v, pt_quantity = n, pt_current = cur, pt_delta = n - cur, pt_price = si_price sg, pt_vol = si_volatility sg,
           pt_risk = None, pt_constraints = cs\<rparr>], AList.update k (sector_value sec k + v) sec)))
       (\<lambda>r _. \<forall>p \<in> set (fst r). sound_target ai p)"
      proof (cases "n \<le> 0")
        case False
        then show ?thesis using whole_shares [OF sane pos, of sg want n] wc wc' n s x held_bounds(1) [OF sane, of "si_symbol sg"]
          by (auto simp: Let_def sound_target_def backed_def intro!: gives_return)
      qed (simp add: gives_seq gives_return)
    qed (simp add: gives_lift)
  qed
  then show ?thesis unfolding place_signal_def x prod.case
    by (intro gives_bind [OF limited_within_caps [OF sane pos]]) (use s x in simp_all)
qed

lemma place_all_sound:
  assumes sane: "sane_inputs ai" and pos: "Fin 0 < ai_capital ai"
    and s: "\<forall>x \<in> set xs. fst x \<in> set (ai_signals ai) \<and> drop_reason ai (fst x) = None"
  shows "gives (place_all ai b capital sec xs) (\<lambda>r _. \<forall>p \<in> set (fst r). sound_target ai p)"
  using s
proof (induction xs arbitrary: sec)
  case (Cons x xs)
  have hd: "gives (place_signal ai b capital sec x) (\<lambda>r _. \<forall>p \<in> set (fst r). sound_target ai p)"
    using Cons.prems by (intro place_sound [OF sane pos]) simp_all
  have tl: "gives (place_all ai b capital sec' xs) (\<lambda>r _. \<forall>p \<in> set (fst r). sound_target ai p)" for sec'
    using Cons by simp
  show ?case unfolding place_all.simps
    by (rule gives_bind [OF hd]) (auto split: prod.split intro!: gives_bind [OF tl] gives_return)
qed (simp add: gives_return)

lemma set_insert_ranked [simp]: "set (insert_ranked x xs) = insert x (set xs)"
  by (induction xs) auto

lemma set_rank [simp]: "set (rank_by_weight xs) = set xs"
  unfolding rank_by_weight_def by (induction xs) auto

lemma size_sleeves_sound:
  assumes sane: "sane_inputs ai" and pos: "Fin 0 < ai_capital ai"
    and ss: "\<forall>s \<in> set ss. s \<in> set (ai_signals ai) \<and> drop_reason ai s = None"
  shows "gives (size_sleeves np ai ss capital sec bs) (\<lambda>ps _. \<forall>p \<in> set ps. sound_target ai p)"
proof (induction bs arbitrary: sec)
  case (Cons b bs)
  have one: "gives (size_sleeve np ai ss capital sec b) (\<lambda>r _. \<forall>p \<in> set (fst r). sound_target ai p)"
  proof -
    have "\<forall>x \<in> set (slice_to k (rank_by_weight (zip (in_bucket b ss) ws))). fst x \<in> set (ai_signals ai) \<and> drop_reason ai (fst x) = None" for k ws
    proof
      fix x assume "x \<in> set (slice_to k (rank_by_weight (zip (in_bucket b ss) ws)))"
      then have "x \<in> set (zip (in_bucket b ss) ws)" by (auto simp: slice_to_def dest: in_set_takeD)
      then have "fst x \<in> set (in_bucket b ss)" by (metis in_set_zipE prod.collapse)
      then show "fst x \<in> set (ai_signals ai) \<and> drop_reason ai (fst x) = None" using ss by (simp add: in_bucket_def)
    qed
    note pl = place_all_sound [OF sane pos this]
    show ?thesis unfolding size_sleeve_def
      by (auto intro!: gives_if gives_return gives_bind [where Q = "\<lambda>_. True"] gives_lift pl)
  qed
  show ?case unfolding size_sleeves.simps
    by (rule gives_bind [OF one]) (auto split: prod.split intro!: gives_bind [OF Cons.IH] gives_return)
qed (simp add: gives_return)

lemma sound_exit: "sane_inputs ai \<Longrightarrow> p \<in> set (exit_targets ai ps) \<Longrightarrow> sound_target ai p"
  using held_bounds(2) by (fastforce simp: exit_targets_def exit_target_def sound_target_def)

lemma sound_risk [simp]: "sound_target ai (p\<lparr>pt_risk := c\<rparr>) = sound_target ai p"
  by (simp add: sound_target_def backed_def)

lemma sound_put: "\<forall>p \<in> set ps. sound_target ai p \<Longrightarrow> \<forall>p \<in> set (put_risks ps cs). sound_target ai p"
  by (induction ps cs rule: put_risks.induct) (auto split: list.split)

lemma sound_attach: "attach_risks np ai ps = Inr qs \<Longrightarrow> \<forall>p \<in> set ps. sound_target ai p \<Longrightarrow> \<forall>p \<in> set qs. sound_target ai p"
  using sound_put by (fastforce simp: attach_risks_def Let_def res_bind_eq_Inr split: if_splits)

lemma size_positions_sound:
  assumes sane: "sane_inputs ai" and pos: "Fin 0 < ai_capital ai"
    and ss: "\<forall>s \<in> set ss. s \<in> set (ai_signals ai) \<and> drop_reason ai s = None"
  shows "gives (size_positions np ai ss capital) (\<lambda>ps _. \<forall>p \<in> set ps. sound_target ai p)"
  unfolding size_positions_def
  by (rule gives_bind [OF size_sleeves_sound [OF assms]], rule gives_lift, drule sound_attach)
    (auto dest: sound_exit [OF sane])

section \<open>Turnover and cash only reduce\<close>

lemma scale_unit:
  assumes "Fin 0 \<le> cap \<or> cap = NaN" and "\<not> x \<le> cap" and "\<not> x \<le> Fin 0"
  shows "fquot cap x = NaN \<or> (\<exists>r. fquot cap x = Fin r \<and> 0 \<le> r \<and> r \<le> 1)"
proof (cases x)
  case (Fin y)
  show ?thesis
  proof (cases cap)
    case (Fin c)
    then have c: "0 \<le> c" "c < y" "0 < y" using assms \<open>x = Fin y\<close> by auto
    have "fl 1 = Fin 1" using fint_small [of 1] by (simp add: fint_def)
    then have "fl (c / y) \<le> Fin 1" "Fin 0 \<le> fl (c / y)" using fl_mono [of "c / y" 1] c by (simp_all add: fl_nonneg)
    then show ?thesis using Fin \<open>x = Fin y\<close> c by (cases "fl (c / y)") auto
  qed (use assms Fin in \<open>auto simp: fquot_def\<close>)
next
  case PInf
  then show ?thesis using assms by (cases cap) (auto simp: fquot_def)
next
  case NInf
  then show ?thesis using assms by simp
next
  case NaN
  then show ?thesis by (cases cap) (simp_all add: fquot_def)
qed

lemma scaled_between:
  assumes "to_int (fint d * scale) = Inr d'" and "scale = NaN \<or> (\<exists>r. scale = Fin r \<and> 0 \<le> r \<and> r \<le> 1)" and "\<bar>d\<bar> \<le> 2 ^ 50"
  shows "0 \<le> d \<Longrightarrow> 0 \<le> d' \<and> d' \<le> d" and "d \<le> 0 \<Longrightarrow> d \<le> d' \<and> d' \<le> 0"
proof -
  have d: "fint d = Fin (of_int d)" "fl (of_int d) = Fin (of_int d)" using assms(3) fint_small [of d] by (simp_all add: fint_def)
  obtain r where r: "scale = Fin r" "0 \<le> r" "r \<le> 1" using assms(1,2) d by auto
  obtain z where z: "fl (of_int d * r) = Fin z" "d' = rat_trunc z" using assms(1) d r by (cases "fl (of_int d * r)") auto
  show "0 \<le> d' \<and> d' \<le> d" if "0 \<le> d"
  proof -
    have "of_int d * r \<le> of_int d" "0 \<le> of_int d * r" using that r mult_left_mono [of r 1 "of_int d"] by simp_all
    then have "0 \<le> z" "z \<le> of_int d" using fl_mono [of "of_int d * r" "of_int d"] fl_nonneg [of "of_int d * r"] z d by simp_all
    then show ?thesis using z by (simp add: rat_trunc_def floor_le_iff)
  qed
  show "d \<le> d' \<and> d' \<le> 0" if "d \<le> 0"
  proof -
    have "of_int d \<le> of_int d * r" "of_int d * r \<le> 0"
      using that r mult_left_mono_neg [of r 1 "of_int d"] by (simp_all add: mult_nonpos_nonneg)
    then have "of_int d \<le> z" "z \<le> 0" using fl_mono [of "of_int d" "of_int d * r"] fl_nonpos [of "of_int d * r"] z d by simp_all
    then show ?thesis using z(2) trunc_nonpos [of z] by (auto simp: rat_trunc_def le_floor_iff)
  qed
qed

text \<open>Fewer shares at the same price stay within the limits.\<close>

lemma shrink:
  assumes "backed ai p" and "pt_value p = fint (pt_quantity p) * pt_price p" and "Fin 0 < pt_price p" and "pt_quantity p \<le> 2 ^ 50"
    and "0 < n" and "n \<le> pt_quantity p"
    and "pt_symbol q = pt_symbol p" and "pt_price q = pt_price p" and "pt_value q = fint n * pt_price p"
  shows "backed ai q"
proof -
  have f: "fint n = Fin (of_int n)" "fint (pt_quantity p) = Fin (of_int (pt_quantity p))" using assms by (simp_all add: fint_small)
  have "pt_value q \<le> pt_value p"
  proof (cases "pt_price p")
    case (Fin b)
    have b: "0 < b" "(of_int n :: rat) \<le> of_int (pt_quantity p)" using assms(3,6) Fin by (simp_all only: less_pyfloat.simps of_int_le_iff)
    then have "of_int n * b \<le> of_int (pt_quantity p) * b" by (intro mult_right_mono) simp_all
    then show ?thesis using assms(2,9) f Fin fl_mono by simp
  next
    case PInf
    then show ?thesis using assms f by simp
  qed (use assms(3) in simp_all)
  then show ?thesis using assms(1,7,8) within_caps_le by (auto simp: backed_def)
qed

lemma scale_trade_sound:
  assumes "sound_target ai p" and "scale_trade ai scale p = Inr q" and "scale = NaN \<or> (\<exists>r. scale = Fin r \<and> 0 \<le> r \<and> r \<le> 1)"
  shows "sound_target ai q"
proof -
  obtain d where d: "to_int (fint (pt_delta p) * scale) = Inr d"
    and q: "q = p\<lparr>pt_delta := d, pt_quantity := pt_current p + d, pt_value := fint (pt_current p + d) * pt_price p,
      pt_weight := safe_div (fint (pt_current p + d) * pt_price p) (ai_capital ai), pt_constraints := pt_constraints p @ [''max_turnover_pct'']\<rparr>"
    using assms(2) by (auto simp: scale_trade_def res_bind_eq_Inr Let_def)
  have b: "\<bar>pt_delta p\<bar> \<le> 2 ^ 50" using assms(1) by (auto simp: sound_target_def)
  note sc = scaled_between [OF d assms(3) b]
  have inc: "backed ai q \<and> Fin 0 < pt_price q" if "0 < d"
  proof -
    have "0 < pt_delta p" using sc(2) that by linarith
    then have "pt_current p < pt_quantity p" "d \<le> pt_quantity p - pt_current p" using sc(1) assms(1) by (simp_all add: sound_target_def)
    then show ?thesis using assms(1) that
      by (auto simp: sound_target_def q intro!: shrink [of ai p "pt_current p + d"])
  qed
  show ?thesis using assms(1) sc inc by (cases "0 \<le> pt_delta p") (auto simp: sound_target_def q)
qed

lemma scale_target_sound:
  assumes "sound_target ai p" and "scale_target ai scale p = Inr q" and "scale = NaN \<or> (\<exists>r. scale = Fin r \<and> 0 \<le> r \<and> r \<le> 1)"
  shows "sound_target ai q"
proof (cases "pt_quantity p \<le> 0")
  case False
  then obtain n where n: "to_int (fint (pt_quantity p) * scale) = Inr n"
    and q: "q = p\<lparr>pt_quantity := n, pt_value := fint n * pt_price p, pt_weight := safe_div (fint n * pt_price p) (ai_capital ai),
      pt_delta := n - pt_current p, pt_constraints := pt_constraints p @ [''min_cash_pct'']\<rparr>"
    using assms(2) by (auto simp: scale_target_def res_bind_eq_Inr Let_def)
  have b: "\<bar>pt_quantity p\<bar> \<le> 2 ^ 50" using assms(1) by (auto simp: sound_target_def)
  have sc: "0 \<le> n" "n \<le> pt_quantity p" using scaled_between(1) [OF n assms(3) b] False by simp_all
  have inc: "backed ai q \<and> Fin 0 < pt_price q" if "pt_current p < n"
    using assms(1) sc that by (auto simp: sound_target_def q intro!: shrink [of ai p n])
  show ?thesis using assms(1) sc inc by (auto simp: sound_target_def q)
qed (use assms in \<open>simp add: scale_target_def\<close>)

lemma cash_cap_nonneg:
  assumes "sane_inputs ai" and "Fin 0 < ai_capital ai"
  shows "Fin 0 \<le> ai_capital ai * lm_turnover (ai_limits ai)" and "Fin 0 \<le> max_deployed ai"
proof -
  obtain c where c: "ai_capital ai = Fin c" "0 < c" using assms by (auto simp: sane_inputs_def)
  show "Fin 0 \<le> ai_capital ai * lm_turnover (ai_limits ai)"
    using assms(1) c by (cases "lm_turnover (ai_limits ai)") (auto simp: sane_inputs_def fl_nonneg)
  obtain m where m: "lm_min_cash (ai_limits ai) = Fin m" "0 \<le> m" "m < 1"
    using sane_limits(3) [OF assms(1)] by (cases "lm_min_cash (ai_limits ai)") auto
  have "Fin 0 \<le> fl (1 - m)" using m by (simp add: fl_nonneg)
  then show "Fin 0 \<le> max_deployed ai" using c m
    by (cases "fl (1 - m)") (auto simp: max_deployed_def minus_pyfloat_def fl_nonneg)
qed

lemma turnover_sound:
  assumes "sane_inputs ai" and "Fin 0 < ai_capital ai" and "\<forall>p \<in> set ps. sound_target ai p"
  shows "gives (apply_turnover_limit ai ps) (\<lambda>qs _. \<forall>q \<in> set qs. sound_target ai q)"
  unfolding apply_turnover_limit_def Let_def
proof (rule gives_if)
  assume "\<not> (turnover_value ps \<le> ai_capital ai * lm_turnover (ai_limits ai) \<or> turnover_value ps \<le> Fin 0)"
  then have "fquot (ai_capital ai * lm_turnover (ai_limits ai)) (turnover_value ps) = NaN \<or>
    (\<exists>r. fquot (ai_capital ai * lm_turnover (ai_limits ai)) (turnover_value ps) = Fin r \<and> 0 \<le> r \<and> r \<le> 1)"
    using cash_cap_nonneg(1) [OF assms(1,2)] by (intro scale_unit) auto
  then show "gives (ef_seq (note_binding b) (ef_seq (note_reason m)
      (ef_iter (\<lambda>p. ef_lift (scale_trade ai (fquot (ai_capital ai * lm_turnover (ai_limits ai)) (turnover_value ps)) p)) ps)))
    (\<lambda>qs _. \<forall>q \<in> set qs. sound_target ai q)" for b m
    using assms(3) scale_trade_sound by (intro gives_seq gives_iter gives_lift) blast
qed (use assms(3) in \<open>simp add: gives_return\<close>)

lemma cash_floor_sound:
  assumes "sane_inputs ai" and "Fin 0 < ai_capital ai" and "\<forall>p \<in> set ps. sound_target ai p"
  shows "gives (apply_cash_floor ai ps) (\<lambda>qs _. \<forall>q \<in> set qs. sound_target ai q)"
  unfolding apply_cash_floor_def Let_def
proof (rule gives_if)
  assume "\<not> (deployed_value ps \<le> max_deployed ai \<or> deployed_value ps \<le> Fin 0)"
  then have "fquot (max_deployed ai) (deployed_value ps) = NaN \<or> (\<exists>r. fquot (max_deployed ai) (deployed_value ps) = Fin r \<and> 0 \<le> r \<and> r \<le> 1)"
    using cash_cap_nonneg(2) [OF assms(1,2)] by (intro scale_unit) auto
  then show "gives (ef_seq (note_binding b) (ef_seq (note_reason m)
      (ef_iter (\<lambda>p. ef_lift (scale_target ai (fquot (max_deployed ai) (deployed_value ps)) p)) ps)))
    (\<lambda>qs _. \<forall>q \<in> set qs. sound_target ai q)" for b m
    using assms(3) scale_target_sound by (intro gives_seq gives_iter gives_lift) blast
qed (use assms(3) in \<open>simp add: gives_return\<close>)

section \<open>The properties\<close>

lemma build_sound:
  assumes "sane_inputs ai" and "Fin 0 < ai_capital ai" and "\<forall>s \<in> set ss. s \<in> set (ai_signals ai) \<and> drop_reason ai s = None"
  shows "gives (build_portfolio np ai ss) (\<lambda>_ t. \<forall>p \<in> set (tp_positions t). sound_target ai p)"
proof -
  have last: "gives (ef_modify (set_target ai ps risk vol)) (\<lambda>_ t. \<forall>p \<in> set (tp_positions t). sound_target ai p)"
    if "\<forall>p \<in> set ps. sound_target ai p" for ps risk vol
    using that by (simp add: gives_def ef_modify_def set_target_def Let_def)
  show ?thesis unfolding build_portfolio_def
    by (rule gives_bind [OF gives_any], rule gives_bind [OF gives_any], rule gives_bind [OF size_positions_sound [OF assms]],
        rule gives_bind [OF turnover_sound [OF assms(1,2)]], assumption, rule gives_bind [OF cash_floor_sound [OF assms(1,2)]], assumption,
        rule gives_bind [OF gives_any], rule last)
qed

lemma allocate_closed:
  "filter fst (gates ai) \<noteq> [] \<Longrightarrow> allocate_portfolio np ai = Inr (new_target
     \<lparr>tp_reasons := map (fst \<circ> snd) (filter fst (gates ai)), tp_bindings := concat (map (snd \<circ> snd) (filter fst (gates ai))),
      tp_cash := ai_cash ai, tp_cash_pct := safe_div (ai_cash ai) (ai_capital ai), tp_strategies := [cash_only_strategy ai]\<rparr>)"
  by (simp add: allocate_portfolio_def preflight_def stay_in_cash_def new_target_def ef_defs Let_def)

lemma open_gates:
  assumes "filter fst (gates ai) = []" and "\<exists>c. ai_capital ai = Fin c"
  shows "Fin 0 < ai_capital ai"
  using assms unfolding gates_def Let_def by (auto split: if_splits)

lemma allocate_open:
  assumes "filter fst (gates ai) = []" and "allocate_portfolio np ai = Inr t" and "tp_positions t \<noteq> []"
  shows "\<exists>t0. build_portfolio np ai (filter (\<lambda>s. drop_reason ai s = None) (ai_signals ai)) t0 = (Inr (), t)"
  using assms unfolding allocate_portfolio_def preflight_def usable_signals_def stay_in_cash_def note_reason_def new_target_def
  by (auto simp: ef_defs Let_def split: if_splits prod.splits sum.splits)

lemma allocated_backed:
  assumes "allocate_portfolio np ai = Inr t" and "sane_inputs ai"
    and "p \<in> set (tp_positions t)" and "pt_current p < pt_quantity p"
  shows "\<exists>s \<in> set (ai_signals ai). drop_reason ai s = None \<and> si_symbol s = pt_symbol p \<and> si_price s = pt_price p \<and>
    pt_value p = fint (pt_quantity p) * si_price s \<and> within_caps ai s (pt_value p)"
proof -
  have open_book: "filter fst (gates ai) = []"
    using assms(1,3) allocate_closed [of ai np] by (fastforce simp: new_target_def)
  have pos: "Fin 0 < ai_capital ai" using assms(2) by (intro open_gates [OF open_book]) (auto simp: sane_inputs_def)
  obtain t0 where t0: "build_portfolio np ai (filter (\<lambda>s. drop_reason ai s = None) (ai_signals ai)) t0 = (Inr (), t)"
    using allocate_open [OF open_book assms(1)] assms(3) by fastforce
  have "gives (build_portfolio np ai (filter (\<lambda>s. drop_reason ai s = None) (ai_signals ai))) (\<lambda>_ t. \<forall>p \<in> set (tp_positions t). sound_target ai p)"
    by (rule build_sound [OF assms(2) pos]) simp
  from givesD [OF this t0] assms(3) have "sound_target ai p" by blast
  then show ?thesis using assms(4) by (auto simp: sound_target_def backed_def)
qed

section \<open>A concrete book\<close>

definition plain_numpy :: numpy where
  "plain_numpy = (let dot = (\<lambda>xs ys. py_sum (map2 (*) xs ys)) in
     \<lparr>np_sum = py_sum, np_dot = dot, np_mat_vec = (\<lambda>m v. map (\<lambda>r. dot r v) m),
      np_vec_mat = (\<lambda>v m. map (\<lambda>j. dot v (map (\<lambda>r. r ! j) m)) [0..<length v])\<rparr>)"

definition one_signal :: signal_input where
  "one_signal = \<lparr>si_symbol = ''INFY'', si_strategy = ''swing'', si_direction = ''LONG'', si_edge = Fin 1, si_return = Fin (1 / 4),
     si_return_std = Fin (1 / 2), si_price = Fin 1000, si_sector = ''IT'', si_volatility = Some (Fin (1 / 4)),
     si_traded = Some (Fin 100000000), si_age = None\<rparr>"

definition one_book :: inputs where
  "one_book = \<lparr>ai_capital = Fin 1000000, ai_cash = Fin 990000, ai_positions = [\<lparr>pi_symbol = ''INFY'', pi_quantity = 10,
       pi_average = Fin 900, pi_last = Fin 1000, pi_strategy = ''swing'', pi_sector = ''IT''\<rparr>],
     ai_signals = [one_signal], ai_health = [], ai_volatilities = [], ai_corr_symbols = [], ai_corr = None,
     ai_drawdown = Fin 0, ai_pnl = Fin 0, ai_realised = None, ai_cost_bps = Fin 10, ai_limits = default_limits,
     ai_kill = False, ai_stale = False, ai_permitted = True\<rparr>"

text \<open>C18. TODO\<close>
text \<open>C0. On a sane book every position of the target that grows rests on a usable signal of its symbol at its price,
  and its value is within the position, liquidity and Kelly limits of that signal, whatever NumPy computes and after
  the turnover limit and the cash floor have rescaled it.\<close>

theorem increase_is_backed_and_limited:
  assumes "allocate_portfolio np ai = Inr t" and "sane_inputs ai"
    and "p \<in> set (tp_positions t)" and "pt_current p < pt_quantity p"
  shows "\<exists>s \<in> set (ai_signals ai). drop_reason ai s = None \<and> si_symbol s = pt_symbol p \<and> si_price s = pt_price p \<and>
    pt_value p = fint (pt_quantity p) * si_price s \<and> within_caps ai s (pt_value p)"
  using allocated_backed [OF assms] .

theorem increase_is_backed_and_limited_witness:
  "\<exists>t p. allocate_portfolio plain_numpy one_book = Inr t \<and> p \<in> set (tp_positions t) \<and> pt_quantity p = 100 \<and> pt_current p = 10 \<and>
     (\<exists>s \<in> set (ai_signals one_book). si_symbol s = pt_symbol p \<and> within_caps one_book s (pt_value p))"
proof -
  have run: "case allocate_portfolio plain_numpy one_book of Inl _ \<Rightarrow> False
      | Inr t \<Rightarrow> tp_positions t \<noteq> [] \<and> pt_quantity (hd (tp_positions t)) = 100 \<and> pt_current (hd (tp_positions t)) = 10"
    by code_simp
  then obtain t where t: "allocate_portfolio plain_numpy one_book = Inr t" "tp_positions t \<noteq> []"
      "pt_quantity (hd (tp_positions t)) = 100" "pt_current (hd (tp_positions t)) = 10"
    by (auto split: sum.splits)
  have sane: "sane_inputs one_book"
    unfolding sane_inputs_def by (intro conjI exI [of _ 1000000]) (simp add: one_book_def, simp, code_simp+)
  have p: "hd (tp_positions t) \<in> set (tp_positions t)" using t(2) by simp
  show ?thesis using increase_is_backed_and_limited [OF t(1) sane p] t p by fastforce
qed

text \<open>C19. TODO\<close>
text \<open>C0. With the kill switch active, trading not permitted, stale data, no capital, a drawdown of either sign at its
  limit or a daily loss at its limit, the allocation returns: no position is targeted, not even to zero, the cash stays as it
  is, and the reasons are those of all the gates that are closed.\<close>

theorem closed_gates_leave_the_book:
  assumes "ai_kill ai \<or> \<not> ai_permitted ai \<or> ai_stale ai \<or> ai_capital ai \<le> Fin 0 \<or>
    lm_drawdown (ai_limits ai) \<le> \<bar>ai_drawdown ai\<bar> \<or> lm_daily_loss (ai_limits ai) \<le> - fmin (Fin 0) (ai_pnl ai)"
  shows "\<exists>t. allocate_portfolio np ai = Inr t \<and> tp_positions t = [] \<and> tp_no_trade t \<and> tp_cash t = ai_cash ai \<and>
     tp_strategies t = [cash_only_strategy ai] \<and> tp_reasons t = map (fst \<circ> snd) (filter fst (gates ai)) \<and> tp_reasons t \<noteq> []"
proof -
  have "filter fst (gates ai) \<noteq> []" using assms unfolding gates_def Let_def by auto
  then show ?thesis using allocate_closed by (simp add: new_target_def)
qed

theorem closed_gates_leave_the_book_witness:
  "\<exists>t. allocate_portfolio plain_numpy (one_book\<lparr>ai_drawdown := Fin (- 1 / 5)\<rparr>) = Inr t \<and> tp_positions t = [] \<and> tp_no_trade t"
proof -
  have "lm_drawdown default_limits \<le> \<bar>Fin (- 1 / 5)\<bar>" by code_simp
  then show ?thesis
    using closed_gates_leave_the_book [of "one_book\<lparr>ai_drawdown := Fin (- 1 / 5)\<rparr>" plain_numpy] by (auto simp: one_book_def)
qed

section \<open>What does not depend on the realised volatility\<close>

definition oblivious :: "('s, 'a) ef \<Rightarrow> bool" where
  "oblivious m \<longleftrightarrow> (\<forall>s t. fst (m s) = fst (m t))"

lemma oblivious_basic [simp, intro]:
  "oblivious (ef_return x)" "oblivious (ef_lift r)" "oblivious (ef_modify f)"
  by (simp_all add: oblivious_def ef_return_def ef_lift_def ef_modify_def)

lemma oblivious_bind [intro]:
  assumes "oblivious m" and "\<And>x. oblivious (f x)"
  shows "oblivious (ef_bind m f)"
proof (unfold oblivious_def, intro allI)
  fix s t
  have "fst (m s) = fst (m t)" using assms(1) by (simp add: oblivious_def)
  moreover have "fst (f x u) = fst (f x v)" for x u v using assms(2) by (simp add: oblivious_def)
  ultimately show "fst (ef_bind m f s) = fst (ef_bind m f t)"
    by (cases "m s"; cases "m t"; cases "fst (m s)") (auto simp: ef_bind_def)
qed

lemma oblivious_seq [intro]: "oblivious m \<Longrightarrow> oblivious n \<Longrightarrow> oblivious (ef_seq m n)"
  unfolding ef_seq_def by auto

lemma oblivious_iter [intro]: "(\<And>x. oblivious (f x)) \<Longrightarrow> oblivious (ef_iter f xs)"
  by (induction xs) auto

lemma oblivious_notes [simp, intro]: "oblivious (note_binding b)" "oblivious (note_reason m)" "oblivious (note_warning k m)"
  by (simp_all add: note_binding_def note_reason_def note_warning_def)

lemma oblivious_limit [intro]: "oblivious (limit_to b c v w)"
  by (auto simp: limit_to_def)

lemma oblivious_value: "oblivious (limited_value ai sec s want)"
  unfolding limited_value_def cap_position_def cap_sector_def cap_liquidity_def cap_kelly_def Let_def
  by (intro oblivious_bind oblivious_limit oblivious_basic) (auto split: option.split)

lemma oblivious_place: "oblivious (place_signal ai b capital sec x)"
  unfolding place_signal_def Let_def
  by (auto split: prod.split intro!: oblivious_value oblivious_bind oblivious_seq)

lemma oblivious_place_all: "oblivious (place_all ai b capital sec xs)"
  by (induction xs arbitrary: sec) (auto split: prod.split intro!: oblivious_place oblivious_bind)

lemma oblivious_sleeves: "oblivious (size_sleeves np ai ss capital sec bs)"
proof (induction bs arbitrary: sec)
  case (Cons b bs)
  have "oblivious (size_sleeve np ai ss capital sec b)"
    unfolding size_sleeve_def by (auto intro!: oblivious_place_all oblivious_bind)
  then show ?case using Cons by (auto split: prod.split intro!: oblivious_bind)
qed simp

lemma oblivious_sizing:
  "oblivious (size_positions np ai ss capital)" "oblivious (apply_turnover_limit ai ps)" "oblivious (apply_cash_floor ai ps)"
  "oblivious (allocate_sleeves ai ss)"
  unfolding size_positions_def apply_turnover_limit_def apply_cash_floor_def allocate_sleeves_def bucket_capital_def Let_def
  by (auto intro!: oblivious_sleeves oblivious_bind oblivious_seq oblivious_iter split: prod.split)

section \<open>Only the report reads it\<close>

definition hot :: "pyfloat option \<Rightarrow> inputs \<Rightarrow> inputs" where
  "hot v ai = ai\<lparr>ai_realised := v\<rparr>"

lemma hot_fields [simp]:
  "ai_capital (hot v ai) = ai_capital ai" "ai_cash (hot v ai) = ai_cash ai" "ai_positions (hot v ai) = ai_positions ai"
  "ai_signals (hot v ai) = ai_signals ai" "ai_health (hot v ai) = ai_health ai" "ai_volatilities (hot v ai) = ai_volatilities ai"
  "ai_corr_symbols (hot v ai) = ai_corr_symbols ai" "ai_corr (hot v ai) = ai_corr ai" "ai_drawdown (hot v ai) = ai_drawdown ai"
  "ai_pnl (hot v ai) = ai_pnl ai" "ai_cost_bps (hot v ai) = ai_cost_bps ai" "ai_limits (hot v ai) = ai_limits ai"
  "ai_kill (hot v ai) = ai_kill ai" "ai_stale (hot v ai) = ai_stale ai" "ai_permitted (hot v ai) = ai_permitted ai"
  by (simp_all add: hot_def)

lemma hot_screens [simp]:
  "gates (hot v ai) = gates ai" "health_of (hot v ai) = health_of ai" "drop_reason (hot v ai) = drop_reason ai"
  "usable_signals (hot v ai) = usable_signals ai" "preflight (hot v ai) = preflight ai" "stay_in_cash (hot v ai) = stay_in_cash ai"
  unfolding gates_def usable_signals_def preflight_def stay_in_cash_def cash_only_strategy_def
  by (simp_all add: health_of_def drop_reason_def fun_eq_iff)

lemma hot_sleeves [simp]:
  "allocate_sleeves (hot v ai) = allocate_sleeves ai" "base_budget (hot v ai) = base_budget ai"
  unfolding allocate_sleeves_def bucket_capital_def strengths_def base_budget_def health_factor_def hot_fields hot_screens fun_eq_iff
  by simp_all

lemma hot_place [simp]:
  "held_book (hot v ai) = held_book ai" "place_signal (hot v ai) = place_signal ai" "exit_targets (hot v ai) = exit_targets ai"
  unfolding place_signal_def limited_value_def cap_position_def cap_sector_def cap_liquidity_def cap_kelly_def held_quantity_def
    held_book_def exit_targets_def exit_target_def hot_fields fun_eq_iff
  by simp_all

lemma hot_place_all [simp]: "place_all (hot v ai) b capital sec xs = place_all ai b capital sec xs"
  by (induction xs arbitrary: sec) simp_all

lemma hot_size_sleeve [simp]: "size_sleeve np (hot v ai) = size_sleeve np ai"
  unfolding size_sleeve_def hot_fields hot_place_all fun_eq_iff by simp

lemma hot_size_sleeves [simp]: "size_sleeves np (hot v ai) ss capital sec bs = size_sleeves np ai ss capital sec bs"
  by (induction bs arbitrary: sec) simp_all

lemma hot_sizing [simp]:
  "correlation_for (hot v ai) = correlation_for ai" "size_positions np (hot v ai) = size_positions np ai"
  "apply_turnover_limit (hot v ai) = apply_turnover_limit ai" "apply_cash_floor (hot v ai) = apply_cash_floor ai"
  "expected_vol np (hot v ai) = expected_vol np ai"
  unfolding size_positions_def attach_risks_def apply_turnover_limit_def apply_cash_floor_def expected_vol_def scale_trade_def
    scale_target_def max_deployed_def correlation_for_def hot_fields hot_place hot_size_sleeves fun_eq_iff
  by simp_all

text \<open>What a run leaves as positions.\<close>

definition placed :: "unit tp_ef \<Rightarrow> target_portfolio \<Rightarrow> position_target list res" where
  "placed m t = (case m t of (Inl e, _) \<Rightarrow> Inl e | (Inr _, t') \<Rightarrow> Inr (tp_positions t'))"

definition same_book :: "unit tp_ef \<Rightarrow> unit tp_ef \<Rightarrow> bool" where
  "same_book m n \<longleftrightarrow> (\<forall>s t. placed m s = placed n t)"

lemma same_bind:
  assumes "oblivious m" and "\<And>x. same_book (f x) (g x)"
  shows "same_book (ef_bind m f) (ef_bind m g)"
proof (unfold same_book_def, intro allI)
  fix s t
  have "fst (m s) = fst (m t)" using assms(1) by (simp add: oblivious_def)
  moreover have "placed (f x) u = placed (g x) v" for x u v using assms(2) by (simp add: same_book_def)
  ultimately show "placed (ef_bind m f) s = placed (ef_bind m g) t"
    by (cases "m s"; cases "m t"; cases "fst (m s)") (auto simp: ef_bind_def placed_def)
qed

lemma same_risk:
  assumes "\<And>x y. same_book (f x) (g y)"
  shows "same_book (ef_bind (allocate_risk ai ss) f) (ef_bind (allocate_risk ai' ss') g)"
proof (unfold same_book_def, intro allI)
  fix s t
  have "\<exists>x s'. allocate_risk ai ss s = (Inr x, s')" for ai ss s
    by (auto simp: allocate_risk_def Let_def ef_defs note_binding_def note_reason_def split: option.split)
  then obtain x s' y t' where "allocate_risk ai ss s = (Inr x, s')" "allocate_risk ai' ss' t = (Inr y, t')" by meson
  moreover have "placed (f x) u = placed (g y) v" for u v using assms by (simp add: same_book_def)
  ultimately show "placed (ef_bind (allocate_risk ai ss) f) s = placed (ef_bind (allocate_risk ai' ss') g) t"
    by (simp add: placed_def ef_bind_def)
qed

lemma same_build: "same_book (build_portfolio np (hot v ai) ss) (build_portfolio np ai ss)"
  unfolding build_portfolio_def hot_sleeves hot_sizing
  by (intro same_bind same_risk oblivious_sizing oblivious_basic)
    (simp add: same_book_def placed_def ef_modify_def set_target_def Let_def)

text \<open>C20. The engine allocates a risk budget per sleeve and scales it down when the realised volatility exceeds the
  target, but no sizing reads it: the positions, or the exception, are the same whatever the realised
  volatility is. The budget only appears in the report.\<close>

theorem realised_volatility_sizes_nothing:
  "map_sum id tp_positions (allocate_portfolio np (ai\<lparr>ai_realised := v\<rparr>)) = map_sum id tp_positions (allocate_portfolio np ai)"
proof -
  have obs: "map_sum id tp_positions (case m t of (Inl e, _) \<Rightarrow> Inl e | (Inr (_ :: unit), t') \<Rightarrow> Inr t') = placed m t" for m t
    by (simp add: placed_def split: prod.split sum.split)
  have "map_sum id tp_positions (allocate_portfolio np (hot v ai)) = map_sum id tp_positions (allocate_portfolio np ai)"
    unfolding allocate_portfolio_def obs hot_screens
    using same_build [of np v ai "filter (\<lambda>s. drop_reason ai s = None) (ai_signals ai)"]
    by (auto simp: placed_def preflight_def usable_signals_def same_book_def ef_defs Let_def)
  then show ?thesis by (simp add: hot_def)
qed

end
