(* ===== verification/Allocated_Cycle.thy ===== *)
theory Allocated_Cycle
  imports Portfolio_Engine Service "HOL-Library.List_Lexorder" "HOL-Library.Char_ord"
begin

text \<open>
  \<open>app/engine/allocated_cycle.py\<close>: one cycle from market data over signals and the portfolio engine to orders at the
  execution boundary. The strategies, the feature builder, the market data and the statistics of pandas are parameters;
  the snapshot and its fingerprint are a parameter too, and an error keeps its fixed text.
\<close>

section \<open>Estimates from price history\<close>

text \<open>The columns of a frame of prices; a column may be missing.\<close>

record history =
  hi_close :: "pyfloat list option"
  hi_volume :: "pyfloat list option"

type_synonym market = "(string \<times> history) list"

text \<open>What is used of pandas: the returns of a column without the missing ones, a sample deviation, a median, and for
  several columns the number of complete rows in the window with their correlation matrix.\<close>

record pandas =
  pd_returns :: "pyfloat list \<Rightarrow> pyfloat list"
  pd_std :: "pyfloat list \<Rightarrow> pyfloat"
  pd_median :: "pyfloat list \<Rightarrow> pyfloat"
  pd_corr :: "(string \<times> pyfloat list) list \<Rightarrow> nat \<times> pyfloat list list"

definition ESTIMATION_WINDOW :: nat where "ESTIMATION_WINDOW = 63"
definition TRADING_DAYS :: pyfloat where "TRADING_DAYS = Fin 252"

definition window :: "'a list \<Rightarrow> 'a list" where
  "window xs = drop (length xs - ESTIMATION_WINDOW) xs"

definition traded_value :: "pandas \<Rightarrow> history \<Rightarrow> pyfloat list \<Rightarrow> pyfloat option" where
  "traded_value pd h px = (case hi_volume h of None \<Rightarrow> None
     | Some v \<Rightarrow> (let tv = pd_median pd (window (map2 (*) v px)) in if isfinite tv \<and> Fin 0 < tv then Some tv else None))"

definition estimate_symbol :: "pandas \<Rightarrow> history \<Rightarrow> (pyfloat \<times> pyfloat list \<times> pyfloat option) option" where
  "estimate_symbol pd h = (case hi_close h of None \<Rightarrow> None | Some px \<Rightarrow>
     if length px < ESTIMATION_WINDOW then None
     else (let r = pd_returns pd px in
       if length r < ESTIMATION_WINDOW div 2 then None
       else (let sd = pd_std pd (window r) in
         if \<not> isfinite sd \<or> sd \<le> Fin 0 then None
         else (case fsqrt TRADING_DAYS of Inl _ \<Rightarrow> None | Inr q \<Rightarrow> Some (sd * q, r, traded_value pd h px)))))"

record estimates =
  es_vols :: "(string \<times> pyfloat) list"
  es_traded :: "(string \<times> pyfloat) list"
  es_symbols :: "string list"
  es_corr :: "pyfloat list list option"

definition estimate_risk_inputs :: "pandas \<Rightarrow> market \<Rightarrow> string list \<Rightarrow> estimates" where
  "estimate_risk_inputs pd data symbols =
     (let found = concat (map (\<lambda>k. case map_of data k of None \<Rightarrow> [] | Some h \<Rightarrow>
            (case estimate_symbol pd h of None \<Rightarrow> [] | Some x \<Rightarrow> [(k, x)])) symbols);
          returns = map (\<lambda>(k, _, r, _). (k, r)) found;
          (rows, c) = pd_corr pd returns;
          usable = (2 \<le> length returns \<and> 20 \<le> rows \<and> (\<forall>xs \<in> set c. \<forall>x \<in> set xs. x \<noteq> NaN))
      in \<lparr>es_vols = map (\<lambda>(k, v, _). (k, v)) found,
          es_traded = concat (map (\<lambda>(k, _, _, tv). case tv of None \<Rightarrow> [] | Some x \<Rightarrow> [(k, x)]) found),
          es_symbols = (if usable then map fst returns else []), es_corr = (if usable then Some c else None)\<rparr>)"

section \<open>The inputs of the engine\<close>

text \<open>A held position, as the caller hands it in: what the risk checks read, its prices and its strategy.\<close>

record book_row =
  bk_position :: bposition
  bk_average :: pyfloat
  bk_last :: pyfloat
  bk_strategy :: "string option"

record cycle_args =
  ca_capital :: pyfloat
  ca_cash :: pyfloat
  ca_positions :: "book_row list"
  ca_health :: "(string \<times> string) list"
  ca_drawdown :: pyfloat
  ca_pnl :: pyfloat
  ca_kill :: bool
  ca_permitted :: bool
  ca_limits :: "risk_limits option"
  ca_sectors :: "(string \<times> string) list"
  ca_dry_run :: bool

definition sector_in :: "cycle_args \<Rightarrow> string \<Rightarrow> string" where
  "sector_in ca symbol = (case map_of (ca_sectors ca) symbol of Some k \<Rightarrow> k | None \<Rightarrow> ''UNKNOWN'')"

definition closing_price :: "market \<Rightarrow> string \<Rightarrow> pyfloat" where
  "closing_price data symbol = (case map_of data symbol of None \<Rightarrow> Fin 0 | Some h \<Rightarrow>
     (case hi_close h of None \<Rightarrow> Fin 0 | Some px \<Rightarrow> if px = [] then Fin 0 else last px))"

text \<open>A signal comes with the name of the strategy that produced it.\<close>

definition signal_input_of :: "cycle_args \<Rightarrow> market \<Rightarrow> estimates \<Rightarrow> string \<times> alpha \<Rightarrow> signal_input" where
  "signal_input_of ca data es = (\<lambda>(strat, al).
     \<lparr>si_symbol = al_symbol al,
      si_strategy = (if al_strategy al \<noteq> [] then al_strategy al else if strat \<noteq> [] then strat else ''swing''),
      si_direction = direction_text (al_direction al), si_edge = al_edge al, si_return = al_return al,
      si_return_std = al_return_std al, si_price = closing_price data (al_symbol al), si_sector = sector_in ca (al_symbol al),
      si_volatility = map_of (es_vols es) (al_symbol al), si_traded = map_of (es_traded es) (al_symbol al), si_age = None\<rparr>)"

definition held_symbol :: "book_row \<Rightarrow> string" where
  "held_symbol b = (case bp_symbol (bk_position b) of None \<Rightarrow> [] | Some k \<Rightarrow> k)"

definition position_input_of :: "cycle_args \<Rightarrow> book_row \<Rightarrow> position_input" where
  "position_input_of ca b = \<lparr>pi_symbol = held_symbol b, pi_quantity = bp_quantity (bk_position b), pi_average = bk_average b,
     pi_last = (if ftruthy (bk_last b) then bk_last b else if ftruthy (bk_average b) then bk_average b else Fin 0),
     pi_strategy = (case bk_strategy b of None \<Rightarrow> ''unknown'' | Some k \<Rightarrow> k), pi_sector = sector_in ca (held_symbol b)\<rparr>"

definition build_allocation_inputs :: "pandas \<Rightarrow> cycle_args \<Rightarrow> market \<Rightarrow> (string \<times> alpha) list \<Rightarrow> inputs" where
  "build_allocation_inputs pd ca data pairs =
     (let es = estimate_risk_inputs pd data (sort (remdups (map (al_symbol \<circ> snd) pairs))) in
      \<lparr>ai_capital = ca_capital ca, ai_cash = ca_cash ca, ai_positions = map (position_input_of ca) (ca_positions ca),
       ai_signals = map (signal_input_of ca data es) pairs, ai_health = ca_health ca, ai_volatilities = es_vols es,
       ai_corr_symbols = es_symbols es, ai_corr = es_corr es, ai_drawdown = ca_drawdown ca, ai_pnl = ca_pnl ca,
       ai_realised = None, ai_cost_bps = Fin 25,
       ai_limits = (case ca_limits ca of None \<Rightarrow> default_limits | Some lm \<Rightarrow> lm),
       ai_kill = ca_kill ca, ai_stale = False, ai_permitted = ca_permitted ca\<rparr>)"

section \<open>Submission\<close>

record cycle_outcome =
  co_symbol :: string
  co_delta :: int
  co_submitted :: bool
  co_outcome :: "execution_outcome option"
  co_reason :: "string option"
  co_broker_id :: "string option"

record cycle_result =
  cy_target :: "target_portfolio option"
  cy_submitted :: int
  cy_blocked :: int
  cy_skipped :: int
  cy_outcomes :: "cycle_outcome list"
  cy_errors :: "string list"

definition new_result :: cycle_result where
  "new_result = \<lparr>cy_target = None, cy_submitted = 0, cy_blocked = 0, cy_skipped = 0, cy_outcomes = [], cy_errors = []\<rparr>"

definition no_trade :: "cycle_result \<Rightarrow> bool" where
  "no_trade r \<longleftrightarrow> cy_submitted r = 0"

definition allocation_note :: "string \<Rightarrow> position_target \<Rightarrow> json" where
  "allocation_note mark p = JObj [(''target_weight'', JFloat (pt_weight p)),
     (''risk_contribution_pct'', case pt_risk p of None \<Rightarrow> JNull | Some c \<Rightarrow> JFloat c), (''strategy_bucket'', JStr (pt_strategy p)),
     (''binding_constraints'', JList (map JStr (pt_constraints p))), (''allocation_fingerprint'', JStr mark)]"

text \<open>The request of one position; what the cycle does not pass has the defaults of \<open>submit_order\<close>.\<close>

definition target_request :: "string \<Rightarrow> cycle_args \<Rightarrow> pyfloat \<Rightarrow> position_target \<Rightarrow> request" where
  "target_request mark ca cash p = \<lparr>rq_exchange = ''NSE'', rq_product = None, rq_price = pt_price p, rq_key = None,
     rq_allocation = Some (allocation_note mark p),
     rq_risk = \<lparr>sa_daily_risk_used = Fin 0, sa_max_daily_risk = Fin 50000, sa_available_cash = cash,
       sa_total_portfolio = ca_capital ca, sa_positions = map bk_position (ca_positions ca), sa_open_orders = [],
       sa_max_positions = 20, sa_sector = None, sa_sector_value = Fin 0, sa_realised_pnl_today = Fin 0,
       sa_max_daily_loss = Fin 50000\<rparr>\<rparr>"

definition note_outcome :: "cycle_outcome \<Rightarrow> cycle_result \<Rightarrow> cycle_result" where
  "note_outcome x r = r\<lparr>cy_outcomes := cy_outcomes r @ [x]\<rparr>"

definition note_skipped :: "position_target \<Rightarrow> cycle_result \<Rightarrow> cycle_result" where
  "note_skipped p r = note_outcome \<lparr>co_symbol = pt_symbol p, co_delta = pt_delta p, co_submitted = False, co_outcome = None,
     co_reason = Some ''no originating signal for this symbol, so no order was created'', co_broker_id = None\<rparr>
     (r\<lparr>cy_skipped := cy_skipped r + 1\<rparr>)"

definition note_attempt :: "position_target \<Rightarrow> execution_result \<Rightarrow> cycle_result \<Rightarrow> cycle_result" where
  "note_attempt p x r = (let r' = note_outcome \<lparr>co_symbol = pt_symbol p, co_delta = pt_delta p, co_submitted = submitted x,
       co_outcome = Some (xr_outcome x), co_reason = xr_reason x, co_broker_id = xr_broker_id x\<rparr> r in
     if submitted x then r'\<lparr>cy_submitted := cy_submitted r + 1\<rparr> else r'\<lparr>cy_blocked := cy_blocked r + 1\<rparr>)"

text \<open>\<open>submit_target\<close>: only a submitted order reduces the cash the next one is given.\<close>

fun submit_targets ::
  "('b, 'w) service \<Rightarrow> string \<Rightarrow> cycle_args \<Rightarrow> (string \<times> alpha) list \<Rightarrow> pyfloat \<Rightarrow> position_target list \<Rightarrow> cycle_result \<Rightarrow>
     'b boundary \<Rightarrow> cycle_result \<times> 'b boundary" where
  "submit_targets sv mark ca signals cash [] r s = (r, s)"
| "submit_targets sv mark ca signals cash (p # ps) r s =
     (if pt_delta p = 0 then submit_targets sv mark ca signals cash ps r s
      else case map_of signals (pt_symbol p) of
        None \<Rightarrow> submit_targets sv mark ca signals cash ps (note_skipped p r) s
      | Some al \<Rightarrow>
          (case submit_signal sv al \<bar>pt_delta p\<bar> (target_request mark ca cash p) s of (x, s') \<Rightarrow>
             submit_targets sv mark ca signals
               (if submitted x then fmax (Fin 0) (cash - fint \<bar>pt_delta p\<bar> * pt_price p) else cash)
               ps (note_attempt p x r) s'))"

section \<open>The cycle\<close>

record 'f planner =
  pn_name :: string
  pn_class :: string
  pn_signals :: "string list \<Rightarrow> 'f \<Rightarrow> market \<Rightarrow> alpha list res"

text \<open>The pipeline: its universe, its market data, its feature builder when it has one (which may answer with nothing
  usable), the frame without features, and its strategies.\<close>

record 'f pipeline =
  pl_universe :: "string list"
  pl_fetch :: "market res"
  pl_builder :: "(string list \<Rightarrow> market \<Rightarrow> 'f option res) option"
  pl_plain :: "string list \<Rightarrow> 'f"
  pl_strategies :: "'f planner list"

definition features_of :: "'f pipeline \<Rightarrow> string list \<Rightarrow> market \<Rightarrow> 'f \<times> string list" where
  "features_of pl priced data = (case pl_builder pl of None \<Rightarrow> (pl_plain pl priced, [])
     | Some build \<Rightarrow> (case build priced data of Inl _ \<Rightarrow> (pl_plain pl priced, [''feature build failed''])
       | Inr None \<Rightarrow> (pl_plain pl priced, []) | Inr (Some f) \<Rightarrow> (f, [])))"

definition signals_of :: "string list \<Rightarrow> 'f \<Rightarrow> market \<Rightarrow> 'f planner \<Rightarrow> (string \<times> alpha) list \<times> string list" where
  "signals_of priced f data pn = (case pn_signals pn priced f data of
     Inl _ \<Rightarrow> ([], [pn_class pn @ '': generate_signals raised'']) | Inr als \<Rightarrow> (map (Pair (pn_name pn)) als, []))"

definition priced_symbols :: "'f pipeline \<Rightarrow> market \<Rightarrow> string list" where
  "priced_symbols pl data = filter (\<lambda>k. map_of data k \<noteq> None) (pl_universe pl)"

definition cycle_signals :: "'f pipeline \<Rightarrow> market \<Rightarrow> (string \<times> alpha) list \<times> string list" where
  "cycle_signals pl data = (let priced = priced_symbols pl data; (f, errors) = features_of pl priced data;
       answers = map (signals_of priced f data) (pl_strategies pl)
     in (concat (map fst answers), errors @ concat (map snd answers)))"

text \<open>\<open>signal_by_symbol\<close>: the last signal of a symbol.\<close>

definition by_symbol :: "(string \<times> alpha) list \<Rightarrow> (string \<times> alpha) list" where
  "by_symbol pairs = dict_of (map (\<lambda>(_, al). (al_symbol al, al)) pairs)"

definition run_allocated_cycle ::
  "numpy \<Rightarrow> pandas \<Rightarrow> (inputs \<Rightarrow> string) \<Rightarrow> ('b, 'w) service \<Rightarrow> 'f pipeline \<Rightarrow> cycle_args \<Rightarrow> ('b boundary, cycle_result) ef" where
  "run_allocated_cycle np pd fingerprint sv pl ca s =
     (if pl_universe pl = [] then (Inr (new_result\<lparr>cy_errors := [''the pipeline universe is empty; nothing to allocate'']\<rparr>), s)
      else case pl_fetch pl of
        Inl _ \<Rightarrow> (Inr (new_result\<lparr>cy_errors := [''market data fetch failed'']\<rparr>), s)
      | Inr data \<Rightarrow>
          if data = [] then (Inr (new_result\<lparr>cy_errors := [''no market data was returned'']\<rparr>), s)
          else (let (pairs, errors) = cycle_signals pl data; ai = build_allocation_inputs pd ca data pairs in
            case allocate_portfolio np ai of
              Inl e \<Rightarrow> (Inl e, s)
            | Inr t \<Rightarrow>
                (let r = new_result\<lparr>cy_target := Some t, cy_errors := errors\<rparr> in
                 if ca_dry_run ca \<or> tp_no_trade t then (Inr r, s)
                 else (case submit_targets sv (fingerprint ai) ca (by_symbol pairs) (ca_cash ca) (tp_positions t) r s of
                   (r', s') \<Rightarrow> (Inr r', s')))))"

end
