(* ===== verification/Allocated_Claims.thy ===== *)
theory Allocated_Claims
  imports Allocated_Cycle Portfolio_Claims Service_Claims
begin

text \<open>
  What an allocated cycle may do: it is a run of entries at the execution boundary, each for a position of the target the
  engine set, so that the properties of the boundary and of the engine carry over; and where the side of an order is wrong.
\<close>

section \<open>A cycle as a run of the boundary\<close>

fun target_op :: "('b, 'w) service \<Rightarrow> cycle_args \<Rightarrow> (string \<times> alpha) list \<Rightarrow> position_target list \<Rightarrow> ('b, 'w) boundary_op \<Rightarrow> bool" where
  "target_op sv ca signals ps (Enter sv' al n rq) \<longleftrightarrow> sv' = sv \<and>
     (\<exists>p \<in> set ps. pt_delta p \<noteq> 0 \<and> n = \<bar>pt_delta p\<bar> \<and> map_of signals (pt_symbol p) = Some al \<and>
        (\<exists>mark cash. rq = target_request mark ca cash p))"
| "target_op sv ca signals ps x \<longleftrightarrow> False"

lemma target_op_mono: "target_op sv ca signals ps x \<Longrightarrow> set ps \<subseteq> set qs \<Longrightarrow> target_op sv ca signals qs x"
  by (cases x) auto

lemma submits_run:
  "\<exists>xs. list_all (target_op sv ca signals ps) xs \<and> snd (submit_targets sv mark ca signals cash ps r s) = run_boundary xs s"
proof (induction ps arbitrary: cash r s)
  case Nil
  show ?case by (intro exI [of _ "[]"]) simp
next
  case (Cons p ps)
  have wider: "list_all (target_op sv ca signals ps) xs \<Longrightarrow> list_all (target_op sv ca signals (p # ps)) xs" for xs
    by (erule list.pred_mono_strong) (auto intro: target_op_mono)
  have skip: ?case if "\<exists>r'. submit_targets sv mark ca signals cash (p # ps) r s = submit_targets sv mark ca signals cash ps r' s"
    using that Cons.IH wider by metis
  show ?case
  proof (cases "pt_delta p = 0 \<or> map_of signals (pt_symbol p) = None")
    case True
    then show ?thesis by (intro skip) auto
  next
    case False
    then obtain al where al: "pt_delta p \<noteq> 0" "map_of signals (pt_symbol p) = Some al" by auto
    obtain x s' where x: "submit_signal sv al \<bar>pt_delta p\<bar> (target_request mark ca cash p) s = (x, s')" by fastforce
    obtain xs where xs: "list_all (target_op sv ca signals ps) xs"
      "snd (submit_targets sv mark ca signals (if submitted x then fmax (Fin 0) (cash - fint \<bar>pt_delta p\<bar> * pt_price p) else cash)
         ps (note_attempt p x r) s') = run_boundary xs s'" using Cons.IH by metis
    show ?thesis
    proof (intro exI [of _ "Enter sv al \<bar>pt_delta p\<bar> (target_request mark ca cash p) # xs"] conjI)
      show "list_all (target_op sv ca signals (p # ps)) (Enter sv al \<bar>pt_delta p\<bar> (target_request mark ca cash p) # xs)"
        using wider [OF xs(1)] al by auto
      show "snd (submit_targets sv mark ca signals cash (p # ps) r s) =
          run_boundary (Enter sv al \<bar>pt_delta p\<bar> (target_request mark ca cash p) # xs) s"
        using al x xs(2) by simp
    qed
  qed
qed

lemma by_symbol_SomeD: "map_of (by_symbol pairs) k = Some al \<Longrightarrow> al_symbol al = k \<and> al \<in> snd ` set pairs"
  by (auto simp: by_symbol_def map_of_dict dest!: map_of_SomeD) (force simp: image_iff)

text \<open>The orders a cycle may submit: through its own service, for a signal its strategies produced from the market data, in the
  size of the change the engine wants of that symbol. On a sane book a change upwards is backed by a usable
  signal and within the limits of the name.\<close>

fun cycle_op ::
  "numpy \<Rightarrow> pandas \<Rightarrow> ('b, 'w) service \<Rightarrow> 'f pipeline \<Rightarrow> cycle_args \<Rightarrow> ('b, 'w) boundary_op \<Rightarrow> bool" where
  "cycle_op np pd sv pl ca (Enter sv' al n rq) \<longleftrightarrow> sv' = sv \<and> \<not> ca_dry_run ca \<and>
     (\<exists>data ai t p. pl_fetch pl = Inr data \<and> ai = build_allocation_inputs pd ca data (fst (cycle_signals pl data)) \<and>
        allocate_portfolio np ai = Inr t \<and> p \<in> set (tp_positions t) \<and> al \<in> snd ` set (fst (cycle_signals pl data)) \<and>
        al_symbol al = pt_symbol p \<and> n = \<bar>pt_delta p\<bar> \<and> 0 < n \<and> rq_price rq = pt_price p \<and>
        (sane_inputs ai \<and> pt_current p < pt_quantity p \<longrightarrow>
           (\<exists>s \<in> set (ai_signals ai). drop_reason ai s = None \<and> si_symbol s = al_symbol al \<and> within_caps ai s (pt_value p))))"
| "cycle_op np pd sv pl ca x \<longleftrightarrow> False"

lemma cycle_runs:
  shows "\<exists>xs. list_all (cycle_op np pd sv pl ca) xs \<and> snd (run_allocated_cycle np pd mark sv pl ca s) = run_boundary xs s"
proof -
  have idle: ?thesis if "snd (run_allocated_cycle np pd mark sv pl ca s) = s"
    using that by (intro exI [of _ "[]"]) simp
  show ?thesis
  proof (cases "\<exists>data t. pl_fetch pl = Inr data \<and> pl_universe pl \<noteq> [] \<and> data \<noteq> [] \<and> \<not> ca_dry_run ca \<and> \<not> tp_no_trade t \<and>
      allocate_portfolio np (build_allocation_inputs pd ca data (fst (cycle_signals pl data))) = Inr t")
    case False
    then show ?thesis
      by (intro idle) (auto simp: run_allocated_cycle_def Let_def split: sum.split prod.split)
  next
    case True
    then obtain data t where d: "pl_fetch pl = Inr data" "pl_universe pl \<noteq> []" "data \<noteq> []" "\<not> ca_dry_run ca" "\<not> tp_no_trade t"
      and t: "allocate_portfolio np (build_allocation_inputs pd ca data (fst (cycle_signals pl data))) = Inr t" by blast
    obtain pairs errors where pe: "cycle_signals pl data = (pairs, errors)" by fastforce
    define ai where "ai = build_allocation_inputs pd ca data pairs"
    obtain xs where xs: "list_all (target_op sv ca (by_symbol pairs) (tp_positions t)) xs"
      "snd (submit_targets sv (mark ai) ca (by_symbol pairs) (ca_cash ca) (tp_positions t)
         (new_result\<lparr>cy_target := Some t, cy_errors := errors\<rparr>) s) = run_boundary xs s"
      using submits_run by blast
    have "cycle_op np pd sv pl ca x" if op: "target_op sv ca (by_symbol pairs) (tp_positions t) x" for x
    proof (cases x)
      case (Enter sv' al n rq)
      obtain p m cash where p: "p \<in> set (tp_positions t)" "pt_delta p \<noteq> 0" "n = \<bar>pt_delta p\<bar>"
        "map_of (by_symbol pairs) (pt_symbol p) = Some al" "rq = target_request m ca cash p" "sv' = sv"
        using op Enter by auto
      have al: "al_symbol al = pt_symbol p" "al \<in> snd ` set pairs" using by_symbol_SomeD [OF p(4)] by simp_all
      have "sane_inputs ai \<and> pt_current p < pt_quantity p \<longrightarrow>
        (\<exists>s \<in> set (ai_signals ai). drop_reason ai s = None \<and> si_symbol s = al_symbol al \<and> within_caps ai s (pt_value p))"
        using allocated_backed [OF t, of p] p(1) al(1) pe unfolding ai_def by fastforce
      then show ?thesis using p al d(1,4) t pe
        unfolding ai_def Enter cycle_op.simps
        by (intro conjI exI [of _ data] exI [of _ "build_allocation_inputs pd ca data pairs"] exI [of _ t] exI [of _ p])
          (simp_all add: target_request_def)
    qed (use op in simp_all)
    then have "list_all (cycle_op np pd sv pl ca) xs" using xs(1) by (simp add: list_all_iff)
    moreover have "snd (run_allocated_cycle np pd mark sv pl ca s) = run_boundary xs s"
      using d t pe xs(2) by (auto simp: run_allocated_cycle_def Let_def ai_def split: prod.split)
    ultimately show ?thesis by blast
  qed
qed

section \<open>The side of an order\<close>

definition sent_of :: "'b boundary \<Rightarrow> sent list" where
  "sent_of s = w_sent (bd_world s)"

definition follows :: "alpha \<Rightarrow> int \<Rightarrow> sent list \<Rightarrow> sent list \<Rightarrow> bool" where
  "follows al n l l' \<longleftrightarrow> l' = l \<or> (\<exists>req rec. l' = l @ [Placed req rec] \<and> pl_symbol req = al_symbol al \<and> pl_qty req = n \<and>
     pl_txn req = (if al_direction al = LONG then BUY else SELL))"

lemma follows_same [simp]: "follows al n l l"
  by (simp add: follows_def)

lemma sent_conclude [simp]: "sent_of (snd (conclude x bid reason rec s)) = sent_of s"
  by (simp add: sent_of_def)

lemma sent_persist [simp]: "sent_of (persist_block sv row st txt s) = sent_of s"
  by (simp add: sent_of_def persist_block_def split: option.split)

lemma sent_refuse [simp]: "sent_of (snd (refuse context q rec s)) = sent_of s"
  by (simp add: sent_of_def)

lemma sent_failed [simp]: "sent_of (snd (submission_failed sv row e rec s)) = sent_of s"
  by (simp add: submission_failed_def Let_def)

lemma sent_db [simp]: "sent_of (s\<lparr>bd_db := d\<rparr>) = sent_of s"
  by (simp add: sent_of_def)

lemma sent_declined [simp]: "sent_of (snd (declined sv row cid rec s)) = sent_of s"
proof -
  have "w_sent w = w_sent (bd_world s)" if "st_get cid (bd_world s) = (r, w)" for r w
    using that by (auto simp: st_get_def store_call_def split: list.splits outcome.splits)
  then have "sent_of (snd (lookup_decline_reason cid s)) = sent_of s"
    by (auto simp: lookup_decline_reason_def sent_of_def split: prod.split)
  then show ?thesis by (auto simp: declined_def Let_def split: prod.split)
qed

lemma sent_sent_order [simp]: "sent_of (snd (sent_order sv row oid rec s)) = sent_of s"
proof -
  have "sent_of (snd (record_fills sv n oid rec s)) = sent_of s" for n rec
    by (auto simp: record_fills_def sent_of_def Let_def split: prod.splits sum.splits)
  then show ?thesis
    by (auto simp: sent_order_def Let_def split: prod.splits option.splits if_splits) (metis snd_conv)+
qed

lemma call_follows:
  assumes "sg_symbol sg = al_symbol al" and "sg_txn sg = (if al_direction al = LONG then BUY else SELL)"
  shows "follows al n (sent_of s) (sent_of (snd (call_manager sv sg n rq row rec s)))"
proof -
  obtain r w where w: "submit_order (sv_om sv) sg n (rq_risk rq) (bd_world s) = (r, w)" by fastforce
  have "one_send (sv_om sv) sg n (rq_risk rq) (w_env (bd_world s)) (w_sent (bd_world s)) (w_sent w)"
    using submit_sends_once [of "w_env (bd_world s)" "w_sent (bd_world s)" "sv_om sv" sg n "rq_risk rq"] w
    by (auto simp: sends_by_iff idle_def)
  then have "follows al n (sent_of s) (sent_of (s\<lparr>bd_world := w\<rparr>))"
    using assms by (auto simp: one_send_def follows_def place_request_of_def sent_of_def)
  then show ?thesis by (simp add: call_manager_def w Let_def split: sum.split option.split)
qed

lemma submit_follows: "follows al n (sent_of s) (sent_of (snd (submit_signal sv al n rq s)))"
proof -
  have "follows al n (sent_of s) (sent_of (snd (submit_to_broker sv al n rq no_overrides rec s)))" for rec
  proof (cases "to_order_intent (om_sha256 (sv_om sv)) al n rq no_overrides rec")
    case (Pair i rec1)
    show ?thesis
    proof (cases i)
      case (Inl e)
      then show ?thesis by (simp add: submit_to_broker_def Pair)
    next
      case (Inr sg)
      have sg: "sg_symbol sg = al_symbol al" "sg_txn sg = (if al_direction al = LONG then BUY else SELL)"
        using Pair Inr by (auto simp: to_order_intent_def no_overrides_def Let_def split: sum.splits)
      obtain c d where c: "claim_idempotency_key (sv_num sv) sg n (bd_db s) = (c, d)" by fastforce
      have "follows al n (sent_of s) (sent_of (snd (call_manager sv sg n rq row rec1 (s\<lparr>bd_db := d\<rparr>))))" for row
        using call_follows [OF sg, of n "s\<lparr>bd_db := d\<rparr>"] by simp
      moreover have "follows al n (sent_of s) (sent_of (snd (call_manager sv sg n rq None rec1 s)))"
        by (rule call_follows [OF sg])
      ultimately show ?thesis
        by (simp add: submit_to_broker_def Pair Inr c Let_def split: sum.split)
    qed
  qed
  then show ?thesis by (simp add: submit_signal_def gated_def split: prod.split option.split)
qed

section \<open>The properties\<close>

text \<open>C21. A cycle acts on the order manager's world, the account tables and the journal only through entries at the execution
  boundary, of its own service: each for a signal its strategies produced from the market data, of the size of the change
  the engine wants of that symbol and at the engine's price. On a sane book a change upwards is backed by a usable signal and
  within the position, liquidity and Kelly limits. A dry run does nothing to them.\<close>

theorem cycle_trades_its_target:
  "\<exists>xs. list_all (cycle_op np pd sv pl ca) xs \<and> snd (run_allocated_cycle np pd mark sv pl ca s) = run_boundary xs s"
  by (rule cycle_runs)

text \<open>Cycles one after the other, each with its own service, pipeline and arguments; one that raises is followed by
  the next.\<close>

type_synonym ('b, 'w, 'f) cycle = "numpy \<times> pandas \<times> (inputs \<Rightarrow> string) \<times> ('b, 'w) service \<times> 'f pipeline \<times> cycle_args"

fun run_cycles :: "('b, 'w, 'f) cycle list \<Rightarrow> 'b boundary \<Rightarrow> 'b boundary" where
  "run_cycles [] s = s"
| "run_cycles ((np, pd, mark, sv, pl, ca) # cs) s = run_cycles cs (snd (run_allocated_cycle np pd mark sv pl ca s))"

lemma cycles_ok:
  "boundary_ok s \<Longrightarrow> \<forall>(np, pd, mark, sv, pl, ca) \<in> set cs. sv_persistent sv \<Longrightarrow> boundary_ok (run_cycles cs s)"
proof (induction cs arbitrary: s)
  case (Cons c cs)
  obtain np pd mark sv pl ca where c: "c = (np, pd, mark, sv, pl, ca)" by (cases c)
  obtain xs where xs: "list_all (cycle_op np pd sv pl ca) xs" "snd (run_allocated_cycle np pd mark sv pl ca s) = run_boundary xs s"
    using cycle_runs by blast
  have op: "cycle_op np pd sv pl ca x \<Longrightarrow> persistent_op x" for x
    using Cons.prems(2) c by (cases x) auto
  have "list_all persistent_op xs" using list.pred_mono_strong [OF xs(1)] op by blast
  then have "boundary_ok (run_boundary xs s)" using ok_run Cons.prems(1) by blast
  then show ?case using Cons c xs(2) by simp
qed simp

text \<open>C22. Over any sequence of allocated cycles with persistence, whatever the strategies signal, the engine computes and the
  store, the database or the broker fail at: no client order id is sent twice, and every id sent is claimed in the account
  tables and known to the order store.\<close>

theorem cycles_never_send_twice:
  assumes "boundary_ok s" and "\<forall>(np, pd, mark, sv, pl, ca) \<in> set cs. sv_persistent sv"
  shows "distinct (placed_tags (bd_world (run_cycles cs s))) \<and>
    set (placed_tags (bd_world (run_cycles cs s))) \<subseteq>
      claimed_keys (db_rows (bd_db (run_cycles cs s))) \<inter> known (bd_world (run_cycles cs s))"
  using cycles_ok [OF assms] by (simp add: boundary_ok_def sends_ok_def)

lemma call_sent:
  "sent_of (snd (call_manager sv sg n rq row rec s)) = w_sent (snd (submit_order (sv_om sv) sg n (rq_risk rq) (bd_world s)))"
proof -
  obtain r w where w: "submit_order (sv_om sv) sg n (rq_risk rq) (bd_world s) = (r, w)" by fastforce
  have "sent_of (s\<lparr>bd_world := w\<rparr>) = w_sent w" by (simp add: sent_of_def)
  then show ?thesis by (simp add: call_manager_def w Let_def split: sum.split option.split)
qed

lemma sendable_sent:
  assumes "sendable sv al n rq sg s" and "works 5 (bd_world s)"
  shows "\<exists>r. sent_of (snd (submit_signal sv al n rq s)) =
    sent_of s @ [Placed (place_request_of sg n (trigger_of sg)) (Some r)]"
proof -
  obtain row rec d where "submit_signal sv al n rq s = call_manager sv sg n rq row rec (s\<lparr>bd_db := d\<rparr>)"
    using sendable_reaches_manager [OF assms(1)] by blast
  then have "sent_of (snd (submit_signal sv al n rq s)) = w_sent (snd (submit_order (sv_om sv) sg n (rq_risk rq) (bd_world s)))"
    by (simp add: call_sent)
  then show ?thesis
    using submit_sends [of "sv_om sv" sg n "rq_risk rq" "bd_world s"] assms
    by (auto simp: sendable_def sent_of_def [of s])
qed

text \<open>C23. The side of an order comes from the direction of the signal, never from the sign of the change. Take a holding
  that still has a LONG signal and that the engine wants to shrink, by a cap, the turnover limit or the cash floor. When nothing stands
  in the way of the order the cycle makes of it (the gates of the boundary and of the order manager are open, its id is new, no
  order of the symbol is unresolved, and the store works), the cycle does send an order: a purchase of the symbol, of as many
  shares as should be sold.\<close>

theorem shrinking_target_is_bought:
  assumes "map_of signals (pt_symbol p) = Some al" and "al_direction al = LONG" and "pt_delta p < 0"
    and "sendable sv al (- pt_delta p) (target_request mark ca cash p) sg s" and "works 5 (bd_world s)"
  shows "\<exists>req rec. w_sent (bd_world (snd (submit_targets sv mark ca signals cash [p] r s))) =
      w_sent (bd_world s) @ [Placed req rec] \<and>
    pl_txn req = BUY \<and> pl_symbol req = al_symbol al \<and> pl_qty req = - pt_delta p"
proof -
  have run: "snd (submit_targets sv mark ca signals cash [p] r s) =
      snd (submit_signal sv al (- pt_delta p) (target_request mark ca cash p) s)"
    using assms(1,3) by (simp split: prod.split)
  have "fst (to_order_intent (om_sha256 (sv_om sv)) al (- pt_delta p) (target_request mark ca cash p) no_overrides
      (signal_record sv al (- pt_delta p) (target_request mark ca cash p))) = Inr sg"
    using assms(4) by (simp add: sendable_def)
  then have "sg_txn sg = BUY" "sg_symbol sg = al_symbol al"
    using assms(2) by (auto simp: to_order_intent_def no_overrides_def Let_def split: sum.splits)
  then show ?thesis
    unfolding run using sendable_sent [OF assms(4,5)] by (auto simp: sent_of_def place_request_of_def)
qed

section \<open>Concrete cycles\<close>

definition plain_pandas :: pandas where
  "plain_pandas = \<lparr>pd_returns = (\<lambda>xs. xs), pd_std = (\<lambda>_. fl (1 / 100)), pd_median = (\<lambda>_. Fin (10 ^ 9)), pd_corr = (\<lambda>_. (0, []))\<rparr>"

definition one_pipeline :: "unit pipeline" where
  "one_pipeline = \<lparr>pl_universe = [''INFY''], pl_fetch = Inr [(''INFY'', \<lparr>hi_close = Some (replicate 63 (Fin 1500)),
       hi_volume = Some (replicate 63 (Fin 100000))\<rparr>)], pl_builder = None, pl_plain = (\<lambda>_. ()),
     pl_strategies = [\<lparr>pn_name = ''swing'', pn_class = ''SwingStrategy'', pn_signals = (\<lambda>_ _ _. Inr [demo_alpha])\<rparr>]\<rparr>"

definition one_cycle :: cycle_args where
  "one_cycle = \<lparr>ca_capital = Fin 1000000, ca_cash = Fin 700000, ca_positions = [], ca_health = [], ca_drawdown = Fin 0,
     ca_pnl = Fin 0, ca_kill = False, ca_permitted = True, ca_limits = None, ca_sectors = [], ca_dry_run = False\<rparr>"

theorem cycles_never_send_twice_witness:
  "distinct (placed_tags (bd_world (run_cycles (replicate 2 (plain_numpy, plain_pandas, \<lambda>_. ''f1'', demo_service, one_pipeline, one_cycle))
     (demo_boundary [Works, Lost]))))"
  using cycles_never_send_twice [of "demo_boundary [Works, Lost]"
      "replicate 2 (plain_numpy, plain_pandas, \<lambda>_. ''f1'', demo_service, one_pipeline, one_cycle)"]
  by (simp add: demo_ok demo_service_def del: run_cycles.simps)

text \<open>Three hundred shares are held where the position limit allows two hundred and ninety.\<close>

definition too_large :: position_target where
  "too_large = \<lparr>pt_symbol = ''INFY'', pt_strategy = ''swing'', pt_sector = ''UNKNOWN'', pt_weight = Fin 0, pt_value = Fin 435000,
     pt_quantity = 290, pt_current = 300, pt_delta = - 10, pt_price = Fin 1500, pt_vol = None, pt_risk = None, pt_constraints = []\<rparr>"

definition shrink_intent :: signal where
  "shrink_intent = (case fst (to_order_intent id demo_alpha 10 (target_request ''f1'' one_cycle (Fin 700000) too_large) no_overrides
     (signal_record demo_service demo_alpha 10 (target_request ''f1'' one_cycle (Fin 700000) too_large))) of Inr sg \<Rightarrow> sg | Inl _ \<Rightarrow> demo_intent)"

lemma shrink_sendable:
  "sendable demo_service demo_alpha 10 (target_request ''f1'' one_cycle (Fin 700000) too_large) shrink_intent (demo_boundary [])"
  by code_simp

theorem shrinking_target_is_bought_witness:
  "\<exists>req rec. w_sent (bd_world (snd (submit_targets demo_service ''f1'' one_cycle [(''INFY'', demo_alpha)] (Fin 700000) [too_large]
       new_result (demo_boundary [])))) = [Placed req rec] \<and> pl_txn req = BUY \<and> pl_symbol req = ''INFY'' \<and> pl_qty req = 10"
proof -
  have "map_of [(''INFY'', demo_alpha)] (pt_symbol too_large) = Some demo_alpha" "al_direction demo_alpha = LONG"
    "al_symbol demo_alpha = ''INFY''" "pt_delta too_large = - 10"
    by (simp_all add: too_large_def demo_alpha_def)
  moreover have "works 5 (bd_world (demo_boundary []))" "w_sent (bd_world (demo_boundary [])) = []"
    by (simp_all add: works_def demo_boundary_def fresh_world_def)
  ultimately show ?thesis
    using shrinking_target_is_bought [of "[(''INFY'', demo_alpha)]" too_large demo_alpha demo_service "''f1''" one_cycle "Fin 700000"
        shrink_intent "demo_boundary []" new_result] shrink_sendable
    by (simp del: submit_targets.simps)
qed

end
