(* ===== verification/Spec2Isabelle.thy ===== *)
theory Spec2Isabelle
  imports Order_Paths Paper_Claims Risk_Limits Risk_Engine Startup_Claims Ledger_Claims Eligibility_Claims Service_Claims
    Allocator_Claims Strategy_Claims Trader_Claims Portfolio_Claims Allocated_Claims
begin

text \<open>
  A verification library for the order path of AlgoDollar (\<open>src/backend/app\<close>).

  \<^bold>\<open>The program.\<close> A trading platform: strategies produce signals, the risk code sizes and
  approves them, the order manager turns a signal into one broker order with a durable record, and
  a broker (paper or live) executes it. Modelled here is the part where a defect costs money: the
  order life cycle and its stores, the safety gates, the kill switch, the order manager, the risk
  limits, the cost models, the paper broker, the reconciliation that gates every start, the execution boundary, and
  above it the capital allocator, the portfolio engine and the intraday trader.

  \<^bold>\<open>Theories and sources.\<close>
  \<^item> \<open>Prelude\<close>: exceptions, results, effects (state transformers that may raise), a small Hoare logic.
  \<^item> \<open>Py_Float\<close>: IEEE binary64 arithmetic over rationals, as Python's \<open>float\<close>; \<open>Py_Time\<close>: \<open>datetime\<close>,
    the calendar and the IST session of \<open>broker/paper.py\<close>.
  \<^item> \<open>Lifecycle\<close>: \<open>execution/lifecycle.py\<close>: states, transition graph, \<open>OrderRecord\<close>, ids, durable form.
  \<^item> \<open>Order_Store\<close>: the in-memory, Redis and file stores (\<open>lifecycle.py\<close>, \<open>file_stores.py\<close>); the
    locales \<open>claim_store\<close> and \<open>durable_claim_store\<close> state what the order manager relies on and are
    interpreted on all of them.
  \<^item> \<open>Broker_Iface\<close>: \<open>broker/base.py\<close>; \<open>Kill_Switch\<close> and \<open>Safety\<close>: \<open>execution/safety.py\<close> with the
    file-backed switch; \<open>Safety\<close> also shows that the validator passes an order exactly when every gate is met;
    \<open>Costs\<close>: both cost models.
  \<^item> \<open>Order_Manager\<close>: \<open>execution/order_manager.py\<close>, every operation, over a world of a durable store
    whose calls may fail or lose their answer and of an arbitrary broker. \<open>Order_Safety\<close> has the
    properties over all sequences of its operations (a broker is \<open>honest\<close> when it reports no negative fill),
    \<open>Order_Paths\<close> those of each operation, and when a submission goes through (\<open>gates_passed\<close>, \<open>unblocked\<close>).
  \<^item> \<open>Risk_Limits\<close>, \<open>Risk_Engine\<close>: \<open>risk/limits.py\<close> and the decisions of \<open>risk/engine.py\<close>.
  \<^item> \<open>Paper_Book\<close>, \<open>Paper_State\<close>, \<open>Paper_Broker\<close>: \<open>broker/paper.py\<close>, with the persisted form of the book as a JSON
    value (\<open>asdict\<close>, sorted keys, the constructors on the way back); \<open>Paper_Proofs\<close> carries the accounting invariant
    through every operation and \<open>Paper_Claims\<close> has the properties.
  \<^item> \<open>Py_Value\<close>: dictionaries of Python values as brokers return them, truth values, \<open>str\<close>, \<open>int\<close> and \<open>float\<close>.
  \<^item> \<open>Reconcile\<close>: \<open>execution/reconciliation.py\<close>: both sides fetched and compared. \<open>Reconcile_Proofs\<close> states
    when two sides agree (\<open>agree\<close>), independently of the comparison code, and shows that no finding means
    agreement; \<open>Reconcile_Claims\<close> has the properties, what is skipped by the comparison included.
  \<^item> \<open>Startup\<close>: \<open>execution/recovery.py\<close>; \<open>Startup_Claims\<close>: its state machine over all sequences of recoveries.
  \<^item> \<open>Ledger\<close>: \<open>execution/persistence.py\<close> over the tables of \<open>database/models.py\<close>; \<open>Ledger_Claims\<close> refines its
    operations to a step relation on the tables and has the properties over all sequences of them.
  \<^item> \<open>Eligibility\<close>, \<open>Eligibility_Report\<close>, \<open>Eligibility_Evidence\<close>: \<open>governance/eligibility.py\<close>: the checks of the
    thirty-one gates, the report and its enforcement, the evidence read from the repository.
    \<open>Eligibility_Proofs\<close> reads each gate as a condition on the evidence; \<open>Eligibility_Claims\<close> has the properties.
  \<^item> \<open>Audit_Log\<close>: \<open>execution/audit.py\<close>; \<open>Service\<close>: \<open>execution/service.py\<close>, the boundary every order passes, over the
    order manager's world, the account tables and the sinks of the journal; \<open>Service_Claims\<close> has the properties
    over all sequences of its operations. A signal that nothing stands in the way of is \<open>sendable\<close>.
  \<^item> \<open>Allocator\<close>: \<open>portfolio/allocator.py\<close> and the regime table of \<open>risk/regime.py\<close>, in double arithmetic;
    \<open>Float_Bounds\<close> bounds the rounding errors and \<open>Allocator_Claims\<close> shows that the verification of an
    allocation cannot fail on sensible inputs.
  \<^item> \<open>Strategy\<close>: \<open>strategies/base.py\<close>; \<open>Strategy_Claims\<close>: its health over all sequences of updates. \<open>Trader\<close>:
    \<open>engine/trader.py\<close> and \<open>engine/monitor.py\<close> over the execution boundary; \<open>Trader_Claims\<close> refines a pass to a run of the
    boundary and states where a position is left without protection.
  \<^item> \<open>Portfolio_Engine\<close>: \<open>portfolio/allocation.py\<close> and \<open>portfolio/engine.py\<close>, from signals and the held book to target
    positions; the sums and products of NumPy are a parameter. \<open>Portfolio_Claims\<close> carries the limits of a name through
    sizing, turnover limit and cash floor. \<open>Allocated_Cycle\<close>: \<open>engine/allocated_cycle.py\<close>, from market data to
    orders at the boundary; \<open>Allocated_Claims\<close> refines a cycle to a run of the boundary over the target of the engine.

  \<^bold>\<open>Conventions.\<close> A Python exception is a value of \<open>exn\<close> and every operation returns a result or
  raises it with the state as it was at the raise. Unbounded Python integers are \<open>int\<close>. Code outside the
  repository (the live exchange, Redis, the file system, SHA-1, SHA-256, the text of JSON, the clock, \<open>uuid4\<close>) is an argument.
  An entry of a list from outside that is not a dictionary is \<open>None\<close>.

  \<^bold>\<open>Termination and fuel.\<close> The recursive loops end by a measure. The one loop bounded by wall-clock
  time, \<open>monitor_order\<close>, takes the number of polls the deadline leaves time for; every such number is covered.

  \<^bold>\<open>Limits of the model.\<close> The order manager's store does not expire records within a run (\<open>Order_Store\<close> has the expiry of
  the Redis keys on its own); the file store keeps a record as its dictionary, not as the text of it; money of the paper
  broker stays below \<open>2 ^ 1024\<close> paise; readers of persisted data refuse a value of another type than declared, where
  the untyped code would carry it along.

  \<^bold>\<open>Not modelled.\<close> Log output; concurrency inside one process beyond the order of store and broker
  calls; the pandas, NumPy and scikit-learn code of the data, research, model, strategy and backtesting packages, the
  optimizer and the rebalancer; the daily pipeline and the assembly of the components (\<open>bootstrap\<close>, \<open>runtime\<close>); HTTP
  routes and database declarations; the live Kite adapter.
\<close>

end
